(* ===== verification/Prelude.thy ===== *)
theory Prelude
  imports Main "HOL-Library.Sublist"
begin

text \<open>
  Shared vocabulary of the development: Python exceptions as values, the error monad
  \<open>exc + 'a\<close> with the law bundles the component proofs use, the state-and-error monad for
  code that acts on a world, and the generic list lemmas.

  A Python function that may raise is a function into \<open>exc + 'a\<close>: \<open>Inl\<close> is a raised
  exception, \<open>Inr\<close> a normal return. An exception value is its class and its message text,
  so a theorem can say which of several guards fired.
\<close>

section \<open>Collections of facts\<close>

named_theorems res_simps \<open>evaluation and inversion of the error monad\<close>
named_theorems raises \<open>which exception classes a computation may raise\<close>
named_theorems world_simps \<open>evaluation of the state-and-error monad\<close>

section \<open>Exceptions\<close>

datatype exc_class =
    OSError | TypeError | RuntimeError | RecursionError | KeyError | AttributeError | OverflowError
  | ValueError | JSONDecodeError | UnicodeDecodeError
  | RequestError | GateEvidenceError | CheckoutError | SyncError | DeliveryLockError
  | DeliveryExecutorError | DeliveryPlanError | CiAdapterError | ManualAdapterError
  | DeliveryManifestError | RollbackError
  | RemediationLifecycleError | RemediationWindowError
  | TrivyReportError | AggregateError | BaselineError | AggregateExceptionSetError
  | CandidateExceptionError | ContractError | RemediationError | EvidenceError | PolicyError
  | EnvFileError | CompatibilityError | ValidationError | RebuildError | CacheError | BadgeError
  | SastError | ProbeError | MetadataError | DeployError | ProjectError | AuditError | LintError
  | CollectionError | VerificationError | IndexError | AuthorizationError
  | ProtectedReleaseError | DigestVerificationError | PushError | MetadataRequestError
  | ProbeContractError

datatype exc = Exc (exc_cls: exc_class) (exc_msg: string)

text \<open>
  The class hierarchy the \<open>except\<close> clauses rely on: the error classes the repository
  defines derive from \<open>ValueError\<close>, as \<open>json.JSONDecodeError\<close> and \<open>UnicodeDecodeError\<close> do,
  but for those that derive from \<open>RuntimeError\<close>, as \<open>RecursionError\<close> does, and \<open>AuthorizationError\<close>; the remaining
  builtins are unrelated to each other here.
\<close>

definition is_runtime_error :: "exc_class \<Rightarrow> bool" where
  "is_runtime_error c \<longleftrightarrow>
     c \<in> {RuntimeError, RecursionError, ProtectedReleaseError, DigestVerificationError, PushError,
          MetadataRequestError, ProbeContractError}"

definition is_value_error :: "exc_class \<Rightarrow> bool" where
  "is_value_error c \<longleftrightarrow>
     c \<notin> {OSError, TypeError, KeyError, AttributeError, OverflowError, IndexError, AuthorizationError}
     \<and> \<not> is_runtime_error c"

definition issubclass :: "exc_class \<Rightarrow> exc_class \<Rightarrow> bool" where
  "issubclass c d \<longleftrightarrow> c = d \<or> (d = ValueError \<and> is_value_error c)
     \<or> (d = RuntimeError \<and> is_runtime_error c)"

definition catches :: "exc_class list \<Rightarrow> exc \<Rightarrow> bool" where
  "catches cs e \<longleftrightarrow> list_ex (issubclass (exc_cls e)) cs"

type_synonym 'a result = "exc + 'a"

section \<open>The error monad\<close>

definition bindE :: "'e + 'a \<Rightarrow> ('a \<Rightarrow> 'e + 'b) \<Rightarrow> 'e + 'b" where
  "bindE m k = (case m of Inl e \<Rightarrow> Inl e | Inr x \<Rightarrow> k x)"

text \<open>\<open>guardE ok e k\<close>: raise \<open>e\<close> unless \<open>ok\<close>, then go on with \<open>k\<close>.\<close>

definition guardE :: "bool \<Rightarrow> 'e \<Rightarrow> 'e + 'a \<Rightarrow> 'e + 'a" where
  "guardE ok e k = (if ok then k else Inl e)"

text \<open>\<open>try: m  except cs as exc: raise e from exc\<close>\<close>

definition except_raise :: "'a result \<Rightarrow> exc_class list \<Rightarrow> exc \<Rightarrow> 'a result" where
  "except_raise m cs e =
     (case m of Inl x \<Rightarrow> if catches cs x then Inl e else Inl x | Inr y \<Rightarrow> Inr y)"

fun mapE :: "('a \<Rightarrow> 'e + 'b) \<Rightarrow> 'a list \<Rightarrow> 'e + 'b list" where
  "mapE f [] = Inr []"
| "mapE f (x # xs) = bindE (f x) (\<lambda>y. bindE (mapE f xs) (\<lambda>ys. Inr (y # ys)))"

lemma bindE_Inl [simp, res_simps]: "bindE (Inl e) k = Inl e"
  by (simp add: bindE_def)

lemma bindE_Inr [simp, res_simps]: "bindE (Inr x) k = k x"
  by (simp add: bindE_def)

lemma bindE_eq_Inr [res_simps]: "bindE m k = Inr y \<longleftrightarrow> (\<exists>x. m = Inr x \<and> k x = Inr y)"
  by (cases m) auto

lemma bindE_eq_Inl:
  "bindE m k = Inl e \<longleftrightarrow> m = Inl e \<or> (\<exists>x. m = Inr x \<and> k x = Inl e)"
  by (cases m) auto

lemma bindE_cong [fundef_cong]:
  assumes "m = m'" and "\<And>x. m' = Inr x \<Longrightarrow> k x = k' x"
  shows "bindE m k = bindE m' k'"
  using assms by (cases m') auto

lemma guardE_True [simp, res_simps]: "guardE True e k = k"
  by (simp add: guardE_def)

lemma guardE_False [simp, res_simps]: "guardE False e k = Inl e"
  by (simp add: guardE_def)

lemma guardE_eq_Inr [res_simps]: "guardE b e k = Inr y \<longleftrightarrow> b \<and> k = Inr y"
  by (simp add: guardE_def)

lemma guardE_eq_Inl: "guardE b e k = Inl e' \<longleftrightarrow> (\<not> b \<and> e = e') \<or> (b \<and> k = Inl e')"
  by (simp add: guardE_def)

lemma guardE_cong [fundef_cong]:
  assumes "b = b'" and "b' \<Longrightarrow> k = k'"
  shows "guardE b e k = guardE b' e k'"
  using assms by (simp add: guardE_def)

lemma except_raise_Inr [simp, res_simps]: "except_raise (Inr x) cs e = Inr x"
  by (simp add: except_raise_def)

lemma except_raise_eq_Inr [res_simps]: "except_raise m cs e = Inr y \<longleftrightarrow> m = Inr y"
  by (cases m) (simp_all add: except_raise_def)

lemma except_raise_Inl: "except_raise (Inl x) cs e = Inl (if catches cs x then e else x)"
  by (simp add: except_raise_def)

lemma mapE_eq_Inr_iff: "mapE f xs = Inr ys \<longleftrightarrow> list_all2 (\<lambda>x y. f x = Inr y) xs ys"
  by (induction xs arbitrary: ys) (auto simp: bindE_eq_Inr list_all2_Cons1)

lemma mapE_length: "mapE f xs = Inr ys \<Longrightarrow> length ys = length xs"
  by (auto simp: mapE_eq_Inr_iff dest: list_all2_lengthD)

lemma mapE_Inr_self: "(\<And>x. x \<in> set xs \<Longrightarrow> f x = Inr x) \<Longrightarrow> mapE f xs = Inr xs"
  by (induction xs) auto

lemma mapE_fixed: "mapE f xs = Inr ys \<Longrightarrow> (\<And>x y. f x = Inr y \<Longrightarrow> y = x) \<Longrightarrow> ys = xs"
  by (induction xs arbitrary: ys) (auto simp: bindE_eq_Inr)

text \<open>\<open>raises_only c m\<close>: if \<open>m\<close> raises, then an exception of class \<open>c\<close>.\<close>

definition raises_only :: "exc_class \<Rightarrow> 'a result \<Rightarrow> bool" where
  "raises_only c m \<longleftrightarrow> (\<forall>e. m = Inl e \<longrightarrow> exc_cls e = c)"

lemma raises_onlyD: "raises_only c m \<Longrightarrow> m = Inl e \<Longrightarrow> exc_cls e = c"
  by (simp add: raises_only_def)

lemma raises_Inr [raises]: "raises_only c (Inr x)"
  by (simp add: raises_only_def)

lemma raises_Inl [raises]: "exc_cls e = c \<Longrightarrow> raises_only c (Inl e)"
  by (simp add: raises_only_def)

lemma raises_guardE [raises]:
  "exc_cls e = c \<Longrightarrow> (b \<Longrightarrow> raises_only c k) \<Longrightarrow> raises_only c (guardE b e k)"
  by (simp add: raises_only_def guardE_eq_Inl)

lemma raises_bindE [raises]:
  "raises_only c m \<Longrightarrow> (\<And>x. raises_only c (k x)) \<Longrightarrow> raises_only c (bindE m k)"
  by (auto simp: raises_only_def bindE_eq_Inl)

lemma raises_if [raises]: "raises_only c a \<Longrightarrow> raises_only c b \<Longrightarrow> raises_only c (if p then a else b)"
  by simp

lemma raises_prod [raises]:
  "(\<And>x y. raises_only c (f x y)) \<Longrightarrow> raises_only c (case p of (x, y) \<Rightarrow> f x y)"
  by (simp split: prod.split)

lemma raises_Let [raises]: "raises_only c (f x) \<Longrightarrow> raises_only c (let y = x in f y)"
  by (simp add: Let_def)

section \<open>The state-and-error monad\<close>

text \<open>
  Code that touches the file system, the clock or a lock is a function from the world to a
  result and the next world. A raised exception keeps the effects made before it.
\<close>

type_synonym ('w, 'a) action = "'w \<Rightarrow> 'a result \<times> 'w"

definition bindW :: "('w, 'a) action \<Rightarrow> ('a \<Rightarrow> ('w, 'b) action) \<Rightarrow> ('w, 'b) action" where
  "bindW m k w = (case m w of (Inl e, w') \<Rightarrow> (Inl e, w') | (Inr x, w') \<Rightarrow> k x w')"

definition liftW :: "'a result \<Rightarrow> ('w, 'a) action" where
  "liftW r w = (r, w)"

text \<open>\<open>try: m  except cs as exc: raise e from exc\<close> for an action\<close>

definition exceptW :: "('w, 'a) action \<Rightarrow> exc_class list \<Rightarrow> exc \<Rightarrow> ('w, 'a) action" where
  "exceptW m cs e w = (case m w of (r, w') \<Rightarrow> (except_raise r cs e, w'))"

text \<open>\<open>except K: raise; except Exception as exc: raise e from exc\<close>: every other error becomes \<open>e\<close>\<close>

definition except_other :: "('w, 'a) action \<Rightarrow> exc_class \<Rightarrow> exc \<Rightarrow> ('w, 'a) action" where
  "except_other m keep e w =
     (case m w of
        (Inr x, w') \<Rightarrow> (Inr x, w')
      | (Inl x, w') \<Rightarrow> (Inl (if exc_cls x = keep then x else e), w'))"

text \<open>\<open>try: m  finally: fin\<close> where the final step cannot raise\<close>

definition finallyW :: "('w, 'a) action \<Rightarrow> ('w \<Rightarrow> 'w) \<Rightarrow> ('w, 'a) action" where
  "finallyW m fin w = (case m w of (r, w') \<Rightarrow> (r, fin w'))"

lemma liftW_apply [simp, world_simps]: "liftW r w = (r, w)"
  by (simp add: liftW_def)

lemma bindW_Inr [world_simps]: "m w = (Inr x, w') \<Longrightarrow> bindW m k w = k x w'"
  by (simp add: bindW_def)

lemma bindW_Inl [world_simps]: "m w = (Inl e, w') \<Longrightarrow> bindW m k w = (Inl e, w')"
  by (simp add: bindW_def)

lemma bindW_liftW_Inr [simp, world_simps]: "bindW (liftW (Inr x)) k w = k x w"
  by (simp add: bindW_def)

lemma bindW_liftW_Inl [simp, world_simps]: "bindW (liftW (Inl e)) k w = (Inl e, w)"
  by (simp add: bindW_def)

lemma bindW_eq_Inr:
  "bindW m k w = (Inr y, w'') \<longleftrightarrow> (\<exists>x w'. m w = (Inr x, w') \<and> k x w' = (Inr y, w''))"
  by (auto simp: bindW_def split: prod.splits sum.splits)

lemma exceptW_eq_Inr [world_simps]:
  "exceptW m cs e w = (Inr y, w') \<longleftrightarrow> m w = (Inr y, w')"
  by (auto simp: exceptW_def except_raise_eq_Inr split: prod.splits)

lemma except_other_eq_Inr [world_simps]:
  "except_other m c e w = (Inr y, w') \<longleftrightarrow> m w = (Inr y, w')"
  by (auto simp: except_other_def split: prod.splits sum.splits)

lemma finallyW_eq:
  "finallyW m fin w = (r, w'') \<longleftrightarrow> (\<exists>w'. m w = (r, w') \<and> w'' = fin w')"
  by (auto simp: finallyW_def split: prod.splits)

section \<open>Dictionaries with insertion order\<close>

text \<open>
  A Python dict whose order matters is an association list in insertion order; storing a
  new key appends it, storing an existing one keeps its place.
\<close>

type_synonym 'v dict = "(string \<times> 'v) list"

fun dict_set :: "'k \<Rightarrow> 'v \<Rightarrow> ('k \<times> 'v) list \<Rightarrow> ('k \<times> 'v) list" where
  "dict_set k v [] = [(k, v)]"
| "dict_set k v ((k', v') # d) = (if k = k' then (k, v) # d else (k', v') # dict_set k v d)"

lemma map_of_dict_set: "map_of (dict_set k v d) = (map_of d)(k \<mapsto> v)"
  by (induction k v d rule: dict_set.induct) auto

lemma dict_set_new: "k \<notin> fst ` set d \<Longrightarrow> dict_set k v d = d @ [(k, v)]"
  by (induction k v d rule: dict_set.induct) auto

lemma keys_dict_set: "fst ` set (dict_set k v d) = insert k (fst ` set d)"
  by (induction k v d rule: dict_set.induct) auto

lemma distinct_dict_set:
  "distinct (map fst d) \<Longrightarrow> distinct (map fst (dict_set k v d))"
  by (induction k v d rule: dict_set.induct) (auto simp: keys_dict_set)

section \<open>Lists\<close>

lemma find_None_list_all: "List.find P xs = None \<longleftrightarrow> list_all (\<lambda>x. \<not> P x) xs"
  by (induction xs) auto

lemma find_SomeD: "List.find P xs = Some x \<Longrightarrow> x \<in> set xs \<and> P x"
  by (induction xs) (auto split: if_splits)

lemma strict_prefix_butlast: "xs \<noteq> [] \<Longrightarrow> strict_prefix (butlast xs) xs"
  by (metis append_butlast_last_id strict_prefixI')

lemma prefix_butlastD: "prefix p (butlast xs) \<Longrightarrow> prefix p xs"
  by (metis prefix_order.trans prefixeq_butlast)

end
