(* ===== verification/PyText.thy ===== *)
theory PyText
  imports Prelude "HOL-Library.Char_ord" "HOL-Library.List_Lexorder"
begin

text \<open>
  The \<open>str\<close> methods the sources use. A Python string is a list of code points; here it is
  a \<open>string\<close>, so its code points are those below 256 (Latin-1). Within that range
  \<open>isspace\<close>, \<open>strip\<close>, \<open>lower\<close> and \<open>splitlines\<close> are exact, \<open>length\<close> counts code points
  as \<open>len\<close> does, and string order is code-point order.
\<close>

section \<open>Characters\<close>

definition code :: "char \<Rightarrow> nat" where
  "code c = of_char c"

definition in_range :: "char \<Rightarrow> char \<Rightarrow> char \<Rightarrow> bool" where
  "in_range lo hi c \<longleftrightarrow> code lo \<le> code c \<and> code c \<le> code hi"

definition is_lower :: "char \<Rightarrow> bool" where "is_lower = in_range CHR ''a'' CHR ''z''"
definition is_upper :: "char \<Rightarrow> bool" where "is_upper = in_range CHR ''A'' CHR ''Z''"
definition is_digit :: "char \<Rightarrow> bool" where "is_digit = in_range CHR ''0'' CHR ''9''"

definition is_alnum :: "char \<Rightarrow> bool" where
  "is_alnum c \<longleftrightarrow> is_upper c \<or> is_lower c \<or> is_digit c"

definition py_isspace :: "char \<Rightarrow> bool" where
  "py_isspace c \<longleftrightarrow> code c \<in> {9, 10, 11, 12, 13, 28, 29, 30, 31, 32, 133, 160}"

definition LF :: char where "LF = CHR 0x0A"
definition CR :: char where "CR = CHR 0x0D"
definition backslash :: char where "backslash = CHR 0x5C"

text \<open>\<open>str.lower\<close> on one Latin-1 character: A-Z and U+00C0..U+00DE but U+00D7 move by 32.\<close>

definition lower_char :: "char \<Rightarrow> char" where
  "lower_char c =
     (if is_upper c \<or> (192 \<le> code c \<and> code c \<le> 222 \<and> code c \<noteq> 215)
      then char_of (code c + 32) else c)"

definition py_lower :: "string \<Rightarrow> string" where
  "py_lower s = map lower_char s"

section \<open>Stripping and affixes\<close>

text \<open>
  \<open>str.upper\<close>: the sharp s becomes \<open>SS\<close>; the upper-case forms of U+00B5 and U+00FF lie
  outside Latin-1 and are left alone, which no comparison with an ASCII word can notice.
\<close>

definition upper_char :: "char \<Rightarrow> string" where
  "upper_char c =
     (if code c = 223 then ''SS''
      else if is_lower c \<or> (224 \<le> code c \<and> code c \<le> 254 \<and> code c \<noteq> 247)
      then [char_of (code c - 32)] else [c])"

definition py_upper :: "string \<Rightarrow> string" where
  "py_upper s = concat (map upper_char s)"

definition py_lstrip :: "string \<Rightarrow> string" where
  "py_lstrip s = dropWhile py_isspace s"

definition py_rstrip :: "string \<Rightarrow> string" where
  "py_rstrip s = rev (dropWhile py_isspace (rev s))"

definition py_strip :: "string \<Rightarrow> string" where
  "py_strip s = py_rstrip (py_lstrip s)"

text \<open>\<open>s.startswith((p, q, ...))\<close> and \<open>s.endswith((p, q, ...))\<close>\<close>

definition starts_any :: "string list \<Rightarrow> string \<Rightarrow> bool" where
  "starts_any ps s \<longleftrightarrow> list_ex (\<lambda>p. prefix p s) ps"

definition ends_any :: "string list \<Rightarrow> string \<Rightarrow> bool" where
  "ends_any ps s \<longleftrightarrow> list_ex (\<lambda>p. suffix p s) ps"

text \<open>\<open>sub in s\<close>\<close>

definition contains :: "string \<Rightarrow> string \<Rightarrow> bool" where
  "contains sub s \<longleftrightarrow> sublist sub s"

definition has_char :: "char \<Rightarrow> string \<Rightarrow> bool" where
  "has_char c s \<longleftrightarrow> List.member s c"

section \<open>Splitting\<close>

text \<open>\<open>s.split(c)\<close> for a one-character separator: never empty, and joining gives \<open>s\<close> back.\<close>

fun split_char :: "char \<Rightarrow> string \<Rightarrow> string list" where
  "split_char c [] = [[]]"
| "split_char c (x # xs) =
     (if x = c then [] # split_char c xs
      else (case split_char c xs of [] \<Rightarrow> [[x]] | w # ws \<Rightarrow> (x # w) # ws))"

fun join_str :: "string \<Rightarrow> string list \<Rightarrow> string" where
  "join_str sep [] = []"
| "join_str sep [w] = w"
| "join_str sep (w # ws) = w @ sep @ join_str sep ws"

fun join_char :: "char \<Rightarrow> string list \<Rightarrow> string" where
  "join_char c [] = []"
| "join_char c [w] = w"
| "join_char c (w # ws) = w @ c # join_char c ws"

text \<open>\<open>s.partition(c)\<close>: the part before the first \<open>c\<close>, whether \<open>c\<close> occurs, the rest.\<close>

fun partition_char :: "char \<Rightarrow> string \<Rightarrow> string \<times> bool \<times> string" where
  "partition_char c [] = ([], False, [])"
| "partition_char c (x # xs) =
     (if x = c then ([], True, xs)
      else (case partition_char c xs of (a, b, r) \<Rightarrow> (x # a, b, r)))"

text \<open>
  \<open>s.splitlines()\<close> over Latin-1: the line ends are LF, CR, CR LF, VT, FF, FS, GS, RS and
  NEL; no empty last line for a trailing line end.
\<close>

definition is_line_end :: "char \<Rightarrow> bool" where
  "is_line_end c \<longleftrightarrow> code c \<in> {10, 11, 12, 13, 28, 29, 30, 133}"

fun splitlines_acc :: "string \<Rightarrow> string \<Rightarrow> string list" where
  "splitlines_acc acc [] = (if acc = [] then [] else [rev acc])"
| "splitlines_acc acc (x # xs) =
     (if x = CR \<and> xs \<noteq> [] \<and> hd xs = LF then rev acc # splitlines_acc [] (tl xs)
      else if is_line_end x then rev acc # splitlines_acc [] xs
      else splitlines_acc (x # acc) xs)"

definition py_splitlines :: "string \<Rightarrow> string list" where
  "py_splitlines s = splitlines_acc [] s"

section \<open>Lemmas\<close>

lemma py_strip_Nil [simp]: "py_strip [] = []"
  by (simp add: py_strip_def py_lstrip_def py_rstrip_def)

lemma strip_no_space:
  assumes "\<forall>c \<in> set s. \<not> py_isspace c"
  shows "py_strip s = s"
proof -
  have keep: "dropWhile py_isspace t = t" if "\<forall>c \<in> set t. \<not> py_isspace c" for t
    using that by (cases t) auto
  show ?thesis
    using assms by (simp add: py_strip_def py_lstrip_def py_rstrip_def keep)
qed

lemma rstrip_keeps_head:
  assumes "t \<noteq> []" and "\<not> P (hd t)"
  shows "\<exists>u. rev (dropWhile P (rev t)) = hd t # u"
proof -
  have "rev t = rev (tl t) @ [hd t]" using assms(1) by (cases t) simp_all
  then have "dropWhile P (rev t) = dropWhile P (rev (tl t)) @ [hd t]"
    using assms(2) by (simp add: dropWhile_append)
  then show ?thesis by simp
qed

lemma py_strip_idem [simp]: "py_strip (py_strip s) = py_strip s"
proof -
  let ?t = "dropWhile py_isspace s"
  show ?thesis
  proof (cases "?t = []")
    case True
    then have "py_strip s = []" unfolding py_strip_def py_lstrip_def py_rstrip_def by (simp only:) simp
    then show ?thesis by simp
  next
    case False
    moreover have "\<not> py_isspace (hd ?t)" using False by (rule hd_dropWhile)
    ultimately obtain u where u: "rev (dropWhile py_isspace (rev ?t)) = hd ?t # u"
      using rstrip_keeps_head by blast
    have "dropWhile py_isspace (hd ?t # u) = hd ?t # u"
      using \<open>\<not> py_isspace (hd ?t)\<close> by simp
    then have "dropWhile py_isspace (rev (dropWhile py_isspace (rev ?t))) = rev (dropWhile py_isspace (rev ?t))"
      by (simp only: u)
    then show ?thesis
      by (simp add: py_strip_def py_lstrip_def py_rstrip_def dropWhile_idem)
  qed
qed

lemma split_char_not_Nil [simp]: "split_char c s \<noteq> []"
  by (cases s) (auto split: list.splits)

lemma split_char_no_sep: "w \<in> set (split_char c s) \<Longrightarrow> c \<notin> set w"
proof (induction c s arbitrary: w rule: split_char.induct)
  case (1 c)
  then show ?case by simp
next
  case (2 c x xs)
  then show ?case by (cases "split_char c xs") (auto split: if_splits)
qed

lemma join_split_char: "join_char c (split_char c s) = s"
proof (induction c s rule: split_char.induct)
  case (1 c)
  then show ?case by simp
next
  case (2 c x xs)
  show ?case
  proof (cases "split_char c xs")
    case Nil
    then show ?thesis by simp
  next
    case (Cons w ws)
    with 2 show ?thesis by (cases ws) auto
  qed
qed

lemma partition_char_True:
  "partition_char c s = (a, True, b) \<longleftrightarrow> s = a @ c # b \<and> c \<notin> set a"
proof (induction s arbitrary: a)
  case Nil
  then show ?case by simp
next
  case (Cons x xs)
  obtain p q r where part: "partition_char c xs = (p, q, r)"
    by (cases "partition_char c xs") auto
  show ?case
  proof (cases a)
    case Nil
    then show ?thesis by (auto simp: part)
  next
    case (Cons y ys)
    have "partition_char c xs = (ys, True, b) \<longleftrightarrow> xs = ys @ c # b \<and> c \<notin> set ys"
      by (rule Cons.IH)
    then show ?thesis
      using Cons by (auto simp: part)
  qed
qed

lemma has_char_iff [simp]: "has_char c s \<longleftrightarrow> c \<in> set s"
  by (simp add: has_char_def)

lemma code_inject: "code c = code d \<longleftrightarrow> c = d"
  by (simp add: code_def)

lemma splitlines_acc_eq_Nil: "splitlines_acc acc s = [] \<longleftrightarrow> acc = [] \<and> s = []"
  by (induction acc s rule: splitlines_acc.induct) auto

lemma py_splitlines_eq_Nil: "py_splitlines s = [] \<longleftrightarrow> s = []"
  by (simp add: py_splitlines_def splitlines_acc_eq_Nil)

lemma split_char_no_sep_single: "c \<notin> set w \<Longrightarrow> split_char c w = [w]"
  by (induction w) auto

lemma split_char_append_sep: "c \<notin> set w \<Longrightarrow> split_char c (w @ c # s) = w # split_char c s"
  by (induction w) auto

lemma split_join:
  "ws \<noteq> [] \<Longrightarrow> \<forall>w \<in> set ws. c \<notin> set w \<Longrightarrow> split_char c (join_str [c] ws) = ws"
proof (induction "[c]" ws rule: join_str.induct)
  case (3 w v ws)
  then show ?case by (simp add: split_char_append_sep)
qed (simp_all add: split_char_no_sep_single)

lemma join_str_map: "map f (join_str [c] ws) = join_str [f c] (map (map f) ws)"
  by (induction "[c]" ws rule: join_str.induct) auto

end
