(* ===== verification/PyRegex.thy ===== *)
theory PyRegex
  imports PyText
begin

text \<open>
  The part of Python's \<open>re\<close> the sources use: patterns without groups, back references or
  look-around, decided by \<open>fullmatch\<close> and \<open>search\<close>. A pattern matches between two positions
  of a text, so the zero-width assertions (\<open>^\<close>, \<open>$\<close>, \<open>\Z\<close>, \<open>\b\<close>) see their context.
  \<open>mtch\<close> is the meaning, \<open>ends\<close> computes the end positions reachable from a start position,
  and \<open>ends_iff_mtch\<close> says they agree. Greedy and lazy repetition have the same \<open>fullmatch\<close>
  and \<open>search\<close> verdict, so the model does not distinguish them.
\<close>

section \<open>Patterns\<close>

datatype rx =
    Eps                        \<comment> \<open>the empty pattern\<close>
  | Cls "char \<Rightarrow> bool"         \<comment> \<open>a character class\<close>
  | Seq rx rx
  | Alt rx rx
  | Star rx
  | Bol                        \<comment> \<open>\<open>^\<close> without MULTILINE\<close>
  | Eol                        \<comment> \<open>\<open>$\<close> without MULTILINE: the end, or before a final newline\<close>
  | Eos                        \<comment> \<open>\<open>\Z\<close>\<close>
  | WordB                      \<comment> \<open>\<open>\b\<close>\<close>

text \<open>\<open>\w\<close>: Unicode alphanumeric or underscore, over Latin-1\<close>

definition word_char :: "char \<Rightarrow> bool" where
  "word_char c \<longleftrightarrow> is_alnum c \<or> c = CHR ''_''
     \<or> code c \<in> {170, 178, 179, 181, 185, 186, 188, 189, 190}
     \<or> (192 \<le> code c \<and> code c \<noteq> 215 \<and> code c \<noteq> 247)"

definition word_at :: "string \<Rightarrow> nat \<Rightarrow> bool" where
  "word_at s i \<longleftrightarrow> i < length s \<and> word_char (s ! i)"

definition at_word_boundary :: "string \<Rightarrow> nat \<Rightarrow> bool" where
  "at_word_boundary s i \<longleftrightarrow> (0 < i \<and> word_at s (i - 1)) \<noteq> word_at s i"

definition at_eol :: "string \<Rightarrow> nat \<Rightarrow> bool" where
  "at_eol s i \<longleftrightarrow> i = length s \<or> (Suc i = length s \<and> s ! i = LF)"

inductive mtch :: "string \<Rightarrow> rx \<Rightarrow> nat \<Rightarrow> nat \<Rightarrow> bool" for s where
  eps: "mtch s Eps i i"
| cls: "i < length s \<Longrightarrow> P (s ! i) \<Longrightarrow> mtch s (Cls P) i (Suc i)"
| seq: "mtch s r i j \<Longrightarrow> mtch s q j k \<Longrightarrow> mtch s (Seq r q) i k"
| alt1: "mtch s r i j \<Longrightarrow> mtch s (Alt r q) i j"
| alt2: "mtch s q i j \<Longrightarrow> mtch s (Alt r q) i j"
| star0: "mtch s (Star r) i i"
| star1: "mtch s r i j \<Longrightarrow> mtch s (Star r) j k \<Longrightarrow> mtch s (Star r) i k"
| bol: "mtch s Bol 0 0"
| eol: "at_eol s i \<Longrightarrow> mtch s Eol i i"
| eos: "mtch s Eos (length s) (length s)"
| wordb: "at_word_boundary s i \<Longrightarrow> mtch s WordB i i"

inductive_simps mtch_simps [simp]:
  "mtch s Eps i j" "mtch s (Cls P) i j" "mtch s (Seq r q) i k" "mtch s (Alt r q) i j"
  "mtch s Bol i j" "mtch s Eol i j" "mtch s Eos i j" "mtch s WordB i j"

inductive_cases mtch_starE: "mtch s (Star r) i k"

section \<open>The matcher\<close>

text \<open>
  One round of a star must make progress; \<open>length s - i\<close> rounds reach every end position,
  because each moves at least one character to the right.
\<close>

fun star_ends :: "(nat \<Rightarrow> nat list) \<Rightarrow> nat \<Rightarrow> nat \<Rightarrow> nat list" where
  "star_ends f 0 i = [i]"
| "star_ends f (Suc n) i = i # concat (map (star_ends f n) (filter (\<lambda>j. i < j) (f i)))"

primrec ends :: "string \<Rightarrow> rx \<Rightarrow> nat \<Rightarrow> nat list" where
  "ends s Eps = (\<lambda>i. [i])"
| "ends s (Cls P) = (\<lambda>i. if i < length s \<and> P (s ! i) then [Suc i] else [])"
| "ends s (Seq r q) = (\<lambda>i. concat (map (ends s q) (ends s r i)))"
| "ends s (Alt r q) = (\<lambda>i. ends s r i @ ends s q i)"
| "ends s (Star r) = (\<lambda>i. star_ends (ends s r) (length s - i) i)"
| "ends s Bol = (\<lambda>i. if i = 0 then [i] else [])"
| "ends s Eol = (\<lambda>i. if at_eol s i then [i] else [])"
| "ends s Eos = (\<lambda>i. if i = length s then [i] else [])"
| "ends s WordB = (\<lambda>i. if at_word_boundary s i then [i] else [])"

definition fullmatch :: "rx \<Rightarrow> string \<Rightarrow> bool" where
  "fullmatch r s \<longleftrightarrow> List.member (ends s r 0) (length s)"

definition search :: "rx \<Rightarrow> string \<Rightarrow> bool" where
  "search r s \<longleftrightarrow> list_ex (\<lambda>i. ends s r i \<noteq> []) [0..<Suc (length s)]"

section \<open>The matcher computes the meaning\<close>

lemma mtch_range: "mtch s r i j \<Longrightarrow> i \<le> length s \<Longrightarrow> i \<le> j \<and> j \<le> length s"
  by (induction r i j rule: mtch.induct) auto

lemma star_ends_sound:
  assumes f: "\<And>i j. j \<in> set (f i) \<Longrightarrow> mtch s r i j"
  shows "j \<in> set (star_ends f n i) \<Longrightarrow> mtch s (Star r) i j"
proof (induction n arbitrary: i j)
  case 0
  then show ?case by (simp add: mtch.star0)
next
  case (Suc n)
  show ?case
  proof (cases "j = i")
    case True
    then show ?thesis by (simp add: mtch.star0)
  next
    case False
    then obtain x where x: "x \<in> set (f i)" "j \<in> set (star_ends f n x)"
      using Suc.prems by auto
    then show ?thesis
      using Suc.IH [OF x(2)] f [OF x(1)] by (auto intro: mtch.star1)
  qed
qed

lemma ends_sound: "j \<in> set (ends s r i) \<Longrightarrow> mtch s r i j"
proof (induction r arbitrary: i j)
  case (Seq r q)
  then show ?case by (simp, blast)
next
  case (Star r)
  then show ?case by (auto intro: star_ends_sound)
qed (auto split: if_splits)

text \<open>A star that matched something can be read as one productive round and a star.\<close>

lemma mtch_star_progress:
  assumes "mtch s (Star r) i k" and "i \<noteq> k"
  shows "\<exists>j. i \<noteq> j \<and> mtch s r i j \<and> mtch s (Star r) j k"
proof -
  have "mtch s q i k \<Longrightarrow> q = Star r \<Longrightarrow> i \<noteq> k \<Longrightarrow>
      \<exists>j. i \<noteq> j \<and> mtch s r i j \<and> mtch s (Star r) j k" for q
  proof (induction q i k rule: mtch.induct)
    case (star1 r' i j k)
    then show ?case by (cases "i = j") auto
  qed auto
  with assms show ?thesis by blast
qed

lemma star_ends_complete:
  assumes "\<And>i j. mtch s r i j \<Longrightarrow> i \<le> length s \<Longrightarrow> j \<in> set (f i)"
  shows "mtch s (Star r) i k \<Longrightarrow> i \<le> length s \<Longrightarrow> length s - i \<le> n \<Longrightarrow>
    k \<in> set (star_ends f n i)"
proof (induction n arbitrary: i)
  case 0
  then have "i = length s" by simp
  then show ?case
    using mtch_range [OF 0(1)] by simp
next
  case (Suc n)
  show ?case
  proof (cases "i = k")
    case True
    then show ?thesis by simp
  next
    case False
    then obtain j where j: "i \<noteq> j" "mtch s r i j" "mtch s (Star r) j k"
      using mtch_star_progress Suc.prems(1) by blast
    then have "i < j" "j \<le> length s"
      using mtch_range [OF j(2) Suc.prems(2)] by auto
    then have "k \<in> set (star_ends f n j)"
      using Suc.IH [OF j(3)] Suc.prems by linarith
    moreover have "j \<in> set (f i)"
      using assms j(2) Suc.prems(2) by blast
    ultimately show ?thesis
      using \<open>i < j\<close> by auto
  qed
qed

lemma ends_complete: "mtch s r i j \<Longrightarrow> i \<le> length s \<Longrightarrow> j \<in> set (ends s r i)"
proof (induction r arbitrary: i j)
  case (Seq r q)
  then obtain k where k: "mtch s r i k" "mtch s q k j" by auto
  then have "k \<le> length s" using mtch_range Seq.prems(2) by blast
  then have "j \<in> set (ends s q k)" "k \<in> set (ends s r i)"
    using k Seq by blast+
  then show ?case by auto
next
  case (Star r)
  then show ?case
    using star_ends_complete [of s r "ends s r" i j "length s - i"] by auto
qed auto

lemma ends_iff_mtch: "i \<le> length s \<Longrightarrow> j \<in> set (ends s r i) \<longleftrightarrow> mtch s r i j"
  using ends_sound ends_complete by blast

lemma fullmatch_iff: "fullmatch r s \<longleftrightarrow> mtch s r 0 (length s)"
  by (simp add: fullmatch_def ends_iff_mtch)

lemma search_iff: "search r s \<longleftrightarrow> (\<exists>i j. i \<le> length s \<and> mtch s r i j)"
proof -
  have "ends s r i \<noteq> [] \<longleftrightarrow> (\<exists>j. mtch s r i j)" if "i \<le> length s" for i
    using ends_iff_mtch [OF that] by (metis all_not_in_conv set_empty)
  then show ?thesis
    unfolding search_def list_ex_iff by (metis atLeastLessThan_iff le0 less_Suc_eq_le set_upt)
qed

section \<open>Derived patterns\<close>

fun seqs :: "rx list \<Rightarrow> rx" where
  "seqs [] = Eps"
| "seqs [r] = r"
| "seqs (r # rs) = Seq r (seqs rs)"

fun alts :: "rx list \<Rightarrow> rx" where
  "alts [] = Cls (\<lambda>_. False)"
| "alts [r] = r"
| "alts (r # rs) = Alt r (alts rs)"

definition opt :: "rx \<Rightarrow> rx" where "opt r = Alt r Eps"
definition plus :: "rx \<Rightarrow> rx" where "plus r = Seq r (Star r)"

text \<open>\<open>r{n}\<close> and \<open>r{0,n}\<close>\<close>

primrec rep :: "nat \<Rightarrow> rx \<Rightarrow> rx" where
  "rep 0 r = Eps"
| "rep (Suc n) r = Seq r (rep n r)"

primrec upto_rep :: "nat \<Rightarrow> rx \<Rightarrow> rx" where
  "upto_rep 0 r = Eps"
| "upto_rep (Suc n) r = Alt (Seq r (upto_rep n r)) Eps"

text \<open>A literal, and a literal under \<open>(?i)\<close>\<close>

definition lit :: "string \<Rightarrow> rx" where
  "lit s = seqs (map (\<lambda>c. Cls (\<lambda>x. x = c)) s)"

definition ilit :: "string \<Rightarrow> rx" where
  "ilit s = seqs (map (\<lambda>c. Cls (\<lambda>x. lower_char x = lower_char c)) s)"

definition one_of :: "string \<Rightarrow> char \<Rightarrow> bool" where
  "one_of s c \<longleftrightarrow> List.member s c"

lemma one_of_iff [simp]: "one_of s c \<longleftrightarrow> c \<in> set s"
  by (simp add: one_of_def)

text \<open>\<open>^r$\<close>\<close>

definition anchored :: "rx \<Rightarrow> rx" where
  "anchored r = Seq Bol (Seq r Eol)"

section \<open>What the common shapes match\<close>

text \<open>
  Under \<open>fullmatch\<close> the anchors \<open>^\<close> and \<open>$\<close> add nothing; in particular \<open>$\<close> does not let a
  trailing newline through, as it would under \<open>match\<close>.
\<close>

lemma fullmatch_anchored: "fullmatch (anchored r) s \<longleftrightarrow> fullmatch r s"
  by (auto simp: fullmatch_iff anchored_def at_eol_def)

lemma fullmatch_Eos: "fullmatch (Seq r Eos) s \<longleftrightarrow> fullmatch r s"
  by (auto simp: fullmatch_iff)

lemma fullmatch_Alt: "fullmatch (Alt r q) s \<longleftrightarrow> fullmatch r s \<or> fullmatch q s"
  by (simp add: fullmatch_iff)

lemma slice_Suc:
  "(\<forall>k. i \<le> k \<and> k < j \<longrightarrow> P k) \<longleftrightarrow> (i < j \<longrightarrow> P i \<and> (\<forall>k. Suc i \<le> k \<and> k < j \<longrightarrow> P k))"
proof (cases "i < j")
  case True
  have "i \<le> k \<and> k < j \<longleftrightarrow> k = i \<or> (Suc i \<le> k \<and> k < j)" for k
    using True by auto
  then show ?thesis using True by auto
qed auto

lemma mtch_rep_Cls:
  "mtch s (rep n (Cls P)) i j \<longleftrightarrow>
     j = i + n \<and> (0 < n \<longrightarrow> j \<le> length s) \<and> (\<forall>k. i \<le> k \<and> k < j \<longrightarrow> P (s ! k))"
proof (induction n arbitrary: i)
  case 0
  then show ?case by auto
next
  case (Suc n)
  have slice: "(\<forall>k. i \<le> k \<and> k < j \<longrightarrow> P (s ! k)) \<longleftrightarrow>
      (i < j \<longrightarrow> P (s ! i) \<and> (\<forall>k. Suc i \<le> k \<and> k < j \<longrightarrow> P (s ! k)))"
    by (rule slice_Suc)
  have "mtch s (rep (Suc n) (Cls P)) i j \<longleftrightarrow>
      i < length s \<and> P (s ! i) \<and> mtch s (rep n (Cls P)) (Suc i) j"
    by auto
  then show ?case
    unfolding Suc.IH slice by (cases "n = 0") auto
qed

lemma mtch_upto_Cls:
  "mtch s (upto_rep n (Cls P)) i j \<longleftrightarrow>
     i \<le> j \<and> j \<le> i + n \<and> (i < j \<longrightarrow> j \<le> length s) \<and> (\<forall>k. i \<le> k \<and> k < j \<longrightarrow> P (s ! k))"
proof (induction n arbitrary: i)
  case 0
  then show ?case by auto
next
  case (Suc n)
  have slice: "(\<forall>k. i \<le> k \<and> k < j \<longrightarrow> P (s ! k)) \<longleftrightarrow>
      (i < j \<longrightarrow> P (s ! i) \<and> (\<forall>k. Suc i \<le> k \<and> k < j \<longrightarrow> P (s ! k)))"
    by (rule slice_Suc)
  show ?case
  proof (cases "i = j")
    case True
    then show ?thesis by auto
  next
    case False
    then have "mtch s (upto_rep (Suc n) (Cls P)) i j \<longleftrightarrow>
        i < length s \<and> P (s ! i) \<and> mtch s (upto_rep n (Cls P)) (Suc i) j"
      by auto
    then show ?thesis
      unfolding Suc.IH slice using False by (cases "Suc i = j") auto
  qed
qed

lemma mtch_star_Cls:
  assumes "i \<le> length s"
  shows "mtch s (Star (Cls P)) i j \<longleftrightarrow>
     i \<le> j \<and> j \<le> length s \<and> (\<forall>k. i \<le> k \<and> k < j \<longrightarrow> P (s ! k))"
proof
  assume m: "mtch s (Star (Cls P)) i j"
  have "mtch s q i j \<Longrightarrow> q = Star (Cls P) \<Longrightarrow> i \<le> length s \<Longrightarrow>
      i \<le> j \<and> j \<le> length s \<and> (\<forall>k. i \<le> k \<and> k < j \<longrightarrow> P (s ! k))" for q
  proof (induction q i j rule: mtch.induct)
    case (star1 r i j k)
    then have "i < length s" "P (s ! i)" "j = Suc i"
      by auto
    with star1 show ?case
      by (metis Suc_leD Suc_leI le_neq_implies_less)
  qed auto
  with m assms
  show "i \<le> j \<and> j \<le> length s \<and> (\<forall>k. i \<le> k \<and> k < j \<longrightarrow> P (s ! k))"
    by blast
next
  assume "i \<le> j \<and> j \<le> length s \<and> (\<forall>k. i \<le> k \<and> k < j \<longrightarrow> P (s ! k))"
  then show "mtch s (Star (Cls P)) i j"
  proof (induction "j - i" arbitrary: i)
    case 0
    then show ?case by (auto intro: mtch.star0)
  next
    case (Suc n)
    have "mtch s (Cls P) i (Suc i)"
      using Suc by auto
    moreover have "mtch s (Star (Cls P)) (Suc i) j"
      using Suc by auto
    ultimately show ?case by (rule mtch.star1)
  qed
qed

lemma all_nth_list_all: "(\<forall>k. 0 \<le> k \<and> k < length s \<longrightarrow> P (s ! k)) \<longleftrightarrow> list_all P s"
  by (auto simp: list_all_length)

lemma fullmatch_rep_Cls: "fullmatch (rep n (Cls P)) s \<longleftrightarrow> length s = n \<and> list_all P s"
  by (auto simp: fullmatch_iff mtch_rep_Cls all_nth_list_all [symmetric])

text \<open>The bounded identifiers: one leading class, then up to \<open>n\<close> of another.\<close>

definition ident_shape :: "(char \<Rightarrow> bool) \<Rightarrow> (char \<Rightarrow> bool) \<Rightarrow> nat \<Rightarrow> string \<Rightarrow> bool" where
  "ident_shape P Q n s \<longleftrightarrow> s \<noteq> [] \<and> P (hd s) \<and> list_all Q (tl s) \<and> length s \<le> Suc n"

lemma all_nth_tl:
  "(\<forall>k. Suc 0 \<le> k \<and> k < Suc (length t) \<longrightarrow> P ((c # t) ! k)) \<longleftrightarrow> list_all P t"
proof
  assume *: "\<forall>k. Suc 0 \<le> k \<and> k < Suc (length t) \<longrightarrow> P ((c # t) ! k)"
  show "list_all P t"
    unfolding list_all_length
  proof (intro allI impI)
    fix n
    assume "n < length t"
    with * [rule_format, of "Suc n"] show "P (t ! n)" by simp
  qed
next
  assume "list_all P t"
  then show "\<forall>k. Suc 0 \<le> k \<and> k < Suc (length t) \<longrightarrow> P ((c # t) ! k)"
    by (auto simp: list_all_length nth_Cons' less_Suc_eq_0_disj)
qed

lemma fullmatch_ident:
  "fullmatch (Seq (Cls P) (upto_rep n (Cls Q))) s \<longleftrightarrow> ident_shape P Q n s"
proof (cases s)
  case Nil
  then show ?thesis by (simp add: fullmatch_iff ident_shape_def)
next
  case (Cons c t)
  have "fullmatch (Seq (Cls P) (upto_rep n (Cls Q))) (c # t) \<longleftrightarrow>
      P c \<and> mtch (c # t) (upto_rep n (Cls Q)) (Suc 0) (Suc (length t))"
    by (auto simp: fullmatch_iff)
  also have "\<dots> \<longleftrightarrow> P c \<and> length t \<le> n \<and> list_all Q t"
    unfolding mtch_upto_Cls all_nth_tl by auto
  finally show ?thesis
    using Cons by (auto simp: ident_shape_def)
qed

lemma ident_shape_not_Nil: "ident_shape P Q n s \<Longrightarrow> s \<noteq> []"
  by (simp add: ident_shape_def)

lemma ident_shape_chars:
  "ident_shape P Q n s \<Longrightarrow> c \<in> set s \<Longrightarrow> P c \<or> Q c"
  by (cases s) (auto simp: ident_shape_def list_all_iff)

lemma ident_shape_hd: "ident_shape P Q n s \<Longrightarrow> P (hd s)"
  by (simp add: ident_shape_def)

text \<open>The least number of characters a match consumes: a shorter text cannot match.\<close>

primrec min_len :: "rx \<Rightarrow> nat" where
  "min_len Eps = 0"
| "min_len (Cls P) = 1"
| "min_len (Seq r q) = min_len r + min_len q"
| "min_len (Alt r q) = min (min_len r) (min_len q)"
| "min_len (Star r) = 0"
| "min_len Bol = 0"
| "min_len Eol = 0"
| "min_len Eos = 0"
| "min_len WordB = 0"

lemma mtch_min_len: "mtch s r i j \<Longrightarrow> i + min_len r \<le> j"
  by (induction r i j rule: mtch.induct) auto

lemma short_no_search: "length s < min_len r \<Longrightarrow> \<not> search r s"
  using mtch_min_len mtch_range by (fastforce simp: search_iff)

text \<open>A literal begins with its first character.\<close>

lemma mtch_lit_hd: "mtch s (lit (c # cs)) i j \<Longrightarrow> i < length s \<and> s ! i = c"
  by (cases cs) (auto simp: lit_def)

lemma mtch_ilit_hd: "mtch s (ilit (c # cs)) i j \<Longrightarrow> i < length s \<and> lower_char (s ! i) = lower_char c"
  by (cases cs) (auto simp: ilit_def)

end
