(* ===== verification/Gate_Evidence.thy ===== *)
theory Gate_Evidence
  imports PyRegex
begin

text \<open>
  The fail-closed gate decision, \<open>scripts/delivery/gate_evidence.py\<close>. A provider reports
  \<open>GateEvidence\<close> values; \<open>evaluate_gate_evidence\<close> sanitises them into an insertion-ordered
  dictionary and refuses missing, skipped and failed gates, in that order. The locale
  \<open>gate_evaluator\<close> is what the delivery executor relies on; it is interpreted on the
  evaluator at the end, where \<open>evaluate_iff\<close> also gives the evaluator's abstract meaning.
\<close>

section \<open>Vocabulary\<close>

definition gate_error :: "string \<Rightarrow> exc" where
  "gate_error m = Exc GateEvidenceError m"

definition DEFAULT_REQUIRED_GATES :: "string list" where
  "DEFAULT_REQUIRED_GATES =
     [''filesystem'', ''compose'', ''security'', ''rollout'', ''health'']"

definition KNOWN_GATES :: "string list" where
  "KNOWN_GATES = DEFAULT_REQUIRED_GATES @ [''migration'', ''rollback'', ''smoke'']"

definition ALLOWED_STATUSES :: "string list" where
  "ALLOWED_STATUSES = [''passed'', ''failed'', ''skipped'']"

definition safe_name_tail :: "char \<Rightarrow> bool" where
  "safe_name_tail c \<longleftrightarrow> is_lower c \<or> is_digit c \<or> one_of ''_-'' c"

definition SAFE_NAME_RE :: rx where
  "SAFE_NAME_RE = anchored (Seq (Cls is_lower) (upto_rep 63 (Cls safe_name_tail)))"

text \<open>The pattern the delivery modules share; the gate pattern extends it.\<close>

definition SECRET_ASSIGN :: rx where
  "SECRET_ASSIGN = seqs
     [alts [ilit ''password'', ilit ''passwd'', ilit ''secret'', ilit ''token'',
            ilit ''authorization'', ilit ''cookie'',
            seqs [ilit ''private'', opt (Cls (one_of ''_ .-'')), ilit ''key'']],
      Star (Cls py_isspace), Cls (one_of '':='')]"

definition PRIVATE_KEY_BLOCK :: rx where
  "PRIVATE_KEY_BLOCK = seqs
     [lit ''-----'', ilit ''BEGIN '',
      Star (Cls (\<lambda>c. is_alnum c \<or> c = CHR '' '')), ilit ''PRIVATE KEY'', lit ''-----'']"

definition SECRET_LIKE_RE :: rx where
  "SECRET_LIKE_RE = Alt SECRET_ASSIGN PRIVATE_KEY_BLOCK"

definition not_url_sep :: "char \<Rightarrow> bool" where
  "not_url_sep c \<longleftrightarrow> c \<noteq> CHR ''/'' \<and> c \<noteq> CHR ''@'' \<and> \<not> py_isspace c"

definition GATE_SECRET_LIKE_RE :: rx where
  "GATE_SECRET_LIKE_RE = alts
     [SECRET_ASSIGN, PRIVATE_KEY_BLOCK,
      seqs [WordB, ilit ''bearer'', plus (Cls py_isspace),
            plus (Cls (\<lambda>c. is_alnum c \<or> one_of ''._~+/-'' c)), Star (Cls (one_of ''=''))],
      seqs [Alt Bol (Cls (one_of [CHR ''/'', backslash])), ilit ''.env'',
            Alt Eol (Cls (one_of [CHR ''.'', CHR ''/'', backslash]))],
      seqs [ilit ''http'', opt (ilit ''s''), lit ''://'',
            plus (Cls not_url_sep), lit '':'', plus (Cls not_url_sep), lit ''@''],
      seqs [Cls (one_of ''?&''),
            alts [ilit ''token'', ilit ''sig'', ilit ''signature'', ilit ''key'',
                  ilit ''secret'', ilit ''password''],
            lit ''='', plus (Cls (\<lambda>c. c \<noteq> CHR ''&'' \<and> \<not> py_isspace c))]]"

section \<open>Evidence and evaluation\<close>

record gate_evidence =
  ge_name :: string
  ge_status :: string
  ge_target :: string
  ge_reason :: string

type_synonym row = "(string \<times> string) list"

record gate_evaluation =
  passed :: bool
  failure_reason :: "string option"
  evidence :: "row list"

text \<open>
  The length, newline and secret checks are those of \<open>_safe_scalar\<close>; the manifest, rollback
  and adapter modules repeat them with their own error class, bound and pattern.
\<close>

definition scalar_check ::
    "exc_class \<Rightarrow> nat \<Rightarrow> rx \<Rightarrow> string \<Rightarrow> bool \<Rightarrow> string \<Rightarrow> string result" where
  "scalar_check cls mx secret name allow_empty v =
     (if \<not> allow_empty \<and> v = [] then Inl (Exc cls (name @ '' must not be empty''))
      else if has_char LF v \<or> has_char CR v then Inl (Exc cls (name @ '' must be single-line''))
      else if length v > mx then Inl (Exc cls (name @ '' exceeds 512 characters''))
      else if search secret v
      then Inl (Exc cls (name @ '' contains prohibited secret-like data''))
      else Inr v)"

definition safe_scalar :: "string \<Rightarrow> bool \<Rightarrow> string \<Rightarrow> string result" where
  "safe_scalar name allow_empty v =
     scalar_check GateEvidenceError 512 GATE_SECRET_LIKE_RE name allow_empty v"

definition validate_gate_name :: "string \<Rightarrow> string result" where
  "validate_gate_name name =
     guardE (fullmatch SAFE_NAME_RE name)
       (gate_error ''gate names must be bounded lowercase identifiers'')
       (guardE (List.member KNOWN_GATES name)
         (gate_error ''gate name is not a supported delivery gate'') (Inr name))"

definition validate_required_gates :: "string list \<Rightarrow> string list result" where
  "validate_required_gates required =
     guardE (required \<noteq> []) (gate_error ''at least one required gate must be declared'')
       (guardE (distinct required) (gate_error ''required gates must be unique'')
         (mapE validate_gate_name required))"

definition evidence_row :: "gate_evidence \<Rightarrow> row" where
  "evidence_row g =
     [(''name'', ge_name g), (''status'', ge_status g), (''target'', ge_target g)]
     @ (if ge_reason g = [] then [] else [(''reason'', ge_reason g)])"

definition sanitized_evidence :: "gate_evidence \<Rightarrow> row result" where
  "sanitized_evidence g =
     bindE (validate_gate_name (ge_name g)) (\<lambda>_.
     guardE (List.member ALLOWED_STATUSES (ge_status g))
       (gate_error ''gate status must be passed, failed or skipped'')
       (bindE (safe_scalar ''gate target'' False (ge_target g)) (\<lambda>_.
        bindE (safe_scalar ''gate reason'' True (ge_reason g)) (\<lambda>_.
          Inr (evidence_row g)))))"

definition row_get :: "string \<Rightarrow> row \<Rightarrow> string" where
  "row_get k r = (case map_of r k of None \<Rightarrow> [] | Some v \<Rightarrow> v)"

text \<open>The loop that fills \<open>evidence_by_name\<close>; a repeated name is refused.\<close>

fun collect_evidence :: "(string \<times> row) list \<Rightarrow> gate_evidence list \<Rightarrow> (string \<times> row) list result" where
  "collect_evidence acc [] = Inr acc"
| "collect_evidence acc (g # gs) =
     bindE (sanitized_evidence g) (\<lambda>r.
       if List.member (map fst acc) (row_get ''name'' r)
       then Inl (gate_error ''gate evidence names must be unique'')
       else collect_evidence (dict_set (row_get ''name'' r) r acc) gs)"

definition status_of :: "(string \<times> row) list \<Rightarrow> string \<Rightarrow> string" where
  "status_of by_name name =
     (case map_of by_name name of None \<Rightarrow> [] | Some r \<Rightarrow> row_get ''status'' r)"

definition ordered_rows :: "string list \<Rightarrow> (string \<times> row) list \<Rightarrow> row list" where
  "ordered_rows required by_name =
     map (\<lambda>n. case map_of by_name n of None \<Rightarrow> [] | Some r \<Rightarrow> r)
       (required @ filter (\<lambda>n. \<not> List.member required n) (map fst by_name))"

definition decide :: "string list \<Rightarrow> (string \<times> row) list \<Rightarrow> gate_evaluation" where
  "decide required by_name =
     (let rows = map snd by_name in
      case List.find (\<lambda>n. \<not> List.member (map fst by_name) n) required of
        Some n \<Rightarrow> \<lparr>passed = False, failure_reason = Some (''missing required gate: '' @ n),
                    evidence = rows\<rparr>
      | None \<Rightarrow>
     (case List.find (\<lambda>n. status_of by_name n = ''skipped'') required of
        Some n \<Rightarrow> \<lparr>passed = False, failure_reason = Some (''required gate skipped: '' @ n),
                    evidence = rows\<rparr>
      | None \<Rightarrow>
     (case List.find (\<lambda>(n, r). row_get ''status'' r = ''failed'') by_name of
        Some (n, r) \<Rightarrow>
          \<lparr>passed = False,
           failure_reason = Some (n @ '': '' @
             (if row_get ''reason'' r = [] then ''gate failed'' else row_get ''reason'' r)),
           evidence = rows\<rparr>
      | None \<Rightarrow>
          \<lparr>passed = True, failure_reason = None, evidence = ordered_rows required by_name\<rparr>)))"

definition evaluate_gate_evidence ::
    "gate_evidence list \<Rightarrow> string list \<Rightarrow> gate_evaluation result" where
  "evaluate_gate_evidence gates required_gates =
     bindE (validate_required_gates required_gates) (\<lambda>required.
     bindE (collect_evidence [] gates) (\<lambda>by_name. Inr (decide required by_name)))"

section \<open>Sanitised rows\<close>

definition gate_ok :: "gate_evidence \<Rightarrow> bool" where
  "gate_ok g \<longleftrightarrow> sanitized_evidence g = Inr (evidence_row g)"

lemma row_get_evidence_row [simp]:
  "row_get ''name'' (evidence_row g) = ge_name g"
  "row_get ''status'' (evidence_row g) = ge_status g"
  "row_get ''target'' (evidence_row g) = ge_target g"
  "row_get ''reason'' (evidence_row g) = ge_reason g"
  by (simp_all add: row_get_def evidence_row_def)

lemma sanitized_evidence_Inr: "sanitized_evidence g = Inr r \<longleftrightarrow> gate_ok g \<and> r = evidence_row g"
  by (auto simp: gate_ok_def sanitized_evidence_def res_simps)

lemma gate_ok_status: "gate_ok g \<Longrightarrow> ge_status g \<in> {''passed'', ''failed'', ''skipped''}"
  by (auto simp: gate_ok_def sanitized_evidence_def ALLOWED_STATUSES_def res_simps)

lemma gate_ok_name: "gate_ok g \<Longrightarrow> validate_gate_name (ge_name g) = Inr (ge_name g)"
  by (auto simp: gate_ok_def sanitized_evidence_def validate_gate_name_def res_simps)

definition named_row :: "gate_evidence \<Rightarrow> string \<times> row" where
  "named_row g = (ge_name g, evidence_row g)"

lemma fst_named_row [simp]: "fst (named_row g) = ge_name g" "snd (named_row g) = evidence_row g"
  by (simp_all add: named_row_def)

text \<open>The collected dictionary lists the gates in order, and their names are distinct.\<close>

lemma collect_evidence_acc:
  "collect_evidence acc gs = Inr d \<longleftrightarrow>
     d = acc @ map named_row gs \<and> list_all gate_ok gs
     \<and> distinct (map ge_name gs) \<and> fst ` set acc \<inter> ge_name ` set gs = {}"
proof (induction acc gs arbitrary: d rule: collect_evidence.induct)
  case (1 acc)
  then show ?case by auto
next
  case (2 acc g gs)
  show ?case
  proof (cases "gate_ok g \<and> ge_name g \<notin> fst ` set acc")
    case True
    then have san: "sanitized_evidence g = Inr (evidence_row g)" and new: "ge_name g \<notin> fst ` set acc"
      by (simp_all add: sanitized_evidence_Inr)
    have set_eq: "dict_set (ge_name g) (evidence_row g) acc = acc @ [named_row g]"
      using new by (simp add: dict_set_new named_row_def)
    have "collect_evidence acc (g # gs) = collect_evidence (acc @ [named_row g]) gs"
      using san new set_eq by simp
    moreover note 2 [OF san, unfolded row_get_evidence_row set_eq]
    ultimately show ?thesis
      using new True by auto
  next
    case False
    then show ?thesis
    proof (cases "gate_ok g")
      case True
      with False have "collect_evidence acc (g # gs) = Inl (gate_error ''gate evidence names must be unique'')"
        by (simp add: gate_ok_def)
      with False True show ?thesis by auto
    next
      case not_ok: False
      then obtain e where "sanitized_evidence g = Inl e"
        by (cases "sanitized_evidence g") (auto simp: sanitized_evidence_Inr)
      with not_ok show ?thesis by simp
    qed
  qed
qed

lemma collect_evidence_Inr:
  "collect_evidence [] gs = Inr d \<longleftrightarrow>
     d = map named_row gs \<and> list_all gate_ok gs \<and> distinct (map ge_name gs)"
  by (simp add: collect_evidence_acc)

section \<open>The decision\<close>

text \<open>The abstract view of the evidence: which status each gate reported.\<close>

definition reported :: "gate_evidence list \<Rightarrow> string \<Rightarrow> string option" where
  "reported gs n = map_option ge_status (List.find (\<lambda>g. ge_name g = n) gs)"

lemma map_of_named_rows:
  "map_of (map named_row gs) n = map_option evidence_row (List.find (\<lambda>g. ge_name g = n) gs)"
  by (induction gs) (auto simp: named_row_def)

lemma status_of_named_rows:
  "status_of (map named_row gs) n = (case reported gs n of None \<Rightarrow> [] | Some t \<Rightarrow> t)"
  by (auto simp: status_of_def map_of_named_rows reported_def split: option.splits)

lemma reported_None: "reported gs n = None \<longleftrightarrow> n \<notin> ge_name ` set gs"
  by (auto simp: reported_def find_None_list_all list_all_iff)

lemma reported_Some:
  assumes "distinct (map ge_name gs)"
  shows "reported gs n = Some t \<longleftrightarrow> (\<exists>g \<in> set gs. ge_name g = n \<and> ge_status g = t)"
  using assms
proof (induction gs)
  case (Cons g gs)
  then show ?case
    by (cases "ge_name g = n") (auto simp: reported_def image_iff)
qed (simp add: reported_def)

definition gates_pass :: "string list \<Rightarrow> gate_evidence list \<Rightarrow> bool" where
  "gates_pass required gs \<longleftrightarrow>
     (\<forall>n \<in> set required. \<exists>g \<in> set gs. ge_name g = n \<and> ge_status g = ''passed'')
     \<and> (\<forall>g \<in> set gs. ge_status g \<noteq> ''failed'')"

lemma decide_passed_iff:
  assumes ok: "list_all gate_ok gs" and dist: "distinct (map ge_name gs)"
  shows "passed (decide required (map named_row gs)) \<longleftrightarrow> gates_pass required gs"
proof -
  have names: "map fst (map named_row gs) = map ge_name gs" by simp
  have miss: "List.find (\<lambda>n. \<not> List.member (map fst (map named_row gs)) n) required = None
      \<longleftrightarrow> (\<forall>n \<in> set required. reported gs n \<noteq> None)"
    unfolding find_None_list_all names by (auto simp: list_all_iff reported_None)
  have skip: "List.find (\<lambda>n. status_of (map named_row gs) n = ''skipped'') required = None
      \<longleftrightarrow> (\<forall>n \<in> set required. reported gs n \<noteq> Some ''skipped'')"
    unfolding find_None_list_all status_of_named_rows
    by (auto simp: list_all_iff split: option.splits)
  have fail: "List.find (\<lambda>(n, r). row_get ''status'' r = ''failed'') (map named_row gs) = None
      \<longleftrightarrow> (\<forall>g \<in> set gs. ge_status g \<noteq> ''failed'')"
    unfolding find_None_list_all by (auto simp: list_all_iff named_row_def)
  have statuses: "\<forall>g \<in> set gs. ge_status g \<in> {''passed'', ''failed'', ''skipped''}"
    using ok gate_ok_status by (fastforce simp: list_all_iff)
  have "passed (decide required (map named_row gs)) \<longleftrightarrow>
      (\<forall>n \<in> set required. reported gs n \<noteq> None)
      \<and> (\<forall>n \<in> set required. reported gs n \<noteq> Some ''skipped'')
      \<and> (\<forall>g \<in> set gs. ge_status g \<noteq> ''failed'')"
    unfolding miss [symmetric] skip [symmetric] fail [symmetric]
    by (simp add: decide_def Let_def split: option.split)
  also have "\<dots> \<longleftrightarrow> gates_pass required gs"
  proof -
    have "(reported gs n \<noteq> None \<and> reported gs n \<noteq> Some ''skipped'') \<longleftrightarrow>
        reported gs n = Some ''passed''" if "\<forall>g \<in> set gs. ge_status g \<noteq> ''failed''" for n
    proof (cases "reported gs n")
      case (Some t)
      then obtain g where "g \<in> set gs" "ge_status g = t"
        using reported_Some [OF dist] by blast
      with statuses that have "t \<in> {''passed'', ''skipped''}" by blast
      with Some show ?thesis by auto
    qed simp
    note eq = this
    have pass_iff: "gates_pass required gs \<longleftrightarrow>
        (\<forall>n \<in> set required. reported gs n = Some ''passed'')
        \<and> (\<forall>g \<in> set gs. ge_status g \<noteq> ''failed'')"
      unfolding gates_pass_def reported_Some [OF dist] ..
    show ?thesis
    proof (cases "\<forall>g \<in> set gs. ge_status g \<noteq> ''failed''")
      case True
      show ?thesis unfolding pass_iff eq [OF True, symmetric] by blast
    next
      case False
      then show ?thesis unfolding pass_iff by blast
    qed
  qed
  finally show ?thesis .
qed

lemma decide_reason: "passed (decide req d) \<longleftrightarrow> failure_reason (decide req d) = None"
  by (simp add: decide_def Let_def split: option.splits prod.splits)

lemma validate_gate_name_Inr: "validate_gate_name n = Inr m \<Longrightarrow> m = n"
  by (auto simp: validate_gate_name_def res_simps)

lemma validate_required_Inr:
  "validate_required_gates req = Inr r \<longleftrightarrow>
     r = req \<and> req \<noteq> [] \<and> distinct req \<and> (\<forall>n \<in> set req. validate_gate_name n = Inr n)"
proof -
  have "mapE validate_gate_name req = Inr r \<longleftrightarrow>
      r = req \<and> (\<forall>n \<in> set req. validate_gate_name n = Inr n)"
  proof
    assume m: "mapE validate_gate_name req = Inr r"
    then have "r = req" by (rule mapE_fixed) (rule validate_gate_name_Inr)
    with m show "r = req \<and> (\<forall>n \<in> set req. validate_gate_name n = Inr n)"
      by (auto simp: mapE_eq_Inr_iff list_all2_same)
  next
    assume "r = req \<and> (\<forall>n \<in> set req. validate_gate_name n = Inr n)"
    then show "mapE validate_gate_name req = Inr r" by (simp add: mapE_Inr_self)
  qed
  then show ?thesis by (auto simp: validate_required_gates_def res_simps)
qed

lemma evaluate_Inr:
  "evaluate_gate_evidence gs req = Inr ev \<longleftrightarrow>
     validate_required_gates req = Inr req \<and> list_all gate_ok gs \<and> distinct (map ge_name gs)
     \<and> ev = decide req (map named_row gs)"
  by (auto simp: evaluate_gate_evidence_def res_simps collect_evidence_Inr validate_required_Inr)

lemma evaluate_passed:
  "evaluate_gate_evidence gs req = Inr ev \<Longrightarrow> passed ev \<longleftrightarrow> gates_pass req gs"
  by (auto simp: evaluate_Inr decide_passed_iff)

lemma evaluate_explained:
  "evaluate_gate_evidence gs req = Inr ev \<Longrightarrow> gates_pass req gs \<longleftrightarrow> failure_reason ev = None"
  using evaluate_passed [of gs req ev] by (auto simp: evaluate_Inr decide_reason)

lemma evaluate_required: "evaluate_gate_evidence gs req = Inr ev \<Longrightarrow> req \<noteq> []"
  by (simp add: evaluate_Inr validate_required_Inr)

section \<open>The evidence of a decision\<close>

text \<open>Nothing is dropped or invented: the rows are a rearrangement of the reported gates.\<close>

lemma decide_rows_failed:
  "\<not> passed (decide req d) \<Longrightarrow> evidence (decide req d) = map snd d"
  by (auto simp: decide_def Let_def split: option.splits)

lemma decide_rows_passed:
  "passed (decide req d) \<Longrightarrow> evidence (decide req d) = ordered_rows req d"
  by (auto simp: decide_def Let_def split: option.splits)

lemma ordered_rows_set:
  assumes "set req \<subseteq> fst ` set d" and "distinct (map fst d)"
  shows "set (ordered_rows req d) = snd ` set d"
proof -
  have "set (ordered_rows req d) = (\<lambda>n. case map_of d n of None \<Rightarrow> [] | Some r \<Rightarrow> r) ` (fst ` set d)"
    using assms(1) by (auto simp: ordered_rows_def)
  also have "\<dots> = snd ` set d"
    using assms(2) by (force simp: image_image)
  finally show ?thesis .
qed

section \<open>The interface\<close>

text \<open>What a client of a gate evaluator may rely on.\<close>

locale gate_evaluator =
  fixes evaluate :: "gate_evidence list \<Rightarrow> string list \<Rightarrow> gate_evaluation result"
  assumes fail_closed: "evaluate gs req = Inr ev \<Longrightarrow> passed ev \<Longrightarrow> gates_pass req gs"
    and complete: "evaluate gs req = Inr ev \<Longrightarrow> gates_pass req gs \<Longrightarrow> passed ev"
    and explained: "evaluate gs req = Inr ev \<Longrightarrow> passed ev \<longleftrightarrow> failure_reason ev = None"
    and required_nonempty: "evaluate gs req = Inr ev \<Longrightarrow> req \<noteq> []"
begin

lemma no_evidence_no_pass: "evaluate [] req = Inr ev \<Longrightarrow> \<not> passed ev"
  using fail_closed [of "[]" req ev] required_nonempty [of "[]" req ev]
  by (auto simp: gates_pass_def)

lemma required_gate_passed:
  "evaluate gs req = Inr ev \<Longrightarrow> passed ev \<Longrightarrow> n \<in> set req \<Longrightarrow>
   \<exists>g \<in> set gs. ge_name g = n \<and> ge_status g = ''passed''"
  using fail_closed by (fastforce simp: gates_pass_def)

lemma failed_gate_blocks:
  "evaluate gs req = Inr ev \<Longrightarrow> g \<in> set gs \<Longrightarrow> ge_status g = ''failed'' \<Longrightarrow> \<not> passed ev"
  using fail_closed by (fastforce simp: gates_pass_def)

text \<open>Requiring fewer gates never turns a pass into a refusal.\<close>

lemma antimono_required:
  "evaluate gs req = Inr ev \<Longrightarrow> evaluate gs req' = Inr ev' \<Longrightarrow> set req' \<subseteq> set req \<Longrightarrow>
   passed ev \<Longrightarrow> passed ev'"
  using fail_closed [of gs req ev] complete [of gs req' ev'] by (auto simp: gates_pass_def)

end

interpretation gates: gate_evaluator evaluate_gate_evidence
  by unfold_locales
    (auto simp: evaluate_passed evaluate_explained dest: evaluate_required)

lemma evaluate_rows:
  assumes "evaluate_gate_evidence gs req = Inr ev"
  shows "set (evidence ev) = evidence_row ` set gs"
proof (cases "passed ev")
  case False
  then show ?thesis using assms by (simp add: evaluate_Inr decide_rows_failed)
next
  case True
  have "set req \<subseteq> fst ` set (map named_row gs)"
    using gates.required_gate_passed [OF assms True] by (force simp: image_iff)
  then show ?thesis
    using assms True by (simp add: evaluate_Inr decide_rows_passed ordered_rows_set o_def image_image)
qed

section \<open>Properties\<close>

text \<open>
  C13: The gate decision is fail-closed and exact. For accepted evidence the evaluator says
  \<open>passed\<close> if and only if every required gate is reported with status \<open>passed\<close> and no
  reported gate, required or not, has failed; a refusal always carries a reason and a pass
  never does; and the evidence rows are exactly those of the reported gates, none dropped.
\<close>
theorem gate_decision:
  assumes "evaluate_gate_evidence gs required = Inr ev"
  shows "(passed ev \<longleftrightarrow>
      (\<forall>n \<in> set required. \<exists>g \<in> set gs. ge_name g = n \<and> ge_status g = ''passed'')
      \<and> (\<forall>g \<in> set gs. ge_status g \<noteq> ''failed''))
    \<and> (passed ev \<longleftrightarrow> failure_reason ev = None)
    \<and> set (evidence ev) = evidence_row ` set gs" (is "?exact \<and> ?reason \<and> ?rows")
proof (intro conjI)
  show ?exact using gates.fail_closed [OF assms] gates.complete [OF assms] gates_pass_def by blast
  show ?reason by (rule gates.explained [OF assms])
  show ?rows by (rule evaluate_rows [OF assms])
qed

definition sample_gates :: "gate_evidence list" where
  "sample_gates = [\<lparr>ge_name = ''health'', ge_status = ''passed'', ge_target = ''t'', ge_reason = []\<rparr>,
     \<lparr>ge_name = ''smoke'', ge_status = ''skipped'', ge_target = ''t'', ge_reason = ''off''\<rparr>]"

lemma known_gate_names: "n \<in> set KNOWN_GATES \<Longrightarrow> fullmatch SAFE_NAME_RE n"
  by (auto simp: KNOWN_GATES_def DEFAULT_REQUIRED_GATES_def SAFE_NAME_RE_def fullmatch_anchored
      fullmatch_ident ident_shape_def safe_name_tail_def is_lower_def in_range_def code_def)

lemma validate_gate_name_iff: "validate_gate_name n = Inr n \<longleftrightarrow> n \<in> set KNOWN_GATES"
  using known_gate_names by (auto simp: validate_gate_name_def res_simps)

lemma short_safe_scalar:
  assumes "length v < 4" and "LF \<notin> set v" and "CR \<notin> set v" and "b \<or> v \<noteq> []"
  shows "safe_scalar n b v = Inr v"
proof -
  have "min_len GATE_SECRET_LIKE_RE = 4" by code_simp
  then show ?thesis
    using assms short_no_search [of v GATE_SECRET_LIKE_RE] by (auto simp: safe_scalar_def scalar_check_def)
qed

lemma sample_gates_ok: "list_all gate_ok sample_gates"
  by (simp add: sample_gates_def gate_ok_def sanitized_evidence_def validate_gate_name_iff
      KNOWN_GATES_def DEFAULT_REQUIRED_GATES_def ALLOWED_STATUSES_def short_safe_scalar LF_def CR_def
      validate_gate_name_def known_gate_names)

lemma sample_required: "validate_required_gates [''health''] = Inr [''health'']"
  by (simp add: validate_required_Inr validate_gate_name_iff KNOWN_GATES_def DEFAULT_REQUIRED_GATES_def)

lemma sample_evaluate:
  "evaluate_gate_evidence sample_gates [''health''] =
     Inr (decide [''health''] (map named_row sample_gates))"
  using sample_gates_ok sample_required by (simp add: evaluate_Inr sample_gates_def)

theorem gate_decision_witness:
  "passed (decide [''health''] (map named_row sample_gates))"
  using gate_decision [OF sample_evaluate] by (simp add: sample_gates_def)

text \<open>
  Evidence is accepted exactly when the required gates are a non-empty list of distinct
  known gate names and every reported gate is well formed with no name repeated; the
  evaluator never answers for anything else.
\<close>
lemma gate_evidence_accepted:
  "(\<exists>ev. evaluate_gate_evidence gs required = Inr ev) \<longleftrightarrow>
     required \<noteq> [] \<and> distinct required \<and> set required \<subseteq> set KNOWN_GATES
     \<and> distinct (map ge_name gs)
     \<and> list_all (\<lambda>g. ge_name g \<in> set KNOWN_GATES
          \<and> ge_status g \<in> {''passed'', ''failed'', ''skipped''}
          \<and> safe_scalar ''gate target'' False (ge_target g) = Inr (ge_target g)
          \<and> safe_scalar ''gate reason'' True (ge_reason g) = Inr (ge_reason g)) gs"
proof -
  note known = validate_gate_name_iff
  have scalar: "safe_scalar n b v = Inr w \<Longrightarrow> safe_scalar n b v = Inr v" for n b v w
    by (auto simp: safe_scalar_def scalar_check_def split: if_splits)
  have gate: "gate_ok g \<longleftrightarrow> ge_name g \<in> set KNOWN_GATES
      \<and> ge_status g \<in> {''passed'', ''failed'', ''skipped''}
      \<and> safe_scalar ''gate target'' False (ge_target g) = Inr (ge_target g)
      \<and> safe_scalar ''gate reason'' True (ge_reason g) = Inr (ge_reason g)" for g
  proof -
    have "validate_gate_name (ge_name g) = Inr m \<longleftrightarrow> m = ge_name g \<and> ge_name g \<in> set KNOWN_GATES" for m
      using known validate_gate_name_Inr by blast
    then show ?thesis
      by (auto simp: gate_ok_def sanitized_evidence_def res_simps ALLOWED_STATUSES_def dest: scalar)
  qed
  show ?thesis
    unfolding evaluate_Inr validate_required_Inr by (auto simp: known gate list_all_iff)
qed

end
