(* ===== verification/FileSystem.thy ===== *)
theory FileSystem
  imports PyText
begin

text \<open>
  The file system as the delivery code sees it through \<open>pathlib\<close>: a partial map from
  canonical absolute paths (lists of names) to files, directories and symbolic links, and a
  current directory. \<open>walk\<close> is the resolution loop of \<open>os.path.realpath\<close>: it follows links,
  steps up on \<open>..\<close>, and in strict mode fails on a missing component. A chain of more than
  \<open>link_limit\<close> links is a loop, which \<open>Path.resolve\<close> reports as \<open>RuntimeError\<close>; a path on
  which no link is met does not depend on that bound (\<open>walk_plain\<close>). Permissions are not
  modelled. The lemmas say when the sources' component-wise symlink check makes
  resolution purely lexical, which is what their confinement checks rest on.
\<close>

section \<open>Paths and nodes\<close>

datatype path = Path (is_abs: bool) (parts: "string list")

datatype node = File string | Dir | Link string

record fsys =
  nodes :: "string list \<Rightarrow> node option"
  cwd :: "string list"

definition dotdot :: string where "dotdot = ''..''"

text \<open>\<open>Path(text)\<close>: empty and \<open>.\<close> components vanish, \<open>..\<close> stays.\<close>

definition parse_path :: "string \<Rightarrow> path" where
  "parse_path s = Path (prefix ''/'' s)
     (filter (\<lambda>p. p \<noteq> [] \<and> p \<noteq> ''.'') (split_char CHR ''/'' s))"

text \<open>\<open>path / name\<close> for a one-component relative name\<close>

definition child :: "path \<Rightarrow> string \<Rightarrow> path" where
  "child p x = Path (is_abs p) (parts p @ [x])"

text \<open>\<open>path if path.is_absolute() else Path.cwd() / path\<close>\<close>

definition absolute :: "fsys \<Rightarrow> path \<Rightarrow> path" where
  "absolute fs p = (if is_abs p then p else Path True (cwd fs @ parts p))"

definition lookup :: "fsys \<Rightarrow> string list \<Rightarrow> node option" where
  "lookup fs p = (if p = [] then Some Dir else nodes fs p)"

section \<open>Resolution\<close>

definition link_limit :: nat where "link_limit = 40"

definition enoent :: exc where "enoent = Exc OSError ''No such file or directory''"
definition eloop :: exc where "eloop = Exc RuntimeError ''Symlink loop''"

function walk :: "fsys \<Rightarrow> bool \<Rightarrow> nat \<Rightarrow> string list \<Rightarrow> string list \<Rightarrow> string list result" where
  "walk fs strict n cur [] = Inr cur"
| "walk fs strict n cur (x # xs) =
     (if x = dotdot then walk fs strict n (butlast cur) xs
      else (case lookup fs (cur @ [x]) of
        None \<Rightarrow> if strict then Inl enoent else walk fs strict n (cur @ [x]) xs
      | Some (Link t) \<Rightarrow>
          (case n of
             0 \<Rightarrow> Inl eloop
           | Suc m \<Rightarrow> walk fs strict m (if is_abs (parse_path t) then [] else cur)
                        (parts (parse_path t) @ xs))
      | Some (File _) \<Rightarrow> walk fs strict n (cur @ [x]) xs
      | Some Dir \<Rightarrow> walk fs strict n (cur @ [x]) xs))"
  by pat_completeness auto
termination
  by (relation "measures [\<lambda>(fs, strict, n, cur, xs). n, \<lambda>(fs, strict, n, cur, xs). length xs]")
    auto

text \<open>\<open>path.resolve(strict=...)\<close>\<close>

definition resolve :: "fsys \<Rightarrow> bool \<Rightarrow> path \<Rightarrow> string list result" where
  "resolve fs strict p = walk fs strict link_limit [] (parts (absolute fs p))"

definition is_link_at :: "fsys \<Rightarrow> string list \<Rightarrow> bool" where
  "is_link_at fs p = (case lookup fs p of Some (Link _) \<Rightarrow> True | _ \<Rightarrow> False)"

text \<open>
  \<open>path.is_symlink()\<close> for an absolute path: links on the way to the last component are
  followed, the last one is not; an unreachable path is not a link.
\<close>

definition is_symlink :: "fsys \<Rightarrow> string list \<Rightarrow> bool" where
  "is_symlink fs ps \<longleftrightarrow> ps \<noteq> [] \<and> last ps \<noteq> dotdot \<and>
     (case walk fs True link_limit [] (butlast ps) of
        Inl _ \<Rightarrow> False | Inr d \<Rightarrow> is_link_at fs (d @ [last ps]))"

definition path_exists :: "fsys \<Rightarrow> string list \<Rightarrow> bool" where
  "path_exists fs ps = (case walk fs True link_limit [] ps of Inl _ \<Rightarrow> False | Inr _ \<Rightarrow> True)"

definition is_dir :: "fsys \<Rightarrow> string list \<Rightarrow> bool" where
  "is_dir fs ps = (case walk fs True link_limit [] ps of
     Inl _ \<Rightarrow> False | Inr r \<Rightarrow> lookup fs r = Some Dir)"

definition is_file :: "fsys \<Rightarrow> string list \<Rightarrow> bool" where
  "is_file fs ps = (case walk fs True link_limit [] ps of
     Inl _ \<Rightarrow> False | Inr r \<Rightarrow> (case lookup fs r of Some (File _) \<Rightarrow> True | _ \<Rightarrow> False))"

text \<open>
  The loop the sources call \<open>_reject_symlink_components\<close>: is a non-empty prefix of the
  absolute path a symbolic link?
\<close>

definition symlink_component :: "fsys \<Rightarrow> string list \<Rightarrow> bool" where
  "symlink_component fs ps = list_ex (is_symlink fs) (tl (prefixes ps))"

text \<open>\<open>root in path.parents\<close>\<close>

definition in_parents :: "string list \<Rightarrow> string list \<Rightarrow> bool" where
  "in_parents root p = strict_prefix root p"

section \<open>Updates\<close>

definition put_node :: "string list \<Rightarrow> node \<Rightarrow> fsys \<Rightarrow> fsys" where
  "put_node p nd fs = fs\<lparr>nodes := (nodes fs)(p \<mapsto> nd)\<rparr>"

text \<open>\<open>shutil.rmtree(path)\<close>: the directory and everything below it\<close>

definition remove_tree :: "string list \<Rightarrow> fsys \<Rightarrow> fsys" where
  "remove_tree p fs = fs\<lparr>nodes := (\<lambda>q. if prefix p q then None else nodes fs q)\<rparr>"

section \<open>Well-formed file systems and lexical resolution\<close>

text \<open>What every POSIX file system guarantees: a node lies in a directory and is not named \<open>..\<close>.\<close>

definition fs_wf :: "fsys \<Rightarrow> bool" where
  "fs_wf fs \<longleftrightarrow>
     (\<forall>p x. lookup fs (p @ [x]) \<noteq> None \<longrightarrow> lookup fs p = Some Dir \<and> x \<noteq> dotdot)"

text \<open>Lexical normalisation: \<open>..\<close> drops the component before it.\<close>

fun normal :: "string list \<Rightarrow> string list \<Rightarrow> string list" where
  "normal cur [] = cur"
| "normal cur (x # xs) = (if x = dotdot then normal (butlast cur) xs else normal (cur @ [x]) xs)"

text \<open>No link is met when the path is walked lexically from \<open>cur\<close>.\<close>

fun plain :: "fsys \<Rightarrow> string list \<Rightarrow> string list \<Rightarrow> bool" where
  "plain fs cur [] = True"
| "plain fs cur (x # xs) =
     (if x = dotdot then plain fs (butlast cur) xs
      else \<not> is_link_at fs (cur @ [x]) \<and> plain fs (cur @ [x]) xs)"

declare walk.simps(2) [simp del]

lemma walk_Cons_dotdot [simp]:
  "walk fs strict n cur (dotdot # xs) = walk fs strict n (butlast cur) xs"
  by (simp add: walk.simps(2))

lemma walk_Cons_plain:
  "x \<noteq> dotdot \<Longrightarrow> \<not> is_link_at fs (cur @ [x]) \<Longrightarrow>
   walk fs strict n cur (x # xs) =
     (if strict \<and> lookup fs (cur @ [x]) = None then Inl enoent else walk fs strict n (cur @ [x]) xs)"
  by (auto simp: walk.simps(2) is_link_at_def split: option.splits node.splits)

lemma walk_plain_lenient:
  "plain fs cur ps \<Longrightarrow> walk fs False n cur ps = Inr (normal cur ps)"
proof (induction ps arbitrary: cur)
  case (Cons x xs)
  then show ?case
    by (cases "x = dotdot") (auto simp: walk_Cons_plain)
qed simp

lemma walk_plain_strict:
  "plain fs cur ps \<Longrightarrow> walk fs True n cur ps = Inr (normal cur ps) \<or> walk fs True n cur ps = Inl enoent"
proof (induction ps arbitrary: cur)
  case (Cons x xs)
  show ?case
  proof (cases "x = dotdot")
    case True
    with Cons show ?thesis by simp
  next
    case False
    with Cons.prems have "\<not> is_link_at fs (cur @ [x])" "plain fs (cur @ [x]) xs"
      by auto
    with False Cons.IH [of "cur @ [x]"] show ?thesis
      by (simp add: walk_Cons_plain)
  qed
qed simp

lemma walk_plain_InrD:
  "plain fs cur ps \<Longrightarrow> walk fs True n cur ps = Inr r \<Longrightarrow> r = normal cur ps"
  using walk_plain_strict [of fs cur ps n] by auto

text \<open>On such a path the link bound plays no role.\<close>

lemma walk_plain:
  "plain fs cur ps \<Longrightarrow> walk fs strict n cur ps = walk fs strict m cur ps"
proof (induction ps arbitrary: cur)
  case (Cons x xs)
  then show ?case
    by (cases "x = dotdot") (auto simp: walk_Cons_plain)
qed simp

lemma normal_append [simp]: "normal cur (ps @ qs) = normal (normal cur ps) qs"
  by (induction ps arbitrary: cur) auto

lemma plain_append:
  "plain fs cur (ps @ qs) \<longleftrightarrow> plain fs cur ps \<and> plain fs (normal cur ps) qs"
  by (induction ps arbitrary: cur) auto

lemma normal_no_dotdot: "dotdot \<notin> set ps \<Longrightarrow> normal cur ps = cur @ ps"
  by (induction ps arbitrary: cur) auto

lemma walk_prefix_succeeds:
  "walk fs strict n cur (ps @ qs) = Inr r \<Longrightarrow> \<exists>c. walk fs strict n cur ps = Inr c"
proof (induction fs strict n cur ps rule: walk.induct)
  case (1 fs strict n cur)
  then show ?case by simp
next
  case (2 fs strict n cur x xs)
  show ?case
  proof (cases "x = dotdot")
    case True
    with 2 show ?thesis by auto
  next
    case False
    note IH = 2(2-5)[OF False]
    have eq: "walk fs strict n cur (x # xs @ qs) = Inr r"
      using 2 by simp
    show ?thesis
    proof (cases "lookup fs (cur @ [x])")
      case None
      with eq False IH(1)[OF None] show ?thesis
        by (auto simp: walk.simps(2) split: if_splits)
    next
      case (Some nd)
      show ?thesis
      proof (cases nd)
        case (Link t)
        with Some False eq obtain m where "n = Suc m"
          by (cases n) (auto simp: walk.simps(2))
        with Some False eq Link IH(4)[OF Some Link, of m] show ?thesis
          by (simp add: walk.simps(2))
      qed (use Some False eq IH(2-3)[OF Some] in \<open>auto simp: walk.simps(2)\<close>)
    qed
  qed
qed

lemma symlink_component_snoc:
  "symlink_component fs (ps @ [x]) \<longleftrightarrow> symlink_component fs ps \<or> is_symlink fs (ps @ [x])"
  by (cases ps) (auto simp: symlink_component_def prefixes_snoc)

text \<open>
  The symlink check makes strict resolution lexical: if no component is a link and the
  path resolves, then it resolves to its lexical normal form.
\<close>

lemma no_symlink_plain:
  "\<not> symlink_component fs ps \<Longrightarrow> walk fs True link_limit [] ps = Inr r \<Longrightarrow> plain fs [] ps"
proof (induction ps arbitrary: r rule: rev_induct)
  case Nil
  then show ?case by simp
next
  case (snoc x xs)
  obtain c where c: "walk fs True link_limit [] xs = Inr c"
    using walk_prefix_succeeds snoc.prems(2) by blast
  then have pl: "plain fs [] xs"
    using snoc by (simp add: symlink_component_snoc)
  then have "c = normal [] xs"
    using c by (rule walk_plain_InrD)
  moreover have "\<not> is_symlink fs (xs @ [x])"
    using snoc.prems(1) by (simp add: symlink_component_snoc)
  ultimately show ?case
    using pl c by (auto simp: plain_append is_symlink_def)
qed

lemma resolve_strict_normal:
  assumes "\<not> symlink_component fs (parts (absolute fs p))" and "resolve fs True p = Inr r"
  shows "r = normal [] (parts (absolute fs p))"
proof -
  have "plain fs [] (parts (absolute fs p))"
    using assms by (auto simp: resolve_def intro: no_symlink_plain)
  then show ?thesis
    using assms(2) by (auto simp: resolve_def dest: walk_plain_InrD)
qed

text \<open>Such a path is either resolved or missing; a link loop cannot arise.\<close>

lemma walk_prefix_fails:
  "walk fs strict n cur ps = Inl e \<Longrightarrow> walk fs strict n cur (ps @ qs) = Inl e"
proof (induction fs strict n cur ps rule: walk.induct)
  case (1 fs strict n cur)
  then show ?case by simp
next
  case (2 fs strict n cur x xs)
  show ?case
  proof (cases "x = dotdot")
    case True
    with 2 show ?thesis by auto
  next
    case False
    note IH = 2(2-5)[OF False]
    have eq: "walk fs strict n cur (x # xs) = Inl e" using 2 by simp
    show ?thesis
    proof (cases "lookup fs (cur @ [x])")
      case None
      with eq False IH(1)[OF None] show ?thesis
        by (auto simp: walk.simps(2) split: if_splits)
    next
      case (Some nd)
      show ?thesis
      proof (cases nd)
        case (Link t)
        with Some False eq IH(4)[OF Some Link] show ?thesis
          by (cases n) (auto simp: walk.simps(2))
      qed (use Some False eq IH(2-3)[OF Some] in \<open>auto simp: walk.simps(2)\<close>)
    qed
  qed
qed

lemma no_symlink_resolved_or_missing:
  "\<not> symlink_component fs ps \<Longrightarrow> walk fs True link_limit [] ps = Inl e \<Longrightarrow> e = enoent"
proof (induction ps arbitrary: e rule: rev_induct)
  case (snoc x xs)
  have xs: "\<not> symlink_component fs xs" "\<not> is_symlink fs (xs @ [x])"
    using snoc.prems(1) by (simp_all add: symlink_component_snoc)
  show ?case
  proof (cases "walk fs True link_limit [] xs")
    case (Inl e')
    then show ?thesis
      using snoc.IH [OF xs(1)] walk_prefix_fails [OF Inl, of "[x]"] snoc.prems(2) by auto
  next
    case (Inr c)
    then have "plain fs [] xs" using xs(1) no_symlink_plain by blast
    moreover from this have "c = normal [] xs" using Inr by (rule walk_plain_InrD)
    ultimately have "plain fs [] (xs @ [x])"
      using xs(2) Inr by (auto simp: plain_append is_symlink_def)
    then show ?thesis
      using walk_plain_strict [of fs "[]" "xs @ [x]" link_limit] snoc.prems(2) by auto
  qed
qed simp

section \<open>Well-formedness\<close>

lemma fs_wf_parent: "fs_wf fs \<Longrightarrow> lookup fs (p @ [x]) \<noteq> None \<Longrightarrow> lookup fs p = Some Dir"
  by (simp add: fs_wf_def)

lemma fs_wf_missing: "fs_wf fs \<Longrightarrow> lookup fs p = None \<Longrightarrow> lookup fs (p @ q) = None"
proof (induction q rule: rev_induct)
  case (snoc x xs)
  then show ?case
    using fs_wf_parent [of fs "p @ xs" x] by (cases "lookup fs (p @ xs @ [x])") auto
qed simp

lemma fs_wf_prefix_dir:
  assumes "fs_wf fs" and "lookup fs p \<noteq> None" and "strict_prefix q p"
  shows "lookup fs q = Some Dir"
proof -
  obtain x t where p: "p = q @ x # t"
    using assms(3) by (auto elim: strict_prefixE')
  then have "lookup fs (q @ [x]) \<noteq> None"
    using fs_wf_missing [of fs "q @ [x]" t] assms(1,2) by force
  then show ?thesis using assms(1) fs_wf_parent by blast
qed

lemma fs_wf_no_dotdot: "fs_wf fs \<Longrightarrow> lookup fs p \<noteq> None \<Longrightarrow> dotdot \<notin> set p"
proof (induction p rule: rev_induct)
  case (snoc x xs)
  then show ?case
    using fs_wf_parent [of fs xs x] by (auto simp: fs_wf_def)
qed simp

text \<open>A settled path: it exists and is no link; what resolution returns.\<close>

definition settled :: "fsys \<Rightarrow> string list \<Rightarrow> bool" where
  "settled fs p \<longleftrightarrow> lookup fs p \<noteq> None \<and> \<not> is_link_at fs p"

lemma settled_Nil [simp]: "settled fs []"
  by (simp add: settled_def lookup_def is_link_at_def)

lemma settled_butlast: "fs_wf fs \<Longrightarrow> settled fs p \<Longrightarrow> settled fs (butlast p)"
  by (cases p rule: rev_cases) (auto simp: settled_def is_link_at_def dest: fs_wf_parent)

lemma walk_settled:
  "walk fs strict n cur ps = Inr r \<Longrightarrow> strict \<Longrightarrow> fs_wf fs \<Longrightarrow> settled fs cur \<Longrightarrow> settled fs r"
proof (induction fs strict n cur ps rule: walk.induct)
  case (1 fs strict n cur)
  then show ?case by simp
next
  case (2 fs strict n cur x xs)
  show ?case
  proof (cases "x = dotdot")
    case True
    with 2 settled_butlast show ?thesis by auto
  next
    case False
    note IH = 2(2-5)[OF False]
    have file_or_dir: "settled fs (cur @ [x])" if "lookup fs (cur @ [x]) = Some nd" "\<forall>t. nd \<noteq> Link t"
      for nd
      using that by (cases nd) (auto simp: settled_def is_link_at_def)
    have prems: "walk fs strict n cur (x # xs) = Inr r" strict "fs_wf fs" "settled fs cur"
      using 2(6-9) by simp_all
    show ?thesis
    proof (cases "lookup fs (cur @ [x])")
      case None
      with prems False show ?thesis by (simp add: walk.simps(2))
    next
      case (Some nd)
      show ?thesis
      proof (cases nd)
        case (Link t)
        with Some False prems obtain m where "n = Suc m"
          by (cases n) (auto simp: walk.simps(2))
        with Some False prems Link IH(4)[OF Some Link, of m] show ?thesis
          by (simp add: walk.simps(2))
      qed (use Some False prems IH(2-3)[OF Some] file_or_dir in \<open>auto simp: walk.simps(2)\<close>)
    qed
  qed
qed

lemma resolve_settled:
  "fs_wf fs \<Longrightarrow> resolve fs True p = Inr r \<Longrightarrow> settled fs r"
  by (auto simp: resolve_def intro: walk_settled)

lemma settled_plain:
  assumes "fs_wf fs" and "settled fs p"
  shows "plain fs [] p \<and> normal [] p = p"
proof -
  have "plain fs [] q" if "prefix q p" for q
    using that
  proof (induction q rule: rev_induct)
    case (snoc x xs)
    have no_dots: "dotdot \<notin> set (xs @ [x])"
      using fs_wf_no_dotdot [OF assms(1)] assms(2) set_mono_prefix [OF snoc.prems]
      by (auto simp: settled_def)
    have "\<not> is_link_at fs (xs @ [x])"
    proof (cases "xs @ [x] = p")
      case True
      with assms(2) show ?thesis by (simp add: settled_def)
    next
      case False
      with snoc.prems have "strict_prefix (xs @ [x]) p" by (simp add: strict_prefix_def)
      then have "lookup fs (xs @ [x]) = Some Dir"
        using fs_wf_prefix_dir assms by (auto simp: settled_def)
      then show ?thesis by (simp add: is_link_at_def)
    qed
    moreover have "plain fs [] xs"
      using snoc append_prefixD by blast
    ultimately show ?case
      using no_dots by (simp add: plain_append normal_no_dotdot)
  qed simp
  then show ?thesis
    using fs_wf_no_dotdot [OF assms(1)] assms(2) by (simp add: settled_def normal_no_dotdot)
qed

lemma settled_walk:
  assumes "fs_wf fs" and "settled fs p"
  shows "walk fs True n [] p = Inr p"
proof -
  have strict: "lookup fs q \<noteq> None" if "prefix q p" for q
    using that fs_wf_prefix_dir [OF assms(1)] assms(2)
    by (cases "q = p") (auto simp: settled_def strict_prefix_def)
  have "walk fs True n q t = Inr p" if "p = q @ t" for q t
    using that
  proof (induction t arbitrary: q)
    case (Cons x xs)
    have "prefix (q @ [x]) p" using Cons.prems by simp
    then have ex: "lookup fs (q @ [x]) \<noteq> None" by (rule strict)
    have "x \<noteq> dotdot"
      using fs_wf_no_dotdot [OF assms(1) ex] by auto
    moreover have "dotdot \<notin> set q"
      using fs_wf_no_dotdot [OF assms(1) ex] by auto
    then have "\<not> is_link_at fs (q @ [x])"
      using settled_plain [OF assms] Cons.prems \<open>x \<noteq> dotdot\<close>
      by (auto simp: plain_append normal_no_dotdot)
    ultimately show ?case
      using Cons ex by (simp add: walk_Cons_plain)
  qed simp
  then show ?thesis by simp
qed

lemma settled_is_dir: "fs_wf fs \<Longrightarrow> settled fs p \<Longrightarrow> is_dir fs p \<longleftrightarrow> lookup fs p = Some Dir"
  by (simp add: is_dir_def settled_walk)

lemma settled_is_file:
  "fs_wf fs \<Longrightarrow> settled fs p \<Longrightarrow> is_file fs p \<longleftrightarrow> (\<exists>c. lookup fs p = Some (File c))"
  by (simp add: is_file_def settled_walk split: option.splits node.splits)

lemma settled_not_symlink:
  assumes "fs_wf fs" and "settled fs p"
  shows "\<not> is_symlink fs p"
proof (cases p rule: rev_cases)
  case Nil
  then show ?thesis by (simp add: is_symlink_def)
next
  case (snoc q x)
  have "settled fs q" using settled_butlast [OF assms] snoc by simp
  then show ?thesis
    using assms snoc by (simp add: is_symlink_def settled_walk settled_def)
qed

section \<open>The interface of a confined path check\<close>

text \<open>
  Every module that takes a path from a caller checks it in the same way: no symbolic
  link among its components, strict resolution, and the result strictly below a root. A
  \<open>confined_guard\<close> is such a check for nodes of one kind; the modules interpret it with
  their own function and error class.
\<close>

locale confined_guard =
  fixes guard :: "fsys \<Rightarrow> path \<Rightarrow> string list \<Rightarrow> string list result"
    and kind :: "node \<Rightarrow> bool"
  assumes below: "guard fs p root = Inr r \<Longrightarrow> strict_prefix root r"
    and lexical: "guard fs p root = Inr r \<Longrightarrow> r = normal [] (parts (absolute fs p))"
    and right_kind: "fs_wf fs \<Longrightarrow> guard fs p root = Inr r \<Longrightarrow> \<exists>nd. lookup fs r = Some nd \<and> kind nd"
begin

lemma not_root: "guard fs p root = Inr r \<Longrightarrow> r \<noteq> root"
  using below by (auto simp: strict_prefix_def)

lemma nested: "guard fs p root = Inr r \<Longrightarrow> prefix base root \<Longrightarrow> strict_prefix base r"
  using below prefix_order.le_less_trans by blast

lemma ancestors_dirs:
  "fs_wf fs \<Longrightarrow> guard fs p root = Inr r \<Longrightarrow> strict_prefix q r \<Longrightarrow> lookup fs q = Some Dir"
  using right_kind fs_wf_prefix_dir by blast

lemma root_dir: "fs_wf fs \<Longrightarrow> guard fs p root = Inr r \<Longrightarrow> lookup fs root = Some Dir"
  using ancestors_dirs below by blast

text \<open>Two checks of the same path agree, whatever their roots.\<close>

lemma agree: "guard fs p root = Inr r \<Longrightarrow> guard fs p root' = Inr r' \<Longrightarrow> r = r'"
  using lexical by metis

text \<open>Paths confined to unrelated roots never coincide.\<close>

lemma separated:
  assumes "guard fs p root = Inr r" and "guard fs p' root' = Inr r'"
    and "\<not> prefix root root'" and "\<not> prefix root' root"
  shows "\<not> prefix r r'"
proof
  assume "prefix r r'"
  moreover have "prefix root r" "prefix root' r'"
    using below [OF assms(1)] below [OF assms(2)] by (simp_all add: strict_prefix_def)
  ultimately have "prefix root r'" "prefix root' r'"
    using prefix_order.trans by blast+
  then show False
    using assms(3,4) prefix_same_cases by blast
qed

end

end
