(* ===== verification/World.thy ===== *)
theory World
  imports FileSystem Complex_Main
begin

text \<open>
  The state the delivery code acts on: the file system, the contents of the snapshot
  archives in it (archive path to the archived relative paths), the monotonic clock and the
  lock files this process holds. It is an extensible record, so a provider callback (gate
  runner, git, rsync) may carry state of its own. A finished subprocess is its exit code
  and its standard output.
\<close>

type_synonym archive = "string list \<Rightarrow> node option"

record world =
  w_fs :: fsys
  w_tars :: "string list \<Rightarrow> archive option"
  w_clock :: rat
  w_held :: "string list list"

record completed =
  returncode :: int
  stdout :: "string option"

text \<open>\<open>completed.stdout or ""\<close>\<close>

definition stdout_text :: "completed \<Rightarrow> string" where
  "stdout_text c = (case stdout c of None \<Rightarrow> [] | Some s \<Rightarrow> s)"

text \<open>\<open>path.as_posix()\<close> of a resolved path, and \<open>text.rstrip("/")\<close>\<close>

definition posix_text :: "string list \<Rightarrow> string" where
  "posix_text p = CHR ''/'' # join_str ''/'' p"

text \<open>\<open>path.as_posix()\<close>\<close>

definition path_text :: "path \<Rightarrow> string" where
  "path_text p =
     (if is_abs p then posix_text (parts p) else if parts p = [] then ''.'' else join_str ''/'' (parts p))"

definition rstrip_slash :: "string \<Rightarrow> string" where
  "rstrip_slash s = rev (dropWhile (\<lambda>c. c = CHR ''/'') (rev s))"

definition on_fs :: "(fsys \<Rightarrow> 'a result) \<Rightarrow> ('x world_scheme, 'a) action" where
  "on_fs f w = (f (w_fs w), w)"

lemma on_fs_apply [simp, world_simps]: "on_fs f w = (f (w_fs w), w)"
  by (simp add: on_fs_def)

end
