(* ===== verification/Snapshot_Sync.thy ===== *)
theory Snapshot_Sync
  imports World PyRegex
begin

text \<open>
  Deployment synchronisation, \<open>scripts/delivery/snapshot_sync.py\<close>, with the path helpers it
  takes from \<open>scripts/delivery/checkout.py\<close>: confined path validation, the rsync command
  line, the snapshot filter and archive, and \<open>sync_deployment\<close>. The rsync runner is an
  argument, as in the source; what a run of rsync does to the destination is its affair.
\<close>

section \<open>Path helpers\<close>

definition checkout_error :: "string \<Rightarrow> exc" where "checkout_error m = Exc CheckoutError m"
definition sync_error :: "string \<Rightarrow> exc" where "sync_error m = Exc SyncError m"

definition reject_symlink_components :: "fsys \<Rightarrow> string list \<Rightarrow> unit result" where
  "reject_symlink_components fs ps =
     guardE (\<not> symlink_component fs ps)
       (checkout_error ''checkout path must not contain symlink components'') (Inr ())"

definition existing_directory :: "fsys \<Rightarrow> path \<Rightarrow> string \<Rightarrow> string list result" where
  "existing_directory fs p label =
     bindE (reject_symlink_components fs (parts (absolute fs p))) (\<lambda>_.
     bindE (except_raise (resolve fs True p) [OSError]
             (sync_error (label @ '' could not be resolved''))) (\<lambda>r.
     guardE (is_dir fs r) (sync_error (label @ '' must be a directory'')) (Inr r)))"

definition directory_below ::
    "string \<Rightarrow> fsys \<Rightarrow> path \<Rightarrow> string list \<Rightarrow> string list result" where
  "directory_below label fs p base =
     bindE (reject_symlink_components fs (parts (absolute fs p))) (\<lambda>_.
     bindE (except_raise (resolve fs True p) [OSError]
             (sync_error (label @ '' could not be resolved''))) (\<lambda>r.
     guardE (r \<noteq> base \<and> in_parents base r)
       (sync_error (label @ '' must remain below its declared root''))
       (guardE (is_dir fs r) (sync_error (label @ '' must be a directory'')) (Inr r))))"

definition validate_deployignore :: "fsys \<Rightarrow> path \<Rightarrow> string list \<Rightarrow> string list result" where
  "validate_deployignore fs p source =
     bindE (reject_symlink_components fs (parts (absolute fs p))) (\<lambda>_.
     bindE (except_raise (resolve fs True p) [OSError]
             (sync_error ''deployignore could not be resolved'')) (\<lambda>r.
     guardE (in_parents source r \<and> is_file fs r)
       (sync_error ''deployignore must be a regular file below the source'') (Inr r)))"

section \<open>Specification and validation\<close>

record sync_spec =
  sy_source :: path
  sy_destination :: path
  sy_snapshot_root :: path
  sy_source_root :: path
  sy_destination_root :: path
  sy_snapshot_enabled :: bool
  sy_deployignore :: "path option"
  sy_exclude_compose_file :: "string option"
  sy_snapshot_name :: "string option"

record sync_result =
  sr_changed :: bool
  sr_changed_entries :: int
  sr_snapshot_created :: bool
  sr_snapshot_name :: "string option"
  sr_synced :: bool

definition name_tail :: "char \<Rightarrow> bool" where
  "name_tail c \<longleftrightarrow> is_alnum c \<or> one_of ''_.-'' c"

definition SNAPSHOT_NAME_RE :: rx where
  "SNAPSHOT_NAME_RE = anchored (seqs [Cls is_alnum, Star (Cls name_tail), lit ''.tar.gz''])"

text \<open>\<open>PurePosixPath(value).as_posix()\<close> for a relative path\<close>

definition relative_posix :: "string \<Rightarrow> string" where
  "relative_posix v =
     (if parts (parse_path v) = [] then ''.'' else join_str ''/'' (parts (parse_path v)))"

definition validate_compose_exclude :: "string option \<Rightarrow> string option result" where
  "validate_compose_exclude value =
     (case value of
        None \<Rightarrow> Inr None
      | Some v \<Rightarrow>
          if v = [] \<or> v \<noteq> py_strip v \<or> starts_any [''/'', [backslash]] v \<or> has_char backslash v
             \<or> is_abs (parse_path v)
             \<or> list_ex (\<lambda>p. List.member [[], ''.'', ''..''] p) (parts (parse_path v))
          then Inl (sync_error ''excluded compose file must be a relative path'')
          else Inr (Some (relative_posix v)))"

text \<open>\<open>value or datetime.now(utc).strftime(...)\<close>; \<open>stamp\<close> is the formatted time.\<close>

definition snapshot_name :: "string \<Rightarrow> string option \<Rightarrow> string result" where
  "snapshot_name stamp value =
     (let name = (case value of None \<Rightarrow> stamp | Some v \<Rightarrow> if v = [] then stamp else v) in
      guardE (fullmatch SNAPSHOT_NAME_RE name)
        (sync_error ''snapshot name must be a safe .tar.gz filename'') (Inr name))"

record sync_paths =
  sp_source :: "string list"
  sp_destination :: "string list"
  sp_snapshot_root :: "string list"
  sp_deployignore :: "string list option"
  sp_compose_exclude :: "string option"
  sp_name :: string

definition validate_sync_spec :: "string \<Rightarrow> sync_spec \<Rightarrow> fsys \<Rightarrow> sync_paths result" where
  "validate_sync_spec stamp spec fs =
     bindE (existing_directory fs (sy_source_root spec) ''source root'') (\<lambda>source_root.
     bindE (existing_directory fs (sy_destination_root spec) ''destination root'') (\<lambda>destination_root.
     bindE (directory_below ''source'' fs (sy_source spec) source_root) (\<lambda>source.
     bindE (directory_below ''destination'' fs (sy_destination spec) destination_root) (\<lambda>destination.
     bindE (existing_directory fs (sy_snapshot_root spec) ''snapshot root'') (\<lambda>snapshot_root.
     bindE (case sy_deployignore spec of
              None \<Rightarrow> Inr None
            | Some p \<Rightarrow> bindE (validate_deployignore fs p source) (\<lambda>r. Inr (Some r))) (\<lambda>ignore.
     bindE (validate_compose_exclude (sy_exclude_compose_file spec)) (\<lambda>exclude.
     bindE (snapshot_name stamp (sy_snapshot_name spec)) (\<lambda>name.
       Inr \<lparr>sp_source = source, sp_destination = destination, sp_snapshot_root = snapshot_root,
            sp_deployignore = ignore, sp_compose_exclude = exclude, sp_name = name\<rparr>))))))))"

section \<open>The rsync command\<close>

definition RSYNC_BASE :: "string list" where
  "RSYNC_BASE =
     [''rsync'', ''-a'', ''--delete'', ''--exclude=.git'', ''--exclude=.github'',
      ''--exclude=.env'', ''--exclude=.env.*'', ''--exclude=.secrets'', ''--exclude=.secrets/'',
      ''--exclude=*.pem'', ''--exclude=*.key'', ''--exclude=*.p12'', ''--exclude=*.pfx'',
      ''--exclude=*.tar.gz'', ''--exclude=/backup/'']"

definition DRY_RUN_FLAGS :: "string list" where
  "DRY_RUN_FLAGS = [''--dry-run'', ''--itemize-changes'', ''--out-format=%i'']"

definition rsync_command :: "sync_paths \<Rightarrow> bool \<Rightarrow> string list" where
  "rsync_command p dry_run =
     RSYNC_BASE
     @ (case sp_compose_exclude p of None \<Rightarrow> [] | Some e \<Rightarrow> [''--exclude='' @ e])
     @ (case sp_deployignore p of None \<Rightarrow> [] | Some d \<Rightarrow> [''--exclude-from='' @ posix_text d])
     @ (if dry_run then DRY_RUN_FLAGS else [])
     @ [rstrip_slash (posix_text (sp_source p)) @ ''/'',
        rstrip_slash (posix_text (sp_destination p)) @ ''/'']"

type_synonym 'x runner = "string list \<Rightarrow> ('x world_scheme, completed) action"

definition run_rsync :: "'x runner \<Rightarrow> string list \<Rightarrow> ('x world_scheme, completed) action" where
  "run_rsync run command =
     bindW (exceptW (run command) [OSError] (sync_error ''rsync command could not be started''))
       (\<lambda>c. liftW (guardE (returncode c = 0) (sync_error ''rsync command failed'') (Inr c)))"

section \<open>The snapshot\<close>

definition PRIVATE_SUFFIXES :: "string list" where
  "PRIVATE_SUFFIXES = [''.pem'', ''.key'', ''.p12'', ''.pfx'']"

datatype tar_kind = TarFile | TarDir | TarSym | TarHardLink

record tar_member =
  tm_name :: string
  tm_kind :: tar_kind

definition private_component :: "string \<Rightarrow> bool" where
  "private_component c \<longleftrightarrow>
     c = ''.secrets'' \<or> c = ''.env'' \<or> prefix ''.env.'' c
     \<or> ends_any PRIVATE_SUFFIXES (py_lower c) \<or> suffix ''.tar.gz'' (py_lower c)"

definition member_components :: "string \<Rightarrow> string list" where
  "member_components name =
     (let p = parse_path (map (\<lambda>c. if c = backslash then CHR ''/'' else c) name)
      in (if is_abs p then [''/''] else []) @ parts p)"

definition snapshot_filter :: "tar_member \<Rightarrow> tar_member option" where
  "snapshot_filter m =
     (if tm_name m = ''.'' then Some m
      else if list_ex private_component (member_components (tm_name m)) then None
      else if tm_kind m = TarSym \<or> tm_kind m = TarHardLink then None
      else Some m)"

text \<open>
  \<open>archive.add(destination, arcname=".", recursive=True, filter=...)\<close>: the member for the
  relative path \<open>rel\<close> is \<open>./rel\<close>; a member the filter drops takes everything below it
  along. Hard links are members of a second name for one file; the file system model has
  one name per file, so only symbolic links arise.
\<close>

definition tar_name :: "string list \<Rightarrow> string" where
  "tar_name rel = join_str ''/'' (''.'' # rel)"

definition tar_kind_of :: "node \<Rightarrow> tar_kind" where
  "tar_kind_of nd = (case nd of File _ \<Rightarrow> TarFile | Dir \<Rightarrow> TarDir | Link _ \<Rightarrow> TarSym)"

definition member_kept :: "fsys \<Rightarrow> string list \<Rightarrow> string list \<Rightarrow> bool" where
  "member_kept fs dest rel =
     (case lookup fs (dest @ rel) of
        None \<Rightarrow> False
      | Some nd \<Rightarrow>
          snapshot_filter \<lparr>tm_name = tar_name rel, tm_kind = tar_kind_of nd\<rparr> \<noteq> None)"

definition archive_of :: "fsys \<Rightarrow> string list \<Rightarrow> archive" where
  "archive_of fs dest rel =
     (if list_all (member_kept fs dest) (prefixes rel) then lookup fs (dest @ rel) else None)"

text \<open>
  \<open>tar_fails\<close> says whether writing the archive or moving it into place raises \<open>OSError\<close> or
  \<open>TarError\<close>; then the temporary file is removed and nothing else has changed.
\<close>

definition create_snapshot ::
    "('x world_scheme \<Rightarrow> bool) \<Rightarrow> string list \<Rightarrow> string list \<Rightarrow> string \<Rightarrow> ('x world_scheme, unit) action" where
  "create_snapshot tar_fails dest snapshot_root name w =
     (let snap = snapshot_root @ [name] in
      if path_exists (w_fs w) snap then (Inl (sync_error ''snapshot already exists''), w)
      else if tar_fails w then (Inl (sync_error ''snapshot could not be created''), w)
      else (Inr (), w\<lparr>w_fs := put_node snap (File []) (w_fs w),
                      w_tars := (w_tars w)(snap \<mapsto> archive_of (w_fs w) dest)\<rparr>))"

section \<open>Synchronisation\<close>

definition unchanged_result :: sync_result where
  "unchanged_result = \<lparr>sr_changed = False, sr_changed_entries = 0, sr_snapshot_created = False,
     sr_snapshot_name = None, sr_synced = False\<rparr>"

definition changed_result :: "int \<Rightarrow> string option \<Rightarrow> sync_result" where
  "changed_result n name = \<lparr>sr_changed = True, sr_changed_entries = n,
     sr_snapshot_created = (name \<noteq> None), sr_snapshot_name = name, sr_synced = True\<rparr>"

definition sync_deployment ::
    "('x world_scheme \<Rightarrow> bool) \<Rightarrow> string \<Rightarrow> 'x runner \<Rightarrow> sync_spec \<Rightarrow> ('x world_scheme, sync_result) action" where
  "sync_deployment tar_fails stamp run spec =
     bindW (on_fs (validate_sync_spec stamp spec)) (\<lambda>p.
     bindW (run_rsync run (rsync_command p True)) (\<lambda>dry.
       let out = stdout_text dry; changed_entries = int (length (py_splitlines out)) in
       if py_strip out = [] then liftW (Inr unchanged_result)
       else
         bindW (if sy_snapshot_enabled spec
                then bindW (create_snapshot tar_fails (sp_destination p) (sp_snapshot_root p) (sp_name p))
                       (\<lambda>_. liftW (Inr (Some (sp_name p))))
                else liftW (Inr None)) (\<lambda>name.
         bindW (run_rsync run (rsync_command p False)) (\<lambda>_.
           liftW (Inr (changed_result changed_entries name))))))"

section \<open>The path checks are confined\<close>

lemma existing_directory_Inr:
  "existing_directory fs p label = Inr r \<longleftrightarrow>
     \<not> symlink_component fs (parts (absolute fs p)) \<and> resolve fs True p = Inr r \<and> is_dir fs r"
  by (auto simp: existing_directory_def reject_symlink_components_def res_simps)

lemma directory_below_Inr:
  "directory_below label fs p base = Inr r \<longleftrightarrow>
     \<not> symlink_component fs (parts (absolute fs p)) \<and> resolve fs True p = Inr r
     \<and> strict_prefix base r \<and> is_dir fs r"
  by (auto simp: directory_below_def reject_symlink_components_def in_parents_def res_simps)

lemma validate_deployignore_Inr:
  "validate_deployignore fs p source = Inr r \<longleftrightarrow>
     \<not> symlink_component fs (parts (absolute fs p)) \<and> resolve fs True p = Inr r
     \<and> strict_prefix source r \<and> is_file fs r"
  by (auto simp: validate_deployignore_def reject_symlink_components_def in_parents_def res_simps)

lemma resolved_dir:
  "fs_wf fs \<Longrightarrow> resolve fs True p = Inr r \<Longrightarrow> is_dir fs r \<Longrightarrow> lookup fs r = Some Dir"
  using resolve_settled settled_is_dir by blast

lemma resolved_file:
  "fs_wf fs \<Longrightarrow> resolve fs True p = Inr r \<Longrightarrow> is_file fs r \<Longrightarrow> \<exists>c. lookup fs r = Some (File c)"
  using resolve_settled settled_is_file by blast

interpretation sync_dir: confined_guard "directory_below label" "\<lambda>nd. nd = Dir"
  by unfold_locales (auto simp: directory_below_Inr intro: resolve_strict_normal resolved_dir)

interpretation sync_ignore: confined_guard validate_deployignore "\<lambda>nd. \<exists>c. nd = File c"
  by unfold_locales
    (auto simp: validate_deployignore_Inr intro: resolve_strict_normal dest: resolved_file)

lemma validate_sync_spec_Inr:
  "validate_sync_spec stamp spec fs = Inr p \<Longrightarrow>
     (\<exists>source_root destination_root.
        existing_directory fs (sy_source_root spec) ''source root'' = Inr source_root
        \<and> existing_directory fs (sy_destination_root spec) ''destination root'' = Inr destination_root
        \<and> directory_below ''source'' fs (sy_source spec) source_root = Inr (sp_source p)
        \<and> directory_below ''destination'' fs (sy_destination spec) destination_root
            = Inr (sp_destination p)
        \<and> existing_directory fs (sy_snapshot_root spec) ''snapshot root'' = Inr (sp_snapshot_root p)
        \<and> snapshot_name stamp (sy_snapshot_name spec) = Inr (sp_name p))"
  by (auto simp: validate_sync_spec_def res_simps)

lemma snapshot_name_safe: "snapshot_name stamp v = Inr n \<Longrightarrow> fullmatch SNAPSHOT_NAME_RE n"
  by (auto simp: snapshot_name_def Let_def res_simps)

section \<open>The command lines\<close>

lemma rsync_command_base: "set RSYNC_BASE \<subseteq> set (rsync_command p dry)"
  by (auto simp: rsync_command_def)

lemma rsync_command_dry:
  "rsync_command p True = take (length (rsync_command p False) - 2) (rsync_command p False)
     @ DRY_RUN_FLAGS @ drop (length (rsync_command p False) - 2) (rsync_command p False)"
  by (auto simp: rsync_command_def split: option.splits)

lemma run_rsync_Inr:
  "run_rsync run cmd w = (Inr c, w') \<longleftrightarrow> run cmd w = (Inr c, w') \<and> returncode c = 0"
  by (auto simp: run_rsync_def bindW_eq_Inr exceptW_eq_Inr res_simps)

lemma run_rsync_cong: "run cmd w = run' cmd w \<Longrightarrow> run_rsync run cmd w = run_rsync run' cmd w"
  by (simp add: run_rsync_def bindW_def exceptW_def)

section \<open>What a snapshot holds\<close>

definition posix_name :: "string \<Rightarrow> bool" where
  "posix_name c \<longleftrightarrow> c \<noteq> [] \<and> c \<noteq> ''.'' \<and> CHR ''/'' \<notin> set c \<and> backslash \<notin> set c"

lemma member_components_tar_name:
  assumes "list_all posix_name rel"
  shows "member_components (tar_name rel) = rel"
proof -
  let ?f = "\<lambda>c. if c = backslash then CHR ''/'' else c"
  have same: "map ?f c = c" if "backslash \<notin> set c" for c
    using that by (induction c) auto
  have names: "\<forall>c \<in> set (''.'' # rel). backslash \<notin> set c \<and> CHR ''/'' \<notin> set c"
    using assms by (auto simp: list_all_iff posix_name_def backslash_def)
  then have "map (map ?f) (''.'' # rel) = ''.'' # rel"
    using same by (intro map_idI) auto
  then have txt_eq: "map ?f (tar_name rel) = join_str ''/'' (''.'' # rel)"
    unfolding tar_name_def join_str_map by (simp add: backslash_def)
  have "split_char CHR ''/'' (join_str ''/'' (''.'' # rel)) = ''.'' # rel"
    using names by (intro split_join) auto
  moreover have "\<not> prefix ''/'' (join_str ''/'' (''.'' # rel))"
    by (cases rel) auto
  moreover have "filter (\<lambda>c. c \<noteq> [] \<and> c \<noteq> ''.'') rel = rel"
    using assms by (auto simp: list_all_iff posix_name_def intro!: filter_True)
  ultimately show ?thesis
    unfolding member_components_def txt_eq by (simp add: parse_path_def Let_def)
qed

lemma tar_name_dot: "list_all posix_name rel \<Longrightarrow> rel \<noteq> [] \<Longrightarrow> tar_name rel \<noteq> ''.''"
  by (cases rel) (auto simp: tar_name_def)

lemma archive_member_clean:
  assumes "archive_of fs dest rel = Some nd" and "list_all posix_name rel" and "rel \<noteq> []"
  shows "\<not> list_ex private_component rel \<and> (\<forall>t. nd \<noteq> Link t)"
proof -
  have "member_kept fs dest rel" and nd: "lookup fs (dest @ rel) = Some nd"
    using assms(1) by (auto simp: archive_of_def list_all_iff split: if_splits)
  then have "snapshot_filter \<lparr>tm_name = tar_name rel, tm_kind = tar_kind_of nd\<rparr> \<noteq> None"
    by (simp add: member_kept_def)
  then have "\<not> list_ex private_component rel" "tar_kind_of nd \<noteq> TarSym"
    using tar_name_dot [OF assms(2,3)] member_components_tar_name [OF assms(2)]
    by (auto simp: snapshot_filter_def split: if_splits)
  then show ?thesis by (auto simp: tar_kind_of_def split: node.splits)
qed

text \<open>An archive is closed under parents, so restoring it never needs a missing directory.\<close>

lemma archive_of_prefix:
  assumes "archive_of fs dest rel = Some nd" and "prefix q rel"
  shows "archive_of fs dest q = lookup fs (dest @ q)"
  using assms by (auto simp: archive_of_def list_all_iff split: if_splits
      intro: prefix_order.trans)

section \<open>The course of a synchronisation\<close>

lemma create_snapshot_Inr:
  "create_snapshot tf dest sroot name w = (Inr u, w') \<longleftrightarrow>
     \<not> path_exists (w_fs w) (sroot @ [name]) \<and> \<not> tf w
     \<and> w' = w\<lparr>w_fs := put_node (sroot @ [name]) (File []) (w_fs w),
              w_tars := (w_tars w)(sroot @ [name] \<mapsto> archive_of (w_fs w) dest)\<rparr>"
  by (auto simp: create_snapshot_def Let_def)

definition snapshot_step ::
    "('x world_scheme \<Rightarrow> bool) \<Rightarrow> sync_spec \<Rightarrow> sync_paths \<Rightarrow> ('x world_scheme, string option) action" where
  "snapshot_step tf spec p =
     (if sy_snapshot_enabled spec
      then bindW (create_snapshot tf (sp_destination p) (sp_snapshot_root p) (sp_name p))
             (\<lambda>_. liftW (Inr (Some (sp_name p))))
      else liftW (Inr None))"

lemma snapshot_step_Inr:
  "snapshot_step tf spec p w = (Inr name, w') \<longleftrightarrow>
     (if sy_snapshot_enabled spec
      then name = Some (sp_name p)
           \<and> create_snapshot tf (sp_destination p) (sp_snapshot_root p) (sp_name p) w = (Inr (), w')
      else name = None \<and> w' = w)"
  by (auto simp: snapshot_step_def bindW_eq_Inr)

lemma sync_deployment_Inr:
  "sync_deployment tf stamp run spec w = (Inr r, w') \<longleftrightarrow>
     (\<exists>p dry w1. validate_sync_spec stamp spec (w_fs w) = Inr p
        \<and> run (rsync_command p True) w = (Inr dry, w1) \<and> returncode dry = 0
        \<and> ((py_strip (stdout_text dry) = [] \<and> r = unchanged_result \<and> w' = w1)
           \<or> (py_strip (stdout_text dry) \<noteq> [] \<and> (\<exists>name w2 c.
               snapshot_step tf spec p w1 = (Inr name, w2)
               \<and> run (rsync_command p False) w2 = (Inr c, w') \<and> returncode c = 0
               \<and> r = changed_result (int (length (py_splitlines (stdout_text dry)))) name))))"
    (is "?lhs \<longleftrightarrow> ?rhs")
proof -
  have "?lhs \<longleftrightarrow> (\<exists>p dry w1. validate_sync_spec stamp spec (w_fs w) = Inr p
        \<and> run (rsync_command p True) w = (Inr dry, w1) \<and> returncode dry = 0
        \<and> (if py_strip (stdout_text dry) = [] then (Inr unchanged_result :: sync_result result, w1) = (Inr r, w')
           else bindW (snapshot_step tf spec p) (\<lambda>name.
             bindW (run_rsync run (rsync_command p False)) (\<lambda>_. liftW (Inr
               (changed_result (int (length (py_splitlines (stdout_text dry)))) name)))) w1
             = (Inr r, w')))"
    unfolding sync_deployment_def snapshot_step_def [symmetric] bindW_eq_Inr [of "on_fs _"]
      bindW_eq_Inr [of "run_rsync run (rsync_command _ True)"] Let_def run_rsync_Inr
    by (simp add: if_distrib [of "\<lambda>f. f _"] cong: if_cong)
  also have "\<dots> \<longleftrightarrow> ?rhs"
    by (intro arg_cong [where f = Ex] ext) (auto simp: bindW_eq_Inr run_rsync_Inr)
  finally show ?thesis .
qed

lemma sync_deployment_changed:
  assumes "sync_deployment tf stamp run spec w = (Inr r, w')" and "sr_synced r"
  obtains p dry w1 name w2 c where
    "validate_sync_spec stamp spec (w_fs w) = Inr p"
    "run (rsync_command p True) w = (Inr dry, w1)" "returncode dry = 0"
    "py_strip (stdout_text dry) \<noteq> []"
    "snapshot_step tf spec p w1 = (Inr name, w2)"
    "run (rsync_command p False) w2 = (Inr c, w')" "returncode c = 0"
    "r = changed_result (int (length (py_splitlines (stdout_text dry)))) name"
  using assms by (auto simp: sync_deployment_Inr unchanged_result_def split: if_splits)

section \<open>Properties\<close>

text \<open>
  C14: A synchronisation that reports work really did it in the protected order: the dry run
  succeeded and printed something, then, when snapshots are enabled, an archive of the
  destination as it was after the dry run was stored under a name that did not exist
  before, and only then the real rsync ran, in the world with that snapshot, and succeeded.
\<close>
theorem sync_snapshot_before_write:
  assumes "sync_deployment tar_fails stamp run spec w = (Inr r, w')" and "sr_synced r"
  shows "\<exists>p dry w1 w2 c. validate_sync_spec stamp spec (w_fs w) = Inr p
    \<and> run (rsync_command p True) w = (Inr dry, w1) \<and> returncode dry = 0
    \<and> py_strip (stdout_text dry) \<noteq> []
    \<and> run (rsync_command p False) w2 = (Inr c, w') \<and> returncode c = 0
    \<and> (sy_snapshot_enabled spec \<longrightarrow>
         \<not> path_exists (w_fs w1) (sp_snapshot_root p @ [sp_name p])
         \<and> w_tars w2 (sp_snapshot_root p @ [sp_name p]) = Some (archive_of (w_fs w1) (sp_destination p))
         \<and> sr_snapshot_created r \<and> sr_snapshot_name r = Some (sp_name p))
    \<and> (\<not> sy_snapshot_enabled spec \<longrightarrow> w2 = w1 \<and> sr_snapshot_name r = None)
    \<and> sr_changed_entries r = int (length (py_splitlines (stdout_text dry)))"
proof -
  obtain p dry w1 name w2 c where run: "validate_sync_spec stamp spec (w_fs w) = Inr p"
    "run (rsync_command p True) w = (Inr dry, w1)" "returncode dry = 0"
    "py_strip (stdout_text dry) \<noteq> []" and step: "snapshot_step tar_fails spec p w1 = (Inr name, w2)"
    and last: "run (rsync_command p False) w2 = (Inr c, w')" "returncode c = 0"
    "r = changed_result (int (length (py_splitlines (stdout_text dry)))) name"
    using sync_deployment_changed [OF assms] .
  show ?thesis
    using run step last
    by (intro exI [of _ p] exI [of _ dry] exI [of _ w1] exI [of _ w2] exI [of _ c])
      (auto simp: changed_result_def snapshot_step_Inr create_snapshot_Inr split: if_splits)
qed

text \<open>A file system and a runner for the examples: the runner always reports one changed entry.\<close>

definition demo_fs :: fsys where
  "demo_fs = \<lparr>nodes = [[''src''] \<mapsto> Dir, [''src'', ''app''] \<mapsto> Dir, [''dst''] \<mapsto> Dir,
     [''dst'', ''app''] \<mapsto> Dir, [''dst'', ''app'', ''.env''] \<mapsto> File ''K=1'',
     [''dst'', ''app'', ''main''] \<mapsto> File ''v1'', [''snap''] \<mapsto> Dir], cwd = []\<rparr>"

definition demo_world :: world where
  "demo_world = \<lparr>w_fs = demo_fs, w_tars = (\<lambda>_. None), w_clock = 0, w_held = []\<rparr>"

definition demo_run :: "unit runner" where
  "demo_run argv w = (Inr \<lparr>returncode = 0, stdout = Some ''f''\<rparr>, w)"

definition demo_spec :: sync_spec where
  "demo_spec = \<lparr>sy_source = Path True [''src'', ''app''], sy_destination = Path True [''dst'', ''app''],
     sy_snapshot_root = Path True [''snap''], sy_source_root = Path True [''src''],
     sy_destination_root = Path True [''dst''], sy_snapshot_enabled = True, sy_deployignore = None,
     sy_exclude_compose_file = None, sy_snapshot_name = Some ''a.tar.gz''\<rparr>"

definition demo_paths :: sync_paths where
  "demo_paths = \<lparr>sp_source = [''src'', ''app''], sp_destination = [''dst'', ''app''],
     sp_snapshot_root = [''snap''], sp_deployignore = None, sp_compose_exclude = None,
     sp_name = ''a.tar.gz''\<rparr>"

lemma demo_name: "snapshot_name stamp (Some ''a.tar.gz'') = Inr ''a.tar.gz''"
proof -
  have "fullmatch SNAPSHOT_NAME_RE ''a.tar.gz''" by code_simp
  then show ?thesis by (simp add: snapshot_name_def)
qed

lemma demo_valid: "validate_sync_spec stamp demo_spec demo_fs = Inr demo_paths"
proof -
  have "existing_directory demo_fs (sy_source_root demo_spec) ''source root'' = Inr [''src'']"
    "existing_directory demo_fs (sy_destination_root demo_spec) ''destination root'' = Inr [''dst'']"
    "directory_below ''source'' demo_fs (sy_source demo_spec) [''src''] = Inr [''src'', ''app'']"
    "directory_below ''destination'' demo_fs (sy_destination demo_spec) [''dst''] = Inr [''dst'', ''app'']"
    "existing_directory demo_fs (sy_snapshot_root demo_spec) ''snapshot root'' = Inr [''snap'']"
    by code_simp+
  moreover have "sy_deployignore demo_spec = None" "sy_exclude_compose_file demo_spec = None"
    "sy_snapshot_name demo_spec = Some ''a.tar.gz''"
    by (simp_all add: demo_spec_def)
  ultimately show ?thesis
    by (simp add: validate_sync_spec_def demo_paths_def validate_compose_exclude_def demo_name)
qed

definition demo_after :: world where
  "demo_after = demo_world\<lparr>w_fs := put_node [''snap'', ''a.tar.gz''] (File []) demo_fs,
     w_tars := [[''snap'', ''a.tar.gz''] \<mapsto> archive_of demo_fs [''dst'', ''app'']]\<rparr>"

lemma demo_sync:
  "sync_deployment (\<lambda>_. False) stamp demo_run demo_spec demo_world
     = (Inr (changed_result 1 (Some ''a.tar.gz'')), demo_after)"
proof -
  have "\<not> path_exists demo_fs [''snap'', ''a.tar.gz'']" by code_simp
  then have "create_snapshot (\<lambda>_. False) [''dst'', ''app''] [''snap''] ''a.tar.gz'' demo_world
      = (Inr (), demo_after)"
    by (simp add: create_snapshot_Inr demo_world_def demo_after_def)
  then have "snapshot_step (\<lambda>_. False) demo_spec demo_paths demo_world
      = (Inr (Some ''a.tar.gz''), demo_after)"
    by (simp add: snapshot_step_Inr demo_spec_def demo_paths_def)
  moreover have "py_splitlines ''f'' = [''f'']" "py_strip ''f'' = ''f''"
    by code_simp+
  ultimately show ?thesis
    using demo_valid [of stamp]
    by (auto simp: sync_deployment_Inr demo_world_def demo_run_def stdout_text_def)
qed

theorem sync_snapshot_before_write_witness:
  "w_tars demo_after [''snap'', ''a.tar.gz''] = Some (archive_of demo_fs [''dst'', ''app''])"
proof -
  have "sr_synced (changed_result 1 (Some ''a.tar.gz''))" "w_fs demo_world = demo_fs"
    "sy_snapshot_enabled demo_spec" "sp_snapshot_root demo_paths = [''snap'']"
    "sp_destination demo_paths = [''dst'', ''app'']" "sp_name demo_paths = ''a.tar.gz''"
    "snd (demo_run v w) = w" for v w
    by (simp_all add: changed_result_def demo_world_def demo_spec_def demo_paths_def demo_run_def)
  then show ?thesis
    using sync_snapshot_before_write [OF demo_sync [of "[]"]] demo_valid [of "[]"]
    by (auto simp: demo_run_def)
qed

text \<open>
  Nothing is written unless the dry run announced a change. A synchronisation that
  reports no change ran rsync only with \<open>--dry-run\<close>: the same outcome is reached with any
  other runner that agrees on the dry runs, whatever it does to the real command line; and no
  archive was made.
\<close>
lemma sync_unchanged_is_dry:
  assumes "sync_deployment tar_fails stamp run spec w = (Inr r, w')" and "\<not> sr_changed r"
    and "\<forall>p. run' (rsync_command p True) = run (rsync_command p True)"
  shows "sync_deployment tar_fails' stamp run' spec w = (Inr r, w')
    \<and> r = unchanged_result \<and> (\<exists>p dry. run (rsync_command p True) w = (Inr dry, w'))"
proof -
  obtain p dry where "validate_sync_spec stamp spec (w_fs w) = Inr p"
    "run (rsync_command p True) w = (Inr dry, w')" "returncode dry = 0"
    "py_strip (stdout_text dry) = []" "r = unchanged_result"
    using assms(1) [unfolded sync_deployment_Inr] assms(2) by (auto simp: changed_result_def)
  moreover from this have "run' (rsync_command p True) w = (Inr dry, w')"
    using assms(3) by metis
  ultimately show ?thesis
    unfolding sync_deployment_Inr by blast
qed

definition quiet_run :: "unit runner" where
  "quiet_run argv w = (Inr \<lparr>returncode = 0, stdout = None\<rparr>, w)"

lemma quiet_sync: "sync_deployment (\<lambda>_. False) stamp quiet_run demo_spec demo_world
    = (Inr unchanged_result, demo_world)"
  using demo_valid [of stamp]
  by (auto simp: sync_deployment_Inr demo_world_def quiet_run_def stdout_text_def)

theorem sync_unchanged_is_dry_witness:
  "sync_deployment (\<lambda>_. True) [] (\<lambda>argv. if ''--dry-run'' \<in> set argv then quiet_run argv else
      (\<lambda>w. (Inl (Exc OSError ''gone''), w))) demo_spec demo_world = (Inr unchanged_result, demo_world)"
proof -
  have "''--dry-run'' \<in> set (rsync_command p True)" for p
    by (simp add: rsync_command_def DRY_RUN_FLAGS_def)
  then show ?thesis
    using sync_unchanged_is_dry [OF quiet_sync, where tar_fails' = "\<lambda>_. True" and
        run' = "\<lambda>argv. if ''--dry-run'' \<in> set argv then quiet_run argv else
          (\<lambda>w. (Inl (Exc OSError ''gone''), w))"]
    by (simp add: unchanged_result_def)
qed

text \<open>
  The paths a synchronisation works on are confined. Source and destination are existing
  directories strictly below their declared roots, each at the lexical normal form of the
  path given (no symbolic link on the way), the ignore file lies inside the source, the
  snapshot name is one file name that matches the safe pattern, and every rsync command line
  carries the exclusions for secrets and names exactly these two directories.
\<close>
lemma sync_paths_confined:
  assumes "validate_sync_spec stamp spec fs = Inr p" and "fs_wf fs"
  shows "(\<exists>source_root destination_root.
      resolve fs True (sy_source_root spec) = Inr source_root
      \<and> resolve fs True (sy_destination_root spec) = Inr destination_root
      \<and> strict_prefix source_root (sp_source p) \<and> lookup fs (sp_source p) = Some Dir
      \<and> strict_prefix destination_root (sp_destination p)
      \<and> lookup fs (sp_destination p) = Some Dir)
    \<and> sp_source p = normal [] (parts (absolute fs (sy_source spec)))
    \<and> sp_destination p = normal [] (parts (absolute fs (sy_destination spec)))
    \<and> (\<forall>d. sp_deployignore p = Some d \<longrightarrow> strict_prefix (sp_source p) d \<and> (\<exists>c. lookup fs d = Some (File c)))
    \<and> fullmatch SNAPSHOT_NAME_RE (sp_name p)
    \<and> set RSYNC_BASE \<subseteq> set (rsync_command p dry)
    \<and> drop (length (rsync_command p dry) - 2) (rsync_command p dry)
          = [rstrip_slash (posix_text (sp_source p)) @ ''/'',
             rstrip_slash (posix_text (sp_destination p)) @ ''/'']"
  (is "?dirs \<and> ?src \<and> ?dst \<and> ?ign \<and> ?name \<and> ?cmd")
proof (intro conjI)
  obtain sroot droot where v:
    "existing_directory fs (sy_source_root spec) ''source root'' = Inr sroot"
    "existing_directory fs (sy_destination_root spec) ''destination root'' = Inr droot"
    "directory_below ''source'' fs (sy_source spec) sroot = Inr (sp_source p)"
    "directory_below ''destination'' fs (sy_destination spec) droot = Inr (sp_destination p)"
    "snapshot_name stamp (sy_snapshot_name spec) = Inr (sp_name p)"
    using validate_sync_spec_Inr [OF assms(1)] by blast
  show ?dirs
    using v sync_dir.below sync_dir.right_kind [OF assms(2)] by (fastforce simp: existing_directory_Inr)
  show ?src ?dst
    using v sync_dir.lexical by blast+
  show ?ign
    using assms(1) sync_ignore.below sync_ignore.right_kind [OF assms(2)]
    by (fastforce simp: validate_sync_spec_def res_simps split: option.splits)
  show ?name
    using v snapshot_name_safe by blast
  show "set RSYNC_BASE \<subseteq> set (rsync_command p dry)"
    by (rule rsync_command_base)
qed (simp add: rsync_command_def)

lemma demo_fs_wf: "fs_wf demo_fs"
proof -
  have "lookup demo_fs q = (if q \<in> {[], [''src''], [''src'', ''app''], [''dst''], [''dst'', ''app''],
      [''snap'']} then Some Dir else if q = [''dst'', ''app'', ''.env''] then Some (File ''K=1'')
      else if q = [''dst'', ''app'', ''main''] then Some (File ''v1'') else None)" for q
    by (simp add: demo_fs_def lookup_def)
  then show ?thesis
    unfolding fs_wf_def by (auto simp: dotdot_def append_eq_Cons_conv split: if_splits)
qed

theorem sync_paths_confined_witness:
  "sp_source demo_paths = normal [] (parts (absolute demo_fs (sy_source demo_spec)))"
  using sync_paths_confined [OF demo_valid demo_fs_wf] by blast

text \<open>
  What a snapshot holds. No member of the archive, at any depth, has a component that
  names private material (\<open>.secrets\<close>, \<open>.env\<close>, \<open>.env.*\<close>, key files, archives), none is a
  symbolic link, every member is the node that was in the destination, and all its parent
  directories are members too.
\<close>
lemma snapshot_member_clean:
  assumes "archive_of fs dest rel = Some nd" and "list_all posix_name rel" and "rel \<noteq> []"
  shows "lookup fs (dest @ rel) = Some nd
    \<and> (\<forall>c \<in> set rel. c \<noteq> ''.secrets'' \<and> c \<noteq> ''.env'' \<and> \<not> prefix ''.env.'' c
           \<and> \<not> ends_any PRIVATE_SUFFIXES (py_lower c) \<and> \<not> suffix ''.tar.gz'' (py_lower c))
    \<and> (\<forall>t. nd \<noteq> Link t)
    \<and> (\<forall>q. prefix q rel \<longrightarrow> archive_of fs dest q = lookup fs (dest @ q))"
  using archive_member_clean [OF assms] archive_of_prefix [OF assms(1)] assms(1)
  by (auto simp: list_ex_iff private_component_def)

theorem snapshot_member_clean_witness:
  "lookup demo_fs ([''dst'', ''app''] @ [''main'']) = Some (File ''v1'')
     \<and> archive_of demo_fs [''dst'', ''app''] [''.env''] = None"
proof
  have "archive_of demo_fs [''dst'', ''app''] [''main''] = Some (File ''v1'')"
    by code_simp
  then show "lookup demo_fs ([''dst'', ''app''] @ [''main'']) = Some (File ''v1'')"
    using snapshot_member_clean [of demo_fs "[''dst'', ''app'']" "[''main'']" "File ''v1''"]
    by (simp add: posix_name_def backslash_def)
  show "archive_of demo_fs [''dst'', ''app''] [''.env''] = None"
    by code_simp
qed

end
