(* ===== verification/Json.thy ===== *)
theory Json
  imports PyText Complex_Main
begin

text \<open>
  JSON documents as \<open>json.loads\<close> returns them, and the questions the sources ask of them.
  An object is an association list with one entry per key; a number is an exact integer or
  a finite float, which is a rational. \<open>payload.get(key)\<close> answers \<open>None\<close> both for an absent
  key and for a JSON \<open>null\<close>, so \<open>jget\<close> answers \<open>JNull\<close> in both cases.
\<close>

datatype json =
    JNull
  | JBool bool
  | JInt int
  | JFloat rat
  | JStr string
  | JArr "json list"
  | JObj "(string \<times> json) list"

type_synonym jobj = "(string \<times> json) list"

definition jget :: "string \<Rightarrow> jobj \<Rightarrow> json" where
  "jget k d = (case map_of d k of None \<Rightarrow> JNull | Some v \<Rightarrow> v)"

text \<open>Equality with an \<open>int\<close> literal: \<open>True == 1\<close> and \<open>1.0 == 1\<close> hold in Python.\<close>

fun eq_int :: "json \<Rightarrow> int \<Rightarrow> bool" where
  "eq_int (JInt k) n = (k = n)"
| "eq_int (JBool b) n = ((if b then 1 else 0) = n)"
| "eq_int (JFloat q) n = (q = of_int n)"
| "eq_int _ n = False"

text \<open>\<open>bool(x)\<close>\<close>

fun truthy :: "json \<Rightarrow> bool" where
  "truthy JNull = False"
| "truthy (JBool b) = b"
| "truthy (JInt k) = (k \<noteq> 0)"
| "truthy (JFloat q) = (q \<noteq> 0)"
| "truthy (JStr s) = (s \<noteq> [])"
| "truthy (JArr xs) = (xs \<noteq> [])"
| "truthy (JObj d) = (d \<noteq> [])"

fun is_bool :: "json \<Rightarrow> bool" where
  "is_bool (JBool _) = True"
| "is_bool _ = False"

text \<open>\<open>key in payload\<close>, and \<open>payload.get(key, default)\<close> with a default other than \<open>None\<close>\<close>

definition jhas :: "string \<Rightarrow> jobj \<Rightarrow> bool" where
  "jhas k d = (map_of d k \<noteq> None)"

definition jget_or :: "string \<Rightarrow> json \<Rightarrow> jobj \<Rightarrow> json" where
  "jget_or k dflt d = (case map_of d k of None \<Rightarrow> dflt | Some v \<Rightarrow> v)"

lemma jhas_simps [simp]: "\<not> jhas k []" "jhas k ((k', v) # d) \<longleftrightarrow> k = k' \<or> jhas k d"
  by (auto simp: jhas_def)

lemma jget_or_simps [simp]: "jget_or k x [] = x"
  "jget_or k x ((k', v) # d) = (if k = k' then v else jget_or k x d)"
  by (auto simp: jget_or_def)

definition jkeys :: "jobj \<Rightarrow> string list" where
  "jkeys d = map fst d"

lemma jget_Nil [simp]: "jget k [] = JNull"
  by (simp add: jget_def)

lemma jget_Cons [simp]: "jget k ((k', v) # d) = (if k = k' then v else jget k d)"
  by (simp add: jget_def)

lemma jget_dict_set: "jget k (dict_set k' v d) = (if k = k' then v else jget k d)"
  by (simp add: jget_def map_of_dict_set)

lemma jget_or_dict_set: "jget_or k x (dict_set k' v d) = (if k = k' then v else jget_or k x d)"
  by (simp add: jget_or_def map_of_dict_set)

section \<open>Required fields\<close>

text \<open>
  The helper \<open>_required_text\<close> of the security modules: a non-blank string, stripped. Each
  module has its own copy with its own error class.
\<close>

definition required_text :: "exc_class \<Rightarrow> string \<Rightarrow> jobj \<Rightarrow> string \<Rightarrow> string result" where
  "required_text cls label payload fld =
     (case jget fld payload of
        JStr v \<Rightarrow>
          guardE (py_strip v \<noteq> []) (Exc cls (label @ '' field '' @ fld @ '' is required''))
            (Inr (py_strip v))
      | _ \<Rightarrow> Inl (Exc cls (label @ '' field '' @ fld @ '' is required'')))"

lemma required_text_Inr:
  "required_text cls label d fld = Inr v \<longleftrightarrow>
     (\<exists>t. jget fld d = JStr t \<and> v = py_strip t \<and> v \<noteq> [])"
  by (auto simp: required_text_def res_simps split: json.splits)

lemma raises_required_text [raises]: "raises_only cls (required_text cls label d fld)"
  by (auto simp: required_text_def intro: raises split: json.splits)

end
