(* ===== verification/Request.thy ===== *)
theory Request
  imports PyRegex Json FileSystem
begin

text \<open>
  The delivery request contract, \<open>scripts/delivery/request.py\<close>: field validation, the
  parser \<open>parse_request\<close>, its inverse \<open>canonicalize_request\<close> and the confined loader
  \<open>load_request\<close>. \<open>request_ok\<close> says what a validated request is; the locale
  \<open>canonical_form\<close> is the contract between a parser and a renderer that evidence writers
  rely on, and is interpreted on the request functions here.
\<close>

section \<open>The interface of a canonical representation\<close>

locale canonical_form =
  fixes parse :: "'a \<Rightarrow> 'b result"
    and render :: "'b \<Rightarrow> 'a"
    and ok :: "'b \<Rightarrow> bool"
  assumes parse_ok: "parse x = Inr y \<Longrightarrow> ok y"
    and parse_render: "ok y \<Longrightarrow> parse (render y) = Inr y"
begin

lemma reparse: "parse x = Inr y \<Longrightarrow> parse (render y) = Inr y"
  by (simp add: parse_ok parse_render)

lemma ok_iff: "ok y \<longleftrightarrow> parse (render y) = Inr y"
  using parse_ok parse_render by blast

lemma render_inject: "ok y \<Longrightarrow> ok z \<Longrightarrow> render y = render z \<longleftrightarrow> y = z"
  by (metis parse_render sum.inject(2))

lemma canonical_again: "parse x = Inr y \<Longrightarrow> parse (render y) = Inr z \<Longrightarrow> render z = render y"
  by (simp add: reparse)

end

section \<open>Patterns\<close>

definition hex_lower :: "char \<Rightarrow> bool" where
  "hex_lower c \<longleftrightarrow> is_digit c \<or> in_range CHR ''a'' CHR ''f'' c"

definition ident_tail :: "char \<Rightarrow> bool" where
  "ident_tail c \<longleftrightarrow> is_alnum c \<or> one_of ''._-'' c"

definition IDENTIFIER_RE :: rx where
  "IDENTIFIER_RE = anchored (Seq (Cls is_alnum) (upto_rep 63 (Cls ident_tail)))"

definition SHA_RE :: rx where
  "SHA_RE = anchored (rep 40 (Cls hex_lower))"

definition SECRET_ASSIGNMENT_RE :: rx where
  "SECRET_ASSIGNMENT_RE = seqs
     [alts [ilit ''password'', ilit ''secret'', ilit ''token'',
            seqs [ilit ''api'', opt (Cls (one_of ''_-'')), ilit ''key''],
            seqs [ilit ''private'', opt (Cls (one_of ''_-'')), ilit ''key''],
            ilit ''authorization''],
      Star (Cls py_isspace),
      Cls (one_of '':='')]"

definition ADAPTERS :: "string list" where
  "ADAPTERS = [''github-actions'', ''gitlab-ci'', ''ansible'', ''manual'']"

definition REQUEST_KEYS :: "string list" where
  "REQUEST_KEYS =
     [''adapter'', ''candidate_sha'', ''compose_file'', ''container_name'',
      ''reason'', ''repository'', ''service'', ''trusted_ref'']"

section \<open>The request\<close>

record deploy_request =
  rq_repository :: string
  rq_service :: string
  rq_candidate_sha :: string
  rq_trusted_ref :: string
  rq_compose_file :: string
  rq_container_name :: string
  rq_adapter :: string
  rq_reason :: "string option"

definition request_error :: "string \<Rightarrow> exc" where
  "request_error m = Exc RequestError m"

definition text_ok :: "nat \<Rightarrow> string \<Rightarrow> bool" where
  "text_ok mx v \<longleftrightarrow> v \<noteq> [] \<and> v = py_strip v \<and> length v \<le> mx \<and> \<not> list_ex py_isspace v"

definition text_field :: "jobj \<Rightarrow> string \<Rightarrow> nat \<Rightarrow> string result" where
  "text_field payload key mx =
     (case jget key payload of
        JStr v \<Rightarrow>
          if v = [] \<or> v \<noteq> py_strip v
          then Inl (request_error (key @ '' must be a non-empty trimmed string''))
          else if length v > mx \<or> list_ex py_isspace v
          then Inl (request_error (key @ '' must be bounded and must not contain whitespace''))
          else Inr v
      | _ \<Rightarrow> Inl (request_error (key @ '' must be a non-empty trimmed string'')))"

definition check_identifier :: "string \<Rightarrow> string \<Rightarrow> string result" where
  "check_identifier v fld =
     guardE (fullmatch IDENTIFIER_RE v) (request_error (fld @ '' must be a bounded identifier''))
       (Inr v)"

definition trusted_ref_ok :: "string \<Rightarrow> bool" where
  "trusted_ref_ok v \<longleftrightarrow>
     starts_any [''refs/heads/'', ''refs/tags/''] v \<and> count_list v CHR ''/'' \<ge> 2
     \<and> \<not> contains ''..'' v \<and> \<not> contains ''//'' v \<and> \<not> has_char backslash v
     \<and> \<not> list_ex py_isspace v"

definition check_trusted_ref :: "string \<Rightarrow> string result" where
  "check_trusted_ref v =
     guardE (trusted_ref_ok v) (request_error ''trusted_ref must be a trusted heads or tags ref'')
       (Inr v)"

definition compose_file_bad :: "string \<Rightarrow> bool" where
  "compose_file_bad v \<longleftrightarrow>
     starts_any [''/'', [backslash]] v \<or> has_char backslash v
     \<or> list_ex (\<lambda>p. List.member [[], ''.'', ''..''] p) (split_char CHR ''/'' v)
     \<or> \<not> ends_any [''.yml'', ''.yaml''] (py_lower v)"

definition check_compose_file :: "string \<Rightarrow> string result" where
  "check_compose_file v =
     guardE (\<not> compose_file_bad v) (request_error ''compose_file must be a relative POSIX YAML path'')
       (Inr v)"

definition check_repository :: "string \<Rightarrow> string result" where
  "check_repository v =
     (case partition_char CHR ''/'' v of
        (owner, sep, name) \<Rightarrow>
          if \<not> sep \<or> has_char CHR ''/'' name
          then Inl (request_error ''repository must be an owner/name identifier'')
          else bindE (check_identifier owner ''repository owner'') (\<lambda>_.
               bindE (check_identifier name ''repository name'') (\<lambda>_. Inr v)))"

definition check_sha :: "string \<Rightarrow> string result" where
  "check_sha v =
     guardE (fullmatch SHA_RE v)
       (request_error ''candidate_sha must be a lowercase 40-character commit SHA'') (Inr v)"

definition check_adapter :: "string \<Rightarrow> string result" where
  "check_adapter v =
     guardE (List.member ADAPTERS v)
       (request_error ''adapter must identify a protected delivery adapter'') (Inr v)"

definition check_reason :: "json \<Rightarrow> string option result" where
  "check_reason j =
     (case j of
        JNull \<Rightarrow> Inr None
      | JStr v \<Rightarrow>
          if v = [] \<or> length v > 256 then Inl (request_error ''reason must be a bounded string'')
          else if v \<noteq> py_strip v \<or> has_char CR v \<or> has_char LF v
          then Inl (request_error
            ''reason must not contain leading, trailing, or newline characters'')
          else if search SECRET_ASSIGNMENT_RE v
          then Inl (request_error ''reason must not contain secret-like assignments'')
          else Inr (Some v)
      | _ \<Rightarrow> Inl (request_error ''reason must be a bounded string''))"

definition unknown_keys :: "jobj \<Rightarrow> string list" where
  "unknown_keys d = sort (filter (\<lambda>k. \<not> List.member REQUEST_KEYS k) (jkeys d))"

definition parse_request :: "json \<Rightarrow> deploy_request result" where
  "parse_request payload =
     (case payload of
        JObj d \<Rightarrow>
          if unknown_keys d \<noteq> []
          then Inl (request_error (''request contains unknown fields: ''
                 @ join_str '', '' (unknown_keys d)))
          else
            bindE (bindE (text_field d ''repository'' 129) check_repository) (\<lambda>repository.
            bindE (bindE (text_field d ''service'' 256) (\<lambda>v. check_identifier v ''service'')) (\<lambda>service.
            bindE (bindE (text_field d ''candidate_sha'' 256) check_sha) (\<lambda>sha.
            bindE (bindE (text_field d ''trusted_ref'' 256) check_trusted_ref) (\<lambda>ref.
            bindE (bindE (text_field d ''compose_file'' 256) check_compose_file) (\<lambda>compose.
            bindE (bindE (text_field d ''container_name'' 256) (\<lambda>v. check_identifier v ''container_name''))
              (\<lambda>container.
            bindE (bindE (text_field d ''adapter'' 256) check_adapter) (\<lambda>adapter.
            bindE (check_reason (jget ''reason'' d)) (\<lambda>reason.
              Inr \<lparr>rq_repository = repository, rq_service = service, rq_candidate_sha = sha,
                   rq_trusted_ref = ref, rq_compose_file = compose,
                   rq_container_name = container, rq_adapter = adapter,
                   rq_reason = reason\<rparr>))))))))
      | _ \<Rightarrow> Inl (request_error ''request must be a JSON object''))"

definition canonicalize_request :: "deploy_request \<Rightarrow> (string \<times> string) list" where
  "canonicalize_request r =
     [(''adapter'', rq_adapter r), (''candidate_sha'', rq_candidate_sha r),
      (''compose_file'', rq_compose_file r), (''container_name'', rq_container_name r),
      (''repository'', rq_repository r), (''service'', rq_service r),
      (''trusted_ref'', rq_trusted_ref r)]
     @ (case rq_reason r of None \<Rightarrow> [] | Some t \<Rightarrow> [(''reason'', t)])"

text \<open>A \<open>dict[str, str]\<close> seen as a JSON object\<close>

definition json_of_dict :: "(string \<times> string) list \<Rightarrow> json" where
  "json_of_dict d = JObj (map (\<lambda>(k, v). (k, JStr v)) d)"

section \<open>Loading a request file\<close>

text \<open>
  \<open>loads\<close> stands for \<open>json.loads\<close> after UTF-8 decoding: it answers the document, or raises
  \<open>JSONDecodeError\<close> or \<open>UnicodeDecodeError\<close>. Only the first is in the \<open>except\<close> clause.
\<close>

definition read_file :: "fsys \<Rightarrow> string list \<Rightarrow> string result" where
  "read_file fs p =
     (case walk fs True link_limit [] p of
        Inl e \<Rightarrow> Inl e
      | Inr r \<Rightarrow> (case lookup fs r of Some (File c) \<Rightarrow> Inr c | _ \<Rightarrow> Inl enoent))"

definition request_location :: "fsys \<Rightarrow> path \<Rightarrow> path \<Rightarrow> string list result" where
  "request_location fs p allowed_root =
     bindE (except_raise
       (bindE (resolve fs True allowed_root) (\<lambda>root.
        guardE (\<not> symlink_component fs (parts (absolute fs p)))
          (request_error ''request path must not contain symlink components'')
          (bindE (resolve fs True p) (\<lambda>q. Inr (root, q)))))
       [OSError] (request_error ''request path could not be resolved''))
     (\<lambda>(root, q).
       guardE (is_dir fs root \<and> root \<noteq> q \<and> in_parents root q)
         (request_error ''request path must remain below the allowed root'')
         (guardE (is_file fs q \<and> \<not> is_symlink fs q)
           (request_error ''request path must be a regular file'') (Inr q)))"

definition load_request ::
    "(string \<Rightarrow> json result) \<Rightarrow> fsys \<Rightarrow> path \<Rightarrow> path \<Rightarrow> deploy_request result" where
  "load_request loads fs p allowed_root =
     bindE (request_location fs p allowed_root) (\<lambda>q.
     bindE (except_raise (bindE (read_file fs q) loads) [OSError, JSONDecodeError]
             (request_error ''request file must contain valid UTF-8 JSON'')) parse_request)"

section \<open>What the patterns accept\<close>

definition ident_ok :: "string \<Rightarrow> bool" where
  "ident_ok v \<longleftrightarrow> ident_shape is_alnum ident_tail 63 v"

definition sha_ok :: "string \<Rightarrow> bool" where
  "sha_ok v \<longleftrightarrow> length v = 40 \<and> list_all hex_lower v"

lemma IDENTIFIER_RE_iff: "fullmatch IDENTIFIER_RE v \<longleftrightarrow> ident_ok v"
  by (simp add: IDENTIFIER_RE_def fullmatch_anchored fullmatch_ident ident_ok_def)

lemma SHA_RE_iff: "fullmatch SHA_RE v \<longleftrightarrow> sha_ok v"
  by (simp add: SHA_RE_def fullmatch_anchored fullmatch_rep_Cls sha_ok_def)

lemma alnum_code: "is_alnum c \<longleftrightarrow>
    (65 \<le> code c \<and> code c \<le> 90) \<or> (97 \<le> code c \<and> code c \<le> 122) \<or> (48 \<le> code c \<and> code c \<le> 57)"
  by (simp add: is_alnum_def is_upper_def is_lower_def is_digit_def in_range_def code_def)

lemma alnum_not_space: "is_alnum c \<Longrightarrow> \<not> py_isspace c"
  by (auto simp: alnum_code py_isspace_def)

lemma ident_tail_not_space: "ident_tail c \<Longrightarrow> \<not> py_isspace c"
  by (auto simp: ident_tail_def alnum_code py_isspace_def code_def)

lemma hex_not_space: "hex_lower c \<Longrightarrow> \<not> py_isspace c"
  by (auto simp: hex_lower_def is_digit_def in_range_def py_isspace_def code_def)

lemma ident_ok_chars: "ident_ok v \<Longrightarrow> c \<in> set v \<Longrightarrow> ident_tail c"
  using ident_shape_chars by (fastforce simp: ident_ok_def ident_tail_def)

lemma text_ok_iff: "text_ok mx v \<longleftrightarrow> v \<noteq> [] \<and> length v \<le> mx \<and> \<not> list_ex py_isspace v"
  using strip_no_space [of v] by (auto simp: text_ok_def list_ex_iff)

lemma text_field_iff:
  "text_field d k mx = Inr v \<longleftrightarrow> jget k d = JStr v \<and> text_ok mx v"
  by (auto simp: text_field_def text_ok_def split: json.splits)

lemma ident_ok_text: "ident_ok v \<Longrightarrow> 64 \<le> mx \<Longrightarrow> text_ok mx v"
  using ident_ok_chars [of v] ident_tail_not_space
  by (auto simp: text_ok_iff list_ex_iff ident_ok_def ident_shape_def)

lemma sha_ok_text: "sha_ok v \<Longrightarrow> 40 \<le> mx \<Longrightarrow> text_ok mx v"
  by (auto simp: text_ok_iff sha_ok_def list_all_iff list_ex_iff dest: hex_not_space)

lemma adapter_text: "List.member ADAPTERS v \<Longrightarrow> text_ok 256 v"
  by (auto simp: ADAPTERS_def text_ok_iff py_isspace_def code_def)

section \<open>Validated requests\<close>

definition reason_ok :: "string \<Rightarrow> bool" where
  "reason_ok v \<longleftrightarrow> v \<noteq> [] \<and> length v \<le> 256 \<and> v = py_strip v \<and> CR \<notin> set v \<and> LF \<notin> set v
     \<and> \<not> search SECRET_ASSIGNMENT_RE v"

definition repository_ok :: "string \<Rightarrow> bool" where
  "repository_ok v \<longleftrightarrow> text_ok 129 v \<and> check_repository v = Inr v"

definition request_ok :: "deploy_request \<Rightarrow> bool" where
  "request_ok r \<longleftrightarrow>
     repository_ok (rq_repository r) \<and> ident_ok (rq_service r) \<and> sha_ok (rq_candidate_sha r)
     \<and> text_ok 256 (rq_trusted_ref r) \<and> trusted_ref_ok (rq_trusted_ref r)
     \<and> text_ok 256 (rq_compose_file r) \<and> \<not> compose_file_bad (rq_compose_file r)
     \<and> ident_ok (rq_container_name r) \<and> List.member ADAPTERS (rq_adapter r)
     \<and> (\<forall>t. rq_reason r = Some t \<longrightarrow> reason_ok t)"

lemma check_repository_Inr: "check_repository v = Inr w \<Longrightarrow> w = v \<and> check_repository v = Inr v"
  by (auto simp: check_repository_def check_identifier_def res_simps split: prod.splits if_splits)

lemma check_repository_parts:
  "check_repository v = Inr w \<Longrightarrow> \<exists>owner name. v = owner @ CHR ''/'' # name \<and> ident_ok owner \<and> ident_ok name"
  by (cases "partition_char CHR ''/'' v")
    (auto simp: check_repository_def check_identifier_def IDENTIFIER_RE_iff res_simps
      split: if_splits dest: partition_char_True [THEN iffD1])

lemma check_reason_iff:
  "check_reason j = Inr r \<longleftrightarrow>
     (j = JNull \<and> r = None) \<or> (\<exists>t. j = JStr t \<and> r = Some t \<and> reason_ok t)"
  by (auto simp: check_reason_def reason_ok_def split: json.splits if_splits)

lemmas check_defs = check_identifier_def check_sha_def check_trusted_ref_def
  check_compose_file_def check_adapter_def IDENTIFIER_RE_iff SHA_RE_iff

lemma parse_request_ok: "parse_request j = Inr r \<Longrightarrow> request_ok r"
  by (auto simp: parse_request_def request_ok_def repository_ok_def check_defs res_simps
      text_field_iff check_reason_iff split: json.splits if_splits dest: check_repository_Inr)

lemma jget_canonical:
  "jget ''repository'' d = JStr (rq_repository r)" "jget ''service'' d = JStr (rq_service r)"
  "jget ''candidate_sha'' d = JStr (rq_candidate_sha r)"
  "jget ''trusted_ref'' d = JStr (rq_trusted_ref r)"
  "jget ''compose_file'' d = JStr (rq_compose_file r)"
  "jget ''container_name'' d = JStr (rq_container_name r)"
  "jget ''adapter'' d = JStr (rq_adapter r)"
  "jget ''reason'' d = (case rq_reason r of None \<Rightarrow> JNull | Some t \<Rightarrow> JStr t)"
  if "d = map (\<lambda>(k, v). (k, JStr v)) (canonicalize_request r)"
  using that by (auto simp: canonicalize_request_def split: option.splits)

lemma unknown_canonical:
  "unknown_keys (map (\<lambda>(k, v). (k, JStr v)) (canonicalize_request r)) = []"
  by (auto simp: unknown_keys_def jkeys_def canonicalize_request_def REQUEST_KEYS_def
      split: option.splits)

lemma parse_canonical:
  assumes "request_ok r"
  shows "parse_request (json_of_dict (canonicalize_request r)) = Inr r"
proof -
  note ok = assms [unfolded request_ok_def repository_ok_def]
  have "text_field d ''repository'' 129 = Inr (rq_repository r)"
    "text_field d ''service'' 256 = Inr (rq_service r)"
    "text_field d ''candidate_sha'' 256 = Inr (rq_candidate_sha r)"
    "text_field d ''trusted_ref'' 256 = Inr (rq_trusted_ref r)"
    "text_field d ''compose_file'' 256 = Inr (rq_compose_file r)"
    "text_field d ''container_name'' 256 = Inr (rq_container_name r)"
    "text_field d ''adapter'' 256 = Inr (rq_adapter r)"
    "check_reason (jget ''reason'' d) = Inr (rq_reason r)"
    if "d = map (\<lambda>(k, v). (k, JStr v)) (canonicalize_request r)" for d
    using jget_canonical [OF that] ok
    by (auto simp: text_field_iff check_reason_iff ident_ok_text sha_ok_text adapter_text
        split: option.splits)
  then show ?thesis
    using ok by (simp add: parse_request_def json_of_dict_def unknown_canonical check_defs)
qed

interpretation request_form: canonical_form
  parse_request "\<lambda>r. json_of_dict (canonicalize_request r)" request_ok
  by unfold_locales (auto intro: parse_request_ok parse_canonical)

lemma json_of_dict_inject: "json_of_dict d = json_of_dict e \<longleftrightarrow> d = e"
  by (auto simp: json_of_dict_def inj_on_def intro!: inj_onI dest!: map_injective)

section \<open>Safety of validated requests\<close>

definition safe_component :: "string \<Rightarrow> bool" where
  "safe_component v \<longleftrightarrow> v \<noteq> [] \<and> v \<noteq> ''.'' \<and> v \<noteq> ''..'' \<and> CHR ''/'' \<notin> set v
     \<and> \<not> list_ex py_isspace v"

lemma alnum_not_dot: "\<not> is_alnum CHR ''.''" "\<not> ident_tail CHR ''/''"
  by (simp_all add: alnum_code code_def ident_tail_def)

lemma ident_ok_safe: "ident_ok v \<Longrightarrow> safe_component v"
  using ident_ok_chars [of v] alnum_not_dot ident_ok_text [of v 64]
  by (auto simp: safe_component_def text_ok_iff ident_ok_def ident_shape_def)

lemma compose_file_components:
  assumes "\<not> compose_file_bad v"
  shows "\<not> is_abs (parse_path v)" and "parts (parse_path v) = split_char CHR ''/'' v"
    and "dotdot \<notin> set (parts (parse_path v))"
proof -
  have comps: "\<forall>p \<in> set (split_char CHR ''/'' v). p \<noteq> [] \<and> p \<noteq> ''.'' \<and> p \<noteq> ''..''"
    using assms by (auto simp: compose_file_bad_def list_ex_iff)
  then show "parts (parse_path v) = split_char CHR ''/'' v"
    by (simp add: parse_path_def)
  then show "dotdot \<notin> set (parts (parse_path v))"
    using comps by (auto simp: dotdot_def)
  show "\<not> is_abs (parse_path v)"
    using assms by (simp add: parse_path_def compose_file_bad_def starts_any_def)
qed

section \<open>The loader is confined\<close>

lemma request_location_iff:
  "request_location fs p allowed = Inr q \<longleftrightarrow>
     (\<exists>root. resolve fs True allowed = Inr root \<and> \<not> symlink_component fs (parts (absolute fs p))
        \<and> resolve fs True p = Inr q \<and> is_dir fs root \<and> strict_prefix root q
        \<and> is_file fs q \<and> \<not> is_symlink fs q)"
  by (auto simp: request_location_def in_parents_def res_simps)

lemma load_request_iff:
  "load_request loads fs p allowed = Inr r \<longleftrightarrow>
     (\<exists>q c j. request_location fs p allowed = Inr q \<and> read_file fs q = Inr c
        \<and> loads c = Inr j \<and> parse_request j = Inr r)"
  by (auto simp: load_request_def res_simps)

section \<open>Properties\<close>

text \<open>
  C15: The canonical representation written into evidence is a faithful identity of the
  request: a request is a possible result of \<open>parse_request\<close> exactly when parsing its own
  canonical form gives it back. So re-parsing recorded evidence never changes the request
  and never fails.
\<close>
theorem request_roundtrip:
  "(\<exists>j. parse_request j = Inr r) \<longleftrightarrow>
     parse_request (json_of_dict (canonicalize_request r)) = Inr r"
  by (metis parse_request_ok parse_canonical)

definition sample_request :: deploy_request where
  "sample_request = \<lparr>rq_repository = ''acme/shop'', rq_service = ''shop-api'',
     rq_candidate_sha = replicate 40 CHR ''a'', rq_trusted_ref = ''refs/heads/main'',
     rq_compose_file = ''deploy/compose.yml'', rq_container_name = ''shop_1'',
     rq_adapter = ''manual'', rq_reason = None\<rparr>"

lemmas char_evals = alnum_code code_def ident_tail_def hex_lower_def is_digit_def is_upper_def
  is_lower_def in_range_def py_isspace_def lower_char_def

lemma sample_repository: "repository_ok ''acme/shop''"
  by (simp add: repository_ok_def check_repository_def check_identifier_def IDENTIFIER_RE_iff
      ident_ok_def ident_shape_def text_ok_iff char_evals)

lemma sample_idents: "ident_ok ''shop-api''" "ident_ok ''shop_1''"
  by (simp_all add: ident_ok_def ident_shape_def char_evals)

lemma sample_sha: "sha_ok (replicate 40 CHR ''a'')"
  by (simp add: sha_ok_def list_all_iff char_evals)

lemma sample_ref: "text_ok 256 ''refs/heads/main''" "trusted_ref_ok ''refs/heads/main''"
  by (simp_all add: text_ok_iff trusted_ref_ok_def starts_any_def contains_def backslash_def
      char_evals sublist_code)

lemma sample_compose: "text_ok 256 ''deploy/compose.yml''" "\<not> compose_file_bad ''deploy/compose.yml''"
  by (simp_all add: text_ok_iff compose_file_bad_def starts_any_def ends_any_def backslash_def
      py_lower_def suffix_def char_evals)

lemma sample_request_ok: "request_ok sample_request"
  by (simp add: sample_request_def request_ok_def sample_repository sample_idents sample_sha
      sample_ref sample_compose ADAPTERS_def)

lemma sample_request_parses:
  "parse_request (json_of_dict (canonicalize_request sample_request)) = Inr sample_request"
  by (rule parse_canonical [OF sample_request_ok])

text \<open>
  Whatever JSON document it comes from, a parsed request is safe to use: the service and
  the container name are single path components without whitespace, the repository is two
  such components, the candidate is 40 lower-case hexadecimal digits, the compose file is a
  relative path that never climbs, and the reason holds no secret assignment.
\<close>
lemma parsed_request_safe:
  assumes "parse_request j = Inr r"
  shows "safe_component (rq_service r) \<and> safe_component (rq_container_name r)
    \<and> (\<exists>owner name. rq_repository r = owner @ ''/'' @ name
         \<and> safe_component owner \<and> safe_component name)
    \<and> length (rq_candidate_sha r) = 40 \<and> list_all hex_lower (rq_candidate_sha r)
    \<and> \<not> is_abs (parse_path (rq_compose_file r))
    \<and> dotdot \<notin> set (parts (parse_path (rq_compose_file r)))
    \<and> starts_any [''refs/heads/'', ''refs/tags/''] (rq_trusted_ref r)
    \<and> (\<forall>t. rq_reason r = Some t \<longrightarrow> \<not> search SECRET_ASSIGNMENT_RE t)"
proof -
  note ok = parse_request_ok [OF assms, unfolded request_ok_def repository_ok_def]
  obtain owner name where "rq_repository r = owner @ CHR ''/'' # name" "ident_ok owner" "ident_ok name"
    using check_repository_parts ok by blast
  then show ?thesis
    using ok compose_file_components [of "rq_compose_file r"]
    by (intro conjI exI [of _ owner] exI [of _ name])
      (auto simp: ident_ok_safe sha_ok_def trusted_ref_ok_def reason_ok_def)
qed

theorem parsed_request_safe_witness:
  "safe_component (rq_service sample_request) \<and> \<not> is_abs (parse_path (rq_compose_file sample_request))"
  using parsed_request_safe [OF sample_request_parses] by blast

text \<open>
  The loader is confined: a request is only ever read from a regular file strictly below
  the resolved allowed root, at the lexical normal form of the given path (no symbolic link
  was followed), and what it returns is the parse of that file's content.
\<close>
lemma load_request_confined:
  assumes "load_request loads fs p allowed = Inr r" and "fs_wf fs"
  shows "\<exists>base q c j. resolve fs True allowed = Inr base \<and> strict_prefix base q
    \<and> q = normal [] (parts (absolute fs p)) \<and> lookup fs q = Some (File c)
    \<and> loads c = Inr j \<and> parse_request j = Inr r"
proof -
  obtain q c j where q: "request_location fs p allowed = Inr q" "read_file fs q = Inr c"
      "loads c = Inr j" "parse_request j = Inr r"
    using assms(1) by (auto simp: load_request_iff)
  then obtain base where base: "resolve fs True allowed = Inr base"
      "\<not> symlink_component fs (parts (absolute fs p))" "resolve fs True p = Inr q" "strict_prefix base q"
    by (auto simp: request_location_iff)
  have "walk fs True link_limit [] q = Inr q"
    using assms(2) resolve_settled [OF assms(2) base(3)] by (rule settled_walk)
  then have "lookup fs q = Some (File c)"
    using q(2) by (auto simp: read_file_def split: option.splits node.splits)
  then show ?thesis
    using q base resolve_strict_normal [OF base(2,3)] by blast
qed

definition sample_fs :: fsys where
  "sample_fs = \<lparr>nodes = [[''srv''] \<mapsto> Dir, [''srv'', ''in''] \<mapsto> Dir,
     [''srv'', ''in'', ''r.json''] \<mapsto> File ''body''], cwd = [''srv'']\<rparr>"

definition sample_loads :: "string \<Rightarrow> json result" where
  "sample_loads c = (if c = ''body'' then Inr (json_of_dict (canonicalize_request sample_request))
     else Inl (Exc JSONDecodeError ''Expecting value''))"

lemma sample_lookup:
  "lookup sample_fs p = (if p = [] \<or> p = [''srv''] \<or> p = [''srv'', ''in''] then Some Dir
     else if p = [''srv'', ''in'', ''r.json''] then Some (File ''body'') else None)"
  by (simp add: sample_fs_def lookup_def)

lemma sample_fs_wf: "fs_wf sample_fs"
  unfolding fs_wf_def sample_lookup
  by (auto simp: dotdot_def split: if_splits simp: append_eq_Cons_conv)

lemma sample_location:
  "request_location sample_fs (Path False [''in'', ''r.json'']) (Path True [''srv'', ''in''])
     = Inr [''srv'', ''in'', ''r.json'']"
  by code_simp

lemma sample_read: "read_file sample_fs [''srv'', ''in'', ''r.json''] = Inr ''body''"
  by code_simp

lemma sample_load:
  "load_request sample_loads sample_fs (Path False [''in'', ''r.json'']) (Path True [''srv'', ''in''])
     = Inr sample_request"
  by (simp add: load_request_def sample_location sample_read sample_loads_def sample_request_parses)

theorem load_request_confined_witness:
  "lookup sample_fs (normal [] (parts (absolute sample_fs (Path False [''in'', ''r.json''])))) =
     Some (File ''body'')"
  using load_request_confined [OF sample_load sample_fs_wf]
  by (auto simp: sample_loads_def split: if_splits)

text \<open>
  A request file that is not valid UTF-8 escapes the loader: the decoding error is a
  \<open>UnicodeDecodeError\<close>, which is neither an \<open>OSError\<close> nor a \<open>JSONDecodeError\<close>, so it is not
  turned into the \<open>RequestError\<close> whose message promises \<open>valid UTF-8 JSON\<close>; every JSON syntax
  error is.
\<close>
lemma load_request_decode_error:
  assumes "request_location fs p allowed = Inr q" and "read_file fs q = Inr c"
    and "loads c = Inl e"
  shows "load_request loads fs p allowed = Inl
    (if exc_cls e = JSONDecodeError \<or> exc_cls e = OSError
     then request_error ''request file must contain valid UTF-8 JSON'' else e)"
  using assms by (auto simp: load_request_def except_raise_Inl catches_def issubclass_def)

theorem load_request_decode_error_witness:
  "load_request (\<lambda>c. Inl (Exc UnicodeDecodeError c)) sample_fs (Path False [''in'', ''r.json''])
     (Path True [''srv'', ''in'']) = Inl (Exc UnicodeDecodeError ''body'')"
  using load_request_decode_error [OF sample_location sample_read,
      of "\<lambda>c. Inl (Exc UnicodeDecodeError c)"] by simp

end
