(* ===== verification/Checkout.thy ===== *)
theory Checkout
  imports Snapshot_Sync Request
begin

text \<open>
  Exact-SHA checkout, \<open>scripts/delivery/checkout.py\<close>: the remote URL policy, the
  destination check and the sequence of git commands. Git is the runner argument, as in the
  source. The destination was just found missing below an existing directory, so creating it
  succeeds where the permissions, which are not modelled, allow it. A \<open>CheckoutError\<close> raised after the destination was created removes it again;
  any other exception of the runner leaves it, because the \<open>except\<close> clause names only
  \<open>CheckoutError\<close>.
\<close>

section \<open>Specification and result\<close>

record checkout_spec =
  co_request :: deploy_request
  co_remote :: string
  co_destination :: path
  co_allowed_root :: path

record checkout_result =
  cr_path :: path
  cr_head_sha :: string
  cr_trusted_ref :: string

section \<open>Paths\<close>

definition validate_paths :: "fsys \<Rightarrow> checkout_spec \<Rightarrow> (string list \<times> string list) result" where
  "validate_paths fs spec =
     bindE (except_raise (resolve fs True (co_allowed_root spec)) [OSError]
             (checkout_error ''allowed checkout root could not be resolved'')) (\<lambda>base.
     guardE (is_dir fs base) (checkout_error ''allowed checkout root must be a directory'')
     (bindE (reject_symlink_components fs (parts (absolute fs (co_destination spec)))) (\<lambda>_.
      bindE (except_raise (resolve fs False (co_destination spec)) [OSError]
             (checkout_error ''checkout destination could not be resolved'')) (\<lambda>dest.
      guardE (base \<noteq> dest \<and> in_parents base dest)
        (checkout_error ''checkout destination must remain below the allowed root'')
      (guardE (\<not> path_exists fs dest)
        (checkout_error ''checkout destination must not already exist'')
      (guardE (is_dir fs (butlast dest))
        (checkout_error ''checkout destination parent must be a directory'')
        (Inr (base, dest))))))))"

section \<open>The remote URL\<close>

text \<open>
  \<open>urllib.parse.urlsplit\<close> after the \<open>://\<close>: the network location ends at the first of
  \<open>/ ? #\<close>, then the fragment and the query are cut off. The user information ends at the last
  \<open>@\<close>. Unbalanced brackets raise \<open>ValueError\<close>; whether a bracketed host is a valid IP
  literal is \<open>bracket_ok\<close>, the standard library's check.
\<close>

record split_url =
  u_hostname :: "string option"
  u_username :: "string option"
  u_password :: "string option"
  u_path :: string
  u_query :: string
  u_fragment :: string

definition before_char :: "char \<Rightarrow> string \<Rightarrow> string" where
  "before_char c s = fst (partition_char c s)"

definition after_char :: "char \<Rightarrow> string \<Rightarrow> string" where
  "after_char c s = snd (snd (partition_char c s))"

definition nonempty :: "string \<Rightarrow> string option" where
  "nonempty s = (if s = [] then None else Some s)"

definition last_at :: "string \<Rightarrow> string option \<times> string" where
  "last_at s =
     (case partition_char CHR ''@'' (rev s) of
        (host, True, info) \<Rightarrow> (Some (rev info), rev host)
      | (host, False, _) \<Rightarrow> (None, s))"

definition urlsplit_rest :: "(string \<Rightarrow> bool) \<Rightarrow> string \<Rightarrow> split_url result" where
  "urlsplit_rest bracket_ok rest =
     (let netloc = takeWhile (\<lambda>c. \<not> one_of ''/?#'' c) rest;
          tail = dropWhile (\<lambda>c. \<not> one_of ''/?#'' c) rest;
          no_frag = before_char CHR ''#'' tail;
          (info, hostinfo) = last_at netloc;
          host = (if has_char CHR ''['' hostinfo
                  then before_char CHR '']'' (after_char CHR ''['' hostinfo)
                  else before_char CHR '':'' hostinfo)
      in if has_char CHR ''['' netloc \<noteq> has_char CHR '']'' netloc
            \<or> (has_char CHR ''['' netloc \<and> \<not> bracket_ok netloc)
         then Inl (Exc ValueError ''Invalid IPv6 URL'')
         else Inr
           \<lparr>u_hostname = nonempty host,
            u_username = map_option (before_char CHR '':'') info,
            u_password = (case info of None \<Rightarrow> None
              | Some i \<Rightarrow> if has_char CHR '':'' i then Some (after_char CHR '':'' i) else None),
            u_path = before_char CHR ''?'' no_frag,
            u_query = after_char CHR ''?'' no_frag,
            u_fragment = after_char CHR ''#'' tail\<rparr>)"

definition scp_host_char :: "char \<Rightarrow> bool" where
  "scp_host_char c \<longleftrightarrow> is_alnum c \<or> one_of ''.-'' c"

definition scp_path_char :: "char \<Rightarrow> bool" where
  "scp_path_char c \<longleftrightarrow> is_alnum c \<or> one_of ''._/-'' c"

definition SCP_REMOTE_RE :: rx where
  "SCP_REMOTE_RE = anchored (seqs
     [lit ''git@'', plus (Cls scp_host_char), lit '':'', plus (Cls scp_path_char)])"

definition url_ok :: "(string \<Rightarrow> bool) \<Rightarrow> bool \<Rightarrow> string \<Rightarrow> bool" where
  "url_ok bracket_ok https rest =
     (case urlsplit_rest bracket_ok rest of
        Inl _ \<Rightarrow> False
      | Inr u \<Rightarrow> u_hostname u \<noteq> None \<and> u_path u \<noteq> [] \<and> u_query u = [] \<and> u_fragment u = []
          \<and> \<not> contains ''..'' (u_path u) \<and> \<not> has_char backslash (u_path u)
          \<and> u_password u = None \<and> \<not> (https \<and> u_username u \<noteq> None))"

definition remote_ok :: "(string \<Rightarrow> bool) \<Rightarrow> string \<Rightarrow> bool" where
  "remote_ok bracket_ok remote \<longleftrightarrow>
     remote \<noteq> [] \<and> remote = py_strip remote
     \<and> \<not> starts_any [''-'', ''ext::'', ''file:'', ''file://''] remote
     \<and> \<not> list_ex (\<lambda>c. py_isspace c \<or> code c < 32) remote
     \<and> (if prefix ''https://'' remote then url_ok bracket_ok True (drop 8 remote)
        else if prefix ''ssh://'' remote then url_ok bracket_ok False (drop 6 remote)
        else fullmatch SCP_REMOTE_RE remote \<and> \<not> contains ''..'' remote)"

definition validate_remote :: "(string \<Rightarrow> bool) \<Rightarrow> string \<Rightarrow> unit result" where
  "validate_remote bracket_ok remote =
     guardE (remote_ok bracket_ok remote)
       (checkout_error ''remote must be an adapter-resolved network Git URL'') (Inr ())"

section \<open>Git\<close>

definition git_argv :: "string list \<Rightarrow> string list \<Rightarrow> string list" where
  "git_argv dest args = [''git'', ''-C'', posix_text dest] @ args"

definition run_git :: "'x runner \<Rightarrow> string list \<Rightarrow> string list \<Rightarrow> ('x world_scheme, string) action" where
  "run_git run dest args =
     bindW (exceptW (run (git_argv dest args)) [OSError]
             (checkout_error ''git command could not be started''))
       (\<lambda>c. liftW (guardE (returncode c = 0) (checkout_error ''git command failed'')
              (Inr (py_strip (stdout_text c)))))"

text \<open>The commands before the final \<open>rev-parse\<close>, in order\<close>

definition checkout_commands :: "checkout_spec \<Rightarrow> string list list" where
  "checkout_commands spec =
     [[''init'', ''--quiet''],
      [''remote'', ''add'', ''origin'', co_remote spec],
      [''fetch'', ''--no-tags'', ''--force'', ''origin'', rq_trusted_ref (co_request spec)],
      [''cat-file'', ''-e'', rq_candidate_sha (co_request spec) @ ''^{commit}''],
      [''merge-base'', ''--is-ancestor'', rq_candidate_sha (co_request spec), ''FETCH_HEAD''],
      [''checkout'', ''--detach'', ''--force'', rq_candidate_sha (co_request spec)]]"

fun run_git_all ::
    "'x runner \<Rightarrow> string list \<Rightarrow> string list list \<Rightarrow> ('x world_scheme, unit) action" where
  "run_git_all run dest [] = liftW (Inr ())"
| "run_git_all run dest (a # args) = bindW (run_git run dest a) (\<lambda>_. run_git_all run dest args)"

definition git_phase ::
    "'x runner \<Rightarrow> string list \<Rightarrow> checkout_spec \<Rightarrow> ('x world_scheme, checkout_result) action" where
  "git_phase run dest spec =
     bindW (run_git_all run dest (checkout_commands spec)) (\<lambda>_.
     bindW (run_git run dest [''rev-parse'', ''HEAD'']) (\<lambda>head.
       liftW (guardE (head = rq_candidate_sha (co_request spec))
         (checkout_error ''checked out HEAD does not match candidate SHA'')
         (Inr \<lparr>cr_path = Path True dest, cr_head_sha = head,
              cr_trusted_ref = rq_trusted_ref (co_request spec)\<rparr>))))"

text \<open>\<open>_cleanup_created_destination\<close>\<close>

definition cleanup_destination :: "string list \<Rightarrow> 'x world_scheme \<Rightarrow> 'x world_scheme" where
  "cleanup_destination dest w =
     (if is_dir (w_fs w) dest \<and> \<not> is_symlink (w_fs w) dest
      then w\<lparr>w_fs := remove_tree dest (w_fs w)\<rparr> else w)"

definition checkout_exact_sha ::
    "(string \<Rightarrow> bool) \<Rightarrow> 'x runner \<Rightarrow> checkout_spec \<Rightarrow> ('x world_scheme, checkout_result) action" where
  "checkout_exact_sha bracket_ok run spec w =
     (case validate_remote bracket_ok (co_remote spec) of
        Inl e \<Rightarrow> (Inl e, w)
      | Inr _ \<Rightarrow>
     (case validate_paths (w_fs w) spec of
        Inl e \<Rightarrow> (Inl e, w)
      | Inr (base, dest) \<Rightarrow>
     (case git_phase run dest spec (w\<lparr>w_fs := put_node dest Dir (w_fs w)\<rparr>) of
        (Inl e, w') \<Rightarrow>
          (Inl e, if exc_cls e = CheckoutError then cleanup_destination dest w' else w')
      | (Inr r, w') \<Rightarrow> (Inr r, w'))))"

section \<open>Lemmas\<close>

lemma run_git_Inr:
  "run_git run dest args w = (Inr out, w') \<longleftrightarrow>
     (\<exists>c. run (git_argv dest args) w = (Inr c, w') \<and> returncode c = 0
        \<and> out = py_strip (stdout_text c))"
  by (auto simp: run_git_def bindW_eq_Inr exceptW_eq_Inr res_simps)

text \<open>A successful chain: each command succeeded, in the world the one before it left.\<close>

fun git_chain :: "'x runner \<Rightarrow> string list \<Rightarrow> string list list \<Rightarrow> 'x world_scheme \<Rightarrow> 'x world_scheme \<Rightarrow> bool" where
  "git_chain run dest [] w w' \<longleftrightarrow> w' = w"
| "git_chain run dest (a # args) w w' \<longleftrightarrow>
     (\<exists>c w1. run (git_argv dest a) w = (Inr c, w1) \<and> returncode c = 0
        \<and> git_chain run dest args w1 w')"

lemma run_git_all_Inr:
  "run_git_all run dest args w = (Inr u, w') \<longleftrightarrow> git_chain run dest args w w'"
  by (induction args arbitrary: w) (auto simp: bindW_eq_Inr run_git_Inr)

lemma git_phase_Inr:
  "git_phase run dest spec w = (Inr r, w') \<longleftrightarrow>
     (\<exists>w1 c. git_chain run dest (checkout_commands spec) w w1
        \<and> run (git_argv dest [''rev-parse'', ''HEAD'']) w1 = (Inr c, w') \<and> returncode c = 0
        \<and> py_strip (stdout_text c) = rq_candidate_sha (co_request spec)
        \<and> r = \<lparr>cr_path = Path True dest, cr_head_sha = rq_candidate_sha (co_request spec),
               cr_trusted_ref = rq_trusted_ref (co_request spec)\<rparr>)"
  by (auto simp: git_phase_def bindW_eq_Inr run_git_all_Inr run_git_Inr res_simps)

lemma validate_paths_Inr:
  "validate_paths fs spec = Inr (base, dest) \<longleftrightarrow>
     resolve fs True (co_allowed_root spec) = Inr base \<and> is_dir fs base
     \<and> \<not> symlink_component fs (parts (absolute fs (co_destination spec)))
     \<and> resolve fs False (co_destination spec) = Inr dest
     \<and> strict_prefix base dest \<and> \<not> path_exists fs dest \<and> is_dir fs (butlast dest)"
  by (auto simp: validate_paths_def reject_symlink_components_def in_parents_def res_simps)

lemma checkout_exact_sha_Inr:
  "checkout_exact_sha bok run spec w = (Inr r, w') \<longleftrightarrow>
     remote_ok bok (co_remote spec)
     \<and> (\<exists>base dest. validate_paths (w_fs w) spec = Inr (base, dest)
        \<and> git_phase run dest spec (w\<lparr>w_fs := put_node dest Dir (w_fs w)\<rparr>) = (Inr r, w'))"
  by (auto simp: checkout_exact_sha_def validate_remote_def guardE_def
      split: sum.splits prod.splits if_splits)

lemma remove_tree_gone: "prefix p q \<Longrightarrow> p \<noteq> [] \<Longrightarrow> lookup (remove_tree p fs) q = None"
  by (cases q) (auto simp: lookup_def remove_tree_def)

section \<open>Properties\<close>

text \<open>One git command that succeeded in the directory of the checkout\<close>

definition git_ran :: "'x runner \<Rightarrow> string list \<Rightarrow> string list \<Rightarrow> 'x world_scheme \<Rightarrow> 'x world_scheme \<Rightarrow> bool" where
  "git_ran run dest args w w' \<longleftrightarrow>
     (\<exists>c. run (''git'' # ''-C'' # posix_text dest # args) w = (Inr c, w') \<and> returncode c = 0)"

lemma checkout_chain:
  "git_chain run dest (checkout_commands spec) w0 w6 \<longleftrightarrow>
     (\<exists>w1 w2 w3 w4 w5.
        git_ran run dest [''init'', ''--quiet''] w0 w1
        \<and> git_ran run dest [''remote'', ''add'', ''origin'', co_remote spec] w1 w2
        \<and> git_ran run dest [''fetch'', ''--no-tags'', ''--force'', ''origin'', rq_trusted_ref (co_request spec)] w2 w3
        \<and> git_ran run dest [''cat-file'', ''-e'', rq_candidate_sha (co_request spec) @ ''^{commit}''] w3 w4
        \<and> git_ran run dest [''merge-base'', ''--is-ancestor'', rq_candidate_sha (co_request spec), ''FETCH_HEAD''] w4 w5
        \<and> git_ran run dest [''checkout'', ''--detach'', ''--force'', rq_candidate_sha (co_request spec)] w5 w6)"
  unfolding checkout_commands_def git_chain.simps git_ran_def git_argv_def by (simp, blast)

lemma remote_ok_shape:
  assumes "remote_ok bracket_ok remote"
  shows "\<not> prefix ''-'' remote \<and> \<not> prefix ''ext::'' remote \<and> \<not> prefix ''file:'' remote
    \<and> (\<forall>c \<in> set remote. \<not> py_isspace c \<and> 32 \<le> code c)"
  using assms by (auto simp: remote_ok_def starts_any_def list_ex_iff not_less)

lemma checkout_cleaned:
  assumes "checkout_exact_sha bracket_ok run spec w = (Inl e, w')" and "exc_cls e = CheckoutError"
    and "remote_ok bracket_ok (co_remote spec)" and "validate_paths (w_fs w) spec = Inr (base, dest)"
    and "is_dir (w_fs w') dest" and "\<not> is_symlink (w_fs w') dest" and "prefix dest q"
  shows "lookup (w_fs w') q = None"
proof -
  have "strict_prefix base dest"
    using assms(4) by (simp add: validate_paths_Inr)
  then have "dest \<noteq> []" by auto
  moreover obtain v where "w' = cleanup_destination dest v"
    using assms(1-4) by (auto simp: checkout_exact_sha_def validate_remote_def
        split: prod.splits sum.splits if_splits)
  ultimately show ?thesis
    using remove_tree_gone assms(5-7) by (auto simp: cleanup_destination_def split: if_splits)
qed

text \<open>
  C8: A checkout that returns is the requested commit, and one that fails leaves nothing behind.
  If it returns, the remote is no option, external transport or local file and has no blank, the
  destination was a fresh path strictly below the allowed root whose parent existed, the six git
  commands written out below succeeded in that directory, each in the state the one before it
  left: init, remote add, fetch of the trusted ref, existence of the candidate, ancestry of the
  candidate in the fetched head, detached checkout; and \<open>rev-parse HEAD\<close> then printed the
  candidate SHA, which is the one reported. If it fails with a \<open>CheckoutError\<close> after remote and
  paths were accepted, the directory it created is gone with everything in it, unless something
  else than a directory has taken its place meanwhile.
\<close>

theorem checkout_is_candidate:
  assumes "checkout_exact_sha bracket_ok run spec w = (res, w')"
  defines "sha \<equiv> rq_candidate_sha (co_request spec)" and "trusted \<equiv> rq_trusted_ref (co_request spec)"
  shows "case res of
      Inr r \<Rightarrow>
        \<not> prefix ''-'' (co_remote spec) \<and> \<not> prefix ''ext::'' (co_remote spec) \<and> \<not> prefix ''file:'' (co_remote spec)
        \<and> (\<forall>c \<in> set (co_remote spec). \<not> py_isspace c \<and> 32 \<le> code c)
        \<and> cr_head_sha r = sha \<and> cr_trusted_ref r = trusted
        \<and> (\<exists>base dest w1 w2 w3 w4 w5 w6 c.
            resolve (w_fs w) True (co_allowed_root spec) = Inr base
            \<and> resolve (w_fs w) False (co_destination spec) = Inr dest \<and> strict_prefix base dest
            \<and> \<not> path_exists (w_fs w) dest \<and> is_dir (w_fs w) (butlast dest) \<and> cr_path r = Path True dest
            \<and> git_ran run dest [''init'', ''--quiet''] (w\<lparr>w_fs := put_node dest Dir (w_fs w)\<rparr>) w1
            \<and> git_ran run dest [''remote'', ''add'', ''origin'', co_remote spec] w1 w2
            \<and> git_ran run dest [''fetch'', ''--no-tags'', ''--force'', ''origin'', trusted] w2 w3
            \<and> git_ran run dest [''cat-file'', ''-e'', sha @ ''^{commit}''] w3 w4
            \<and> git_ran run dest [''merge-base'', ''--is-ancestor'', sha, ''FETCH_HEAD''] w4 w5
            \<and> git_ran run dest [''checkout'', ''--detach'', ''--force'', sha] w5 w6
            \<and> run [''git'', ''-C'', posix_text dest, ''rev-parse'', ''HEAD''] w6 = (Inr c, w')
            \<and> returncode c = 0 \<and> py_strip (stdout_text c) = sha)
    | Inl e \<Rightarrow>
        \<forall>base dest q. exc_cls e = CheckoutError \<and> remote_ok bracket_ok (co_remote spec)
          \<and> validate_paths (w_fs w) spec = Inr (base, dest) \<and> is_dir (w_fs w') dest
          \<and> \<not> is_symlink (w_fs w') dest \<and> prefix dest q \<longrightarrow> lookup (w_fs w') q = None"
proof (cases res)
  case (Inl e)
  then show ?thesis using checkout_cleaned assms(1) by (simp, blast)
next
  case (Inr r)
  then obtain base dest where ok: "remote_ok bracket_ok (co_remote spec)" "validate_paths (w_fs w) spec = Inr (base, dest)"
    and phase: "git_phase run dest spec (w\<lparr>w_fs := put_node dest Dir (w_fs w)\<rparr>) = (Inr r, w')"
    using assms(1) by (auto simp: checkout_exact_sha_Inr)
  obtain w6 c where c: "git_chain run dest (checkout_commands spec) (w\<lparr>w_fs := put_node dest Dir (w_fs w)\<rparr>) w6"
    "run (git_argv dest [''rev-parse'', ''HEAD'']) w6 = (Inr c, w')" "returncode c = 0"
    "py_strip (stdout_text c) = sha" "r = \<lparr>cr_path = Path True dest, cr_head_sha = sha, cr_trusted_ref = trusted\<rparr>"
    using phase by (auto simp: git_phase_Inr sha_def trusted_def)
  have head: "run [''git'', ''-C'', posix_text dest, ''rev-parse'', ''HEAD''] w6 = (Inr c, w')"
    using c(2) by (simp add: git_argv_def)
  have parts: "cr_path r = Path True dest" "cr_head_sha r = sha" "cr_trusted_ref r = trusted" using c(5) by simp_all
  note paths = ok(2) [unfolded validate_paths_Inr]
  show ?thesis
    using Inr remote_ok_shape [OF ok(1)] paths c(1) [unfolded checkout_chain, folded sha_def trusted_def] head c(3,4) parts
    by (simp only: sum.case) blast
qed

definition demo_git :: "unit runner" where
  "demo_git argv w = (Inr \<lparr>returncode = 0,
     stdout = (if last argv = ''HEAD'' then Some (replicate 40 CHR ''a'' @ [LF]) else None)\<rparr>, w)"

definition demo_checkout :: checkout_spec where
  "demo_checkout = \<lparr>co_request = sample_request, co_remote = ''git@h:a/b'',
     co_destination = Path True [''src'', ''co''], co_allowed_root = Path True [''src'']\<rparr>"

lemma demo_remote: "remote_ok bracket_ok ''git@h:a/b''"
proof -
  have "fullmatch SCP_REMOTE_RE ''git@h:a/b''" "py_strip ''git@h:a/b'' = ''git@h:a/b''"
    "\<not> contains ''..'' ''git@h:a/b''"
    by code_simp+
  then show ?thesis
    by (simp add: remote_ok_def starts_any_def py_isspace_def code_def)
qed

lemma demo_checkout_paths: "validate_paths demo_fs demo_checkout = Inr ([''src''], [''src'', ''co''])"
  by code_simp

lemma demo_head: "py_strip (replicate 40 CHR ''a'' @ [LF]) = replicate 40 CHR ''a''"
  by code_simp

lemma demo_checkout_runs:
  "checkout_exact_sha bracket_ok demo_git demo_checkout demo_world =
     (Inr \<lparr>cr_path = Path True [''src'', ''co''], cr_head_sha = replicate 40 CHR ''a'',
           cr_trusted_ref = ''refs/heads/main''\<rparr>,
      demo_world\<lparr>w_fs := put_node [''src'', ''co''] Dir demo_fs\<rparr>)"
proof -
  have "w_fs demo_world = demo_fs" by (simp add: demo_world_def)
  moreover have "co_remote demo_checkout = ''git@h:a/b''" "co_request demo_checkout = sample_request"
    by (simp_all add: demo_checkout_def)
  moreover have "rq_candidate_sha sample_request = replicate 40 CHR ''a''"
    "rq_trusted_ref sample_request = ''refs/heads/main''"
    by (simp_all add: sample_request_def)
  moreover have "git_chain demo_git [''src'', ''co''] (checkout_commands demo_checkout) v v" for v
    by (simp add: checkout_commands_def demo_git_def)
  ultimately show ?thesis
    using demo_checkout_paths demo_remote [of bracket_ok] demo_head
    by (auto simp: checkout_exact_sha_Inr git_phase_Inr demo_git_def git_argv_def stdout_text_def)
qed

theorem checkout_is_candidate_witness:
  "\<exists>dest w4 w5. strict_prefix [''src''] dest \<and> \<not> path_exists demo_fs dest
     \<and> git_ran demo_git dest [''merge-base'', ''--is-ancestor'', rq_candidate_sha (co_request demo_checkout), ''FETCH_HEAD''] w4 w5"
proof -
  have root: "resolve (w_fs demo_world) True (co_allowed_root demo_checkout) = Inr [''src'']" "w_fs demo_world = demo_fs"
    using demo_checkout_paths by (simp_all add: validate_paths_Inr demo_world_def)
  obtain base dest w4 w5 where "resolve (w_fs demo_world) True (co_allowed_root demo_checkout) = Inr base"
    "strict_prefix base dest" "\<not> path_exists (w_fs demo_world) dest"
    "git_ran demo_git dest [''merge-base'', ''--is-ancestor'', rq_candidate_sha (co_request demo_checkout), ''FETCH_HEAD''] w4 w5"
    using checkout_is_candidate [OF demo_checkout_runs [of "\<lambda>_. True"], unfolded sum.case] by blast
  with root show ?thesis by (metis sum.inject(2))
qed

definition failing_git :: "unit runner" where
  "failing_git argv w = (Inr \<lparr>returncode = 1, stdout = None\<rparr>, w)"

lemma failing_checkout:
  "checkout_exact_sha (\<lambda>_. True) failing_git demo_checkout demo_world
     = (Inl (checkout_error ''git command failed''), demo_world)"
proof -
  let ?w = "demo_world\<lparr>w_fs := put_node [''src'', ''co''] Dir demo_fs\<rparr>"
  have fs: "w_fs demo_world = demo_fs" by (simp add: demo_world_def)
  have dir: "is_dir (put_node [''src'', ''co''] Dir demo_fs) [''src'', ''co'']"
    and no_link: "\<not> is_symlink (put_node [''src'', ''co''] Dir demo_fs) [''src'', ''co'']"
    by code_simp+
  have gone: "remove_tree [''src'', ''co''] (put_node [''src'', ''co''] Dir demo_fs) = demo_fs"
    by (auto simp: remove_tree_def put_node_def demo_fs_def fun_eq_iff)
  have phase: "git_phase failing_git [''src'', ''co''] demo_checkout ?w
      = (Inl (checkout_error ''git command failed''), ?w)"
    by (simp add: git_phase_def checkout_commands_def run_git_def failing_git_def bindW_def
        exceptW_def liftW_def)
  have remote: "remote_ok (\<lambda>_. True) (co_remote demo_checkout)"
    by (simp add: demo_checkout_def demo_remote)
  have "cleanup_destination [''src'', ''co''] ?w = demo_world"
    using dir no_link gone by (simp add: cleanup_destination_def demo_world_def)
  then show ?thesis
    using phase remote demo_checkout_paths
    by (simp add: checkout_exact_sha_def validate_remote_def fs checkout_error_def)
qed

text \<open>
  The symbolic-link check on the destination can be stepped around. For a path of the form
  \<open>root/missing/../link\<close> no prefix is reachable as a link, because \<open>missing\<close> does not exist,
  yet the non-strict resolution drops \<open>missing/..\<close> lexically and then follows \<open>link\<close>. The
  destination is still confined to the root, but it is not the path that was named.
\<close>
lemma symlink_check_bypassed:
  "\<exists>fs spec base dest. fs_wf fs \<and> validate_paths fs spec = Inr (base, dest)
     \<and> dest \<noteq> normal [] (parts (absolute fs (co_destination spec)))
     \<and> is_link_at fs (normal [] (parts (absolute fs (co_destination spec))))
     \<and> strict_prefix base dest"
proof -
  let ?fs = "\<lparr>nodes = [[''r''] \<mapsto> Dir, [''r'', ''l''] \<mapsto> Link ''sub/new'', [''r'', ''sub''] \<mapsto> Dir],
    cwd = []\<rparr> :: fsys"
  let ?spec = "\<lparr>co_request = sample_request, co_remote = ''git@h:a/b'',
    co_destination = Path True [''r'', ''m'', ''..'', ''l''], co_allowed_root = Path True [''r'']\<rparr>"
  have "lookup ?fs q = (if q \<in> {[], [''r''], [''r'', ''sub'']} then Some Dir
      else if q = [''r'', ''l''] then Some (Link ''sub/new'') else None)" for q
    by (simp add: lookup_def)
  then have "fs_wf ?fs"
    unfolding fs_wf_def by (auto simp: dotdot_def append_eq_Cons_conv split: if_splits)
  moreover have "validate_paths ?fs ?spec = Inr ([''r''], [''r'', ''sub'', ''new''])"
    by code_simp
  moreover have "normal [] (parts (absolute ?fs (co_destination ?spec))) = [''r'', ''l'']"
    by code_simp
  moreover have "is_link_at ?fs [''r'', ''l'']" by code_simp
  moreover have "[''r'', ''sub'', ''new''] \<noteq> [''r'', ''l'']" "strict_prefix [''r''] [''r'', ''sub'', ''new'']"
    by auto
  ultimately show ?thesis
    by - (rule exI [of _ ?fs], rule exI [of _ ?spec], rule exI [of _ "[''r'']"],
        rule exI [of _ "[''r'', ''sub'', ''new'']"], simp)
qed

end
