(* ===== verification/Delivery_Lock.thy ===== *)
theory Delivery_Lock
  imports Checkout
begin

text \<open>
  The per-service delivery lock, \<open>scripts/delivery/lock.py\<close>. The polling loop reads the
  monotonic clock and sleeps; \<open>time.sleep\<close> suspends for at least the time asked for, so
  the clock moves on by that much plus a non-negative rest, and the loop terminates. What
  the other processes do with the lock file is the environment argument \<open>probe\<close>. The
  context manager is a function that wraps the body of the \<open>with\<close> statement. Opening the lock
  file may succeed where setting its permissions fails, because another user owns it; whether
  \<open>os.chmod\<close> succeeds is the environment argument \<open>chmod\<close>, and its \<open>OSError\<close> is caught by no
  \<open>except\<close> clause. Unlocking and closing a descriptor succeed. Floats are rationals here; the
  only arithmetic is on the 0.05 s poll interval.
\<close>

section \<open>Validation\<close>

definition lock_error :: "string \<Rightarrow> exc" where "lock_error m = Exc DeliveryLockError m"

definition SERVICE_RE :: rx where
  "SERVICE_RE = anchored (Seq (Cls is_alnum) (upto_rep 127 (Cls ident_tail)))"

text \<open>The values \<open>timeout_seconds\<close> can take: \<open>bool\<close> is a subclass of \<open>int\<close> in Python.\<close>

datatype py_number = PyBool bool | PyInt int | PyFloat rat | PyInf | PyNaN | NotANumber

text \<open>\<open>float(n)\<close> of an integer this large raises \<open>OverflowError\<close>.\<close>

definition float_limit :: int where "float_limit = 2 ^ 1024 - 2 ^ 970"

definition validate_timeout :: "py_number \<Rightarrow> rat result" where
  "validate_timeout t =
     (let bad = lock_error ''lock timeout must be between 0 and 3600 seconds'' in
      case t of
        PyInt n \<Rightarrow>
          if n \<ge> float_limit \<or> n \<le> - float_limit
          then Inl (Exc OverflowError ''int too large to convert to float'')
          else if n < 0 \<or> n > 3600 then Inl bad else Inr (of_int n)
      | PyFloat q \<Rightarrow> if q < 0 \<or> q > 3600 then Inl bad else Inr q
      | _ \<Rightarrow> Inl bad)"

definition validate_lock_root :: "fsys \<Rightarrow> path \<Rightarrow> string list result" where
  "validate_lock_root fs p =
     bindE (except_raise (reject_symlink_components fs (parts (absolute fs p))) [CheckoutError]
             (lock_error ''lock root must not contain symlink components'')) (\<lambda>_.
     bindE (except_raise (resolve fs True p) [OSError]
             (lock_error ''lock root could not be resolved'')) (\<lambda>r.
     guardE (is_dir fs r \<and> r \<noteq> [])
       (lock_error ''lock root must be an existing non-root directory'') (Inr r)))"

definition validate_service :: "string \<Rightarrow> string result" where
  "validate_service s =
     guardE (fullmatch SERVICE_RE s) (lock_error ''service must be a bounded identifier'') (Inr s)"

section \<open>Acquiring\<close>

datatype probe = Free | Busy | Broken

record lock_env =
  le_chmod :: "string list \<Rightarrow> rat \<Rightarrow> bool"    \<comment> \<open>may this process set the permissions of a lock file at a time\<close>
  le_probe :: "string list \<Rightarrow> rat \<Rightarrow> probe"   \<comment> \<open>the other processes' state of a lock file at a time\<close>
  le_oversleep :: "rat \<Rightarrow> rat"              \<comment> \<open>how much longer than asked a sleep begun then lasts\<close>

text \<open>
  One \<open>flock(LOCK_EX | LOCK_NB)\<close>. A second descriptor of the same process conflicts with
  the first, so a lock this process holds is busy as well.
\<close>

definition try_lock :: "lock_env \<Rightarrow> string list \<Rightarrow> 'x world_scheme \<Rightarrow> probe" where
  "try_lock env p w = (if List.member (w_held w) p then Busy else le_probe env p (w_clock w))"

definition poll_interval :: rat where "poll_interval = 1 / 20"

definition sleep :: "lock_env \<Rightarrow> rat \<Rightarrow> 'x world_scheme \<Rightarrow> 'x world_scheme" where
  "sleep env d w = w\<lparr>w_clock := w_clock w + d + max 0 (le_oversleep env (w_clock w))\<rparr>"

text \<open>How many more polls the remaining time allows at most.\<close>

definition polls_left :: "rat \<Rightarrow> rat \<Rightarrow> nat" where
  "polls_left deadline now = nat \<lceil>(deadline - now) * 20\<rceil>"

lemma polls_left_decreases:
  assumes "0 < deadline - now" and "0 \<le> over"
  shows "polls_left deadline (now + min poll_interval (deadline - now) + over)
       < polls_left deadline now"
proof -
  let ?r = "deadline - now"
  let ?later = "(deadline - (now + min poll_interval ?r + over)) * 20"
  have "?later \<le> (?r - min poll_interval ?r) * 20"
    using assms(2) by simp
  then have bound: "?later \<le> max 0 (?r * 20 - 1)"
    by (simp add: poll_interval_def min_def max_def)
  have "\<lceil>?later\<rceil> < \<lceil>?r * 20\<rceil> \<or> \<lceil>?later\<rceil> \<le> 0"
  proof (cases "?later \<le> 0")
    case False
    with bound have "?later \<le> ?r * 20 - 1" by (simp add: max_def split: if_splits)
    then have "\<lceil>?later\<rceil> \<le> \<lceil>?r * 20 - 1\<rceil>" by (rule ceiling_mono)
    then show ?thesis by simp
  qed simp
  moreover have "0 < \<lceil>?r * 20\<rceil>" using assms(1) by simp
  ultimately show ?thesis
    unfolding polls_left_def by linarith
qed

function acquire :: "lock_env \<Rightarrow> string list \<Rightarrow> rat \<Rightarrow> ('x world_scheme, unit) action" where
  "acquire env p deadline w =
     (case try_lock env p w of
        Free \<Rightarrow> (Inr (), w\<lparr>w_held := p # w_held w\<rparr>)
      | Broken \<Rightarrow> (Inl (lock_error ''service lock could not be acquired''), w)
      | Busy \<Rightarrow>
          if deadline - w_clock w \<le> 0
          then (Inl (lock_error ''timed out waiting for service lock''), w)
          else acquire env p deadline
                 (sleep env (min poll_interval (deadline - w_clock w)) w))"
  by pat_completeness auto
termination
  by (relation "measure (\<lambda>(env, p, deadline, w). polls_left deadline (w_clock w))")
    (auto simp: sleep_def intro: polls_left_decreases)

declare acquire.simps [simp del]

section \<open>The context manager\<close>

definition lock_path :: "string list \<Rightarrow> string \<Rightarrow> string list" where
  "lock_path base service = base @ [service @ ''.lock'']"

text \<open>\<open>os.open(path, O_RDWR | O_CREAT | O_NOFOLLOW)\<close>\<close>

definition open_lock :: "string list \<Rightarrow> fsys \<Rightarrow> fsys result" where
  "open_lock p fs =
     (case lookup fs p of
        None \<Rightarrow> Inr (put_node p (File []) fs)
      | Some (File _) \<Rightarrow> Inr fs
      | _ \<Rightarrow> Inl (lock_error ''service lock could not be opened''))"

definition release :: "string list \<Rightarrow> 'x world_scheme \<Rightarrow> 'x world_scheme" where
  "release p w = w\<lparr>w_held := remove1 p (w_held w)\<rparr>"

definition lock_target :: "fsys \<Rightarrow> path \<Rightarrow> string \<Rightarrow> py_number \<Rightarrow> (string list \<times> rat \<times> fsys) result" where
  "lock_target fs lock_root service timeout =
     bindE (validate_lock_root fs lock_root) (\<lambda>base.
     bindE (validate_service service) (\<lambda>name.
     bindE (validate_timeout timeout) (\<lambda>t.
     guardE (\<not> is_symlink fs (lock_path base name))
       (lock_error ''service lock path must not be a symlink'')
       (bindE (open_lock (lock_path base name) fs) (\<lambda>fs'.
         Inr (lock_path base name, t, fs'))))))"

definition chmod_error :: exc where "chmod_error = Exc OSError ''Operation not permitted''"

definition service_lock ::
    "lock_env \<Rightarrow> path \<Rightarrow> string \<Rightarrow> py_number \<Rightarrow> ('x world_scheme, 'a) action \<Rightarrow> ('x world_scheme, 'a) action" where
  "service_lock env lock_root service timeout body w =
     (case lock_target (w_fs w) lock_root service timeout of
        Inl e \<Rightarrow> (Inl e, w)
      | Inr (p, t, fs') \<Rightarrow>
          if \<not> le_chmod env p (w_clock w) then (Inl chmod_error, w\<lparr>w_fs := fs'\<rparr>)
          else bindW (acquire env p (w_clock w + t)) (\<lambda>_. finallyW body (release p))
            (w\<lparr>w_fs := fs'\<rparr>))"

section \<open>What acquiring does\<close>

text \<open>
  Acquiring changes only the clock and, on success, the set of held locks; the lock was
  free at the time it was taken, and a timeout means it was still busy at or after the
  deadline.
\<close>

lemma acquire_outcome:
  "acquire env p deadline w = (r, w') \<Longrightarrow>
     w_clock w \<le> w_clock w' \<and> w_fs w' = w_fs w \<and> w_tars w' = w_tars w
     \<and> (case r of
          Inr _ \<Rightarrow> w_held w' = p # w_held w \<and> p \<notin> set (w_held w)
                 \<and> le_probe env p (w_clock w') = Free
        | Inl e \<Rightarrow> w_held w' = w_held w \<and> exc_cls e = DeliveryLockError)"
proof (induction env p deadline w arbitrary: r w' rule: acquire.induct)
  case (1 env p deadline w)
  show ?case
  proof (cases "try_lock env p w")
    case Free
    with "1.prems" show ?thesis
      by (auto simp: acquire.simps [of env p deadline w] try_lock_def split: if_splits)
  next
    case Broken
    with "1.prems" show ?thesis
      by (auto simp: acquire.simps [of env p deadline w] lock_error_def)
  next
    case Busy
    show ?thesis
    proof (cases "deadline - w_clock w \<le> 0")
      case True
      with Busy "1.prems" show ?thesis
        by (auto simp: acquire.simps [of env p deadline w] lock_error_def)
    next
      case False
      let ?w1 = "sleep env (min poll_interval (deadline - w_clock w)) w"
      have "acquire env p deadline ?w1 = (r, w')"
        using Busy False "1.prems" by (simp add: acquire.simps [of env p deadline w])
      from "1.IH" [OF Busy False this]
      have rest: "w_clock ?w1 \<le> w_clock w' \<and> w_fs w' = w_fs ?w1 \<and> w_tars w' = w_tars ?w1
         \<and> (case r of
              Inr _ \<Rightarrow> w_held w' = p # w_held ?w1 \<and> p \<notin> set (w_held ?w1)
                     \<and> le_probe env p (w_clock w') = Free
            | Inl e \<Rightarrow> w_held w' = w_held ?w1 \<and> exc_cls e = DeliveryLockError)" .
      have "w_clock w \<le> w_clock ?w1"
        using False by (simp add: sleep_def poll_interval_def min_def)
      with rest show ?thesis by (cases r) (auto simp: sleep_def)
    qed
  qed
qed

lemma acquire_more: "acquire env p deadline w = (r, w') \<Longrightarrow> world.more w' = world.more w"
proof (induction env p deadline w arbitrary: r w' rule: acquire.induct)
  case (1 env p deadline w)
  then show ?case
    by (auto simp: acquire.simps [of env p deadline w] sleep_def split: probe.splits if_splits)
qed

lemma acquire_timeout:
  "acquire env p deadline w = (Inl e, w') \<Longrightarrow>
     e = lock_error ''timed out waiting for service lock'' \<Longrightarrow>
     deadline \<le> w_clock w' \<and> try_lock env p w' = Busy"
proof (induction env p deadline w arbitrary: w' rule: acquire.induct)
  case (1 env p deadline w)
  then show ?case
    by (auto simp: acquire.simps [of env p deadline w] lock_error_def
        split: probe.splits if_splits)
qed

text \<open>With no time to wait there is exactly one attempt and no sleep.\<close>

lemma acquire_no_wait:
  "deadline \<le> w_clock w \<Longrightarrow> acquire env p deadline w =
     (case try_lock env p w of
        Free \<Rightarrow> (Inr (), w\<lparr>w_held := p # w_held w\<rparr>)
      | Broken \<Rightarrow> (Inl (lock_error ''service lock could not be acquired''), w)
      | Busy \<Rightarrow> (Inl (lock_error ''timed out waiting for service lock''), w))"
  by (simp add: acquire.simps split: probe.split)

section \<open>The interface\<close>

text \<open>
  A \<open>bracket\<close> runs a body inside a protected region: what the body does outside the region
  does not matter, and the protected resource is given back however the body ends.
\<close>

locale bracket =
  fixes wrap :: "('w, 'a) action \<Rightarrow> ('w, 'a) action"
    and inside :: "'w \<Rightarrow> bool"
    and resource :: "'w \<Rightarrow> 'r"
  assumes only_inside: "(\<And>w. inside w \<Longrightarrow> body w = body' w) \<Longrightarrow> wrap body w = wrap body' w"
    and restores:
      "(\<And>v r v'. inside v \<Longrightarrow> body v = (r, v') \<Longrightarrow> resource v' = resource v) \<Longrightarrow>
       wrap body w = (r, w') \<Longrightarrow> resource w' = resource w"
begin

text \<open>A body may be rewritten by facts that hold only while the region is protected.\<close>

lemma rewrite_guarded:
  "wrap body w = wrap (\<lambda>v. if inside v then body v else fallback v) w"
  by (rule only_inside) simp

lemma restores_guarded:
  assumes "\<And>v r v'. inside v \<Longrightarrow> body v = (r, v') \<Longrightarrow> inside v' \<Longrightarrow> resource v' = resource v"
    and "\<And>v r v'. inside v \<Longrightarrow> body v = (r, v') \<Longrightarrow> inside v'"
    and "wrap body w = (r, w')"
  shows "resource w' = resource w"
  using restores [OF _ assms(3)] assms(1,2) by blast

end

definition holds_service_lock :: "string \<Rightarrow> 'x world_scheme \<Rightarrow> bool" where
  "holds_service_lock service w \<longleftrightarrow> (\<exists>base. lock_path base service \<in> set (w_held w))"

lemma lock_target_path:
  "lock_target fs lr service t = Inr (p, d, fs') \<Longrightarrow> \<exists>base. p = lock_path base service"
  by (auto simp: lock_target_def validate_service_def res_simps)

lemma service_lock_only_inside:
  assumes same: "\<And>w. holds_service_lock service w \<Longrightarrow> body w = body' w"
  shows "service_lock env lr service t body w = service_lock env lr service t body' w"
proof (cases "lock_target (w_fs w) lr service t")
  case (Inl e)
  then show ?thesis by (simp add: service_lock_def)
next
  case (Inr x)
  obtain p d fs' where x: "x = (p, d, fs')" by (cases x)
  let ?w1 = "w\<lparr>w_fs := fs'\<rparr>"
  obtain r w2 where acq: "acquire env p (w_clock w + d) ?w1 = (r, w2)"
    by (cases "acquire env p (w_clock w + d) ?w1")
  have "finallyW body (release p) w2 = finallyW body' (release p) w2" if "r = Inr u" for u
  proof -
    have "w_held w2 = p # w_held w"
      using acquire_outcome [OF acq] that by simp
    then have "holds_service_lock service w2"
      using lock_target_path Inr x by (fastforce simp: holds_service_lock_def)
    then show ?thesis by (simp add: finallyW_def same)
  qed
  then show ?thesis
    using Inr x acq by (cases r) (auto simp: service_lock_def bindW_def)
qed

lemma service_lock_restores:
  assumes keeps: "\<And>v r v'. holds_service_lock service v \<Longrightarrow> body v = (r, v') \<Longrightarrow> w_held v' = w_held v"
    and run: "service_lock env lr service t body w = (r, w')"
  shows "w_held w' = w_held w"
proof (cases "lock_target (w_fs w) lr service t")
  case (Inl e)
  with run show ?thesis by (simp add: service_lock_def)
next
  case (Inr x)
  obtain p d fs' where x: "x = (p, d, fs')" by (cases x)
  let ?w1 = "w\<lparr>w_fs := fs'\<rparr>"
  obtain r1 w2 where acq: "acquire env p (w_clock w + d) ?w1 = (r1, w2)"
    by (cases "acquire env p (w_clock w + d) ?w1")
  note out = acquire_outcome [OF acq]
  show ?thesis
  proof (cases "le_chmod env p (w_clock w)"; cases r1)
    fix u assume "\<not> le_chmod env p (w_clock w)"
    then have "w' = ?w1" using run Inr x by (simp add: service_lock_def)
    then show ?thesis by simp
  next
    fix u assume "\<not> le_chmod env p (w_clock w)"
    then have "w' = ?w1" using run Inr x by (simp add: service_lock_def)
    then show ?thesis by simp
  next
    fix e assume "r1 = Inl e"
    with acq out run Inr x show ?thesis by (auto simp: service_lock_def bindW_def split: if_splits)
  next
    fix u assume chmod: "le_chmod env p (w_clock w)" and r1: "r1 = Inr u"
    have held: "w_held w2 = p # w_held w"
      using out r1 by simp
    then have "holds_service_lock service w2"
      using lock_target_path Inr x by (fastforce simp: holds_service_lock_def)
    moreover obtain r2 w3 where body: "body w2 = (r2, w3)" by (cases "body w2")
    ultimately have "w_held w3 = p # w_held w" using keeps held by simp
    moreover have "w' = release p w3"
      using run Inr x acq r1 body chmod by (simp add: service_lock_def bindW_def finallyW_def)
    ultimately show ?thesis by (simp add: release_def)
  qed
qed

interpretation delivery_lock: bracket
  "service_lock env lr service t" "holds_service_lock service" w_held
  by unfold_locales (blast intro: service_lock_only_inside, blast intro: service_lock_restores)

lemma service_lock_eq_Inr:
  "service_lock env lr service t body w = (Inr r, w') \<longleftrightarrow>
     (\<exists>p d fs' w1 w2. lock_target (w_fs w) lr service t = Inr (p, d, fs') \<and> le_chmod env p (w_clock w)
        \<and> acquire env p (w_clock w + d) (w\<lparr>w_fs := fs'\<rparr>) = (Inr (), w1)
        \<and> body w1 = (Inr r, w2) \<and> w' = release p w2)"
  by (auto simp: service_lock_def bindW_eq_Inr finallyW_eq split: sum.splits if_splits)

section \<open>Properties\<close>

lemma acquire_deadline:
  "acquire env p deadline w = (r, w') \<Longrightarrow> \<forall>t. le_oversleep env t \<le> b \<Longrightarrow> 0 \<le> b \<Longrightarrow>
     w_clock w' \<le> max (w_clock w) (deadline + b)"
proof (induction env p deadline w arbitrary: r w' rule: acquire.induct)
  case (1 env p deadline w)
  show ?case
  proof (cases "try_lock env p w = Busy \<and> \<not> deadline - w_clock w \<le> 0")
    case False
    with "1.prems" show ?thesis
      by (auto simp: acquire.simps [of env p deadline w] split: probe.splits if_splits)
  next
    case True
    let ?w1 = "sleep env (min poll_interval (deadline - w_clock w)) w"
    have "acquire env p deadline ?w1 = (r, w')"
      using True "1.prems" by (simp add: acquire.simps [of env p deadline w])
    then have later: "w_clock w' \<le> max (w_clock ?w1) (deadline + b)"
      using "1.IH" True "1.prems" by blast
    have "max 0 (le_oversleep env (w_clock w)) \<le> b"
      using "1.prems" by simp
    moreover have "min poll_interval (deadline - w_clock w) \<le> deadline - w_clock w"
      by simp
    moreover have "w_clock ?w1 = w_clock w + min poll_interval (deadline - w_clock w)
        + max 0 (le_oversleep env (w_clock w))"
      by (simp add: sleep_def)
    ultimately have "w_clock ?w1 \<le> deadline + b"
      by linarith
    with later show ?thesis by (simp add: max_def split: if_splits)
  qed
qed

text \<open>
  C9: Acquiring the lock always ends, within the time allowed plus at most one late wake-up.
  Success means that the lock was free at that moment and not held by this process before,
  and it is held now; a timeout is reported only at or after the deadline, with the lock busy
  at the last look; any failure leaves the set of held locks as it was. Files and archives
  are never touched.
\<close>
theorem acquire_bounded:
  assumes "acquire env p deadline w = (r, w')"
    and "\<forall>t. le_oversleep env t \<le> b" and "0 \<le> b"
  shows "w_clock w \<le> w_clock w' \<and> w_clock w' \<le> max (w_clock w) (deadline + b)
    \<and> w_fs w' = w_fs w \<and> w_tars w' = w_tars w
    \<and> (r = Inr () \<longrightarrow> w_held w' = p # w_held w \<and> p \<notin> set (w_held w)
         \<and> le_probe env p (w_clock w') = Free)
    \<and> (\<forall>e. r = Inl e \<longrightarrow> w_held w' = w_held w
         \<and> (e = lock_error ''timed out waiting for service lock'' \<longrightarrow>
              deadline \<le> w_clock w' \<and> try_lock env p w' = Busy))"
  using acquire_outcome [OF assms(1)] acquire_deadline [OF assms]
    acquire_timeout [of env p deadline w _ w'] assms(1)
  by (cases r) auto

definition busy_env :: lock_env where
  "busy_env = \<lparr>le_chmod = (\<lambda>_ _. True), le_probe = (\<lambda>p t. if t < 1 / 10 then Busy else Free), le_oversleep = (\<lambda>_. 0)\<rparr>"

lemma busy_acquire:
  "acquire busy_env [''l''] 1 demo_world
     = (Inr (), demo_world\<lparr>w_clock := 1 / 10, w_held := [[''l'']]\<rparr>)"
  by (simp add: acquire.simps try_lock_def busy_env_def demo_world_def sleep_def poll_interval_def)

theorem acquire_bounded_witness:
  "le_probe busy_env [''l''] (1 / 10) = Free"
  using acquire_bounded [OF busy_acquire, of 0] by (simp add: busy_env_def)

text \<open>
  C10: The lock is exclusive, also against the process itself: while the lock file of the
  service is already held, a second \<open>with service_lock(...)\<close> never runs its body, whatever the
  timeout and whatever the other processes do. It keeps the locks held and fails, with a
  \<open>DeliveryLockError\<close>, or with an \<open>OSError\<close> where the permissions of the lock file cannot be set.
\<close>
theorem service_lock_exclusive:
  assumes "lock_target (w_fs w) lock_root service timeout = Inr (p, d, fs')"
    and "p \<in> set (w_held w)"
  shows "\<exists>e w'. service_lock env lock_root service timeout body w = (Inl e, w')
    \<and> exc_cls e = (if le_chmod env p (w_clock w) then DeliveryLockError else OSError)
    \<and> w_held w' = w_held w"
proof -
  obtain r w1 where acq: "acquire env p (w_clock w + d) (w\<lparr>w_fs := fs'\<rparr>) = (r, w1)"
    by (cases "acquire env p (w_clock w + d) (w\<lparr>w_fs := fs'\<rparr>)")
  then obtain e where "r = Inl e" "exc_cls e = DeliveryLockError" "w_held w1 = w_held w"
    using acquire_outcome [OF acq] assms(2) by (cases r) auto
  then show ?thesis
    using acq assms(1) by (simp add: service_lock_def bindW_def chmod_error_def)
qed

definition locked_world :: world where
  "locked_world = demo_world\<lparr>w_held := [[''snap'', ''shop-api.lock'']]\<rparr>"

lemma demo_lock_target:
  "lock_target demo_fs (Path True [''snap'']) ''shop-api'' (PyInt 2)
     = Inr ([''snap'', ''shop-api.lock''], 2, put_node [''snap'', ''shop-api.lock''] (File []) demo_fs)"
proof -
  have "ident_shape is_alnum ident_tail 127 ''shop-api''"
    by (simp add: ident_shape_def char_evals)
  then have "validate_service ''shop-api'' = Inr ''shop-api''"
    by (simp add: validate_service_def SERVICE_RE_def fullmatch_anchored fullmatch_ident)
  moreover have "validate_lock_root demo_fs (Path True [''snap'']) = Inr [''snap'']"
    by code_simp
  moreover have "\<not> is_symlink demo_fs [''snap'', ''shop-api.lock'']"
    "lookup demo_fs [''snap'', ''shop-api.lock''] = None"
    by code_simp+
  moreover have "validate_timeout (PyInt 2) = Inr 2"
    by (simp add: validate_timeout_def float_limit_def)
  ultimately show ?thesis
    by (simp add: lock_target_def lock_path_def open_lock_def)
qed

theorem service_lock_exclusive_witness:
  "\<exists>e w'. service_lock busy_env (Path True [''snap'']) ''shop-api'' (PyInt 2) (\<lambda>w. (Inr (), w))
     locked_world = (Inl e, w') \<and> exc_cls e = DeliveryLockError"
proof -
  have "lock_target (w_fs locked_world) (Path True [''snap'']) ''shop-api'' (PyInt 2)
     = Inr ([''snap'', ''shop-api.lock''], 2, put_node [''snap'', ''shop-api.lock''] (File []) demo_fs)"
    using demo_lock_target by (simp add: locked_world_def demo_world_def)
  moreover have "[''snap'', ''shop-api.lock''] \<in> set (w_held locked_world)"
    by (simp add: locked_world_def)
  ultimately show ?thesis
    using service_lock_exclusive [of locked_world _ _ _ _ _ _ busy_env] by (fastforce simp: busy_env_def)
qed

end
