(* ===== verification/Executor.thy ===== *)
theory Executor
  imports Gate_Evidence Delivery_Lock
begin

text \<open>
  The protected delivery flow, \<open>scripts/delivery/executor.py\<close>: validate the specification,
  take the service lock, check out the exact commit, run the preflight gates, synchronise,
  run the postflight gates. The gate runner, the checkout and the synchronisation are
  arguments of \<open>execute_delivery\<close>, as in the source, so the theorems hold for any provider.
  The \<open>isinstance\<close> checks of the source are the types of the arguments here.
\<close>

section \<open>Specification, context and result\<close>

definition executor_error :: "string \<Rightarrow> exc" where
  "executor_error m = Exc DeliveryExecutorError m"

definition DEFAULT_PREFLIGHT_GATES :: "string list" where
  "DEFAULT_PREFLIGHT_GATES = [''filesystem'', ''compose'', ''security'']"

definition DEFAULT_POSTFLIGHT_GATES :: "string list" where
  "DEFAULT_POSTFLIGHT_GATES = [''rollout'', ''health'']"

record delivery_spec =
  ds_checkout :: checkout_spec
  ds_sync :: sync_spec
  ds_lock_root :: path
  ds_preflight_gates :: "string list"
  ds_postflight_gates :: "string list"
  ds_lock_timeout :: py_number

record delivery_context =
  dc_request :: deploy_request
  dc_checkout :: checkout_result
  dc_sync :: "sync_result option"
  dc_destination :: path

record delivery_result =
  dr_ready :: bool
  dr_request :: "(string \<times> string) list"
  dr_head_sha :: string
  dr_trusted_ref :: string
  dr_sync :: "sync_result option"
  dr_preflight :: gate_evaluation
  dr_postflight :: "gate_evaluation option"
  dr_evidence :: "row list"
  dr_failure_reason :: "string option"

type_synonym 'x gate_runner =
  "delivery_context \<Rightarrow> string \<Rightarrow> ('x world_scheme, gate_evidence list) action"
type_synonym 'x checkout_runner = "checkout_spec \<Rightarrow> ('x world_scheme, checkout_result) action"
type_synonym 'x sync_runner = "sync_spec \<Rightarrow> ('x world_scheme, sync_result) action"

text \<open>The properties of the result class: \<open>changed\<close>, \<open>synced\<close>, \<open>snapshot_created\<close>, \<open>snapshot_name\<close>\<close>

definition dr_changed :: "delivery_result \<Rightarrow> bool" where
  "dr_changed r = (case dr_sync r of None \<Rightarrow> False | Some s \<Rightarrow> sr_changed s)"
definition dr_synced :: "delivery_result \<Rightarrow> bool" where
  "dr_synced r = (case dr_sync r of None \<Rightarrow> False | Some s \<Rightarrow> sr_synced s)"
definition dr_snapshot_created :: "delivery_result \<Rightarrow> bool" where
  "dr_snapshot_created r = (case dr_sync r of None \<Rightarrow> False | Some s \<Rightarrow> sr_snapshot_created s)"
definition dr_snapshot_name :: "delivery_result \<Rightarrow> string option" where
  "dr_snapshot_name r = (case dr_sync r of None \<Rightarrow> None | Some s \<Rightarrow> sr_snapshot_name s)"

section \<open>The checks\<close>

definition validate_delivery_spec :: "delivery_spec \<Rightarrow> unit result" where
  "validate_delivery_spec spec =
     bindE (except_raise
       (bindE (evaluate_gate_evidence [] (ds_preflight_gates spec)) (\<lambda>_.
        bindE (evaluate_gate_evidence [] (ds_postflight_gates spec)) (\<lambda>_. Inr ())))
       [GateEvidenceError, TypeError] (executor_error ''executor gate profile is invalid''))
     (\<lambda>_. guardE (\<not> list_ex (List.member (ds_postflight_gates spec)) (ds_preflight_gates spec))
            (executor_error ''executor gate phases must use distinct gates'') (Inr ()))"

definition checkout_location :: "fsys \<Rightarrow> path \<Rightarrow> path \<Rightarrow> (string list \<times> string list) result" where
  "checkout_location fs destination actual =
     except_raise
       (bindE (resolve fs False destination) (\<lambda>expected.
        guardE (is_abs actual) (executor_error ''checkout result path must be absolute'')
        (guardE (\<not> symlink_component fs (parts actual))
          (executor_error ''checkout result path must not contain symlinks'')
          (bindE (resolve fs True actual) (\<lambda>r. Inr (expected, r))))))
       [OSError, RuntimeError, TypeError]
       (executor_error ''checkout result path could not be verified'')"

definition validate_checkout_result ::
    "delivery_spec \<Rightarrow> checkout_result \<Rightarrow> fsys \<Rightarrow> checkout_result result" where
  "validate_checkout_result spec res fs =
     guardE (cr_head_sha res = rq_candidate_sha (co_request (ds_checkout spec))
             \<and> fullmatch SHA_RE (cr_head_sha res))
       (executor_error ''checkout result does not match candidate SHA'')
     (guardE (cr_trusted_ref res = rq_trusted_ref (co_request (ds_checkout spec)))
       (executor_error ''checkout result does not match trusted ref'')
     (bindE (checkout_location fs (co_destination (ds_checkout spec)) (cr_path res))
       (\<lambda>(expected, actual).
         guardE (actual = expected \<and> is_dir fs actual)
           (executor_error ''checkout result path is not the requested destination'')
           (Inr (res\<lparr>cr_path := Path True actual\<rparr>)))))"

definition run_gates_phase ::
    "'x gate_runner \<Rightarrow> delivery_context \<Rightarrow> string \<Rightarrow> string list \<Rightarrow> ('x world_scheme, gate_evaluation) action" where
  "run_gates_phase runner context phase required w =
     (case runner context phase w of (r, w') \<Rightarrow>
        (case bindE r (\<lambda>ev. evaluate_gate_evidence ev required) of
           Inr e \<Rightarrow> (Inr e, w')
         | Inl x \<Rightarrow>
             (Inl (executor_error
               (if exc_cls x = GateEvidenceError then ''gate evidence could not be evaluated''
                else ''gate runner failed'')), w')))"

definition validate_sync_result :: "sync_result \<Rightarrow> sync_result result" where
  "validate_sync_result res =
     guardE (0 \<le> sr_changed_entries res)
       (executor_error ''synchronization result contains invalid counts'')
     (guardE (case sr_snapshot_name res of None \<Rightarrow> True | Some n \<Rightarrow> fullmatch SNAPSHOT_NAME_RE n)
       (executor_error ''synchronization result contains an unsafe snapshot'')
     (guardE (\<not> (sr_synced res \<and> \<not> sr_changed res))
       (executor_error ''synchronization result is inconsistent'')
       (Inr res)))"

section \<open>The flow\<close>

definition delivery_outcome ::
    "deploy_request \<Rightarrow> checkout_result \<Rightarrow> sync_result option \<Rightarrow> gate_evaluation
     \<Rightarrow> gate_evaluation option \<Rightarrow> delivery_result" where
  "delivery_outcome request co sync preflight postflight =
     \<lparr>dr_ready = passed preflight \<and> (case postflight of None \<Rightarrow> False | Some p \<Rightarrow> passed p),
      dr_request = canonicalize_request request,
      dr_head_sha = cr_head_sha co,
      dr_trusted_ref = cr_trusted_ref co,
      dr_sync = sync,
      dr_preflight = preflight,
      dr_postflight = postflight,
      dr_evidence = evidence preflight @ (case postflight of None \<Rightarrow> [] | Some p \<Rightarrow> evidence p),
      dr_failure_reason =
        (case postflight of
           Some p \<Rightarrow> if \<not> passed p then failure_reason p else failure_reason preflight
         | None \<Rightarrow> failure_reason preflight)\<rparr>"

definition checkout_phase ::
    "'x checkout_runner \<Rightarrow> delivery_spec \<Rightarrow> ('x world_scheme, checkout_result) action" where
  "checkout_phase checkout spec =
     except_other
       (bindW (checkout (ds_checkout spec)) (\<lambda>res. on_fs (validate_checkout_result spec res)))
       DeliveryExecutorError (executor_error ''exact-SHA checkout failed'')"

definition sync_phase ::
    "'x sync_runner \<Rightarrow> delivery_spec \<Rightarrow> checkout_result \<Rightarrow> ('x world_scheme, sync_result) action" where
  "sync_phase sync spec co w =
     (case sync ((ds_sync spec)\<lparr>sy_source := cr_path co\<rparr>) w of
        (Inl _, w') \<Rightarrow> (Inl (executor_error ''deployment synchronization failed''), w')
      | (Inr s, w') \<Rightarrow> (validate_sync_result s, w'))"

definition delivery_context_of :: "delivery_spec \<Rightarrow> checkout_result \<Rightarrow> delivery_context" where
  "delivery_context_of spec co =
     \<lparr>dc_request = co_request (ds_checkout spec), dc_checkout = co, dc_sync = None,
      dc_destination = sy_destination (ds_sync spec)\<rparr>"

definition locked_delivery ::
    "delivery_spec \<Rightarrow> 'x gate_runner \<Rightarrow> 'x checkout_runner \<Rightarrow> 'x sync_runner
     \<Rightarrow> ('x world_scheme, delivery_result) action" where
  "locked_delivery spec run_gates checkout sync =
     bindW (checkout_phase checkout spec) (\<lambda>co.
     bindW (run_gates_phase run_gates (delivery_context_of spec co) ''preflight''
             (ds_preflight_gates spec)) (\<lambda>preflight.
       if \<not> passed preflight
       then liftW (Inr (delivery_outcome (co_request (ds_checkout spec)) co None preflight None))
       else
         bindW (sync_phase sync spec co) (\<lambda>s.
         bindW (run_gates_phase run_gates ((delivery_context_of spec co)\<lparr>dc_sync := Some s\<rparr>)
                 ''postflight'' (ds_postflight_gates spec)) (\<lambda>postflight.
           liftW (Inr (delivery_outcome (co_request (ds_checkout spec)) co (Some s) preflight
                        (Some postflight)))))))"

definition execute_delivery ::
    "lock_env \<Rightarrow> delivery_spec \<Rightarrow> 'x gate_runner \<Rightarrow> 'x checkout_runner \<Rightarrow> 'x sync_runner
     \<Rightarrow> ('x world_scheme, delivery_result) action" where
  "execute_delivery env spec run_gates checkout sync =
     bindW (liftW (validate_delivery_spec spec)) (\<lambda>_.
     exceptW
       (service_lock env (ds_lock_root spec) (rq_service (co_request (ds_checkout spec)))
          (ds_lock_timeout spec) (locked_delivery spec run_gates checkout sync))
       [DeliveryLockError] (executor_error ''delivery lock could not be acquired''))"

section \<open>What a successful phase did\<close>

lemma run_gates_phase_Inr:
  "run_gates_phase runner ctx phase req w = (Inr ev, w') \<longleftrightarrow>
     (\<exists>gs. runner ctx phase w = (Inr gs, w') \<and> evaluate_gate_evidence gs req = Inr ev)"
  by (auto simp: run_gates_phase_def bindE_eq_Inr split: prod.splits sum.splits)

lemma checkout_location_Inr:
  "checkout_location fs dest actual = Inr (e, r) \<longleftrightarrow>
     resolve fs False dest = Inr e \<and> is_abs actual \<and> \<not> symlink_component fs (parts actual)
     \<and> resolve fs True actual = Inr r"
  by (auto simp: checkout_location_def res_simps)

lemma validate_checkout_result_Inr:
  "validate_checkout_result spec res fs = Inr co \<longleftrightarrow>
     cr_head_sha res = rq_candidate_sha (co_request (ds_checkout spec))
     \<and> sha_ok (cr_head_sha res)
     \<and> cr_trusted_ref res = rq_trusted_ref (co_request (ds_checkout spec))
     \<and> is_abs (cr_path res) \<and> \<not> symlink_component fs (parts (cr_path res))
     \<and> (\<exists>d. resolve fs False (co_destination (ds_checkout spec)) = Inr d
          \<and> resolve fs True (cr_path res) = Inr d \<and> is_dir fs d
          \<and> co = res\<lparr>cr_path := Path True d\<rparr>)"
  by (auto simp: validate_checkout_result_def res_simps SHA_RE_iff checkout_location_Inr)

lemma checkout_phase_Inr:
  "checkout_phase checkout spec w = (Inr co, w') \<longleftrightarrow>
     (\<exists>res. checkout (ds_checkout spec) w = (Inr res, w')
        \<and> validate_checkout_result spec res (w_fs w') = Inr co)"
  by (auto simp: checkout_phase_def except_other_eq_Inr bindW_eq_Inr)

lemma validate_sync_result_Inr:
  "validate_sync_result s = Inr t \<longleftrightarrow>
     t = s \<and> 0 \<le> sr_changed_entries s
     \<and> (\<forall>n. sr_snapshot_name s = Some n \<longrightarrow> fullmatch SNAPSHOT_NAME_RE n)
     \<and> (sr_synced s \<longrightarrow> sr_changed s)"
  by (auto simp: validate_sync_result_def res_simps split: option.splits)

lemma sync_phase_Inr:
  "sync_phase sync spec co w = (Inr s, w') \<longleftrightarrow>
     sync ((ds_sync spec)\<lparr>sy_source := cr_path co\<rparr>) w = (Inr s, w')
     \<and> validate_sync_result s = Inr s"
  by (auto simp: sync_phase_def validate_sync_result_Inr split: prod.splits sum.splits)

text \<open>The two ways a locked delivery returns: refused at preflight, or run to the end.\<close>

definition refused_at_preflight where
  "refused_at_preflight spec run_gates checkout r w w' \<longleftrightarrow>
     (\<exists>co w1 pre. checkout_phase checkout spec w = (Inr co, w1)
        \<and> run_gates_phase run_gates (delivery_context_of spec co) ''preflight''
            (ds_preflight_gates spec) w1 = (Inr pre, w')
        \<and> \<not> passed pre
        \<and> r = delivery_outcome (co_request (ds_checkout spec)) co None pre None)"

definition run_to_the_end where
  "run_to_the_end spec run_gates checkout sync r w w' \<longleftrightarrow>
     (\<exists>co w1 pre w2 s w3 post. checkout_phase checkout spec w = (Inr co, w1)
        \<and> run_gates_phase run_gates (delivery_context_of spec co) ''preflight''
            (ds_preflight_gates spec) w1 = (Inr pre, w2)
        \<and> passed pre \<and> sync_phase sync spec co w2 = (Inr s, w3)
        \<and> run_gates_phase run_gates ((delivery_context_of spec co)\<lparr>dc_sync := Some s\<rparr>)
            ''postflight'' (ds_postflight_gates spec) w3 = (Inr post, w')
        \<and> r = delivery_outcome (co_request (ds_checkout spec)) co (Some s) pre (Some post))"

lemma locked_delivery_Inr:
  "locked_delivery spec run_gates checkout sync w = (Inr r, w') \<longleftrightarrow>
     refused_at_preflight spec run_gates checkout r w w'
     \<or> run_to_the_end spec run_gates checkout sync r w w'"
proof -
  have "locked_delivery spec run_gates checkout sync w = (Inr r, w') \<longleftrightarrow>
     (\<exists>co w1 pre w2. checkout_phase checkout spec w = (Inr co, w1)
        \<and> run_gates_phase run_gates (delivery_context_of spec co) ''preflight''
            (ds_preflight_gates spec) w1 = (Inr pre, w2)
        \<and> ((\<not> passed pre \<and> w' = w2
              \<and> r = delivery_outcome (co_request (ds_checkout spec)) co None pre None)
           \<or> (passed pre \<and> (\<exists>s w3 post. sync_phase sync spec co w2 = (Inr s, w3)
              \<and> run_gates_phase run_gates ((delivery_context_of spec co)\<lparr>dc_sync := Some s\<rparr>)
                  ''postflight'' (ds_postflight_gates spec) w3 = (Inr post, w')
              \<and> r = delivery_outcome (co_request (ds_checkout spec)) co (Some s) pre (Some post)))))"
    unfolding locked_delivery_def bindW_eq_Inr [of "checkout_phase _ _"]
      bindW_eq_Inr [of "run_gates_phase _ _ ''preflight'' _"]
    by (intro arg_cong [where f = Ex] ext) (auto simp: bindW_eq_Inr)
  then show ?thesis
    unfolding refused_at_preflight_def run_to_the_end_def by blast
qed

lemma execute_delivery_Inr:
  "execute_delivery env spec run_gates checkout sync w = (Inr r, w') \<longleftrightarrow>
     validate_delivery_spec spec = Inr ()
     \<and> service_lock env (ds_lock_root spec) (rq_service (co_request (ds_checkout spec)))
          (ds_lock_timeout spec) (locked_delivery spec run_gates checkout sync) w = (Inr r, w')"
  by (auto simp: execute_delivery_def bindW_eq_Inr exceptW_eq_Inr)

lemma execute_delivery_run:
  assumes "execute_delivery env spec run_gates checkout sync w = (Inr r, w')"
  obtains p d fs' w1 w2 where
    "lock_target (w_fs w) (ds_lock_root spec) (rq_service (co_request (ds_checkout spec)))
       (ds_lock_timeout spec) = Inr (p, d, fs')"
    "le_chmod env p (w_clock w)" "acquire env p (w_clock w + d) (w\<lparr>w_fs := fs'\<rparr>) = (Inr (), w1)"
    "refused_at_preflight spec run_gates checkout r w1 w2
     \<or> run_to_the_end spec run_gates checkout sync r w1 w2"
    "w' = release p w2"
  using assms unfolding execute_delivery_Inr service_lock_eq_Inr locked_delivery_Inr by blast

lemma refused_shape:
  "refused_at_preflight spec rg co r w w' \<Longrightarrow>
     dr_sync r = None \<and> dr_postflight r = None \<and> \<not> dr_ready r \<and> \<not> passed (dr_preflight r)"
  by (auto simp: refused_at_preflight_def delivery_outcome_def)

lemma completed_shape:
  "run_to_the_end spec rg co sy r w w' \<Longrightarrow>
     dr_sync r \<noteq> None \<and> (\<exists>post. dr_postflight r = Some post \<and> (dr_ready r \<longleftrightarrow> passed post))
     \<and> passed (dr_preflight r)"
  by (auto simp: run_to_the_end_def delivery_outcome_def)

lemma ready_gates:
  assumes "run_to_the_end spec rg co sy r w w'" and "dr_ready r"
  shows "\<exists>ctx w1 w2 evs ctx' w3 evs'.
      rg ctx ''preflight'' w1 = (Inr evs, w2) \<and> gates_pass (ds_preflight_gates spec) evs
      \<and> rg ctx' ''postflight'' w3 = (Inr evs', w') \<and> gates_pass (ds_postflight_gates spec) evs'
      \<and> dc_sync ctx = None \<and> dc_sync ctx' = dr_sync r \<and> dc_checkout ctx' = dc_checkout ctx
      \<and> cr_head_sha (dc_checkout ctx) = dr_head_sha r"
proof -
  obtain c w1 pre w2 s w3 post where
    pre: "run_gates_phase rg (delivery_context_of spec c) ''preflight'' (ds_preflight_gates spec) w1
            = (Inr pre, w2)" "passed pre" and
    post: "run_gates_phase rg ((delivery_context_of spec c)\<lparr>dc_sync := Some s\<rparr>) ''postflight''
            (ds_postflight_gates spec) w3 = (Inr post, w')" and
    r: "r = delivery_outcome (co_request (ds_checkout spec)) c (Some s) pre (Some post)"
    using assms(1) unfolding run_to_the_end_def by blast
  have "passed post" using assms(2) r by (simp add: delivery_outcome_def)
  then obtain evs evs' where
    "rg (delivery_context_of spec c) ''preflight'' w1 = (Inr evs, w2)"
    "gates_pass (ds_preflight_gates spec) evs"
    "rg ((delivery_context_of spec c)\<lparr>dc_sync := Some s\<rparr>) ''postflight'' w3 = (Inr evs', w')"
    "gates_pass (ds_postflight_gates spec) evs'"
    using pre post gates.fail_closed by (fastforce simp: run_gates_phase_Inr)
  then show ?thesis
    using r by (intro exI [of _ "delivery_context_of spec c"] exI conjI)
      (auto simp: delivery_context_of_def delivery_outcome_def)
qed

section \<open>Which errors escape\<close>

lemma validate_delivery_spec_error:
  "validate_delivery_spec spec = Inl e \<Longrightarrow> exc_cls e = DeliveryExecutorError"
proof -
  have names: "exc_cls x = GateEvidenceError" if "mapE validate_gate_name ns = Inl x" for ns x
    using that
    by (induction ns) (auto simp: bindE_eq_Inl validate_gate_name_def guardE_eq_Inl gate_error_def)
  have "exc_cls x = GateEvidenceError" if "evaluate_gate_evidence [] req = Inl x" for req x
    using that names by (auto simp: evaluate_gate_evidence_def validate_required_gates_def
        bindE_eq_Inl guardE_eq_Inl gate_error_def)
  then show "validate_delivery_spec spec = Inl e \<Longrightarrow> exc_cls e = DeliveryExecutorError"
    by (auto simp: validate_delivery_spec_def bindE_eq_Inl guardE_eq_Inl executor_error_def
        except_raise_def catches_def issubclass_def split: sum.splits if_splits)
qed

lemma locked_delivery_error:
  assumes "locked_delivery spec run_gates checkout sync w = (Inl e, w')"
  shows "exc_cls e = DeliveryExecutorError"
proof -
  have co: "exc_cls x = DeliveryExecutorError" if "checkout_phase checkout spec v = (Inl x, v')" for x v v'
    using that by (auto simp: checkout_phase_def except_other_def executor_error_def
        split: prod.splits sum.splits if_splits)
  have gates: "exc_cls x = DeliveryExecutorError"
    if "run_gates_phase run_gates ctx phase req v = (Inl x, v')" for ctx phase req x v v'
    using that by (auto simp: run_gates_phase_def executor_error_def split: prod.splits sum.splits)
  have sync: "exc_cls x = DeliveryExecutorError" if "sync_phase sync spec c v = (Inl x, v')" for c x v v'
    using that by (auto simp: sync_phase_def validate_sync_result_def guardE_eq_Inl executor_error_def
        split: prod.splits sum.splits)
  show ?thesis
    using assms unfolding locked_delivery_def
    by (auto simp: bindW_def liftW_def split: prod.splits sum.splits if_splits dest: co gates sync)
qed

lemma lock_target_error:
  assumes "lock_target fs lr service t = Inl e"
  shows "exc_cls e = DeliveryLockError
    \<or> (exc_cls e = OverflowError \<and> (\<exists>n. t = PyInt n \<and> float_limit \<le> \<bar>n\<bar>))"
proof -
  have root_err: "exc_cls x = DeliveryLockError" if "validate_lock_root fs lr = Inl x" for x
  proof (cases "symlink_component fs (parts (absolute fs lr))")
    case True
    with that show ?thesis
      by (auto simp: validate_lock_root_def reject_symlink_components_def checkout_error_def
          except_raise_Inl catches_def issubclass_def lock_error_def)
  next
    case False
    show ?thesis
    proof (cases "resolve fs True lr")
      case (Inl e)
      then have "e = enoent"
        using False no_symlink_resolved_or_missing by (auto simp: resolve_def)
      with that False Inl show ?thesis
        by (auto simp: validate_lock_root_def reject_symlink_components_def enoent_def
            except_raise_Inl catches_def issubclass_def lock_error_def)
    next
      case (Inr q)
      with that False show ?thesis
        by (auto simp: validate_lock_root_def reject_symlink_components_def guardE_eq_Inl lock_error_def)
    qed
  qed
  have timeout: "exc_cls x = DeliveryLockError
      \<or> (exc_cls x = OverflowError \<and> (\<exists>n. t = PyInt n \<and> float_limit \<le> \<bar>n\<bar>))"
    if "validate_timeout t = Inl x" for x
  proof (cases t)
    case (PyInt n)
    with that show ?thesis
      by (cases "n \<ge> float_limit \<or> n \<le> - float_limit")
        (auto simp: validate_timeout_def Let_def lock_error_def split: if_splits)
  qed (use that in \<open>auto simp: validate_timeout_def Let_def lock_error_def split: if_splits\<close>)
  have others: "exc_cls x = DeliveryLockError"
    if "validate_service service = Inl x \<or> open_lock q fs = Inl x" for x q
    using that by (auto simp: validate_service_def guardE_eq_Inl open_lock_def lock_error_def
        split: option.splits node.splits)
  have "validate_lock_root fs lr = Inl e \<or> validate_service service = Inl e
      \<or> validate_timeout t = Inl e \<or> exc_cls e = DeliveryLockError \<or> (\<exists>q. open_lock q fs = Inl e)"
    using assms unfolding lock_target_def bindE_eq_Inl guardE_eq_Inl
    by (elim disjE exE conjE) (auto simp: lock_error_def)
  then show ?thesis using root_err timeout others by blast
qed

section \<open>Properties\<close>

text \<open>
  C6: What readiness means. A delivery reports \<open>ready\<close> only if the checkout returned exactly
  the requested candidate of the trusted ref, the synchronisation ran, and the gate runner,
  asked once before and once after it, reported every required preflight and postflight gate
  as passed and no gate as failed; the result then carries the canonical request, the
  evidence of both phases in order, and no failure reason.
\<close>
theorem ready_delivery:
  assumes "execute_delivery env spec run_gates checkout sync w = (Inr r, w')" and "dr_ready r"
  shows "dr_head_sha r = rq_candidate_sha (co_request (ds_checkout spec)) \<and> sha_ok (dr_head_sha r)
    \<and> dr_trusted_ref r = rq_trusted_ref (co_request (ds_checkout spec))
    \<and> dr_request r = canonicalize_request (co_request (ds_checkout spec))
    \<and> dr_failure_reason r = None
    \<and> (\<exists>post. dr_postflight r = Some post \<and> dr_evidence r = evidence (dr_preflight r) @ evidence post)
    \<and> (\<exists>ctx w1 w2 evs ctx' w3 w4 evs'.
         run_gates ctx ''preflight'' w1 = (Inr evs, w2) \<and> gates_pass (ds_preflight_gates spec) evs
         \<and> run_gates ctx' ''postflight'' w3 = (Inr evs', w4)
         \<and> gates_pass (ds_postflight_gates spec) evs'
         \<and> dc_sync ctx = None \<and> dr_sync r \<noteq> None \<and> dc_sync ctx' = dr_sync r)"
proof -
  obtain p d fs' w1 w2 where run: "refused_at_preflight spec run_gates checkout r w1 w2
      \<or> run_to_the_end spec run_gates checkout sync r w1 w2"
    using execute_delivery_run [OF assms(1)] by metis
  then have full: "run_to_the_end spec run_gates checkout sync r w1 w2"
    using refused_shape assms(2) by blast
  then obtain co v pre v2 s v3 post where
    co: "checkout_phase checkout spec w1 = (Inr co, v)" and
    pre: "run_gates_phase run_gates (delivery_context_of spec co) ''preflight''
            (ds_preflight_gates spec) v = (Inr pre, v2)" "passed pre" and
    r: "r = delivery_outcome (co_request (ds_checkout spec)) co (Some s) pre (Some post)"
    unfolding run_to_the_end_def by blast
  have "passed post" using r assms(2) by (simp add: delivery_outcome_def)
  moreover have "failure_reason pre = None"
    using pre gates.explained by (auto simp: run_gates_phase_Inr)
  moreover have "cr_head_sha co = rq_candidate_sha (co_request (ds_checkout spec))"
      "sha_ok (cr_head_sha co)" "cr_trusted_ref co = rq_trusted_ref (co_request (ds_checkout spec))"
    using co by (auto simp: checkout_phase_Inr validate_checkout_result_Inr)
  ultimately show ?thesis
    using r ready_gates [OF full assms(2)] completed_shape [OF full]
    by (intro conjI) (simp_all add: delivery_outcome_def, blast)
qed

text \<open>
  C7: A refused preflight stops the delivery before anything is written to the deployment: the
  synchronisation is not called (the outcome is the same with any other synchronisation
  function), there is no postflight, and the result is not ready and says why.
\<close>
theorem refused_preflight_never_syncs:
  assumes "execute_delivery env spec run_gates checkout sync w = (Inr r, w')"
    and "\<not> passed (dr_preflight r)"
  shows "execute_delivery env spec run_gates checkout sync' w = (Inr r, w')
    \<and> dr_sync r = None \<and> dr_postflight r = None \<and> \<not> dr_ready r \<and> dr_failure_reason r \<noteq> None"
proof -
  obtain p d fs' w1 w2 where run:
    "lock_target (w_fs w) (ds_lock_root spec) (rq_service (co_request (ds_checkout spec)))
       (ds_lock_timeout spec) = Inr (p, d, fs')"
    "le_chmod env p (w_clock w)" "acquire env p (w_clock w + d) (w\<lparr>w_fs := fs'\<rparr>) = (Inr (), w1)"
    "refused_at_preflight spec run_gates checkout r w1 w2
     \<or> run_to_the_end spec run_gates checkout sync r w1 w2" "w' = release p w2"
    using execute_delivery_run [OF assms(1)] .
  then have refused: "refused_at_preflight spec run_gates checkout r w1 w2"
    using assms(2) completed_shape by blast
  then have "locked_delivery spec run_gates checkout sync' w1 = (Inr r, w2)"
    by (simp add: locked_delivery_Inr)
  then have "execute_delivery env spec run_gates checkout sync' w = (Inr r, w')"
    using run assms(1) unfolding execute_delivery_Inr service_lock_eq_Inr by blast
  moreover have "dr_failure_reason r \<noteq> None"
    using refused gates.explained
    by (force simp: refused_at_preflight_def delivery_outcome_def run_gates_phase_Inr)
  ultimately show ?thesis using refused_shape [OF refused] by simp
qed

text \<open>
  C11: The service lock is given back on every exit, result or error, provided that the
  callbacks leave the held locks as they find them.
\<close>
theorem delivery_releases_lock:
  assumes "execute_delivery env spec run_gates checkout sync w = (res, w')"
    and "\<forall>ctx phase v. w_held (snd (run_gates ctx phase v)) = w_held v"
    and "\<forall>c v. w_held (snd (checkout c v)) = w_held v"
    and "\<forall>s v. w_held (snd (sync s v)) = w_held v"
  shows "w_held w' = w_held w"
proof (cases "validate_delivery_spec spec")
  case (Inl e)
  then show ?thesis using assms(1) by (simp add: execute_delivery_def)
next
  case (Inr u)
  have co: "w_held v' = w_held v" if "checkout_phase checkout spec v = (x, v')" for x v v'
    using that assms(3) [rule_format, of "ds_checkout spec" v]
    by (auto simp: checkout_phase_def except_other_def bindW_def split: prod.splits sum.splits)
  have gates: "w_held v' = w_held v" if "run_gates_phase run_gates ctx phase req v = (x, v')"
    for ctx phase req x v v'
    using that assms(2) [rule_format, of ctx phase v]
    by (auto simp: run_gates_phase_def split: prod.splits sum.splits)
  have sync: "w_held v' = w_held v" if "sync_phase sync spec c v = (x, v')" for c x v v'
    using that assms(4) [rule_format, of "(ds_sync spec)\<lparr>sy_source := cr_path c\<rparr>" v]
    by (auto simp: sync_phase_def split: prod.splits sum.splits)
  have body: "w_held v' = w_held v" if "locked_delivery spec run_gates checkout sync v = (x, v')" for x v v'
    using that unfolding locked_delivery_def
    by (auto simp: bindW_def liftW_def split: prod.splits sum.splits if_splits dest!: co gates sync)
  obtain res' where "service_lock env (ds_lock_root spec) (rq_service (co_request (ds_checkout spec)))
      (ds_lock_timeout spec) (locked_delivery spec run_gates checkout sync) w = (res', w')"
    using assms(1) Inr by (auto simp: execute_delivery_def exceptW_def split: prod.splits)
  then show ?thesis
    using delivery_lock.restores body by blast
qed

text \<open>
  C12: Callers that catch \<open>DeliveryExecutorError\<close> see every failure of a delivery, whatever the
  callbacks raise, with two exceptions, which no \<open>except\<close> clause names: an integer timeout too
  large for a float makes the lock's validation raise \<open>OverflowError\<close>, and a lock file whose
  permissions this process may not set makes \<open>os.chmod\<close> raise \<open>OSError\<close> after it was opened.
\<close>
theorem delivery_errors:
  assumes "execute_delivery env spec run_gates checkout sync w = (Inl e, w')"
  shows "exc_cls e = DeliveryExecutorError
    \<or> (exc_cls e = OverflowError \<and> (\<exists>n. ds_lock_timeout spec = PyInt n \<and> float_limit \<le> \<bar>n\<bar>))
    \<or> (exc_cls e = OSError \<and> (\<exists>p d fs'. lock_target (w_fs w) (ds_lock_root spec)
           (rq_service (co_request (ds_checkout spec))) (ds_lock_timeout spec) = Inr (p, d, fs')
         \<and> \<not> le_chmod env p (w_clock w)))"
proof (cases "validate_delivery_spec spec")
  case (Inl x)
  then show ?thesis
    using assms validate_delivery_spec_error by (simp add: execute_delivery_def)
next
  case (Inr u)
  let ?body = "locked_delivery spec run_gates checkout sync"
  obtain x v where lock: "service_lock env (ds_lock_root spec)
      (rq_service (co_request (ds_checkout spec))) (ds_lock_timeout spec) ?body w = (Inl x, v)"
    and e: "e = x \<or> exc_cls e = DeliveryExecutorError" "exc_cls x = DeliveryLockError \<longrightarrow>
      exc_cls e = DeliveryExecutorError"
    using assms Inr by (auto simp: execute_delivery_def exceptW_def except_raise_def executor_error_def
        catches_def issubclass_def split: prod.splits sum.splits if_splits)
  have "exc_cls x = DeliveryExecutorError \<or> exc_cls x = DeliveryLockError
    \<or> (exc_cls x = OverflowError \<and> (\<exists>n. ds_lock_timeout spec = PyInt n \<and> float_limit \<le> \<bar>n\<bar>))
    \<or> (exc_cls x = OSError \<and> (\<exists>p d fs'. lock_target (w_fs w) (ds_lock_root spec)
           (rq_service (co_request (ds_checkout spec))) (ds_lock_timeout spec) = Inr (p, d, fs')
         \<and> \<not> le_chmod env p (w_clock w)))"
  proof (cases "lock_target (w_fs w) (ds_lock_root spec) (rq_service (co_request (ds_checkout spec)))
      (ds_lock_timeout spec)")
    case (Inl y)
    then show ?thesis using lock lock_target_error [OF Inl] by (auto simp: service_lock_def)
  next
    case (Inr q)
    obtain p d fs' where q: "q = (p, d, fs')" by (cases q)
    obtain a v1 where acq: "acquire env p (w_clock w + d) (w\<lparr>w_fs := fs'\<rparr>) = (a, v1)"
      by (cases "acquire env p (w_clock w + d) (w\<lparr>w_fs := fs'\<rparr>)")
    show ?thesis
    proof (cases "le_chmod env p (w_clock w)"; cases a)
      fix y assume "le_chmod env p (w_clock w)" "a = Inl y"
      then show ?thesis
        using lock Inr q acq acquire_outcome [OF acq] by (simp add: service_lock_def bindW_def)
    next
      fix y assume "\<not> le_chmod env p (w_clock w)"
      then show ?thesis using lock Inr q by (auto simp: service_lock_def chmod_error_def)
    next
      fix y assume "\<not> le_chmod env p (w_clock w)"
      then show ?thesis using lock Inr q by (auto simp: service_lock_def chmod_error_def)
    next
      fix y assume a: "le_chmod env p (w_clock w)" "a = Inr y"
      then have "\<exists>v2. ?body v1 = (Inl x, v2)"
        using lock Inr q acq by (auto simp: service_lock_def bindW_def finallyW_def split: prod.splits)
      then show ?thesis using locked_delivery_error by blast
    qed
  qed
  then show ?thesis using e by auto
qed

definition demo_delivery :: delivery_spec where
  "demo_delivery = \<lparr>ds_checkout = demo_checkout\<lparr>co_destination := Path True [''src'', ''app'']\<rparr>,
     ds_sync = demo_spec, ds_lock_root = Path True [''snap''],
     ds_preflight_gates = [''compose''], ds_postflight_gates = [''health''],
     ds_lock_timeout = PyInt 2\<rparr>"

definition demo_co_result :: checkout_result where
  "demo_co_result = \<lparr>cr_path = Path True [''src'', ''app''], cr_head_sha = replicate 40 CHR ''a'',
     cr_trusted_ref = ''refs/heads/main''\<rparr>"

definition gate_report :: "string \<Rightarrow> string \<Rightarrow> gate_evidence" where
  "gate_report n st = \<lparr>ge_name = n, ge_status = st, ge_target = ''t'', ge_reason = []\<rparr>"

text \<open>A provider whose preflight reports the given status\<close>

definition demo_gates :: "string \<Rightarrow> unit gate_runner" where
  "demo_gates st ctx phase w =
     (Inr [if phase = ''preflight'' then gate_report ''compose'' st
           else gate_report ''health'' ''passed''], w)"

definition free_env :: lock_env where
  "free_env = \<lparr>le_chmod = (\<lambda>_ _. True), le_probe = (\<lambda>p t. Free), le_oversleep = (\<lambda>_. 0)\<rparr>"

definition demo_locked :: world where
  "demo_locked = demo_world\<lparr>w_fs := put_node [''snap'', ''shop-api.lock''] (File []) demo_fs,
     w_held := [[''snap'', ''shop-api.lock'']]\<rparr>"

lemma demo_delivery_simps [simp]:
  "co_request (ds_checkout demo_delivery) = sample_request"
  "co_destination (ds_checkout demo_delivery) = Path True [''src'', ''app'']"
  "ds_lock_root demo_delivery = Path True [''snap'']" "ds_lock_timeout demo_delivery = PyInt 2"
  "ds_preflight_gates demo_delivery = [''compose'']" "ds_postflight_gates demo_delivery = [''health'']"
  "rq_service sample_request = ''shop-api''"
  "rq_candidate_sha sample_request = replicate 40 CHR ''a''"
  "rq_trusted_ref sample_request = ''refs/heads/main''"
  by (simp_all add: demo_delivery_def demo_checkout_def sample_request_def)

lemma demo_known: "''compose'' \<in> set KNOWN_GATES" "''health'' \<in> set KNOWN_GATES"
  by (simp_all add: KNOWN_GATES_def DEFAULT_REQUIRED_GATES_def)

lemma known_gate_valid: "n \<in> set KNOWN_GATES \<Longrightarrow> validate_gate_name n = Inr n"
  by (simp add: validate_gate_name_iff)

lemma demo_validate: "validate_delivery_spec demo_delivery = Inr ()"
  by (simp add: validate_delivery_spec_def evaluate_gate_evidence_def validate_required_gates_def
      known_gate_valid demo_known)

lemma gate_report_ok:
  "n \<in> set KNOWN_GATES \<Longrightarrow> st \<in> set ALLOWED_STATUSES \<Longrightarrow> gate_ok (gate_report n st)"
  by (simp add: gate_report_def gate_ok_def sanitized_evidence_def known_gate_valid
      short_safe_scalar LF_def CR_def)

lemma demo_lock_run:
  "le_chmod free_env p t"
  "lock_target (w_fs demo_world) (Path True [''snap'']) ''shop-api'' (PyInt 2)
     = Inr ([''snap'', ''shop-api.lock''], 2, put_node [''snap'', ''shop-api.lock''] (File []) demo_fs)"
  "acquire free_env [''snap'', ''shop-api.lock''] (w_clock demo_world + 2)
     (demo_world\<lparr>w_fs := put_node [''snap'', ''shop-api.lock''] (File []) demo_fs\<rparr>)
     = (Inr (), demo_locked)"
  using demo_lock_target
  by (simp_all add: demo_world_def demo_locked_def acquire.simps try_lock_def free_env_def)

lemma demo_checkout_phase:
  "checkout_phase (\<lambda>c w. (Inr demo_co_result, w)) demo_delivery demo_locked
     = (Inr demo_co_result, demo_locked)"
proof -
  let ?fs = "put_node [''snap'', ''shop-api.lock''] (File []) demo_fs"
  have "w_fs demo_locked = ?fs" by (simp add: demo_locked_def)
  moreover have "\<not> symlink_component ?fs [''src'', ''app'']" "is_dir ?fs [''src'', ''app'']"
    "resolve ?fs False (Path True [''src'', ''app'']) = Inr [''src'', ''app'']"
    "resolve ?fs True (Path True [''src'', ''app'']) = Inr [''src'', ''app'']"
    by code_simp+
  ultimately show ?thesis
    using sample_sha by (simp add: checkout_phase_Inr validate_checkout_result_Inr demo_co_result_def)
qed

lemma demo_phase:
  assumes "phase = ''preflight'' \<and> n = ''compose'' \<and> st \<in> set ALLOWED_STATUSES
    \<or> phase = ''postflight'' \<and> n = ''health'' \<and> st = ''passed''"
  shows "run_gates_phase (demo_gates st) ctx phase [n] v
     = (Inr (decide [n] [named_row (gate_report n st)]), v)"
proof -
  have n: "n \<in> set KNOWN_GATES" "st \<in> set ALLOWED_STATUSES"
    using assms demo_known by (auto simp: ALLOWED_STATUSES_def)
  then have "evaluate_gate_evidence [gate_report n st] [n]
      = Inr (decide [n] [named_row (gate_report n st)])"
    by (simp add: evaluate_Inr validate_required_Inr validate_gate_name_iff gate_report_ok)
  then show ?thesis
    using assms by (auto simp: run_gates_phase_Inr demo_gates_def)
qed

lemma gate_report_pass: "passed (decide [n] [named_row (gate_report n ''passed'')])"
  "\<not> passed (decide [n] [named_row (gate_report n ''failed'')])"
  by (simp_all add: decide_def named_row_def gate_report_def evidence_row_def row_get_def status_of_def)

lemma demo_refused:
  "execute_delivery free_env demo_delivery (demo_gates ''failed'') (\<lambda>c w. (Inr demo_co_result, w))
     (\<lambda>s w. (Inr (changed_result 1 None), w)) demo_world =
   (Inr (delivery_outcome sample_request demo_co_result None
      (decide [''compose''] [named_row (gate_report ''compose'' ''failed'')]) None),
    release [''snap'', ''shop-api.lock''] demo_locked)"
proof -
  have "refused_at_preflight demo_delivery (demo_gates ''failed'') (\<lambda>c w. (Inr demo_co_result, w))
      (delivery_outcome sample_request demo_co_result None
        (decide [''compose''] [named_row (gate_report ''compose'' ''failed'')]) None)
      demo_locked demo_locked"
    using demo_checkout_phase demo_phase gate_report_pass
    by (auto simp: refused_at_preflight_def ALLOWED_STATUSES_def)
  then show ?thesis
    using demo_validate demo_lock_run
    by (auto simp: execute_delivery_Inr service_lock_eq_Inr locked_delivery_Inr)
qed

lemma demo_completed:
  "execute_delivery free_env demo_delivery (demo_gates ''passed'') (\<lambda>c w. (Inr demo_co_result, w))
     (\<lambda>s w. (Inr (changed_result 1 None), w)) demo_world =
   (Inr (delivery_outcome sample_request demo_co_result (Some (changed_result 1 None))
      (decide [''compose''] [named_row (gate_report ''compose'' ''passed'')])
      (Some (decide [''health''] [named_row (gate_report ''health'' ''passed'')]))),
    release [''snap'', ''shop-api.lock''] demo_locked)"
proof -
  have "sync_phase (\<lambda>s w. (Inr (changed_result 1 None), w)) demo_delivery demo_co_result demo_locked
      = (Inr (changed_result 1 None), demo_locked)"
    by (simp add: sync_phase_Inr validate_sync_result_Inr changed_result_def)
  then have "run_to_the_end demo_delivery (demo_gates ''passed'') (\<lambda>c w. (Inr demo_co_result, w))
      (\<lambda>s w. (Inr (changed_result 1 None), w))
      (delivery_outcome sample_request demo_co_result (Some (changed_result 1 None))
        (decide [''compose''] [named_row (gate_report ''compose'' ''passed'')])
        (Some (decide [''health''] [named_row (gate_report ''health'' ''passed'')])))
      demo_locked demo_locked"
    using demo_checkout_phase demo_phase gate_report_pass
    by (auto simp: run_to_the_end_def ALLOWED_STATUSES_def)
  then show ?thesis
    using demo_validate demo_lock_run
    by (auto simp: execute_delivery_Inr service_lock_eq_Inr locked_delivery_Inr)
qed

theorem ready_delivery_witness:
  "dr_failure_reason (delivery_outcome sample_request demo_co_result (Some (changed_result 1 None))
      (decide [''compose''] [named_row (gate_report ''compose'' ''passed'')])
      (Some (decide [''health''] [named_row (gate_report ''health'' ''passed'')]))) = None"
  using ready_delivery [OF demo_completed] gate_report_pass
  by (simp add: delivery_outcome_def)

theorem refused_preflight_never_syncs_witness:
  "\<exists>r w'. execute_delivery free_env demo_delivery (demo_gates ''failed'')
     (\<lambda>c w. (Inr demo_co_result, w)) (\<lambda>s w. (Inl (Exc OSError ''written''), w)) demo_world = (Inr r, w')
     \<and> dr_sync r = None"
proof -
  have "\<not> passed (dr_preflight (delivery_outcome sample_request demo_co_result None
      (decide [''compose''] [named_row (gate_report ''compose'' ''failed'')]) None))"
    using gate_report_pass by (simp add: delivery_outcome_def)
  from refused_preflight_never_syncs [OF demo_refused this] show ?thesis by blast
qed

theorem delivery_releases_lock_witness:
  "w_held (release [''snap'', ''shop-api.lock''] demo_locked) = w_held demo_world"
  by (rule delivery_releases_lock [OF demo_completed]) (simp_all add: demo_gates_def)

theorem delivery_errors_witness:
  "\<exists>e w'. execute_delivery free_env (demo_delivery\<lparr>ds_preflight_gates := []\<rparr>) (demo_gates ''passed'')
      (\<lambda>c w. (Inr demo_co_result, w)) (\<lambda>s w. (Inr (changed_result 1 None), w)) demo_world = (Inl e, w')
    \<and> exc_cls e = DeliveryExecutorError"
proof -
  have "validate_delivery_spec (demo_delivery\<lparr>ds_preflight_gates := []\<rparr>)
      = Inl (executor_error ''executor gate profile is invalid'')"
    by (simp add: validate_delivery_spec_def evaluate_gate_evidence_def validate_required_gates_def
        gate_error_def except_raise_Inl catches_def issubclass_def)
  then have "execute_delivery free_env (demo_delivery\<lparr>ds_preflight_gates := []\<rparr>) (demo_gates ''passed'')
      (\<lambda>c w. (Inr demo_co_result, w)) (\<lambda>s w. (Inr (changed_result 1 None), w)) demo_world
      = (Inl (executor_error ''executor gate profile is invalid''), demo_world)"
    by (simp add: execute_delivery_def)
  moreover from delivery_errors [OF this] have "exc_cls (executor_error ''executor gate profile is invalid'')
      = DeliveryExecutorError"
    by (auto simp: executor_error_def)
  ultimately show ?thesis by blast
qed

end
