(* ===== verification/Delivery_Adapters.thy ===== *)
theory Delivery_Adapters
  imports Executor
begin

text \<open>
  The provider adapters: the shared plan \<open>scripts/delivery/plan.py\<close>, the CI adapter
  \<open>scripts/delivery/ci.py\<close> and the manual adapter \<open>scripts/delivery/manual.py\<close>. Both adapters
  load a request, look its repository up in an allowlist of remotes and build the same
  executor specification; the locale \<open>delivery_adapter\<close> is what they share and is
  interpreted on each.
\<close>

section \<open>The shared plan\<close>

definition plan_error :: "string \<Rightarrow> exc" where "plan_error m = Exc DeliveryPlanError m"
definition ci_error :: "string \<Rightarrow> exc" where "ci_error m = Exc CiAdapterError m"
definition manual_error :: "string \<Rightarrow> exc" where "manual_error m = Exc ManualAdapterError m"

text \<open>\<open>path / text\<close>: an absolute right operand replaces the left one\<close>

definition path_div :: "path \<Rightarrow> string \<Rightarrow> path" where
  "path_div p s =
     (let q = parse_path s in if is_abs q then q else Path (is_abs p) (parts p @ parts q))"

record delivery_paths =
  dp_checkout_root :: path
  dp_deploy_root :: path
  dp_snapshot_root :: path
  dp_lock_root :: path
  dp_snapshot_enabled :: bool
  dp_deployignore :: "path option"
  dp_exclude_compose_file :: "string option"
  dp_snapshot_name :: "string option"
  dp_lock_timeout :: py_number

definition build_executor_spec ::
    "deploy_request \<Rightarrow> string \<Rightarrow> delivery_paths \<Rightarrow> delivery_spec result" where
  "build_executor_spec request remote paths =
     guardE (remote \<noteq> []) (plan_error ''delivery remote is invalid'')
       (let checkout_destination =
              path_div (dp_checkout_root paths) (rq_service request @ ''-'' @ rq_candidate_sha request);
            destination = path_div (dp_deploy_root paths) (rq_service request)
        in Inr \<lparr>ds_checkout = \<lparr>co_request = request, co_remote = remote,
                  co_destination = checkout_destination, co_allowed_root = dp_checkout_root paths\<rparr>,
                ds_sync = \<lparr>sy_source = checkout_destination, sy_destination = destination,
                  sy_snapshot_root = dp_snapshot_root paths, sy_source_root = dp_checkout_root paths,
                  sy_destination_root = dp_deploy_root paths,
                  sy_snapshot_enabled = dp_snapshot_enabled paths,
                  sy_deployignore = dp_deployignore paths,
                  sy_exclude_compose_file = dp_exclude_compose_file paths,
                  sy_snapshot_name = dp_snapshot_name paths\<rparr>,
                ds_lock_root = dp_lock_root paths,
                ds_preflight_gates = DEFAULT_PREFLIGHT_GATES,
                ds_postflight_gates = DEFAULT_POSTFLIGHT_GATES,
                ds_lock_timeout = dp_lock_timeout paths\<rparr>)"

section \<open>The CI adapter\<close>

definition CI_PROVIDERS :: "string list" where
  "CI_PROVIDERS = [''github-actions'', ''gitlab-ci'']"

record ci_spec =
  ci_provider :: string
  ci_request_path :: path
  ci_request_root :: path
  ci_remote_allowlist :: "string \<Rightarrow> string option"
  ci_paths :: delivery_paths
  ci_runner_name :: string
  ci_protected_ref :: bool
  ci_protected_runner :: bool

record ci_plan =
  cp_provider :: string
  cp_runner_name :: string
  cp_protected_ref :: bool
  cp_protected_runner :: bool
  cp_request :: deploy_request
  cp_executor :: delivery_spec

definition check_runner_name :: "string \<Rightarrow> string result" where
  "check_runner_name v =
     (if v = [] \<or> v \<noteq> py_strip v
      then Inl (ci_error ''runner_name must be a non-empty trimmed string'')
      else if has_char LF v \<or> has_char CR v then Inl (ci_error ''runner_name must be single-line'')
      else if length v > 256 then Inl (ci_error ''runner_name exceeds 256 characters'')
      else if search SECRET_LIKE_RE v
      then Inl (ci_error ''runner_name contains prohibited secret-like data'')
      else Inr v)"

definition load_ci_request :: "(string \<Rightarrow> json result) \<Rightarrow> fsys \<Rightarrow> ci_spec \<Rightarrow> deploy_request result" where
  "load_ci_request loads fs config =
     bindE (except_raise (load_request loads fs (ci_request_path config) (ci_request_root config))
             [RequestError, OSError, TypeError] (ci_error ''CI delivery request rejected''))
       (\<lambda>request. guardE (rq_adapter request = ci_provider config)
          (ci_error ''request adapter does not match the CI provider'') (Inr request))"

definition resolve_ci_remote :: "deploy_request \<Rightarrow> (string \<Rightarrow> string option) \<Rightarrow> string result" where
  "resolve_ci_remote request allowlist =
     (case allowlist (rq_repository request) of
        None \<Rightarrow> Inl (ci_error ''repository is not in the CI remote allowlist'')
      | Some remote \<Rightarrow>
          guardE (remote \<noteq> []) (ci_error ''CI remote allowlist entry is invalid'') (Inr remote))"

definition build_ci_plan :: "(string \<Rightarrow> json result) \<Rightarrow> ci_spec \<Rightarrow> fsys \<Rightarrow> ci_plan result" where
  "build_ci_plan loads config fs =
     guardE (List.member CI_PROVIDERS (ci_provider config))
       (ci_error ''provider must be GitHub Actions or GitLab CI'')
     (guardE (ci_protected_ref config) (ci_error ''protected ref is required'')
     (guardE (ci_protected_runner config) (ci_error ''protected runner is required'')
     (bindE (check_runner_name (ci_runner_name config)) (\<lambda>runner_name.
      bindE (load_ci_request loads fs config) (\<lambda>request.
      bindE (resolve_ci_remote request (ci_remote_allowlist config)) (\<lambda>remote.
      bindE (except_raise (build_executor_spec request remote (ci_paths config)) [DeliveryPlanError]
              (ci_error ''CI delivery paths are invalid'')) (\<lambda>executor.
        Inr \<lparr>cp_provider = ci_provider config, cp_runner_name = runner_name,
             cp_protected_ref = ci_protected_ref config,
             cp_protected_runner = ci_protected_runner config,
             cp_request = request, cp_executor = executor\<rparr>)))))))"

definition execute_ci_delivery ::
    "lock_env \<Rightarrow> (string \<Rightarrow> json result) \<Rightarrow> ci_spec \<Rightarrow> 'x gate_runner \<Rightarrow> 'x checkout_runner
     \<Rightarrow> 'x sync_runner \<Rightarrow> ('x world_scheme, delivery_result) action" where
  "execute_ci_delivery env loads config run_gates checkout sync =
     bindW (on_fs (build_ci_plan loads config))
       (\<lambda>plan. execute_delivery env (cp_executor plan) run_gates checkout sync)"

section \<open>The manual adapter\<close>

record manual_spec =
  ms_request_path :: path
  ms_request_root :: path
  ms_confirmation :: string
  ms_remote_allowlist :: "string \<Rightarrow> string option"
  ms_paths :: delivery_paths

record manual_plan =
  mp_request :: deploy_request
  mp_executor :: delivery_spec

definition confirmation_for :: "deploy_request \<Rightarrow> string" where
  "confirmation_for request = ''DEPLOY '' @ rq_service request @ '' '' @ rq_candidate_sha request"

definition load_manual_request ::
    "(string \<Rightarrow> json result) \<Rightarrow> fsys \<Rightarrow> manual_spec \<Rightarrow> deploy_request result" where
  "load_manual_request loads fs config =
     bindE (except_raise (load_request loads fs (ms_request_path config) (ms_request_root config))
             [RequestError, OSError, TypeError] (manual_error ''manual request rejected''))
       (\<lambda>request. guardE (rq_adapter request = ''manual'')
          (manual_error ''manual adapter requires a manual request'')
          (guardE (ms_confirmation config = confirmation_for request)
            (manual_error ''confirmation must match the exact service and SHA'') (Inr request)))"

definition resolve_manual_remote :: "deploy_request \<Rightarrow> (string \<Rightarrow> string option) \<Rightarrow> string result" where
  "resolve_manual_remote request allowlist =
     (case allowlist (rq_repository request) of
        None \<Rightarrow> Inl (manual_error ''repository is not in the manual remote allowlist'')
      | Some remote \<Rightarrow>
          guardE (remote \<noteq> []) (manual_error ''manual remote allowlist entry is invalid'') (Inr remote))"

definition build_manual_plan ::
    "(string \<Rightarrow> json result) \<Rightarrow> manual_spec \<Rightarrow> fsys \<Rightarrow> manual_plan result" where
  "build_manual_plan loads config fs =
     bindE (load_manual_request loads fs config) (\<lambda>request.
     bindE (resolve_manual_remote request (ms_remote_allowlist config)) (\<lambda>remote.
     bindE (except_raise (build_executor_spec request remote (ms_paths config))
             [DeliveryPlanError, OSError, TypeError, ValueError]
             (manual_error ''manual delivery paths are invalid'')) (\<lambda>executor.
       Inr \<lparr>mp_request = request, mp_executor = executor\<rparr>)))"

definition execute_manual_delivery ::
    "lock_env \<Rightarrow> (string \<Rightarrow> json result) \<Rightarrow> manual_spec \<Rightarrow> 'x gate_runner \<Rightarrow> 'x checkout_runner
     \<Rightarrow> 'x sync_runner \<Rightarrow> ('x world_scheme, delivery_result) action" where
  "execute_manual_delivery env loads config run_gates checkout sync =
     bindW (on_fs (build_manual_plan loads config))
       (\<lambda>plan. execute_delivery env (mp_executor plan) run_gates checkout sync)"

section \<open>What the adapters share\<close>

lemma build_executor_spec_Inr:
  "build_executor_spec rq remote paths = Inr ds \<Longrightarrow>
     co_request (ds_checkout ds) = rq \<and> co_remote (ds_checkout ds) = remote \<and> remote \<noteq> []
     \<and> co_allowed_root (ds_checkout ds) = dp_checkout_root paths
     \<and> co_destination (ds_checkout ds)
         = path_div (dp_checkout_root paths) (rq_service rq @ ''-'' @ rq_candidate_sha rq)
     \<and> sy_destination (ds_sync ds) = path_div (dp_deploy_root paths) (rq_service rq)
     \<and> sy_destination_root (ds_sync ds) = dp_deploy_root paths
     \<and> sy_source_root (ds_sync ds) = dp_checkout_root paths
     \<and> ds_lock_root ds = dp_lock_root paths
     \<and> ds_preflight_gates ds = DEFAULT_PREFLIGHT_GATES
     \<and> ds_postflight_gates ds = DEFAULT_POSTFLIGHT_GATES"
  by (auto simp: build_executor_spec_def Let_def res_simps)

lemma parse_path_component:
  "s \<noteq> [] \<Longrightarrow> s \<noteq> ''.'' \<Longrightarrow> CHR ''/'' \<notin> set s \<Longrightarrow> parse_path s = Path False [s]"
  by (cases s) (auto simp: parse_path_def split_char_no_sep_single)

lemma path_div_component:
  "safe_component s \<Longrightarrow> path_div p s = child p s"
  by (simp add: path_div_def safe_component_def parse_path_component child_def Let_def)

lemma safe_component_append:
  "safe_component s \<Longrightarrow> t \<noteq> [] \<Longrightarrow> hd t \<noteq> CHR ''.'' \<Longrightarrow> CHR ''/'' \<notin> set t
     \<Longrightarrow> \<not> list_ex py_isspace t \<Longrightarrow> safe_component (s @ t)"
  by (cases t) (auto simp: safe_component_def append_eq_Cons_conv)

text \<open>
  An adapter turns a configuration into the request it loaded and an executor specification;
  the laws say where the request came from and that the specification is the shared one.
\<close>

locale delivery_adapter =
  fixes plan :: "'c \<Rightarrow> fsys \<Rightarrow> (deploy_request \<times> delivery_spec) result"
    and loads :: "string \<Rightarrow> json result"
    and request_path :: "'c \<Rightarrow> path"
    and request_root :: "'c \<Rightarrow> path"
    and allowlist :: "'c \<Rightarrow> string \<Rightarrow> string option"
    and paths :: "'c \<Rightarrow> delivery_paths"
  assumes loaded: "plan c fs = Inr (rq, ds) \<Longrightarrow>
      load_request loads fs (request_path c) (request_root c) = Inr rq"
    and shared: "plan c fs = Inr (rq, ds) \<Longrightarrow>
      \<exists>remote. allowlist c (rq_repository rq) = Some remote
        \<and> build_executor_spec rq remote (paths c) = Inr ds"
begin

lemma request_valid: "plan c fs = Inr (rq, ds) \<Longrightarrow> request_ok rq"
  using loaded parse_request_ok by (fastforce simp: load_request_iff)

lemma remote_allowlisted:
  "plan c fs = Inr (rq, ds) \<Longrightarrow>
     allowlist c (rq_repository rq) = Some (co_remote (ds_checkout ds)) \<and> co_remote (ds_checkout ds) \<noteq> []"
  using shared build_executor_spec_Inr by fastforce

lemma default_gates:
  "plan c fs = Inr (rq, ds) \<Longrightarrow>
     ds_preflight_gates ds = DEFAULT_PREFLIGHT_GATES \<and> ds_postflight_gates ds = DEFAULT_POSTFLIGHT_GATES"
  using shared build_executor_spec_Inr by fastforce

text \<open>Every service deploys into its own directory, directly below the deploy root.\<close>

lemma deploy_target:
  assumes "plan c fs = Inr (rq, ds)"
  shows "sy_destination (ds_sync ds) = child (dp_deploy_root (paths c)) (rq_service rq)
    \<and> co_destination (ds_checkout ds)
        = child (dp_checkout_root (paths c)) (rq_service rq @ ''-'' @ rq_candidate_sha rq)
    \<and> co_request (ds_checkout ds) = rq"
proof -
  have ok: "ident_ok (rq_service rq)" "sha_ok (rq_candidate_sha rq)"
    using request_valid [OF assms] by (simp_all add: request_ok_def)
  have "CHR ''/'' \<notin> set (rq_candidate_sha rq)" "\<not> list_ex py_isspace (rq_candidate_sha rq)"
    using ok(2) hex_not_space by (auto simp: sha_ok_def list_all_iff list_ex_iff hex_lower_def
        is_digit_def in_range_def code_def)
  then have "safe_component (rq_service rq @ ''-'' @ rq_candidate_sha rq)"
    using ident_ok_safe [OF ok(1)]
    by (intro safe_component_append) (auto simp: py_isspace_def code_def)
  then show ?thesis
    using shared [OF assms] build_executor_spec_Inr ident_ok_safe [OF ok(1)]
    by (fastforce simp: path_div_component)
qed

text \<open>Two plans of one configuration for different services never share a deploy directory.\<close>

lemma targets_distinct:
  assumes "plan c fs = Inr (rq, ds)" and "plan c fs' = Inr (rq', ds')"
    and "sy_destination (ds_sync ds) = sy_destination (ds_sync ds')"
  shows "rq_service rq = rq_service rq'"
  using deploy_target [OF assms(1)] deploy_target [OF assms(2)] assms(3) by (simp add: child_def)

end

definition ci_pair :: "(string \<Rightarrow> json result) \<Rightarrow> ci_spec \<Rightarrow> fsys \<Rightarrow> (deploy_request \<times> delivery_spec) result" where
  "ci_pair loads config fs =
     bindE (build_ci_plan loads config fs) (\<lambda>p. Inr (cp_request p, cp_executor p))"

definition manual_pair ::
    "(string \<Rightarrow> json result) \<Rightarrow> manual_spec \<Rightarrow> fsys \<Rightarrow> (deploy_request \<times> delivery_spec) result" where
  "manual_pair loads config fs =
     bindE (build_manual_plan loads config fs) (\<lambda>p. Inr (mp_request p, mp_executor p))"

lemma resolve_ci_remote_Inr:
  "resolve_ci_remote rq al = Inr remote \<longleftrightarrow> al (rq_repository rq) = Some remote \<and> remote \<noteq> []"
  by (auto simp: resolve_ci_remote_def res_simps split: option.splits)

lemma resolve_manual_remote_Inr:
  "resolve_manual_remote rq al = Inr remote \<longleftrightarrow> al (rq_repository rq) = Some remote \<and> remote \<noteq> []"
  by (auto simp: resolve_manual_remote_def res_simps split: option.splits)

lemma ci_plan_Inr:
  "build_ci_plan loads config fs = Inr p \<Longrightarrow>
     ci_provider config \<in> set CI_PROVIDERS \<and> ci_protected_ref config \<and> ci_protected_runner config
     \<and> check_runner_name (ci_runner_name config) = Inr (cp_runner_name p)
     \<and> rq_adapter (cp_request p) = ci_provider config"
  by (auto simp: build_ci_plan_def load_ci_request_def res_simps)

lemma manual_plan_Inr:
  "build_manual_plan loads config fs = Inr p \<Longrightarrow>
     rq_adapter (mp_request p) = ''manual'' \<and> ms_confirmation config = confirmation_for (mp_request p)"
  by (auto simp: build_manual_plan_def load_manual_request_def res_simps)

interpretation ci: delivery_adapter "ci_pair loads" loads ci_request_path ci_request_root
  ci_remote_allowlist ci_paths
  by unfold_locales (auto simp: ci_pair_def build_ci_plan_def load_ci_request_def
      resolve_ci_remote_Inr res_simps)

interpretation manual: delivery_adapter "manual_pair loads" loads ms_request_path ms_request_root
  ms_remote_allowlist ms_paths
  by unfold_locales (auto simp: manual_pair_def build_manual_plan_def load_manual_request_def
      resolve_manual_remote_Inr res_simps)

section \<open>Properties\<close>

lemma ci_pair_iff:
  "ci_pair loads config fs = Inr (rq, ds) \<longleftrightarrow>
     (\<exists>p. build_ci_plan loads config fs = Inr p \<and> cp_request p = rq \<and> cp_executor p = ds)"
  by (auto simp: ci_pair_def res_simps)

lemma manual_pair_iff:
  "manual_pair loads config fs = Inr (rq, ds) \<longleftrightarrow>
     (\<exists>p. build_manual_plan loads config fs = Inr p \<and> mp_request p = rq \<and> mp_executor p = ds)"
  by (auto simp: manual_pair_def res_simps)

text \<open>
  C18: What a CI run may deploy. Either the run is refused before anything is touched (the world
  is the one it started in and no gate, checkout or synchronisation function is called), or the
  provider is a known one, the ref and the runner are protected, the request is a valid one of
  that provider, its repository is in the remote allowlist, and the run is the executor's on
  the specification with that request, the allowlisted remote, the service's own directory
  below the deploy root and the default gates.
\<close>
theorem ci_delivery_authorised:
  "(\<exists>e. execute_ci_delivery env loads config run_gates checkout sync w = (Inl e, w))
   \<or> (\<exists>rq ds. execute_ci_delivery env loads config run_gates checkout sync w
          = execute_delivery env ds run_gates checkout sync w
      \<and> ci_provider config \<in> set CI_PROVIDERS \<and> ci_protected_ref config \<and> ci_protected_runner config
      \<and> load_request loads (w_fs w) (ci_request_path config) (ci_request_root config) = Inr rq
      \<and> request_ok rq \<and> rq_adapter rq = ci_provider config
      \<and> ci_remote_allowlist config (rq_repository rq) = Some (co_remote (ds_checkout ds))
      \<and> co_request (ds_checkout ds) = rq
      \<and> sy_destination (ds_sync ds) = child (dp_deploy_root (ci_paths config)) (rq_service rq)
      \<and> ds_preflight_gates ds = DEFAULT_PREFLIGHT_GATES
      \<and> ds_postflight_gates ds = DEFAULT_POSTFLIGHT_GATES)"
proof (cases "build_ci_plan loads config (w_fs w)")
  case (Inl e)
  then show ?thesis by (simp add: execute_ci_delivery_def bindW_def)
next
  case (Inr p)
  then have pair: "ci_pair loads config (w_fs w) = Inr (cp_request p, cp_executor p)"
    by (simp add: ci_pair_def)
  have run: "execute_ci_delivery env loads config run_gates checkout sync w
      = execute_delivery env (cp_executor p) run_gates checkout sync w"
    by (simp add: execute_ci_delivery_def bindW_def Inr)
  show ?thesis
    using run ci_plan_Inr [OF Inr] ci.loaded [OF pair] ci.request_valid [OF pair]
      ci.remote_allowlisted [OF pair] ci.deploy_target [OF pair] ci.default_gates [OF pair]
    by (intro disjI2 exI [of _ "cp_request p"] exI [of _ "cp_executor p"]) simp
qed

lemma confirmation_inject:
  assumes "request_ok rq" and "request_ok rq'"
  shows "confirmation_for rq = confirmation_for rq' \<longleftrightarrow>
    rq_service rq = rq_service rq' \<and> rq_candidate_sha rq = rq_candidate_sha rq'"
  using assms by (auto simp: confirmation_for_def request_ok_def sha_ok_def append_eq_append_conv)

text \<open>
  A manual confirmation authorises one service at one commit. If two manual plans, of any
  configurations and file systems, were built with the same confirmation text, they deploy the
  same service and the same candidate SHA.
\<close>
lemma manual_confirmation_binds:
  assumes "build_manual_plan loads config fs = Inr p" and "build_manual_plan loads' config' fs' = Inr p'"
    and "ms_confirmation config = ms_confirmation config'"
  shows "rq_service (mp_request p) = rq_service (mp_request p')
    \<and> rq_candidate_sha (mp_request p) = rq_candidate_sha (mp_request p')
    \<and> rq_adapter (mp_request p) = ''manual''"
proof -
  have "request_ok (mp_request p)" "request_ok (mp_request p')"
    using manual.request_valid manual_pair_iff assms(1,2) by metis+
  then show ?thesis
    using confirmation_inject manual_plan_Inr [OF assms(1)] manual_plan_Inr [OF assms(2)] assms(3)
    by simp
qed

text \<open>
  Adapters do not get in each other's way. A CI plan and a manual plan over the same
  directories write to the same deployment if and only if they deploy the same service, check
  out into the same directory if and only if it is also the same commit, and plans for one
  service are serialised by the same lock root and service name.
\<close>
lemma deploy_directories_separate:
  assumes "build_ci_plan loads config fs = Inr p" and "build_manual_plan loads' config' fs' = Inr p'"
    and "ci_paths config = ms_paths config'"
  shows "(sy_destination (ds_sync (cp_executor p)) = sy_destination (ds_sync (mp_executor p'))
        \<longleftrightarrow> rq_service (cp_request p) = rq_service (mp_request p'))
    \<and> (co_destination (ds_checkout (cp_executor p)) = co_destination (ds_checkout (mp_executor p'))
        \<longleftrightarrow> rq_service (cp_request p) = rq_service (mp_request p')
          \<and> rq_candidate_sha (cp_request p) = rq_candidate_sha (mp_request p'))
    \<and> ds_lock_root (cp_executor p) = ds_lock_root (mp_executor p')"
proof -
  have pc: "ci_pair loads config fs = Inr (cp_request p, cp_executor p)"
    and pm: "manual_pair loads' config' fs' = Inr (mp_request p', mp_executor p')"
    using assms(1,2) by (simp_all add: ci_pair_def manual_pair_def)
  have "length (rq_candidate_sha (cp_request p)) = length (rq_candidate_sha (mp_request p'))"
    using ci.request_valid [OF pc] manual.request_valid [OF pm] by (simp add: request_ok_def sha_ok_def)
  moreover have "ds_lock_root (cp_executor p) = ds_lock_root (mp_executor p')"
    using ci.shared [OF pc] manual.shared [OF pm] build_executor_spec_Inr assms(3) by metis
  ultimately show ?thesis
    using ci.deploy_target [OF pc] manual.deploy_target [OF pm] assms(3)
    by (auto simp: child_def append_eq_append_conv)
qed

section \<open>Plans that exist\<close>

definition demo_paths :: delivery_paths where
  "demo_paths = \<lparr>dp_checkout_root = Path True [''src''], dp_deploy_root = Path True [''dst''],
     dp_snapshot_root = Path True [''snap''], dp_lock_root = Path True [''lock''],
     dp_snapshot_enabled = False, dp_deployignore = None, dp_exclude_compose_file = None,
     dp_snapshot_name = None, dp_lock_timeout = PyInt 5\<rparr>"

definition demo_allowlist :: "string \<Rightarrow> string option" where
  "demo_allowlist = [''acme/shop'' \<mapsto> ''git@github.com:acme/shop.git'']"

definition demo_manual :: manual_spec where
  "demo_manual = \<lparr>ms_request_path = Path False [''in'', ''r.json''],
     ms_request_root = Path True [''srv'', ''in''], ms_confirmation = confirmation_for sample_request,
     ms_remote_allowlist = demo_allowlist, ms_paths = demo_paths\<rparr>"

definition demo_ci :: ci_spec where
  "demo_ci = \<lparr>ci_provider = ''github-actions'', ci_request_path = Path False [''in'', ''r.json''],
     ci_request_root = Path True [''srv'', ''in''], ci_remote_allowlist = demo_allowlist,
     ci_paths = demo_paths, ci_runner_name = ''vps'', ci_protected_ref = True,
     ci_protected_runner = True\<rparr>"

definition ci_loads :: "string \<Rightarrow> json result" where
  "ci_loads c = Inr (json_of_dict (canonicalize_request (sample_request\<lparr>rq_adapter := ''github-actions''\<rparr>)))"

lemma demo_manual_plan:
  "\<exists>p. build_manual_plan sample_loads demo_manual sample_fs = Inr p \<and> mp_request p = sample_request"
  by (simp add: build_manual_plan_def load_manual_request_def demo_manual_def sample_load
      resolve_manual_remote_def demo_allowlist_def build_executor_spec_def Let_def)
    (simp add: sample_request_def demo_allowlist_def)

lemma demo_ci_plan:
  "\<exists>p. build_ci_plan ci_loads demo_ci sample_fs = Inr p
     \<and> cp_request p = sample_request\<lparr>rq_adapter := ''github-actions''\<rparr>"
proof -
  have "request_ok (sample_request\<lparr>rq_adapter := ''github-actions''\<rparr>)"
    using sample_request_ok by (simp add: request_ok_def ADAPTERS_def)
  then have "load_request ci_loads sample_fs (Path False [''in'', ''r.json'']) (Path True [''srv'', ''in''])
      = Inr (sample_request\<lparr>rq_adapter := ''github-actions''\<rparr>)"
    by (simp add: load_request_def sample_location sample_read ci_loads_def parse_canonical)
  moreover have "check_runner_name ''vps'' = Inr ''vps''" by code_simp
  ultimately show ?thesis
    by (simp add: build_ci_plan_def load_ci_request_def demo_ci_def CI_PROVIDERS_def
        resolve_ci_remote_def demo_allowlist_def build_executor_spec_def Let_def)
      (simp add: sample_request_def demo_allowlist_def)
qed

theorem manual_confirmation_binds_witness:
  "rq_adapter sample_request = ''manual''"
  using demo_manual_plan manual_confirmation_binds by metis

theorem deploy_directories_separate_witness:
  "\<exists>p p'. build_ci_plan ci_loads demo_ci sample_fs = Inr p
    \<and> build_manual_plan sample_loads demo_manual sample_fs = Inr p'
    \<and> sy_destination (ds_sync (cp_executor p)) = sy_destination (ds_sync (mp_executor p'))"
proof -
  obtain p p' where p: "build_ci_plan ci_loads demo_ci sample_fs = Inr p"
      "cp_request p = sample_request\<lparr>rq_adapter := ''github-actions''\<rparr>"
      "build_manual_plan sample_loads demo_manual sample_fs = Inr p'" "mp_request p' = sample_request"
    using demo_ci_plan demo_manual_plan by blast
  moreover have "ci_paths demo_ci = ms_paths demo_manual" by (simp add: demo_ci_def demo_manual_def)
  ultimately show ?thesis
    using deploy_directories_separate [OF p(1,3)] by auto
qed

end
