(* ===== verification/PyTime.thy ===== *)
theory PyTime
  imports PyRegex
begin

text \<open>
  UTC timestamps as the sources use them: a \<open>datetime\<close> keeps its calendar fields, as
  Python's does, and \<open>instant\<close> is its distance in microseconds from 0001-01-01, the quantity
  Python's comparison and subtraction work on. The only text format is RFC 3339 with whole
  seconds and \<open>Z\<close>: \<open>parse_rfc3339\<close> is the pattern check followed by \<open>datetime.fromisoformat\<close>,
  \<open>format_utc\<close> is \<open>strftime("%Y-%m-%dT%H:%M:%SZ")\<close> with the year padded to four digits as
  the Python documentation gives it. The lemmas say that the two are inverse to each other
  and that comparing formatted timestamps as strings compares the instants.
\<close>

section \<open>The calendar\<close>

record datetime =
  dt_year :: nat
  dt_month :: nat
  dt_day :: nat
  dt_hour :: nat
  dt_minute :: nat
  dt_second :: nat
  dt_micro :: nat

definition leap_year :: "nat \<Rightarrow> bool" where
  "leap_year y \<longleftrightarrow> y mod 4 = 0 \<and> (y mod 100 \<noteq> 0 \<or> y mod 400 = 0)"

definition days_in_month :: "nat \<Rightarrow> nat \<Rightarrow> nat" where
  "days_in_month y m =
     (if m = 2 then (if leap_year y then 29 else 28)
      else if m = 4 \<or> m = 6 \<or> m = 9 \<or> m = 11 then 30 else 31)"

definition valid_date :: "nat \<Rightarrow> nat \<Rightarrow> nat \<Rightarrow> bool" where
  "valid_date y m d \<longleftrightarrow> 1 \<le> y \<and> y \<le> 9999 \<and> 1 \<le> m \<and> m \<le> 12 \<and> 1 \<le> d \<and> d \<le> days_in_month y m"

definition valid_datetime :: "datetime \<Rightarrow> bool" where
  "valid_datetime t \<longleftrightarrow> valid_date (dt_year t) (dt_month t) (dt_day t)
     \<and> dt_hour t < 24 \<and> dt_minute t < 60 \<and> dt_second t < 60 \<and> dt_micro t < 1000000"

text \<open>\<open>date.toordinal\<close>: the days from 0001-01-01, which is day 1\<close>

definition days_before_year :: "nat \<Rightarrow> nat" where
  "days_before_year y = (let p = y - 1 in p * 365 + p div 4 - p div 100 + p div 400)"

definition days_before_month :: "nat \<Rightarrow> nat \<Rightarrow> nat" where
  "days_before_month y m = sum_list (map (days_in_month y) [1..<m])"

definition ordinal :: "nat \<Rightarrow> nat \<Rightarrow> nat \<Rightarrow> nat" where
  "ordinal y m d = days_before_year y + days_before_month y m + d"

definition instant :: "datetime \<Rightarrow> int" where
  "instant t =
     int (((ordinal (dt_year t) (dt_month t) (dt_day t) * 24 + dt_hour t) * 60 + dt_minute t) * 60
            + dt_second t) * 1000000 + int (dt_micro t)"

text \<open>\<open>timedelta\<close> values, in microseconds\<close>

definition timedelta_hours :: "int \<Rightarrow> int" where
  "timedelta_hours h = h * 3600 * 1000000"

definition timedelta_days :: "int \<Rightarrow> int" where
  "timedelta_days d = d * 86400 * 1000000"

section \<open>Decimal fields\<close>

definition digit_char :: "nat \<Rightarrow> char" where
  "digit_char n = char_of (48 + n)"

definition digit_value :: "char \<Rightarrow> nat" where
  "digit_value c = code c - 48"

definition pad2 :: "nat \<Rightarrow> string" where
  "pad2 n = [digit_char (n div 10 mod 10), digit_char (n mod 10)]"

definition pad4 :: "nat \<Rightarrow> string" where
  "pad4 n = [digit_char (n div 1000 mod 10), digit_char (n div 100 mod 10),
             digit_char (n div 10 mod 10), digit_char (n mod 10)]"

definition num_of :: "string \<Rightarrow> nat" where
  "num_of s = foldl (\<lambda>a c. a * 10 + digit_value c) 0 s"

text \<open>\<open>str(n)\<close> of a natural number\<close>

fun dec :: "nat \<Rightarrow> string" where
  "dec n = (if n < 10 then [digit_char n] else dec (n div 10) @ [digit_char (n mod 10)])"

declare dec.simps [simp del]

definition dec_int :: "int \<Rightarrow> string" where
  "dec_int k = (if k < 0 then CHR ''-'' # dec (nat (- k)) else dec (nat k))"

text \<open>
  \<open>int(s)\<close> of a text: surrounding white space, a sign, and decimal digits that single
  underscores may separate; more than 4300 digits are refused.
\<close>

fun digit_groups :: "string \<Rightarrow> string option" where
  "digit_groups [] = None"
| "digit_groups [c] = (if is_digit c then Some [c] else None)"
| "digit_groups (c # d # cs) =
     (if \<not> is_digit c then None
      else map_option (Cons c) (digit_groups (if d = CHR ''_'' then cs else d # cs)))"

definition py_int :: "string \<Rightarrow> int option" where
  "py_int s =
     (case py_strip s of
        [] \<Rightarrow> None
      | c # cs \<Rightarrow>
          (case digit_groups (if c = CHR ''-'' \<or> c = CHR ''+'' then cs else c # cs) of
             None \<Rightarrow> None
           | Some ds \<Rightarrow>
               if length ds > 4300 then None
               else Some (if c = CHR ''-'' then - int (num_of ds) else int (num_of ds))))"

lemma digit_char_code: "n < 10 \<Longrightarrow> code (digit_char n) = 48 + n"
  by (simp add: digit_char_def code_def)

lemma is_digit_char [simp]: "n < 10 \<Longrightarrow> is_digit (digit_char n)"
  by (simp add: is_digit_def in_range_def digit_char_code) (simp add: code_def)

lemma digit_value_digit_char [simp]: "n < 10 \<Longrightarrow> digit_value (digit_char n) = n"
  by (simp add: digit_value_def digit_char_code)

lemma is_digit_code: "is_digit c \<longleftrightarrow> 48 \<le> code c \<and> code c \<le> 57"
  by (simp add: is_digit_def in_range_def code_def)

lemma digit_value_less: "is_digit c \<Longrightarrow> digit_value c < 10"
  by (auto simp: is_digit_code digit_value_def)

lemma digit_char_digit_value [simp]: "is_digit c \<Longrightarrow> digit_char (digit_value c) = c"
  by (simp add: is_digit_code digit_char_def digit_value_def) (simp add: code_def)

lemma num_of_pad2: "n < 100 \<Longrightarrow> num_of (pad2 n) = n"
  by (simp add: num_of_def pad2_def)

lemma num_of_pad4:
  assumes "n < 10000"
  shows "num_of (pad4 n) = n"
proof -
  define a b c where "a = n div 10" and "b = a div 10" and "c = b div 10"
  have "c < 10" and divs: "n div 100 = b" "n div 1000 = c"
    using assms by (simp_all add: a_def b_def c_def div_mult2_eq [symmetric])
  then have "num_of (pad4 n) = ((c * 10 + b mod 10) * 10 + a mod 10) * 10 + n mod 10"
    by (simp add: num_of_def pad4_def a_def [symmetric])
  moreover have "c * 10 + b mod 10 = b" "b * 10 + a mod 10 = a" "a * 10 + n mod 10 = n"
    by (simp_all add: a_def b_def c_def)
  ultimately show ?thesis by simp
qed

lemma shift_digit: "d < 10 \<Longrightarrow> (m * 10 + d) div 10 = m" "d < 10 \<Longrightarrow> (m * 10 + d) mod 10 = (d::nat)"
  by simp_all

lemma pad2_num_of: "is_digit a \<Longrightarrow> is_digit b \<Longrightarrow> pad2 (num_of [a, b]) = [a, b]"
  using digit_value_less [of a] digit_value_less [of b]
  by (simp add: num_of_def pad2_def)

lemma pad4_num_of:
  assumes "is_digit a" "is_digit b" "is_digit c" "is_digit d"
  shows "pad4 (num_of [a, b, c, d]) = [a, b, c, d]"
proof -
  note v = assms [THEN digit_value_less]
  define x y z where "x = digit_value a * 10 + digit_value b" and "y = x * 10 + digit_value c"
    and "z = y * 10 + digit_value d"
  have "z div 10 = y" "z mod 10 = digit_value d" "y div 10 = x" "y mod 10 = digit_value c"
    "x div 10 = digit_value a" "x mod 10 = digit_value b"
    using v by (simp_all only: x_def y_def z_def shift_digit)
  moreover have "z div 100 = z div 10 div 10" "z div 1000 = z div 10 div 10 div 10"
    by (simp_all add: div_mult2_eq [symmetric])
  moreover have "num_of [a, b, c, d] = z"
    by (simp add: num_of_def x_def y_def z_def)
  ultimately show ?thesis
    using v assms by (simp add: pad4_def)
qed

section \<open>The format\<close>

text \<open>A pattern of single classes in a row\<close>

definition fixed :: "(char \<Rightarrow> bool) list \<Rightarrow> rx" where
  "fixed ps = foldr (\<lambda>P r. Seq (Cls P) r) ps Eps"

lemma mtch_fixed:
  "mtch s (fixed ps) i j \<longleftrightarrow>
     j = i + length ps \<and> (ps \<noteq> [] \<longrightarrow> j \<le> length s) \<and> (\<forall>k < length ps. (ps ! k) (s ! (i + k)))"
proof (induction ps arbitrary: i)
  case Nil
  then show ?case by (auto simp: fixed_def)
next
  case (Cons P ps)
  have "mtch s (fixed (P # ps)) i j \<longleftrightarrow> i < length s \<and> P (s ! i) \<and> mtch s (fixed ps) (Suc i) j"
    by (auto simp: fixed_def)
  also have "\<dots> \<longleftrightarrow> j = i + length (P # ps) \<and> j \<le> length s
      \<and> (\<forall>k < length (P # ps). ((P # ps) ! k) (s ! (i + k)))"
    unfolding Cons.IH by (cases ps) (auto simp: All_less_Suc2)
  finally show ?case by simp
qed

lemma fullmatch_fixed: "fullmatch (fixed ps) s \<longleftrightarrow> list_all2 (\<lambda>P c. P c) ps s"
  by (auto simp: fullmatch_iff mtch_fixed list_all2_conv_all_nth)

definition rfc3339_classes :: "(char \<Rightarrow> bool) list" where
  "rfc3339_classes =
     [is_digit, is_digit, is_digit, is_digit, (\<lambda>c. c = CHR ''-''), is_digit, is_digit,
      (\<lambda>c. c = CHR ''-''), is_digit, is_digit, (\<lambda>c. c = CHR ''T''), is_digit, is_digit,
      (\<lambda>c. c = CHR '':''), is_digit, is_digit, (\<lambda>c. c = CHR '':''), is_digit, is_digit,
      (\<lambda>c. c = CHR ''Z'')]"

definition RFC3339_Z :: rx where
  "RFC3339_Z = Seq (fixed rfc3339_classes) Eos"

definition field :: "string \<Rightarrow> nat \<Rightarrow> nat \<Rightarrow> nat" where
  "field s i n = num_of (take n (drop i s))"

definition parse_rfc3339 :: "string \<Rightarrow> datetime option" where
  "parse_rfc3339 s =
     (if fullmatch RFC3339_Z s
      then (let t = \<lparr>dt_year = field s 0 4, dt_month = field s 5 2, dt_day = field s 8 2,
                     dt_hour = field s 11 2, dt_minute = field s 14 2, dt_second = field s 17 2,
                     dt_micro = 0\<rparr>
            in if valid_datetime t then Some t else None)
      else None)"

definition format_utc :: "datetime \<Rightarrow> string" where
  "format_utc t =
     pad4 (dt_year t) @ ''-'' @ pad2 (dt_month t) @ ''-'' @ pad2 (dt_day t) @ ''T''
     @ pad2 (dt_hour t) @ '':'' @ pad2 (dt_minute t) @ '':'' @ pad2 (dt_second t) @ ''Z''"

lemma RFC3339_iff: "fullmatch RFC3339_Z s \<longleftrightarrow> list_all2 (\<lambda>P c. P c) rfc3339_classes s"
  by (simp add: RFC3339_Z_def fullmatch_Eos fullmatch_fixed)

lemma valid_bounds:
  "valid_datetime t \<Longrightarrow> dt_year t < 10000 \<and> dt_month t < 100 \<and> dt_day t < 100 \<and> dt_hour t < 100
     \<and> dt_minute t < 100 \<and> dt_second t < 100"
  by (auto simp: valid_datetime_def valid_date_def days_in_month_def split: if_splits)

lemma length_pad [simp]: "length (pad2 n) = 2" "length (pad4 n) = 4"
  by (simp_all add: pad2_def pad4_def)

lemma pad_digits: "list_all is_digit (pad2 n)" "list_all is_digit (pad4 n)"
  by (simp_all add: pad2_def pad4_def)

lemma parse_format:
  assumes "valid_datetime t" and "dt_micro t = 0"
  shows "parse_rfc3339 (format_utc t) = Some t"
proof -
  have "fullmatch RFC3339_Z (format_utc t)"
    by (simp add: RFC3339_iff rfc3339_classes_def format_utc_def pad2_def pad4_def)
  moreover have "field (format_utc t) 0 4 = dt_year t" "field (format_utc t) 5 2 = dt_month t"
    "field (format_utc t) 8 2 = dt_day t" "field (format_utc t) 11 2 = dt_hour t"
    "field (format_utc t) 14 2 = dt_minute t" "field (format_utc t) 17 2 = dt_second t"
    using valid_bounds [OF assms(1)] by (simp_all add: field_def format_utc_def num_of_pad2 num_of_pad4)
  moreover have "\<lparr>dt_year = dt_year t, dt_month = dt_month t, dt_day = dt_day t,
      dt_hour = dt_hour t, dt_minute = dt_minute t, dt_second = dt_second t, dt_micro = 0\<rparr> = t"
    using assms(2) by (cases t) simp
  ultimately show ?thesis
    using assms by (simp add: parse_rfc3339_def Let_def valid_datetime_def)
qed

lemma format_parse:
  assumes "parse_rfc3339 s = Some t"
  shows "format_utc t = s \<and> valid_datetime t \<and> dt_micro t = 0"
proof -
  have m: "fullmatch RFC3339_Z s" and t: "valid_datetime t" "dt_micro t = 0"
    "dt_year t = field s 0 4" "dt_month t = field s 5 2" "dt_day t = field s 8 2"
    "dt_hour t = field s 11 2" "dt_minute t = field s 14 2" "dt_second t = field s 17 2"
    using assms by (auto simp: parse_rfc3339_def Let_def split: if_splits)
  obtain y1 y2 y3 y4 m1 m2 d1 d2 h1 h2 i1 i2 s1 s2 where s:
    "s = [y1, y2, y3, y4, CHR ''-'', m1, m2, CHR ''-'', d1, d2, CHR ''T'', h1, h2, CHR '':'', i1, i2,
          CHR '':'', s1, s2, CHR ''Z'']"
    and digits: "is_digit y1" "is_digit y2" "is_digit y3" "is_digit y4" "is_digit m1" "is_digit m2"
      "is_digit d1" "is_digit d2" "is_digit h1" "is_digit h2" "is_digit i1" "is_digit i2"
      "is_digit s1" "is_digit s2"
    using m unfolding RFC3339_iff rfc3339_classes_def by (auto simp: list_all2_Cons1)
  show ?thesis
    using t digits by (simp add: format_utc_def s field_def pad2_num_of pad4_num_of)
qed

lemma parse_valid: "parse_rfc3339 s = Some t \<Longrightarrow> valid_datetime t"
  using format_parse by blast

lemma parse_inject: "parse_rfc3339 s = Some t \<Longrightarrow> parse_rfc3339 s' = Some t \<Longrightarrow> s = s'"
  using format_parse by metis

section \<open>Order\<close>

lemma days_before_month_Suc:
  "1 \<le> m \<Longrightarrow> days_before_month y (Suc m) = days_before_month y m + days_in_month y m"
  by (simp add: days_before_month_def)

lemma days_before_month_mono:
  assumes "1 \<le> m" and "m \<le> n"
  shows "days_before_month y m \<le> days_before_month y n"
  using assms(2,1) by (induction n rule: dec_induct) (auto simp: days_before_month_Suc)

lemma days_before_month_13: "days_before_month y 13 = (if leap_year y then 366 else 365)"
  by (simp add: days_before_month_def days_in_month_def upt_rec)

lemma days_before_year_Suc:
  "1 \<le> y \<Longrightarrow> days_before_year (Suc y) = days_before_year y + (if leap_year y then 366 else 365)"
proof (cases y)
  case (Suc p)
  have "p div 100 \<le> p div 4" "Suc p div 100 \<le> Suc p div 4" by (auto intro: div_le_mono2)
  moreover have "400 dvd Suc p \<Longrightarrow> 100 dvd Suc p" "100 dvd Suc p \<Longrightarrow> 4 dvd Suc p"
    using dvd_trans [of 100 400 "Suc p"] dvd_trans [of 4 100 "Suc p"] by simp_all
  ultimately show ?thesis
    using Suc by (auto simp: days_before_year_def leap_year_def Let_def div_Suc) (simp_all add: ac_simps)
qed simp

lemma days_before_year_mono:
  assumes "1 \<le> y" and "y \<le> z"
  shows "days_before_year y \<le> days_before_year z"
  using assms(2,1) by (induction z rule: dec_induct) (auto simp: days_before_year_Suc)

lemma ordinal_less_month:
  assumes "valid_date y m d" and "m < n" and "1 \<le> e"
  shows "ordinal y m d < ordinal y n e"
proof -
  have "days_before_month y m + d \<le> days_before_month y (Suc m)"
    using assms(1) by (simp add: valid_date_def days_before_month_Suc)
  also have "\<dots> \<le> days_before_month y n"
    using assms by (intro days_before_month_mono) (auto simp: valid_date_def)
  finally show ?thesis using assms(3) by (simp add: ordinal_def)
qed

lemma ordinal_less_year:
  assumes "valid_date y m d" and "valid_date z n e" and "y < z"
  shows "ordinal y m d < ordinal z n e"
proof -
  have "days_before_month y m + d \<le> days_before_month y (Suc m)"
    using assms(1) by (simp add: valid_date_def days_before_month_Suc)
  also have "\<dots> \<le> days_before_month y 13"
    using assms(1) by (intro days_before_month_mono) (auto simp: valid_date_def)
  finally have "ordinal y m d \<le> days_before_year (Suc y)"
    using assms(1) by (simp add: ordinal_def days_before_month_13 days_before_year_Suc valid_date_def)
  also have "\<dots> \<le> days_before_year z"
    using assms by (intro days_before_year_mono) (auto simp: valid_date_def)
  also have "\<dots> < ordinal z n e"
    using assms(2) by (simp add: ordinal_def valid_date_def)
  finally show ?thesis .
qed

lemma radix_less:
  assumes "a < b \<or> a = b \<and> x < y" and "x < k"
  shows "a * k + x < b * k + (y::nat)"
  using assms(1)
proof
  assume "a < b"
  then have "Suc a * k \<le> b * k" by (intro mult_le_mono) auto
  with assms(2) show ?thesis by simp
qed simp

definition date_key :: "datetime \<Rightarrow> nat list" where
  "date_key t = [dt_year t, dt_month t, dt_day t, dt_hour t, dt_minute t, dt_second t]"

lemma instant_less:
  assumes "valid_datetime a" and "valid_datetime b" and "date_key a < date_key b"
    and "dt_micro a = 0" and "dt_micro b = 0"
  shows "instant a < instant b"
proof -
  let ?o = "\<lambda>t. ordinal (dt_year t) (dt_month t) (dt_day t)"
  have "?o a < ?o b \<or> ?o a = ?o b \<and> (dt_hour a < dt_hour b \<or> dt_hour a = dt_hour b \<and>
      (dt_minute a < dt_minute b \<or> dt_minute a = dt_minute b \<and> dt_second a < dt_second b))"
    using assms(1-3) ordinal_less_year ordinal_less_month
    by (auto simp: date_key_def valid_datetime_def valid_date_def ordinal_def)
  moreover have "dt_hour a < 24" "dt_minute a < 60" "dt_second a < 60"
      "dt_hour b < 24" "dt_minute b < 60" "dt_second b < 60"
    using assms(1,2) by (simp_all add: valid_datetime_def)
  ultimately have "((?o a * 24 + dt_hour a) * 60 + dt_minute a) * 60 + dt_second a
      < ((?o b * 24 + dt_hour b) * 60 + dt_minute b) * 60 + dt_second b"
    by (intro radix_less) (auto intro: radix_less)
  then have "int (((?o a * 24 + dt_hour a) * 60 + dt_minute a) * 60 + dt_second a) * 1000000
      < int (((?o b * 24 + dt_hour b) * 60 + dt_minute b) * 60 + dt_second b) * 1000000"
    by (intro mult_strict_right_mono) (simp only: of_nat_less_iff, simp)
  then show ?thesis
    unfolding instant_def assms(4,5) by simp
qed

lemma append_less:
  "length xs = length ys \<Longrightarrow> xs @ us < ys @ vs \<longleftrightarrow> xs < ys \<or> xs = ys \<and> us < (vs :: 'a :: linorder list)"
  by (induction xs ys rule: list_induct2) auto

lemma digit_char_less: "m < 10 \<Longrightarrow> n < 10 \<Longrightarrow> digit_char m < digit_char n \<longleftrightarrow> m < n"
  using digit_char_code [of m] digit_char_code [of n] by (simp add: less_char_def code_def)

lemma digit_char_eq: "m < 10 \<Longrightarrow> n < 10 \<Longrightarrow> digit_char m = digit_char n \<longleftrightarrow> m = n"
  by (metis digit_value_digit_char)

lemma lex_div_mod:
  assumes "0 < k"
  shows "(m::nat) < n \<longleftrightarrow> m div k < n div k \<or> m div k = n div k \<and> m mod k < n mod k"
proof (cases "m div k" "n div k" rule: linorder_cases)
  case less
  then show ?thesis by (metis div_le_mono leD leI)
next
  case equal
  then show ?thesis
    by (metis add_less_cancel_left div_mult_mod_eq less_irrefl)
next
  case greater
  then show ?thesis by (metis div_le_mono leD less_imp_le less_irrefl)
qed

lemma pad2_less: "m < 100 \<Longrightarrow> n < 100 \<Longrightarrow> pad2 m < pad2 n \<longleftrightarrow> m < n"
  using lex_div_mod [of 10 m n] by (simp add: pad2_def digit_char_less digit_char_eq)

lemma pad2_eq: "m < 100 \<Longrightarrow> n < 100 \<Longrightarrow> pad2 m = pad2 n \<longleftrightarrow> m = n"
  by (metis num_of_pad2)

lemma pad4_eq: "m < 10000 \<Longrightarrow> n < 10000 \<Longrightarrow> pad4 m = pad4 n \<longleftrightarrow> m = n"
  by (metis num_of_pad4)

lemma pad4_pads: "m < 10000 \<Longrightarrow> pad4 m = pad2 (m div 100) @ pad2 (m mod 100)"
proof -
  have "m = m div 100 * 100 + m mod 100" "m mod 100 < 100" by simp_all
  then obtain q r where m: "m = q * 100 + r" "r < 100" by blast
  then have "m div 10 = q * 10 + r div 10" "m mod 10 = r mod 10"
    by (simp_all add: div_add1_eq mod_add_eq [symmetric])
  moreover from m have "m div 1000 = q div 10"
    by (simp add: div_mult2_eq [of _ 100 10, simplified])
  moreover have "m div 100 = q" "m mod 100 = r" "r div 10 < 10"
    using m by (simp_all)
  moreover have "(q * 10 + r div 10) mod 10 = r div 10"
    using \<open>r div 10 < 10\<close> by simp
  ultimately show ?thesis
    by (simp add: pad4_def pad2_def)
qed

lemma pad4_less:
  assumes "m < 10000" and "n < 10000"
  shows "pad4 m < pad4 n \<longleftrightarrow> m < n"
proof -
  have "m < n \<longleftrightarrow> m div 100 < n div 100 \<or> m div 100 = n div 100 \<and> m mod 100 < n mod 100"
    by (rule lex_div_mod) simp
  then show ?thesis
    using assms by (auto simp: pad4_pads append_less pad2_less pad2_eq)
qed

text \<open>Fixed-width fields: string order is chronological order.\<close>

lemma format_less:
  assumes "valid_datetime a" and "valid_datetime b"
  shows "format_utc a < format_utc b \<longleftrightarrow> date_key a < date_key b"
  using valid_bounds [OF assms(1)] valid_bounds [OF assms(2)]
  by (simp add: format_utc_def date_key_def append_less pad4_less pad2_less pad4_eq pad2_eq)

lemma format_inject:
  assumes "valid_datetime a" and "valid_datetime b"
  shows "format_utc a = format_utc b \<longleftrightarrow> date_key a = date_key b"
  using valid_bounds [OF assms(1)] valid_bounds [OF assms(2)]
  by (auto simp: format_utc_def date_key_def pad4_eq pad2_eq)

lemma format_less_iff:
  assumes "valid_datetime a" and "valid_datetime b" and "dt_micro a = 0" and "dt_micro b = 0"
  shows "format_utc a < format_utc b \<longleftrightarrow> instant a < instant b"
proof (cases "date_key a = date_key b")
  case True
  then have "instant a = instant b" "format_utc a = format_utc b"
    using assms by (simp_all add: date_key_def instant_def format_utc_def)
  then show ?thesis by simp
next
  case False
  then have "date_key a < date_key b \<or> date_key b < date_key a" by auto
  then show ?thesis
    using instant_less [OF assms(1,2)] instant_less [OF assms(2,1)] assms
    by (auto simp: format_less)
qed

lemma instant_inject:
  assumes "valid_datetime a" and "valid_datetime b" and "dt_micro a = 0" and "dt_micro b = 0"
  shows "instant a = instant b \<longleftrightarrow> a = b"
proof
  assume eq: "instant a = instant b"
  then have "date_key a = date_key b"
    using instant_less [OF assms(1,2)] instant_less [OF assms(2,1)] assms(3,4)
    by (metis less_irrefl linorder_neqE)
  then show "a = b"
    using assms by (cases a; cases b) (simp add: date_key_def)
qed simp

section \<open>Numbers as texts\<close>

lemma num_of_snoc: "num_of (s @ [c]) = num_of s * 10 + digit_value c"
  by (simp add: num_of_def)

lemma num_of_dec: "num_of (dec n) = n"
proof (induction n rule: dec.induct)
  case (1 n)
  show ?case
  proof (cases "n < 10")
    case True
    then show ?thesis by (subst dec.simps) (simp add: num_of_def)
  next
    case False
    then show ?thesis using 1 by (subst dec.simps) (simp add: num_of_snoc)
  qed
qed

lemma dec_digits: "list_all is_digit (dec n)"
proof (induction n rule: dec.induct)
  case (1 n)
  then show ?case by (subst dec.simps) simp
qed

lemma dec_length: "n < 10 ^ Suc k \<Longrightarrow> length (dec n) \<le> Suc k"
proof (induction k arbitrary: n)
  case 0
  then show ?case by (subst dec.simps) simp
next
  case (Suc k)
  then have "n div 10 < 10 ^ Suc k" by (simp add: less_mult_imp_div_less)
  from Suc.IH [OF this] show ?case by (subst dec.simps) simp
qed

end
