(* ===== verification/Remediation_Lifecycle.thy ===== *)
theory Remediation_Lifecycle
  imports PyTime Json
begin

text \<open>
  Remediation-window lifecycles, \<open>scripts/security_gate/remediation_lifecycle.py\<close>: a policy
  entry carries a history of reviewed revisions; \<open>normalize_lifecycle\<close> replays it. The
  function \<open>revise\<close> is the body of the loop. The inductive relation \<open>revised\<close> is the state
  machine the reviews follow; \<open>replay_steps\<close> is the refinement: every accepted history is a
  run of it.
\<close>

section \<open>The code\<close>

definition lc_error :: "string \<Rightarrow> exc" where "lc_error m = Exc RemediationLifecycleError m"

definition ALLOWED_ENTRY_STATUSES :: "string list" where
  "ALLOWED_ENTRY_STATUSES = [''active'', ''resolved'', ''reintroduced'']"

definition ALLOWED_HISTORY_ACTIONS :: "string list" where
  "ALLOWED_HISTORY_ACTIONS = [''extended'', ''resolved'', ''reintroduced'']"

definition parse_utc :: "exc_class \<Rightarrow> string \<Rightarrow> string \<Rightarrow> datetime result" where
  "parse_utc cls label s =
     (case parse_rfc3339 s of
        None \<Rightarrow> Inl (Exc cls (label @ '' must use RFC3339 UTC timestamps''))
      | Some t \<Rightarrow> Inr t)"

text \<open>\<open>_parse_utc(_required_text(d, field, label=label), label=f"{label}.{field}")\<close>\<close>

definition time_field :: "exc_class \<Rightarrow> string \<Rightarrow> jobj \<Rightarrow> string \<Rightarrow> datetime result" where
  "time_field cls label d fld =
     bindE (required_text cls label d fld) (parse_utc cls (label @ ''.'' @ fld))"

record revision =
  rv_action :: string
  rv_first_seen :: string
  rv_previous_deadline :: string
  rv_deadline :: string
  rv_reviewed_at :: string
  rv_reviewed_by :: string
  rv_reason :: string

record lifecycle =
  lc_status :: string
  lc_original_deadline :: string
  lc_effective_deadline :: string
  lc_history :: "revision list"
  lc_revision_count :: nat

text \<open>The variables the loop tracks\<close>

record track =
  tk_deadline :: datetime
  tk_status :: string
  tk_reviewed :: datetime

text \<open>The action's part: the guard on the state and the next state\<close>

definition apply_action :: "string \<Rightarrow> datetime \<Rightarrow> datetime \<Rightarrow> track \<Rightarrow> track result" where
  "apply_action action previous_deadline deadline tk =
     (if action = ''extended'' then
        guardE (tk_status tk = ''active'') (lc_error ''only an active policy entry may be extended'')
        (guardE (instant previous_deadline < instant deadline)
           (lc_error ''extended deadline must be after previous deadline'')
           (Inr (tk\<lparr>tk_deadline := deadline\<rparr>)))
      else if action = ''resolved'' then
        guardE (tk_status tk = ''active'') (lc_error ''only an active policy entry may be resolved'')
        (guardE (instant deadline = instant previous_deadline)
           (lc_error ''resolved revision must preserve the deadline'')
           (Inr (tk\<lparr>tk_status := ''resolved''\<rparr>)))
      else
        guardE (tk_status tk = ''resolved'')
          (lc_error ''reintroduced revision must follow resolved state'')
        (guardE (instant deadline = instant previous_deadline)
           (lc_error ''reintroduced revision must preserve the deadline'')
           (Inr (tk\<lparr>tk_status := ''reintroduced''\<rparr>))))"

definition revise ::
    "datetime \<Rightarrow> datetime \<Rightarrow> string \<Rightarrow> jobj \<Rightarrow> track \<Rightarrow> (track \<times> revision) result" where
  "revise first_seen reference label d tk =
     (let text = required_text RemediationLifecycleError label d;
          time = time_field RemediationLifecycleError label d in
      bindE (text ''action'') (\<lambda>action.
      guardE (List.member ALLOWED_HISTORY_ACTIONS action) (lc_error (label @ ''.action is not allowed''))
      (bindE (time ''first_seen_at'') (\<lambda>revision_first_seen.
      bindE (time ''previous_deadline_at'') (\<lambda>previous_deadline.
      bindE (time ''deadline_at'') (\<lambda>deadline.
      bindE (time ''reviewed_at'') (\<lambda>reviewed_at.
      bindE (text ''reviewed_by'') (\<lambda>reviewed_by.
      bindE (text ''reason'') (\<lambda>reason.
      guardE (instant revision_first_seen = instant first_seen)
        (lc_error ''policy entry history must preserve first_seen_at'')
      (guardE (instant previous_deadline = instant (tk_deadline tk))
        (lc_error ''policy entry history previous deadline must match prior state'')
      (guardE (instant reviewed_at \<le> instant reference)
        (lc_error ''policy entry history reviewed_at must not be in the future'')
      (guardE (instant (tk_reviewed tk) < instant reviewed_at)
        (lc_error ''policy entry history reviews must follow the initial review and remain strictly chronological'')
      (bindE (apply_action action previous_deadline deadline tk) (\<lambda>tk'.
        Inr (tk'\<lparr>tk_reviewed := reviewed_at\<rparr>,
             \<lparr>rv_action = action, rv_first_seen = format_utc revision_first_seen,
              rv_previous_deadline = format_utc previous_deadline,
              rv_deadline = format_utc deadline, rv_reviewed_at = format_utc reviewed_at,
              rv_reviewed_by = reviewed_by, rv_reason = reason\<rparr>)))))))))))))))"

fun replay ::
    "datetime \<Rightarrow> datetime \<Rightarrow> nat \<Rightarrow> json list \<Rightarrow> track \<Rightarrow> (track \<times> revision list) result" where
  "replay first_seen reference index [] tk = Inr (tk, [])"
| "replay first_seen reference index (JObj d # revs) tk =
     bindE (revise first_seen reference (''history['' @ dec index @ '']'') d tk) (\<lambda>(tk', rv).
     bindE (replay first_seen reference (Suc index) revs tk') (\<lambda>(tk'', rvs).
       Inr (tk'', rv # rvs)))"
| "replay first_seen reference index (_ # revs) tk =
     Inl (lc_error (''policy entry history['' @ dec index @ ''] must be an object''))"

definition normalize_lifecycle ::
    "datetime \<Rightarrow> datetime \<Rightarrow> datetime \<Rightarrow> jobj \<Rightarrow> lifecycle result" where
  "normalize_lifecycle first_seen original_deadline reference entry =
     bindE (required_text RemediationLifecycleError ''policy entry'' entry ''status'') (\<lambda>status.
     guardE (List.member ALLOWED_ENTRY_STATUSES status)
       (lc_error ''policy entry status is not allowed'')
     (bindE (time_field RemediationLifecycleError ''policy entry'' entry ''reviewed_at'')
       (\<lambda>initial_reviewed_at.
     guardE (instant initial_reviewed_at \<le> instant reference)
       (lc_error ''policy entry reviewed_at must not be in the future'')
     (case jget ''history'' entry of
        JNull \<Rightarrow>
          guardE (status = ''active'')
            (lc_error ''resolved or reintroduced status requires explicit history'')
            (Inr \<lparr>lc_status = ''active'', lc_original_deadline = format_utc original_deadline,
                  lc_effective_deadline = format_utc original_deadline,
                  lc_history = [], lc_revision_count = 0\<rparr>)
      | JArr (r # rs) \<Rightarrow>
          bindE (replay first_seen reference 0 (r # rs)
                  \<lparr>tk_deadline = original_deadline, tk_status = ''active'',
                   tk_reviewed = initial_reviewed_at\<rparr>) (\<lambda>(tk, history).
          guardE (tk_status tk = status)
            (lc_error ''policy status must match the final history action'')
            (Inr \<lparr>lc_status = status, lc_original_deadline = format_utc original_deadline,
                  lc_effective_deadline = format_utc (tk_deadline tk),
                  lc_history = history, lc_revision_count = length history\<rparr>))
      | _ \<Rightarrow> Inl (lc_error ''policy entry history must be a non-empty array'')))))"

section \<open>The state machine of reviews\<close>

datatype phase = Active | Resolved | Reintroduced

text \<open>The state: the phase, the deadline in force and the time of the last review\<close>

type_synonym review_state = "phase \<times> int \<times> int"

inductive revised :: "review_state \<Rightarrow> string \<Rightarrow> review_state \<Rightarrow> bool" where
  extend: "d < d' \<Longrightarrow> t < t' \<Longrightarrow> revised (Active, d, t) ''extended'' (Active, d', t')"
| resolve: "t < t' \<Longrightarrow> revised (Active, d, t) ''resolved'' (Resolved, d, t')"
| reintroduce: "t < t' \<Longrightarrow> revised (Resolved, d, t) ''reintroduced'' (Reintroduced, d, t')"

inductive_cases revisedE: "revised s a s'"
inductive_simps revised_simps:
  "revised (Active, d, t) a s'" "revised (Resolved, d, t) a s'" "revised (Reintroduced, d, t) a s'"

inductive run :: "review_state \<Rightarrow> string list \<Rightarrow> review_state \<Rightarrow> bool" where
  stop: "run s [] s"
| step: "revised s a s' \<Longrightarrow> run s' as s'' \<Longrightarrow> run s (a # as) s''"

inductive_cases run_NilE: "run s [] s'"
inductive_cases run_ConsE: "run s (a # as) s'"

text \<open>Reintroduction is final, the deadline never moves back, reviews are chronological.\<close>

lemma run_shape:
  "run s as s' \<Longrightarrow>
     (case fst s of
        Active \<Rightarrow> (\<exists>n. as = replicate n ''extended'' \<and> fst s' = Active)
          \<or> (\<exists>n. as = replicate n ''extended'' @ [''resolved''] \<and> fst s' = Resolved)
          \<or> (\<exists>n. as = replicate n ''extended'' @ [''resolved'', ''reintroduced'']
                 \<and> fst s' = Reintroduced)
      | Resolved \<Rightarrow> (as = [] \<and> fst s' = Resolved) \<or> (as = [''reintroduced''] \<and> fst s' = Reintroduced)
      | Reintroduced \<Rightarrow> as = [] \<and> fst s' = Reintroduced)"
proof (induction rule: run.induct)
  case (stop s)
  show ?case by (cases "fst s") (auto intro: exI [of _ 0])
next
  case (step s a s' as s'')
  from step.hyps(1) show ?case
  proof (cases rule: revised.cases)
    case (extend d d' t t')
    with step.IH show ?thesis
      by (auto simp: replicate_Suc [symmetric] simp del: replicate_Suc intro: exI [of _ "Suc _"])
  next
    case (resolve t t' d)
    with step.IH show ?thesis by (auto intro: exI [of _ 0])
  next
    case (reintroduce t t' d)
    with step.IH show ?thesis by auto
  qed
qed

lemma run_monotone:
  "run s as s' \<Longrightarrow> fst (snd s) \<le> fst (snd s') \<and> snd (snd s) + int (length as) \<le> snd (snd s')"
  by (induction rule: run.induct) (auto elim!: revisedE)

lemma run_reviewed: "run s as s' \<Longrightarrow> as \<noteq> [] \<Longrightarrow> snd (snd s) < snd (snd s')"
  using run_monotone [of s as s'] by (cases as) auto

section \<open>The code follows the machine\<close>

fun phase_of :: "string \<Rightarrow> phase" where
  "phase_of s = (if s = ''active'' then Active else if s = ''resolved'' then Resolved else Reintroduced)"

definition abs_track :: "track \<Rightarrow> review_state" where
  "abs_track tk = (phase_of (tk_status tk), instant (tk_deadline tk), instant (tk_reviewed tk))"

text \<open>A stored timestamp: what \<open>parse_rfc3339\<close> answers, valid and with whole seconds\<close>

definition stored_time :: "datetime \<Rightarrow> bool" where
  "stored_time t \<longleftrightarrow> valid_datetime t \<and> dt_micro t = 0"

lemma time_field_stored: "time_field cls label d fld = Inr t \<Longrightarrow> stored_time t"
  by (auto simp: time_field_def parse_utc_def stored_time_def res_simps split: option.splits
      dest: format_parse)

lemma format_no_space: "c \<in> set (format_utc t) \<Longrightarrow> \<not> py_isspace c"
  by (auto simp: format_utc_def pad2_def pad4_def py_isspace_def digit_char_code) (auto simp: code_def)

lemma time_field_format:
  "jget fld d = JStr (format_utc t) \<Longrightarrow> stored_time t \<Longrightarrow> time_field cls label d fld = Inr t"
proof -
  have "py_strip (format_utc t) = format_utc t" "format_utc t \<noteq> []"
    using format_no_space strip_no_space by (blast, simp add: format_utc_def)
  then show "jget fld d = JStr (format_utc t) \<Longrightarrow> stored_time t \<Longrightarrow> ?thesis"
    by (simp add: time_field_def required_text_def parse_utc_def parse_format stored_time_def)
qed

lemma stored_inject: "stored_time a \<Longrightarrow> stored_time b \<Longrightarrow> instant a = instant b \<longleftrightarrow> a = b"
  by (simp add: stored_time_def instant_inject)

lemma stored_less: "stored_time a \<Longrightarrow> stored_time b \<Longrightarrow> format_utc a < format_utc b \<longleftrightarrow> instant a < instant b"
  by (simp add: stored_time_def format_less_iff)

lemma revise_Inr:
  assumes "revise first_seen reference label d tk = Inr (tk', rv)"
  obtains fs pd dl rt tk1 where
    "stored_time fs" "stored_time pd" "stored_time dl" "stored_time rt"
    "instant fs = instant first_seen" "instant pd = instant (tk_deadline tk)"
    "instant rt \<le> instant reference" "instant (tk_reviewed tk) < instant rt"
    "rv_action rv \<in> set ALLOWED_HISTORY_ACTIONS"
    "apply_action (rv_action rv) pd dl tk = Inr tk1" "tk' = tk1\<lparr>tk_reviewed := rt\<rparr>"
    "rv_first_seen rv = format_utc fs" "rv_previous_deadline rv = format_utc pd"
    "rv_deadline rv = format_utc dl" "rv_reviewed_at rv = format_utc rt"
  using assms that unfolding revise_def Let_def
  by (auto simp: res_simps dest!: time_field_stored)

lemma apply_action_step:
  assumes "apply_action a pd dl tk = Inr tk'" and "a \<in> set ALLOWED_HISTORY_ACTIONS"
    and "instant pd = instant (tk_deadline tk)" and "instant (tk_reviewed tk) < instant rt"
  shows "revised (abs_track tk) a (abs_track (tk'\<lparr>tk_reviewed := rt\<rparr>)) \<and> instant (tk_deadline tk') = instant dl"
  using assms by (auto simp: apply_action_def ALLOWED_HISTORY_ACTIONS_def res_simps abs_track_def
      intro: revised.intros split: if_splits)

lemma revise_step:
  assumes "revise first_seen reference label d tk = Inr (tk', rv)"
  shows "revised (abs_track tk) (rv_action rv) (abs_track tk') \<and> instant (tk_reviewed tk') \<le> instant reference"
proof -
  obtain pd dl rt tk1 where r: "instant pd = instant (tk_deadline tk)" "instant rt \<le> instant reference"
    "instant (tk_reviewed tk) < instant rt" "rv_action rv \<in> set ALLOWED_HISTORY_ACTIONS"
    "apply_action (rv_action rv) pd dl tk = Inr tk1" "tk' = tk1\<lparr>tk_reviewed := rt\<rparr>"
    by (rule revise_Inr [OF assms])
  then show ?thesis
    using apply_action_step [OF r(5,4,1,3)] by simp
qed

text \<open>Every accepted history is a run of the machine.\<close>

lemma replay_steps:
  "replay first_seen reference i revs tk = Inr (tk', rvs) \<Longrightarrow>
     run (abs_track tk) (map rv_action rvs) (abs_track tk')
     \<and> length rvs = length revs
     \<and> (rvs \<noteq> [] \<longrightarrow> instant (tk_reviewed tk') \<le> instant reference)"
proof (induction first_seen reference i revs tk arbitrary: tk' rvs rule: replay.induct)
  case (2 first_seen reference i d revs tk)
  from "2.prems" obtain tk1 rv rvs1 where
    r: "revise first_seen reference (''history['' @ dec i @ '']'') d tk = Inr (tk1, rv)"
    "replay first_seen reference (Suc i) revs tk1 = Inr (tk', rvs1)" "rvs = rv # rvs1"
    by (auto simp: res_simps)
  from "2.IH" [OF r(1) refl r(2)] revise_step [OF r(1)] r(3) show ?case
    by (cases rvs1) (auto intro: run.step elim: run_NilE simp: abs_track_def)
qed (auto intro: run.stop)

text \<open>The stored history is a chain: each revision starts from the deadline the one before left.\<close>

fun chained :: "string \<Rightarrow> revision list \<Rightarrow> string \<Rightarrow> bool" where
  "chained d [] e \<longleftrightarrow> d = e"
| "chained d (r # rs) e \<longleftrightarrow> rv_previous_deadline r = d \<and> chained (rv_deadline r) rs e"

lemma apply_action_stored:
  "apply_action a pd dl tk = Inr tk' \<Longrightarrow> stored_time (tk_deadline tk) \<Longrightarrow> stored_time dl \<Longrightarrow>
     stored_time (tk_deadline tk')"
  by (auto simp: apply_action_def res_simps split: if_splits)

lemma replay_chained:
  "replay first_seen reference i revs tk = Inr (tk', rvs) \<Longrightarrow> stored_time first_seen \<Longrightarrow>
     stored_time (tk_deadline tk) \<Longrightarrow> stored_time (tk_reviewed tk) \<Longrightarrow>
     chained (format_utc (tk_deadline tk)) rvs (format_utc (tk_deadline tk'))
     \<and> sorted_wrt (<) (format_utc (tk_reviewed tk) # map rv_reviewed_at rvs)
     \<and> list_all (\<lambda>r. rv_first_seen r = format_utc first_seen) rvs"
proof (induction first_seen reference i revs tk arbitrary: tk' rvs rule: replay.induct)
  case (2 first_seen reference i d revs tk)
  from "2.prems"(1) obtain tk1 rv rvs1 where
    r: "revise first_seen reference (''history['' @ dec i @ '']'') d tk = Inr (tk1, rv)"
    "replay first_seen reference (Suc i) revs tk1 = Inr (tk', rvs1)" "rvs = rv # rvs1"
    by (auto simp: res_simps)
  obtain fs pd dl rt tk2 where v: "stored_time fs" "stored_time pd" "stored_time dl" "stored_time rt"
    "instant fs = instant first_seen" "instant pd = instant (tk_deadline tk)"
    "instant (tk_reviewed tk) < instant rt" "rv_action rv \<in> set ALLOWED_HISTORY_ACTIONS"
    "apply_action (rv_action rv) pd dl tk = Inr tk2" "tk1 = tk2\<lparr>tk_reviewed := rt\<rparr>"
    "rv_first_seen rv = format_utc fs" "rv_previous_deadline rv = format_utc pd"
    "rv_deadline rv = format_utc dl" "rv_reviewed_at rv = format_utc rt"
    by (rule revise_Inr [OF r(1)])
  have stored: "stored_time (tk_deadline tk1)"
    using apply_action_stored [OF v(9) "2.prems"(3) v(3)] v(10) by simp
  moreover have "instant (tk_deadline tk1) = instant dl"
    using apply_action_step [OF v(9,8,6,7)] v(10) by simp
  ultimately have "tk_deadline tk1 = dl" using v(3) stored_inject by blast
  moreover have "pd = tk_deadline tk" "fs = first_seen"
    using v "2.prems" stored_inject by blast+
  moreover have "format_utc (tk_reviewed tk) < format_utc rt"
    using v "2.prems"(4) stored_less by blast
  moreover note "2.IH" [OF r(1) refl r(2) "2.prems"(2) stored]
  ultimately show ?case using v r(3) by (auto intro: less_trans)
qed auto

lemma replay_stored:
  "replay first_seen reference i revs tk = Inr (tk', rvs) \<Longrightarrow> stored_time (tk_deadline tk) \<Longrightarrow>
     stored_time (tk_deadline tk')"
proof (induction first_seen reference i revs tk arbitrary: tk' rvs rule: replay.induct)
  case (2 first_seen reference i d revs tk)
  from "2.prems"(1) obtain tk1 rv rvs1 where
    r: "revise first_seen reference (''history['' @ dec i @ '']'') d tk = Inr (tk1, rv)"
    "replay first_seen reference (Suc i) revs tk1 = Inr (tk', rvs1)"
    by (auto simp: res_simps)
  have "stored_time (tk_deadline tk1)"
    by (rule revise_Inr [OF r(1)]) (use apply_action_stored "2.prems"(2) in force)
  then show ?case using "2.IH" [OF r(1) refl r(2)] by blast
qed auto

lemma run_extended:
  "run s as s' \<Longrightarrow>
     (if ''extended'' \<in> set as then fst (snd s) < fst (snd s') else fst (snd s) = fst (snd s'))"
  by (induction rule: run.induct) (auto elim!: revisedE split: if_splits)

lemma normalize_Inr:
  assumes "normalize_lifecycle first_seen original_deadline reference entry = Inr lc"
  obtains tk t0 where
    "run (abs_track \<lparr>tk_deadline = original_deadline, tk_status = ''active'', tk_reviewed = t0\<rparr>)
       (map rv_action (lc_history lc)) (abs_track tk)"
    "lc_status lc = tk_status tk" "lc_status lc \<in> set ALLOWED_ENTRY_STATUSES"
    "lc_effective_deadline lc = format_utc (tk_deadline tk)"
    "lc_original_deadline lc = format_utc original_deadline"
    "lc_revision_count lc = length (lc_history lc)"
    "instant (tk_reviewed tk) \<le> instant reference" "stored_time t0"
    "stored_time original_deadline \<Longrightarrow> stored_time (tk_deadline tk)"
    "stored_time first_seen \<Longrightarrow> stored_time original_deadline \<Longrightarrow>
       chained (format_utc original_deadline) (lc_history lc) (lc_effective_deadline lc)
       \<and> sorted_wrt (<) (map rv_reviewed_at (lc_history lc))
       \<and> list_all (\<lambda>r. rv_first_seen r = format_utc first_seen) (lc_history lc)"
proof -
  from assms obtain status t0 where st: "status \<in> set ALLOWED_ENTRY_STATUSES"
    "time_field RemediationLifecycleError ''policy entry'' entry ''reviewed_at'' = Inr t0"
    "instant t0 \<le> instant reference"
    and rest: "(case jget ''history'' entry of
        JNull \<Rightarrow>
          guardE (status = ''active'')
            (lc_error ''resolved or reintroduced status requires explicit history'')
            (Inr \<lparr>lc_status = ''active'', lc_original_deadline = format_utc original_deadline,
                  lc_effective_deadline = format_utc original_deadline,
                  lc_history = [], lc_revision_count = 0\<rparr>)
      | JArr (r # rs) \<Rightarrow>
          bindE (replay first_seen reference 0 (r # rs)
                  \<lparr>tk_deadline = original_deadline, tk_status = ''active'',
                   tk_reviewed = t0\<rparr>) (\<lambda>(tk, history).
          guardE (tk_status tk = status)
            (lc_error ''policy status must match the final history action'')
            (Inr \<lparr>lc_status = status, lc_original_deadline = format_utc original_deadline,
                  lc_effective_deadline = format_utc (tk_deadline tk),
                  lc_history = history, lc_revision_count = length history\<rparr>))
      | _ \<Rightarrow> Inl (lc_error ''policy entry history must be a non-empty array'')) = Inr lc"
    unfolding normalize_lifecycle_def by (auto simp: bindE_eq_Inr guardE_eq_Inr)
  note stored = time_field_stored [OF st(2)]
  let ?tk0 = "\<lparr>tk_deadline = original_deadline, tk_status = ''active'', tk_reviewed = t0\<rparr>"
  show ?thesis
  proof (cases "jget ''history'' entry = JNull")
    case True
    with rest st stored show ?thesis
      by (intro that [of t0 ?tk0]) (auto simp: res_simps run.stop ALLOWED_ENTRY_STATUSES_def)
  next
    case False
    with rest obtain r rs tk history where
      rep: "replay first_seen reference 0 (r # rs) ?tk0 = Inr (tk, history)" "tk_status tk = status"
      and lc: "lc = \<lparr>lc_status = status, lc_original_deadline = format_utc original_deadline,
          lc_effective_deadline = format_utc (tk_deadline tk),
          lc_history = history, lc_revision_count = length history\<rparr>"
      by (auto simp: res_simps split: json.splits list.splits)
    have "history \<noteq> []" using replay_steps [OF rep(1)] by auto
    then show ?thesis
      using replay_steps [OF rep(1)] replay_chained [OF rep(1)] replay_stored [OF rep(1)] rep(2) st stored
      by (intro that [of t0 tk]) (auto simp: lc)
  qed
qed

section \<open>Properties\<close>

text \<open>
  C17: An accepted lifecycle follows the review state machine. Its actions are some extensions,
  then nothing for an active entry, a resolution for a resolved one, and a resolution and a
  reintroduction for a reintroduced one, so a reintroduced entry can never become active
  again; the effective deadline never lies before the original one, and is the original one
  exactly if no extension was reviewed.
\<close>
theorem lifecycle_follows_machine:
  assumes "normalize_lifecycle first_seen original_deadline reference entry = Inr lc"
  shows "\<exists>n d. map rv_action (lc_history lc) = replicate n ''extended'' @
        (if lc_status lc = ''active'' then []
         else if lc_status lc = ''resolved'' then [''resolved'']
         else [''resolved'', ''reintroduced''])
    \<and> lc_status lc \<in> {''active'', ''resolved'', ''reintroduced''}
    \<and> lc_effective_deadline lc = format_utc d
    \<and> (if n = 0 then instant d = instant original_deadline
       else instant original_deadline < instant d)
    \<and> lc_revision_count lc = length (lc_history lc)"
proof -
  obtain tk t0 where n:
    "run (abs_track \<lparr>tk_deadline = original_deadline, tk_status = ''active'', tk_reviewed = t0\<rparr>)
       (map rv_action (lc_history lc)) (abs_track tk)"
    "lc_status lc = tk_status tk" "lc_status lc \<in> set ALLOWED_ENTRY_STATUSES"
    "lc_effective_deadline lc = format_utc (tk_deadline tk)"
    "lc_revision_count lc = length (lc_history lc)"
    by (rule normalize_Inr [OF assms])
  let ?as = "map rv_action (lc_history lc)"
  have status: "lc_status lc \<in> {''active'', ''resolved'', ''reintroduced''}"
    using n(3) by (simp add: ALLOWED_ENTRY_STATUSES_def)
  have "\<exists>k. ?as = replicate k ''extended'' @
        (if lc_status lc = ''active'' then []
         else if lc_status lc = ''resolved'' then [''resolved'']
         else [''resolved'', ''reintroduced''])"
    using run_shape [OF n(1)] status n(2) by (auto simp: abs_track_def split: if_splits)
  then obtain k where k: "?as = replicate k ''extended'' @
        (if lc_status lc = ''active'' then []
         else if lc_status lc = ''resolved'' then [''resolved'']
         else [''resolved'', ''reintroduced''])" by blast
  have "''extended'' \<in> set ?as \<longleftrightarrow> k \<noteq> 0" unfolding k by auto
  then have "if k = 0 then instant (tk_deadline tk) = instant original_deadline
       else instant original_deadline < instant (tk_deadline tk)"
    using run_extended [OF n(1)] by (auto simp: abs_track_def split: if_splits)
  then show ?thesis using k status n by blast
qed

text \<open>
  The normalised history is one immutable chain. With stored timestamps as input, every
  revision repeats the first-seen time, starts from exactly the deadline the previous one
  left (the first from the original deadline, the last ends at the effective one), and the
  review times, compared as the strings that are stored, strictly increase.
\<close>
lemma lifecycle_history_chained:
  assumes "normalize_lifecycle first_seen original_deadline reference entry = Inr lc"
    and "stored_time first_seen" and "stored_time original_deadline"
  shows "chained (lc_original_deadline lc) (lc_history lc) (lc_effective_deadline lc)
    \<and> sorted_wrt (<) (map rv_reviewed_at (lc_history lc))
    \<and> list_all (\<lambda>r. rv_first_seen r = format_utc first_seen) (lc_history lc)"
  by (rule normalize_Inr [OF assms(1)]) (use assms(2,3) in simp)

definition demo_time :: "nat \<Rightarrow> datetime" where
  "demo_time d = \<lparr>dt_year = 2025, dt_month = 1, dt_day = d, dt_hour = 0, dt_minute = 0,
     dt_second = 0, dt_micro = 0\<rparr>"

definition demo_revision :: "string \<Rightarrow> nat \<Rightarrow> nat \<Rightarrow> nat \<Rightarrow> json" where
  "demo_revision action previous deadline reviewed = JObj
     [(''action'', JStr action), (''first_seen_at'', JStr (format_utc (demo_time 1))),
      (''previous_deadline_at'', JStr (format_utc (demo_time previous))),
      (''deadline_at'', JStr (format_utc (demo_time deadline))),
      (''reviewed_at'', JStr (format_utc (demo_time reviewed))),
      (''reviewed_by'', JStr ''ann''), (''reason'', JStr ''plan'')]"

definition demo_entry :: jobj where
  "demo_entry = [(''status'', JStr ''resolved''), (''reviewed_at'', JStr (format_utc (demo_time 1))),
     (''history'', JArr [demo_revision ''extended'' 5 9 2, demo_revision ''resolved'' 9 9 3])]"

definition demo_lifecycle :: lifecycle where
  "demo_lifecycle = projr (normalize_lifecycle (demo_time 1) (demo_time 5) (demo_time 8) demo_entry)"

lemma demo_stored: "1 \<le> d \<Longrightarrow> d \<le> 31 \<Longrightarrow> stored_time (demo_time d)"
  by (simp add: stored_time_def demo_time_def valid_datetime_def valid_date_def days_in_month_def)

lemma demo_instant:
  "instant (demo_time a) < instant (demo_time b) \<longleftrightarrow> a < b"
  "instant (demo_time a) \<le> instant (demo_time b) \<longleftrightarrow> a \<le> b"
  by (simp_all add: instant_def demo_time_def ordinal_def)

lemma demo_normalizes:
  "normalize_lifecycle (demo_time 1) (demo_time 5) (demo_time 8) demo_entry = Inr demo_lifecycle"
proof -
  have strips: "py_strip ''resolved'' = ''resolved''" "py_strip ''extended'' = ''extended''"
    "py_strip ''ann'' = ''ann''" "py_strip ''plan'' = ''plan''"
    by code_simp+
  let ?C = RemediationLifecycleError
  have rev: "\<exists>rv. revise (demo_time 1) (demo_time 8) label
      [(''action'', JStr a), (''first_seen_at'', JStr (format_utc (demo_time 1))),
       (''previous_deadline_at'', JStr (format_utc (demo_time p))),
       (''deadline_at'', JStr (format_utc (demo_time q))),
       (''reviewed_at'', JStr (format_utc (demo_time r))),
       (''reviewed_by'', JStr ''ann''), (''reason'', JStr ''plan'')]
      \<lparr>tk_deadline = demo_time p, tk_status = ''active'', tk_reviewed = demo_time t\<rparr>
      = Inr (\<lparr>tk_deadline = demo_time q, tk_status = st, tk_reviewed = demo_time r\<rparr>, rv)"
    if "a = ''extended'' \<and> st = ''active'' \<and> p < q \<or> a = ''resolved'' \<and> st = ''resolved'' \<and> p = q"
      "1 \<le> p" "q \<le> 31" "t < r" "r \<le> 8" for label a p q r t st
    using that
    by (auto simp: revise_def Let_def required_text_def strips time_field_format demo_stored
        apply_action_def ALLOWED_HISTORY_ACTIONS_def demo_instant)
  have "\<not> isl (normalize_lifecycle (demo_time 1) (demo_time 5) (demo_time 8) demo_entry)"
    using rev [of "''extended''" "''active''" 5 9 1 2 "''history['' @ dec 0 @ '']''"]
      rev [of "''resolved''" "''resolved''" 9 9 2 3 "''history['' @ dec (Suc 0) @ '']''"]
    by (auto simp: normalize_lifecycle_def demo_entry_def demo_revision_def required_text_def strips
        time_field_format demo_stored demo_instant ALLOWED_ENTRY_STATUSES_def)
  then show ?thesis by (simp add: demo_lifecycle_def)
qed

theorem lifecycle_follows_machine_witness:
  "lc_revision_count demo_lifecycle = length (lc_history demo_lifecycle)"
  using lifecycle_follows_machine [OF demo_normalizes] by blast

theorem lifecycle_history_chained_witness:
  "sorted_wrt (<) (map rv_reviewed_at (lc_history demo_lifecycle))"
  using lifecycle_history_chained [OF demo_normalizes demo_stored demo_stored] by simp

end
