(* ===== verification/Delivery_Manifest.thy ===== *)
theory Delivery_Manifest
  imports Executor Remediation_Lifecycle
begin

text \<open>
  The delivery record, \<open>scripts/delivery/manifest.py\<close>: one immutable JSON file per delivery
  result. \<open>validate_result\<close> re-checks the result it is given, \<open>manifest_payload\<close> is the
  dictionary, and \<open>write_delivery_manifest\<close> puts it in place. \<open>json.dumps(_, indent=2,
  sort_keys=True)\<close> is the parameter \<open>dumps\<close>, and what makes the write fail before
  \<open>os.replace\<close> is the parameter \<open>write_fails\<close>. The argument \<open>now\<close> of the source is an aware
  \<open>datetime\<close> read in UTC, or a naive one; the default is the clock, \<open>utc_now\<close>.
\<close>

section \<open>Checks\<close>

definition manifest_error :: "string \<Rightarrow> exc" where "manifest_error m = Exc DeliveryManifestError m"

definition DIGEST_RE :: rx where
  "DIGEST_RE = anchored (Seq (lit ''sha256:'') (rep 64 (Cls hex_lower)))"

datatype py_stamp = Naive datetime | Aware datetime

type_synonym image = "string dict"

record manifest_spec =
  mf_result :: delivery_result
  mf_path :: path
  mf_environment :: string
  mf_workflow :: string
  mf_run_id :: string
  mf_actor :: string
  mf_runner_name :: string
  mf_images :: "image list"
  mf_rollback_of :: "string option"
  mf_now :: "py_stamp option"

definition manifest_scalar :: "string \<Rightarrow> bool \<Rightarrow> string \<Rightarrow> string result" where
  "manifest_scalar name allow_empty v =
     scalar_check DeliveryManifestError 512 SECRET_LIKE_RE name allow_empty v"

text \<open>A component that exists, links followed, and is a link: a dangling link passes.\<close>

definition live_symlink_component :: "fsys \<Rightarrow> string list \<Rightarrow> bool" where
  "live_symlink_component fs ps =
     list_ex (\<lambda>q. path_exists fs q \<and> is_symlink fs q) (tl (prefixes ps))"

definition manifest_path :: "fsys \<Rightarrow> path \<Rightarrow> path result" where
  "manifest_path fs p =
     guardE (is_abs p) (manifest_error ''manifest path must be absolute'')
     (guardE (parts p \<noteq> []) (manifest_error ''manifest path must not be a filesystem root'')
     (guardE (\<not> live_symlink_component fs (parts p))
        (manifest_error ''manifest path must not contain symlink components'')
     (guardE (path_exists fs (butlast (parts p)) \<and> is_dir fs (butlast (parts p)))
        (manifest_error ''manifest parent must be an existing directory'')
     (guardE (\<not> path_exists fs (parts p)) (manifest_error ''manifest path already exists'')
       (Inr p)))))"

text \<open>Equality of two dicts with string values: the same items, in any order\<close>

definition dict_eq :: "string dict \<Rightarrow> string dict \<Rightarrow> bool" where
  "dict_eq d e \<longleftrightarrow> set d = set e"

text \<open>
  \<open>GateEvidence(**dict(entry))\<close>: the three required keys, the optional \<open>reason\<close>, no other;
  anything else is a \<open>TypeError\<close>.
\<close>

definition gate_of_row :: "row \<Rightarrow> gate_evidence result" where
  "gate_of_row r =
     guardE (list_all (\<lambda>k. List.member [''name'', ''status'', ''target'', ''reason''] k) (map fst r)
             \<and> list_all (\<lambda>k. List.member (map fst r) k) [''name'', ''status'', ''target''])
       (Exc TypeError ''unexpected or missing argument'')
       (Inr \<lparr>ge_name = row_get ''name'' r, ge_status = row_get ''status'' r,
             ge_target = row_get ''target'' r, ge_reason = row_get ''reason'' r\<rparr>)"

definition check_row :: "row \<Rightarrow> row result" where
  "check_row entry =
     bindE (except_raise
              (bindE (gate_of_row entry) (\<lambda>gate. evaluate_gate_evidence [gate] [ge_name gate]))
              [GateEvidenceError, TypeError] (manifest_error ''delivery evidence is invalid''))
       (\<lambda>checked. guardE (evidence checked \<noteq> [] \<and> dict_eq (hd (evidence checked)) entry)
          (manifest_error ''delivery evidence is not canonical'') (Inr entry))"

definition check_sync :: "sync_result \<Rightarrow> unit result" where
  "check_sync s =
     guardE (0 \<le> sr_changed_entries s) (manifest_error ''delivery synchronization count is invalid'')
     (guardE (case sr_snapshot_name s of None \<Rightarrow> True | Some n \<Rightarrow> fullmatch SNAPSHOT_NAME_RE n)
        (manifest_error ''delivery synchronization snapshot is invalid'')
     (guardE (\<not> (sr_synced s \<and> \<not> sr_changed s))
        (manifest_error ''delivery synchronization state is inconsistent'') (Inr ())))"

definition validate_result :: "delivery_result \<Rightarrow> (string dict \<times> row list) result" where
  "validate_result r =
     bindE (except_raise (parse_request (json_of_dict (dr_request r)))
              [RequestError, TypeError, ValueError]
              (manifest_error ''delivery result request is invalid'')) (\<lambda>request.
     guardE (dict_eq (canonicalize_request request) (dr_request r))
       (manifest_error ''delivery result request is not canonical'')
     (guardE (dr_head_sha r = rq_candidate_sha request \<and> fullmatch SHA_RE (dr_head_sha r))
       (manifest_error ''delivery result SHA does not match the request'')
     (guardE (dr_trusted_ref r = rq_trusted_ref request)
       (manifest_error ''delivery result trusted ref does not match the request'')
     (guardE (dr_ready r = (passed (dr_preflight r)
                \<and> (case dr_postflight r of None \<Rightarrow> False | Some p \<Rightarrow> passed p)))
       (manifest_error ''delivery result ready state is inconsistent'')
     (guardE (list_all2 dict_eq (dr_evidence r)
                (evidence (dr_preflight r)
                 @ (case dr_postflight r of None \<Rightarrow> [] | Some p \<Rightarrow> evidence p)))
       (manifest_error ''delivery result evidence is inconsistent'')
     (bindE (mapE check_row (dr_evidence r)) (\<lambda>evidence.
      guardE (\<not> (dr_postflight r = None \<and> dr_sync r \<noteq> None))
        (manifest_error ''failed preflight cannot contain synchronization'')
     (bindE (case dr_sync r of None \<Rightarrow> Inr () | Some s \<Rightarrow> check_sync s) (\<lambda>_.
      bindE (case dr_failure_reason r of None \<Rightarrow> Inr [] | Some m \<Rightarrow> manifest_scalar ''failure_reason'' False m)
        (\<lambda>_.
      guardE (\<not> (dr_ready r \<and> dr_failure_reason r \<noteq> None))
        (manifest_error ''ready delivery cannot contain a failure reason'')
        (Inr (canonicalize_request request, evidence))))))))))))"

fun validate_images :: "image list \<Rightarrow> image list result" where
  "validate_images [] = Inr []"
| "validate_images (im # ims) =
     guardE (set (map fst im) = {''image'', ''digest''})
       (manifest_error ''each image requires exactly image and digest'')
     (bindE (manifest_scalar ''image'' False (row_get ''image'' im)) (\<lambda>name.
      bindE (manifest_scalar ''digest'' False (row_get ''digest'' im)) (\<lambda>digest.
      guardE (digest = ''unknown'' \<or> fullmatch DIGEST_RE digest)
        (manifest_error ''image digest must be unknown or an immutable SHA-256'')
     (bindE (validate_images ims) (\<lambda>rest.
        Inr ([(''image'', name), (''digest'', digest)] # rest))))))"

definition timestamp :: "datetime \<Rightarrow> py_stamp option \<Rightarrow> string result" where
  "timestamp utc_now value =
     (case value of
        None \<Rightarrow> Inr (format_utc utc_now)
      | Some (Aware t) \<Rightarrow> Inr (format_utc t)
      | Some (Naive t) \<Rightarrow> Inl (manifest_error ''now must be timezone-aware''))"

section \<open>The payload\<close>

definition optional_scalar :: "string \<Rightarrow> string option \<Rightarrow> json result" where
  "optional_scalar name value =
     (case value of
        None \<Rightarrow> Inr JNull
      | Some v \<Rightarrow> bindE (manifest_scalar name False v) (\<lambda>t. Inr (JStr t)))"

definition sync_json :: "sync_result option \<Rightarrow> json" where
  "sync_json s =
     (case s of
        None \<Rightarrow> JNull
      | Some t \<Rightarrow> JObj
          [(''changed'', JBool (sr_changed t)), (''changed_entries'', JInt (sr_changed_entries t)),
           (''snapshot_created'', JBool (sr_snapshot_created t)),
           (''snapshot_name'', (case sr_snapshot_name t of None \<Rightarrow> JNull | Some n \<Rightarrow> JStr n)),
           (''synced'', JBool (sr_synced t))])"

definition manifest_payload :: "datetime \<Rightarrow> manifest_spec \<Rightarrow> jobj result" where
  "manifest_payload utc_now spec =
     (let r = mf_result spec in
      bindE (validate_result r) (\<lambda>(request, evidence).
      bindE (timestamp utc_now (mf_now spec)) (\<lambda>generated_at.
      bindE (manifest_scalar ''environment'' False (mf_environment spec)) (\<lambda>environment.
      bindE (manifest_scalar ''workflow'' False (mf_workflow spec)) (\<lambda>workflow.
      bindE (manifest_scalar ''run_id'' False (mf_run_id spec)) (\<lambda>run_id.
      bindE (manifest_scalar ''actor'' False (mf_actor spec)) (\<lambda>actor.
      bindE (manifest_scalar ''runner_name'' False (mf_runner_name spec)) (\<lambda>runner_name.
      bindE (validate_images (mf_images spec)) (\<lambda>images.
      bindE (optional_scalar ''rollback_of'' (mf_rollback_of spec)) (\<lambda>rollback_of.
      bindE (optional_scalar ''failure_reason'' (dr_failure_reason r)) (\<lambda>failure_reason.
        Inr [(''schema_version'', JInt 1),
             (''generated_at'', JStr generated_at),
             (''status'', JStr (if dr_ready r then ''success'' else ''failure'')),
             (''ready'', JBool (dr_ready r)),
             (''repository'', JStr (row_get ''repository'' request)),
             (''service'', JStr (row_get ''service'' request)),
             (''candidate_sha'', JStr (row_get ''candidate_sha'' request)),
             (''trusted_ref'', JStr (row_get ''trusted_ref'' request)),
             (''adapter'', JStr (row_get ''adapter'' request)),
             (''compose_file'', JStr (row_get ''compose_file'' request)),
             (''container_name'', JStr (row_get ''container_name'' request)),
             (''environment'', JStr environment),
             (''workflow'', JStr workflow),
             (''run_id'', JStr run_id),
             (''actor'', JStr actor),
             (''runner_name'', JStr runner_name),
             (''images'', JArr (map json_of_dict images)),
             (''gates'', JArr (map json_of_dict evidence)),
             (''rollback_of'', rollback_of),
             (''failure_reason'', failure_reason),
             (''sync'', sync_json (dr_sync r))])))))))))))"

section \<open>Writing\<close>

text \<open>
  \<open>mkstemp\<close>, \<open>chmod\<close>, write and \<open>fsync\<close> act on a temporary file that the \<open>finally\<close> clause
  removes if it is still there, so a failure before \<open>os.replace\<close> leaves no trace;
  \<open>os.replace\<close> then puts the file in place in one step, over a dangling link too; setting the
  permissions of this file, which the process has just created, is taken to succeed.
\<close>

definition write_atomic ::
    "('x world_scheme \<Rightarrow> bool) \<Rightarrow> path \<Rightarrow> string \<Rightarrow> ('x world_scheme, unit) action" where
  "write_atomic write_fails p content w =
     (case walk (w_fs w) True link_limit [] (butlast (parts p)) of
        Inl e \<Rightarrow> (Inl e, w)
      | Inr parent \<Rightarrow>
          if write_fails w then (Inl (Exc OSError ''manifest could not be written''), w)
          else (Inr (), w\<lparr>w_fs := put_node (parent @ [last (parts p)]) (File content) (w_fs w)\<rparr>))"

definition write_delivery_manifest ::
    "(json \<Rightarrow> string) \<Rightarrow> ('x world_scheme \<Rightarrow> bool) \<Rightarrow> datetime \<Rightarrow> manifest_spec
     \<Rightarrow> ('x world_scheme, path) action" where
  "write_delivery_manifest dumps write_fails utc_now spec =
     bindW (on_fs (\<lambda>fs. manifest_path fs (mf_path spec))) (\<lambda>p.
     bindW (liftW (manifest_payload utc_now spec)) (\<lambda>payload.
     bindW (write_atomic write_fails p (dumps (JObj payload) @ [LF])) (\<lambda>_. liftW (Inr p))))"

section \<open>A delivery result is recordable\<close>

lemma gate_of_evidence_row: "gate_of_row (evidence_row g) = Inr g"
proof -
  have "list_all (\<lambda>k. List.member [''name'', ''status'', ''target'', ''reason''] k) (map fst (evidence_row g))"
    "list_all (\<lambda>k. List.member (map fst (evidence_row g)) k) [''name'', ''status'', ''target'']"
    by (simp_all add: evidence_row_def)
  then show ?thesis by (simp add: gate_of_row_def)
qed

lemma single_gate_evidence: "evidence (decide [n] [(n, r)]) = [r]"
  by (simp add: decide_def ordered_rows_def split: option.split prod.split)

lemma check_evidence_row:
  assumes "gate_ok g"
  shows "check_row (evidence_row g) = Inr (evidence_row g)"
proof -
  have "evaluate_gate_evidence [g] [ge_name g] = Inr (decide [ge_name g] [(ge_name g, evidence_row g)])"
    using assms gate_ok_name by (simp add: evaluate_Inr validate_required_Inr named_row_def)
  then show ?thesis
    by (simp add: check_row_def gate_of_evidence_row single_gate_evidence dict_eq_def)
qed

lemma evidence_recordable:
  assumes "evaluate_gate_evidence gs req = Inr ev"
  shows "mapE check_row (evidence ev) = Inr (evidence ev)"
proof (rule mapE_Inr_self)
  fix row assume "row \<in> set (evidence ev)"
  then obtain g where "g \<in> set gs" "row = evidence_row g" using evaluate_rows [OF assms] by auto
  then show "check_row row = Inr row"
    using assms check_evidence_row by (auto simp: evaluate_Inr list_all_iff)
qed

lemma mapE_append:
  "mapE f xs = Inr us \<Longrightarrow> mapE f ys = Inr vs \<Longrightarrow> mapE f (xs @ ys) = Inr (us @ vs)"
  by (auto simp: mapE_eq_Inr_iff intro: list_all2_appendI)

lemma dict_eq_refl [simp]: "dict_eq d d" "list_all2 dict_eq ds ds"
  by (simp_all add: dict_eq_def list_all2_same)

lemma validate_outcome:
  assumes "request_ok rq" and "cr_head_sha co = rq_candidate_sha rq"
    and "cr_trusted_ref co = rq_trusted_ref rq"
    and "mapE check_row (evidence pre) = Inr (evidence pre)"
    and "\<forall>p. post = Some p \<longrightarrow> mapE check_row (evidence p) = Inr (evidence p)"
    and "post = None \<longrightarrow> s = None" and "\<forall>t. s = Some t \<longrightarrow> validate_sync_result t = Inr t"
    and "r = delivery_outcome rq co s pre post"
    and "dr_ready r \<longrightarrow> dr_failure_reason r = None"
  shows "validate_result r =
     bindE (case dr_failure_reason r of None \<Rightarrow> Inr [] | Some m \<Rightarrow> manifest_scalar ''failure_reason'' False m)
       (\<lambda>_. Inr (dr_request r, dr_evidence r))"
proof -
  have "mapE check_row (dr_evidence r) = Inr (dr_evidence r)"
    using assms(4,5,8) mapE_append by (auto simp: delivery_outcome_def split: option.splits)
  moreover have "(case s of None \<Rightarrow> Inr () | Some t \<Rightarrow> check_sync t) = Inr ()"
    using assms(7) by (auto simp: check_sync_def validate_sync_result_Inr guardE_def split: option.splits)
  moreover have "fullmatch SHA_RE (rq_candidate_sha rq)"
    using assms(1) by (simp add: SHA_RE_iff request_ok_def)
  moreover have fields: "dr_request r = canonicalize_request rq" "dr_head_sha r = cr_head_sha co"
    "dr_trusted_ref r = cr_trusted_ref co" "dr_sync r = s" "dr_postflight r = post" "dr_preflight r = pre"
    "dr_evidence r = evidence pre @ (case post of None \<Rightarrow> [] | Some p \<Rightarrow> evidence p)"
    "dr_ready r = (passed pre \<and> (case post of None \<Rightarrow> False | Some p \<Rightarrow> passed p))"
    using assms(8) by (simp_all add: delivery_outcome_def)
  moreover have "\<not> (post = None \<and> s \<noteq> None)" using assms(6) by blast
  moreover have "\<not> (dr_ready r \<and> dr_failure_reason r \<noteq> None)" using assms(9) by simp
  ultimately show ?thesis
    using parse_canonical [OF assms(1)] assms(2,3)
    by (simp add: validate_result_def)
qed

lemma executed_recordable:
  assumes "execute_delivery env spec run_gates checkout sync w = (Inr r, w')"
    and "request_ok (co_request (ds_checkout spec))"
  shows "validate_result r =
     bindE (case dr_failure_reason r of None \<Rightarrow> Inr [] | Some m \<Rightarrow> manifest_scalar ''failure_reason'' False m)
       (\<lambda>_. Inr (dr_request r, dr_evidence r))"
proof -
  have recordable: "run_gates_phase run_gates ctx phase req v = (Inr ev, v') \<Longrightarrow>
      mapE check_row (evidence ev) = Inr (evidence ev)" for ctx phase req v ev v'
    using evidence_recordable by (auto simp: run_gates_phase_Inr)
  have checked: "cr_head_sha co = rq_candidate_sha (co_request (ds_checkout spec))"
    "cr_trusted_ref co = rq_trusted_ref (co_request (ds_checkout spec))"
    if "checkout_phase checkout spec v = (Inr co, v')" for co v v'
    using that by (auto simp: checkout_phase_Inr validate_checkout_result_Inr)
  obtain w1 w2 where "refused_at_preflight spec run_gates checkout r w1 w2
      \<or> run_to_the_end spec run_gates checkout sync r w1 w2"
    using execute_delivery_run [OF assms(1)] by metis
  then show ?thesis
  proof
    assume "refused_at_preflight spec run_gates checkout r w1 w2"
    then obtain co v pre where co: "checkout_phase checkout spec w1 = (Inr co, v)"
      and pre: "run_gates_phase run_gates (delivery_context_of spec co) ''preflight''
          (ds_preflight_gates spec) v = (Inr pre, w2)" "\<not> passed pre"
      and r: "r = delivery_outcome (co_request (ds_checkout spec)) co None pre None"
      unfolding refused_at_preflight_def by blast
    have "mapE check_row (evidence pre) = Inr (evidence pre)" using recordable pre by blast
    moreover have "dr_ready r \<longrightarrow> dr_failure_reason r = None"
      using r pre(2) by (simp add: delivery_outcome_def)
    ultimately show ?thesis
      by (intro validate_outcome [OF assms(2) checked [OF co] _ _ _ _ r]) simp_all
  next
    assume "run_to_the_end spec run_gates checkout sync r w1 w2"
    then obtain co v pre v2 s v3 post where co: "checkout_phase checkout spec w1 = (Inr co, v)"
      and pre: "run_gates_phase run_gates (delivery_context_of spec co) ''preflight''
          (ds_preflight_gates spec) v = (Inr pre, v2)" "passed pre"
      and s: "sync_phase sync spec co v2 = (Inr s, v3)"
      and post: "run_gates_phase run_gates ((delivery_context_of spec co)\<lparr>dc_sync := Some s\<rparr>)
          ''postflight'' (ds_postflight_gates spec) v3 = (Inr post, w2)"
      and r: "r = delivery_outcome (co_request (ds_checkout spec)) co (Some s) pre (Some post)"
      unfolding run_to_the_end_def by blast
    have "failure_reason pre = None" using pre gates.explained by (auto simp: run_gates_phase_Inr)
    then have "dr_ready r \<longrightarrow> dr_failure_reason r = None"
      using r by (simp add: delivery_outcome_def)
    moreover have "mapE check_row (evidence pre) = Inr (evidence pre)"
      "mapE check_row (evidence post) = Inr (evidence post)"
      using recordable pre post by blast+
    moreover have "validate_sync_result s = Inr s" using s by (simp add: sync_phase_Inr)
    ultimately show ?thesis
      by (intro validate_outcome [OF assms(2) checked [OF co] _ _ _ _ r]) simp_all
  qed
qed

section \<open>Properties\<close>

lemma manifest_scalar_Inr: "manifest_scalar n b v = Inr t \<Longrightarrow> t = v"
  by (auto simp: manifest_scalar_def scalar_check_def split: if_splits)

lemma payload_parts:
  assumes "manifest_payload utc_now mf = Inr doc" and "validate_result (mf_result mf) = Inr (request, rows)"
  shows "jget ''status'' doc = JStr (if dr_ready (mf_result mf) then ''success'' else ''failure'')"
    "k \<in> {''repository'', ''service'', ''candidate_sha'', ''trusted_ref'', ''adapter'', ''compose_file'', ''container_name''}
       \<Longrightarrow> jget k doc = JStr (row_get k request)"
    "jget ''gates'' doc = JArr (map json_of_dict rows)"
    "jget ''failure_reason'' doc = (case dr_failure_reason (mf_result mf) of None \<Rightarrow> JNull | Some m \<Rightarrow> JStr m)"
    "jget ''rollback_of'' doc = (case mf_rollback_of mf of None \<Rightarrow> JNull | Some m \<Rightarrow> JStr m)"
    "jget ''sync'' doc = sync_json (dr_sync (mf_result mf))"
  using assms
  by (auto simp: manifest_payload_def Let_def bindE_eq_Inr optional_scalar_def dest!: manifest_scalar_Inr split: option.splits)

lemma executed_request:
  assumes "execute_delivery env spec run_gates checkout sync w = (Inr r, w')"
  shows "dr_request r = canonicalize_request (co_request (ds_checkout spec))"
    "dr_evidence r = evidence (dr_preflight r) @ (case dr_postflight r of None \<Rightarrow> [] | Some p \<Rightarrow> evidence p)"
    "dr_ready r \<longleftrightarrow> passed (dr_preflight r) \<and> (\<exists>p. dr_postflight r = Some p \<and> passed p)"
proof -
  obtain co s pre post where "r = delivery_outcome (co_request (ds_checkout spec)) co s pre post"
    using execute_delivery_run [OF assms] unfolding refused_at_preflight_def run_to_the_end_def by metis
  then show "dr_request r = canonicalize_request (co_request (ds_checkout spec))"
    "dr_evidence r = evidence (dr_preflight r) @ (case dr_postflight r of None \<Rightarrow> [] | Some p \<Rightarrow> evidence p)"
    "dr_ready r \<longleftrightarrow> passed (dr_preflight r) \<and> (\<exists>p. dr_postflight r = Some p \<and> passed p)"
    by (auto simp: delivery_outcome_def split: option.splits)
qed

text \<open>
  C21: Every delivery of a valid request can be recorded, up to its failure text, and the record
  says what happened. For a result of the executor the record's own validation re-derives exactly
  the request and the evidence of that result; it refuses it only if there is a failure reason
  that breaks the record's bound of one line, 512 characters and no secret-like text. The payload
  of such a record has the status \<open>success\<close> exactly if both gate phases passed; it names the
  fields of the request that was delivered, and the gate rows of both phases in their order, the
  failure reason and the synchronisation are those of the result.
\<close>

theorem delivery_recordable:
  assumes "execute_delivery env spec run_gates checkout sync w = (Inr r, w')"
    and "request_ok (co_request (ds_checkout spec))" and "mf_result mf = r"
  defines "request \<equiv> co_request (ds_checkout spec)"
  shows "validate_result r =
     (case dr_failure_reason r of
        None \<Rightarrow> Inr (dr_request r, dr_evidence r)
      | Some m \<Rightarrow> bindE (manifest_scalar ''failure_reason'' False m)
                   (\<lambda>_. Inr (dr_request r, dr_evidence r)))
    \<and> (\<forall>doc. manifest_payload utc_now mf = Inr doc \<longrightarrow>
        jget ''status'' doc = JStr (if passed (dr_preflight r) \<and> (\<exists>p. dr_postflight r = Some p \<and> passed p)
                                    then ''success'' else ''failure'')
        \<and> jget ''candidate_sha'' doc = JStr (rq_candidate_sha request)
        \<and> jget ''trusted_ref'' doc = JStr (rq_trusted_ref request)
        \<and> jget ''repository'' doc = JStr (rq_repository request) \<and> jget ''service'' doc = JStr (rq_service request)
        \<and> jget ''compose_file'' doc = JStr (rq_compose_file request)
        \<and> jget ''container_name'' doc = JStr (rq_container_name request)
        \<and> jget ''gates'' doc = JArr (map json_of_dict
             (evidence (dr_preflight r) @ (case dr_postflight r of None \<Rightarrow> [] | Some p \<Rightarrow> evidence p)))
        \<and> jget ''failure_reason'' doc = (case dr_failure_reason r of None \<Rightarrow> JNull | Some m \<Rightarrow> JStr m)
        \<and> (case dr_sync r of
             None \<Rightarrow> jget ''sync'' doc = JNull
           | Some s \<Rightarrow> \<exists>d. jget ''sync'' doc = JObj d \<and> jget ''changed'' d = JBool (sr_changed s)
               \<and> jget ''synced'' d = JBool (sr_synced s) \<and> jget ''snapshot_created'' d = JBool (sr_snapshot_created s)
               \<and> jget ''changed_entries'' d = JInt (sr_changed_entries s)
               \<and> jget ''snapshot_name'' d = (case sr_snapshot_name s of None \<Rightarrow> JNull | Some n \<Rightarrow> JStr n)))"
proof -
  note v = executed_recordable [OF assms(1,2)]
  note e = executed_request [OF assms(1), folded request_def]
  have fields: "row_get ''candidate_sha'' (dr_request r) = rq_candidate_sha request"
    "row_get ''trusted_ref'' (dr_request r) = rq_trusted_ref request"
    "row_get ''repository'' (dr_request r) = rq_repository request" "row_get ''service'' (dr_request r) = rq_service request"
    "row_get ''compose_file'' (dr_request r) = rq_compose_file request"
    "row_get ''container_name'' (dr_request r) = rq_container_name request"
    by (simp_all add: e(1) canonicalize_request_def row_get_def)
  have recorded: ?thesis if doc: "\<And>doc. manifest_payload utc_now mf = Inr doc \<Longrightarrow>
      validate_result (mf_result mf) = Inr (dr_request r, dr_evidence r)"
  proof (intro conjI allI impI)
    show "validate_result r = (case dr_failure_reason r of
        None \<Rightarrow> Inr (dr_request r, dr_evidence r)
      | Some m \<Rightarrow> bindE (manifest_scalar ''failure_reason'' False m) (\<lambda>_. Inr (dr_request r, dr_evidence r)))"
      using v by (simp split: option.splits)
  qed (use payload_parts [OF _ doc] fields e assms(3) in \<open>auto simp: sync_json_def split: option.splits\<close>)
  show ?thesis
  proof (rule recorded)
    fix doc assume "manifest_payload utc_now mf = Inr doc"
    then obtain x where "validate_result (mf_result mf) = Inr x"
      by (auto simp: manifest_payload_def Let_def bindE_eq_Inr)
    then show "validate_result (mf_result mf) = Inr (dr_request r, dr_evidence r)"
      using v assms(3) by (auto simp: bindE_eq_Inr)
  qed
qed

lemma manifest_path_Inr:
  "manifest_path fs p = Inr q \<longleftrightarrow>
     q = p \<and> is_abs p \<and> parts p \<noteq> [] \<and> \<not> live_symlink_component fs (parts p)
     \<and> is_dir fs (butlast (parts p)) \<and> \<not> path_exists fs (parts p)"
  by (auto simp: manifest_path_def res_simps path_exists_def is_dir_def split: sum.splits)

lemma set_tl: "q \<in> set (tl xs) \<Longrightarrow> q \<in> set xs"
  by (cases xs) auto

lemma live_symlink_strict:
  assumes "walk fs True link_limit [] ps = Inr r"
  shows "live_symlink_component fs ps \<longleftrightarrow> symlink_component fs ps"
proof -
  have "path_exists fs q" if q: "q \<in> set (tl (prefixes ps))" for q
  proof -
    have "prefix q ps" using set_tl [OF q] by simp
    then obtain t where "ps = q @ t" by (auto simp: prefix_def)
    then obtain c where "walk fs True link_limit [] q = Inr c"
      using assms walk_prefix_succeeds by blast
    then show ?thesis by (simp add: path_exists_def)
  qed
  then show ?thesis
    unfolding live_symlink_component_def symlink_component_def list_ex_iff by blast
qed

lemma live_symlink_snoc:
  "live_symlink_component fs (ps @ [x]) \<longleftrightarrow>
     live_symlink_component fs ps \<or> (path_exists fs (ps @ [x]) \<and> is_symlink fs (ps @ [x]))"
  by (cases ps) (auto simp: live_symlink_component_def prefixes_snoc)

lemma walk_plain_snoc:
  "plain fs cur ps \<Longrightarrow> walk fs True n cur ps = Inr d \<Longrightarrow>
     walk fs True n cur (ps @ qs) = walk fs True n d qs"
proof (induction ps arbitrary: cur)
  case (Cons x xs)
  then show ?case by (cases "x = dotdot") (auto simp: walk_Cons_plain split: if_splits)
qed simp

text \<open>The place the record goes to: the resolved parent and the last component\<close>

lemma manifest_location:
  assumes "manifest_path fs p = Inr q"
  shows "\<exists>d. walk fs True link_limit [] (butlast (parts p)) = Inr d \<and> lookup fs d = Some Dir
    \<and> d = normal [] (butlast (parts p)) \<and> plain fs [] (butlast (parts p)) \<and> last (parts p) \<noteq> dotdot
    \<and> (lookup fs (d @ [last (parts p)]) = None \<or> is_link_at fs (d @ [last (parts p)]))"
proof -
  note ok = assms [unfolded manifest_path_Inr]
  obtain ps x where p: "parts p = ps @ [x]" using ok by (metis append_butlast_last_id)
  obtain d where d: "walk fs True link_limit [] ps = Inr d" "lookup fs d = Some Dir"
    using ok p by (auto simp: is_dir_def split: sum.splits)
  have "\<not> symlink_component fs ps"
    using ok p live_symlink_strict [OF d(1)] by (simp add: live_symlink_snoc)
  then have plain: "plain fs [] ps" using d(1) no_symlink_plain by blast
  have "walk fs True link_limit [] (ps @ [x]) = walk fs True link_limit d [x]"
    by (rule walk_plain_snoc [OF plain d(1)])
  then have missing: "\<exists>e. walk fs True link_limit d [x] = Inl e"
    using ok p by (auto simp: path_exists_def split: sum.splits)
  have "lookup fs (d @ [x]) = None \<or> is_link_at fs (d @ [x])"
  proof (rule ccontr)
    assume "\<not> ?thesis"
    then have "\<exists>r. walk fs True link_limit d [x] = Inr r"
      by (cases "x = dotdot") (auto simp: walk_Cons_plain)
    with missing show False by auto
  qed
  moreover have "x \<noteq> dotdot" using missing by auto
  ultimately show ?thesis
    using d p plain walk_plain_InrD [OF plain d(1)] by simp
qed

text \<open>
  C22: A record is written once and alone. If writing succeeds, the file system differs from the
  one before in one place only: the given path, which named no existing file or directory, now
  holds the rendered payload of a valid result. If it fails, nothing has changed.
\<close>
theorem manifest_written_once:
  assumes "write_delivery_manifest dumps write_fails utc_now spec w = (res, w')"
  shows "(isl res \<and> w' = w) \<or>
    (\<exists>payload loc. res = Inr (mf_path spec) \<and> manifest_payload utc_now spec = Inr payload
       \<and> w' = w\<lparr>w_fs := put_node loc (File (dumps (JObj payload) @ [LF])) (w_fs w)\<rparr>
       \<and> loc = normal [] (butlast (parts (mf_path spec))) @ [last (parts (mf_path spec))]
       \<and> lookup (w_fs w) (butlast loc) = Some Dir
       \<and> (lookup (w_fs w) loc = None \<or> is_link_at (w_fs w) loc))"
proof (cases "manifest_path (w_fs w) (mf_path spec)")
  case (Inl e)
  then have "res = Inl e \<and> w' = w" using assms by (simp add: write_delivery_manifest_def bindW_def)
  then show ?thesis by simp
next
  case (Inr q)
  then have q: "q = mf_path spec" by (simp add: manifest_path_Inr)
  obtain d where d: "walk (w_fs w) True link_limit [] (butlast (parts q)) = Inr d"
    "lookup (w_fs w) d = Some Dir" "d = normal [] (butlast (parts q))"
    "lookup (w_fs w) (d @ [last (parts q)]) = None \<or> is_link_at (w_fs w) (d @ [last (parts q)])"
    using manifest_location [OF Inr] q by blast
  show ?thesis
  proof (cases "manifest_payload utc_now spec")
    case (Inl e)
    with assms Inr show ?thesis by (auto simp: write_delivery_manifest_def bindW_def)
  next
    case payload: (Inr pl)
    show ?thesis
    proof (cases "write_fails w")
      case True
      with assms Inr payload d(1) show ?thesis
        by (auto simp: write_delivery_manifest_def bindW_def write_atomic_def)
    next
      case False
      with assms Inr payload d q show ?thesis
        by (auto simp: write_delivery_manifest_def bindW_def write_atomic_def)
    qed
  qed
qed

section \<open>Records of the sample delivery\<close>

definition demo_result :: delivery_result where
  "demo_result = delivery_outcome sample_request demo_co_result (Some (changed_result 1 None))
      (decide [''compose''] [named_row (gate_report ''compose'' ''passed'')])
      (Some (decide [''health''] [named_row (gate_report ''health'' ''passed'')]))"

lemma demo_result_ready: "dr_ready demo_result" "dr_failure_reason demo_result = None"
  using gate_report_pass [of "''compose''"] gate_report_pass [of "''health''"]
  by (auto simp: demo_result_def delivery_outcome_def decide_reason)

lemma short_manifest_scalar:
  assumes "length v < 6" and "LF \<notin> set v" and "CR \<notin> set v" and "v \<noteq> []"
  shows "manifest_scalar n b v = Inr v"
proof -
  have "min_len SECRET_LIKE_RE = 6" by code_simp
  then show ?thesis
    using assms short_no_search [of v SECRET_LIKE_RE] by (auto simp: manifest_scalar_def scalar_check_def)
qed

lemma no_secret_in_xs:
  assumes "set v \<subseteq> {CHR ''x''}"
  shows "\<not> search GATE_SECRET_LIKE_RE v" "\<not> search SECRET_LIKE_RE v"
proof -
  have x: "i < length v \<Longrightarrow> v ! i = CHR ''x''" for i using assms nth_mem by blast
  have lits: "mtch v (lit (c # cs)) i j \<Longrightarrow> c = CHR ''x''"
    "mtch v (ilit (c # cs)) i j \<Longrightarrow> lower_char c = CHR ''x''" for c cs i j
  proof -
    have "lower_char CHR ''x'' = CHR ''x''" by code_simp
    then show "mtch v (lit (c # cs)) i j \<Longrightarrow> c = CHR ''x''"
      "mtch v (ilit (c # cs)) i j \<Longrightarrow> lower_char c = CHR ''x''"
      using mtch_lit_hd [of v c cs i j] mtch_ilit_hd [of v c cs i j] x [of i] by auto
  qed
  have "\<not> mtch v (lit ''-----'') i j" "\<not> mtch v (ilit ''bearer'') i j" "\<not> mtch v (ilit ''.env'') i j"
    "\<not> mtch v (ilit ''http'') i j" for i j
    by (auto dest!: lits simp: char_evals)
  moreover have "\<not> mtch v SECRET_ASSIGN i j" for i j
    by (auto simp: SECRET_ASSIGN_def char_evals dest!: lits)
  ultimately show "\<not> search GATE_SECRET_LIKE_RE v" "\<not> search SECRET_LIKE_RE v"
    unfolding search_iff GATE_SECRET_LIKE_RE_def SECRET_LIKE_RE_def PRIVATE_KEY_BLOCK_def
    by (auto simp: x)
qed

definition demo_manifest :: manifest_spec where
  "demo_manifest = \<lparr>mf_result = demo_result, mf_path = Path True [''snap'', ''m.json''],
     mf_environment = ''prod'', mf_workflow = ''cd'', mf_run_id = ''7'', mf_actor = ''ann'',
     mf_runner_name = ''vps'', mf_images = [], mf_rollback_of = None, mf_now = None\<rparr>"

lemma demo_payload: "\<exists>payload. manifest_payload now demo_manifest = Inr payload"
proof -
  have "validate_result demo_result = Inr (canonicalize_request sample_request, dr_evidence demo_result)"
    using executed_recordable [OF demo_completed, folded demo_result_def] sample_request_ok demo_result_ready
    by (simp add: demo_result_def delivery_outcome_def)
  then show ?thesis
    by (simp add: manifest_payload_def demo_manifest_def timestamp_def short_manifest_scalar LF_def CR_def
        optional_scalar_def demo_result_ready Let_def)
qed

theorem delivery_recordable_witness:
  "\<exists>doc. manifest_payload (demo_time 1) demo_manifest = Inr doc \<and> jget ''status'' doc = JStr ''success''
     \<and> jget ''candidate_sha'' doc = JStr (replicate 40 CHR ''a'')"
proof -
  obtain doc where doc: "manifest_payload (demo_time 1) demo_manifest = Inr doc" using demo_payload by blast
  have "mf_result demo_manifest = demo_result" by (simp add: demo_manifest_def)
  note t = delivery_recordable [OF demo_completed [folded demo_result_def] _ this, of "demo_time 1"]
  have "passed (dr_preflight demo_result)" "\<exists>p. dr_postflight demo_result = Some p \<and> passed p"
    using gate_report_pass by (simp_all add: demo_result_def delivery_outcome_def)
  then show ?thesis using t doc sample_request_ok by simp
qed

lemma demo_written:
  "\<exists>w'. write_delivery_manifest dumps (\<lambda>_. False) now demo_manifest demo_world
     = (Inr (Path True [''snap'', ''m.json'']), w')"
proof -
  have "manifest_path demo_fs (Path True [''snap'', ''m.json'']) = Inr (Path True [''snap'', ''m.json''])"
    "walk demo_fs True link_limit [] [''snap''] = Inr [''snap'']"
    by code_simp+
  then show ?thesis
    using demo_payload [of now]
    by (auto simp: write_delivery_manifest_def bindW_def write_atomic_def demo_world_def demo_manifest_def)
qed

theorem manifest_written_once_witness:
  "\<exists>w'. lookup (w_fs w') [''snap'', ''m.json''] = Some (File (''{}'' @ [LF]))
     \<and> write_delivery_manifest (\<lambda>_. ''{}'') (\<lambda>_. False) (demo_time 1) demo_manifest demo_world
       = (Inr (Path True [''snap'', ''m.json'']), w')"
proof -
  obtain w' where w: "write_delivery_manifest (\<lambda>_. ''{}'') (\<lambda>_. False) (demo_time 1) demo_manifest demo_world
      = (Inr (Path True [''snap'', ''m.json'']), w')"
    using demo_written by blast
  from manifest_written_once [OF w]
  have "w' = demo_world\<lparr>w_fs := put_node [''snap'', ''m.json''] (File (''{}'' @ [LF])) (w_fs demo_world)\<rparr>"
    by (auto simp: demo_manifest_def dotdot_def)
  then show ?thesis using w by (simp add: lookup_def put_node_def)
qed

lemma long_gate_ok:
  "gate_ok \<lparr>ge_name = ''compose'', ge_status = ''failed'', ge_target = ''t'',
     ge_reason = replicate 512 CHR ''x''\<rparr>"
proof -
  have "safe_scalar ''gate reason'' True (replicate 512 CHR ''x'') = Inr (replicate 512 CHR ''x'')"
    using no_secret_in_xs [of "replicate 512 CHR ''x''"]
    by (simp add: safe_scalar_def scalar_check_def LF_def CR_def)
  then show ?thesis
    by (simp add: gate_ok_def sanitized_evidence_def known_gate_valid demo_known ALLOWED_STATUSES_def
        short_safe_scalar LF_def CR_def)
qed

text \<open>
  A delivery that cannot be recorded. The gate evaluator accepts a failure reason of 512
  characters; the failure reason of the delivery result puts the gate's name before it, and the
  record refuses anything beyond 512 characters: that failed delivery leaves no record.
\<close>
lemma long_failure_unrecordable:
  "\<exists>r w'. execute_delivery free_env demo_delivery
       (\<lambda>ctx phase w. (Inr [\<lparr>ge_name = ''compose'', ge_status = ''failed'', ge_target = ''t'',
          ge_reason = replicate 512 CHR ''x''\<rparr>], w))
       (\<lambda>c w. (Inr demo_co_result, w)) (\<lambda>s w. (Inr (changed_result 1 None), w)) demo_world = (Inr r, w')
     \<and> validate_result r = Inl (manifest_error ''failure_reason exceeds 512 characters'')"
proof -
  let ?g = "\<lparr>ge_name = ''compose'', ge_status = ''failed'', ge_target = ''t'',
     ge_reason = replicate 512 CHR ''x''\<rparr>"
  let ?run = "\<lambda>ctx phase w. (Inr [?g], w)"
  let ?ev = "decide [''compose''] [named_row ?g]"
  let ?r = "delivery_outcome sample_request demo_co_result None ?ev None"
  have "evaluate_gate_evidence [?g] [''compose''] = Inr ?ev"
    using long_gate_ok by (simp add: evaluate_Inr validate_required_Inr known_gate_valid demo_known)
  moreover have reason: "\<not> passed ?ev"
    "failure_reason ?ev = Some (''compose'' @ '': '' @ replicate 512 CHR ''x'')"
    by (simp_all add: decide_def named_row_def evidence_row_def row_get_def status_of_def)
  ultimately have "refused_at_preflight demo_delivery ?run (\<lambda>c w. (Inr demo_co_result, w)) ?r
      demo_locked demo_locked"
    using demo_checkout_phase by (auto simp: refused_at_preflight_def run_gates_phase_Inr)
  then have run: "execute_delivery free_env demo_delivery ?run (\<lambda>c w. (Inr demo_co_result, w))
      (\<lambda>s w. (Inr (changed_result 1 None), w)) demo_world
      = (Inr ?r, release [''snap'', ''shop-api.lock''] demo_locked)"
    using demo_validate demo_lock_run
    by (auto simp: execute_delivery_Inr service_lock_eq_Inr locked_delivery_Inr)
  have "manifest_scalar ''failure_reason'' False (''compose'' @ '': '' @ replicate 512 CHR ''x'')
      = Inl (manifest_error ''failure_reason exceeds 512 characters'')"
    by (simp add: manifest_scalar_def scalar_check_def manifest_error_def LF_def CR_def)
  then have "validate_result ?r = Inl (manifest_error ''failure_reason exceeds 512 characters'')"
    using executed_recordable [OF run] sample_request_ok reason by (simp add: delivery_outcome_def)
  then show ?thesis using run by blast
qed

end
