(* ===== verification/Security_Common.thy ===== *)
theory Security_Common
  imports Request PyTime
begin

text \<open>
  What the modules under \<open>scripts/security_gate\<close> share: the immutable digest pattern, the text
  form of a JSON value, loading a JSON object from a regular file, optional arrays, and
  \<open>date.fromisoformat\<close>.
\<close>

section \<open>Patterns and text\<close>

definition hex_any :: "char \<Rightarrow> bool" where
  "hex_any c \<longleftrightarrow> is_digit c \<or> in_range CHR ''a'' CHR ''f'' c \<or> in_range CHR ''A'' CHR ''F'' c"

definition SHA256_DIGEST :: rx where
  "SHA256_DIGEST = Seq (fixed (map (\<lambda>c x. x = c) ''sha256:'' @ replicate 64 hex_any)) Eos"

text \<open>\<open>str(value or "").strip()\<close>; \<open>show\<close> is \<open>str\<close> of a float, list or dict.\<close>

fun py_str :: "(json \<Rightarrow> string) \<Rightarrow> json \<Rightarrow> string" where
  "py_str show (JStr s) = s"
| "py_str show (JInt k) = dec_int k"
| "py_str show (JBool b) = (if b then ''True'' else ''False'')"
| "py_str show JNull = ''None''"
| "py_str show v = show v"

definition normal_text :: "(json \<Rightarrow> string) \<Rightarrow> json \<Rightarrow> string" where
  "normal_text show v = py_strip (if truthy v then py_str show v else [])"

section \<open>JSON objects in files\<close>

text \<open>
  The loader every module has a copy of, with its own error class and texts: a regular file
  that is no link, valid UTF-8 JSON, an object.
\<close>

definition load_object ::
    "exc_class \<Rightarrow> string \<Rightarrow> string \<Rightarrow> string \<Rightarrow> (string \<Rightarrow> json result) \<Rightarrow> fsys \<Rightarrow> string list
     \<Rightarrow> jobj result" where
  "load_object cls irregular invalid other loads fs p =
     guardE (is_file fs p \<and> \<not> is_symlink fs p) (Exc cls irregular)
     (bindE (except_raise (bindE (read_file fs p) loads)
              [OSError, UnicodeDecodeError, JSONDecodeError] (Exc cls invalid))
       (\<lambda>payload. case payload of JObj d \<Rightarrow> Inr d | _ \<Rightarrow> Inl (Exc cls other)))"

lemma case_object_Inr:
  "(case x of JObj d \<Rightarrow> f d | _ \<Rightarrow> Inl e) = Inr y \<longleftrightarrow> (\<exists>d. x = JObj d \<and> f d = Inr y)"
  by (cases x) auto

lemma case_array_Inr:
  "(case x of JArr d \<Rightarrow> f d | _ \<Rightarrow> Inl e) = Inr y \<longleftrightarrow> (\<exists>d. x = JArr d \<and> f d = Inr y)"
  by (cases x) auto

lemma load_object_Inr:
  "load_object cls a b c loads fs p = Inr d \<longleftrightarrow>
     is_file fs p \<and> \<not> is_symlink fs p \<and> (\<exists>s. read_file fs p = Inr s \<and> loads s = Inr (JObj d))"
  by (auto simp: load_object_def res_simps case_object_Inr)

text \<open>\<open>payload.get(field, []) or []\<close>, which must be a list\<close>

definition optional_array :: "exc \<Rightarrow> string \<Rightarrow> jobj \<Rightarrow> json list result" where
  "optional_array e fld d =
     (case jget fld d of
        JArr xs \<Rightarrow> Inr xs
      | v \<Rightarrow> if truthy v then Inl e else Inr [])"

text \<open>\<open>payload.get(field, [])\<close> with \<open>None\<close> read as empty\<close>

definition nullable_array :: "exc \<Rightarrow> string \<Rightarrow> jobj \<Rightarrow> json list result" where
  "nullable_array e fld d =
     (case jget fld d of JArr xs \<Rightarrow> Inr xs | JNull \<Rightarrow> Inr [] | _ \<Rightarrow> Inl e)"

definition array_of :: "string \<Rightarrow> jobj \<Rightarrow> json list" where
  "array_of fld d = (case jget fld d of JArr xs \<Rightarrow> xs | _ \<Rightarrow> [])"

lemma optional_array_Inr: "optional_array e fld d = Inr xs \<Longrightarrow> xs = array_of fld d"
  by (auto simp: optional_array_def array_of_def split: json.splits if_splits)

lemma nullable_array_Inr: "nullable_array e fld d = Inr xs \<Longrightarrow> xs = array_of fld d"
  by (auto simp: nullable_array_def array_of_def split: json.splits)

text \<open>\<open>list(value)\<close>\<close>

fun py_list :: "json \<Rightarrow> json list result" where
  "py_list (JArr xs) = Inr xs"
| "py_list (JStr s) = Inr (map (\<lambda>c. JStr [c]) s)"
| "py_list (JObj d) = Inr (map JStr (jkeys d))"
| "py_list _ = Inl (Exc TypeError ''object is not iterable'')"

section \<open>Written and read back\<close>

text \<open>
  What \<open>json.loads\<close> makes of a document written with \<open>sort_keys=True\<close>: the same values, the
  items of every object in the order of their keys.
\<close>

fun sort_keys :: "json \<Rightarrow> json" where
  "sort_keys (JArr xs) = JArr (map sort_keys xs)"
| "sort_keys (JObj d) = JObj (sort_key fst (map (\<lambda>(k, v). (k, sort_keys v)) d))"
| "sort_keys v = v"

lemma map_of_sort_key: "map_of (sort_key fst d) k = map_of d (k :: 'k :: linorder)"
proof -
  have hd: "map_of e k = (case filter (\<lambda>p. fst p = k) e of [] \<Rightarrow> None | p # _ \<Rightarrow> Some (snd p))" for e
    by (induction e) auto
  show ?thesis
    unfolding hd [of "sort_key fst d"] hd [of d] using sort_key_stable [of fst k d] by simp
qed

lemma jget_sort_keys: "jget k (sort_key fst (map (\<lambda>(k, v). (k, sort_keys v)) d)) = sort_keys (jget k d)"
  by (simp add: jget_def map_of_sort_key map_of_map split: option.split)

lemma sort_keys_simps [simp]: "sort_keys v = JStr s \<longleftrightarrow> v = JStr s" "sort_keys v = JBool b \<longleftrightarrow> v = JBool b"
  by (cases v; simp)+

lemma eq_int_sort_keys [simp]: "eq_int (sort_keys v) k = eq_int v k"
  by (cases v) simp_all

lemma non_object_sort_keys [simp]:
  "sort_keys v = JInt k \<longleftrightarrow> v = JInt k" "sort_keys v = JNull \<longleftrightarrow> v = JNull"
  by (cases v; simp)+

section \<open>Dates\<close>

text \<open>
  \<open>date.fromisoformat\<close>: a calendar date with or without dashes, or an ISO week date with or
  without dashes and day. A date is its proleptic Gregorian ordinal, which is what comparing
  dates compares.
\<close>

definition iso_week_monday :: "nat \<Rightarrow> nat" where
  "iso_week_monday year =
     (let jan1 = ordinal year 1 1; weekday = (jan1 + 6) mod 7 in
      if weekday > 3 then jan1 + 7 - weekday else jan1 - weekday)"

definition iso_weeks :: "nat \<Rightarrow> nat" where
  "iso_weeks year =
     (let weekday = (ordinal year 1 1 + 6) mod 7 in
      if weekday = 3 \<or> (weekday = 2 \<and> leap_year year) then 53 else 52)"

definition calendar_ordinal :: "nat \<Rightarrow> nat \<Rightarrow> nat \<Rightarrow> nat option" where
  "calendar_ordinal y m d = (if valid_date y m d then Some (ordinal y m d) else None)"

definition week_ordinal :: "nat \<Rightarrow> nat \<Rightarrow> nat \<Rightarrow> nat option" where
  "week_ordinal y w d =
     (if 1 \<le> y \<and> 1 \<le> w \<and> w \<le> iso_weeks y \<and> 1 \<le> d \<and> d \<le> 7
        \<and> iso_week_monday y + (w - 1) * 7 + (d - 1) \<le> ordinal 9999 12 31
      then Some (iso_week_monday y + (w - 1) * 7 + (d - 1)) else None)"

definition date_shape :: "string \<Rightarrow> string \<Rightarrow> bool" where
  "date_shape shape s =
     fullmatch (fixed (map (\<lambda>c x. if c = CHR ''d'' then is_digit x else x = c) shape)) s"

definition parse_date :: "string \<Rightarrow> nat option" where
  "parse_date s =
     (if date_shape ''dddd-dd-dd'' s then calendar_ordinal (field s 0 4) (field s 5 2) (field s 8 2)
      else if date_shape ''dddddddd'' s then calendar_ordinal (field s 0 4) (field s 4 2) (field s 6 2)
      else if date_shape ''dddd-Wdd-d'' s then week_ordinal (field s 0 4) (field s 6 2) (field s 9 1)
      else if date_shape ''dddd-Wdd'' s then week_ordinal (field s 0 4) (field s 6 2) 1
      else if date_shape ''ddddWddd'' s then week_ordinal (field s 0 4) (field s 5 2) (field s 7 1)
      else if date_shape ''ddddWdd'' s then week_ordinal (field s 0 4) (field s 5 2) 1
      else None)"

end
