(* ===== verification/Rollback.thy ===== *)
theory Rollback
  imports Delivery_Manifest Security_Common
begin

text \<open>
  Rollback planning, \<open>scripts/delivery/rollback.py\<close>: from an approved delivery record, an
  existing snapshot and a literal confirmation to a plan that changes nothing. The file and
  directory checks are interpreted as \<open>confined_guard\<close>s; at the end a record written by
  \<open>write_delivery_manifest\<close> is read back.
\<close>

section \<open>Specification and plan\<close>

definition rollback_error :: "string \<Rightarrow> exc" where "rollback_error m = Exc RollbackError m"

record rollback_spec =
  rb_manifest_path :: path
  rb_manifest_root :: path
  rb_snapshot_root :: path
  rb_service :: string
  rb_confirmation :: string
  rb_operator :: string
  rb_reason :: string

record rollback_plan =
  rp_repository :: string
  rp_service :: string
  rp_candidate_sha :: string
  rp_trusted_ref :: string
  rp_compose_file :: string
  rp_container_name :: string
  rp_adapter :: string
  rp_manifest_path :: "string list"
  rp_snapshot_path :: "string list"
  rp_operator :: string
  rp_reason :: string

definition service_tail :: "char \<Rightarrow> bool" where
  "service_tail c \<longleftrightarrow> is_alnum c \<or> one_of ''._-'' c"

definition ROLLBACK_SERVICE_RE :: rx where
  "ROLLBACK_SERVICE_RE = anchored (Seq (Cls is_alnum) (upto_rep 63 (Cls service_tail)))"

definition single_line :: "string \<Rightarrow> string \<Rightarrow> string result" where
  "single_line name v =
     (if v = [] \<or> v \<noteq> py_strip v
      then Inl (rollback_error (name @ '' must be a non-empty trimmed string''))
      else if has_char LF v \<or> has_char CR v then Inl (rollback_error (name @ '' must be single-line''))
      else if length v > 256 then Inl (rollback_error (name @ '' exceeds 256 characters''))
      else if search SECRET_LIKE_RE v
      then Inl (rollback_error (name @ '' contains prohibited secret-like data''))
      else Inr v)"

section \<open>Paths\<close>

definition rollback_resolve :: "fsys \<Rightarrow> path \<Rightarrow> string \<Rightarrow> string list result" where
  "rollback_resolve fs p message =
     guardE (\<not> live_symlink_component fs (parts p))
       (rollback_error ''rollback path must not contain symlink components'')
       (except_raise (resolve fs True p) [OSError, RuntimeError] (rollback_error message))"

definition existing_root :: "fsys \<Rightarrow> path \<Rightarrow> string \<Rightarrow> string list result" where
  "existing_root fs p label =
     guardE (is_abs p) (rollback_error (label @ '' must be absolute''))
     (bindE (rollback_resolve fs p (label @ '' could not be resolved'')) (\<lambda>resolved.
      guardE (is_dir fs resolved) (rollback_error (label @ '' must be an existing directory''))
        (Inr resolved)))"

definition regular_below :: "fsys \<Rightarrow> string list \<Rightarrow> string list \<Rightarrow> string \<Rightarrow> string list result" where
  "regular_below fs resolved base label =
     guardE (\<not> (base = resolved \<or> \<not> in_parents base resolved))
       (rollback_error (label @ '' must remain below its declared root''))
     (guardE (is_file fs resolved \<and> \<not> is_symlink fs resolved)
        (rollback_error (label @ '' must be a regular file'')) (Inr resolved))"

definition file_below :: "string \<Rightarrow> fsys \<Rightarrow> path \<Rightarrow> string list \<Rightarrow> string list result" where
  "file_below label fs p base =
     guardE (is_abs p) (rollback_error (label @ '' must be absolute''))
     (bindE (rollback_resolve fs p (label @ '' could not be resolved'')) (\<lambda>resolved.
        regular_below fs resolved base label))"

section \<open>The approved record\<close>

definition load_manifest :: "(string \<Rightarrow> json result) \<Rightarrow> fsys \<Rightarrow> string list \<Rightarrow> jobj result" where
  "load_manifest loads fs p =
     bindE (except_raise (bindE (read_file fs p) loads) [OSError, UnicodeDecodeError, JSONDecodeError]
              (rollback_error ''rollback manifest must contain valid UTF-8 JSON''))
       (\<lambda>payload. case payload of
          JObj d \<Rightarrow>
            guardE (eq_int (jget ''schema_version'' d) 1 \<and> jget ''status'' d = JStr ''success''
                    \<and> jget ''ready'' d = JBool True \<and> jget ''failure_reason'' d = JNull)
              (rollback_error ''rollback manifest is not an approved successful delivery'') (Inr d)
        | _ \<Rightarrow> Inl (rollback_error ''rollback manifest must be a JSON object''))"

definition MANIFEST_REQUEST_FIELDS :: "string list" where
  "MANIFEST_REQUEST_FIELDS =
     [''repository'', ''service'', ''candidate_sha'', ''trusted_ref'', ''compose_file'',
      ''container_name'', ''adapter'']"

definition request_from_manifest :: "jobj \<Rightarrow> deploy_request result" where
  "request_from_manifest payload =
     except_raise (parse_request (JObj (map (\<lambda>f. (f, jget f payload)) MANIFEST_REQUEST_FIELDS)))
       [RequestError, TypeError, ValueError] (rollback_error ''rollback manifest request is invalid'')"

definition SNAPSHOT_FLAGS :: "string list" where
  "SNAPSHOT_FLAGS = [''changed'', ''snapshot_created'', ''synced'']"

definition snapshot_from_manifest :: "fsys \<Rightarrow> jobj \<Rightarrow> string list \<Rightarrow> string list result" where
  "snapshot_from_manifest fs payload snapshot_root =
     (case jget ''sync'' payload of
        JObj sync \<Rightarrow>
          guardE (list_all (\<lambda>f. is_bool (jget f sync)) SNAPSHOT_FLAGS)
            (rollback_error ''rollback synchronization evidence is invalid'')
         (guardE (list_all (\<lambda>f. jget f sync = JBool True) SNAPSHOT_FLAGS)
            (rollback_error ''rollback manifest has no approved snapshot'')
         (case jget ''snapshot_name'' sync of
            JStr n \<Rightarrow>
              guardE (fullmatch SNAPSHOT_NAME_RE n) (rollback_error ''rollback snapshot name is unsafe'')
             (bindE (rollback_resolve fs (Path True (snapshot_root @ [n]))
                       ''rollback snapshot could not be resolved'') (\<lambda>resolved.
                regular_below fs resolved snapshot_root ''rollback snapshot''))
          | _ \<Rightarrow> Inl (rollback_error ''rollback snapshot name is unsafe'')))
      | _ \<Rightarrow> Inl (rollback_error ''rollback manifest has no synchronization evidence''))"

section \<open>The plan\<close>

definition rollback_confirmation :: "string \<Rightarrow> string \<Rightarrow> string" where
  "rollback_confirmation service sha = ''ROLLBACK '' @ service @ '' '' @ sha"

definition build_rollback_plan ::
    "(string \<Rightarrow> json result) \<Rightarrow> fsys \<Rightarrow> rollback_spec \<Rightarrow> rollback_plan result" where
  "build_rollback_plan loads fs spec =
     guardE (fullmatch ROLLBACK_SERVICE_RE (rb_service spec))
       (rollback_error ''service must be a bounded identifier'')
     (bindE (single_line ''operator'' (rb_operator spec)) (\<lambda>operator.
      bindE (single_line ''reason'' (rb_reason spec)) (\<lambda>reason.
      bindE (existing_root fs (rb_manifest_root spec) ''manifest root'') (\<lambda>manifest_root.
      bindE (existing_root fs (rb_snapshot_root spec) ''snapshot root'') (\<lambda>snapshot_root.
      bindE (file_below ''manifest path'' fs (rb_manifest_path spec) manifest_root) (\<lambda>manifest_path.
      bindE (load_manifest loads fs manifest_path) (\<lambda>payload.
      bindE (request_from_manifest payload) (\<lambda>request.
      guardE (rq_service request = rb_service spec)
        (rollback_error ''rollback service does not match the approved manifest'')
     (guardE (rb_confirmation spec
                = rollback_confirmation (rq_service request) (rq_candidate_sha request))
        (rollback_error ''confirmation must match the exact service and SHA'')
     (bindE (snapshot_from_manifest fs payload snapshot_root) (\<lambda>snapshot_path.
        Inr \<lparr>rp_repository = rq_repository request, rp_service = rq_service request,
             rp_candidate_sha = rq_candidate_sha request, rp_trusted_ref = rq_trusted_ref request,
             rp_compose_file = rq_compose_file request,
             rp_container_name = rq_container_name request, rp_adapter = rq_adapter request,
             rp_manifest_path = manifest_path, rp_snapshot_path = snapshot_path,
             rp_operator = operator, rp_reason = reason\<rparr>)))))))))))"

definition rollback_confirmation_for :: "rollback_plan \<Rightarrow> string" where
  "rollback_confirmation_for plan =
     rollback_confirmation (rp_service plan) (rp_candidate_sha plan)"

section \<open>The checks are confined\<close>

lemma file_below_Inr:
  "file_below label fs p base = Inr r \<longleftrightarrow>
     is_abs p \<and> \<not> symlink_component fs (parts p) \<and> resolve fs True p = Inr r
     \<and> strict_prefix base r \<and> is_file fs r \<and> \<not> is_symlink fs r"
proof -
  have "resolve fs True p = Inr r \<Longrightarrow> is_abs p \<Longrightarrow>
      live_symlink_component fs (parts p) \<longleftrightarrow> symlink_component fs (parts p)"
    using live_symlink_strict by (simp add: resolve_def absolute_def)
  then show ?thesis
    by (auto simp: file_below_def rollback_resolve_def regular_below_def in_parents_def
        strict_prefix_def res_simps)
qed

lemma existing_root_Inr:
  "existing_root fs p label = Inr r \<longleftrightarrow>
     is_abs p \<and> \<not> symlink_component fs (parts p) \<and> resolve fs True p = Inr r \<and> is_dir fs r"
proof -
  have "resolve fs True p = Inr r \<Longrightarrow> is_abs p \<Longrightarrow>
      live_symlink_component fs (parts p) \<longleftrightarrow> symlink_component fs (parts p)"
    using live_symlink_strict by (simp add: resolve_def absolute_def)
  then show ?thesis
    by (auto simp: existing_root_def rollback_resolve_def res_simps)
qed

interpretation rollback_file: confined_guard "file_below label" "\<lambda>nd. \<exists>c. nd = File c"
proof (unfold_locales, goal_cases)
  case (1 fs p root r)
  then show ?case by (simp add: file_below_Inr)
next
  case (2 fs p root r)
  then show ?case
    using resolve_strict_normal [of fs p r] by (simp add: file_below_Inr absolute_def)
next
  case (3 fs p root r)
  then show ?case using resolve_settled settled_is_file by (auto simp: file_below_Inr)
qed

lemma single_line_Inr:
  "single_line name v = Inr u \<longleftrightarrow>
     u = v \<and> v \<noteq> [] \<and> v = py_strip v \<and> LF \<notin> set v \<and> CR \<notin> set v \<and> length v \<le> 256
     \<and> \<not> search SECRET_LIKE_RE v"
  by (auto simp: single_line_def)

lemma snapshot_name_component:
  assumes "fullmatch SNAPSHOT_NAME_RE n"
  shows "n \<noteq> dotdot \<and> n \<noteq> []"
proof -
  have "0 < length n" "is_alnum (n ! 0)"
    using assms unfolding SNAPSHOT_NAME_RE_def fullmatch_anchored unfolding fullmatch_iff by auto
  then show ?thesis using alnum_not_dot by (auto simp: dotdot_def)
qed

lemma snapshot_from_manifest_Inr:
  assumes "snapshot_from_manifest fs payload sroot = Inr r" and "fs_wf fs" and "settled fs sroot"
  shows "\<exists>sync n. jget ''sync'' payload = JObj sync \<and> list_all (\<lambda>f. jget f sync = JBool True) SNAPSHOT_FLAGS
    \<and> jget ''snapshot_name'' sync = JStr n \<and> fullmatch SNAPSHOT_NAME_RE n \<and> r = sroot @ [n]
    \<and> (\<exists>c. lookup fs r = Some (File c))"
proof -
  obtain sync n where sync: "jget ''sync'' payload = JObj sync"
    "list_all (\<lambda>f. jget f sync = JBool True) SNAPSHOT_FLAGS" "jget ''snapshot_name'' sync = JStr n"
    "fullmatch SNAPSHOT_NAME_RE n"
    and res: "\<not> live_symlink_component fs (sroot @ [n])" "resolve fs True (Path True (sroot @ [n])) = Inr r"
    and reg: "is_file fs r"
    using assms(1) by (auto simp: snapshot_from_manifest_def rollback_resolve_def regular_below_def
        res_simps split: json.splits)
  have walk: "walk fs True link_limit [] (sroot @ [n]) = Inr r" using res(2) by (simp add: resolve_def absolute_def)
  have "\<not> symlink_component fs (sroot @ [n])" using res(1) live_symlink_strict [OF walk] by simp
  then have "r = normal [] (sroot @ [n])"
    using resolve_strict_normal [of fs "Path True (sroot @ [n])" r] res(2) by (simp add: absolute_def)
  then have "r = sroot @ [n]"
    using settled_plain [OF assms(2,3)] snapshot_name_component [OF sync(4)] by simp
  moreover have "\<exists>c. lookup fs r = Some (File c)"
    using resolve_settled [OF assms(2) res(2)] settled_is_file [OF assms(2)] reg by blast
  ultimately show ?thesis using sync by blast
qed

lemma load_manifest_Inr:
  "load_manifest loads fs p = Inr d \<longleftrightarrow>
     (\<exists>c. read_file fs p = Inr c \<and> loads c = Inr (JObj d)) \<and> eq_int (jget ''schema_version'' d) 1
     \<and> jget ''status'' d = JStr ''success'' \<and> jget ''ready'' d = JBool True
     \<and> jget ''failure_reason'' d = JNull"
  by (auto simp: load_manifest_def res_simps case_object_Inr)

lemma settled_read:
  "fs_wf fs \<Longrightarrow> settled fs p \<Longrightarrow> read_file fs p = Inr c \<longleftrightarrow> lookup fs p = Some (File c)"
  by (auto simp: read_file_def settled_walk split: option.splits node.splits)

section \<open>Reading a written record back\<close>

text \<open>A request is determined by its fields, in any order.\<close>

lemma parse_fields:
  assumes "request_ok r" and "unknown_keys d = []"
    and "\<And>k. k \<in> set REQUEST_KEYS \<Longrightarrow>
      jget k d = jget k (map (\<lambda>(k, v). (k, JStr v)) (canonicalize_request r))"
  shows "parse_request (JObj d) = Inr r"
proof -
  let ?c = "map (\<lambda>(k, v). (k, JStr v)) (canonicalize_request r)"
  have "text_field d k mx = text_field ?c k mx" if "k \<in> set REQUEST_KEYS" for k mx
    using assms(3) [OF that] by (simp add: text_field_def)
  moreover have "jget ''reason'' d = jget ''reason'' ?c" by (rule assms(3)) (simp add: REQUEST_KEYS_def)
  moreover have "parse_request (JObj ?c) = Inr r"
    using parse_canonical [OF assms(1)] by (simp add: json_of_dict_def)
  ultimately show ?thesis
    using assms(2) by (simp add: parse_request_def unknown_canonical REQUEST_KEYS_def)
qed

lemma request_from_written:
  assumes "request_ok rq"
    and "\<And>f. f \<in> set MANIFEST_REQUEST_FIELDS \<Longrightarrow> jget f d = JStr (row_get f (canonicalize_request rq))"
  shows "request_from_manifest d = Inr (rq\<lparr>rq_reason := None\<rparr>)"
proof -
  let ?d = "map (\<lambda>f. (f, jget f d)) MANIFEST_REQUEST_FIELDS"
  have "parse_request (JObj ?d) = Inr (rq\<lparr>rq_reason := None\<rparr>)"
  proof (rule parse_fields)
    show "request_ok (rq\<lparr>rq_reason := None\<rparr>)" using assms(1) by (simp add: request_ok_def)
    show "unknown_keys ?d = []"
      by (simp add: unknown_keys_def jkeys_def MANIFEST_REQUEST_FIELDS_def REQUEST_KEYS_def)
    have fields: "jget f d = JStr (row_get f (canonicalize_request rq))"
      if "f \<in> {''repository'', ''service'', ''candidate_sha'', ''trusted_ref'', ''compose_file'',
        ''container_name'', ''adapter''}" for f
      using assms(2) that by (simp add: MANIFEST_REQUEST_FIELDS_def)
    show "jget k ?d = jget k (map (\<lambda>(k, v). (k, JStr v)) (canonicalize_request (rq\<lparr>rq_reason := None\<rparr>)))"
      if "k \<in> set REQUEST_KEYS" for k
      using that unfolding REQUEST_KEYS_def
      by (auto simp: MANIFEST_REQUEST_FIELDS_def canonicalize_request_def row_get_def fields)
  qed
  then show ?thesis by (simp add: request_from_manifest_def)
qed

text \<open>Adding a file where nothing or a link was leaves link-free resolution as it was.\<close>

lemma plain_put_file: "plain fs cur ps \<Longrightarrow> plain (put_node loc (File c) fs) cur ps"
  by (induction ps arbitrary: cur) (auto simp: is_link_at_def lookup_def put_node_def)

lemma walk_put_file:
  "plain fs cur ps \<Longrightarrow> walk fs True n cur ps = Inr d \<Longrightarrow> walk (put_node loc (File c) fs) True n cur ps = Inr d"
proof (induction ps arbitrary: cur)
  case (Cons x xs)
  let ?fs = "put_node loc (File c) fs"
  show ?case
  proof (cases "x = dotdot")
    case False
    then have x: "\<not> is_link_at fs (cur @ [x])" "plain fs (cur @ [x]) xs" using Cons.prems(1) by auto
    then have "\<not> is_link_at ?fs (cur @ [x])"
      by (auto simp: is_link_at_def lookup_def put_node_def)
    moreover have "lookup fs (cur @ [x]) \<noteq> None \<Longrightarrow> lookup ?fs (cur @ [x]) \<noteq> None"
      by (auto simp: lookup_def put_node_def)
    ultimately show ?thesis
      using Cons False x by (auto simp: walk_Cons_plain split: if_splits)
  qed (use Cons in auto)
qed simp

lemma plain_no_symlink: "plain fs [] ps \<Longrightarrow> \<not> symlink_component fs ps"
proof (induction ps rule: rev_induct)
  case Nil
  then show ?case by (simp add: symlink_component_def)
next
  case (snoc x xs)
  then have "plain fs [] xs" "\<not> symlink_component fs xs" by (simp_all add: plain_append)
  moreover have "\<not> is_symlink fs (xs @ [x])"
    using snoc.prems walk_plain_InrD [of fs "[]" xs]
    by (auto simp: is_symlink_def plain_append split: sum.splits)
  ultimately show ?case by (simp add: symlink_component_snoc)
qed

lemma written_location:
  assumes "manifest_path fs p = Inr q"
  defines "loc \<equiv> normal [] (butlast (parts p)) @ [last (parts p)]"
  shows "walk (put_node loc (File c) fs) True link_limit [] (parts p) = Inr loc
    \<and> \<not> symlink_component (put_node loc (File c) fs) (parts p)"
proof -
  let ?fs = "put_node loc (File c) fs"
  let ?d = "normal [] (butlast (parts p))"
  obtain ps x where p: "parts p = ps @ [x]"
    using assms(1) by (metis append_butlast_last_id manifest_path_Inr)
  have ok: "walk fs True link_limit [] ps = Inr ?d" "plain fs [] ps" "x \<noteq> dotdot"
    using manifest_location [OF assms(1)] p by auto
  have loc: "loc = ?d @ [x]" by (simp add: loc_def p)
  have look: "lookup ?fs loc = Some (File c)" by (simp add: loc lookup_def put_node_def)
  have "plain ?fs [] (ps @ [x])"
    using plain_put_file [OF ok(2), of loc c] look p ok(3)
    by (simp add: plain_append is_link_at_def loc)
  moreover have "walk ?fs True link_limit [] (ps @ [x]) = Inr loc"
    using walk_put_file [OF ok(2,1), of loc c] walk_plain_snoc [OF plain_put_file [OF ok(2)]] look ok(3)
    by (simp add: walk_Cons_plain is_link_at_def loc)
  ultimately show ?thesis using plain_no_symlink p by simp
qed

lemma written_fs_wf:
  assumes "fs_wf fs" and "manifest_path fs p = Inr q"
  shows "fs_wf (put_node (normal [] (butlast (parts p)) @ [last (parts p)]) (File c) fs)"
proof -
  let ?d = "normal [] (butlast (parts p))" and ?x = "last (parts p)"
  have ok: "lookup fs ?d = Some Dir" "?x \<noteq> dotdot"
    "lookup fs (?d @ [?x]) = None \<or> is_link_at fs (?d @ [?x])"
    using manifest_location [OF assms(2)] by auto
  show ?thesis
    unfolding fs_wf_def
  proof (intro allI impI)
    fix q y
    assume ex: "lookup (put_node (?d @ [?x]) (File c) fs) (q @ [y]) \<noteq> None"
    show "lookup (put_node (?d @ [?x]) (File c) fs) q = Some Dir \<and> y \<noteq> dotdot"
    proof (cases "q @ [y] = ?d @ [?x]")
      case True
      then show ?thesis using ok by (auto simp: lookup_def put_node_def)
    next
      case False
      then have old: "lookup fs (q @ [y]) \<noteq> None" using ex by (auto simp: lookup_def put_node_def)
      then have "lookup fs q = Some Dir" "y \<noteq> dotdot" using assms(1) by (auto simp: fs_wf_def)
      moreover from this have "q \<noteq> ?d @ [?x]" using ok(3) by (auto simp: is_link_at_def)
      ultimately show ?thesis by (auto simp: lookup_def put_node_def)
    qed
  qed
qed

lemma service_re_ident: "ident_ok v \<Longrightarrow> fullmatch ROLLBACK_SERVICE_RE v"
proof -
  have "service_tail = ident_tail" by (auto simp: service_tail_def ident_tail_def)
  then show "ident_ok v \<Longrightarrow> ?thesis"
    by (simp add: ROLLBACK_SERVICE_RE_def fullmatch_anchored fullmatch_ident ident_ok_def)
qed

text \<open>What the payload of an approved delivery says\<close>

lemma payload_of_ready:
  assumes "manifest_payload now spec = Inr payload" and "dr_ready (mf_result spec)"
    and "parse_request (json_of_dict (dr_request (mf_result spec))) = Inr rq"
  shows "jget ''schema_version'' payload = JInt 1 \<and> jget ''status'' payload = JStr ''success''
    \<and> jget ''ready'' payload = JBool True \<and> jget ''failure_reason'' payload = JNull
    \<and> jget ''sync'' payload = sync_json (dr_sync (mf_result spec))
    \<and> (\<forall>f \<in> set MANIFEST_REQUEST_FIELDS. jget f payload = JStr (row_get f (canonicalize_request rq)))
    \<and> dr_head_sha (mf_result spec) = rq_candidate_sha rq"
proof -
  have v: "\<exists>ev. validate_result (mf_result spec) = Inr (canonicalize_request rq, ev)"
    "dr_failure_reason (mf_result spec) = None" "dr_head_sha (mf_result spec) = rq_candidate_sha rq"
    using assms by (auto simp: manifest_payload_def validate_result_def Let_def res_simps)
  then show ?thesis
    using assms(1,2)
    by (auto simp: manifest_payload_def Let_def res_simps optional_scalar_def MANIFEST_REQUEST_FIELDS_def)
qed

section \<open>Properties\<close>

text \<open>
  C20: A rollback plan rests on approved evidence and on nothing else. Its record is a regular
  file strictly below the declared root, reached without links, that says the delivery was
  successful, ready and without failure; its snapshot is a regular file directly in the
  snapshot root whose name that record gives, with the flags that the delivery changed the
  deployment, took the snapshot and wrote; the plan's service and commit are those of a valid
  request in the record, and the confirmation names exactly that service and that commit.
\<close>
theorem rollback_plan_authorised:
  assumes "build_rollback_plan loads fs spec = Inr plan" and "fs_wf fs"
  shows "\<exists>mroot sroot content payload sync n rq.
      existing_root fs (rb_manifest_root spec) ''manifest root'' = Inr mroot
      \<and> strict_prefix mroot (rp_manifest_path plan)
      \<and> lookup fs (rp_manifest_path plan) = Some (File content) \<and> loads content = Inr (JObj payload)
      \<and> jget ''status'' payload = JStr ''success'' \<and> jget ''ready'' payload = JBool True
      \<and> jget ''failure_reason'' payload = JNull
      \<and> request_from_manifest payload = Inr rq \<and> request_ok rq
      \<and> rp_service plan = rq_service rq \<and> rp_candidate_sha plan = rq_candidate_sha rq
      \<and> rb_service spec = rp_service plan \<and> rb_confirmation spec = rollback_confirmation_for plan
      \<and> existing_root fs (rb_snapshot_root spec) ''snapshot root'' = Inr sroot
      \<and> rp_snapshot_path plan = sroot @ [n] \<and> (\<exists>c. lookup fs (sroot @ [n]) = Some (File c))
      \<and> jget ''sync'' payload = JObj sync \<and> jget ''snapshot_name'' sync = JStr n
      \<and> list_all (\<lambda>f. jget f sync = JBool True) SNAPSHOT_FLAGS"
proof -
  obtain mroot sroot mpath payload rq spath where
    roots: "existing_root fs (rb_manifest_root spec) ''manifest root'' = Inr mroot"
      "existing_root fs (rb_snapshot_root spec) ''snapshot root'' = Inr sroot" and
    mpath: "file_below ''manifest path'' fs (rb_manifest_path spec) mroot = Inr mpath" and
    payload: "load_manifest loads fs mpath = Inr payload" and
    rq: "request_from_manifest payload = Inr rq" "rq_service rq = rb_service spec"
      "rb_confirmation spec = rollback_confirmation (rq_service rq) (rq_candidate_sha rq)" and
    spath: "snapshot_from_manifest fs payload sroot = Inr spath" and
    plan: "rp_service plan = rq_service rq" "rp_candidate_sha plan = rq_candidate_sha rq"
      "rp_manifest_path plan = mpath" "rp_snapshot_path plan = spath"
    using assms(1) by (auto simp: build_rollback_plan_def res_simps)
  have settled: "settled fs sroot" "settled fs mpath"
    using roots mpath resolve_settled [OF assms(2)] by (auto simp: existing_root_Inr file_below_Inr)
  have "request_ok rq"
    using rq(1) parse_request_ok by (auto simp: request_from_manifest_def except_raise_eq_Inr)
  moreover obtain c where "read_file fs mpath = Inr c" "loads c = Inr (JObj payload)"
    using payload by (auto simp: load_manifest_Inr)
  moreover from this have "lookup fs mpath = Some (File c)"
    using settled_read [OF assms(2) settled(2)] by simp
  moreover note snapshot_from_manifest_Inr [OF spath assms(2) settled(1)]
  ultimately show ?thesis
    using roots rq plan payload rollback_file.below [OF mpath]
    by (simp add: load_manifest_Inr rollback_confirmation_for_def) blast
qed

text \<open>
  C19: Delivery records and rollbacks fit together. If a ready delivery that took its snapshot
  \<open>n\<close> was recorded, and \<open>json.loads\<close> reads back what \<open>json.dumps\<close> wrote for this record, then
  a rollback that names the record, its service and its commit, below roots that resolve and
  with the snapshot still there, is planned, and the plan is for the recorded request, record
  and snapshot.
\<close>
theorem record_then_rollback:
  assumes written: "write_delivery_manifest dumps write_fails now spec w = (Inr p, w')"
    and wf: "fs_wf (w_fs w)"
    and payload: "manifest_payload now spec = Inr payload"
    and json: "loads (dumps (JObj payload) @ [LF]) = Inr (sort_keys (JObj payload))"
    and ready: "dr_ready (mf_result spec)"
    and rq: "parse_request (json_of_dict (dr_request (mf_result spec))) = Inr rq"
    and sync: "dr_sync (mf_result spec) = Some s" "sr_changed s" "sr_snapshot_created s" "sr_synced s"
      "sr_snapshot_name s = Some n" "fullmatch SNAPSHOT_NAME_RE n"
    and rb: "rb_manifest_path rb = p" "rb_service rb = rq_service rq"
      "rb_confirmation rb = rollback_confirmation (rq_service rq) (rq_candidate_sha rq)"
      "single_line ''operator'' (rb_operator rb) = Inr (rb_operator rb)"
      "single_line ''reason'' (rb_reason rb) = Inr (rb_reason rb)"
    and roots: "existing_root (w_fs w') (rb_manifest_root rb) ''manifest root'' = Inr mroot"
      "prefix mroot (normal [] (butlast (parts p)))"
      "existing_root (w_fs w') (rb_snapshot_root rb) ''snapshot root'' = Inr sroot"
    and snapshot: "lookup (w_fs w') (sroot @ [n]) = Some (File c)"
  shows "\<exists>plan. build_rollback_plan loads (w_fs w') rb = Inr plan
    \<and> rp_service plan = rq_service rq \<and> rp_candidate_sha plan = dr_head_sha (mf_result spec)
    \<and> rp_repository plan = rq_repository rq \<and> rp_compose_file plan = rq_compose_file rq
    \<and> rp_manifest_path plan = normal [] (butlast (parts p)) @ [last (parts p)]
    \<and> rp_snapshot_path plan = sroot @ [n]"
proof -
  let ?d = "normal [] (butlast (parts p))"
  let ?loc = "?d @ [last (parts p)]"
  have mp: "manifest_path (w_fs w) p = Inr p" and p: "p = mf_path spec"
    and fs': "w_fs w' = put_node ?loc (File (dumps (JObj payload) @ [LF])) (w_fs w)"
  proof -
    obtain d where "manifest_path (w_fs w) (mf_path spec) = Inr p"
      "walk (w_fs w) True link_limit [] (butlast (parts p)) = Inr d"
      "w_fs w' = put_node (d @ [last (parts p)]) (File (dumps (JObj payload) @ [LF])) (w_fs w)"
      using written payload
      by (auto simp: write_delivery_manifest_def bindW_eq_Inr write_atomic_def split: sum.splits if_splits)
    moreover from this have "p = mf_path spec" by (simp add: manifest_path_Inr)
    moreover from calculation have "d = ?d" using manifest_location [of "w_fs w" p p] by auto
    ultimately show "manifest_path (w_fs w) p = Inr p" "p = mf_path spec"
      "w_fs w' = put_node ?loc (File (dumps (JObj payload) @ [LF])) (w_fs w)" by simp_all
  qed
  have wf': "fs_wf (w_fs w')" unfolding fs' by (rule written_fs_wf [OF wf mp])
  have at: "walk (w_fs w') True link_limit [] (parts p) = Inr ?loc"
      "\<not> symlink_component (w_fs w') (parts p)" "is_abs p"
    using written_location [OF mp] mp by (simp_all add: fs' manifest_path_Inr)
  have look: "lookup (w_fs w') ?loc = Some (File (dumps (JObj payload) @ [LF]))"
    by (simp add: fs' lookup_def put_node_def)
  then have settled: "settled (w_fs w') ?loc" by (simp add: settled_def is_link_at_def)
  have "strict_prefix mroot ?loc" using roots(2) by (auto simp: strict_prefix_def prefix_def)
  then have below: "file_below ''manifest path'' (w_fs w') (rb_manifest_path rb) mroot = Inr ?loc"
    using at look settled_is_file [OF wf' settled] settled_not_symlink [OF wf' settled] rb(1)
    by (simp add: file_below_Inr resolve_def absolute_def)
  define d where "d = sort_key fst (map (\<lambda>(k, v). (k, sort_keys v)) payload)"
  have fields: "jget k d = sort_keys (jget k payload)" for k by (simp add: d_def jget_sort_keys)
  note said = payload_of_ready [OF payload ready rq]
  have load: "load_manifest loads (w_fs w') ?loc = Inr d"
    using settled_read [OF wf' settled] look json said by (simp add: load_manifest_Inr fields d_def [symmetric])
  have ok: "request_ok rq" by (rule parse_request_ok [OF rq])
  have request: "request_from_manifest d = Inr (rq\<lparr>rq_reason := None\<rparr>)"
    using said by (intro request_from_written [OF ok]) (auto simp: fields)
  have "settled (w_fs w') sroot"
    using roots(3) resolve_settled [OF wf'] by (auto simp: existing_root_Inr)
  then have plain: "plain (w_fs w') [] sroot" "normal [] sroot = sroot"
    using settled_plain [OF wf'] by auto
  have "settled (w_fs w') (sroot @ [n])" using snapshot by (simp add: settled_def is_link_at_def)
  note sn = this settled_walk [OF wf' this] settled_plain [OF wf' this]
  have "snapshot_from_manifest (w_fs w') d sroot = Inr (sroot @ [n])"
    using said sync sn plain_no_symlink [of "w_fs w'" "sroot @ [n]"] live_symlink_strict [OF sn(2)]
      settled_is_file [OF wf' sn(1)] settled_not_symlink [OF wf' sn(1)] snapshot
    by (simp add: snapshot_from_manifest_def fields sync_json_def SNAPSHOT_FLAGS_def rollback_resolve_def
        resolve_def absolute_def regular_below_def in_parents_def strict_prefix_def)
  then show ?thesis
    using rb roots below load request ok said service_re_ident [of "rq_service rq"]
    by (simp add: build_rollback_plan_def request_ok_def)
qed

section \<open>A record and its rollback\<close>

definition demo_rollback_fs :: fsys where
  "demo_rollback_fs = put_node [''dst'', ''m.json''] (File (''{}'' @ [LF])) (w_fs demo_after)"

definition demo_rollback :: rollback_spec where
  "demo_rollback = \<lparr>rb_manifest_path = Path True [''dst'', ''m.json''],
     rb_manifest_root = Path True [''dst''], rb_snapshot_root = Path True [''snap''],
     rb_service = ''shop-api'',
     rb_confirmation = rollback_confirmation ''shop-api'' (replicate 40 CHR ''a''),
     rb_operator = ''ann'', rb_reason = ''bad''\<rparr>"

lemma demo_single_lines: "single_line n ''ann'' = Inr ''ann''" "single_line n ''bad'' = Inr ''bad''"
proof -
  have "min_len SECRET_LIKE_RE = 6" "py_strip ''ann'' = ''ann''" "py_strip ''bad'' = ''bad''" by code_simp+
  then show "single_line n ''ann'' = Inr ''ann''" "single_line n ''bad'' = Inr ''bad''"
    using short_no_search [of "''ann''" SECRET_LIKE_RE] short_no_search [of "''bad''" SECRET_LIKE_RE]
    by (simp_all add: single_line_Inr LF_def CR_def)
qed

lemma demo_snapshot_name: "fullmatch SNAPSHOT_NAME_RE ''a.tar.gz''"
  by code_simp

lemma demo_roots:
  "existing_root demo_rollback_fs (Path True [''dst'']) l = Inr [''dst'']"
  "existing_root demo_rollback_fs (Path True [''snap'']) l = Inr [''snap'']"
  "file_below l demo_rollback_fs (Path True [''dst'', ''m.json'']) [''dst''] = Inr [''dst'', ''m.json'']"
  "rollback_resolve demo_rollback_fs (Path True [''snap'', ''a.tar.gz'']) l = Inr [''snap'', ''a.tar.gz'']"
  "regular_below demo_rollback_fs [''snap'', ''a.tar.gz''] [''snap''] l = Inr [''snap'', ''a.tar.gz'']"
  "read_file demo_rollback_fs [''dst'', ''m.json''] = Inr (''{}'' @ [LF])"
  unfolding demo_rollback_fs_def demo_after_def demo_fs_def by code_simp+

definition demo_snap_result :: delivery_result where
  "demo_snap_result = delivery_outcome sample_request demo_co_result
      (Some (changed_result 1 (Some ''a.tar.gz'')))
      (decide [''compose''] [named_row (gate_report ''compose'' ''passed'')])
      (Some (decide [''health''] [named_row (gate_report ''health'' ''passed'')]))"

definition demo_snap_manifest :: manifest_spec where
  "demo_snap_manifest = demo_manifest\<lparr>mf_result := demo_snap_result, mf_path := Path True [''dst'', ''m.json'']\<rparr>"

lemma demo_snap_ready: "dr_ready demo_snap_result" "dr_failure_reason demo_snap_result = None"
  using gate_report_pass [of "''compose''"] gate_report_pass [of "''health''"]
  by (auto simp: demo_snap_result_def delivery_outcome_def decide_reason)

lemma demo_snap_payload: "\<exists>payload. manifest_payload now demo_snap_manifest = Inr payload"
proof -
  have ev: "mapE check_row (evidence (decide [n] [named_row (gate_report n ''passed'')]))
      = Inr (evidence (decide [n] [named_row (gate_report n ''passed'')]))"
    if "n \<in> set KNOWN_GATES" for n
    using that gate_report_ok [OF that, of "''passed''"]
    by (intro evidence_recordable [of "[gate_report n ''passed'']" "[n]"])
      (simp add: evaluate_Inr validate_required_Inr validate_gate_name_iff ALLOWED_STATUSES_def gate_report_def)
  have "validate_sync_result (changed_result 1 (Some ''a.tar.gz''))
      = Inr (changed_result 1 (Some ''a.tar.gz''))"
    using demo_snapshot_name by (simp add: validate_sync_result_Inr changed_result_def)
  then have "validate_result demo_snap_result = bindE (Inr [])
      (\<lambda>_. Inr (dr_request demo_snap_result, dr_evidence demo_snap_result))"
    using demo_snap_ready demo_known ev
    by (subst validate_outcome [OF sample_request_ok _ _ _ _ _ _ demo_snap_result_def])
      (simp_all add: demo_co_result_def)
  then show ?thesis
    by (simp add: manifest_payload_def demo_snap_manifest_def demo_manifest_def timestamp_def
        short_manifest_scalar LF_def CR_def optional_scalar_def demo_snap_ready Let_def)
qed

definition demo_loads :: "string \<Rightarrow> json result" where
  "demo_loads c = bindE (manifest_payload (demo_time 1) demo_snap_manifest) (\<lambda>d. Inr (sort_keys (JObj d)))"

lemma demo_snap_written:
  "\<exists>w'. write_delivery_manifest (\<lambda>_. ''{}'') (\<lambda>_. False) (demo_time 1) demo_snap_manifest demo_after
     = (Inr (Path True [''dst'', ''m.json'']), w') \<and> w_fs w' = demo_rollback_fs"
proof -
  have "manifest_path (w_fs demo_after) (Path True [''dst'', ''m.json'']) = Inr (Path True [''dst'', ''m.json''])"
    "walk (w_fs demo_after) True link_limit [] [''dst''] = Inr [''dst'']"
    unfolding demo_after_def demo_fs_def by code_simp+
  moreover have "mf_path demo_snap_manifest = Path True [''dst'', ''m.json'']"
    by (simp add: demo_snap_manifest_def)
  ultimately show ?thesis
    using demo_snap_payload [of "demo_time 1"]
    by (auto simp: write_delivery_manifest_def bindW_def write_atomic_def demo_rollback_fs_def)
qed

lemma demo_after_wf: "fs_wf (w_fs demo_after)"
proof -
  have "manifest_path demo_fs (Path True [''snap'', ''a.tar.gz'']) = Inr (Path True [''snap'', ''a.tar.gz''])"
    by code_simp
  from written_fs_wf [OF demo_fs_wf this, of "[]"] show ?thesis
    by (simp add: demo_after_def dotdot_def)
qed

lemma demo_facts:
  "parse_request (json_of_dict (dr_request (mf_result demo_snap_manifest))) = Inr sample_request"
  "dr_ready (mf_result demo_snap_manifest)"
  "dr_sync (mf_result demo_snap_manifest) = Some (changed_result 1 (Some ''a.tar.gz''))"
  using demo_snap_ready sample_request_parses
  by (simp_all add: demo_snap_manifest_def demo_snap_result_def delivery_outcome_def)

theorem record_then_rollback_witness:
  "\<exists>plan. build_rollback_plan demo_loads demo_rollback_fs demo_rollback = Inr plan
     \<and> rp_snapshot_path plan = [''snap'', ''a.tar.gz'']"
proof -
  obtain w' where w: "write_delivery_manifest (\<lambda>_. ''{}'') (\<lambda>_. False) (demo_time 1) demo_snap_manifest demo_after
      = (Inr (Path True [''dst'', ''m.json'']), w')" "w_fs w' = demo_rollback_fs"
    using demo_snap_written by blast
  obtain payload where pl: "manifest_payload (demo_time 1) demo_snap_manifest = Inr payload"
    using demo_snap_payload by blast
  have "demo_loads c = Inr (sort_keys (JObj payload))" for c by (simp add: demo_loads_def pl [simplified])
  moreover have "lookup (w_fs w') ([''snap''] @ [''a.tar.gz'']) = Some (File [])"
    by (simp add: w(2) demo_rollback_fs_def demo_after_def lookup_def put_node_def)
  ultimately show ?thesis
    using record_then_rollback [OF w(1) demo_after_wf pl _ demo_facts(2,1,3), of demo_loads
        "''a.tar.gz''" demo_rollback "[''dst'']" "[''snap'']" "[]"]
      demo_roots demo_single_lines demo_snapshot_name
    by (simp add: w(2) demo_rollback_def changed_result_def dotdot_def) blast
qed

text \<open>The same rollback from a record written by hand\<close>

definition demo_record :: jobj where
  "demo_record =
     [(''schema_version'', JInt 1), (''status'', JStr ''success''), (''ready'', JBool True)]
     @ map (\<lambda>(k, v). (k, JStr v)) (canonicalize_request sample_request)
     @ [(''sync'', sync_json (Some (changed_result 1 (Some ''a.tar.gz''))))]"

lemma demo_planned:
  "\<exists>plan. build_rollback_plan (\<lambda>_. Inr (JObj demo_record)) demo_rollback_fs demo_rollback = Inr plan"
proof -
  have "request_from_manifest demo_record = Inr (sample_request\<lparr>rq_reason := None\<rparr>)"
    by (rule request_from_written [OF sample_request_ok])
      (auto simp: MANIFEST_REQUEST_FIELDS_def demo_record_def canonicalize_request_def row_get_def
        sample_request_def)
  moreover have "load_manifest (\<lambda>_. Inr (JObj demo_record)) demo_rollback_fs [''dst'', ''m.json''] = Inr demo_record"
    using demo_roots(6)
    by (simp add: load_manifest_Inr demo_record_def canonicalize_request_def sample_request_def)
  moreover have "jget ''sync'' demo_record = sync_json (Some (changed_result 1 (Some ''a.tar.gz'')))"
    by (simp add: demo_record_def canonicalize_request_def sample_request_def)
  then have "snapshot_from_manifest demo_rollback_fs demo_record [''snap''] = Inr [''snap'', ''a.tar.gz'']"
    using demo_roots demo_snapshot_name
    by (simp add: snapshot_from_manifest_def sync_json_def changed_result_def SNAPSHOT_FLAGS_def)
  ultimately show ?thesis
    using demo_roots demo_single_lines service_re_ident sample_idents
    by (simp add: build_rollback_plan_def demo_rollback_def)
qed

lemma demo_rollback_wf: "fs_wf demo_rollback_fs"
proof -
  have "manifest_path (w_fs demo_after) (Path True [''dst'', ''m.json'']) = Inr (Path True [''dst'', ''m.json''])"
    unfolding demo_after_def demo_fs_def by code_simp
  from written_fs_wf [OF demo_after_wf this, of "''{}'' @ [LF]"] show ?thesis
    by (simp add: demo_rollback_fs_def dotdot_def)
qed

theorem rollback_plan_authorised_witness:
  "\<exists>plan. build_rollback_plan (\<lambda>_. Inr (JObj demo_record)) demo_rollback_fs demo_rollback = Inr plan
     \<and> rb_confirmation demo_rollback = rollback_confirmation_for plan"
  using demo_planned rollback_plan_authorised [OF _ demo_rollback_wf] by blast

end
