(* ===== verification/Remediation_Window.thy ===== *)
theory Remediation_Window
  imports Remediation_Lifecycle Security_Common
begin

text \<open>
  Governed remediation windows, \<open>scripts/security_gate/remediation_window.py\<close>: a reviewed
  policy names vulnerabilities that may stay unfixed until a deadline;
  \<open>evaluate_remediation_windows\<close> allows a release only if every blocking finding is covered
  by an active entry. Hashing, the text form of non-string JSON values and the wall clock are
  the fields of the environment \<open>win_env\<close>.
\<close>

section \<open>Environment and helpers\<close>

definition win_error :: "string \<Rightarrow> exc" where "win_error m = Exc RemediationWindowError m"

definition GIT_SHA :: rx where
  "GIT_SHA = Seq (fixed (replicate 40 hex_any)) Eos"

definition scope_tail :: "char \<Rightarrow> bool" where
  "scope_tail c \<longleftrightarrow> is_alnum c \<or> one_of ''._:/-'' c"

definition SERVICE_SCOPE :: rx where
  "SERVICE_SCOPE = Seq (Seq (Cls is_alnum) (upto_rep 127 (Cls scope_tail))) Eos"

definition ALLOWED_SEVERITIES :: "string list" where
  "ALLOWED_SEVERITIES = [''HIGH'', ''CRITICAL'']"

definition ALLOWED_CLASSIFICATION :: string where
  "ALLOWED_CLASSIFICATION = ''actionable_vulnerability''"

definition BLOCKED_CRITICAL_EXPOSURES :: "string list" where
  "BLOCKED_CRITICAL_EXPOSURES = [''internet-facing'', ''privileged-boundary'']"

definition ALLOWED_EXPOSURES :: "string list" where
  "ALLOWED_EXPOSURES = ''internal'' # BLOCKED_CRITICAL_EXPOSURES"

definition max_window_days :: "string \<Rightarrow> int" where
  "max_window_days severity = (if severity = ''CRITICAL'' then 7 else 30)"

definition DUE_SOON :: int where "DUE_SOON = timedelta_hours 72"

definition EVALUATOR_VERSION :: string where "EVALUATOR_VERSION = ''3''"

definition required_bool :: "string \<Rightarrow> jobj \<Rightarrow> string \<Rightarrow> bool result" where
  "required_bool label payload fld =
     (case jget fld payload of
        JBool b \<Rightarrow> Inr b
      | _ \<Rightarrow> Inl (win_error (label @ '' field '' @ fld @ '' must be boolean'')))"

abbreviation win_text :: "string \<Rightarrow> jobj \<Rightarrow> string \<Rightarrow> string result" where
  "win_text \<equiv> required_text RemediationWindowError"

fun digest_items :: "(json \<Rightarrow> string) \<Rightarrow> string \<Rightarrow> nat \<Rightarrow> json list \<Rightarrow> string list result" where
  "digest_items show label i [] = Inr []"
| "digest_items show label i (x # xs) =
     (let digest = py_lower (normal_text show x) in
      guardE (fullmatch SHA256_DIGEST digest)
        (win_error (label @ ''['' @ dec i @ ''] must be an immutable sha256 digest''))
        (bindE (digest_items show label (Suc i) xs) (\<lambda>ds. Inr (digest # ds))))"

definition normalize_digest_list :: "(json \<Rightarrow> string) \<Rightarrow> json \<Rightarrow> string \<Rightarrow> string list result" where
  "normalize_digest_list show raw label =
     (case raw of
        JArr (x # xs) \<Rightarrow>
          bindE (digest_items show label 0 (x # xs)) (\<lambda>values.
          guardE (distinct values) (win_error (label @ '' must not contain duplicate digests''))
            (Inr (sort values)))
      | _ \<Rightarrow> Inl (win_error (label @ '' must be a non-empty array'')))"

definition load_json :: "(string \<Rightarrow> json result) \<Rightarrow> fsys \<Rightarrow> string list \<Rightarrow> string \<Rightarrow> jobj result" where
  "load_json loads fs p label =
     load_object RemediationWindowError (label @ '' must be a regular non-symlink file'')
       (label @ '' must be valid UTF-8 JSON'') (label @ '' must be a JSON object'') loads fs p"

text \<open>\<open>resolve_policy_path\<close>: \<open>root\<close> is the workspace, resolved first.\<close>

definition resolve_policy_path :: "fsys \<Rightarrow> path \<Rightarrow> string \<Rightarrow> string list result" where
  "resolve_policy_path fs workspace relative_path =
     guardE (py_strip relative_path \<noteq> []) (win_error ''policy path is required'')
     (let candidate_path = parse_path (map (\<lambda>c. if c = backslash then CHR ''/'' else c)
            (py_strip relative_path)) in
      guardE (\<not> is_abs candidate_path \<and> \<not> List.member (parts candidate_path) dotdot)
        (win_error ''policy path must be repository-relative without traversal'')
     (bindE (resolve fs True workspace) (\<lambda>base.
      guardE (\<not> list_ex (\<lambda>q. is_symlink fs (base @ q)) (tl (prefixes (parts candidate_path))))
        (win_error ''policy path must not contain symlinks'')
     (bindE (walk fs True link_limit [] (base @ parts candidate_path)) (\<lambda>resolved.
      guardE (prefix base resolved) (win_error ''policy path escapes the trusted workspace'')
     (guardE (is_file fs resolved \<and> \<not> is_symlink fs resolved)
        (win_error ''policy must be a regular non-symlink file'') (Inr resolved)))))))"

definition validate_remediation_context :: "json \<Rightarrow> json \<Rightarrow> (string \<times> string) result" where
  "validate_remediation_context service_scope exposure_criticality =
     (case service_scope of
        JStr sc \<Rightarrow>
          guardE (fullmatch SERVICE_SCOPE (py_strip sc))
            (win_error ''service_scope must be a bounded safe identifier'')
          (case exposure_criticality of
             JStr ex \<Rightarrow>
               guardE (List.member ALLOWED_EXPOSURES (py_lower (py_strip ex)))
                 (win_error ''exposure_criticality is not a supported risk class'')
                 (Inr (py_strip sc, py_lower (py_strip ex)))
           | _ \<Rightarrow> Inl (win_error ''exposure_criticality must be text''))
      | _ \<Rightarrow> Inl (win_error ''service_scope must be text''))"

section \<open>Fingerprints\<close>

record fingerprint =
  fp_service :: string
  fp_advisory_id :: string
  fp_package_purl :: string
  fp_installed_version :: string
  fp_fixed_version :: string
  fp_lineage :: "string list"

definition canonical_fingerprint :: "(json \<Rightarrow> string) \<Rightarrow> string \<Rightarrow> jobj \<Rightarrow> fingerprint result" where
  "canonical_fingerprint show label raw =
     bindE (win_text label raw ''service'') (\<lambda>service.
     bindE (win_text label raw ''advisory_id'') (\<lambda>advisory_id.
     bindE (win_text label raw ''package_purl'') (\<lambda>package_purl.
     bindE (win_text label raw ''installed_version'') (\<lambda>installed_version.
     bindE (win_text label raw ''fixed_version'') (\<lambda>fixed_version.
     bindE (normalize_digest_list show (jget ''image_lineage_digests'' raw)
              (label @ ''.image_lineage_digests'')) (\<lambda>lineage.
       Inr \<lparr>fp_service = service, fp_advisory_id = advisory_id, fp_package_purl = package_purl,
            fp_installed_version = installed_version, fp_fixed_version = fixed_version,
            fp_lineage = lineage\<rparr>))))))"

section \<open>Observations\<close>

record observation =
  ob_fingerprint :: fingerprint
  ob_service_scope :: string
  ob_classification :: string
  ob_severity :: string
  ob_exposure :: string
  ob_known_exploited :: bool
  ob_fixed_image_verified :: bool
  ob_source_sha :: string
  ob_image_identity :: string

definition canonical_observation :: "(json \<Rightarrow> string) \<Rightarrow> nat \<Rightarrow> jobj \<Rightarrow> observation result" where
  "canonical_observation show index raw =
     (let label = ''observations['' @ dec index @ '']''; text = win_text label raw in
      bindE (text ''service_scope'') (\<lambda>scope_text.
      bindE (text ''exposure_criticality'') (\<lambda>exposure_text.
      bindE (validate_remediation_context (JStr scope_text) (JStr exposure_text))
        (\<lambda>(service_scope, exposure).
      bindE (text ''advisory_id'') (\<lambda>advisory_id.
      bindE (text ''package_purl'') (\<lambda>package_purl.
      bindE (text ''installed_version'') (\<lambda>installed_version.
      bindE (text ''fixed_version'') (\<lambda>fixed_version.
      bindE (canonical_fingerprint show label
               [(''service'', JStr service_scope), (''advisory_id'', JStr advisory_id),
                (''package_purl'', JStr package_purl),
                (''installed_version'', JStr installed_version),
                (''fixed_version'', JStr fixed_version),
                (''image_lineage_digests'', jget ''image_lineage_digests'' raw)]) (\<lambda>fingerprint.
      bindE (text ''classification'') (\<lambda>classification.
      bindE (text ''severity'') (\<lambda>severity_text.
      bindE (text ''source_sha'') (\<lambda>sha_text.
      bindE (text ''image_identity'') (\<lambda>image_text.
      let severity = py_upper severity_text; source_sha = py_lower sha_text;
          image_identity = py_lower image_text in
      guardE (fullmatch GIT_SHA source_sha)
        (win_error (label @ ''.source_sha must be a 40-character git SHA''))
     (guardE (fullmatch SHA256_DIGEST image_identity)
        (win_error (label @ ''.image_identity must be an immutable sha256 digest''))
     (guardE (List.member ALLOWED_SEVERITIES severity)
        (win_error (label @ ''.severity must be HIGH or CRITICAL''))
     (bindE (required_bool label raw ''known_exploited'') (\<lambda>known_exploited.
      bindE (required_bool label raw ''fixed_image_verified'') (\<lambda>fixed_image_verified.
        Inr \<lparr>ob_fingerprint = fingerprint, ob_service_scope = fp_service fingerprint,
             ob_classification = classification, ob_severity = severity, ob_exposure = exposure,
             ob_known_exploited = known_exploited, ob_fixed_image_verified = fixed_image_verified,
             ob_source_sha = source_sha, ob_image_identity = image_identity\<rparr>))))))))))))))))))"

section \<open>The policy\<close>

record policy_entry =
  pe_id :: string
  pe_fingerprint :: fingerprint
  pe_reason :: string
  pe_first_seen :: string
  pe_original_deadline :: string
  pe_deadline :: string
  pe_owner :: string
  pe_reviewer :: string
  pe_statement :: string
  pe_compensating_control :: string
  pe_reviewed_at :: string
  pe_reviewed_by :: string
  pe_status :: string
  pe_history :: "revision list"
  pe_revision_count :: nat

record policy =
  po_owner :: string
  po_entries :: "policy_entry list"
  po_digest :: string

text \<open>\<open>except RemediationLifecycleError as exc: raise RemediationWindowError(str(exc))\<close>\<close>

definition as_window_error :: "'a result \<Rightarrow> 'a result" where
  "as_window_error m =
     (case m of
        Inl e \<Rightarrow> Inl (if exc_cls e = RemediationLifecycleError then win_error (exc_msg e) else e)
      | Inr x \<Rightarrow> Inr x)"

text \<open>One round of the loop over the entries; \<open>seen_ids\<close> and \<open>seen\<close> are its two sets.\<close>

definition load_entry ::
    "(json \<Rightarrow> string) \<Rightarrow> datetime \<Rightarrow> string \<Rightarrow> string list \<Rightarrow> fingerprint list \<Rightarrow> jobj \<Rightarrow> policy_entry result" where
  "load_entry show reference label seen_ids seen raw =
     bindE (win_text label raw ''id'') (\<lambda>entry_id.
     guardE (\<not> List.member seen_ids entry_id) (win_error (''duplicate policy entry id '' @ entry_id))
     (bindE (case jget ''fingerprint'' raw of
               JObj f \<Rightarrow> canonical_fingerprint show (label @ ''.fingerprint'') f
             | _ \<Rightarrow> Inl (win_error (label @ ''.fingerprint must be an object''))) (\<lambda>fingerprint.
     guardE (\<not> List.member seen fingerprint) (win_error (''duplicate policy fingerprint at '' @ label))
     (bindE (time_field RemediationWindowError label raw ''first_seen_at'') (\<lambda>first_seen.
     bindE (time_field RemediationWindowError label raw ''deadline_at'') (\<lambda>deadline.
     bindE (time_field RemediationWindowError label raw ''reviewed_at'') (\<lambda>reviewed_at.
     guardE (instant first_seen \<le> instant reference)
       (win_error ''policy first_seen_at must not be in the future'')
     (guardE (instant reviewed_at \<le> instant reference)
       (win_error ''policy reviewed_at must not be in the future'')
     (guardE (instant first_seen < instant deadline)
       (win_error ''policy deadline_at must be after first_seen_at'')
     (bindE (as_window_error (normalize_lifecycle first_seen deadline reference raw)) (\<lambda>lifecycle.
     bindE (win_text label raw ''reason'') (\<lambda>reason.
     bindE (win_text label raw ''owner'') (\<lambda>owner.
     bindE (win_text label raw ''reviewer'') (\<lambda>reviewer.
     bindE (win_text label raw ''statement'') (\<lambda>statement.
     bindE (win_text label raw ''compensating_control'') (\<lambda>control.
     bindE (win_text label raw ''reviewed_by'') (\<lambda>reviewed_by.
       Inr \<lparr>pe_id = entry_id, pe_fingerprint = fingerprint, pe_reason = reason,
            pe_first_seen = format_utc first_seen,
            pe_original_deadline = lc_original_deadline lifecycle,
            pe_deadline = lc_effective_deadline lifecycle,
            pe_owner = owner, pe_reviewer = reviewer, pe_statement = statement,
            pe_compensating_control = control, pe_reviewed_at = format_utc reviewed_at,
            pe_reviewed_by = reviewed_by, pe_status = lc_status lifecycle,
            pe_history = lc_history lifecycle,
            pe_revision_count = lc_revision_count lifecycle\<rparr>)))))))))))))))))"

fun load_entries ::
    "(json \<Rightarrow> string) \<Rightarrow> datetime \<Rightarrow> nat \<Rightarrow> policy_entry list \<Rightarrow> json list \<Rightarrow> policy_entry list result" where
  "load_entries show reference i acc [] = Inr acc"
| "load_entries show reference i acc (JObj raw # raws) =
     bindE (load_entry show reference (''entries['' @ dec i @ '']'')
              (map pe_id acc) (map pe_fingerprint acc) raw)
       (\<lambda>entry. load_entries show reference (Suc i) (acc @ [entry]) raws)"
| "load_entries show reference i acc (_ # raws) =
     Inl (win_error (''policy entries['' @ dec i @ ''] must be an object''))"

record win_env =
  we_loads :: "string \<Rightarrow> json result"
  we_show :: "json \<Rightarrow> string"
  we_hash_file :: "string \<Rightarrow> string"
  we_hash_observation :: "observation \<Rightarrow> string"
  we_hash_raw :: "jobj \<Rightarrow> string"
  we_now :: datetime

definition load_policy :: "win_env \<Rightarrow> fsys \<Rightarrow> string list \<Rightarrow> string option \<Rightarrow> policy result" where
  "load_policy env fs p reference_time =
     bindE (load_json (we_loads env) fs p ''policy'') (\<lambda>payload.
     guardE (eq_int (jget ''version'' payload) 1) (win_error ''policy version must be 1'')
     (bindE (win_text ''policy'' payload ''policy_owner'') (\<lambda>owner.
     (case jget ''entries'' payload of
        JArr (x # xs) \<Rightarrow>
          bindE (case reference_time of
                   Some s \<Rightarrow> if s = [] then Inr (we_now env)
                             else parse_utc RemediationWindowError ''reference_time'' s
                 | None \<Rightarrow> Inr (we_now env)) (\<lambda>reference.
          bindE (load_entries (we_show env) reference 0 [] (x # xs)) (\<lambda>entries.
          bindE (read_file fs p) (\<lambda>bytes.
            Inr \<lparr>po_owner = owner, po_entries = entries, po_digest = we_hash_file env bytes\<rparr>)))
      | _ \<Rightarrow> Inl (win_error ''policy entries must be a non-empty array'')))))"

section \<open>Findings\<close>

record finding =
  fi_observation_digest :: string
  fi_advisory_id :: string
  fi_package_purl :: string
  fi_image_identity :: string
  fi_state :: string
  fi_failure_reason :: string
  fi_policy_entry_id :: string
  fi_policy_entry_status :: string
  fi_first_seen :: string
  fi_original_deadline :: string
  fi_deadline :: string
  fi_revision_count :: nat

definition finding_result ::
    "win_env \<Rightarrow> observation \<Rightarrow> string \<Rightarrow> string \<Rightarrow> policy_entry option \<Rightarrow> finding" where
  "finding_result env ob state failure_reason entry =
     \<lparr>fi_observation_digest = we_hash_observation env ob,
      fi_advisory_id = fp_advisory_id (ob_fingerprint ob),
      fi_package_purl = fp_package_purl (ob_fingerprint ob),
      fi_image_identity = ob_image_identity ob,
      fi_state = state, fi_failure_reason = failure_reason,
      fi_policy_entry_id = (case entry of Some e \<Rightarrow> pe_id e | None \<Rightarrow> []),
      fi_policy_entry_status = (case entry of Some e \<Rightarrow> pe_status e | None \<Rightarrow> []),
      fi_first_seen = (case entry of Some e \<Rightarrow> pe_first_seen e | None \<Rightarrow> []),
      fi_original_deadline = (case entry of Some e \<Rightarrow> pe_original_deadline e | None \<Rightarrow> []),
      fi_deadline = (case entry of Some e \<Rightarrow> pe_deadline e | None \<Rightarrow> []),
      fi_revision_count = (case entry of Some e \<Rightarrow> pe_revision_count e | None \<Rightarrow> 0)\<rparr>"

definition evaluate_one ::
    "win_env \<Rightarrow> (fingerprint \<times> policy_entry) list \<Rightarrow> datetime \<Rightarrow> observation \<Rightarrow> finding result" where
  "evaluate_one env by_fingerprint evaluation ob =
     (let no_entry = (\<lambda>state reason. Inr (finding_result env ob state reason None)) in
      if ob_classification ob \<noteq> ALLOWED_CLASSIFICATION
      then no_entry ''rejected'' ''classification_block''
      else if ob_known_exploited ob then no_entry ''rejected'' ''known_exploited''
      else if ob_fixed_image_verified ob then no_entry ''rejected'' ''fixed_image_available''
      else if ob_severity ob = ''CRITICAL'' \<and> List.member BLOCKED_CRITICAL_EXPOSURES (ob_exposure ob)
      then no_entry ''rejected'' ''critical_exposure_block''
      else
        (case map_of by_fingerprint (ob_fingerprint ob) of
           None \<Rightarrow> no_entry ''unmatched'' ''policy_entry_not_found''
         | Some entry \<Rightarrow>
             (let found = (\<lambda>state reason. Inr (finding_result env ob state reason (Some entry))) in
              if pe_status entry \<noteq> ''active'' then found ''reintroduced'' ''finding_reintroduced''
              else
                bindE (parse_utc RemediationWindowError ''policy.first_seen_at'' (pe_first_seen entry))
                  (\<lambda>first_seen.
                bindE (parse_utc RemediationWindowError ''policy.deadline_at'' (pe_deadline entry))
                  (\<lambda>deadline.
                if instant deadline - instant first_seen > timedelta_days (max_window_days (ob_severity ob))
                then found ''rejected'' ''window_limit_exceeded''
                else if instant evaluation > instant deadline then found ''overdue'' ''window_overdue''
                else if instant evaluation < instant first_seen
                then found ''rejected'' ''future_first_seen''
                else if instant deadline - instant evaluation \<le> DUE_SOON then found ''due_soon'' []
                else found ''active'' [])))))"

record window_result =
  wr_source_sha :: string
  wr_image_digest :: string
  wr_classification :: string
  wr_allowed :: bool
  wr_state :: string
  wr_decision :: string
  wr_blocking_total :: nat
  wr_covered :: nat
  wr_uncovered :: int
  wr_rejected :: nat
  wr_overdue :: nat
  wr_unmatched :: nat
  wr_reintroduced :: nat
  wr_due_soon :: nat
  wr_matching :: nat
  wr_nearest_deadline :: string
  wr_policy_digest :: string
  wr_evaluator_version :: string
  wr_failure_reason :: string
  wr_findings :: "finding list"

definition empty_result :: window_result where
  "empty_result = \<lparr>wr_source_sha = [], wr_image_digest = [], wr_classification = [],
     wr_allowed = False, wr_state = ''not_applicable'', wr_decision = ''not_applicable'',
     wr_blocking_total = 0, wr_covered = 0, wr_uncovered = 0, wr_rejected = 0, wr_overdue = 0,
     wr_unmatched = 0, wr_reintroduced = 0, wr_due_soon = 0, wr_matching = 0,
     wr_nearest_deadline = [], wr_policy_digest = [], wr_evaluator_version = EVALUATOR_VERSION,
     wr_failure_reason = [], wr_findings = []\<rparr>"

definition rejected_observation :: "win_env \<Rightarrow> jobj \<Rightarrow> string \<Rightarrow> finding" where
  "rejected_observation env raw reason =
     \<lparr>fi_observation_digest = we_hash_raw env raw,
      fi_advisory_id = normal_text (we_show env) (jget ''advisory_id'' raw),
      fi_package_purl = normal_text (we_show env) (jget ''package_purl'' raw),
      fi_image_identity = normal_text (we_show env) (jget ''image_identity'' raw),
      fi_state = ''rejected'', fi_failure_reason = reason,
      fi_policy_entry_id = [], fi_policy_entry_status = [], fi_first_seen = [],
      fi_original_deadline = [], fi_deadline = [], fi_revision_count = 0\<rparr>"

text \<open>
  The loop over the observations: the normalised ones, first occurrence only, and the
  findings for those that could not be normalised.
\<close>

fun normalize_observations ::
    "win_env \<Rightarrow> nat \<Rightarrow> observation list \<Rightarrow> finding list \<Rightarrow> jobj list
     \<Rightarrow> (observation list \<times> finding list) result" where
  "normalize_observations env i normalized rejected [] = Inr (normalized, rejected)"
| "normalize_observations env i normalized rejected (raw # raws) =
     (case canonical_observation (we_show env) i raw of
        Inl e \<Rightarrow>
          if exc_cls e = RemediationWindowError
          then normalize_observations env (Suc i) normalized
                 (rejected @ [rejected_observation env raw (exc_msg e)]) raws
          else Inl e
      | Inr ob \<Rightarrow>
          if List.member (map (\<lambda>o'. (ob_fingerprint o', ob_image_identity o')) normalized)
               (ob_fingerprint ob, ob_image_identity ob)
          then normalize_observations env (Suc i) normalized rejected raws
          else normalize_observations env (Suc i) (normalized @ [ob]) rejected raws)"

definition finding_order :: "finding \<Rightarrow> string list" where
  "finding_order f =
     [fi_image_identity f, fi_advisory_id f, fi_package_purl f, fi_observation_digest f]"

definition count_state :: "string list \<Rightarrow> finding list \<Rightarrow> nat" where
  "count_state states fs = length (filter (\<lambda>f. List.member states (fi_state f)) fs)"

definition min_string :: "string list \<Rightarrow> string" where
  "min_string ds = (case ds of [] \<Rightarrow> [] | x # xs \<Rightarrow> fold min xs x)"

text \<open>The counts, the decision and the state, from the sorted findings\<close>

definition summarize :: "nat \<Rightarrow> finding list \<Rightarrow> window_result \<Rightarrow> window_result" where
  "summarize blocking findings result =
     (let counted = result\<lparr>
        wr_findings := findings,
        wr_covered := count_state [''active'', ''due_soon''] findings,
        wr_rejected := count_state [''rejected''] findings,
        wr_overdue := count_state [''overdue''] findings,
        wr_unmatched := count_state [''unmatched''] findings,
        wr_reintroduced := count_state [''reintroduced''] findings,
        wr_due_soon := count_state [''due_soon''] findings,
        wr_matching := length (filter (\<lambda>f. fi_policy_entry_id f \<noteq> []) findings),
        wr_uncovered := int blocking - int (count_state [''active'', ''due_soon''] findings),
        wr_nearest_deadline := min_string (filter (\<lambda>d. d \<noteq> []) (map fi_deadline findings)),
        wr_classification := ALLOWED_CLASSIFICATION\<rparr> in
      if wr_uncovered counted = 0
      then counted\<lparr>wr_allowed := True, wr_decision := ''allowed_window'',
             wr_state := (if wr_due_soon counted \<noteq> 0 then ''due_soon'' else ''active'')\<rparr>
      else if wr_reintroduced counted \<noteq> 0
      then counted\<lparr>wr_decision := ''blocked'', wr_state := ''reintroduced'',
             wr_failure_reason := ''finding_reintroduced''\<rparr>
      else if wr_overdue counted \<noteq> 0
      then counted\<lparr>wr_decision := ''blocked'', wr_state := ''overdue'',
             wr_failure_reason := ''window_overdue''\<rparr>
      else if wr_rejected counted \<noteq> 0
      then counted\<lparr>wr_decision := ''blocked'', wr_state := ''blocked'',
             wr_failure_reason := ''window_rejected''\<rparr>
      else counted\<lparr>wr_decision := ''blocked'', wr_state := ''blocked'',
             wr_failure_reason := ''uncovered_blocking_findings''\<rparr>)"

definition optional_match :: "rx \<Rightarrow> string \<Rightarrow> string \<Rightarrow> string result" where
  "optional_match pattern message s =
     (if s = [] then Inr [] else guardE (fullmatch pattern (py_lower s)) (win_error message) (Inr (py_lower s)))"

definition evaluate_remediation_windows ::
    "win_env \<Rightarrow> fsys \<Rightarrow> string list option \<Rightarrow> jobj list \<Rightarrow> bool \<Rightarrow> string option \<Rightarrow> string \<Rightarrow> string
     \<Rightarrow> window_result result" where
  "evaluate_remediation_windows env fs policy_path observations enabled evaluation_time source_sha
     image_digest =
     (if \<not> enabled then Inr empty_result
      else case policy_path of
        None \<Rightarrow> Inl (win_error ''policy path is required when remediation windows are enabled'')
      | Some p \<Rightarrow>
          bindE (optional_match GIT_SHA ''source_sha must be a 40-character git SHA'' source_sha) (\<lambda>sha.
          bindE (optional_match SHA256_DIGEST ''image_digest must be a full immutable sha256 digest''
                   image_digest) (\<lambda>digest.
          bindE (case evaluation_time of
                   Some s \<Rightarrow> if s = [] then Inr (we_now env)
                             else parse_utc RemediationWindowError ''evaluation_time'' s
                 | None \<Rightarrow> Inr (we_now env)) (\<lambda>evaluation.
          bindE (load_policy env fs p (Some (format_utc evaluation))) (\<lambda>policy.
          bindE (normalize_observations env 0 [] [] observations) (\<lambda>(normalized, rejected).
          let blocking = length normalized + length rejected;
              result = empty_result\<lparr>wr_source_sha := sha, wr_image_digest := digest,
                         wr_policy_digest := po_digest policy, wr_blocking_total := blocking\<rparr>
          in if blocking = 0 then Inr result
             else
               bindE (mapE (evaluate_one env
                        (map (\<lambda>e. (pe_fingerprint e, e)) (po_entries policy)) evaluation) normalized)
                 (\<lambda>findings.
                   Inr (summarize blocking (sort_key finding_order (findings @ rejected)) result))))))))"

section \<open>What a loaded policy guarantees\<close>

definition entry_ok :: "datetime \<Rightarrow> policy_entry \<Rightarrow> bool" where
  "entry_ok reference e \<longleftrightarrow>
     (\<exists>fs dl. stored_time fs \<and> stored_time dl \<and> pe_first_seen e = format_utc fs
        \<and> pe_deadline e = format_utc dl \<and> instant fs \<le> instant reference \<and> instant fs < instant dl)"

lemma as_window_error_Inr [simp]: "as_window_error m = Inr x \<longleftrightarrow> m = Inr x"
  by (auto simp: as_window_error_def split: sum.splits)

lemma lifecycle_deadline:
  assumes "normalize_lifecycle first_seen deadline reference raw = Inr lc" and "stored_time deadline"
  shows "\<exists>d. stored_time d \<and> lc_effective_deadline lc = format_utc d \<and> instant deadline \<le> instant d"
proof -
  obtain tk t0 where n:
    "run (abs_track \<lparr>tk_deadline = deadline, tk_status = ''active'', tk_reviewed = t0\<rparr>)
       (map rv_action (lc_history lc)) (abs_track tk)"
    "lc_effective_deadline lc = format_utc (tk_deadline tk)" "stored_time (tk_deadline tk)"
    by (rule normalize_Inr [OF assms(1)]) (use assms(2) in blast)
  then show ?thesis using run_monotone [OF n(1)] by (auto simp: abs_track_def)
qed

lemma load_entry_Inr:
  assumes "load_entry sh reference label ids seen raw = Inr e"
  shows "entry_ok reference e \<and> pe_id e \<notin> set ids \<and> pe_fingerprint e \<notin> set seen"
proof -
  obtain fs dl lc where e: "stored_time fs" "stored_time dl" "instant fs \<le> instant reference"
    "instant fs < instant dl" "normalize_lifecycle fs dl reference raw = Inr lc"
    "pe_first_seen e = format_utc fs" "pe_deadline e = lc_effective_deadline lc"
    "pe_id e \<notin> set ids" "pe_fingerprint e \<notin> set seen"
    using assms unfolding load_entry_def
    by (auto simp: res_simps dest!: time_field_stored)
  then show ?thesis
    using lifecycle_deadline [OF e(5,2)] by (force simp: entry_ok_def)
qed

lemma load_entries_Inr:
  "load_entries sh reference i acc raws = Inr es \<Longrightarrow> list_all (entry_ok reference) acc \<Longrightarrow>
     distinct (map pe_id acc) \<Longrightarrow> distinct (map pe_fingerprint acc) \<Longrightarrow>
     list_all (entry_ok reference) es \<and> distinct (map pe_id es) \<and> distinct (map pe_fingerprint es)
     \<and> length es = length acc + length raws"
proof (induction sh reference i acc raws rule: load_entries.induct)
  case (2 sh reference i acc raw raws)
  then obtain e where e: "load_entry sh reference (''entries['' @ dec i @ '']'') (map pe_id acc)
      (map pe_fingerprint acc) raw = Inr e"
    "load_entries sh reference (Suc i) (acc @ [e]) raws = Inr es"
    by (auto simp: res_simps)
  from load_entry_Inr [OF e(1)] "2.IH" [OF e(1) e(2)] "2.prems"(2-4) show ?case by auto
qed auto

lemma load_policy_Inr:
  assumes "load_policy env fs p reference_time = Inr po"
  obtains reference where
    "reference_time = Some s \<Longrightarrow> s \<noteq> [] \<Longrightarrow> parse_rfc3339 s = Some reference"
    "list_all (entry_ok reference) (po_entries po)"
    "distinct (map pe_id (po_entries po))" "distinct (map pe_fingerprint (po_entries po))"
    "po_entries po \<noteq> []"
proof -
  obtain payload x xs reference where e: "load_json (we_loads env) fs p ''policy'' = Inr payload"
    "jget ''entries'' payload = JArr (x # xs)"
    "(case reference_time of
                   Some s \<Rightarrow> if s = [] then Inr (we_now env)
                             else parse_utc RemediationWindowError ''reference_time'' s
                 | None \<Rightarrow> Inr (we_now env)) = Inr reference"
    "load_entries (we_show env) reference 0 [] (x # xs) = Inr (po_entries po)"
  proof -
    from assms obtain payload owner where p: "load_json (we_loads env) fs p ''policy'' = Inr payload"
      and rest: "(case jget ''entries'' payload of
        JArr (x # xs) \<Rightarrow>
          bindE (case reference_time of
                   Some s \<Rightarrow> if s = [] then Inr (we_now env)
                             else parse_utc RemediationWindowError ''reference_time'' s
                 | None \<Rightarrow> Inr (we_now env)) (\<lambda>reference.
          bindE (load_entries (we_show env) reference 0 [] (x # xs)) (\<lambda>entries.
          bindE (read_file fs p) (\<lambda>bytes.
            Inr \<lparr>po_owner = owner, po_entries = entries, po_digest = we_hash_file env bytes\<rparr>)))
      | _ \<Rightarrow> Inl (win_error ''policy entries must be a non-empty array'')) = Inr po"
      unfolding load_policy_def bindE_eq_Inr guardE_eq_Inr by (elim exE conjE) blast
    from rest obtain xs where a: "jget ''entries'' payload = JArr xs" "xs \<noteq> []"
      by (cases "jget ''entries'' payload") (auto split: list.splits)
    then obtain y ys where "xs = y # ys" by (cases xs) auto
    with a rest p show ?thesis by (auto simp: bindE_eq_Inr intro: that)
  qed
  then show ?thesis
    using load_entries_Inr [OF e(4)]
    by (intro that [of reference]) (auto simp: parse_utc_def split: option.splits)
qed

section \<open>Coverage\<close>

text \<open>The abstract condition on one observation: a reviewed, active, running window covers it.\<close>

definition covered :: "policy_entry list \<Rightarrow> datetime \<Rightarrow> observation \<Rightarrow> bool" where
  "covered es now ob \<longleftrightarrow>
     ob_classification ob = ALLOWED_CLASSIFICATION
     \<and> \<not> ob_known_exploited ob \<and> \<not> ob_fixed_image_verified ob
     \<and> \<not> (ob_severity ob = ''CRITICAL'' \<and> ob_exposure ob \<in> set BLOCKED_CRITICAL_EXPOSURES)
     \<and> (\<exists>e \<in> set es. pe_fingerprint e = ob_fingerprint ob \<and> pe_status e = ''active''
          \<and> (\<exists>fs dl. stored_time fs \<and> stored_time dl
               \<and> pe_first_seen e = format_utc fs \<and> pe_deadline e = format_utc dl
               \<and> instant fs \<le> instant now \<and> instant now \<le> instant dl
               \<and> instant dl - instant fs \<le> timedelta_days (max_window_days (ob_severity ob))))"

lemma parse_utc_format: "stored_time t \<Longrightarrow> parse_utc cls label (format_utc t) = Inr t"
  by (simp add: parse_utc_def parse_format stored_time_def)

lemma format_stored_inject: "stored_time a \<Longrightarrow> stored_time b \<Longrightarrow> format_utc a = format_utc b \<longleftrightarrow> a = b"
  by (metis parse_format stored_time_def option.inject)

lemma map_of_fingerprint:
  assumes "distinct (map pe_fingerprint es)"
  shows "map_of (map (\<lambda>e. (pe_fingerprint e, e)) es) k = Some e \<longleftrightarrow> e \<in> set es \<and> pe_fingerprint e = k"
proof -
  have "distinct (map fst (map (\<lambda>e. (pe_fingerprint e, e)) es))"
    using assms by (simp add: o_def)
  from map_of_eq_Some_iff [OF this] show ?thesis by auto
qed

definition known_states :: "string set" where
  "known_states = {''active'', ''due_soon'', ''rejected'', ''overdue'', ''unmatched'', ''reintroduced''}"

lemma evaluate_one_covered:
  assumes "list_all (entry_ok reference) es" and "distinct (map pe_fingerprint es)"
  shows "\<exists>f. evaluate_one env (map (\<lambda>e. (pe_fingerprint e, e)) es) now ob = Inr f
    \<and> (fi_state f \<in> {''active'', ''due_soon''} \<longleftrightarrow> covered es now ob)
    \<and> fi_state f \<in> known_states"
proof (cases "ob_classification ob \<noteq> ALLOWED_CLASSIFICATION \<or> ob_known_exploited ob
    \<or> ob_fixed_image_verified ob
    \<or> (ob_severity ob = ''CRITICAL'' \<and> ob_exposure ob \<in> set BLOCKED_CRITICAL_EXPOSURES)")
  case True
  then show ?thesis
    by (auto simp: evaluate_one_def Let_def finding_result_def covered_def known_states_def)
next
  case False
  note free = this
  show ?thesis
  proof (cases "map_of (map (\<lambda>e. (pe_fingerprint e, e)) es) (ob_fingerprint ob)")
    case None
    then have "\<forall>e \<in> set es. pe_fingerprint e \<noteq> ob_fingerprint ob"
      using map_of_fingerprint [OF assms(2)] by (metis option.distinct(1))
    with None free show ?thesis
      by (auto simp: evaluate_one_def Let_def finding_result_def covered_def known_states_def)
  next
    case (Some e)
    then have e: "e \<in> set es" "pe_fingerprint e = ob_fingerprint ob"
      by (simp_all add: map_of_fingerprint [OF assms(2)])
    obtain first dl where st: "stored_time first" "stored_time dl" "pe_first_seen e = format_utc first"
      "pe_deadline e = format_utc dl"
      using assms(1) e(1) by (auto simp: list_all_iff entry_ok_def)
    have unique: "e' = e" if "e' \<in> set es" "pe_fingerprint e' = ob_fingerprint ob" for e'
      using that e assms(2) by (auto simp: distinct_map inj_on_def)
    have "covered es now ob \<longleftrightarrow> pe_status e = ''active'' \<and> instant first \<le> instant now
        \<and> instant now \<le> instant dl
        \<and> instant dl - instant first \<le> timedelta_days (max_window_days (ob_severity ob))"
      using free e unique st format_stored_inject unfolding covered_def by metis
    with Some free st show ?thesis
      by (auto simp: evaluate_one_def Let_def finding_result_def parse_utc_format known_states_def)
  qed
qed

section \<open>Normalisation\<close>

lemma raises_digest_items [raises]: "raises_only RemediationWindowError (digest_items sh label i xs)"
  by (induction sh label i xs rule: digest_items.induct) (auto simp: win_error_def intro!: raises)

lemma raises_normalize_digest_list [raises]:
  "raises_only RemediationWindowError (normalize_digest_list sh raw label)"
  by (auto simp: normalize_digest_list_def win_error_def simp del: digest_items.simps intro!: raises
      split: json.splits list.splits)

lemma raises_canonical_fingerprint [raises]:
  "raises_only RemediationWindowError (canonical_fingerprint sh label d)"
  unfolding canonical_fingerprint_def by (intro raises)

lemma raises_context [raises]: "raises_only RemediationWindowError (validate_remediation_context a b)"
  by (auto simp: validate_remediation_context_def win_error_def intro!: raises split: json.splits)

lemma raises_required_bool [raises]: "raises_only RemediationWindowError (required_bool label d fld)"
  by (auto simp: required_bool_def win_error_def intro!: raises split: json.splits)

lemma raises_canonical_observation:
  "raises_only RemediationWindowError (canonical_observation sh i raw)"
  unfolding canonical_observation_def by (intro raises) (simp_all add: win_error_def)

lemma normalize_observations_Inr:
  "\<exists>obs rej. normalize_observations env i normalized rejected raws = Inr (normalized @ obs, rejected @ rej)
     \<and> list_all (\<lambda>f. fi_state f = ''rejected'' \<and> fi_deadline f = []) rej
     \<and> length obs + length rej \<le> length raws
     \<and> (distinct (map (\<lambda>ob. (ob_fingerprint ob, ob_image_identity ob)) normalized) \<longrightarrow>
        distinct (map (\<lambda>ob. (ob_fingerprint ob, ob_image_identity ob)) (normalized @ obs)))"
proof (induction env i normalized rejected raws rule: normalize_observations.induct)
  case (1 env i normalized rejected)
  then show ?case by simp
next
  case (2 env i normalized rejected raw raws)
  let ?key = "\<lambda>ob. (ob_fingerprint ob, ob_image_identity ob)"
  let ?canonical = "canonical_observation (we_show env) i raw"
  show ?case
  proof (cases ?canonical)
    case (Inl e)
    then have cls: "exc_cls e = RemediationWindowError"
      using raises_canonical_observation raises_onlyD by blast
    let ?r = "rejected_observation env raw (exc_msg e)"
    from "2.IH"(1) [OF Inl cls] obtain obs rej where
      "normalize_observations env (Suc i) normalized (rejected @ [?r]) raws
         = Inr (normalized @ obs, (rejected @ [?r]) @ rej)"
      "list_all (\<lambda>f. fi_state f = ''rejected'' \<and> fi_deadline f = []) rej"
      "length obs + length rej \<le> length raws"
      "distinct (map ?key normalized) \<longrightarrow> distinct (map ?key (normalized @ obs))" by blast
    then show ?thesis
      using Inl cls by (intro exI [of _ obs] exI [of _ "?r # rej"]) (simp add: rejected_observation_def)
  next
    case (Inr ob)
    show ?thesis
    proof (cases "List.member (map ?key normalized) (?key ob)")
      case True
      from "2.IH"(2) [OF Inr True] obtain obs rej where
        "normalize_observations env (Suc i) normalized rejected raws = Inr (normalized @ obs, rejected @ rej)"
        "list_all (\<lambda>f. fi_state f = ''rejected'' \<and> fi_deadline f = []) rej"
        "length obs + length rej \<le> length raws"
        "distinct (map ?key normalized) \<longrightarrow> distinct (map ?key (normalized @ obs))" by blast
      then show ?thesis
        using Inr True by (intro exI [of _ obs] exI [of _ rej]) simp
    next
      case False
      from "2.IH"(3) [OF Inr False] obtain obs rej where
        "normalize_observations env (Suc i) (normalized @ [ob]) rejected raws
           = Inr ((normalized @ [ob]) @ obs, rejected @ rej)"
        "list_all (\<lambda>f. fi_state f = ''rejected'' \<and> fi_deadline f = []) rej"
        "length obs + length rej \<le> length raws"
        "distinct (map ?key (normalized @ [ob])) \<longrightarrow> distinct (map ?key ((normalized @ [ob]) @ obs))"
        by blast
      then show ?thesis
        using Inr False by (intro exI [of _ "ob # obs"] exI [of _ rej]) simp
    qed
  qed
qed

lemma normalize_all:
  obtains obs rej where "normalize_observations env 0 [] [] raws = Inr (obs, rej)"
    "list_all (\<lambda>f. fi_state f = ''rejected'' \<and> fi_deadline f = []) rej"
    "length obs + length rej \<le> length raws"
    "distinct (map (\<lambda>ob. (ob_fingerprint ob, ob_image_identity ob)) obs)"
  using normalize_observations_Inr [of env 0 "[]" "[]" raws] by auto

section \<open>The summary\<close>

lemma count_state_sort: "count_state st (sort_key k fs) = count_state st fs"
  by (simp add: count_state_def filter_sort)

lemma count_state_append: "count_state st (fs @ gs) = count_state st fs + count_state st gs"
  by (simp add: count_state_def)

lemma count_state_partition:
  "list_all (\<lambda>f. fi_state f \<in> known_states) fs \<Longrightarrow>
     length fs = count_state [''active'', ''due_soon''] fs + count_state [''rejected''] fs
       + count_state [''overdue''] fs + count_state [''unmatched''] fs + count_state [''reintroduced''] fs"
  by (induction fs) (auto simp: count_state_def known_states_def)

lemma count_state_all:
  "count_state st fs = length fs \<longleftrightarrow> list_all (\<lambda>f. fi_state f \<in> set st) fs"
proof (induction fs)
  case (Cons f fs)
  have "length (filter (\<lambda>f. fi_state f \<in> set st) fs) \<noteq> Suc (length fs)"
    using length_filter_le [of "\<lambda>f. fi_state f \<in> set st" fs] by linarith
  with Cons show ?case by (auto simp: count_state_def)
qed (simp add: count_state_def)

lemma summarize_fields:
  "wr_findings (summarize n fs r) = fs"
  "wr_blocking_total (summarize n fs r) = wr_blocking_total r"
  "wr_policy_digest (summarize n fs r) = wr_policy_digest r"
  "wr_covered (summarize n fs r) = count_state [''active'', ''due_soon''] fs"
  "wr_rejected (summarize n fs r) = count_state [''rejected''] fs"
  "wr_overdue (summarize n fs r) = count_state [''overdue''] fs"
  "wr_unmatched (summarize n fs r) = count_state [''unmatched''] fs"
  "wr_reintroduced (summarize n fs r) = count_state [''reintroduced''] fs"
  "wr_uncovered (summarize n fs r) = int n - int (count_state [''active'', ''due_soon''] fs)"
  "wr_nearest_deadline (summarize n fs r) = min_string (filter (\<lambda>d. d \<noteq> []) (map fi_deadline fs))"
  "wr_allowed (summarize n fs r) \<longleftrightarrow>
     count_state [''active'', ''due_soon''] fs = n \<or> wr_allowed r"
  by (auto simp: summarize_def Let_def)

lemma list_all2_covered:
  "list_all2 (\<lambda>ob f. (fi_state f \<in> {''active'', ''due_soon''} \<longleftrightarrow> P ob) \<and> fi_state f \<in> known_states) obs fs
   \<Longrightarrow> list_all (\<lambda>f. fi_state f \<in> known_states) fs
     \<and> (list_all (\<lambda>f. fi_state f \<in> {''active'', ''due_soon''}) fs \<longleftrightarrow> list_all P obs)"
  by (induction rule: list_all2_induct) auto

text \<open>What an evaluation with a loaded policy returns\<close>

lemma evaluate_windows_Inr:
  assumes "evaluate_remediation_windows env fs (Some p) raws True t sha dig = Inr r"
  obtains now policy obs rej findings where
    "load_policy env fs p (Some (format_utc now)) = Inr policy"
    "normalize_observations env 0 [] [] raws = Inr (obs, rej)"
    "list_all (\<lambda>f. fi_state f = ''rejected'' \<and> fi_deadline f = []) rej"
    "list_all2 (\<lambda>ob f. evaluate_one env (map (\<lambda>e. (pe_fingerprint e, e)) (po_entries policy)) now ob
       = Inr f) obs findings"
    "list_all2 (\<lambda>ob f. (fi_state f \<in> {''active'', ''due_soon''} \<longleftrightarrow> covered (po_entries policy) now ob)
       \<and> fi_state f \<in> known_states) obs findings"
    "wr_blocking_total r = length obs + length rej"
    "wr_policy_digest r = po_digest policy"
    "wr_allowed r \<longleftrightarrow> obs \<noteq> [] \<and> rej = [] \<and> list_all (covered (po_entries policy) now) obs"
    "wr_findings r = sort_key finding_order (findings @ rej)"
    "wr_covered r = count_state [''active'', ''due_soon''] (findings @ rej)"
    "wr_rejected r = count_state [''rejected''] (findings @ rej)"
    "wr_overdue r = count_state [''overdue''] (findings @ rej)"
    "wr_unmatched r = count_state [''unmatched''] (findings @ rej)"
    "wr_reintroduced r = count_state [''reintroduced''] (findings @ rej)"
    "wr_uncovered r = int (wr_blocking_total r) - int (wr_covered r)"
    "wr_nearest_deadline r = min_string (filter (\<lambda>d. d \<noteq> []) (map fi_deadline (wr_findings r)))"
proof -
  obtain obs rej where norm: "normalize_observations env 0 [] [] raws = Inr (obs, rej)"
    "list_all (\<lambda>f. fi_state f = ''rejected'' \<and> fi_deadline f = []) rej"
    by (rule normalize_all)
  from assms obtain a b now policy where pol: "load_policy env fs p (Some (format_utc now)) = Inr policy"
    and rest: "(let blocking = length obs + length rej;
              result = empty_result\<lparr>wr_source_sha := a, wr_image_digest := b,
                         wr_policy_digest := po_digest policy, wr_blocking_total := blocking\<rparr>
          in if blocking = 0 then Inr result
             else
               bindE (mapE (evaluate_one env
                        (map (\<lambda>e. (pe_fingerprint e, e)) (po_entries policy)) now) obs)
                 (\<lambda>findings.
                   Inr (summarize blocking (sort_key finding_order (findings @ rej)) result))) = Inr r"
    unfolding evaluate_remediation_windows_def
    by (simp add: norm(1) bindE_eq_Inr) blast
  let ?tab = "map (\<lambda>e. (pe_fingerprint e, e)) (po_entries policy)"
  obtain reference where ref: "list_all (entry_ok reference) (po_entries policy)"
    "distinct (map pe_fingerprint (po_entries policy))"
    by (rule load_policy_Inr [OF pol]) blast
  note one = evaluate_one_covered [OF ref, of env now]
  define fnd where "fnd = map (\<lambda>ob. projr (evaluate_one env ?tab now ob)) obs"
  have "evaluate_one env ?tab now ob = Inr (projr (evaluate_one env ?tab now ob))" for ob
    using one [of ob] by auto
  then have fnd: "list_all2 (\<lambda>ob f. evaluate_one env ?tab now ob = Inr f) obs fnd"
    by (simp add: fnd_def list_all2_map2 list_all2_same)
  then have cov: "list_all2 (\<lambda>ob f. (fi_state f \<in> {''active'', ''due_soon''} \<longleftrightarrow>
      covered (po_entries policy) now ob) \<and> fi_state f \<in> known_states) obs fnd"
  proof (rule list_all2_mono)
    fix ob f assume "evaluate_one env ?tab now ob = Inr f"
    then show "(fi_state f \<in> {''active'', ''due_soon''} \<longleftrightarrow> covered (po_entries policy) now ob)
        \<and> fi_state f \<in> known_states"
      using one [of ob] by auto
  qed
  have len: "length fnd = length obs" using fnd by (simp add: list_all2_lengthD)
  show ?thesis
  proof (cases "length obs + length rej = 0")
    case True
    then have r: "r = empty_result\<lparr>wr_source_sha := a, wr_image_digest := b,
        wr_policy_digest := po_digest policy, wr_blocking_total := 0\<rparr>"
      using rest by (simp add: Let_def)
    show ?thesis
      by (rule that [OF pol norm fnd cov])
        (use True len in \<open>simp_all add: r empty_result_def count_state_def min_string_def\<close>)
  next
    case False
    let ?res = "empty_result\<lparr>wr_source_sha := a, wr_image_digest := b,
        wr_policy_digest := po_digest policy, wr_blocking_total := length obs + length rej\<rparr>"
    have "mapE (evaluate_one env ?tab now) obs = Inr fnd"
      using fnd by (simp add: mapE_eq_Inr_iff)
    then have r: "r = summarize (length obs + length rej) (sort_key finding_order (fnd @ rej)) ?res"
      using rest False by (auto simp: Let_def split: if_splits)
    have "count_state [''active'', ''due_soon''] (fnd @ rej) = length obs + length rej
        \<longleftrightarrow> list_all (\<lambda>f. fi_state f \<in> {''active'', ''due_soon''}) fnd \<and> rej = []"
      using count_state_all [of "[''active'', ''due_soon'']" "fnd @ rej"] norm(2) len
      by (cases rej) auto
    then have "wr_allowed r \<longleftrightarrow> obs \<noteq> [] \<and> rej = [] \<and> list_all (covered (po_entries policy) now) obs"
      using list_all2_covered [OF cov] False
      by (auto simp: r summarize_fields count_state_sort empty_result_def)
    then show ?thesis
      by (rule that [OF pol norm fnd cov, rotated 2])
        (simp_all add: r summarize_fields count_state_sort)
  qed
qed

text \<open>Every finding is in one known state, so the counts partition the blocking findings.\<close>

lemma window_counts:
  assumes "evaluate_remediation_windows env fs (Some p) raws True t sha dig = Inr r"
  shows "wr_blocking_total r = wr_covered r + wr_rejected r + wr_overdue r + wr_unmatched r + wr_reintroduced r
    \<and> wr_uncovered r = int (wr_blocking_total r) - int (wr_covered r) \<and> 0 \<le> wr_uncovered r
    \<and> length (wr_findings r) = wr_blocking_total r
    \<and> (wr_allowed r \<longleftrightarrow> wr_blocking_total r \<noteq> 0 \<and> wr_uncovered r = 0)"
proof -
  obtain now policy obs rej findings where
    "load_policy env fs p (Some (format_utc now)) = Inr policy"
    "normalize_observations env 0 [] [] raws = Inr (obs, rej)"
    and n1: "list_all (\<lambda>f. fi_state f = ''rejected'' \<and> fi_deadline f = []) rej"
    and "list_all2 (\<lambda>ob f. evaluate_one env (map (\<lambda>e. (pe_fingerprint e, e)) (po_entries policy)) now ob
       = Inr f) obs findings"
    and n2: "list_all2 (\<lambda>ob f. (fi_state f \<in> {''active'', ''due_soon''} \<longleftrightarrow> covered (po_entries policy) now ob)
       \<and> fi_state f \<in> known_states) obs findings"
    and n: "wr_blocking_total r = length obs + length rej"
    "wr_policy_digest r = po_digest policy"
    "wr_allowed r \<longleftrightarrow> obs \<noteq> [] \<and> rej = [] \<and> list_all (covered (po_entries policy) now) obs"
    "wr_findings r = sort_key finding_order (findings @ rej)"
    "wr_covered r = count_state [''active'', ''due_soon''] (findings @ rej)"
    "wr_rejected r = count_state [''rejected''] (findings @ rej)"
    "wr_overdue r = count_state [''overdue''] (findings @ rej)"
    "wr_unmatched r = count_state [''unmatched''] (findings @ rej)"
    "wr_reintroduced r = count_state [''reintroduced''] (findings @ rej)"
    "wr_uncovered r = int (wr_blocking_total r) - int (wr_covered r)"
    "wr_nearest_deadline r = min_string (filter (\<lambda>d. d \<noteq> []) (map fi_deadline (wr_findings r)))"
    by (rule evaluate_windows_Inr [OF assms])
  have len: "length findings = length obs" using n2 by (simp add: list_all2_lengthD)
  have "list_all (\<lambda>f. fi_state f \<in> known_states) (findings @ rej)"
    using list_all2_covered [OF n2] n1 by (auto simp: list_all_iff known_states_def)
  from count_state_partition [OF this]
  have sum: "wr_blocking_total r
      = wr_covered r + wr_rejected r + wr_overdue r + wr_unmatched r + wr_reintroduced r"
    using n n1 n2 len by simp
  have "wr_covered r = wr_blocking_total r
      \<longleftrightarrow> list_all (\<lambda>f. fi_state f \<in> {''active'', ''due_soon''}) findings \<and> rej = []"
    using count_state_all [of "[''active'', ''due_soon'']" "findings @ rej"] n n1 len
    by (cases rej) auto
  moreover have "wr_uncovered r = 0 \<longleftrightarrow> wr_covered r = wr_blocking_total r" using n by linarith
  moreover have "obs = [] \<longleftrightarrow> findings = []" using len by auto
  ultimately have "wr_allowed r \<longleftrightarrow> wr_blocking_total r \<noteq> 0 \<and> wr_uncovered r = 0"
    using n(1,3) list_all2_covered [OF n2] by auto
  then show ?thesis using sum n len by simp
qed

section \<open>Properties\<close>


text \<open>
  The counts of the report add up. Every blocking finding is counted in exactly one of
  covered, rejected, overdue, unmatched and reintroduced, the uncovered count is the rest and
  never negative, and the release is allowed exactly if something is blocking and nothing is
  uncovered.
\<close>
lemma window_counts_partition:
  assumes "evaluate_remediation_windows env fs (Some p) raws True t sha dig = Inr r"
  shows "wr_blocking_total r = wr_covered r + wr_rejected r + wr_overdue r + wr_unmatched r + wr_reintroduced r
    \<and> wr_uncovered r = int (wr_blocking_total r) - int (wr_covered r) \<and> 0 \<le> wr_uncovered r
    \<and> length (wr_findings r) = wr_blocking_total r
    \<and> (wr_allowed r \<longleftrightarrow> wr_blocking_total r \<noteq> 0 \<and> wr_uncovered r = 0)"
  using window_counts [OF assms] by blast

lemma fold_min_in: "fold min xs (x :: 'a :: linorder) \<in> insert x (set xs)"
proof (induction xs arbitrary: x)
  case (Cons y ys)
  from Cons.IH [of "min y x"] show ?case by (auto simp: min_def split: if_splits)
qed simp

lemma fold_min_le: "fold min xs (x :: 'a :: linorder) \<le> x \<and> (\<forall>y \<in> set xs. fold min xs x \<le> y)"
proof (induction xs arbitrary: x)
  case (Cons y ys)
  from Cons.IH [of "min y x"] show ?case by (auto intro: order_trans)
qed simp

lemma min_string_props:
  "ds \<noteq> [] \<Longrightarrow> min_string ds \<in> set ds \<and> (\<forall>d \<in> set ds. min_string ds \<le> d)"
  using fold_min_in fold_min_le by (cases ds) (auto simp: min_string_def)

text \<open>
  The reported nearest deadline is the earliest one. If any finding carries a deadline, the
  reported text is the deadline of some finding, and among all deadlines that are stored
  timestamps none denotes an earlier instant: comparing the texts is comparing the times.
\<close>
lemma window_nearest_deadline:
  assumes "evaluate_remediation_windows env fs (Some p) raws True t sha dig = Inr r"
    and "f \<in> set (wr_findings r)" and "fi_deadline f = format_utc d" and "stored_time d"
  shows "wr_nearest_deadline r \<in> fi_deadline ` set (wr_findings r)
    \<and> (\<forall>e. stored_time e \<and> wr_nearest_deadline r = format_utc e \<longrightarrow> instant e \<le> instant d)"
proof -
  have near: "wr_nearest_deadline r = min_string (filter (\<lambda>d. d \<noteq> []) (map fi_deadline (wr_findings r)))"
    by (rule evaluate_windows_Inr [OF assms(1)])
  have "format_utc d \<noteq> []" by (simp add: format_utc_def)
  then have in_filter: "format_utc d \<in> set (filter (\<lambda>d. d \<noteq> []) (map fi_deadline (wr_findings r)))"
    using assms(2,3) by force
  then have ne: "filter (\<lambda>d. d \<noteq> []) (map fi_deadline (wr_findings r)) \<noteq> []"
    by (metis empty_iff list.set(1))
  then have props: "wr_nearest_deadline r \<in> fi_deadline ` set (wr_findings r)"
    "wr_nearest_deadline r \<le> format_utc d"
    using min_string_props [OF ne] in_filter unfolding near by auto
  then show ?thesis
    using stored_less [OF assms(4)] by (metis leD leI)
qed

text \<open>
  Of two observations with the same fingerprint and image only the first counts, whatever
  the second says: it is dropped before its own flags are looked at, so a second report that
  the vulnerability is known to be exploited, or critical, does not change the decision.
\<close>
lemma duplicate_observation_dropped:
  assumes "canonical_observation (we_show env) 0 raw = Inr ob"
    and "canonical_observation (we_show env) 1 raw' = Inr ob'"
    and "ob_fingerprint ob' = ob_fingerprint ob" and "ob_image_identity ob' = ob_image_identity ob"
  shows "evaluate_remediation_windows env fs pp [raw, raw'] enabled t sha dig
    = evaluate_remediation_windows env fs pp [raw] enabled t sha dig"
proof -
  have "normalize_observations env 0 [] [] [raw, raw'] = normalize_observations env 0 [] [] [raw]"
    using assms by simp
  then show ?thesis by (simp only: evaluate_remediation_windows_def)
qed

section \<open>A window in use\<close>

text \<open>One high finding, a policy entry that accepts it from day 1 to day 5, evaluated on day 3\<close>

definition demo_digest :: string where "demo_digest = ''sha256:'' @ replicate 64 CHR ''a''"

definition demo_hex :: string where "demo_hex = replicate 64 CHR ''a''"

definition demo_sha :: string where "demo_sha = replicate 40 CHR ''a''"

definition demo_fingerprint_fields :: jobj where
  "demo_fingerprint_fields =
     [(''service'', JStr ''api''), (''advisory_id'', JStr ''CVE-1''), (''package_purl'', JStr ''pkg''),
      (''installed_version'', JStr ''1''), (''fixed_version'', JStr ''2''),
      (''image_lineage_digests'', JArr [JStr demo_digest])]"

definition demo_raw_with :: "bool \<Rightarrow> jobj" where
  "demo_raw_with exploited =
     [(''service_scope'', JStr ''api''), (''exposure_criticality'', JStr ''internal''),
      (''advisory_id'', JStr ''CVE-1''), (''package_purl'', JStr ''pkg''),
      (''installed_version'', JStr ''1''), (''fixed_version'', JStr ''2''),
      (''image_lineage_digests'', JArr [JStr demo_digest]),
      (''classification'', JStr ALLOWED_CLASSIFICATION), (''severity'', JStr ''high''),
      (''source_sha'', JStr demo_sha), (''image_identity'', JStr demo_digest),
      (''known_exploited'', JBool exploited), (''fixed_image_verified'', JBool False)]"

abbreviation demo_raw :: jobj where "demo_raw \<equiv> demo_raw_with False"

definition demo_policy :: jobj where
  "demo_policy =
     [(''version'', JInt 1), (''policy_owner'', JStr ''sec''),
      (''entries'', JArr [JObj
        [(''id'', JStr ''e1''), (''fingerprint'', JObj demo_fingerprint_fields),
         (''first_seen_at'', JStr (format_utc (demo_time 1))),
         (''deadline_at'', JStr (format_utc (demo_time 5))),
         (''reviewed_at'', JStr (format_utc (demo_time 2))), (''status'', JStr ''active''),
         (''reason'', JStr ''wait''), (''owner'', JStr ''ann''), (''reviewer'', JStr ''bob''),
         (''statement'', JStr ''ok''), (''compensating_control'', JStr ''waf''),
         (''reviewed_by'', JStr ''bob'')]])]"

definition demo_env :: win_env where
  "demo_env = \<lparr>we_loads = (\<lambda>s. Inr (JObj demo_policy)), we_show = (\<lambda>v. []), we_hash_file = (\<lambda>s. demo_hex),
     we_hash_observation = (\<lambda>ob. ob_image_identity ob), we_hash_raw = (\<lambda>r. []),
     we_now = demo_time 3\<rparr>"

definition demo_policy_path :: "string list" where
  "demo_policy_path = [''srv'', ''in'', ''r.json'']"

definition demo_print :: fingerprint where
  "demo_print = \<lparr>fp_service = ''api'', fp_advisory_id = ''CVE-1'', fp_package_purl = ''pkg'',
     fp_installed_version = ''1'', fp_fixed_version = ''2'', fp_lineage = [demo_digest]\<rparr>"

definition demo_observation :: observation where
  "demo_observation = \<lparr>ob_fingerprint = demo_print, ob_service_scope = ''api'',
     ob_classification = ALLOWED_CLASSIFICATION, ob_severity = ''HIGH'', ob_exposure = ''internal'',
     ob_known_exploited = False, ob_fixed_image_verified = False, ob_source_sha = demo_sha,
     ob_image_identity = demo_digest\<rparr>"

lemma demo_texts:
  "py_strip demo_digest = demo_digest" "py_lower demo_digest = demo_digest"
  "py_strip demo_sha = demo_sha" "py_lower demo_sha = demo_sha"
  "demo_digest \<noteq> []" "demo_sha \<noteq> []"
  "fullmatch SHA256_DIGEST demo_digest" "fullmatch GIT_SHA demo_sha"
  by code_simp+

lemma demo_strips:
  "py_strip ''api'' = ''api''" "py_strip ''CVE-1'' = ''CVE-1''" "py_strip ''pkg'' = ''pkg''"
  "py_strip ''1'' = ''1''" "py_strip ''2'' = ''2''" "py_strip ''internal'' = ''internal''"
  "py_strip ALLOWED_CLASSIFICATION = ALLOWED_CLASSIFICATION" "py_strip ''high'' = ''high''"
  "py_strip ''sec'' = ''sec''" "py_strip ''e1'' = ''e1''" "py_strip ''wait'' = ''wait''"
  "py_strip ''ann'' = ''ann''" "py_strip ''bob'' = ''bob''" "py_strip ''ok'' = ''ok''"
  "py_strip ''waf'' = ''waf''" "py_strip ''active'' = ''active''" "py_lower ''internal'' = ''internal''"
  "py_upper ''high'' = ''HIGH''" "ALLOWED_CLASSIFICATION \<noteq> []" "fullmatch SERVICE_SCOPE ''api''"
  by code_simp+

lemma demo_fields [simp]:
  "jget fld d = JStr v \<Longrightarrow> v \<noteq> [] \<Longrightarrow> py_strip v = v \<Longrightarrow> required_text cls label d fld = Inr v"
  by (simp add: required_text_def)

lemma demo_fingerprint: "canonical_fingerprint (we_show demo_env) label demo_fingerprint_fields = Inr demo_print"
  by (simp add: canonical_fingerprint_def demo_fingerprint_fields_def demo_strips demo_texts
      normalize_digest_list_def normal_text_def demo_print_def)

lemma demo_context: "validate_remediation_context (JStr ''api'') (JStr ''internal'') = Inr (''api'', ''internal'')"
  by (simp add: validate_remediation_context_def demo_strips ALLOWED_EXPOSURES_def)

lemma demo_canonical_with:
  "canonical_observation (we_show demo_env) i (demo_raw_with exploited)
     = Inr (demo_observation\<lparr>ob_known_exploited := exploited\<rparr>)"
proof -
  have "canonical_fingerprint (we_show demo_env) label
      [(''service'', JStr ''api''), (''advisory_id'', JStr ''CVE-1''), (''package_purl'', JStr ''pkg''),
       (''installed_version'', JStr ''1''), (''fixed_version'', JStr ''2''),
       (''image_lineage_digests'', JArr [JStr demo_digest])] = Inr demo_print" for label
    using demo_fingerprint by (simp add: demo_fingerprint_fields_def)
  then show ?thesis
    by (simp add: canonical_observation_def demo_raw_with_def Let_def demo_strips demo_texts demo_context
        required_bool_def ALLOWED_SEVERITIES_def demo_observation_def demo_print_def)
qed

lemma demo_canonical: "canonical_observation (we_show demo_env) i demo_raw = Inr demo_observation"
  by (simp add: demo_canonical_with) (simp add: demo_observation_def)

lemma demo_load_json: "load_json (we_loads demo_env) sample_fs demo_policy_path ''policy'' = Inr demo_policy"
proof -
  have "is_file sample_fs demo_policy_path \<and> \<not> is_symlink sample_fs demo_policy_path"
    "read_file sample_fs demo_policy_path = Inr ''body''"
    unfolding demo_policy_path_def by code_simp+
  then show ?thesis by (simp add: load_json_def load_object_def demo_env_def)
qed

lemma demo_hash: "we_hash_file demo_env b = demo_hex"
  by (simp add: demo_env_def)

lemma demo_now: "we_now demo_env = demo_time 3"
  by (simp add: demo_env_def)

lemma demo_loaded:
  "\<exists>e. load_policy demo_env sample_fs demo_policy_path (Some (format_utc (demo_time 3)))
     = Inr \<lparr>po_owner = ''sec'', po_entries = [e], po_digest = demo_hex\<rparr>
   \<and> pe_fingerprint e = demo_print \<and> pe_status e = ''active''
   \<and> pe_first_seen e = format_utc (demo_time 1) \<and> pe_deadline e = format_utc (demo_time 5)"
proof -
  have "read_file sample_fs demo_policy_path = Inr ''body''"
    unfolding demo_policy_path_def by code_simp
  moreover have "format_utc (demo_time 3) \<noteq> []" by (simp add: format_utc_def)
  ultimately show ?thesis
    by (simp add: load_policy_def demo_load_json demo_policy_def demo_strips parse_utc_format demo_stored
        load_entry_def demo_fingerprint time_field_format demo_instant normalize_lifecycle_def
        as_window_error_def except_raise_def ALLOWED_ENTRY_STATUSES_def demo_hash)
qed

lemma demo_span: "instant (demo_time b) - instant (demo_time a) = (int b - int a) * 86400000000"
  by (simp add: instant_def demo_time_def ordinal_def)

lemma demo_covered:
  "pe_fingerprint e = demo_print \<Longrightarrow> pe_status e = ''active'' \<Longrightarrow>
   pe_first_seen e = format_utc (demo_time 1) \<Longrightarrow> pe_deadline e = format_utc (demo_time 5) \<Longrightarrow>
   covered [e] (demo_time 3) demo_observation"
  unfolding covered_def
  by (simp add: demo_observation_def BLOCKED_CRITICAL_EXPOSURES_def)
    (intro exI [of _ "demo_time 1"] conjI exI [of _ "demo_time 5"],
     simp_all add: demo_stored demo_instant demo_span timedelta_days_def max_window_days_def)

lemma demo_evaluated:
  "\<exists>r. evaluate_remediation_windows demo_env sample_fs (Some demo_policy_path) [demo_raw] True None
      [] [] = Inr r \<and> wr_allowed r \<and> wr_blocking_total r = 1 \<and> wr_policy_digest r = demo_hex
    \<and> (\<exists>f \<in> set (wr_findings r). fi_deadline f = format_utc (demo_time 5))"
proof -
  obtain e where e: "load_policy demo_env sample_fs demo_policy_path (Some (format_utc (demo_time 3)))
       = Inr \<lparr>po_owner = ''sec'', po_entries = [e], po_digest = demo_hex\<rparr>"
    "pe_fingerprint e = demo_print" "pe_status e = ''active''"
    "pe_first_seen e = format_utc (demo_time 1)" "pe_deadline e = format_utc (demo_time 5)"
    using demo_loaded by blast
  have one: "evaluate_one demo_env [(demo_print, e)] (demo_time 3) demo_observation
      = Inr (finding_result demo_env demo_observation ''due_soon'' [] (Some e))"
    using e(2-) by (simp add: evaluate_one_def Let_def demo_observation_def BLOCKED_CRITICAL_EXPOSURES_def
        parse_utc_format demo_stored demo_span demo_instant timedelta_days_def max_window_days_def
        DUE_SOON_def timedelta_hours_def)
  show ?thesis
    using e demo_covered [OF e(2-)] format_no_space
    by (auto simp: evaluate_remediation_windows_def optional_match_def demo_canonical one
        summarize_def Let_def demo_now count_state_def finding_result_def min_string_def
        empty_result_def format_utc_def)
qed


theorem window_counts_partition_witness:
  "\<exists>r. evaluate_remediation_windows demo_env sample_fs (Some demo_policy_path) [demo_raw] True None
      [] [] = Inr r \<and> wr_uncovered r = 0 \<and> wr_covered r = 1"
proof -
  obtain r where r: "evaluate_remediation_windows demo_env sample_fs (Some demo_policy_path) [demo_raw]
      True None [] [] = Inr r" "wr_allowed r" "wr_blocking_total r = 1" using demo_evaluated by blast
  from window_counts_partition [OF r(1)] r show ?thesis by auto
qed

theorem window_nearest_deadline_witness:
  "\<exists>r. evaluate_remediation_windows demo_env sample_fs (Some demo_policy_path) [demo_raw] True None
      [] [] = Inr r \<and> wr_nearest_deadline r \<in> fi_deadline ` set (wr_findings r)"
proof -
  obtain r where r: "evaluate_remediation_windows demo_env sample_fs (Some demo_policy_path) [demo_raw]
      True None [] [] = Inr r" "\<exists>f \<in> set (wr_findings r). fi_deadline f = format_utc (demo_time 5)"
    using demo_evaluated by blast
  then obtain f where "f \<in> set (wr_findings r)" "fi_deadline f = format_utc (demo_time 5)" by blast
  from window_nearest_deadline [OF r(1) this demo_stored] r show ?thesis by auto
qed

theorem duplicate_observation_dropped_witness:
  "evaluate_remediation_windows demo_env sample_fs (Some demo_policy_path) [demo_raw, demo_raw_with True] True None [] []
    = evaluate_remediation_windows demo_env sample_fs (Some demo_policy_path) [demo_raw] True None [] []"
  using duplicate_observation_dropped [OF demo_canonical demo_canonical_with] by simp

end
