(* ===== verification/Network_Retry.thy ===== *)
theory Network_Retry
  imports PyRegex PyTime
begin

text \<open>
  The bounded retry of registry commands, \<open>scripts/container_release/retry_network.py\<close>. The
  wrapped command is the parameter \<open>run\<close>: it acts on the state and either finishes with an
  exit code and captured output or cannot be executed (\<open>OSError\<close>). The state records what the
  wrapper printed and how long it slept; a runner may extend it. The relation \<open>tries\<close> says
  which sequences of attempts are allowed; the loop refines it.
\<close>

section \<open>Classification\<close>

definition MAX_ATTEMPTS :: int where "MAX_ATTEMPTS = 5"
definition MIN_ATTEMPTS :: int where "MIN_ATTEMPTS = 1"
definition MAX_BACKOFF_SECONDS :: int where "MAX_BACKOFF_SECONDS = 30"
definition MAX_SLEEP_SECONDS :: int where "MAX_SLEEP_SECONDS = 60"

text \<open>\<open>\b text \b\<close>\<close>

definition word_rx :: "rx \<Rightarrow> rx" where "word_rx r = seqs [WordB, r, WordB]"

definition PERMANENT_PATTERNS :: "rx list" where
  "PERMANENT_PATTERNS =
     [word_rx (ilit ''unauthorized''),
      ilit ''authentication required'',
      ilit ''incorrect username or password'',
      word_rx (ilit ''denied''),
      word_rx (Alt (lit ''401'') (lit ''403'')),
      word_rx (ilit ''forbidden''),
      ilit ''manifest unknown'',
      ilit ''name unknown'',
      ilit ''no such manifest'',
      word_rx (ilit ''not found''),
      ilit ''invalid reference format'',
      ilit ''repository name must be lowercase'']"

definition TRANSIENT_PATTERNS :: "rx list" where
  "TRANSIENT_PATTERNS =
     [ilit ''no route to host'',
      ilit ''network is unreachable'',
      ilit ''could not resolve host'',
      ilit ''temporary failure in name resolution'',
      ilit ''no such host'',
      ilit ''server misbehaving'',
      ilit ''i/o timeout'',
      ilit ''tls handshake timeout'',
      ilit ''context deadline exceeded'',
      Seq (Alt (ilit ''operation'') (ilit ''connection'')) (ilit '' timed out''),
      ilit ''timeout exceeded while awaiting headers'',
      ilit ''connection reset by peer'',
      ilit ''connection refused'',
      ilit ''broken pipe'',
      ilit ''unexpected eof'',
      ilit ''request canceled'',
      word_rx (alts [ilit ''502 bad gateway'', ilit ''503 service unavailable'',
                     ilit ''504 gateway timeout'']),
      seqs [ilit ''unexpected '', opt (ilit ''http ''), ilit ''status'', opt (ilit '' code''),
            opt (lit '':''), lit '' '',
            Alt (lit ''429'') (seqs [lit ''5'', Cls is_digit, Cls is_digit])],
      Alt (ilit ''toomanyrequests'') (ilit ''too many requests'')]"

definition classify :: "string \<Rightarrow> string" where
  "classify output =
     (if list_ex (\<lambda>r. search r output) PERMANENT_PATTERNS then ''permanent''
      else if list_ex (\<lambda>r. search r output) TRANSIENT_PATTERNS then ''transient''
      else ''unclassified'')"

section \<open>The wrapper\<close>

record retry_result =
  rr_returncode :: int
  rr_attempts :: int
  rr_classification :: string
  rr_stdout :: string

record retry_state =
  rs_emitted :: "string list"
  rs_slept :: "int list"

record captured =
  ca_returncode :: int
  ca_stdout :: "string option"
  ca_stderr :: "string option"

type_synonym 'x retry_runner = "'x retry_state_scheme \<Rightarrow> captured result \<times> 'x retry_state_scheme"

definition emit :: "string \<Rightarrow> 'x retry_state_scheme \<Rightarrow> 'x retry_state_scheme" where
  "emit message s = s\<lparr>rs_emitted := rs_emitted s @ [message]\<rparr>"

definition sleep_for :: "int \<Rightarrow> 'x retry_state_scheme \<Rightarrow> 'x retry_state_scheme" where
  "sleep_for d s = s\<lparr>rs_slept := rs_slept s @ [d]\<rparr>"

definition backoff_delay :: "int \<Rightarrow> int \<Rightarrow> int" where
  "backoff_delay base attempt = min (base * 2 ^ nat (attempt - 1)) MAX_SLEEP_SECONDS"

definition validate_bounds :: "int \<Rightarrow> int \<Rightarrow> unit result" where
  "validate_bounds attempts backoff =
     guardE (MIN_ATTEMPTS \<le> attempts \<and> attempts \<le> MAX_ATTEMPTS)
       (Exc ValueError ''retry attempts must be an integer between 1 and 5'')
     (guardE (0 \<le> backoff \<and> backoff \<le> MAX_BACKOFF_SECONDS)
       (Exc ValueError ''retry backoff seconds must be an integer between 0 and 30'') (Inr ()))"

definition rstrip_lf :: "string \<Rightarrow> string" where
  "rstrip_lf s = rev (dropWhile (\<lambda>c. c = LF) (rev s))"

text \<open>One execution: exit code, standard output and standard error; \<open>None\<close> reads as empty.\<close>

definition execute_once ::
    "string \<Rightarrow> 'x retry_runner \<Rightarrow> 'x retry_state_scheme
     \<Rightarrow> (int \<times> string \<times> string) result \<times> 'x retry_state_scheme" where
  "execute_once label run s =
     (case run s of
        (Inr c, s') \<Rightarrow>
          (Inr (ca_returncode c, case ca_stdout c of None \<Rightarrow> [] | Some t \<Rightarrow> t,
                case ca_stderr c of None \<Rightarrow> [] | Some t \<Rightarrow> t), s')
      | (Inl e, s') \<Rightarrow>
          if catches [OSError] e then (Inr (127, [], label @ '': '' @ exc_msg e), s')
          else (Inl e, s'))"

definition final_failure ::
    "string \<Rightarrow> int \<Rightarrow> int \<Rightarrow> string \<Rightarrow> int \<Rightarrow> 'x retry_state_scheme
     \<Rightarrow> retry_result result \<times> 'x retry_state_scheme" where
  "final_failure label attempts attempt classification returncode s =
     (let final = (if classification = ''transient'' then ''transient_exhausted'' else classification);
          reason = (if final = ''transient_exhausted''
                    then ''transient network failure persisted after '' @ dec_int attempt @ '' attempt(s)''
                    else if final = ''permanent''
                    then ''permanent registry error (authentication, authorization, or missing reference); not retried''
                    else ''failure did not match a known transient network signature; not retried'')
      in (Inr \<lparr>rr_returncode = returncode, rr_attempts = attempt, rr_classification = final,
               rr_stdout = []\<rparr>,
          emit (''::error title=Registry network operation failed::'' @ label
                @ '' failed [classification='' @ final @ '', attempts='' @ dec_int attempt @ ''/''
                @ dec_int attempts @ '', exit='' @ dec_int returncode @ '']: '' @ reason) s))"

text \<open>The \<open>for\<close> loop over the attempt numbers still to come\<close>

fun retry_loop ::
    "string \<Rightarrow> int \<Rightarrow> int \<Rightarrow> 'x retry_runner \<Rightarrow> int list \<Rightarrow> int \<Rightarrow> string \<Rightarrow> int
     \<Rightarrow> 'x retry_state_scheme \<Rightarrow> retry_result result \<times> 'x retry_state_scheme" where
  "retry_loop label attempts backoff run [] attempt classification returncode s =
     final_failure label attempts attempt classification returncode s"
| "retry_loop label attempts backoff run (attempt # later) _ _ _ s =
     (case execute_once label run s of
        (Inl e, s') \<Rightarrow> (Inl e, s')
      | (Inr (rc, out, err), s') \<Rightarrow>
          (let s1 = (if err = [] then s' else emit (rstrip_lf err) s') in
           if rc = 0
           then (Inr \<lparr>rr_returncode = 0, rr_attempts = attempt,
                      rr_classification = (if attempt = 1 then ''success'' else ''recovered''),
                      rr_stdout = out\<rparr>,
                 if attempt > 1
                 then emit (''::notice title=Transient network failure recovered::'' @ label
                        @ '' succeeded on attempt '' @ dec_int attempt @ ''/'' @ dec_int attempts) s1
                 else s1)
           else
             (let returncode = (if rc > 0 then rc else 1);
                  classification = classify (out @ [LF] @ err) in
              if classification \<noteq> ''transient''
              then final_failure label attempts attempt classification returncode s1
              else if attempt < attempts
              then retry_loop label attempts backoff run later attempt classification returncode
                     (sleep_for (backoff_delay backoff attempt)
                       (emit (''::warning title=Transient network failure::'' @ label
                          @ '' failed with a transient network error (exit '' @ dec_int returncode
                          @ '', attempt '' @ dec_int attempt @ ''/'' @ dec_int attempts
                          @ ''); retrying in '' @ dec_int (backoff_delay backoff attempt) @ ''s'') s1))
              else retry_loop label attempts backoff run later attempt classification returncode s1)))"

text \<open>The caller already spent attempts: the same backoff before going on\<close>

definition resume_after ::
    "string \<Rightarrow> int \<Rightarrow> int \<Rightarrow> int \<Rightarrow> 'x retry_state_scheme \<Rightarrow> 'x retry_state_scheme" where
  "resume_after label attempts backoff prior s =
     (if prior \<noteq> 0
      then sleep_for (backoff_delay backoff prior)
        (emit (''::warning title=Retrying network operation::'' @ label
           @ '' initial attempt failed; retrying in '' @ dec_int (backoff_delay backoff prior)
           @ ''s (attempt '' @ dec_int (prior + 1) @ ''/'' @ dec_int attempts @ '')'') s)
      else s)"

definition run_with_retry ::
    "string list \<Rightarrow> string \<Rightarrow> int \<Rightarrow> int \<Rightarrow> int \<Rightarrow> 'x retry_runner
     \<Rightarrow> 'x retry_state_scheme \<Rightarrow> retry_result result \<times> 'x retry_state_scheme" where
  "run_with_retry command label attempts backoff prior run s =
     (case validate_bounds attempts backoff of
        Inl e \<Rightarrow> (Inl e, s)
      | Inr _ \<Rightarrow>
          if command = [] then (Inl (Exc ValueError ''a command is required after --''), s)
          else if \<not> (0 \<le> prior \<and> prior < MAX_ATTEMPTS)
          then (Inl (Exc ValueError ''prior failed attempts must be an integer between 0 and 4''), s)
          else if prior \<ge> attempts
          then (Inr \<lparr>rr_returncode = 1, rr_attempts = prior, rr_classification = ''retry_disabled'',
                     rr_stdout = []\<rparr>,
                emit (''::error title=Registry network operation failed::'' @ label
                  @ '' failed [classification=retry_disabled, attempts='' @ dec_int prior @ ''/''
                  @ dec_int attempts
                  @ '']: the initial attempt failed and no retry budget remains'') s)
          else
            retry_loop label attempts backoff run [prior + 1..attempts] prior ''unclassified'' 1
              (resume_after label attempts backoff prior s))"

section \<open>The retry policy\<close>

text \<open>Between two executions the wrapper only prints and sleeps.\<close>

definition only_logged :: "'x retry_state_scheme \<Rightarrow> 'x retry_state_scheme \<Rightarrow> bool" where
  "only_logged s s' \<longleftrightarrow> s' = s\<lparr>rs_emitted := rs_emitted s', rs_slept := rs_slept s'\<rparr>"

inductive executes ::
    "string \<Rightarrow> 'x retry_runner \<Rightarrow> 'x retry_state_scheme \<Rightarrow> (int \<times> string \<times> string) list
     \<Rightarrow> 'x retry_state_scheme \<Rightarrow> bool" for label run where
  idle: "only_logged s s' \<Longrightarrow> executes label run s [] s'"
| once: "only_logged s s1 \<Longrightarrow> execute_once label run s1 = (Inr out, s2)
    \<Longrightarrow> executes label run s2 outs s' \<Longrightarrow> executes label run s (out # outs) s'"

fun transient_failure :: "int \<times> string \<times> string \<Rightarrow> bool" where
  "transient_failure (rc, out, err) \<longleftrightarrow> rc \<noteq> 0 \<and> classify (out @ [LF] @ err) = ''transient''"

text \<open>
  The policy: every execution but the last failed transiently, and the last one explains the
  result; after a transient failure there is no more only if the attempts are used up.
\<close>

definition policy_result ::
    "int \<Rightarrow> int \<Rightarrow> (int \<times> string \<times> string) list \<Rightarrow> retry_result \<Rightarrow> bool" where
  "policy_result prior attempts outs r \<longleftrightarrow>
     outs \<noteq> [] \<and> rr_attempts r = prior + int (length outs) \<and> rr_attempts r \<le> attempts
     \<and> list_all transient_failure (butlast outs)
     \<and> (case last outs of (rc, out, err) \<Rightarrow>
          if rc = 0
          then r = \<lparr>rr_returncode = 0, rr_attempts = rr_attempts r,
                    rr_classification = (if rr_attempts r = 1 then ''success'' else ''recovered''),
                    rr_stdout = out\<rparr>
          else rr_returncode r = (if rc > 0 then rc else 1) \<and> rr_stdout r = []
            \<and> (if transient_failure (rc, out, err)
               then rr_attempts r = attempts \<and> rr_classification r = ''transient_exhausted''
               else rr_classification r = classify (out @ [LF] @ err)))"

lemma only_logged_refl [simp]: "only_logged s s"
  by (simp add: only_logged_def)

lemma only_logged_emit [simp]: "only_logged s t \<Longrightarrow> only_logged s (emit m t)"
  unfolding only_logged_def emit_def by (cases s; cases t) simp

lemma only_logged_sleep [simp]: "only_logged s t \<Longrightarrow> only_logged s (sleep_for d t)"
  unfolding only_logged_def sleep_for_def by (cases s; cases t) simp

lemma only_logged_trans: "only_logged a b \<Longrightarrow> only_logged b c \<Longrightarrow> only_logged a c"
  unfolding only_logged_def by (cases a; cases b; cases c) simp

lemma executes_after_log:
  assumes "only_logged s s1" and "executes label run s1 outs s'"
  shows "executes label run s outs s'"
  using assms(2,1) by (cases rule: executes.cases) (auto intro: executes.intros only_logged_trans)

lemma final_failure_logged:
  "final_failure label attempts attempt cl rc s = (Inr r, s') \<Longrightarrow> only_logged s s'"
  by (auto simp: final_failure_def Let_def)

lemma final_failure_result:
  "final_failure label attempts attempt cl rc s = (Inr r, s') \<Longrightarrow>
     r = \<lparr>rr_returncode = rc, rr_attempts = attempt,
          rr_classification = (if cl = ''transient'' then ''transient_exhausted'' else cl), rr_stdout = []\<rparr>"
  unfolding final_failure_def Let_def by blast

lemma retry_loop_again:
  assumes "execute_once label run s = (Inr (rc, out, err), s1)" and "rc \<noteq> 0"
    and "classify (out @ [LF] @ err) = ''transient''" and "a < attempts"
  shows "\<exists>m. retry_loop label attempts backoff run (a # later) a0 c0 rc0 s
     = retry_loop label attempts backoff run later a ''transient'' (if rc > 0 then rc else 1)
         (sleep_for (backoff_delay backoff a) (emit m (if err = [] then s1 else emit (rstrip_lf err) s1)))"
  unfolding retry_loop.simps(2) assms(1) prod.case sum.case Let_def
  using assms(2-) by (simp del: append.simps) blast

lemma retry_loop_policy:
  assumes "retry_loop label attempts backoff run [a + 1..attempts] a cl rc s = (Inr r, s')"
    and "a < attempts"
  shows "\<exists>outs. executes label run s outs s' \<and> policy_result a attempts outs r"
  using assms
proof (induction "nat (attempts - a)" arbitrary: a cl rc s)
  case 0
  then show ?case by simp
next
  case (Suc n)
  have split: "[a + 1..attempts] = (a + 1) # [a + 1 + 1..attempts]"
    using Suc.prems(2) by (simp add: upto_rec1)
  obtain code1 out err s1 where run: "execute_once label run s = (Inr (code1, out, err), s1)"
    using Suc.prems(1) unfolding split by (auto split: prod.splits sum.splits)
  let ?s2 = "if err = [] then s1 else emit (rstrip_lf err) s1"
  have log: "only_logged s1 ?s2" by simp
  show ?case
  proof (cases "code1 = 0")
    case True
    then have "only_logged s1 s'"
      and r: "r = \<lparr>rr_returncode = 0, rr_attempts = a + 1,
        rr_classification = (if a + 1 = 1 then ''success'' else ''recovered''), rr_stdout = out\<rparr>"
      using Suc.prems(1) run log unfolding split
      by (auto simp: Let_def split: if_splits)
    then have "executes label run s [(code1, out, err)] s'"
      using run by (intro executes.intros) auto
    moreover have "policy_result a attempts [(code1, out, err)] r"
      using True Suc.prems(2) by (simp add: policy_result_def r)
    ultimately show ?thesis by blast
  next
    case failed: False
    let ?c = "classify (out @ [LF] @ err)" and ?rc = "if code1 > 0 then code1 else 1"
    show ?thesis
    proof (cases "?c = ''transient'' \<and> a + 1 < attempts")
      case True
      obtain m where m: "retry_loop label attempts backoff run [a + 1..attempts] a cl rc s
          = retry_loop label attempts backoff run [a + 1 + 1..attempts] (a + 1) ''transient'' ?rc
              (sleep_for (backoff_delay backoff (a + 1)) (emit m ?s2))"
        using retry_loop_again [OF run failed, of "a + 1"] True unfolding split by blast
      define s3 where "s3 = sleep_for (backoff_delay backoff (a + 1)) (emit m ?s2)"
      have s3: "only_logged ?s2 s3"
        "retry_loop label attempts backoff run [a + 1 + 1..attempts] (a + 1) ?c ?rc s3 = (Inr r, s')"
        using Suc.prems(1) m True by (simp_all add: s3_def)
      have "n = nat (attempts - (a + 1))" using Suc.hyps(2) by simp
      from Suc.hyps(1) [OF this s3(2)] True
      obtain outs where outs: "executes label run s3 outs s'" "policy_result (a + 1) attempts outs r" by auto
      have "executes label run s ((code1, out, err) # outs) s'"
        using run outs(1) s3(1) log
        by (intro executes.once [OF only_logged_refl run]) (blast intro: executes_after_log)
      moreover have "policy_result a attempts ((code1, out, err) # outs) r"
        using outs(2) failed True by (auto simp: policy_result_def)
      ultimately show ?thesis by blast
    next
      case False
      then have fin: "final_failure label attempts (a + 1) ?c ?rc ?s2 = (Inr r, s')"
        and last: "?c = ''transient'' \<Longrightarrow> a + 1 = attempts"
        using Suc.prems run failed unfolding split
        by (auto simp: Let_def split: if_splits)
      then have "executes label run s [(code1, out, err)] s'"
        using run log final_failure_logged [OF fin]
        by (intro executes.intros(2) [OF only_logged_refl run] executes.intros(1)) (blast intro: only_logged_trans)
      moreover have "policy_result a attempts [(code1, out, err)] r"
        using final_failure_result [OF fin] last failed Suc.prems(2) by (simp add: policy_result_def)
      ultimately show ?thesis by blast
    qed
  qed
qed

section \<open>Sleeping\<close>

lemma emit_slept [simp]: "rs_slept (emit m s) = rs_slept s"
  by (simp add: emit_def)

lemma sleep_slept [simp]: "rs_slept (sleep_for d s) = rs_slept s @ [d]"
  by (simp add: sleep_for_def)






section \<open>Properties\<close>


lemma run_with_retry_enters:
  assumes "run_with_retry command label attempts backoff prior run s = (Inr r, s')" and "prior < attempts"
  shows "retry_loop label attempts backoff run [prior + 1..attempts] prior ''unclassified'' 1
    (resume_after label attempts backoff prior s) = (Inr r, s')"
proof -
  have "validate_bounds attempts backoff = Inr ()" "command \<noteq> []" "0 \<le> prior \<and> prior < MAX_ATTEMPTS"
    using assms by (auto simp: run_with_retry_def split: sum.splits if_splits)
  then show ?thesis using assms by (simp add: run_with_retry_def)
qed

lemma resume_after_logged:
  "only_logged s (resume_after label attempts backoff prior s)"
  "rs_slept (resume_after label attempts backoff prior s)
     = rs_slept s @ (if prior \<noteq> 0 then [backoff_delay backoff prior] else [])"
  by (simp_all add: resume_after_def)

text \<open>
  C23: The wrapper follows its retry policy. Whenever it returns a result, it either had no
  retry budget left and ran nothing, or it ran the command at most \<open>attempts\<close> times, counting
  the caller's earlier failures; every run but the last failed with a transient network
  signature and no permanent one, nothing was run after a success, a permanent or an
  unclassified failure, a transient failure is final only when the attempts are used up, and
  the result reports the last run: its output only on success, a positive exit code otherwise.
\<close>
theorem retry_follows_policy:
  assumes "run_with_retry command label attempts backoff prior run s = (Inr r, s')"
  shows "(attempts \<le> prior \<and> rr_classification r = ''retry_disabled'' \<and> only_logged s s')
    \<or> (\<exists>outs. executes label run s outs s' \<and> policy_result prior attempts outs r)"
proof (cases "prior < attempts")
  case True
  then show ?thesis
    using retry_loop_policy [OF run_with_retry_enters [OF assms True] True]
      executes_after_log resume_after_logged(1) by blast
next
  case False
  have "validate_bounds attempts backoff = Inr ()" "command \<noteq> []" "0 \<le> prior \<and> prior < MAX_ATTEMPTS"
    using assms by (auto simp: run_with_retry_def split: sum.splits if_splits)
  then show ?thesis
    using assms False by (auto simp: run_with_retry_def)
qed


section \<open>A recovered command\<close>

definition steady :: "unit retry_runner" where
  "steady s = (Inr \<lparr>ca_returncode = 0, ca_stdout = Some ''ok'', ca_stderr = None\<rparr>, s)"

definition fresh :: retry_state where "fresh = \<lparr>rs_emitted = [], rs_slept = []\<rparr>"

lemma steady_recovers:
  "\<exists>s'. run_with_retry [''docker''] ''pull'' 3 5 1 steady fresh
     = (Inr \<lparr>rr_returncode = 0, rr_attempts = 2, rr_classification = ''recovered'', rr_stdout = ''ok''\<rparr>, s')"
  by (simp add: run_with_retry_def validate_bounds_def MIN_ATTEMPTS_def MAX_ATTEMPTS_def
      MAX_BACKOFF_SECONDS_def upto_rec1 execute_once_def steady_def)

theorem retry_follows_policy_witness:
  "\<exists>outs s'. executes ''pull'' steady fresh outs s' \<and> length outs = 1"
proof -
  obtain s' where "run_with_retry [''docker''] ''pull'' 3 5 1 steady fresh
     = (Inr \<lparr>rr_returncode = 0, rr_attempts = 2, rr_classification = ''recovered'', rr_stdout = ''ok''\<rparr>, s')"
    using steady_recovers by blast
  from retry_follows_policy [OF this] show ?thesis by (auto simp: policy_result_def)
qed


end
