(* ===== verification/Security_Summary.thy ===== *)
theory Security_Summary
  imports Security_Common
begin

text \<open>
  The count-only evidence of the security gate: the classification vocabulary
  (\<open>scripts/security_gate/classifications.py\<close>), the summary of one Trivy report
  (\<open>report.py\<close>) and the aggregate of several summaries (\<open>aggregate.py\<close>). A summary travels
  between the two as a JSON file.
\<close>

section \<open>Classifications\<close>

definition SECURITY_CLASSIFICATIONS :: "string list" where
  "SECURITY_CLASSIFICATIONS =
     [''clean'', ''actionable_vulnerability'', ''unfixed_warning'', ''misconfiguration_detected'',
      ''secret_detected'', ''scanner_error'', ''not-run'']"

definition normalize_security_classification :: "string \<Rightarrow> string result" where
  "normalize_security_classification raw =
     (if List.member SECURITY_CLASSIFICATIONS raw then Inr raw
      else if raw = ''gate_error'' then Inr ''scanner_error''
      else Inl (Exc ValueError ''security classification is not allowed''))"

section \<open>Summary of a report\<close>

definition report_error :: "string \<Rightarrow> exc" where "report_error m = Exc TrivyReportError m"

definition load_report :: "(string \<Rightarrow> json result) \<Rightarrow> fsys \<Rightarrow> string list \<Rightarrow> jobj result" where
  "load_report =
     load_object TrivyReportError ''Trivy report must be a regular non-symlink file''
       ''Trivy report is not valid UTF-8 JSON'' ''Trivy report must be a JSON object''"

record finding_counts =
  fc_severities :: "nat dict"
  fc_fixable :: nat
  fc_unfixed :: nat
  fc_misconfigurations :: nat
  fc_secrets :: nat

definition no_counts :: finding_counts where
  "no_counts = \<lparr>fc_severities = [], fc_fixable = 0, fc_unfixed = 0, fc_misconfigurations = 0, fc_secrets = 0\<rparr>"

definition counter_get :: "string \<Rightarrow> nat dict \<Rightarrow> nat" where
  "counter_get k d = (case map_of d k of None \<Rightarrow> 0 | Some n \<Rightarrow> n)"

definition severity_of :: "(json \<Rightarrow> string) \<Rightarrow> jobj \<Rightarrow> string" where
  "severity_of show finding =
     (let v = jget ''Severity'' finding in
      py_upper (if truthy v then py_str show v else ''UNKNOWN''))"

text \<open>\<open>isinstance(fixed, str) and fixed.strip()\<close>\<close>

definition is_fixable :: "jobj \<Rightarrow> bool" where
  "is_fixable finding = (case jget ''FixedVersion'' finding of JStr s \<Rightarrow> py_strip s \<noteq> [] | _ \<Rightarrow> False)"

fun count_vulnerabilities ::
    "(json \<Rightarrow> string) \<Rightarrow> json list \<Rightarrow> finding_counts \<Rightarrow> finding_counts result" where
  "count_vulnerabilities show [] acc = Inr acc"
| "count_vulnerabilities show (JObj finding # rest) acc =
     (let severity = severity_of show finding;
          acc1 = acc\<lparr>fc_severities := dict_set severity (counter_get severity (fc_severities acc) + 1)
                       (fc_severities acc)\<rparr>
      in count_vulnerabilities show rest
           (if is_fixable finding then acc1\<lparr>fc_fixable := fc_fixable acc1 + 1\<rparr>
            else acc1\<lparr>fc_unfixed := fc_unfixed acc1 + 1\<rparr>))"
| "count_vulnerabilities show (_ # rest) acc =
     Inl (report_error ''Trivy vulnerability entries must be objects'')"

fun count_results ::
    "(json \<Rightarrow> string) \<Rightarrow> json list \<Rightarrow> finding_counts \<Rightarrow> finding_counts result" where
  "count_results show [] acc = Inr acc"
| "count_results show (JObj result # rest) acc =
     bindE (optional_array (report_error ''Trivy Vulnerabilities must be an array'') ''Vulnerabilities'' result)
       (\<lambda>vulnerabilities.
     bindE (count_vulnerabilities show vulnerabilities acc) (\<lambda>acc1.
     bindE (optional_array (report_error ''Trivy Misconfigurations must be an array'')
              ''Misconfigurations'' result) (\<lambda>configs.
     bindE (optional_array (report_error ''Trivy Secrets must be an array'') ''Secrets'' result)
       (\<lambda>secrets.
     count_results show rest
       (acc1\<lparr>fc_misconfigurations := fc_misconfigurations acc1 + length configs,
             fc_secrets := fc_secrets acc1 + length secrets\<rparr>)))))"
| "count_results show (_ # rest) acc = Inl (report_error ''Trivy Results entries must be objects'')"

definition count_report :: "(json \<Rightarrow> string) \<Rightarrow> jobj \<Rightarrow> finding_counts result" where
  "count_report show report =
     bindE (nullable_array (report_error ''Trivy Results must be an array'') ''Results'' report)
       (\<lambda>results. count_results show results no_counts)"

text \<open>\<open>name.endswith("-enforced.json")\<close>: the complete report beside an enforced one\<close>

definition enforced_suffix :: string where "enforced_suffix = ''-enforced.json''"

definition complete_report_for_enforcement :: "fsys \<Rightarrow> string list \<Rightarrow> string list option" where
  "complete_report_for_enforcement fs p =
     (let name = (if p = [] then [] else last p) in
      if \<not> suffix enforced_suffix name then None
      else
        (let candidate = butlast p @ [take (length name - length enforced_suffix) name @ ''.json''] in
         if is_file fs candidate \<and> \<not> is_symlink fs candidate then Some candidate else None))"

definition summary_json :: "finding_counts \<Rightarrow> nat \<Rightarrow> jobj" where
  "summary_json c unfixed =
     [(''schema_version'', JInt 1),
      (''vulnerabilities'', JObj
        [(''total'', JInt (int (fc_fixable c + unfixed))),
         (''fixable'', JInt (int (fc_fixable c))),
         (''unfixed'', JInt (int unfixed)),
         (''by_severity'', JObj (map (\<lambda>(k, n). (k, JInt (int n))) (sort_key fst (fc_severities c))))]),
      (''misconfigurations'', JInt (int (fc_misconfigurations c))),
      (''secrets'', JInt (int (fc_secrets c))),
      (''policy'', JObj
        [(''fixable_vulnerabilities'', JStr ''blocking''),
         (''unfixed_vulnerabilities'', JStr ''signal-only''),
         (''misconfigurations'', JStr ''blocking''),
         (''secrets'', JStr ''blocking'')])]"

definition summarize_trivy_report ::
    "(json \<Rightarrow> string) \<Rightarrow> (string \<Rightarrow> json result) \<Rightarrow> fsys \<Rightarrow> string list \<Rightarrow> jobj result" where
  "summarize_trivy_report show loads fs p =
     bindE (load_report loads fs p) (\<lambda>report.
     bindE (count_report show report) (\<lambda>c.
     case complete_report_for_enforcement fs p of
       None \<Rightarrow> Inr (summary_json c (fc_unfixed c))
     | Some q \<Rightarrow>
         bindE (load_report loads fs q) (\<lambda>complete.
         bindE (count_report show complete) (\<lambda>d. Inr (summary_json c (fc_unfixed d))))))"

section \<open>Aggregate of summaries\<close>

definition aggregate_error :: "string \<Rightarrow> exc" where "aggregate_error m = Exc AggregateError m"

definition non_negative_int :: "json \<Rightarrow> string \<Rightarrow> nat result" where
  "non_negative_int v fld =
     (case v of
        JInt k \<Rightarrow> guardE (0 \<le> k) (aggregate_error (fld @ '' must be a non-negative integer'')) (Inr (nat k))
      | _ \<Rightarrow> Inl (aggregate_error (fld @ '' must be a non-negative integer'')))"

definition load_summary :: "(string \<Rightarrow> json result) \<Rightarrow> fsys \<Rightarrow> string list \<Rightarrow> jobj result" where
  "load_summary loads fs p =
     bindE (load_object AggregateError ''summary must be a regular non-symlink file''
              ''summary must be valid UTF-8 JSON'' ''summary must be a JSON object'' loads fs p)
       (\<lambda>payload. guardE (eq_int (jget ''schema_version'' payload) 1)
          (aggregate_error ''unsupported summary schema version'') (Inr payload))"

record totals =
  tt_fixable :: nat
  tt_unfixed :: nat
  tt_misconfigurations :: nat
  tt_secrets :: nat

definition no_totals :: totals where
  "no_totals = \<lparr>tt_fixable = 0, tt_unfixed = 0, tt_misconfigurations = 0, tt_secrets = 0\<rparr>"

definition add_summary :: "jobj \<Rightarrow> totals \<Rightarrow> totals result" where
  "add_summary payload t =
     (case jget ''vulnerabilities'' payload of
        JObj v \<Rightarrow>
          bindE (non_negative_int (jget ''fixable'' v) ''vulnerabilities.fixable'') (\<lambda>a.
          bindE (non_negative_int (jget ''unfixed'' v) ''vulnerabilities.unfixed'') (\<lambda>b.
          bindE (non_negative_int (jget ''misconfigurations'' payload) ''misconfigurations'') (\<lambda>c.
          bindE (non_negative_int (jget ''secrets'' payload) ''secrets'') (\<lambda>d.
            Inr \<lparr>tt_fixable = tt_fixable t + a, tt_unfixed = tt_unfixed t + b,
                 tt_misconfigurations = tt_misconfigurations t + c, tt_secrets = tt_secrets t + d\<rparr>))))
      | _ \<Rightarrow> Inl (aggregate_error ''vulnerabilities must be an object''))"

fun sum_summaries ::
    "(string \<Rightarrow> json result) \<Rightarrow> fsys \<Rightarrow> string list list \<Rightarrow> totals \<Rightarrow> totals result" where
  "sum_summaries loads fs [] t = Inr t"
| "sum_summaries loads fs (p # ps) t =
     bindE (load_summary loads fs p) (\<lambda>payload.
     bindE (add_summary payload t) (\<lambda>t'. sum_summaries loads fs ps t'))"

definition classification_of :: "bool \<Rightarrow> totals \<Rightarrow> string" where
  "classification_of gate_error t =
     (if gate_error then ''scanner_error''
      else if tt_secrets t \<noteq> 0 then ''secret_detected''
      else if tt_misconfigurations t \<noteq> 0 then ''misconfiguration_detected''
      else if tt_fixable t \<noteq> 0 then ''actionable_vulnerability''
      else if tt_unfixed t \<noteq> 0 then ''unfixed_warning''
      else ''clean'')"

definition aggregate_summaries ::
    "(string \<Rightarrow> json result) \<Rightarrow> fsys \<Rightarrow> string list list \<Rightarrow> bool \<Rightarrow> (string \<times> totals) result" where
  "aggregate_summaries loads fs paths gate_error =
     guardE (paths \<noteq> []) (aggregate_error ''at least one summary is required'')
     (bindE (sum_summaries loads fs paths no_totals) (\<lambda>t. Inr (classification_of gate_error t, t)))"

text \<open>The lines \<open>_write_github_output\<close> appends\<close>

definition aggregate_lines :: "string \<times> totals \<Rightarrow> string list" where
  "aggregate_lines a =
     [''classification='' @ fst a,
      ''fixable_vulnerability_count='' @ dec (tt_fixable (snd a)),
      ''unfixed_vulnerability_count='' @ dec (tt_unfixed (snd a)),
      ''misconfiguration_count='' @ dec (tt_misconfigurations (snd a)),
      ''secret_count='' @ dec (tt_secrets (snd a))]"

section \<open>What is counted\<close>

fun objects :: "json list \<Rightarrow> jobj list" where
  "objects [] = []"
| "objects (JObj d # xs) = d # objects xs"
| "objects (_ # xs) = objects xs"

definition report_results :: "jobj \<Rightarrow> jobj list" where
  "report_results report = objects (array_of ''Results'' report)"

definition report_findings :: "jobj \<Rightarrow> jobj list" where
  "report_findings report =
     concat (map (\<lambda>r. objects (array_of ''Vulnerabilities'' r)) (report_results report))"

definition report_misconfigurations :: "jobj \<Rightarrow> json list" where
  "report_misconfigurations report =
     concat (map (array_of ''Misconfigurations'') (report_results report))"

definition report_secrets :: "jobj \<Rightarrow> json list" where
  "report_secrets report = concat (map (array_of ''Secrets'') (report_results report))"

lemma counter_get_set: "counter_get k (dict_set k' n d) = (if k = k' then n else counter_get k d)"
  by (simp add: counter_get_def map_of_dict_set)

lemma count_vulnerabilities_exact:
  "count_vulnerabilities show vs acc = Inr c \<Longrightarrow>
     fc_fixable c = fc_fixable acc + length (filter is_fixable (objects vs))
     \<and> fc_unfixed c = fc_unfixed acc + length (filter (\<lambda>f. \<not> is_fixable f) (objects vs))
     \<and> counter_get s (fc_severities c) = counter_get s (fc_severities acc)
          + length (filter (\<lambda>f. severity_of show f = s) (objects vs))
     \<and> fc_misconfigurations c = fc_misconfigurations acc \<and> fc_secrets c = fc_secrets acc
     \<and> length (objects vs) = length vs"
  by (induction "show" vs acc rule: count_vulnerabilities.induct)
    (auto simp: Let_def counter_get_set split: if_splits)

lemma count_results_exact:
  "count_results show rs acc = Inr c \<Longrightarrow>
     fc_fixable c = fc_fixable acc + length (filter is_fixable
        (concat (map (\<lambda>r. objects (array_of ''Vulnerabilities'' r)) (objects rs))))
     \<and> fc_unfixed c = fc_unfixed acc + length (filter (\<lambda>f. \<not> is_fixable f)
        (concat (map (\<lambda>r. objects (array_of ''Vulnerabilities'' r)) (objects rs))))
     \<and> counter_get s (fc_severities c) = counter_get s (fc_severities acc)
          + length (filter (\<lambda>f. severity_of show f = s)
              (concat (map (\<lambda>r. objects (array_of ''Vulnerabilities'' r)) (objects rs))))
     \<and> fc_misconfigurations c = fc_misconfigurations acc
          + length (concat (map (array_of ''Misconfigurations'') (objects rs)))
     \<and> fc_secrets c = fc_secrets acc + length (concat (map (array_of ''Secrets'') (objects rs)))
     \<and> length (objects rs) = length rs"
proof (induction "show" rs acc rule: count_results.induct)
  case (2 sh result rest acc)
  then obtain vs acc1 configs secrets where
    vs: "optional_array (report_error ''Trivy Vulnerabilities must be an array'') ''Vulnerabilities'' result = Inr vs"
    "count_vulnerabilities sh vs acc = Inr acc1"
    "optional_array (report_error ''Trivy Misconfigurations must be an array'') ''Misconfigurations'' result = Inr configs"
    "optional_array (report_error ''Trivy Secrets must be an array'') ''Secrets'' result = Inr secrets" and
    rest: "count_results sh rest (acc1\<lparr>fc_misconfigurations := fc_misconfigurations acc1 + length configs,
             fc_secrets := fc_secrets acc1 + length secrets\<rparr>) = Inr c"
    by (auto simp: bindE_eq_Inr)
  note names = optional_array_Inr [OF vs(1)] optional_array_Inr [OF vs(3)] optional_array_Inr [OF vs(4)]
  show ?case
    using 2(1) [OF vs(1,2,3,4) rest] count_vulnerabilities_exact [OF vs(2), of s] names by simp
qed auto

lemma count_report_exact:
  assumes "count_report show report = Inr c"
  shows "fc_fixable c = length (filter is_fixable (report_findings report))
    \<and> fc_unfixed c = length (filter (\<lambda>f. \<not> is_fixable f) (report_findings report))
    \<and> (\<forall>s. counter_get s (fc_severities c)
          = length (filter (\<lambda>f. severity_of show f = s) (report_findings report)))
    \<and> fc_misconfigurations c = length (report_misconfigurations report)
    \<and> fc_secrets c = length (report_secrets report)"
proof -
  obtain rs where rs: "nullable_array (report_error ''Trivy Results must be an array'') ''Results'' report = Inr rs"
    "count_results show rs no_counts = Inr c"
    using assms by (auto simp: count_report_def bindE_eq_Inr)
  then show ?thesis
    using count_results_exact [OF rs(2)] nullable_array_Inr [OF rs(1)]
    by (simp add: report_findings_def report_misconfigurations_def report_secrets_def report_results_def
        no_counts_def counter_get_def)
qed

section \<open>From summaries to the aggregate\<close>

text \<open>A file that holds the summary of a report, as \<open>json.dumps(_, sort_keys=True)\<close> wrote it\<close>

definition summary_file ::
    "(json \<Rightarrow> string) \<Rightarrow> (string \<Rightarrow> json result) \<Rightarrow> fsys \<Rightarrow> string list \<Rightarrow> jobj \<Rightarrow> bool" where
  "summary_file show loads fs p report \<longleftrightarrow>
     is_file fs p \<and> \<not> is_symlink fs p
     \<and> (\<exists>text c. read_file fs p = Inr text \<and> count_report show report = Inr c
          \<and> loads text = Inr (sort_keys (JObj (summary_json c (fc_unfixed c)))))"

lemma non_negative_int_Inr: "non_negative_int v fld = Inr n \<longleftrightarrow> v = JInt (int n)"
  by (cases v) (auto simp: non_negative_int_def res_simps)

lemma add_summary_of_report:
  assumes "count_report show report = Inr c"
    and "JObj payload = sort_keys (JObj (summary_json c (fc_unfixed c)))"
  shows "add_summary payload t = Inr
     \<lparr>tt_fixable = tt_fixable t + length (filter is_fixable (report_findings report)),
      tt_unfixed = tt_unfixed t + length (filter (\<lambda>f. \<not> is_fixable f) (report_findings report)),
      tt_misconfigurations = tt_misconfigurations t + length (report_misconfigurations report),
      tt_secrets = tt_secrets t + length (report_secrets report)\<rparr>"
proof -
  have get: "jget k payload = sort_keys (jget k (summary_json c (fc_unfixed c)))" for k
    using assms(2) jget_sort_keys [of k] by simp
  have nn: "non_negative_int (JInt (int n)) fld = Inr n" for n fld
    by (simp add: non_negative_int_Inr)
  have top: "jget ''misconfigurations'' payload = JInt (int (fc_misconfigurations c))"
    "jget ''secrets'' payload = JInt (int (fc_secrets c))"
    by (simp_all add: get summary_json_def)
  obtain v where v: "jget ''vulnerabilities'' payload = JObj v"
    "jget ''fixable'' v = JInt (int (fc_fixable c))" "jget ''unfixed'' v = JInt (int (fc_unfixed c))"
    by (simp add: get summary_json_def jget_sort_keys)
  show ?thesis
    using count_report_exact [OF assms(1)] by (simp add: add_summary_def top v nn)
qed

lemma sum_summaries_of_reports:
  assumes "list_all2 (summary_file show loads fs) ps reports"
  shows "sum_summaries loads fs ps t = Inr
     \<lparr>tt_fixable = tt_fixable t + length (filter is_fixable (concat (map report_findings reports))),
      tt_unfixed = tt_unfixed t
        + length (filter (\<lambda>f. \<not> is_fixable f) (concat (map report_findings reports))),
      tt_misconfigurations = tt_misconfigurations t
        + length (concat (map report_misconfigurations reports)),
      tt_secrets = tt_secrets t + length (concat (map report_secrets reports))\<rparr>"
  using assms
proof (induction ps reports arbitrary: t rule: list_all2_induct)
  case Nil
  then show ?case by simp
next
  case (Cons p ps report reports)
  obtain body c where f: "is_file fs p" "\<not> is_symlink fs p" "read_file fs p = Inr body"
    "count_report show report = Inr c"
    "loads body = Inr (sort_keys (JObj (summary_json c (fc_unfixed c))))"
    using Cons.hyps(1) by (auto simp: summary_file_def)
  obtain payload where payload: "sort_keys (JObj (summary_json c (fc_unfixed c))) = JObj payload" by simp
  have "jget ''schema_version'' payload = JInt 1"
    using payload jget_sort_keys [of "''schema_version''" "summary_json c (fc_unfixed c)"]
    by (auto simp: summary_json_def)
  then have "load_summary loads fs p = Inr payload"
    using f payload by (auto simp: load_summary_def load_object_def)
  then show ?case
    using add_summary_of_report [OF f(4) payload [symmetric]] Cons.IH by simp
qed

section \<open>A sample report\<close>

definition demo_report :: jobj where
  "demo_report = [(''Results'', JArr [JObj
     [(''Vulnerabilities'', JArr [JObj [(''FixedVersion'', JStr ''2'')], JObj []])]])]"

definition demo_counts :: finding_counts where
  "demo_counts = \<lparr>fc_severities = [(''UNKNOWN'', 2)], fc_fixable = 1, fc_unfixed = 1,
     fc_misconfigurations = 0, fc_secrets = 0\<rparr>"

definition demo_path :: "string list" where "demo_path = [''srv'', ''in'', ''r.json'']"

lemma demo_count_report: "count_report (\<lambda>_. []) demo_report = Inr demo_counts"
  by code_simp

lemma demo_summary_file:
  "summary_file (\<lambda>_. []) (\<lambda>_. Inr (sort_keys (JObj (summary_json demo_counts (fc_unfixed demo_counts)))))
     sample_fs demo_path demo_report"
proof -
  have "is_file sample_fs demo_path \<and> \<not> is_symlink sample_fs demo_path"
    "read_file sample_fs demo_path = Inr ''body''"
    unfolding demo_path_def by code_simp+
  then show ?thesis by (simp add: summary_file_def demo_count_report)
qed

section \<open>Properties\<close>



text \<open>
  The gate classification of several images is what their reports contain. If each summary
  file holds the summary of its report, then aggregating them succeeds, and without a gate
  error the classification is \<open>clean\<close> exactly if no report has any finding, and one of \<open>clean\<close>
  and \<open>unfixed_warning\<close> exactly if no report has a secret, a misconfiguration or a
  vulnerability with a fix; with a gate error it is \<open>scanner_error\<close> whatever was counted.
\<close>
lemma aggregate_reflects_reports:
  assumes "list_all2 (summary_file show loads fs) paths reports" and "paths \<noteq> []"
  shows "\<exists>cl t. aggregate_summaries loads fs paths gate_error = Inr (cl, t)
    \<and> (gate_error \<longrightarrow> cl = ''scanner_error'')
    \<and> (\<not> gate_error \<longrightarrow>
        (cl = ''clean'' \<longleftrightarrow> list_all (\<lambda>r. report_findings r = [] \<and> report_misconfigurations r = []
                               \<and> report_secrets r = []) reports)
      \<and> (cl \<in> {''clean'', ''unfixed_warning''} \<longleftrightarrow>
          list_all (\<lambda>r. list_all (\<lambda>f. \<not> is_fixable f) (report_findings r)
                     \<and> report_misconfigurations r = [] \<and> report_secrets r = []) reports))"
proof -
  define fs_all where "fs_all = concat (map report_findings reports)"
  define t where "t = \<lparr>tt_fixable = length (filter is_fixable fs_all),
    tt_unfixed = length (filter (\<lambda>f. \<not> is_fixable f) fs_all),
    tt_misconfigurations = length (concat (map report_misconfigurations reports)),
    tt_secrets = length (concat (map report_secrets reports))\<rparr>"
  have agg: "aggregate_summaries loads fs paths gate_error = Inr (classification_of gate_error t, t)"
    using assms(2) sum_summaries_of_reports [OF assms(1), of no_totals]
    by (simp add: aggregate_summaries_def no_totals_def t_def fs_all_def)
  have none: "fs_all = [] \<longleftrightarrow> filter is_fixable fs_all = [] \<and> filter (\<lambda>f. \<not> is_fixable f) fs_all = []"
    by (cases fs_all) auto
  have clean: "list_all (\<lambda>r. report_findings r = [] \<and> report_misconfigurations r = []
                   \<and> report_secrets r = []) reports
      \<longleftrightarrow> fs_all = [] \<and> tt_misconfigurations t = 0 \<and> tt_secrets t = 0"
    by (auto simp: fs_all_def t_def list_all_iff)
  have warn: "list_all (\<lambda>r. list_all (\<lambda>f. \<not> is_fixable f) (report_findings r)
                   \<and> report_misconfigurations r = [] \<and> report_secrets r = []) reports
      \<longleftrightarrow> tt_fixable t = 0 \<and> tt_misconfigurations t = 0 \<and> tt_secrets t = 0"
    by (auto simp: fs_all_def t_def list_all_iff filter_empty_conv)
  show ?thesis
    unfolding agg clean warn none by (auto simp: classification_of_def t_def)
qed

theorem aggregate_reflects_reports_witness:
  "\<exists>cl t. aggregate_summaries
       (\<lambda>_. Inr (sort_keys (JObj (summary_json demo_counts (fc_unfixed demo_counts)))))
       sample_fs [demo_path] False = Inr (cl, t) \<and> cl \<noteq> ''clean'' \<and> cl \<noteq> ''unfixed_warning''"
proof -
  have "list_all2 (summary_file (\<lambda>_. [])
      (\<lambda>_. Inr (sort_keys (JObj (summary_json demo_counts (fc_unfixed demo_counts)))))
      sample_fs) [demo_path] [demo_report]"
    by (intro list_all2_Cons [THEN iffD2] conjI demo_summary_file list.rel_intros(1))
  moreover have "[demo_path] \<noteq> []" by simp
  moreover have "\<not> list_all (\<lambda>f. \<not> is_fixable f) (report_findings demo_report)" by code_simp
  ultimately show ?thesis
    using aggregate_reflects_reports [of "\<lambda>_. []" _ sample_fs "[demo_path]" "[demo_report]" False] by fastforce
qed

end
