(* ===== verification/Retry_Decision.thy ===== *)
theory Retry_Decision
  imports Security_Summary
begin

text \<open>
  The verdict on one bounded image-remediation retry,
  \<open>.github/actions/security-retry-result/retry_result.py\<close>. The evidence record has the keys of
  the \<open>RetryResult\<close> dictionary; the environment of \<open>main\<close> is a map from names to texts.
\<close>

section \<open>Evidence\<close>

record counts =
  cn_fixable :: int
  cn_unfixed :: int
  cn_misconfigurations :: int
  cn_secrets :: int

record retry_evidence =
  ev_initial_result :: string
  ev_rebuild_attempted :: bool
  ev_rebuild_result :: string
  ev_final_result :: string
  ev_passed :: bool
  ev_compatibility_allowed :: bool
  ev_counts :: counts

definition retry_classification :: "string \<Rightarrow> string" where
  "retry_classification raw =
     (case normalize_security_classification raw of
        Inl _ \<Rightarrow> ''scanner_error''
      | Inr normalized \<Rightarrow>
          if List.member SECURITY_CLASSIFICATIONS normalized \<and> normalized \<noteq> ''not-run''
          then normalized else ''scanner_error'')"

definition compatibility_allowed :: "string \<Rightarrow> string \<Rightarrow> counts \<Rightarrow> bool" where
  "compatibility_allowed final_result rebuild_result c \<longleftrightarrow>
     final_result = ''unfixed_warning''
     \<and> List.member [''skipped'', ''no_change''] rebuild_result
     \<and> cn_fixable c = 0 \<and> cn_unfixed c > 0 \<and> cn_misconfigurations c = 0 \<and> cn_secrets c = 0"

text \<open>The image IDs of a text, one a line; \<open>None\<close> if a line is no immutable image ID\<close>

definition image_refs :: "string \<Rightarrow> string set option" where
  "image_refs raw =
     (let refs = filter (\<lambda>r. r \<noteq> []) (map py_strip (py_splitlines raw)) in
      if list_ex (\<lambda>r. \<not> fullmatch SHA256_DIGEST r) refs then None else Some (set refs))"

record retry_input =
  ri_initial_outcome :: string
  ri_initial_classification :: string
  ri_rebuild_outcome :: string
  ri_final_outcome :: string
  ri_final_classification :: string
  ri_retry_enabled :: bool
  ri_initial_refs :: string
  ri_remediated_refs :: string
  ri_initial_counts :: counts
  ri_final_counts :: counts

definition may_promote :: "string \<Rightarrow> bool" where
  "may_promote cl = List.member [''clean'', ''unfixed_warning''] cl"

section \<open>The verdict\<close>

text \<open>The evidence when both reference lists are immutable image IDs\<close>

definition evaluate_retry_refs :: "retry_input \<Rightarrow> string set \<Rightarrow> string set \<Rightarrow> retry_evidence" where
  "evaluate_retry_refs i before after =
     (let initial = retry_classification (ri_initial_classification i);
          c = ri_initial_counts i;
          evidence = (\<lambda>attempted rebuild final passed allowed counts.
            \<lparr>ev_initial_result = initial, ev_rebuild_attempted = attempted,
             ev_rebuild_result = rebuild, ev_final_result = final, ev_passed = passed,
             ev_compatibility_allowed = allowed, ev_counts = counts\<rparr>)
      in
      if ri_initial_outcome i = ''success'' \<and> may_promote initial \<and> before \<noteq> {}
      then evidence False ''skipped'' initial True (compatibility_allowed initial ''skipped'' c) c
      else if ri_initial_outcome i = ''success''
              \<and> (initial \<noteq> ''actionable_vulnerability'' \<or> \<not> ri_retry_enabled i)
      then evidence False ''skipped''
             (if initial = ''actionable_vulnerability'' then initial else ''scanner_error'')
             False False c
      else if initial \<noteq> ''actionable_vulnerability'' \<or> \<not> ri_retry_enabled i
      then evidence False ''skipped'' initial False (compatibility_allowed initial ''skipped'' c) c
      else if ri_rebuild_outcome i = ''skipped''
      then evidence False ''skipped'' initial False False c
      else if ri_rebuild_outcome i \<noteq> ''success''
      then evidence True ''failed'' ''scanner_error'' False False c
      else if before = {} \<or> after = {}
      then evidence True ''failed'' ''scanner_error'' False False c
      else if before = after
      then evidence True ''no_change'' initial False (compatibility_allowed initial ''no_change'' c) c
      else
        (let final = retry_classification (ri_final_classification i); d = ri_final_counts i in
         if ri_final_outcome i = ''success'' \<and> may_promote final
         then evidence True ''passed'' final True (compatibility_allowed final ''passed'' d) d
         else evidence True ''failed'' final False (compatibility_allowed final ''failed'' d) d))"

definition evaluate_retry :: "retry_input \<Rightarrow> retry_evidence" where
  "evaluate_retry i =
     (case (image_refs (ri_initial_refs i), image_refs (ri_remediated_refs i)) of
        (Some before, Some after) \<Rightarrow> evaluate_retry_refs i before after
      | _ \<Rightarrow>
          (let initial = retry_classification (ri_initial_classification i);
               attempted = (initial = ''actionable_vulnerability'' \<and> ri_retry_enabled i);
               rebuild = (if attempted then ''failed'' else ''skipped'') in
           \<lparr>ev_initial_result = initial, ev_rebuild_attempted = attempted,
            ev_rebuild_result = rebuild, ev_final_result = ''scanner_error'', ev_passed = False,
            ev_compatibility_allowed =
              compatibility_allowed ''scanner_error'' rebuild (ri_initial_counts i),
            ev_counts = ri_initial_counts i\<rparr>))"

section \<open>The environment\<close>

type_synonym environment = "string \<Rightarrow> string option"

text \<open>\<open>os.environ.get(name, default)\<close>\<close>

definition env_get :: "environment \<Rightarrow> string \<Rightarrow> string \<Rightarrow> string" where
  "env_get env name fallback = (case env name of None \<Rightarrow> fallback | Some v \<Rightarrow> v)"

definition env_bool :: "environment \<Rightarrow> string \<Rightarrow> bool" where
  "env_bool env name \<longleftrightarrow> env_get env name [] = ''true''"

definition env_count :: "environment \<Rightarrow> string \<Rightarrow> int" where
  "env_count env name =
     (case py_int (env_get env name ''0'') of
        None \<Rightarrow> 0
      | Some v \<Rightarrow> if v \<ge> 0 then v else 0)"

definition env_counts :: "environment \<Rightarrow> string \<Rightarrow> counts" where
  "env_counts env pre =
     \<lparr>cn_fixable = env_count env (pre @ ''_FIXABLE_VULNERABILITY_COUNT''),
      cn_unfixed = env_count env (pre @ ''_UNFIXED_VULNERABILITY_COUNT''),
      cn_misconfigurations = env_count env (pre @ ''_MISCONFIGURATION_COUNT''),
      cn_secrets = env_count env (pre @ ''_SECRET_COUNT'')\<rparr>"

definition retry_input_of :: "environment \<Rightarrow> retry_input" where
  "retry_input_of env =
     \<lparr>ri_initial_outcome = env_get env ''INITIAL_OUTCOME'' [],
      ri_initial_classification = env_get env ''INITIAL_CLASSIFICATION'' [],
      ri_rebuild_outcome = env_get env ''REBUILD_OUTCOME'' [],
      ri_final_outcome = env_get env ''FINAL_OUTCOME'' [],
      ri_final_classification = env_get env ''FINAL_CLASSIFICATION'' [],
      ri_retry_enabled = env_bool env ''RETRY_ENABLED'',
      ri_initial_refs = env_get env ''INITIAL_REFS'' [],
      ri_remediated_refs = env_get env ''REMEDIATED_REFS'' [],
      ri_initial_counts = env_counts env ''INITIAL'',
      ri_final_counts = env_counts env ''FINAL''\<rparr>"

definition output_bool :: "bool \<Rightarrow> string" where
  "output_bool b = (if b then ''true'' else ''false'')"

text \<open>The lines \<open>main\<close> prints; it always exits with 0.\<close>

definition retry_main :: "environment \<Rightarrow> string list" where
  "retry_main env =
     (let r = evaluate_retry (retry_input_of env) in
      [''initial_result='' @ ev_initial_result r,
       ''rebuild_attempted='' @ output_bool (ev_rebuild_attempted r),
       ''rebuild_result='' @ ev_rebuild_result r,
       ''final_result='' @ ev_final_result r,
       ''passed='' @ output_bool (ev_passed r),
       ''compatibility_allowed='' @ output_bool (ev_compatibility_allowed r),
       ''fixable_vulnerability_count='' @ dec_int (cn_fixable (ev_counts r)),
       ''unfixed_vulnerability_count='' @ dec_int (cn_unfixed (ev_counts r)),
       ''misconfiguration_count='' @ dec_int (cn_misconfigurations (ev_counts r)),
       ''secret_count='' @ dec_int (cn_secrets (ev_counts r))])"

section \<open>A sample environment\<close>

text \<open>
  A failed first scan with two unfixed vulnerabilities. The secret count is unreadable, which
  the code counts as no secret.
\<close>

definition demo_scan :: environment where
  "demo_scan = map_of
     [(''INITIAL_OUTCOME'', ''failure''), (''INITIAL_CLASSIFICATION'', ''unfixed_warning''),
      (''INITIAL_UNFIXED_VULNERABILITY_COUNT'', ''2''), (''INITIAL_SECRET_COUNT'', ''n/a'')]"

lemma demo_scan_allowed: "ev_compatibility_allowed (evaluate_retry (retry_input_of demo_scan))"
  by code_simp

section \<open>Properties\<close>

lemma actionable_not_promoted: "\<not> may_promote ''actionable_vulnerability''"
  by (simp add: may_promote_def)

lemma evaluate_retry_cases [case_names invalid refs]:
  obtains "image_refs (ri_initial_refs i) = None \<or> image_refs (ri_remediated_refs i) = None"
      "ev_final_result (evaluate_retry i) = ''scanner_error''" "\<not> ev_passed (evaluate_retry i)"
      "\<not> ev_compatibility_allowed (evaluate_retry i)"
      "ev_rebuild_attempted (evaluate_retry i) \<longleftrightarrow> ev_rebuild_result (evaluate_retry i) \<noteq> ''skipped''"
      "ev_rebuild_result (evaluate_retry i) \<noteq> ''passed''"
      "ev_initial_result (evaluate_retry i) = retry_classification (ri_initial_classification i)"
  | before after where "image_refs (ri_initial_refs i) = Some before"
      "image_refs (ri_remediated_refs i) = Some after"
      "evaluate_retry i = evaluate_retry_refs i before after"
proof (cases "image_refs (ri_initial_refs i) = None \<or> image_refs (ri_remediated_refs i) = None")
  case True
  then show ?thesis
    by (intro that(1)) (auto simp: evaluate_retry_def compatibility_allowed_def Let_def split: option.splits)
next
  case False
  then obtain before after where "image_refs (ri_initial_refs i) = Some before"
    "image_refs (ri_remediated_refs i) = Some after" by auto
  then show ?thesis by (intro that(2)) (simp_all add: evaluate_retry_def)
qed

text \<open>The immutable image IDs a text names, one a line\<close>

definition image_ids :: "string \<Rightarrow> string set" where
  "image_ids raw = {r. r \<noteq> [] \<and> r \<in> py_strip ` set (py_splitlines raw)}"

lemma image_refs_eq:
  "image_refs raw =
     (if \<forall>r \<in> image_ids raw. fullmatch SHA256_DIGEST r then Some (image_ids raw) else None)"
proof -
  have "set (filter (\<lambda>r. r \<noteq> []) (map py_strip (py_splitlines raw))) = image_ids raw"
    by (auto simp: image_ids_def)
  then show ?thesis
    unfolding image_refs_def Let_def list_ex_iff by auto
qed

lemma may_promote_iff: "may_promote cl \<longleftrightarrow> cl \<in> {''clean'', ''unfixed_warning''}"
  by (simp add: may_promote_def)

text \<open>
  C26: Unless the first scan already passed, a candidate is promoted exactly for images the
  retry changed. Let the first scan have failed or not be classified as clean or unfixed
  only. Then the retry passes if and only if every listed ID is an immutable image ID, both
  lists are non-empty and name different sets, the first scan found actionable vulnerabilities,
  the retry was enabled and its rebuild succeeded, and the final scan succeeded and found
  nothing or unfixed findings only; the rebuild is reported as passed in no other case, and the
  reported result and counts are then those of the final scan. A rebuild that left the images
  as they were is \<open>no_change\<close> with the actionable result of the first scan, and an ID that is
  not immutable makes the result a scanner error.
\<close>
theorem retry_promotes_changed_images:
  fixes i :: retry_input
  defines "before \<equiv> image_ids (ri_initial_refs i)" and "after \<equiv> image_ids (ri_remediated_refs i)"
    and "r \<equiv> evaluate_retry i"
  assumes "ri_initial_outcome i \<noteq> ''success''
    \<or> retry_classification (ri_initial_classification i) \<notin> {''clean'', ''unfixed_warning''}"
  shows "(ev_passed r \<longleftrightarrow>
      (\<forall>d \<in> before \<union> after. fullmatch SHA256_DIGEST d) \<and> before \<noteq> {} \<and> after \<noteq> {} \<and> before \<noteq> after
      \<and> retry_classification (ri_initial_classification i) = ''actionable_vulnerability''
      \<and> ri_retry_enabled i \<and> ri_rebuild_outcome i = ''success'' \<and> ri_final_outcome i = ''success''
      \<and> retry_classification (ri_final_classification i) \<in> {''clean'', ''unfixed_warning''})
    \<and> (ev_rebuild_result r = ''passed'' \<longleftrightarrow> ev_passed r)
    \<and> (ev_passed r \<longrightarrow> ev_counts r = ri_final_counts i
         \<and> ev_final_result r = retry_classification (ri_final_classification i))
    \<and> ((\<forall>d \<in> before \<union> after. fullmatch SHA256_DIGEST d) \<and> before \<noteq> {} \<and> before = after
       \<and> retry_classification (ri_initial_classification i) = ''actionable_vulnerability''
       \<and> ri_retry_enabled i \<and> ri_rebuild_outcome i = ''success'' \<longrightarrow>
         ev_rebuild_result r = ''no_change'' \<and> ev_final_result r = ''actionable_vulnerability'')
    \<and> ((\<exists>d \<in> before \<union> after. \<not> fullmatch SHA256_DIGEST d) \<longrightarrow> ev_final_result r = ''scanner_error'')"
proof (cases "\<forall>d \<in> before \<union> after. fullmatch SHA256_DIGEST d")
  case True
  have r: "r = evaluate_retry_refs i before after"
    using True by (simp add: r_def before_def after_def evaluate_retry_def image_refs_eq)
  have na: "\<not> (ri_initial_outcome i = ''success''
      \<and> may_promote (retry_classification (ri_initial_classification i)) \<and> before \<noteq> {})"
    using assms(4) by (auto simp: may_promote_iff)
  show ?thesis
  proof (cases "retry_classification (ri_initial_classification i) = ''actionable_vulnerability'' \<and> ri_retry_enabled i")
    case act: True
    then show ?thesis
      using True na unfolding r evaluate_retry_refs_def Let_def may_promote_iff by simp
  next
    case False
    then show ?thesis
      using True na unfolding r evaluate_retry_refs_def Let_def may_promote_iff by auto
  qed
next
  case False
  then have "image_refs (ri_initial_refs i) = None \<or> image_refs (ri_remediated_refs i) = None"
    by (auto simp: before_def after_def image_refs_eq)
  then show ?thesis
    using False by (cases i rule: evaluate_retry_cases) (auto simp: r_def)
qed

definition demo_retry :: environment where
  "demo_retry = map_of
     [(''INITIAL_OUTCOME'', ''failure''), (''INITIAL_CLASSIFICATION'', ''actionable_vulnerability''),
      (''REBUILD_OUTCOME'', ''success''), (''FINAL_OUTCOME'', ''success''), (''FINAL_CLASSIFICATION'', ''clean''),
      (''RETRY_ENABLED'', ''true''), (''INITIAL_REFS'', ''sha256:'' @ replicate 64 CHR ''a''),
      (''REMEDIATED_REFS'', ''sha256:'' @ replicate 64 CHR ''b'')]"

lemma demo_retry_fields:
  "ri_initial_outcome (retry_input_of demo_retry) \<noteq> ''success''"
  "ri_retry_enabled (retry_input_of demo_retry)" "ri_rebuild_outcome (retry_input_of demo_retry) = ''success''"
  "ri_final_outcome (retry_input_of demo_retry) = ''success''"
  "retry_classification (ri_initial_classification (retry_input_of demo_retry)) = ''actionable_vulnerability''"
  "retry_classification (ri_final_classification (retry_input_of demo_retry)) = ''clean''"
  by code_simp+

lemma demo_retry_ids:
  "image_ids (ri_initial_refs (retry_input_of demo_retry)) = {''sha256:'' @ replicate 64 CHR ''a''}"
  "image_ids (ri_remediated_refs (retry_input_of demo_retry)) = {''sha256:'' @ replicate 64 CHR ''b''}"
  "fullmatch SHA256_DIGEST (''sha256:'' @ replicate 64 CHR ''a'')"
  "fullmatch SHA256_DIGEST (''sha256:'' @ replicate 64 CHR ''b'')"
proof -
  have "map py_strip (py_splitlines (ri_initial_refs (retry_input_of demo_retry)))
      = [''sha256:'' @ replicate 64 CHR ''a'']"
    "map py_strip (py_splitlines (ri_remediated_refs (retry_input_of demo_retry)))
      = [''sha256:'' @ replicate 64 CHR ''b'']"
    by code_simp+
  from this [THEN arg_cong [where f = set]]
  show "image_ids (ri_initial_refs (retry_input_of demo_retry)) = {''sha256:'' @ replicate 64 CHR ''a''}"
    "image_ids (ri_remediated_refs (retry_input_of demo_retry)) = {''sha256:'' @ replicate 64 CHR ''b''}"
    by (auto simp: image_ids_def)
qed code_simp+

theorem retry_promotes_changed_images_witness:
  "ev_passed (evaluate_retry (retry_input_of demo_retry))
    \<and> ev_rebuild_result (evaluate_retry (retry_input_of demo_retry)) = ''passed''
    \<and> ev_final_result (evaluate_retry (retry_input_of demo_retry)) = ''clean''"
proof -
  note t = retry_promotes_changed_images [OF disjI1, OF demo_retry_fields(1)]
  have "ev_passed (evaluate_retry (retry_input_of demo_retry))"
    using demo_retry_fields demo_retry_ids by (subst conjunct1 [OF t]) simp
  then show ?thesis using t demo_retry_fields(6) by simp
qed

text \<open>
  Compatibility is granted for unfixable vulnerabilities only: the first scan was
  classified as an unfixed warning, nothing was rebuilt, and the counts of that scan, which
  are the reported ones, show some unfixed vulnerability and no fixable one, no
  misconfiguration and no secret. A rebuild that changed nothing never earns it.
\<close>
lemma retry_compatibility_safe:
  assumes "ev_compatibility_allowed (evaluate_retry i)"
  shows "ev_final_result (evaluate_retry i) = ''unfixed_warning''
    \<and> ev_initial_result (evaluate_retry i) = ''unfixed_warning''
    \<and> \<not> ev_rebuild_attempted (evaluate_retry i) \<and> ev_rebuild_result (evaluate_retry i) = ''skipped''
    \<and> ev_counts (evaluate_retry i) = ri_initial_counts i
    \<and> cn_fixable (ri_initial_counts i) = 0 \<and> cn_unfixed (ri_initial_counts i) > 0
    \<and> cn_misconfigurations (ri_initial_counts i) = 0 \<and> cn_secrets (ri_initial_counts i) = 0"
proof (cases i rule: evaluate_retry_cases)
  case invalid
  then show ?thesis using assms by simp
next
  case (refs before after)
  note na = actionable_not_promoted
  have "\<not> ev_compatibility_allowed (evaluate_retry_refs i before after)"
    if "retry_classification (ri_initial_classification i) = ''actionable_vulnerability''"
    using that na unfolding evaluate_retry_refs_def Let_def compatibility_allowed_def by simp
  then have "retry_classification (ri_initial_classification i) \<noteq> ''actionable_vulnerability''"
    using assms refs(3) by auto
  then show ?thesis
    using assms unfolding refs(3) evaluate_retry_refs_def Let_def compatibility_allowed_def
    by (simp split: if_splits)
qed

theorem retry_compatibility_safe_witness:
  "ev_compatibility_allowed (evaluate_retry (retry_input_of demo_scan))
    \<and> ev_final_result (evaluate_retry (retry_input_of demo_scan)) = ''unfixed_warning''
    \<and> cn_secrets (ri_initial_counts (retry_input_of demo_scan)) = 0"
  using retry_compatibility_safe [OF demo_scan_allowed] demo_scan_allowed by blast

end
