(* ===== verification/FileOutput.thy ===== *)
theory FileOutput
  imports FileSystem
begin

text \<open>
  Writing files the way the security and release scripts do: missing parent directories are
  created, a file is written through a link in its place, a rename replaces the directory
  entry itself. \<open>atomic_write\<close> is the helper \<open>_atomic_write\<close> most of the scripts have a copy of.
\<close>

section \<open>Primitive operations\<close>

definition eexist :: exc where "eexist = Exc OSError ''File exists''"
definition eisdir :: exc where "eisdir = Exc OSError ''Is a directory''"

text \<open>\<open>os.mkdir(path)\<close>, and \<open>path.mkdir(parents=True, exist_ok=True)\<close> along the prefixes of a path\<close>

definition mkdir1 :: "string list \<Rightarrow> (fsys, unit) action" where
  "mkdir1 p fs =
     (if is_dir fs p then (Inr (), fs)
      else if p = [] \<or> last p = dotdot \<or> path_exists fs p \<or> is_symlink fs p then (Inl eexist, fs)
      else (case walk fs True link_limit [] (butlast p) of
              Inl e \<Rightarrow> (Inl e, fs)
            | Inr d \<Rightarrow> if lookup fs d = Some Dir then (Inr (), put_node (d @ [last p]) Dir fs)
                       else (Inl enoent, fs)))"

fun mkdir_all :: "string list list \<Rightarrow> (fsys, unit) action" where
  "mkdir_all [] = liftW (Inr ())"
| "mkdir_all (p # ps) = bindW (mkdir1 p) (\<lambda>_. mkdir_all ps)"

definition mkdir_parents :: "string list \<Rightarrow> (fsys, unit) action" where
  "mkdir_parents p = mkdir_all (prefixes p)"

text \<open>\<open>path.write_text(content)\<close>: opens through links, creates or truncates\<close>

definition write_text :: "string list \<Rightarrow> string \<Rightarrow> (fsys, unit) action" where
  "write_text p content fs =
     (if \<not> is_dir fs (butlast p) then (Inl enoent, fs)
      else (case walk fs False link_limit [] p of
              Inl e \<Rightarrow> (Inl e, fs)
            | Inr r \<Rightarrow>
                if r = [] \<or> lookup fs r = Some Dir then (Inl eisdir, fs)
                else if lookup fs (butlast r) \<noteq> Some Dir then (Inl enoent, fs)
                else (Inr (), put_node r (File content) fs)))"

text \<open>\<open>source.replace(target)\<close> for two names in one directory: the entry itself moves\<close>

definition replace_entry :: "string list \<Rightarrow> string \<Rightarrow> string \<Rightarrow> (fsys, unit) action" where
  "replace_entry dir source target fs =
     (case walk fs True link_limit [] dir of
        Inl e \<Rightarrow> (Inl e, fs)
      | Inr d \<Rightarrow>
          (case lookup fs (d @ [source]) of
             None \<Rightarrow> (Inl enoent, fs)
           | Some nd \<Rightarrow>
               if lookup fs (d @ [target]) = Some Dir then (Inl eisdir, fs)
               else (Inr (), fs\<lparr>nodes := (nodes fs)(d @ [source] := None, d @ [target] \<mapsto> nd)\<rparr>)))"

text \<open>
  \<open>temporary = path.with_suffix(path.suffix + ".tmp")\<close>, \<open>temporary.write_text(content)\<close>,
  \<open>temporary.replace(path)\<close>
\<close>

definition write_and_replace :: "string list \<Rightarrow> string \<Rightarrow> (fsys, unit) action" where
  "write_and_replace p content =
     bindW (write_text (butlast p @ [last p @ ''.tmp'']) content)
       (\<lambda>_. replace_entry (butlast p) (last p @ ''.tmp'') (last p))"

text \<open>A link is refused, before or after the parents are made.\<close>

definition refuse_symlink :: "exc \<Rightarrow> string list \<Rightarrow> (fsys, unit) action" where
  "refuse_symlink e p fs = (if is_symlink fs p then Inl e else Inr (), fs)"

definition atomic_write :: "exc \<Rightarrow> string list \<Rightarrow> string \<Rightarrow> (fsys, unit) action" where
  "atomic_write e p content =
     bindW (refuse_symlink e p) (\<lambda>_.
     bindW (mkdir_parents (butlast p)) (\<lambda>_. write_and_replace p content))"

definition atomic_write_after :: "exc \<Rightarrow> string list \<Rightarrow> string \<Rightarrow> (fsys, unit) action" where
  "atomic_write_after e p content =
     bindW (mkdir_parents (butlast p)) (\<lambda>_.
     bindW (refuse_symlink e p) (\<lambda>_. write_and_replace p content))"

text \<open>\<open>path.open("a")\<close> and writing\<close>

definition append_text :: "string list \<Rightarrow> string \<Rightarrow> (fsys, unit) action" where
  "append_text p content fs =
     write_text p ((case walk fs True link_limit [] p of
                      Inl _ \<Rightarrow> []
                    | Inr r \<Rightarrow> (case lookup fs r of Some (File s) \<Rightarrow> s | _ \<Rightarrow> [])) @ content) fs"

section \<open>What a write leaves\<close>

lemma butlast_snoc_last: "p \<noteq> [] \<Longrightarrow> butlast p @ [last p] = p"
  by simp

lemma lookup_put_node: "p \<noteq> [] \<Longrightarrow> lookup (put_node p nd fs) q = (if q = p then Some nd else lookup fs q)"
  by (simp add: lookup_def put_node_def)

lemma walk_put_new:
  "walk fs strict n cur ps = Inr r \<Longrightarrow> strict \<Longrightarrow> lookup fs q = None \<Longrightarrow> q \<noteq> []
   \<Longrightarrow> walk (put_node q nd fs) strict n cur ps = Inr r"
proof (induction fs strict n cur ps rule: walk.induct)
  case (2 fs strict n cur x xs)
  show ?case
  proof (cases "x = dotdot")
    case True
    with 2 show ?thesis by simp
  next
    case False
    note IH = 2(2-5)[OF False]
    have eq: "walk fs strict n cur (x # xs) = Inr r" using 2 by simp
    show ?thesis
    proof (cases "lookup fs (cur @ [x])")
      case None
      with eq False 2 show ?thesis by (simp add: walk.simps(2))
    next
      case (Some nd')
      with 2 have same: "lookup (put_node q nd fs) (cur @ [x]) = Some nd'"
        by (auto simp: lookup_put_node)
      show ?thesis
      proof (cases nd')
        case (Link t)
        with Some False eq obtain m where "n = Suc m" by (cases n) (auto simp: walk.simps(2))
        with Some False eq Link IH(4)[OF Some Link, of m] same 2(7-) show ?thesis
          by (simp add: walk.simps(2))
      qed (use Some False eq IH(2-3)[OF Some] same 2(7-) in \<open>simp_all add: walk.simps(2)\<close>)
    qed
  qed
qed simp

text \<open>In an existing plain directory an atomic write leaves the file and touches nothing else.\<close>

lemma write_and_replace_plain:
  assumes "plain fs [] (d @ [n])" and "lookup fs (normal [] d) = Some Dir" and "is_dir fs d"
    and "lookup fs (normal [] d @ [n]) \<noteq> Some Dir" and "n \<noteq> dotdot" and "n @ ''.tmp'' \<noteq> dotdot"
    and "lookup fs (normal [] d @ [n @ ''.tmp'']) = None"
  shows "write_and_replace (d @ [n]) content fs
           = (Inr (), fs\<lparr>nodes := (nodes fs)(normal [] d @ [n @ ''.tmp''] := None,
                                      normal [] d @ [n] \<mapsto> File content)\<rparr>)"
proof -
  let ?d = "normal [] d"
  have pl: "plain fs [] d" using assms(1) by (simp add: plain_append)
  have tmp: "plain fs [] (d @ [n @ ''.tmp''])"
    using pl assms(6,7) by (simp add: plain_append is_link_at_def)
  have w: "write_text (d @ [n @ ''.tmp'']) content fs
      = (Inr (), put_node (?d @ [n @ ''.tmp'']) (File content) fs)"
    using assms(2,3,6,7) walk_plain_lenient [OF tmp, of link_limit]
    by (simp add: write_text_def)
  let ?fs = "put_node (?d @ [n @ ''.tmp'']) (File content) fs"
  have "walk fs True link_limit [] d = Inr ?d"
    using walk_plain_strict [OF pl, of link_limit] assms(3) by (auto simp: is_dir_def)
  then have "walk ?fs True link_limit [] d = Inr ?d"
    using assms(7) by (intro walk_put_new) simp_all
  then show ?thesis
    using assms(4) by (simp add: write_and_replace_def bindW_def w replace_entry_def lookup_put_node) (simp add: put_node_def)
qed

lemma mkdir_existing: "list_all (is_dir fs) ps \<Longrightarrow> mkdir_all ps fs = (Inr (), fs)"
  by (induction ps) (simp_all add: bindW_def mkdir1_def)

lemma mkdir_parents_existing:
  assumes "fs_wf fs" and "settled fs d" and "lookup fs d = Some Dir"
  shows "mkdir_parents d fs = (Inr (), fs)"
proof -
  have "is_dir fs q" if "q \<in> set (prefixes d)" for q
  proof -
    have pre: "prefix q d" using that by simp
    then have "settled fs q \<and> lookup fs q = Some Dir"
      using assms fs_wf_prefix_dir [of fs d q] by (cases "q = d") (auto simp: settled_def is_link_at_def strict_prefix_def)
    then show ?thesis using assms(1) by (simp add: settled_is_dir)
  qed
  then show ?thesis by (simp add: mkdir_parents_def list_all_iff mkdir_existing)
qed

text \<open>An atomic write to a new name in an existing directory\<close>

lemma atomic_write_new:
  assumes "fs_wf fs" and "lookup fs d = Some Dir" and "lookup fs (d @ [n]) = None \<or> (\<exists>s. lookup fs (d @ [n]) = Some (File s))"
    and "lookup fs (d @ [n @ ''.tmp'']) = None" and "n \<noteq> dotdot" and "n @ ''.tmp'' \<noteq> dotdot"
  shows "atomic_write e (d @ [n]) content fs
           = (Inr (), fs\<lparr>nodes := (nodes fs)(d @ [n @ ''.tmp''] := None, d @ [n] \<mapsto> File content)\<rparr>)"
proof -
  have st: "settled fs d" using assms(2) by (simp add: settled_def is_link_at_def)
  have pl: "plain fs [] d" "normal [] d = d" using settled_plain [OF assms(1) st] by simp_all
  have nl: "\<not> is_link_at fs (d @ [n])" using assms(3) by (auto simp: is_link_at_def)
  have w: "walk fs True link_limit [] d = Inr d \<or> walk fs True link_limit [] d = Inl enoent"
    using walk_plain_strict [OF pl(1), of link_limit] pl(2) by simp
  have dir: "is_dir fs d" using settled_is_dir [OF assms(1) st] assms(2) by simp
  have "\<not> is_symlink fs (d @ [n])"
    using nl w by (auto simp: is_symlink_def)
  moreover have "plain fs [] (d @ [n])" using pl nl assms(5) by (simp add: plain_append)
  ultimately show ?thesis
    using write_and_replace_plain [of fs d n content] assms pl dir mkdir_parents_existing [OF assms(1) st assms(2)]
    by (auto simp: atomic_write_def bindW_def refuse_symlink_def)
qed

end
