(* ===== verification/Security_Baseline.thy ===== *)
theory Security_Baseline
  imports Security_Summary FileOutput World
begin

text \<open>
  The reviewed vulnerability baseline, \<open>scripts/security_gate/baseline.py\<close>: exact fingerprints
  of one image scope are removed from a Trivy report before it is enforced. The set of
  approved fingerprints is kept as a list without duplicates. A date is its ordinal, and
  \<open>reference\<close> the day the baseline is applied.
\<close>

section \<open>Loading and fields\<close>

definition baseline_error :: "string \<Rightarrow> exc" where "baseline_error m = Exc BaselineError m"

definition baseline_load_json ::
    "(string \<Rightarrow> json result) \<Rightarrow> fsys \<Rightarrow> string list \<Rightarrow> string \<Rightarrow> jobj result" where
  "baseline_load_json loads fs p label =
     load_object BaselineError (label @ '' must be a regular non-symlink file'')
       (label @ '' must be valid UTF-8 JSON'') (label @ '' must be a JSON object'') loads fs p"

definition baseline_text :: "jobj \<Rightarrow> string \<Rightarrow> string result" where
  "baseline_text = required_text BaselineError ''baseline''"

definition finding_fingerprint :: "(json \<Rightarrow> string) \<Rightarrow> string \<Rightarrow> jobj \<Rightarrow> string list result" where
  "finding_fingerprint show target f =
     (let fields = [py_strip target, normal_text show (jget ''VulnerabilityID'' f),
                    normal_text show (jget ''PkgName'' f), normal_text show (jget ''InstalledVersion'' f),
                    normal_text show (jget ''FixedVersion'' f)] in
      if list_ex (\<lambda>v. v = []) fields
      then Inl (baseline_error ''Trivy vulnerability is missing baseline fingerprint fields'')
      else Inr fields)"

definition BASELINE_NAMES :: "string list" where
  "BASELINE_NAMES = [''target'', ''id'', ''package'', ''installed_version'', ''fixed_version'']"

definition finding_label :: "nat \<Rightarrow> string" where
  "finding_label i = ''baseline findings['' @ dec i @ '']''"

definition baseline_fingerprint :: "jobj \<Rightarrow> nat \<Rightarrow> string list result" where
  "baseline_fingerprint entry i =
     mapE (\<lambda>name.
       (case jget name entry of
          JStr v \<Rightarrow> if py_strip v = []
            then Inl (baseline_error (finding_label i @ ''.'' @ name @ '' is required''))
            else Inr (py_strip v)
        | _ \<Rightarrow> Inl (baseline_error (finding_label i @ ''.'' @ name @ '' is required''))))
       BASELINE_NAMES"

section \<open>The approved fingerprints\<close>

definition entry_scope :: "jobj \<Rightarrow> nat \<Rightarrow> string result" where
  "entry_scope entry i =
     (case jget ''scope'' entry of
        JStr s \<Rightarrow> guardE (fullmatch SHA256_DIGEST (py_strip s))
                   (baseline_error (finding_label i @ ''.scope must be a sha256 image ID''))
                   (Inr (py_strip s))
      | _ \<Rightarrow> Inl (baseline_error (finding_label i @ ''.scope must be a sha256 image ID'')))"

fun approve :: "string \<Rightarrow> nat \<Rightarrow> json list \<Rightarrow> string list list \<Rightarrow> string list list result" where
  "approve scope i [] approved = Inr approved"
| "approve scope i (JObj entry # rest) approved =
     bindE (entry_scope entry i) (\<lambda>item_scope.
       if py_lower item_scope \<noteq> py_lower scope then approve scope (Suc i) rest approved
       else bindE (baseline_fingerprint entry i) (\<lambda>fingerprint.
         guardE (\<not> List.member approved fingerprint)
           (baseline_error (''duplicate baseline fingerprint at findings['' @ dec i @ '']''))
           (approve scope (Suc i) rest (approved @ [fingerprint]))))"
| "approve scope i (_ # rest) approved =
     Inl (baseline_error (finding_label i @ '' must be an object''))"

section \<open>Filtering the report\<close>

text \<open>The matched fingerprints so far and the findings retained\<close>

fun retain ::
    "(json \<Rightarrow> string) \<Rightarrow> string list list \<Rightarrow> string \<Rightarrow> json list \<Rightarrow> string list list
     \<Rightarrow> (string list list \<times> json list) result" where
  "retain show approved target [] matched = Inr (matched, [])"
| "retain show approved target (JObj f # rest) matched =
     bindE (finding_fingerprint show target f) (\<lambda>fingerprint.
       if List.member approved fingerprint
       then retain show approved target rest (List.insert fingerprint matched)
       else bindE (retain show approved target rest matched)
              (\<lambda>(matched', retained). Inr (matched', JObj f # retained)))"
| "retain show approved target (_ # rest) matched =
     Inl (baseline_error ''Trivy vulnerability entries must be objects'')"

fun filter_results ::
    "(json \<Rightarrow> string) \<Rightarrow> string list list \<Rightarrow> json list \<Rightarrow> string list list \<Rightarrow> nat
     \<Rightarrow> (json list \<times> string list list \<times> nat) result" where
  "filter_results show approved [] matched remaining = Inr ([], matched, remaining)"
| "filter_results show approved (JObj result # rest) matched remaining =
     bindE (optional_array (baseline_error ''Trivy Vulnerabilities must be an array'')
              ''Vulnerabilities'' result) (\<lambda>vulnerabilities.
     bindE (retain show approved (normal_text show (jget ''Target'' result)) vulnerabilities matched)
       (\<lambda>(matched1, retained).
     let result1 = dict_set ''Vulnerabilities'' (JArr retained) result in
     bindE (optional_array (baseline_error ''Trivy Misconfigurations must be an array'')
              ''Misconfigurations'' result1) (\<lambda>configs.
     bindE (optional_array (baseline_error ''Trivy Secrets must be an array'') ''Secrets'' result1)
       (\<lambda>secrets.
     bindE (filter_results show approved rest matched1
              (remaining + length retained + length configs + length secrets))
       (\<lambda>(results, matched', remaining'). Inr (JObj result1 # results, matched', remaining'))))))"
| "filter_results show approved (_ # rest) matched remaining =
     Inl (baseline_error ''Trivy Results entries must be objects'')"

text \<open>\<open>filtered.get("Results", [])\<close>, stored back if it was \<open>null\<close>\<close>

definition report_array :: "jobj \<Rightarrow> (json list \<times> bool) result" where
  "report_array report =
     (case map_of report ''Results'' of
        None \<Rightarrow> Inr ([], False)
      | Some JNull \<Rightarrow> Inr ([], True)
      | Some (JArr xs) \<Rightarrow> Inr (xs, True)
      | Some _ \<Rightarrow> Inl (baseline_error ''Trivy Results must be an array''))"

section \<open>Applying a baseline\<close>

record reviewed =
  bl_owner :: string
  bl_reviewed_at :: string
  bl_expires :: string
  bl_statement :: string
  bl_control :: string

definition check_dates :: "nat \<Rightarrow> string \<Rightarrow> string \<Rightarrow> unit result" where
  "check_dates reference reviewed_at expires =
     (case (parse_date reviewed_at, parse_date expires) of
        (Some r, Some e) \<Rightarrow>
          guardE (r \<le> reference) (baseline_error ''baseline reviewed_at must not be in the future'')
          (guardE (reference \<le> e) (baseline_error (''baseline expired on '' @ expires)) (Inr ()))
      | _ \<Rightarrow> Inl (baseline_error ''baseline dates must use YYYY-MM-DD''))"

definition review_of :: "nat \<Rightarrow> jobj \<Rightarrow> reviewed result" where
  "review_of reference baseline =
     guardE (eq_int (jget ''version'' baseline) 1) (baseline_error ''baseline version must be 1'')
     (bindE (baseline_text baseline ''owner'') (\<lambda>owner.
      bindE (baseline_text baseline ''reviewed_at'') (\<lambda>reviewed_at.
      bindE (baseline_text baseline ''expires'') (\<lambda>expires.
      bindE (baseline_text baseline ''statement'') (\<lambda>statement.
      bindE (baseline_text baseline ''compensating_control'') (\<lambda>control.
      bindE (check_dates reference reviewed_at expires) (\<lambda>_.
        Inr \<lparr>bl_owner = owner, bl_reviewed_at = reviewed_at, bl_expires = expires,
             bl_statement = statement, bl_control = control\<rparr>)))))))"

definition approved_of :: "string \<Rightarrow> jobj \<Rightarrow> string list list result" where
  "approved_of scope baseline =
     (case jget ''findings'' baseline of
        JArr xs \<Rightarrow> if xs = [] then Inl (baseline_error ''baseline findings must be a non-empty array'')
                   else approve scope 0 xs []
      | _ \<Rightarrow> Inl (baseline_error ''baseline findings must be a non-empty array''))"

definition baseline_summary :: "string \<Rightarrow> reviewed \<Rightarrow> nat \<Rightarrow> nat \<Rightarrow> nat \<Rightarrow> jobj" where
  "baseline_summary scope rv approved matched remaining =
     [(''schema_version'', JInt 1),
      (''status'', JStr (if approved \<noteq> 0 then ''validated'' else ''not-applicable'')),
      (''scope'', JStr (py_lower scope)),
      (''owner'', JStr (bl_owner rv)),
      (''reviewed_at'', JStr (bl_reviewed_at rv)),
      (''expires'', JStr (bl_expires rv)),
      (''statement'', JStr (bl_statement rv)),
      (''compensating_control'', JStr (bl_control rv)),
      (''approved'', JInt (int approved)),
      (''matched'', JInt (int matched)),
      (''remaining'', JInt (int remaining))]"

definition filter_report ::
    "(json \<Rightarrow> string) \<Rightarrow> nat \<Rightarrow> string \<Rightarrow> jobj \<Rightarrow> jobj \<Rightarrow> (jobj \<times> jobj) result" where
  "filter_report show reference scope report baseline =
     bindE (review_of reference baseline) (\<lambda>rv.
     bindE (approved_of scope baseline) (\<lambda>approved.
     bindE (report_array report) (\<lambda>(raw_results, stored).
     bindE (filter_results show approved raw_results [] 0) (\<lambda>(results, matched, remaining).
       let stale = filter (\<lambda>f. \<not> List.member matched f) approved in
       guardE (stale = [])
         (baseline_error (''baseline contains '' @ dec (length stale)
            @ '' fingerprint(s) absent from the current report for '' @ scope))
         (Inr (if stored then dict_set ''Results'' (JArr results) report else report,
               baseline_summary scope rv (length approved) (length matched) remaining))))))"

definition output_symlink_error :: "string list \<Rightarrow> exc" where
  "output_symlink_error p = baseline_error (''output must not be a symlink: '' @ posix_text p)"

definition apply_baseline ::
    "(json \<Rightarrow> string) \<Rightarrow> (json \<Rightarrow> string) \<Rightarrow> (string \<Rightarrow> json result) \<Rightarrow> nat
     \<Rightarrow> string list \<Rightarrow> string list \<Rightarrow> string list \<Rightarrow> string list \<Rightarrow> string \<Rightarrow> (fsys, jobj) action" where
  "apply_baseline show dumps loads reference report_path baseline_path output_path summary_path scope =
     bindW (\<lambda>fs. (guardE (fullmatch SHA256_DIGEST scope)
             (baseline_error ''baseline scope must be an immutable sha256 image ID'')
           (bindE (baseline_load_json loads fs report_path ''Trivy report'') (\<lambda>report.
            bindE (baseline_load_json loads fs baseline_path ''baseline'') (\<lambda>baseline.
              filter_report show reference scope report baseline))), fs)) (\<lambda>(filtered, summary).
     bindW (atomic_write (output_symlink_error output_path) output_path
              (dumps (JObj filtered) @ [LF])) (\<lambda>_.
     bindW (atomic_write (output_symlink_error summary_path) summary_path
              (dumps (JObj summary) @ [LF])) (\<lambda>_. liftW (Inr summary))))"

text \<open>The exit code of \<open>main\<close>; an uncaught exception exits with 1.\<close>

definition baseline_exit :: "jobj result \<Rightarrow> int" where
  "baseline_exit r =
     (case r of
        Inr summary \<Rightarrow> if eq_int (jget ''remaining'' summary) 0 then 0 else 1
      | Inl e \<Rightarrow> if catches [BaselineError, OSError, KeyError] e then 2 else 1)"

section \<open>What is suppressed\<close>

definition in_scope :: "string \<Rightarrow> jobj \<Rightarrow> bool" where
  "in_scope scope entry =
     (case jget ''scope'' entry of JStr s \<Rightarrow> py_lower (py_strip s) = py_lower scope | _ \<Rightarrow> False)"

definition entry_print :: "jobj \<Rightarrow> string list" where
  "entry_print entry = map (\<lambda>n. case jget n entry of JStr v \<Rightarrow> py_strip v | _ \<Rightarrow> []) BASELINE_NAMES"

definition reviewed_prints :: "string \<Rightarrow> jobj \<Rightarrow> string list list" where
  "reviewed_prints scope baseline =
     map entry_print (filter (in_scope scope) (objects (array_of ''findings'' baseline)))"

definition vuln_print :: "(json \<Rightarrow> string) \<Rightarrow> jobj \<Rightarrow> jobj \<Rightarrow> string list" where
  "vuln_print show result f =
     [normal_text show (jget ''Target'' result), normal_text show (jget ''VulnerabilityID'' f),
      normal_text show (jget ''PkgName'' f), normal_text show (jget ''InstalledVersion'' f),
      normal_text show (jget ''FixedVersion'' f)]"

definition vulnerabilities :: "jobj \<Rightarrow> jobj list" where
  "vulnerabilities result = objects (array_of ''Vulnerabilities'' result)"

definition suppress :: "(json \<Rightarrow> string) \<Rightarrow> string list list \<Rightarrow> jobj \<Rightarrow> jobj" where
  "suppress show approved result =
     dict_set ''Vulnerabilities''
       (JArr (map JObj (filter (\<lambda>f. \<not> List.member approved (vuln_print show result f))
                          (vulnerabilities result)))) result"

lemma mapE_Inr_map: "mapE f xs = Inr ys \<Longrightarrow> (\<And>x y. x \<in> set xs \<Longrightarrow> f x = Inr y \<Longrightarrow> y = g x) \<Longrightarrow> ys = map g xs"
  by (induction xs arbitrary: ys) (auto simp: res_simps)

lemma baseline_fingerprint_Inr: "baseline_fingerprint entry i = Inr fp \<Longrightarrow> fp = entry_print entry"
  unfolding baseline_fingerprint_def entry_print_def
  by (erule mapE_Inr_map) (auto split: json.splits if_splits)

lemma entry_scope_Inr:
  "entry_scope entry i = Inr s \<Longrightarrow> in_scope scope entry \<longleftrightarrow> py_lower s = py_lower scope"
  by (auto simp: entry_scope_def in_scope_def res_simps split: json.splits)

lemma approve_exact:
  "approve scope i xs approved = Inr out \<Longrightarrow>
     out = approved @ map entry_print (filter (in_scope scope) (objects xs))
     \<and> (distinct approved \<longrightarrow> distinct out)"
proof (induction scope i xs approved rule: approve.induct)
  case (2 scope i entry rest approved)
  then obtain s where s: "entry_scope entry i = Inr s"
    by (auto simp: res_simps)
  note scope = entry_scope_Inr [OF s, of scope]
  show ?case
  proof (cases "py_lower s = py_lower scope")
    case False
    then have "\<not> in_scope scope entry" using scope by simp
    have "approve scope (Suc i) rest approved = Inr out" using 2(3) s False by simp
    note ih = 2(1) [OF s False this]
    from ih have "out = approved @ map entry_print (filter (in_scope scope) (objects (JObj entry # rest)))"
      using \<open>\<not> in_scope scope entry\<close> by simp
    with ih show ?thesis by blast
  next
    case True
    then obtain fp where fp: "baseline_fingerprint entry i = Inr fp" "\<not> List.member approved fp"
      "approve scope (Suc i) rest (approved @ [fp]) = Inr out"
      using 2(3) s by (auto simp: res_simps)
    have sc: "in_scope scope entry" using True scope by simp
    have ih: "out = (approved @ [fp]) @ map entry_print (filter (in_scope scope) (objects rest))
        \<and> (distinct (approved @ [fp]) \<longrightarrow> distinct out)"
      using True by (intro 2(2) [OF s _ fp]) simp
    then have d: "distinct (approved @ [fp]) \<longrightarrow> distinct out" by blast
    from ih have "out = approved @ map entry_print (filter (in_scope scope) (objects (JObj entry # rest)))"
      using sc baseline_fingerprint_Inr [OF fp(1)] by simp
    moreover have "distinct approved \<longrightarrow> distinct out" using d fp(2) by simp
    ultimately show ?thesis by blast
  qed
qed auto

lemma objects_map_JObj [simp]: "objects (map JObj ds) = ds"
  by (induction ds) simp_all

lemma objects_map_comp [simp]: "objects (map (JObj \<circ> f) xs) = map f xs"
  by (induction xs) simp_all

lemma normal_text_stripped: "py_strip (normal_text show v) = normal_text show v"
  by (simp add: normal_text_def py_strip_idem)

lemma finding_fingerprint_Inr:
  "finding_fingerprint show (normal_text show (jget ''Target'' result)) f = Inr fp
   \<Longrightarrow> fp = vuln_print show result f"
  by (auto simp: finding_fingerprint_def Let_def vuln_print_def normal_text_stripped split: if_splits)

lemma retain_exact:
  assumes "retain show approved (normal_text show (jget ''Target'' result)) vs matched = Inr (matched', kept)"
  shows "vs = map JObj (objects vs)
    \<and> kept = map JObj (filter (\<lambda>f. \<not> List.member approved (vuln_print show result f)) (objects vs))
    \<and> set matched' = set matched \<union> (vuln_print show result ` set (objects vs) \<inter> set approved)
    \<and> (distinct matched \<longrightarrow> distinct matched')"
  using assms
proof (induction "show" approved "normal_text show (jget ''Target'' result)" vs matched
    arbitrary: matched' kept rule: retain.induct)
  case (2 sh approved f rest matched)
  then obtain fp where fp: "finding_fingerprint sh (normal_text sh (jget ''Target'' result)) f = Inr fp"
    by (auto simp: res_simps)
  note fp' = finding_fingerprint_Inr [OF fp]
  show ?case
  proof (cases "List.member approved fp")
    case True
    then have "retain sh approved (normal_text sh (jget ''Target'' result)) rest (List.insert fp matched)
        = Inr (matched', kept)"
      using 2(3) fp by simp
    from 2(1) [OF fp True this] True fp' show ?thesis by simp
  next
    case False
    then obtain k where k: "retain sh approved (normal_text sh (jget ''Target'' result)) rest matched = Inr (matched', k)"
      "kept = JObj f # k"
      using 2(3) fp by (auto simp: res_simps)
    from 2(2) [OF fp False k(1)] k(2) fp' False show ?thesis by simp
  qed
qed auto

definition blocking_findings :: "jobj \<Rightarrow> nat" where
  "blocking_findings result =
     length (vulnerabilities result) + length (array_of ''Misconfigurations'' result)
     + length (array_of ''Secrets'' result)"

definition result_prints :: "(json \<Rightarrow> string) \<Rightarrow> jobj \<Rightarrow> string list list" where
  "result_prints show result = map (vuln_print show result) (vulnerabilities result)"

lemma vulnerabilities_set [simp]:
  "vulnerabilities (dict_set ''Vulnerabilities'' (JArr (map JObj fs)) r) = fs"
  by (simp add: vulnerabilities_def array_of_def jget_dict_set)

lemma filter_results_exact:
  "filter_results show approved rs matched remaining = Inr (results, matched', remaining') \<Longrightarrow>
     rs = map JObj (objects rs)
     \<and> results = map JObj (map (suppress show approved) (objects rs))
     \<and> set matched' = set matched \<union> (set (concat (map (result_prints show) (objects rs))) \<inter> set approved)
     \<and> (distinct matched \<longrightarrow> distinct matched')
     \<and> remaining' = remaining + sum_list (map (\<lambda>r. blocking_findings (suppress show approved r)) (objects rs))"
proof (induction "show" approved rs matched remaining arbitrary: results matched' remaining'
    rule: filter_results.induct)
  case (2 sh approved result rest matched remaining)
  let ?r1 = "\<lambda>kept. dict_set ''Vulnerabilities'' (JArr kept) result"
  obtain vs m1 kept cs ss res' where
    vs: "optional_array (baseline_error ''Trivy Vulnerabilities must be an array'') ''Vulnerabilities'' result = Inr vs"
    and kept: "retain sh approved (normal_text sh (jget ''Target'' result)) vs matched = Inr (m1, kept)"
    and cs: "optional_array (baseline_error ''Trivy Misconfigurations must be an array'') ''Misconfigurations'' (?r1 kept) = Inr cs"
    and ss: "optional_array (baseline_error ''Trivy Secrets must be an array'') ''Secrets'' (?r1 kept) = Inr ss"
    and rest: "filter_results sh approved rest m1 (remaining + length kept + length cs + length ss)
      = Inr (res', matched', remaining')" "results = JObj (?r1 kept) # res'"
    using 2(2) by (auto simp: bindE_eq_Inr Let_def)
  note k = retain_exact [OF kept]
  have vs': "objects vs = vulnerabilities result"
    using optional_array_Inr [OF vs] by (simp add: vulnerabilities_def)
  have r1: "?r1 kept = suppress sh approved result"
    using k vs' by (simp add: suppress_def)
  have len: "length kept + length cs + length ss = blocking_findings (suppress sh approved result)"
    using optional_array_Inr [OF cs] optional_array_Inr [OF ss] k vs' r1
    by (simp add: blocking_findings_def suppress_def)
  have ih: "rest = map JObj (objects rest)
     \<and> res' = map JObj (map (suppress sh approved) (objects rest))
     \<and> set matched' = set m1 \<union> (set (concat (map (result_prints sh) (objects rest))) \<inter> set approved)
     \<and> (distinct m1 \<longrightarrow> distinct matched')
     \<and> remaining' = remaining + length kept + length cs + length ss
          + sum_list (map (\<lambda>r. blocking_findings (suppress sh approved r)) (objects rest))"
    by (rule 2(1) [OF vs kept refl refl cs ss rest(1)])
  show ?case
    using ih k vs' rest(2) r1 len by (auto simp: result_prints_def)
qed auto

section \<open>The enforced report\<close>

lemma report_array_Inr:
  "report_array report = Inr (raw, stored) \<Longrightarrow>
     raw = array_of ''Results'' report \<and> (stored \<longleftrightarrow> map_of report ''Results'' \<noteq> None)"
  by (auto simp: report_array_def array_of_def jget_def split: option.splits json.splits)

lemma filter_report_Inr:
  assumes "filter_report show reference scope report baseline = Inr (filtered, summary)"
  obtains rv approved results matched remaining where
    "review_of reference baseline = Inr rv" "approved = reviewed_prints scope baseline"
    "distinct approved"
    "filter_results show approved (array_of ''Results'' report) [] 0 = Inr (results, matched, remaining)"
    "set approved \<subseteq> set matched"
    "array_of ''Results'' filtered = results"
    "\<forall>k. k = ''Results'' \<or> jget k filtered = jget k report"
    "summary = baseline_summary scope rv (length approved) (length matched) remaining"
    "jget ''Results'' filtered = JArr results \<or> jget ''Results'' filtered = JNull"
proof -
  obtain rv approved raw stored results matched remaining where
    rv: "review_of reference baseline = Inr rv"
    and ap: "approved_of scope baseline = Inr approved"
    and raw: "report_array report = Inr (raw, stored)"
    and res: "filter_results show approved raw [] 0 = Inr (results, matched, remaining)"
    and stale: "filter (\<lambda>f. \<not> List.member matched f) approved = []"
    and out: "filtered = (if stored then dict_set ''Results'' (JArr results) report else report)"
      "summary = baseline_summary scope rv (length approved) (length matched) remaining"
    using assms by (auto simp: filter_report_def bindE_eq_Inr guardE_eq_Inr Let_def)
  obtain xs where xs: "jget ''findings'' baseline = JArr xs" "approve scope 0 xs [] = Inr approved"
    using ap by (auto simp: approved_of_def split: json.splits if_splits)
  have ap': "approved = reviewed_prints scope baseline"
    using approve_exact [OF xs(2)] xs(1) by (simp add: reviewed_prints_def array_of_def)
  have di: "distinct approved"
    using approve_exact [OF xs(2), THEN conjunct2] by simp
  note raw' = report_array_Inr [OF raw]
  have missing: "raw = [] \<and> results = []" if "\<not> stored"
    using that raw' res by (auto simp: array_of_def jget_def)
  show ?thesis
  proof (rule that [OF rv ap' di])
    show "filter_results show approved (array_of ''Results'' report) [] 0 = Inr (results, matched, remaining)"
      using res raw' by simp
    show "set approved \<subseteq> set matched" using stale by (auto simp: filter_empty_conv)
    show "array_of ''Results'' filtered = results"
      using missing raw' out(1) by (cases stored) (auto simp: array_of_def jget_def map_of_dict_set)
    show "\<forall>k. k = ''Results'' \<or> jget k filtered = jget k report"
      using out(1) by (simp add: jget_dict_set)
    show "summary = baseline_summary scope rv (length approved) (length matched) remaining" by (rule out(2))
    show "jget ''Results'' filtered = JArr results \<or> jget ''Results'' filtered = JNull"
      using raw' out(1) by (cases stored) (auto simp: jget_def map_of_dict_set)
  qed
qed

lemma optional_array_other:
  "optional_array e fld d = Inr xs \<Longrightarrow> optional_array e' fld d = Inr xs"
  by (auto simp: optional_array_def split: json.splits if_splits)

lemma count_vulnerabilities_total: "\<exists>c. count_vulnerabilities show (map JObj fs) acc = Inr c"
  by (induction fs arbitrary: acc) (simp_all add: Let_def)

lemma filter_results_countable:
  "filter_results show approved rs matched remaining = Inr (results, matched', remaining') \<Longrightarrow>
     \<exists>c. count_results show results acc = Inr c"
proof (induction "show" approved rs matched remaining arbitrary: results matched' remaining' acc
    rule: filter_results.induct)
  case (2 sh approved result rest matched remaining)
  let ?r1 = "\<lambda>kept. dict_set ''Vulnerabilities'' (JArr kept) result"
  obtain vs m1 kept cs ss res' where
    vs: "optional_array (baseline_error ''Trivy Vulnerabilities must be an array'') ''Vulnerabilities'' result = Inr vs"
    and kept: "retain sh approved (normal_text sh (jget ''Target'' result)) vs matched = Inr (m1, kept)"
    and cs: "optional_array (baseline_error ''Trivy Misconfigurations must be an array'') ''Misconfigurations'' (?r1 kept) = Inr cs"
    and ss: "optional_array (baseline_error ''Trivy Secrets must be an array'') ''Secrets'' (?r1 kept) = Inr ss"
    and rest: "filter_results sh approved rest m1 (remaining + length kept + length cs + length ss)
      = Inr (res', matched', remaining')" "results = JObj (?r1 kept) # res'"
    using 2(2) by (auto simp: bindE_eq_Inr Let_def)
  obtain fs where fs: "kept = map JObj fs" using retain_exact [OF kept] by blast
  obtain acc1 where acc1: "count_vulnerabilities sh (map JObj fs) acc = Inr acc1"
    using count_vulnerabilities_total by blast
  have "optional_array (report_error ''Trivy Vulnerabilities must be an array'') ''Vulnerabilities'' (?r1 kept)
      = Inr (map JObj fs)"
    by (simp add: optional_array_def jget_dict_set fs)
  then show ?case
    using 2(1) [OF vs kept refl refl cs ss rest(1)] rest(2) acc1
      optional_array_other [OF cs] optional_array_other [OF ss] by simp
qed auto

section \<open>A sample baseline\<close>

definition demo_scope :: string where "demo_scope = ''sha256:'' @ replicate 64 CHR ''a''"

definition demo_scan_report :: jobj where
  "demo_scan_report = [(''Results'', JArr [JObj
     [(''Target'', JStr ''t''),
      (''Vulnerabilities'', JArr [JObj
        [(''VulnerabilityID'', JStr ''v''), (''PkgName'', JStr ''p''), (''InstalledVersion'', JStr ''1''),
         (''FixedVersion'', JStr ''2'')]])]])]"

definition demo_baseline :: jobj where
  "demo_baseline =
     [(''version'', JInt 1), (''owner'', JStr ''o''), (''reviewed_at'', JStr ''2024-01-01''),
      (''expires'', JStr ''2024-01-01''), (''statement'', JStr ''s''), (''compensating_control'', JStr ''c''),
      (''findings'', JArr [JObj
        [(''scope'', JStr demo_scope), (''target'', JStr ''t''), (''id'', JStr ''v''), (''package'', JStr ''p''),
         (''installed_version'', JStr ''1''), (''fixed_version'', JStr ''2'')]])]"

definition demo_day :: nat where "demo_day = ordinal 2024 1 1"

lemma demo_dates: "check_dates demo_day ''2024-01-01'' ''2024-01-01'' = Inr ()"
proof -
  have "date_shape ''dddd-dd-dd'' ''2024-01-01''"
    by (simp add: date_shape_def fullmatch_fixed is_digit_def in_range_def code_def)
  moreover have "valid_date 2024 1 1" by code_simp
  moreover have "field ''2024-01-01'' 0 4 = 2024 \<and> field ''2024-01-01'' 5 2 = 1 \<and> field ''2024-01-01'' 8 2 = 1"
    by code_simp
  ultimately show ?thesis
    by (simp add: check_dates_def parse_date_def calendar_ordinal_def demo_day_def)
qed

lemma demo_scope_facts: "py_strip demo_scope = demo_scope" "fullmatch SHA256_DIGEST demo_scope"
  by code_simp+

lemma baseline_texts: "py_strip ''o'' = ''o''" "py_strip ''s'' = ''s''" "py_strip ''c'' = ''c''"
  "py_strip ''t'' = ''t''" "py_strip ''v'' = ''v''" "py_strip ''p'' = ''p''" "py_strip ''1'' = ''1''"
  "py_strip ''2'' = ''2''" "py_strip ''2024-01-01'' = ''2024-01-01''"
  by code_simp+

lemma demo_filtered:
  "\<exists>filtered summary. filter_report (\<lambda>_. []) demo_day demo_scope demo_scan_report demo_baseline
     = Inr (filtered, summary)"
proof -
  have "review_of demo_day demo_baseline = Inr \<lparr>bl_owner = ''o'', bl_reviewed_at = ''2024-01-01'',
      bl_expires = ''2024-01-01'', bl_statement = ''s'', bl_control = ''c''\<rparr>"
    by (simp add: review_of_def demo_baseline_def baseline_text_def required_text_def baseline_texts demo_dates)
  moreover have "approved_of demo_scope demo_baseline = Inr [[''t'', ''v'', ''p'', ''1'', ''2'']]"
    by (simp add: approved_of_def demo_baseline_def entry_scope_def demo_scope_facts baseline_texts
        baseline_fingerprint_def BASELINE_NAMES_def)
  moreover have "finding_fingerprint (\<lambda>_. []) ''t''
      [(''VulnerabilityID'', JStr ''v''), (''PkgName'', JStr ''p''), (''InstalledVersion'', JStr ''1''),
       (''FixedVersion'', JStr ''2'')] = Inr [''t'', ''v'', ''p'', ''1'', ''2'']"
    by (simp add: finding_fingerprint_def normal_text_def baseline_texts)
  ultimately show ?thesis
    by (simp add: filter_report_def demo_scan_report_def report_array_def optional_array_def
        normal_text_def baseline_texts jget_dict_set)
qed

section \<open>Properties\<close>

text \<open>
  C27: A baseline removes reviewed findings only. If it is applied, today lies between its
  review and its expiry; every result of the report keeps all its data except for the
  vulnerabilities whose fingerprint is that of a baseline entry of this image scope; the
  fingerprints are pairwise different and each is found in the report (none is stale); and
  all other keys of the report are unchanged.
\<close>
theorem baseline_removes_reviewed_only:
  assumes "filter_report show reference scope report baseline = Inr (filtered, summary)"
  shows "report_results filtered
       = map (suppress show (reviewed_prints scope baseline)) (report_results report)
    \<and> (\<forall>k. k = ''Results'' \<or> jget k filtered = jget k report)
    \<and> distinct (reviewed_prints scope baseline)
    \<and> set (reviewed_prints scope baseline)
        \<subseteq> set (concat (map (result_prints show) (report_results report)))
    \<and> (\<exists>rv r e. review_of reference baseline = Inr rv \<and> parse_date (bl_reviewed_at rv) = Some r
         \<and> parse_date (bl_expires rv) = Some e \<and> r \<le> reference \<and> reference \<le> e)"
proof -
  obtain rv approved results matched remaining where f:
    "review_of reference baseline = Inr rv" "approved = reviewed_prints scope baseline" "distinct approved"
    "filter_results show approved (array_of ''Results'' report) [] 0 = Inr (results, matched, remaining)"
    "set approved \<subseteq> set matched" "array_of ''Results'' filtered = results"
    "\<forall>k. k = ''Results'' \<or> jget k filtered = jget k report"
    "summary = baseline_summary scope rv (length approved) (length matched) remaining"
    "jget ''Results'' filtered = JArr results \<or> jget ''Results'' filtered = JNull"
    by (rule filter_report_Inr [OF assms], rule that)
  note ex = filter_results_exact [OF f(4)]
  have "\<exists>r e. parse_date (bl_reviewed_at rv) = Some r \<and> parse_date (bl_expires rv) = Some e
      \<and> r \<le> reference \<and> reference \<le> e"
  proof -
    obtain u where "check_dates reference (bl_reviewed_at rv) (bl_expires rv) = Inr u"
      using f(1) by (auto simp: review_of_def bindE_eq_Inr guardE_eq_Inr)
    then show ?thesis by (auto simp: check_dates_def guardE_eq_Inr split: option.splits)
  qed
  moreover have "report_results filtered = map (suppress show approved) (report_results report)"
    using ex f(6) by (simp add: report_results_def)
  moreover have "set approved \<subseteq> set (concat (map (result_prints show) (report_results report)))"
    using ex f(5) by (auto simp: report_results_def)
  ultimately show ?thesis
    using f(1,3,7) unfolding f(2) by blast
qed

theorem baseline_removes_reviewed_only_witness:
  "\<exists>filtered summary. filter_report (\<lambda>_. []) demo_day demo_scope demo_scan_report demo_baseline
       = Inr (filtered, summary)
     \<and> report_results filtered
       = map (suppress (\<lambda>_. []) (reviewed_prints demo_scope demo_baseline)) (report_results demo_scan_report)"
proof -
  obtain filtered summary where f: "filter_report (\<lambda>_. []) demo_day demo_scope demo_scan_report demo_baseline
      = Inr (filtered, summary)"
    using demo_filtered by blast
  show ?thesis
    using baseline_removes_reviewed_only [OF f, THEN conjunct1] f by (intro exI conjI)
qed

text \<open>
  The count of remaining findings is exact. The report a baseline leaves is well formed
  for the summary, and \<open>remaining\<close> in the baseline's own summary is the number of
  vulnerabilities, misconfigurations and secrets the summary counts in it; so the step exits
  with 0 exactly if the enforced report has no finding at all.
\<close>
lemma baseline_remaining_exact:
  assumes "filter_report show reference scope report baseline = Inr (filtered, summary)"
  shows "\<exists>c. count_report show filtered = Inr c
    \<and> jget ''remaining'' summary
       = JInt (int (fc_fixable c + fc_unfixed c + fc_misconfigurations c + fc_secrets c))
    \<and> (baseline_exit (Inr summary) = 0 \<longleftrightarrow>
         report_findings filtered = [] \<and> report_misconfigurations filtered = []
         \<and> report_secrets filtered = [])"
proof -
  obtain rv approved results matched remaining where f:
    "review_of reference baseline = Inr rv" "approved = reviewed_prints scope baseline" "distinct approved"
    "filter_results show approved (array_of ''Results'' report) [] 0 = Inr (results, matched, remaining)"
    "set approved \<subseteq> set matched" "array_of ''Results'' filtered = results"
    "\<forall>k. k = ''Results'' \<or> jget k filtered = jget k report"
    "summary = baseline_summary scope rv (length approved) (length matched) remaining"
    "jget ''Results'' filtered = JArr results \<or> jget ''Results'' filtered = JNull"
    by (rule filter_report_Inr [OF assms], rule that)
  obtain c where c: "count_results show results no_counts = Inr c"
    using filter_results_countable [OF f(4)] by blast
  have cr: "count_report show filtered = Inr c"
    using f(9)
  proof
    assume "jget ''Results'' filtered = JArr results"
    then show ?thesis using c by (simp add: count_report_def nullable_array_def)
  next
    assume null: "jget ''Results'' filtered = JNull"
    then have "results = []" using f(6) by (simp add: array_of_def)
    then show ?thesis using c null by (simp add: count_report_def nullable_array_def)
  qed
  note exact = count_report_exact [OF cr]
  have rs: "report_results filtered = map (suppress show approved) (objects (array_of ''Results'' report))"
    using filter_results_exact [OF f(4)] f(6) by (simp add: report_results_def)
  have sums: "sum_list (map blocking_findings rs)
      = length (concat (map vulnerabilities rs)) + length (concat (map (array_of ''Misconfigurations'') rs))
        + length (concat (map (array_of ''Secrets'') rs))" for rs
    by (induction rs) (simp_all add: blocking_findings_def)
  have vs: "map vulnerabilities rs = map (\<lambda>r. objects (array_of ''Vulnerabilities'' r)) rs" for rs
    by (simp add: vulnerabilities_def)
  have "remaining = sum_list (map blocking_findings (report_results filtered))"
    unfolding rs using filter_results_exact [OF f(4)] by (simp add: comp_def)
  then have rem: "remaining = length (report_findings filtered) + length (report_misconfigurations filtered)
      + length (report_secrets filtered)"
    unfolding sums vs report_findings_def report_misconfigurations_def report_secrets_def .
  moreover have "fc_fixable c + fc_unfixed c = length (report_findings filtered)"
    using exact sum_length_filter_compl [of is_fixable "report_findings filtered"] by simp
  ultimately have tot: "remaining = fc_fixable c + fc_unfixed c + fc_misconfigurations c + fc_secrets c"
    using exact by simp
  have left: "jget ''remaining'' summary = JInt (int remaining)"
    by (simp add: f(8) baseline_summary_def)
  have "baseline_exit (Inr summary) = 0 \<longleftrightarrow> remaining = 0"
    by (simp add: baseline_exit_def left)
  also have "\<dots> \<longleftrightarrow> report_findings filtered = [] \<and> report_misconfigurations filtered = []
      \<and> report_secrets filtered = []"
    unfolding rem by simp
  finally show ?thesis
    using cr left unfolding tot by (intro exI [of _ c] conjI)
qed

theorem baseline_remaining_exact_witness:
  "\<exists>filtered summary c. filter_report (\<lambda>_. []) demo_day demo_scope demo_scan_report demo_baseline
       = Inr (filtered, summary) \<and> count_report (\<lambda>_. []) filtered = Inr c"
proof -
  obtain filtered summary where f: "filter_report (\<lambda>_. []) demo_day demo_scope demo_scan_report demo_baseline
      = Inr (filtered, summary)"
    using demo_filtered by blast
  obtain c where "count_report (\<lambda>_. []) filtered = Inr c"
    using baseline_remaining_exact [OF f] by (elim exE conjE) (rule that)
  with f show ?thesis by (intro exI conjI)
qed

end
