(* ===== verification/Snapshot_Retention.thy ===== *)
theory Snapshot_Retention
  imports Delivery_Manifest "HOL-Library.Product_Lexorder" "HOL-Library.Multiset"
begin

text \<open>
  Pruning of deploy snapshots, \<open>.github/actions/deploy-snapshot-retention/prune.py\<close>. What
  the operating system says of a directory is the record \<open>dir_env\<close>: the names in it, in the
  order of \<open>iterdir\<close>, and size and modification time of a file, as a UTC instant in
  microseconds. The trimming loops pop from the end of the list of survivors.
\<close>

section \<open>Configuration and result\<close>

record prune_config =
  pc_root :: path
  pc_max_count :: int
  pc_max_age_days :: int
  pc_max_total_bytes :: int
  pc_now :: "py_stamp option"

record snapshot_entry =
  se_name :: string
  se_size :: nat
  se_mtime :: int

record prune_result =
  pn_kept :: "string list"
  pn_deleted :: "string list"
  pn_kept_bytes :: nat
  pn_deleted_bytes :: nat
  pn_total_before :: nat
  pn_total_after :: nat
  pn_over_budget :: nat

record dir_env =
  de_iterdir :: "fsys \<Rightarrow> string list \<Rightarrow> string list"
  de_stat :: "fsys \<Rightarrow> string list \<Rightarrow> nat \<times> int"
  de_now :: datetime

definition value_error :: "string \<Rightarrow> exc" where "value_error m = Exc ValueError m"

definition validate_root :: "fsys \<Rightarrow> path \<Rightarrow> string list result" where
  "validate_root fs dir =
     guardE (is_abs dir) (value_error ''root must be absolute'')
     (guardE (parts dir \<noteq> []) (value_error ''root must not be a filesystem root'')
     (guardE (path_exists fs (parts dir) \<and> is_dir fs (parts dir))
        (value_error ''root must be an existing directory'')
     (guardE (\<not> is_symlink fs (parts dir)) (value_error ''root must not be a symlink'')
     (guardE (\<not> live_symlink_component fs (parts dir))
        (value_error ''root must not contain symlink components'')
        (Inr (parts dir))))))"

definition validate_positive_int :: "string \<Rightarrow> int \<Rightarrow> int result" where
  "validate_positive_int name value =
     guardE (1 \<le> value) (value_error (name @ '' must be at least 1'')) (Inr value)"

section \<open>The snapshots of a directory\<close>

fun load_snapshots ::
    "(fsys \<Rightarrow> string list \<Rightarrow> nat \<times> int) \<Rightarrow> fsys \<Rightarrow> string list \<Rightarrow> string list \<Rightarrow> snapshot_entry list result" where
  "load_snapshots stat fs dir [] = Inr []"
| "load_snapshots stat fs dir (name # names) =
     guardE (\<not> is_symlink fs (dir @ [name])) (value_error ''snapshot root must not contain symlinks'')
     (if \<not> is_file fs (dir @ [name]) \<or> \<not> suffix ''.tar.gz'' name
      then load_snapshots stat fs dir names
      else bindE (load_snapshots stat fs dir names) (\<lambda>entries.
             Inr (\<lparr>se_name = name, se_size = fst (stat fs (dir @ [name])),
                   se_mtime = snd (stat fs (dir @ [name]))\<rparr> # entries)))"

definition snapshot_key :: "snapshot_entry \<Rightarrow> int \<times> string" where
  "snapshot_key e = (se_mtime e, se_name e)"

text \<open>\<open>sorted(entries, key=..., reverse=True)\<close>, which keeps the order of equal keys\<close>

definition newest_first :: "snapshot_entry list \<Rightarrow> snapshot_entry list" where
  "newest_first entries = rev (sort_key snapshot_key (rev entries))"

section \<open>Choosing\<close>

definition bytes_of :: "snapshot_entry list \<Rightarrow> nat" where
  "bytes_of es = sum_list (map se_size es)"

fun trim_count ::
    "int \<Rightarrow> snapshot_entry list \<Rightarrow> snapshot_entry list \<Rightarrow> snapshot_entry list \<times> snapshot_entry list" where
  "trim_count max_count survivors deletions =
     (if survivors \<noteq> [] \<and> int (length survivors) > max_count
      then trim_count max_count (butlast survivors) (deletions @ [last survivors])
      else (survivors, deletions))"

fun trim_bytes ::
    "int \<Rightarrow> snapshot_entry list \<Rightarrow> snapshot_entry list \<Rightarrow> int
     \<Rightarrow> snapshot_entry list \<times> snapshot_entry list \<times> int" where
  "trim_bytes max_total survivors deletions kept_bytes =
     (if length survivors > 1 \<and> kept_bytes > max_total
      then trim_bytes max_total (butlast survivors) (deletions @ [last survivors])
             (kept_bytes - int (se_size (last survivors)))
      else (survivors, deletions, kept_bytes))"

declare trim_count.simps [simp del] trim_bytes.simps [simp del]

definition choose_snapshots ::
    "int \<Rightarrow> int \<Rightarrow> int \<Rightarrow> snapshot_entry list
     \<Rightarrow> snapshot_entry list \<times> snapshot_entry list \<times> int" where
  "choose_snapshots max_count max_total cutoff ordered =
     (let older = (\<lambda>e. se_mtime e < cutoff);
          (survivors, deletions) =
            trim_count max_count (hd ordered # filter (\<lambda>e. \<not> older e) (tl ordered))
              (filter older (tl ordered));
          (survivors', deletions', kept_bytes) =
            trim_bytes max_total survivors deletions (int (bytes_of survivors))
      in (survivors', sort_key snapshot_key deletions', kept_bytes))"

section \<open>Pruning\<close>

text \<open>
  \<open>now - timedelta(days=...)\<close>: too many days, or a date before year 1, is an \<open>OverflowError\<close>.
\<close>

definition cutoff_of :: "int \<Rightarrow> int \<Rightarrow> int result" where
  "cutoff_of now days =
     guardE (days \<le> 999999999 \<and> now - timedelta_days days \<ge> timedelta_days 1)
       (Exc OverflowError ''date value out of range'') (Inr (now - timedelta_days days))"

definition now_of :: "datetime \<Rightarrow> py_stamp option \<Rightarrow> int result" where
  "now_of utc_now value =
     (case value of
        None \<Rightarrow> Inr (instant utc_now)
      | Some (Aware t) \<Rightarrow> Inr (instant t)
      | Some (Naive t) \<Rightarrow> Inl (value_error ''now must be timezone-aware''))"

text \<open>\<open>path.unlink()\<close>\<close>

definition unlink :: "string list \<Rightarrow> (fsys, unit) action" where
  "unlink p fs =
     (case walk fs True link_limit [] (butlast p) of
        Inl e \<Rightarrow> (Inl e, fs)
      | Inr d \<Rightarrow>
          (case lookup fs (d @ [last p]) of
             None \<Rightarrow> (Inl enoent, fs)
           | Some Dir \<Rightarrow> (Inl (Exc OSError ''Is a directory''), fs)
           | Some _ \<Rightarrow> (Inr (), fs\<lparr>nodes := (nodes fs)(d @ [last p] := None)\<rparr>)))"

fun unlink_all :: "string list \<Rightarrow> snapshot_entry list \<Rightarrow> nat \<Rightarrow> (fsys, nat) action" where
  "unlink_all dir [] deleted_bytes = liftW (Inr deleted_bytes)"
| "unlink_all dir (e # es) deleted_bytes =
     bindW (unlink (dir @ [se_name e])) (\<lambda>_. unlink_all dir es (deleted_bytes + se_size e))"

definition prune_result_of ::
    "int \<Rightarrow> snapshot_entry list \<Rightarrow> snapshot_entry list \<Rightarrow> nat \<Rightarrow> nat \<Rightarrow> prune_result" where
  "prune_result_of max_total survivors deletions kept_bytes deleted_bytes =
     \<lparr>pn_kept = map se_name survivors, pn_deleted = map se_name deletions,
      pn_kept_bytes = kept_bytes, pn_deleted_bytes = deleted_bytes,
      pn_total_before = kept_bytes + deleted_bytes, pn_total_after = kept_bytes,
      pn_over_budget = nat (int kept_bytes - max_total)\<rparr>"

definition prune_snapshots :: "dir_env \<Rightarrow> prune_config \<Rightarrow> (fsys, prune_result) action" where
  "prune_snapshots env config =
     bindW (\<lambda>fs. (validate_root fs (pc_root config), fs)) (\<lambda>dir.
     bindW (liftW (validate_positive_int ''max_count'' (pc_max_count config))) (\<lambda>max_count.
     bindW (liftW (validate_positive_int ''max_age_days'' (pc_max_age_days config))) (\<lambda>max_age.
     bindW (liftW (validate_positive_int ''max_total_bytes'' (pc_max_total_bytes config))) (\<lambda>max_total.
     bindW (liftW (now_of (de_now env) (pc_now config))) (\<lambda>now.
     bindW (\<lambda>fs. (load_snapshots (de_stat env) fs dir (de_iterdir env fs dir), fs)) (\<lambda>entries.
       (let ordered = newest_first entries in
        if ordered = [] then liftW (Inr (prune_result_of max_total [] [] 0 0))
        else bindW (liftW (cutoff_of now max_age)) (\<lambda>cutoff.
          (case choose_snapshots max_count max_total cutoff ordered of
             (survivors, deletions, kept_bytes) \<Rightarrow>
               bindW (unlink_all dir deletions 0) (\<lambda>deleted_bytes.
                 liftW (Inr (prune_result_of max_total survivors deletions (nat kept_bytes)
                               deleted_bytes))))))))))))"

section \<open>Which snapshots survive\<close>

lemma butlast_take_drop:
  assumes "s \<noteq> []" and "n < length s"
  shows "take n (butlast s) = take n s" "last s # rev (drop n (butlast s)) = rev (drop n s)"
proof -
  show "take n (butlast s) = take n s" using assms by (simp add: butlast_conv_take min_def)
  obtain t x where "s = t @ [x]" using assms(1) by (cases s rule: rev_cases) auto
  then show "last s # rev (drop n (butlast s)) = rev (drop n s)" using assms(2) by simp
qed

lemma trim_count_eq:
  assumes "1 \<le> m"
  shows "trim_count m s d = (take (nat m) s, d @ rev (drop (nat m) s))"
proof (induction s arbitrary: d rule: rev_induct)
  case Nil
  show ?case by (subst trim_count.simps) simp
next
  case (snoc x s)
  show ?case
  proof (cases "int (length (s @ [x])) > m")
    case True
    then have "nat m \<le> length s" by simp
    then show ?thesis using True by (subst trim_count.simps) (simp add: snoc)
  next
    case False
    then have "length (s @ [x]) \<le> nat m" by simp
    then show ?thesis using False by (subst trim_count.simps) simp
  qed
qed

lemma bytes_of_append [simp]: "bytes_of (a @ b) = bytes_of a + bytes_of b"
  by (simp add: bytes_of_def)

lemma bytes_of_simps [simp]: "bytes_of [] = 0" "bytes_of (e # es) = se_size e + bytes_of es"
  by (simp_all add: bytes_of_def)

lemma bytes_of_take_mono: "n \<le> m \<Longrightarrow> bytes_of (take n s) \<le> bytes_of (take m s)"
proof -
  assume "n \<le> m"
  then have "take m s = take n s @ take (m - n) (drop n s)" by (simp add: take_add [symmetric])
  then show ?thesis by simp
qed

text \<open>The byte bound cuts the longest non-empty prefix that fits, and keeps the sum exact.\<close>

lemma trim_bytes_prefix:
  "s \<noteq> [] \<Longrightarrow> \<exists>n. 1 \<le> n \<and> n \<le> length s
     \<and> trim_bytes mt s d (int (bytes_of s)) = (take n s, d @ rev (drop n s), int (bytes_of (take n s)))
     \<and> (n = 1 \<or> int (bytes_of (take n s)) \<le> mt)
     \<and> (\<forall>m. n < m \<and> m \<le> length s \<longrightarrow> int (bytes_of (take m s)) > mt)"
proof (induction s arbitrary: d rule: rev_induct)
  case (snoc x s)
  show ?case
  proof (cases "s \<noteq> [] \<and> int (bytes_of (s @ [x])) > mt")
    case False
    then show ?thesis
      by (intro exI [of _ "length (s @ [x])"]) (auto simp: trim_bytes.simps Suc_le_eq)
  next
    case True
    then obtain n where n: "1 \<le> n" "n \<le> length s"
      "trim_bytes mt s (d @ [x]) (int (bytes_of s)) = (take n s, (d @ [x]) @ rev (drop n s), int (bytes_of (take n s)))"
      "n = 1 \<or> int (bytes_of (take n s)) \<le> mt"
      "\<forall>m. n < m \<and> m \<le> length s \<longrightarrow> int (bytes_of (take m s)) > mt"
      using snoc.IH [of "d @ [x]"] by blast
    have "trim_bytes mt (s @ [x]) d (int (bytes_of (s @ [x]))) = trim_bytes mt s (d @ [x]) (int (bytes_of s))"
      using True by (subst trim_bytes.simps) simp
    moreover have "int (bytes_of (take m (s @ [x]))) > mt" if "n < m" "m \<le> length (s @ [x])" for m
      using that n(5) True by (cases "m = length (s @ [x])") auto
    ultimately show ?thesis
      using n(1-4) by (intro exI [of _ n]) auto
  qed
qed simp

text \<open>What retention promises of the survivors of a list ordered newest first\<close>

definition candidates :: "int \<Rightarrow> snapshot_entry list \<Rightarrow> snapshot_entry list" where
  "candidates cutoff ordered = hd ordered # filter (\<lambda>e. cutoff \<le> se_mtime e) (tl ordered)"

definition longest_affordable :: "int \<Rightarrow> int \<Rightarrow> snapshot_entry list \<Rightarrow> snapshot_entry list \<Rightarrow> bool" where
  "longest_affordable max_count max_total cs kept \<longleftrightarrow>
     (\<exists>n. 1 \<le> n \<and> n \<le> length cs \<and> kept = take n cs \<and> int n \<le> max_count
       \<and> (n = 1 \<or> int (bytes_of kept) \<le> max_total)
       \<and> (\<forall>m. n < m \<and> m \<le> length cs \<longrightarrow> int m > max_count \<or> int (bytes_of (take m cs)) > max_total))"

lemma choose_longest:
  assumes "choose_snapshots max_count max_total cutoff ordered = (kept, deleted, kb)"
    and "1 \<le> max_count" and "ordered \<noteq> []"
  shows "longest_affordable max_count max_total (candidates cutoff ordered) kept
    \<and> kb = int (bytes_of kept) \<and> mset kept + mset deleted = mset ordered"
proof -
  let ?cs = "candidates cutoff ordered" and ?older = "filter (\<lambda>e. se_mtime e < cutoff) (tl ordered)"
  let ?s = "take (nat max_count) ?cs"
  have ne: "?s \<noteq> []" using assms(2) by (simp add: candidates_def)
  have cs: "?cs = hd ordered # filter (\<lambda>e. \<not> se_mtime e < cutoff) (tl ordered)"
    by (simp add: candidates_def not_less)
  obtain n where n: "1 \<le> n" "n \<le> length ?s"
    "trim_bytes max_total ?s (?older @ rev (drop (nat max_count) ?cs)) (int (bytes_of ?s))
       = (take n ?s, (?older @ rev (drop (nat max_count) ?cs)) @ rev (drop n ?s), int (bytes_of (take n ?s)))"
    "n = 1 \<or> int (bytes_of (take n ?s)) \<le> max_total"
    "\<forall>m. n < m \<and> m \<le> length ?s \<longrightarrow> int (bytes_of (take m ?s)) > max_total"
    using trim_bytes_prefix [OF ne, of max_total "?older @ rev (drop (nat max_count) ?cs)"] by blast
  have kept: "kept = take n ?s" "kb = int (bytes_of (take n ?s))"
    "mset deleted = mset ?older + mset (drop (nat max_count) ?cs) + mset (drop n ?s)"
    using assms(1) n(3) trim_count_eq [OF assms(2), of ?cs ?older]
    by (auto simp: choose_snapshots_def Let_def cs)
  have nn: "n \<le> length ?cs" "n \<le> nat max_count" using n(2) by simp_all
  then have k: "kept = take n ?cs" "int n \<le> max_count"
    using kept(1) assms(2) by (simp_all add: min_absorb1)
  have maximal: "int m > max_count \<or> int (bytes_of (take m ?cs)) > max_total" if "n < m" "m \<le> length ?cs" for m
  proof (cases "int m > max_count")
    case False
    then have "m \<le> length ?s" "take m ?s = take m ?cs" using that by (auto simp: min_def)
    then show ?thesis using n(5) that(1) by auto
  qed simp
  have "n = 1 \<or> int (bytes_of kept) \<le> max_total" using n(4) unfolding kept(1) .
  then have "longest_affordable max_count max_total ?cs kept"
    unfolding longest_affordable_def
    by (intro exI [of _ n] conjI allI impI) (use n(1) nn(1) k maximal in simp_all)
  moreover have "mset kept + mset deleted = mset ordered"
  proof -
    have td: "mset (take k xs) + mset (drop k xs) = mset xs" for k and xs :: "snapshot_entry list"
      by (metis append_take_drop_id mset_append)
    have "mset kept + mset deleted
        = (mset (take n ?s) + mset (drop n ?s)) + mset (drop (nat max_count) ?cs) + mset ?older"
      by (simp only: kept(1,3) ac_simps)
    also have "\<dots> = mset ?cs + mset ?older" by (simp only: td)
    also have "\<dots> = mset (hd ordered # tl ordered)"
      unfolding cs using multiset_partition [of "mset (tl ordered)" "\<lambda>e. se_mtime e < cutoff"]
      by simp
    finally show ?thesis using assms(3) by simp
  qed
  ultimately show ?thesis using kept by simp
qed

section \<open>Order and loading\<close>

lemma newest_first_mset [simp]: "mset (newest_first es) = mset es"
  by (simp add: newest_first_def)

lemma newest_first_Nil [simp]: "newest_first es = [] \<longleftrightarrow> es = []"
  by (metis mset_zero_iff newest_first_mset)

lemma newest_first_hd:
  assumes "newest_first es \<noteq> []" and "e \<in> set es"
  shows "snapshot_key e \<le> snapshot_key (hd (newest_first es))"
proof -
  let ?o = "sort_key snapshot_key (rev es)"
  have "?o \<noteq> []" using assms(1) by (simp add: newest_first_def)
  then obtain t x where o: "?o = t @ [x]" by (cases ?o rule: rev_cases) auto
  have "sorted (map snapshot_key ?o)" by simp
  moreover have "e \<in> set ?o" using assms(2) by simp
  ultimately have "snapshot_key e \<le> snapshot_key x" unfolding o by (auto simp: sorted_append)
  then show ?thesis by (simp add: newest_first_def o)
qed

lemma load_snapshots_exact:
  "load_snapshots stat fs dir names = Inr es \<Longrightarrow>
     map se_name es = filter (\<lambda>x. is_file fs (dir @ [x]) \<and> suffix ''.tar.gz'' x) names
     \<and> list_all (\<lambda>x. \<not> is_symlink fs (dir @ [x])) names"
  by (induction names arbitrary: es) (auto simp: res_simps split: if_splits)

section \<open>What pruning does to the directory\<close>

definition without :: "string list \<Rightarrow> string list \<Rightarrow> fsys \<Rightarrow> fsys" where
  "without dir names fs =
     fs\<lparr>nodes := (\<lambda>q. if q \<in> (\<lambda>x. dir @ [x]) ` set names then None else nodes fs q)\<rparr>"

lemma lookup_without:
  "lookup (without dir names fs) q = (if q \<in> (\<lambda>x. dir @ [x]) ` set names then None else lookup fs q)"
  by (auto simp: lookup_def without_def)

lemma without_wf:
  assumes "fs_wf fs" and "\<And>x. x \<in> set names \<Longrightarrow> lookup fs (dir @ [x]) \<noteq> Some Dir"
  shows "fs_wf (without dir names fs)"
  unfolding fs_wf_def
proof (intro allI impI conjI)
  fix p x assume a: "lookup (without dir names fs) (p @ [x]) \<noteq> None"
  then have "lookup fs (p @ [x]) \<noteq> None" by (auto simp: lookup_without split: if_splits)
  then have d: "lookup fs p = Some Dir" "x \<noteq> dotdot" using assms(1) by (auto simp: fs_wf_def)
  then show "x \<noteq> dotdot" by simp
  have "p \<notin> (\<lambda>x. dir @ [x]) ` set names" using assms(2) d(1) by force
  then show "lookup (without dir names fs) p = Some Dir" using d(1) by (simp add: lookup_without)
qed

lemma unlink_all_removes:
  assumes "fs_wf fs" and "lookup fs dir = Some Dir" and "distinct (map se_name es)"
    and "\<And>e. e \<in> set es \<Longrightarrow> \<exists>c. lookup fs (dir @ [se_name e]) = Some (File c)"
  shows "unlink_all dir es b fs = (Inr (b + bytes_of es), without dir (map se_name es) fs)"
  using assms
proof (induction es arbitrary: fs b)
  case Nil
  then show ?case by (simp add: without_def)
next
  case (Cons e es)
  obtain c where c: "lookup fs (dir @ [se_name e]) = Some (File c)" using Cons.prems(4) by auto
  let ?fs = "without dir [se_name e] fs"
  have "walk fs True link_limit [] dir = Inr dir"
    using Cons.prems(1,2) settled_walk [OF Cons.prems(1)] by (simp add: settled_def is_link_at_def)
  then have u: "unlink (dir @ [se_name e]) fs = (Inr (), ?fs)"
    using c by (auto simp: unlink_def without_def fun_upd_def)
  have "fs_wf ?fs" using Cons.prems(1) c by (intro without_wf) auto
  moreover have "lookup ?fs dir = Some Dir" using Cons.prems(2) by (simp add: lookup_without)
  moreover have "\<exists>c. lookup ?fs (dir @ [se_name f]) = Some (File c)" if "f \<in> set es" for f
  proof -
    have "se_name f \<in> se_name ` set es" "se_name e \<notin> se_name ` set es"
      using that Cons.prems(3) by simp_all
    then have "se_name f \<noteq> se_name e" by metis
    then show ?thesis using that Cons.prems(4) [of f] by (simp add: lookup_without)
  qed
  ultimately have "unlink_all dir es (b + se_size e) ?fs
      = (Inr (b + se_size e + bytes_of es), without dir (map se_name es) ?fs)"
    using Cons.prems(3) by (intro Cons.IH) auto
  moreover have "without dir (map se_name es) ?fs = without dir (map se_name (e # es)) fs"
    by (rule fsys.equality) (auto simp: without_def)
  ultimately show ?case using u by (simp add: bindW_def)
qed

text \<open>A root that passed the checks and has no \<open>..\<close> is a directory of that very path.\<close>

lemma validated_root:
  assumes "validate_root fs rt = Inr dir" and "fs_wf fs" and "dotdot \<notin> set (parts rt)"
  shows "dir = parts rt \<and> lookup fs dir = Some Dir"
proof -
  have dir: "dir = parts rt" "is_dir fs dir" "\<not> live_symlink_component fs dir"
    using assms(1) by (auto simp: validate_root_def guardE_eq_Inr)
  then obtain r where r: "walk fs True link_limit [] dir = Inr r" "lookup fs r = Some Dir"
    by (auto simp: is_dir_def split: sum.splits)
  then have "plain fs [] dir"
    using dir(3) live_symlink_strict [OF r(1)] no_symlink_plain by blast
  then have "r = dir"
    using r(1) dir(1) assms(3) walk_plain_InrD by (fastforce simp: normal_no_dotdot)
  then show ?thesis using dir(1) r(2) by simp
qed

text \<open>The names \<open>iterdir\<close> yields are the names in the directory, each once.\<close>

definition lists_directory :: "dir_env \<Rightarrow> fsys \<Rightarrow> string list \<Rightarrow> bool" where
  "lists_directory env fs dir \<longleftrightarrow>
     distinct (de_iterdir env fs dir)
     \<and> list_all (\<lambda>x. lookup fs (dir @ [x]) \<noteq> None) (de_iterdir env fs dir)"

lemma pruned:
  assumes "prune_snapshots env config fs = (Inr r, fs')" and "fs_wf fs"
    and "dotdot \<notin> set (parts (pc_root config))" and "lists_directory env fs (parts (pc_root config))"
  obtains entries kept deleted cutoff where
    "load_snapshots (de_stat env) fs (parts (pc_root config)) (de_iterdir env fs (parts (pc_root config)))
       = Inr entries"
    "1 \<le> pc_max_count config" "1 \<le> pc_max_total_bytes config"
    "mset kept + mset deleted = mset entries"
    "entries = [] \<or> longest_affordable (pc_max_count config) (pc_max_total_bytes config)
        (candidates cutoff (newest_first entries)) kept"
    "r = prune_result_of (pc_max_total_bytes config) kept deleted (bytes_of kept) (bytes_of deleted)"
    "fs' = without (parts (pc_root config)) (map se_name deleted) fs"
    "lookup fs (parts (pc_root config)) = Some Dir"
    "entries = [] \<or> (\<exists>now. now_of (de_now env) (pc_now config) = Inr now
        \<and> cutoff = now - timedelta_days (pc_max_age_days config))"
proof -
  let ?dir = "parts (pc_root config)"
  obtain dir now entries where
    dir: "validate_root fs (pc_root config) = Inr dir"
    and bounds: "1 \<le> pc_max_count config" "1 \<le> pc_max_total_bytes config"
    and now: "now_of (de_now env) (pc_now config) = Inr now"
    and load: "load_snapshots (de_stat env) fs dir (de_iterdir env fs dir) = Inr entries"
    using assms(1)
    by (auto simp: prune_snapshots_def bindW_eq_Inr validate_positive_int_def guardE_eq_Inr)
  have d: "dir = ?dir" "lookup fs ?dir = Some Dir"
    using validated_root [OF dir assms(2,3)] by auto
  have run: "(if newest_first entries = [] then liftW (Inr (prune_result_of (pc_max_total_bytes config) [] [] 0 0))
       else bindW (liftW (cutoff_of now (pc_max_age_days config))) (\<lambda>cutoff.
         (case choose_snapshots (pc_max_count config) (pc_max_total_bytes config) cutoff (newest_first entries) of
            (survivors, deletions, kept_bytes) \<Rightarrow>
              bindW (unlink_all dir deletions 0) (\<lambda>deleted_bytes.
                liftW (Inr (prune_result_of (pc_max_total_bytes config) survivors deletions (nat kept_bytes)
                              deleted_bytes)))))) fs = (Inr r, fs')"
    using assms(1) dir bounds now load
    by (auto simp: prune_snapshots_def bindW_eq_Inr validate_positive_int_def guardE_eq_Inr Let_def)
  show ?thesis
  proof (cases "newest_first entries = []")
    case True
    then have "entries = []" by simp
    then show ?thesis
      using True run load d bounds by (intro that [of "[]" "[]" "[]"]) (auto simp: without_def)
  next
    case False
    then have ne: "entries \<noteq> []" by simp
    obtain cutoff kept deleted kb where
      cut: "cutoff = now - timedelta_days (pc_max_age_days config)"
      and ch: "choose_snapshots (pc_max_count config) (pc_max_total_bytes config) cutoff (newest_first entries)
        = (kept, deleted, kb)"
      and un: "bindW (unlink_all dir deleted 0) (\<lambda>deleted_bytes.
          liftW (Inr (prune_result_of (pc_max_total_bytes config) kept deleted (nat kb) deleted_bytes))) fs
        = (Inr r, fs')"
      using run False
      by (auto simp: bindW_eq_Inr cutoff_of_def guardE_eq_Inr split: prod.splits)
    note long = choose_longest [OF ch bounds(1) False]
    have names: "map se_name entries = filter (\<lambda>x. is_file fs (dir @ [x]) \<and> suffix ''.tar.gz'' x)
        (de_iterdir env fs dir)" "list_all (\<lambda>x. \<not> is_symlink fs (dir @ [x])) (de_iterdir env fs dir)"
      using load_snapshots_exact [OF load] by simp_all
    have m: "mset kept + mset deleted = mset entries" using long by simp
    have sub: "set deleted \<subseteq> set entries"
      using arg_cong [OF m, of set_mset] by auto
    have "distinct (map se_name entries)"
      unfolding names(1) using assms(4) d(1) by (simp add: lists_directory_def)
    then have "distinct (map se_name (kept @ deleted))"
      using m by (metis mset_append mset_eq_imp_distinct_iff mset_map)
    moreover have "\<exists>c. lookup fs (dir @ [se_name e]) = Some (File c)" if "e \<in> set deleted" for e
    proof -
      have "se_name e \<in> set (map se_name entries)" using that sub by auto
      then have e: "is_file fs (dir @ [se_name e])" "\<not> is_symlink fs (dir @ [se_name e])"
        "lookup fs (dir @ [se_name e]) \<noteq> None"
        unfolding names(1) using names(2) assms(4) d(1) by (auto simp: list_all_iff lists_directory_def)
      have w: "walk fs True link_limit [] dir = Inr dir"
        using settled_walk [OF assms(2)] d by (simp add: settled_def is_link_at_def)
      then have "settled fs (dir @ [se_name e])"
        using e assms(2) by (auto simp: settled_def is_symlink_def dest: fs_wf_no_dotdot)
      then show ?thesis using settled_is_file [OF assms(2)] e(1) by simp
    qed
    ultimately have "unlink_all dir deleted 0 fs = (Inr (bytes_of deleted), without dir (map se_name deleted) fs)"
      using unlink_all_removes [OF assms(2), of dir deleted 0] d by simp
    then have "r = prune_result_of (pc_max_total_bytes config) kept deleted (bytes_of kept) (bytes_of deleted)
        \<and> fs' = without dir (map se_name deleted) fs"
      using un long by (simp add: bindW_def)
    then show ?thesis
      using load d bounds m long cut now by (intro that [of entries kept deleted cutoff]) auto
  qed
qed

section \<open>A sample directory\<close>

definition demo_snaps :: fsys where
  "demo_snaps = \<lparr>nodes = [[''s''] \<mapsto> Dir, [''s'', ''a.tar.gz''] \<mapsto> File [],
     [''s'', ''b.tar.gz''] \<mapsto> File []], cwd = []\<rparr>"

definition demo_dir :: dir_env where
  "demo_dir = \<lparr>de_iterdir = (\<lambda>fs d. [''a.tar.gz'', ''b.tar.gz'']),
     de_stat = (\<lambda>fs p. (5, if last p = ''a.tar.gz'' then 1 else 2)),
     de_now = \<lparr>dt_year = 2024, dt_month = 1, dt_day = 1, dt_hour = 0, dt_minute = 0,
                dt_second = 0, dt_micro = 0\<rparr>\<rparr>"

definition demo_prune :: prune_config where
  "demo_prune = \<lparr>pc_root = Path True [''s''], pc_max_count = 1, pc_max_age_days = 1,
     pc_max_total_bytes = 1, pc_now = None\<rparr>"

lemma demo_snaps_lookup:
  "lookup demo_snaps p = (if p = [] \<or> p = [''s''] then Some Dir
     else if p = [''s'', ''a.tar.gz''] \<or> p = [''s'', ''b.tar.gz''] then Some (File []) else None)"
  by (simp add: demo_snaps_def lookup_def)

lemma demo_snaps_wf: "fs_wf demo_snaps"
  unfolding fs_wf_def demo_snaps_lookup
  by (auto simp: dotdot_def append_eq_Cons_conv split: if_splits)

lemma demo_listed: "lists_directory demo_dir demo_snaps (parts (pc_root demo_prune))"
  "dotdot \<notin> set (parts (pc_root demo_prune))"
  by code_simp+

lemma demo_cutoff: "timedelta_days 2 \<le> instant (de_now demo_dir)"
  by (simp add: demo_dir_def instant_def timedelta_days_def ordinal_def days_before_year_def
      days_before_month_def)

lemma demo_pruned:
  "\<exists>r fs'. prune_snapshots demo_dir demo_prune demo_snaps = (Inr r, fs')
     \<and> pn_kept r = [''b.tar.gz''] \<and> pn_deleted r = [''a.tar.gz'']"
proof -
  let ?a = "\<lparr>se_name = ''a.tar.gz'', se_size = 5, se_mtime = 1\<rparr>"
  let ?b = "\<lparr>se_name = ''b.tar.gz'', se_size = 5, se_mtime = 2\<rparr>"
  let ?now = "instant (de_now demo_dir)"
  have "validate_root demo_snaps (Path True [''s'']) = Inr [''s'']" by code_simp
  moreover have "load_snapshots (de_stat demo_dir) demo_snaps [''s''] [''a.tar.gz'', ''b.tar.gz''] = Inr [?a, ?b]"
    by code_simp
  moreover have "newest_first [?a, ?b] = [?b, ?a]"
    by (simp add: newest_first_def snapshot_key_def less_eq_prod_def)
  moreover have "cutoff_of ?now 1 = Inr (?now - timedelta_days 1)"
    using demo_cutoff by (simp add: cutoff_of_def timedelta_days_def)
  moreover have "choose_snapshots 1 1 (?now - timedelta_days 1) [?b, ?a] = ([?b], [?a], 5)"
    using demo_cutoff
    by (simp add: choose_snapshots_def trim_count.simps trim_bytes.simps bytes_of_def timedelta_days_def)
  moreover have "unlink_all [''s''] [?a] 0 demo_snaps = (Inr 5, without [''s''] [''a.tar.gz''] demo_snaps)"
    using unlink_all_removes [OF demo_snaps_wf, of "[''s'']" "[?a]" 0] by (simp add: demo_snaps_lookup)
  ultimately show ?thesis
    by (simp add: prune_snapshots_def demo_prune_def bindW_def validate_positive_int_def now_of_def
        prune_result_of_def demo_dir_def)
qed

section \<open>Properties\<close>

text \<open>
  Pruning only deletes what it reports. In a well-formed file system, a run that returns
  has removed exactly the reported names from the snapshot directory and changed nothing
  else; every one of them was a regular, non-symlink \<open>.tar.gz\<close> file there; kept and deleted
  names together are the snapshots that were there, each once; and the byte counts add up.
\<close>
lemma prune_deletes_reported_only:
  assumes "prune_snapshots env config fs = (Inr r, fs')" and "fs_wf fs"
    and "dotdot \<notin> set (parts (pc_root config))" and "lists_directory env fs (parts (pc_root config))"
  shows "fs' = without (parts (pc_root config)) (pn_deleted r) fs
    \<and> mset (pn_kept r) + mset (pn_deleted r)
       = mset (filter (\<lambda>x. is_file fs (parts (pc_root config) @ [x]) \<and> suffix ''.tar.gz'' x)
                 (de_iterdir env fs (parts (pc_root config))))
    \<and> list_all (\<lambda>x. \<not> is_symlink fs (parts (pc_root config) @ [x])) (pn_kept r @ pn_deleted r)
    \<and> distinct (pn_kept r @ pn_deleted r)
    \<and> pn_total_before r = pn_kept_bytes r + pn_deleted_bytes r \<and> pn_total_after r = pn_kept_bytes r"
proof -
  let ?dir = "parts (pc_root config)"
  obtain entries kept deleted where
    load: "load_snapshots (de_stat env) fs ?dir (de_iterdir env fs ?dir) = Inr entries"
    and m: "mset kept + mset deleted = mset entries"
    and r: "r = prune_result_of (pc_max_total_bytes config) kept deleted (bytes_of kept) (bytes_of deleted)"
    and fs': "fs' = without ?dir (map se_name deleted) fs"
    by (rule pruned [OF assms])
  have names: "map se_name entries = filter (\<lambda>x. is_file fs (?dir @ [x]) \<and> suffix ''.tar.gz'' x) (de_iterdir env fs ?dir)"
    "list_all (\<lambda>x. \<not> is_symlink fs (?dir @ [x])) (de_iterdir env fs ?dir)"
    using load_snapshots_exact [OF load] by simp_all
  have mm: "mset (pn_kept r @ pn_deleted r) = mset (map se_name entries)"
    using m by (simp add: r prune_result_of_def flip: image_mset_union)
  have "distinct (pn_kept r @ pn_deleted r)"
    using assms(4) mset_eq_imp_distinct_iff [OF mm] by (simp add: names(1) lists_directory_def)
  moreover have "list_all (\<lambda>x. \<not> is_symlink fs (?dir @ [x])) (pn_kept r @ pn_deleted r)"
    using names mset_eq_setD [OF mm] unfolding list_all_iff by auto
  moreover have "mset (pn_kept r) + mset (pn_deleted r) = mset (map se_name entries)" using mm by simp
  ultimately show ?thesis
    using fs' unfolding names(1) by (simp add: r prune_result_of_def)
qed

theorem prune_deletes_reported_only_witness:
  "\<exists>r fs'. prune_snapshots demo_dir demo_prune demo_snaps = (Inr r, fs')
     \<and> fs' = without [''s''] [''a.tar.gz''] demo_snaps"
proof -
  obtain r fs' where r: "prune_snapshots demo_dir demo_prune demo_snaps = (Inr r, fs')"
    "pn_deleted r = [''a.tar.gz'']" using demo_pruned by blast
  have "fs' = without (parts (pc_root demo_prune)) (pn_deleted r) demo_snaps"
    by (rule prune_deletes_reported_only [OF r(1) demo_snaps_wf demo_listed(2,1), THEN conjunct1])
  then show ?thesis using r by (simp add: demo_prune_def)
qed

text \<open>
  C28: Retention keeps the newest snapshots it can afford. The first kept snapshot is the
  newest one of the directory, whatever its age; after it come the snapshots that are not
  older than the age limit, newest first, as many as fit: at most \<open>max_count\<close>, at most
  \<open>max_total_bytes\<close> unless only the newest is left, and one more would break a bound.
\<close>
theorem prune_keeps_longest_affordable:
  assumes "prune_snapshots env config fs = (Inr r, fs')" and "fs_wf fs"
    and "dotdot \<notin> set (parts (pc_root config))" and "lists_directory env fs (parts (pc_root config))"
    and "pn_kept r @ pn_deleted r \<noteq> []"
  shows "\<exists>entries kept now. load_snapshots (de_stat env) fs (parts (pc_root config))
         (de_iterdir env fs (parts (pc_root config))) = Inr entries
    \<and> pn_kept r = map se_name kept
    \<and> now_of (de_now env) (pc_now config) = Inr now
    \<and> longest_affordable (pc_max_count config) (pc_max_total_bytes config)
         (candidates (now - timedelta_days (pc_max_age_days config)) (newest_first entries)) kept
    \<and> list_all (\<lambda>e. snapshot_key e \<le> snapshot_key (hd kept)) entries"
proof -
  let ?dir = "parts (pc_root config)"
  obtain entries kept deleted cutoff where
    load: "load_snapshots (de_stat env) fs ?dir (de_iterdir env fs ?dir) = Inr entries"
    and m: "mset kept + mset deleted = mset entries"
    and long: "entries = [] \<or> longest_affordable (pc_max_count config) (pc_max_total_bytes config)
        (candidates cutoff (newest_first entries)) kept"
    and r: "r = prune_result_of (pc_max_total_bytes config) kept deleted (bytes_of kept) (bytes_of deleted)"
    and now: "entries = [] \<or> (\<exists>now. now_of (de_now env) (pc_now config) = Inr now
        \<and> cutoff = now - timedelta_days (pc_max_age_days config))"
    by (rule pruned [OF assms(1-4)])
  have ne: "entries \<noteq> []"
  proof
    assume "entries = []"
    then have "kept = [] \<and> deleted = []" using m by simp
    then show False using assms(5) by (simp add: r prune_result_of_def)
  qed
  then have nf: "newest_first entries \<noteq> []" by simp
  have la: "longest_affordable (pc_max_count config) (pc_max_total_bytes config)
      (candidates cutoff (newest_first entries)) kept"
    using long ne by blast
  then have "hd kept = hd (newest_first entries)"
    by (auto simp: longest_affordable_def candidates_def take_Cons' split: if_splits)
  then have "list_all (\<lambda>e. snapshot_key e \<le> snapshot_key (hd kept)) entries"
    using newest_first_hd [OF nf] by (simp add: list_all_iff)
  moreover have "pn_kept r = map se_name kept" by (simp add: r prune_result_of_def)
  ultimately show ?thesis using load la now ne by blast
qed

theorem prune_keeps_longest_affordable_witness:
  "\<exists>r fs' entries. prune_snapshots demo_dir demo_prune demo_snaps = (Inr r, fs')
     \<and> load_snapshots (de_stat demo_dir) demo_snaps [''s''] [''a.tar.gz'', ''b.tar.gz''] = Inr entries"
proof -
  obtain r fs' where r: "prune_snapshots demo_dir demo_prune demo_snaps = (Inr r, fs')"
    "pn_deleted r = [''a.tar.gz'']" using demo_pruned by blast
  then have "pn_kept r @ pn_deleted r \<noteq> []" by simp
  from prune_keeps_longest_affordable [OF r(1) demo_snaps_wf demo_listed(2,1) this] r(1)
  show ?thesis by (auto simp: demo_prune_def demo_dir_def)
qed

end
