(* ===== verification/Env_Writer.thy ===== *)
theory Env_Writer
  imports Request PyTime FileOutput World
begin

text \<open>
  The environment-file writer, \<open>scripts/env_writer/runner.py\<close>: a schema of entries is
  normalised, every entry is rendered as a quoted line for Docker Compose, the file replaces
  its destination, and evidence without values is written beside it. \<open>sha\<close> is the hex form of
  \<open>hashlib.sha256\<close>. File modes are checked against the allowed list; that \<open>chmod\<close> sets them is
  not modelled.
\<close>

section \<open>The schema\<close>

definition env_error :: "string \<Rightarrow> exc" where "env_error m = Exc EnvFileError m"

definition env_key_tail :: "char \<Rightarrow> bool" where
  "env_key_tail c \<longleftrightarrow> is_upper c \<or> is_digit c \<or> c = CHR ''_''"

definition KEY_RE :: rx where
  "KEY_RE = anchored (Seq (Cls (\<lambda>c. is_upper c \<or> c = CHR ''_'')) (upto_rep 127 (Cls env_key_tail)))"

definition MAX_SCHEMA_BYTES :: nat where "MAX_SCHEMA_BYTES = 1048576"
definition MAX_ENTRIES :: nat where "MAX_ENTRIES = 200"
definition MAX_VALUE_BYTES :: nat where "MAX_VALUE_BYTES = 1048576"

text \<open>\<open>0o400, 0o440, 0o600, 0o640, 0o660\<close>\<close>

definition ALLOWED_MODES :: "nat list" where "ALLOWED_MODES = [256, 288, 384, 416, 432]"

text \<open>
  \<open>value.encode("utf-8")\<close>, a byte as the character of its value: a Latin-1 character above
  127 takes two bytes. The content of a file is its bytes.
\<close>

definition utf8_encode :: "string \<Rightarrow> string" where
  "utf8_encode s =
     concat (map (\<lambda>c. if code c < 128 then [c]
                      else [char_of (192 + code c div 64), char_of (128 + code c mod 64)]) s)"

definition bounded_value :: "json \<Rightarrow> string \<Rightarrow> string result" where
  "bounded_value value label =
     (case value of
        JStr v \<Rightarrow>
          guardE (length (utf8_encode v) \<le> MAX_VALUE_BYTES) (env_error (label @ '' exceeds 1048576 bytes''))
          (guardE (\<not> has_char (CHR 0x00) v) (env_error (label @ '' contains a NUL byte'')) (Inr v))
      | _ \<Rightarrow> Inl (env_error (label @ '' must be a string'')))"

definition entry_key :: "jobj \<Rightarrow> string list \<Rightarrow> string result" where
  "entry_key raw keys =
     (case jget ''key'' raw of
        JStr key \<Rightarrow>
          guardE (fullmatch KEY_RE key)
            (env_error ''entry key must be an uppercase environment variable name'')
          (guardE (\<not> List.member keys key) (env_error (''duplicate entry key: '' @ key)) (Inr key))
      | _ \<Rightarrow> Inl (env_error ''entry key must be an uppercase environment variable name''))"

definition normalize_env :: "string \<Rightarrow> jobj \<Rightarrow> bool \<Rightarrow> bool \<Rightarrow> jobj result" where
  "normalize_env key raw required secret =
     (case jget ''env'' raw of
        JStr source \<Rightarrow>
          guardE (fullmatch KEY_RE source)
            (env_error (key @ '' env source must be an uppercase variable name''))
          (guardE (\<not> (secret \<and> jhas ''default'' raw))
            (env_error (key @ '' secret entries must not embed defaults''))
          (bindE (if jget ''default'' raw = JNull then Inr JNull
                  else bindE (bounded_value (jget ''default'' raw) (key @ '' default''))
                         (\<lambda>v. Inr (JStr v)))
            (\<lambda>dflt. Inr [(''key'', JStr key), (''source_kind'', JStr ''env''), (''source'', JStr source),
                       (''required'', JBool required), (''secret'', JBool secret), (''default'', dflt)])))
      | _ \<Rightarrow> Inl (env_error (key @ '' env source must be an uppercase variable name'')))"

definition normalize_literal :: "string \<Rightarrow> jobj \<Rightarrow> bool \<Rightarrow> jobj result" where
  "normalize_literal key raw secret =
     guardE (\<not> secret) (env_error (key @ '' literal entries cannot be secret''))
     (bindE (bounded_value (jget ''literal'' raw) (key @ '' literal'')) (\<lambda>literal.
        Inr [(''key'', JStr key), (''source_kind'', JStr ''literal''), (''literal'', JStr literal),
             (''required'', JBool True), (''secret'', JBool False), (''default'', JNull)]))"

definition normalize_entry :: "jobj \<Rightarrow> string list \<Rightarrow> (string \<times> jobj) result" where
  "normalize_entry raw keys =
     bindE (entry_key raw keys) (\<lambda>key.
     let has_env = jhas ''env'' raw; has_literal = jhas ''literal'' raw in
     guardE (has_env \<noteq> has_literal)
       (env_error (key @ '' must define exactly one of env or literal''))
     (case (jget_or ''secret'' (JBool has_env) raw, jget_or ''required'' (JBool False) raw) of
        (JBool secret, JBool required) \<Rightarrow>
          bindE (if has_env then normalize_env key raw required secret
                 else normalize_literal key raw secret)
            (\<lambda>entry. Inr (key, entry))
      | _ \<Rightarrow> Inl (env_error (key @ '' secret and required fields must be boolean''))))"

fun normalize_entries :: "json list \<Rightarrow> string list \<Rightarrow> jobj list result" where
  "normalize_entries [] keys = Inr []"
| "normalize_entries (JObj raw # rest) keys =
     bindE (normalize_entry raw keys) (\<lambda>(key, entry).
     bindE (normalize_entries rest (keys @ [key])) (\<lambda>entries. Inr (entry # entries)))"
| "normalize_entries (_ # rest) keys = Inl (env_error ''every schema entry must be an object'')"

definition normalize_schema :: "json \<Rightarrow> jobj list result" where
  "normalize_schema data =
     (case data of
        JObj d \<Rightarrow>
          guardE (eq_int (jget ''version'' d) 1) (env_error ''schema must be an object with version 1'')
          (case jget ''entries'' d of
             JArr raws \<Rightarrow>
               guardE (1 \<le> length raws \<and> length raws \<le> MAX_ENTRIES)
                 (env_error ''schema entries must contain 1-200 items'') (normalize_entries raws [])
           | _ \<Rightarrow> Inl (env_error ''schema entries must contain 1-200 items''))
      | _ \<Rightarrow> Inl (env_error ''schema must be an object with version 1''))"

text \<open>The dictionary \<open>normalize_schema\<close> returns\<close>

definition schema_json :: "jobj list \<Rightarrow> json" where
  "schema_json entries = JObj [(''version'', JInt 1), (''entries'', JArr (map JObj entries))]"

definition load_schema :: "(string \<Rightarrow> json result) \<Rightarrow> fsys \<Rightarrow> string list \<Rightarrow> json result" where
  "load_schema loads fs p =
     guardE (is_file fs p \<and> \<not> is_symlink fs p) (env_error ''schema must be a regular non-symlink file'')
     (bindE (read_file fs p) (\<lambda>s.
      guardE (length s \<le> MAX_SCHEMA_BYTES) (env_error ''schema exceeds 1048576 bytes'')
      (bindE (except_raise (loads s) [OSError, JSONDecodeError] (env_error ''schema is not valid UTF-8 JSON''))
        (\<lambda>data. bindE (normalize_schema data) (\<lambda>entries. Inr (schema_json entries))))))"

section \<open>Rendering\<close>

definition replace_char :: "char \<Rightarrow> string \<Rightarrow> string \<Rightarrow> string" where
  "replace_char c by s = concat (map (\<lambda>x. if x = c then by else [x]) s)"

definition compose_quote :: "string \<Rightarrow> string result" where
  "compose_quote value =
     bindE (bounded_value (JStr value) ''environment value'') (\<lambda>v.
       Inr (CHR 0x22 # (replace_char CHR ''$'' ''$$''
              (replace_char (CHR 0x09) [backslash, CHR ''t'']
              (replace_char LF [backslash, CHR ''n'']
              (replace_char CR [backslash, CHR ''r'']
              (replace_char (CHR 0x22) [backslash, CHR 0x22]
              (replace_char backslash [backslash, backslash] v)))))) @ [CHR 0x22]))"

text \<open>The value of an entry and whether it is present\<close>

definition entry_value :: "(string \<Rightarrow> string option) \<Rightarrow> jobj \<Rightarrow> (string \<times> bool) result" where
  "entry_value environment entry =
     (if jget ''source_kind'' entry = JStr ''literal''
      then (case jget ''literal'' entry of JStr v \<Rightarrow> Inr (v, True) | _ \<Rightarrow> Inl (Exc KeyError ''literal''))
      else
        (case (jget ''source'' entry, jget ''key'' entry) of
           (JStr source, JStr key) \<Rightarrow>
             (case environment source of
                Some (c # cs) \<Rightarrow>
                  bindE (bounded_value (JStr (c # cs)) (''environment source for '' @ key))
                    (\<lambda>v. Inr (v, True))
              | _ \<Rightarrow>
                  (case jget ''default'' entry of
                     JStr d \<Rightarrow> Inr (d, True)
                   | _ \<Rightarrow>
                     if jget ''required'' entry = JBool True
                     then Inl (env_error (''required environment source is missing for '' @ key))
                     else Inr ([], False)))
         | _ \<Rightarrow> Inl (Exc KeyError ''source'')))"

definition entry_metadata :: "(string \<Rightarrow> string) \<Rightarrow> jobj \<Rightarrow> bool \<Rightarrow> jobj" where
  "entry_metadata sha entry present =
     [(''key'', jget ''key'' entry),
      (''key_sha256'', JStr (sha (case jget ''key'' entry of JStr k \<Rightarrow> k | _ \<Rightarrow> []))),
      (''source_kind'', jget ''source_kind'' entry),
      (''required'', jget ''required'' entry),
      (''secret'', jget ''secret'' entry),
      (''present'', JBool present)]"

fun render_entries ::
    "(string \<Rightarrow> string) \<Rightarrow> (string \<Rightarrow> string option) \<Rightarrow> jobj list \<Rightarrow> (string list \<times> jobj list) result" where
  "render_entries sha environment [] = Inr ([], [])"
| "render_entries sha environment (entry # rest) =
     bindE (entry_value environment entry) (\<lambda>(value, present).
     bindE (compose_quote value) (\<lambda>quoted.
     bindE (render_entries sha environment rest) (\<lambda>(lines, metadata).
       Inr (((case jget ''key'' entry of JStr k \<Rightarrow> k | _ \<Rightarrow> []) @ ''='' @ quoted) # lines,
            entry_metadata sha entry present # metadata))))"

definition render_env ::
    "(string \<Rightarrow> string) \<Rightarrow> json \<Rightarrow> (string \<Rightarrow> string option) \<Rightarrow> (string \<times> jobj list) result" where
  "render_env sha schema environment =
     bindE (normalize_schema schema) (\<lambda>entries.
     bindE (render_entries sha environment entries) (\<lambda>(lines, metadata).
       Inr (join_str [LF] lines @ [LF], metadata)))"

section \<open>Paths\<close>

definition path_parent :: "path \<Rightarrow> path" where
  "path_parent p = Path (is_abs p) (butlast (parts p))"

text \<open>The loop up the parents: every path on the way to \<open>stop\<close> must be no link.\<close>

function climb :: "fsys \<Rightarrow> path \<Rightarrow> path \<Rightarrow> unit result" where
  "climb fs stop current =
     (if is_symlink fs (parts (absolute fs current))
      then Inl (env_error ''path must not contain symbolic links'')
      else if current = stop then Inr ()
      else if parts current = [] then Inl (env_error ''path is not contained by allowed root'')
      else climb fs stop (path_parent current))"
  by pat_completeness auto
termination
  by (relation "measure (\<lambda>(fs, stop, current). length (parts current))") (auto simp: path_parent_def)

declare climb.simps [simp del]

definition resolve_destination :: "fsys \<Rightarrow> path \<Rightarrow> path \<Rightarrow> string list result" where
  "resolve_destination fs destination allowed_root =
     (let root_parts = parts (absolute fs allowed_root) in
      guardE (is_dir fs root_parts \<and> \<not> is_symlink fs root_parts)
        (env_error ''allowed_root must be an existing non-symlink directory'')
      (bindE (resolve fs True allowed_root) (\<lambda>allowed.
       bindE (resolve fs True (path_parent destination)) (\<lambda>parent.
       guardE (prefix allowed parent)
         (env_error ''destination parent must remain inside allowed_root'')
       (bindE (climb fs allowed_root (path_parent destination)) (\<lambda>_.
          let candidate = parent @ (if parts destination = [] then [] else [last (parts destination)]) in
          guardE (\<not> (path_exists fs candidate \<and> (is_symlink fs candidate \<or> \<not> is_file fs candidate)))
            (env_error ''destination must be a regular file or absent'')
            (Inr candidate)))))))"

definition env_repository_path :: "fsys \<Rightarrow> string list \<Rightarrow> string \<Rightarrow> bool \<Rightarrow> string list result" where
  "env_repository_path fs workspace relative must_exist =
     guardE (relative \<noteq> [] \<and> \<not> prefix ''/'' relative \<and> \<not> has_char backslash relative)
       (env_error ''repository paths must be relative'')
     (guardE (\<not> List.member (parts (parse_path relative)) dotdot)
       (env_error ''repository paths must not traverse'')
     (let candidate = Path True (workspace @ parts (parse_path relative)) in
      bindE (resolve fs must_exist candidate) (\<lambda>resolved.
      guardE (prefix workspace resolved)
        (env_error ''repository path resolves outside workspace'')
      (bindE (climb fs (Path True workspace) candidate) (\<lambda>_. Inr resolved)))))"

section \<open>Writing\<close>

text \<open>
  The temporary file beside the destination is removed or renamed on every path, so a
  failure leaves no trace; the rename replaces what was there.
\<close>

definition replace_file :: "string list \<Rightarrow> string \<Rightarrow> (fsys, unit) action" where
  "replace_file p content fs =
     (if lookup fs (butlast p) \<noteq> Some Dir then (Inl enoent, fs)
      else if lookup fs p = Some Dir then (Inl eisdir, fs)
      else (Inr (), put_node p (File content) fs))"

definition write_json_atomic :: "string list \<Rightarrow> string \<Rightarrow> (fsys, unit) action" where
  "write_json_atomic p content =
     bindW (mkdir_parents (butlast p)) (\<lambda>_.
     bindW (refuse_symlink (env_error ''evidence path must not be a symbolic link'') p) (\<lambda>_.
     bindW (refuse_symlink (env_error ''temporary evidence path must not be a symbolic link'')
              (butlast p @ [last p @ ''.tmp''])) (\<lambda>_.
       write_and_replace p content)))"

definition octal4 :: "nat \<Rightarrow> string" where
  "octal4 m = map digit_char [m div 512 mod 8, m div 64 mod 8, m div 8 mod 8, m mod 8]"

definition env_payload :: "string \<Rightarrow> nat \<Rightarrow> jobj list \<Rightarrow> jobj" where
  "env_payload name mode entries =
     [(''schema_version'', JInt 1), (''result'', JStr ''passed''), (''destination_name'', JStr name),
      (''mode'', JStr (octal4 mode)), (''entry_count'', JInt (int (length entries))),
      (''entries'', JArr (map JObj entries))]"

definition write_env_file ::
    "(string \<Rightarrow> string) \<Rightarrow> (json \<Rightarrow> string) \<Rightarrow> json \<Rightarrow> (string \<Rightarrow> string option) \<Rightarrow> path \<Rightarrow> path \<Rightarrow> nat
     \<Rightarrow> string list \<Rightarrow> (fsys, jobj) action" where
  "write_env_file sha dumps schema environment destination allowed_root mode evidence_path =
     bindW (liftW (guardE (List.member ALLOWED_MODES mode)
       (env_error ''mode must be one of 0400, 0440, 0600, 0640, or 0660'') (Inr ()))) (\<lambda>_.
     bindW (\<lambda>fs. (resolve_destination fs destination allowed_root, fs)) (\<lambda>dest.
     bindW (liftW (render_env sha schema environment)) (\<lambda>(rendered, entries).
     bindW (replace_file dest (utf8_encode rendered)) (\<lambda>_.
     let payload = env_payload (last dest) mode entries in
     bindW (write_json_atomic evidence_path (dumps (JObj payload) @ [LF])) (\<lambda>_.
       liftW (Inr payload))))))"

definition MODE_RE :: rx where
  "MODE_RE = Seq (Cls (\<lambda>c. c = CHR ''0'')) (rep 3 (Cls (in_range CHR ''0'' CHR ''7'')))"

definition parse_mode :: "string \<Rightarrow> nat result" where
  "parse_mode value =
     guardE (fullmatch MODE_RE value) (env_error ''mode must be a four-digit octal string'')
       (Inr (foldl (\<lambda>a c. a * 8 + digit_value c) 0 value))"

record env_args =
  ea_schema_path :: string
  ea_destination :: string
  ea_allowed_root :: string
  ea_mode :: string
  ea_evidence_path :: string
  ea_workspace :: string

text \<open>\<open>main\<close>: 0, or 2 for a contract or system error; any other exception ends the process with 1.\<close>

definition env_main ::
    "(string \<Rightarrow> string) \<Rightarrow> (json \<Rightarrow> string) \<Rightarrow> (string \<Rightarrow> json result) \<Rightarrow> (string \<Rightarrow> string option)
     \<Rightarrow> env_args \<Rightarrow> fsys \<Rightarrow> nat \<times> fsys" where
  "env_main sha dumps loads environment args fs =
     (case (bindW (\<lambda>fs. (resolve fs True (parse_path (ea_workspace args)), fs)) (\<lambda>workspace.
            bindW (\<lambda>fs. (env_repository_path fs workspace (ea_schema_path args) True, fs)) (\<lambda>schema_path.
            bindW (\<lambda>fs. (env_repository_path fs workspace (ea_evidence_path args) False, fs)) (\<lambda>evidence_path.
            bindW (\<lambda>fs. (load_schema loads fs schema_path, fs)) (\<lambda>schema.
            bindW (liftW (parse_mode (ea_mode args))) (\<lambda>mode.
              write_env_file sha dumps schema environment (parse_path (ea_destination args))
                (parse_path (ea_allowed_root args)) mode evidence_path)))))) fs of
        (Inr _, fs') \<Rightarrow> (0, fs')
      | (Inl e, fs') \<Rightarrow> (if catches [EnvFileError, OSError] e then 2 else 1, fs'))"

section \<open>Normalising twice\<close>

definition literal_entry :: "jobj \<Rightarrow> bool" where
  "literal_entry entry \<longleftrightarrow> jget ''source_kind'' entry = JStr ''literal''"

lemma entry_key_Inr:
  "entry_key raw keys = Inr k \<longleftrightarrow>
     jget ''key'' raw = JStr k \<and> fullmatch KEY_RE k \<and> \<not> List.member keys k"
  by (auto simp: entry_key_def res_simps split: json.splits)

lemma bounded_value_Inr:
  "bounded_value v label = Inr s \<longleftrightarrow>
     v = JStr s \<and> length (utf8_encode s) \<le> MAX_VALUE_BYTES \<and> \<not> has_char (CHR 0x00) s"
  by (cases v) (auto simp: bounded_value_def res_simps)

lemma normalize_entry_Inr:
  assumes "normalize_entry raw keys = Inr (k, entry)"
  shows "entry_key raw keys = Inr k \<and> jget ''key'' entry = JStr k
    \<and> (literal_entry entry \<longleftrightarrow> \<not> jhas ''env'' raw)
    \<and> (\<not> literal_entry entry \<longrightarrow> \<not> jhas ''env'' entry \<and> \<not> jhas ''literal'' entry)
    \<and> (literal_entry entry \<longrightarrow> normalize_entry entry keys = Inr (k, entry))"
proof -
  obtain secret required where s: "entry_key raw keys = Inr k" "jhas ''env'' raw \<noteq> jhas ''literal'' raw"
    "jget_or ''secret'' (JBool (jhas ''env'' raw)) raw = JBool secret"
    "jget_or ''required'' (JBool False) raw = JBool required"
    "(if jhas ''env'' raw then normalize_env k raw required secret else normalize_literal k raw secret) = Inr entry"
  proof -
    obtain key where k: "entry_key raw keys = Inr key"
      using assms by (auto simp: normalize_entry_def bindE_eq_Inr)
    have g: "jhas ''env'' raw \<noteq> jhas ''literal'' raw"
      using assms by (simp add: normalize_entry_def k Let_def guardE_eq_Inr)
    obtain secret where b: "jget_or ''secret'' (JBool (jhas ''env'' raw)) raw = JBool secret"
      using assms g
      by (cases "jget_or ''secret'' (JBool (jhas ''env'' raw)) raw") (simp_all add: normalize_entry_def k Let_def)
    obtain required where c: "jget_or ''required'' (JBool False) raw = JBool required"
      using assms g b
      by (cases "jget_or ''required'' (JBool False) raw") (simp_all add: normalize_entry_def k Let_def)
    have "key = k" "(if jhas ''env'' raw then normalize_env k raw required secret
        else normalize_literal k raw secret) = Inr entry"
      using assms g b c by (auto simp: normalize_entry_def k bindE_eq_Inr split: if_splits)
    with k g b c show ?thesis by (rule_tac that) auto
  qed
  show ?thesis
  proof (cases "jhas ''env'' raw")
    case True
    then have "normalize_env k raw required secret = Inr entry" using s(5) by simp
    then have "jget ''key'' entry = JStr k" "jget ''source_kind'' entry = JStr ''env''"
      "\<not> jhas ''env'' entry" "\<not> jhas ''literal'' entry"
      by (auto simp: normalize_env_def bindE_eq_Inr guardE_eq_Inr split: json.splits)
    then show ?thesis using s(1) True by (simp add: literal_entry_def)
  next
    case False
    then obtain v where v: "bounded_value (jget ''literal'' raw) (k @ '' literal'') = Inr v"
      "entry = [(''key'', JStr k), (''source_kind'', JStr ''literal''), (''literal'', JStr v),
             (''required'', JBool True), (''secret'', JBool False), (''default'', JNull)]"
      using s(5) by (auto simp: normalize_literal_def bindE_eq_Inr guardE_eq_Inr)
    have "entry_key entry keys = Inr k" using s(1) by (simp add: entry_key_Inr v(2))
    moreover have "bounded_value (JStr v) (k @ '' literal'') = Inr v" using v(1) by (simp add: bounded_value_Inr)
    ultimately have "normalize_entry entry keys = Inr (k, entry)"
      by (simp add: normalize_entry_def normalize_literal_def v(2))
    then show ?thesis using s(1) False by (simp add: literal_entry_def v(2))
  qed
qed

text \<open>
  A normalised literal entry normalises to itself; a normalised environment entry names its
  variable in \<open>source\<close>, which normalising does not read, so it is refused.
\<close>

lemma normalize_entries_again:
  "normalize_entries raws keys = Inr entries \<Longrightarrow>
     (list_all literal_entry entries \<and> normalize_entries (map JObj entries) keys = Inr entries)
   \<or> (\<not> list_all literal_entry entries
      \<and> (\<exists>k. normalize_entries (map JObj entries) keys
               = Inl (env_error (k @ '' must define exactly one of env or literal''))))"
proof (induction raws keys arbitrary: entries rule: normalize_entries.induct)
  case (2 raw rest keys)
  obtain k entry es where e: "normalize_entry raw keys = Inr (k, entry)"
    "normalize_entries rest (keys @ [k]) = Inr es" "entries = entry # es"
    using 2(2) by (auto simp: bindE_eq_Inr)
  note ih = 2(1) [OF e(1) refl e(2)]
  note n = normalize_entry_Inr [OF e(1)]
  show ?case
  proof (cases "literal_entry entry")
    case True
    then have "normalize_entry entry keys = Inr (k, entry)" using n by simp
    then show ?thesis using ih True by (auto simp: e(3))
  next
    case False
    then have "entry_key entry keys = Inr k" "\<not> jhas ''env'' entry" "\<not> jhas ''literal'' entry"
      using n by (auto simp: entry_key_Inr)
    then have "normalize_entry entry keys = Inl (env_error (k @ '' must define exactly one of env or literal''))"
      by (simp add: normalize_entry_def)
    then show ?thesis using False by (auto simp: e(3))
  qed
qed auto

lemma normalize_entries_length: "normalize_entries raws keys = Inr entries \<Longrightarrow> length entries = length raws"
  by (induction raws keys arbitrary: entries rule: normalize_entries.induct) (auto simp: bindE_eq_Inr)

lemma normalize_schema_Inr:
  "normalize_schema data = Inr entries \<Longrightarrow>
     \<exists>d raws. data = JObj d \<and> jget ''entries'' d = JArr raws \<and> 1 \<le> length raws
       \<and> length raws \<le> MAX_ENTRIES \<and> normalize_entries raws [] = Inr entries"
  by (auto simp: normalize_schema_def guardE_eq_Inr split: json.splits)

lemma normalize_again:
  assumes "normalize_schema data = Inr entries"
  shows "if list_all literal_entry entries then normalize_schema (schema_json entries) = Inr entries
    else \<exists>k. normalize_schema (schema_json entries)
               = Inl (env_error (k @ '' must define exactly one of env or literal''))"
proof -
  obtain raws where r: "1 \<le> length raws" "length raws \<le> MAX_ENTRIES" "normalize_entries raws [] = Inr entries"
    using normalize_schema_Inr [OF assms] by blast
  have "normalize_schema (schema_json entries) = normalize_entries (map JObj entries) []"
    using r normalize_entries_length [OF r(3)] by (simp add: normalize_schema_def schema_json_def)
  then show ?thesis using normalize_entries_again [OF r(3)] by auto
qed

lemma normalize_entries_literal:
  "normalize_entries raws keys = Inr entries \<Longrightarrow> JObj raw \<in> set raws \<Longrightarrow> jhas ''env'' raw
   \<Longrightarrow> \<not> list_all literal_entry entries"
proof (induction raws keys arbitrary: entries rule: normalize_entries.induct)
  case (2 raw' rest keys)
  obtain k entry es where e: "normalize_entry raw' keys = Inr (k, entry)"
    "normalize_entries rest (keys @ [k]) = Inr es" "entries = entry # es"
    using 2(2) by (auto simp: bindE_eq_Inr)
  show ?case
    using 2(1) [OF e(1) refl e(2)] 2(3,4) normalize_entry_Inr [OF e(1)] by (auto simp: e(3))
qed auto

section \<open>Quoting\<close>

definition quote_char :: "char \<Rightarrow> string" where
  "quote_char c =
     (if c = backslash then [backslash, backslash] else if c = CHR 0x22 then [backslash, CHR 0x22]
      else if c = CR then [backslash, CHR ''r''] else if c = LF then [backslash, CHR ''n'']
      else if c = CHR 0x09 then [backslash, CHR ''t''] else if c = CHR ''$'' then ''$$'' else [c])"

lemma replace_char_concat: "replace_char c by (concat (map f s)) = concat (map (\<lambda>x. replace_char c by (f x)) s)"
  by (induction s) (simp_all add: replace_char_def)

lemma quote_chars:
  "replace_char CHR ''$'' ''$$'' (replace_char (CHR 0x09) [backslash, CHR ''t'']
     (replace_char LF [backslash, CHR ''n''] (replace_char CR [backslash, CHR ''r'']
     (replace_char (CHR 0x22) [backslash, CHR 0x22] (replace_char backslash [backslash, backslash] v)))))
   = concat (map quote_char v)"
proof -
  have "replace_char backslash [backslash, backslash] v
      = concat (map (\<lambda>x. if x = backslash then [backslash, backslash] else [x]) v)"
    by (simp add: replace_char_def)
  then show ?thesis
    by (simp only: replace_char_concat)
      (rule arg_cong [where f = concat], rule map_cong [OF refl],
       simp add: replace_char_def quote_char_def backslash_def CR_def LF_def)
qed

text \<open>How Docker Compose reads a double-quoted value\<close>

fun unquote :: "string \<Rightarrow> string option" where
  "unquote [] = None"
| "unquote (c # s) =
     (if c = CHR 0x22 then (if s = [] then Some [] else None)
      else if c = backslash then
        (case s of
           [] \<Rightarrow> None
         | d # t \<Rightarrow> map_option (Cons (if d = CHR ''n'' then LF else if d = CHR ''r'' then CR
                                   else if d = CHR ''t'' then CHR 0x09 else d)) (unquote t))
      else if c = CHR ''$'' then
        (case s of d # t \<Rightarrow> if d = CHR ''$'' then map_option (Cons c) (unquote t) else None | [] \<Rightarrow> None)
      else map_option (Cons c) (unquote s))"

lemma unquote_quoted: "unquote (concat (map quote_char v) @ [CHR 0x22]) = Some v"
  by (induction v) (auto simp: quote_char_def backslash_def CR_def LF_def)

lemma compose_quote_Inr:
  assumes "compose_quote v = Inr q"
  shows "q = CHR 0x22 # concat (map quote_char v) @ [CHR 0x22]"
proof -
  have "q = CHR 0x22 # (replace_char CHR ''$'' ''$$'' (replace_char (CHR 0x09) [backslash, CHR ''t'']
     (replace_char LF [backslash, CHR ''n''] (replace_char CR [backslash, CHR ''r'']
     (replace_char (CHR 0x22) [backslash, CHR 0x22] (replace_char backslash [backslash, backslash] v)))))) @ [CHR 0x22]"
    using assms unfolding compose_quote_def bindE_eq_Inr bounded_value_Inr by blast
  then show ?thesis by (simp only: quote_chars)
qed

lemma quote_char_printable: "c \<in> set (quote_char d) \<Longrightarrow> c \<noteq> LF \<and> c \<noteq> CR"
  by (auto simp: quote_char_def backslash_def CR_def LF_def split: if_splits)

section \<open>Rendering and the evidence\<close>

definition missing_source :: "(string \<Rightarrow> string option) \<Rightarrow> string \<Rightarrow> bool" where
  "missing_source environment source \<longleftrightarrow> environment source = None \<or> environment source = Some []"

lemma entry_value_present:
  assumes "entry_value e1 entry = Inr (v1, p1)" "entry_value e2 entry = Inr (v2, p2)"
    and "missing_source e1 = missing_source e2"
  shows "p1 = p2"
proof (cases "jget ''source_kind'' entry = JStr ''literal''")
  case True
  then show ?thesis using assms(1,2) by (auto simp: entry_value_def split: json.splits)
next
  case False
  then obtain source key where s: "jget ''source'' entry = JStr source" "jget ''key'' entry = JStr key"
    using assms(1)
    by (cases "jget ''source'' entry"; cases "jget ''key'' entry") (simp_all add: entry_value_def)
  show ?thesis
  proof (cases "missing_source e1 source")
    case True
    moreover have "missing_source e2 source" using True assms(3) by simp
    ultimately show ?thesis
      using assms(1,2) False
      by (cases "jget ''default'' entry") (auto simp: entry_value_def s missing_source_def split: if_splits)
  next
    case ne: False
    moreover have "\<not> missing_source e2 source" using ne assms(3) by simp
    ultimately obtain c1 cs1 c2 cs2 where "e1 source = Some (c1 # cs1)" "e2 source = Some (c2 # cs2)"
      unfolding missing_source_def by (metis list.exhaust option.exhaust)
    then show ?thesis using assms(1,2) False by (auto simp: entry_value_def s bindE_eq_Inr)
  qed
qed

lemma render_entries_metadata:
  "render_entries sha e1 entries = Inr (l1, m1) \<Longrightarrow> render_entries sha e2 entries = Inr (l2, m2)
   \<Longrightarrow> missing_source e1 = missing_source e2 \<Longrightarrow> m1 = m2"
proof (induction entries arbitrary: l1 m1 l2 m2)
  case (Cons entry rest)
  obtain v1 p1 l1' m1' where 1: "entry_value e1 entry = Inr (v1, p1)"
    "render_entries sha e1 rest = Inr (l1', m1')" "m1 = entry_metadata sha entry p1 # m1'"
    using Cons.prems(1) by (auto simp: bindE_eq_Inr)
  obtain v2 p2 l2' m2' where 2: "entry_value e2 entry = Inr (v2, p2)"
    "render_entries sha e2 rest = Inr (l2', m2')" "m2 = entry_metadata sha entry p2 # m2'"
    using Cons.prems(2) by (auto simp: bindE_eq_Inr)
  show ?case
    using Cons.IH [OF 1(2) 2(2) Cons.prems(3)] entry_value_present [OF 1(1) 2(1) Cons.prems(3)]
    by (simp add: 1(3) 2(3))
qed simp

lemma render_entries_lines:
  "render_entries sha environment entries = Inr (lines, metadata) \<Longrightarrow>
     list_all2 (\<lambda>entry line. \<exists>v p body. entry_value environment entry = Inr (v, p)
        \<and> line = (case jget ''key'' entry of JStr k \<Rightarrow> k | _ \<Rightarrow> []) @ ''='' @ CHR 0x22 # body
        \<and> unquote body = Some v \<and> LF \<notin> set body \<and> CR \<notin> set body) entries lines"
proof (induction entries arbitrary: lines metadata)
  case (Cons entry rest)
  obtain v p q ls m where s: "entry_value environment entry = Inr (v, p)" "compose_quote v = Inr q"
    "render_entries sha environment rest = Inr (ls, m)"
    "lines = ((case jget ''key'' entry of JStr k \<Rightarrow> k | _ \<Rightarrow> []) @ ''='' @ q) # ls"
    using Cons.prems by (auto simp: bindE_eq_Inr)
  let ?body = "concat (map quote_char v) @ [CHR 0x22]"
  have "LF \<notin> set ?body" "CR \<notin> set ?body"
    using quote_char_printable by (auto simp: LF_def CR_def)
  then have "\<exists>v' p' body. entry_value environment entry = Inr (v', p')
        \<and> hd lines = (case jget ''key'' entry of JStr k \<Rightarrow> k | _ \<Rightarrow> []) @ ''='' @ CHR 0x22 # body
        \<and> unquote body = Some v' \<and> LF \<notin> set body \<and> CR \<notin> set body"
    using unquote_quoted [of v] compose_quote_Inr [OF s(2)] s(1,4)
    by (intro exI [of _ v] exI [of _ p] exI [of _ ?body] conjI) simp_all
  then show ?case using Cons.IH [OF s(3)] s(4) by simp
qed simp

section \<open>Properties\<close>

lemma load_schema_Inr:
  assumes "load_schema loads fs p = Inr schema"
  obtains s data entries where "read_file fs p = Inr s" "loads s = Inr data"
    "normalize_schema data = Inr entries" "schema = schema_json entries"
proof -
  obtain s where s: "read_file fs p = Inr s"
    using assms by (auto simp: load_schema_def guardE_eq_Inr bindE_eq_Inr)
  obtain data where d: "loads s = Inr data"
    using assms s by (cases "loads s") (auto simp: load_schema_def guardE_eq_Inr bindE_eq_Inr except_raise_def split: if_splits)
  show ?thesis
    using assms s d
    by (auto simp: load_schema_def guardE_eq_Inr bindE_eq_Inr except_raise_def intro: that)
qed

text \<open>
  C29: Every line of a rendered environment file is the key of its entry, an equals sign and
  one quoted value that spans no further line and that reading the quotes and the escapes
  back turns into the value of the entry, byte for byte.
\<close>

theorem env_lines_read_back:
  assumes "render_env sha schema environment = Inr (rendered, metadata)"
  shows "\<exists>entries lines. normalize_schema schema = Inr entries \<and> rendered = join_str [LF] lines @ [LF]
    \<and> list_all2 (\<lambda>entry line. \<exists>v p body. entry_value environment entry = Inr (v, p)
          \<and> line = (case jget ''key'' entry of JStr k \<Rightarrow> k | _ \<Rightarrow> []) @ ''='' @ CHR 0x22 # body
          \<and> unquote body = Some v \<and> LF \<notin> set body \<and> CR \<notin> set body) entries lines"
proof -
  obtain entries lines where "normalize_schema schema = Inr entries"
    "render_entries sha environment entries = Inr (lines, metadata)" "rendered = join_str [LF] lines @ [LF]"
    using assms by (auto simp: render_env_def bindE_eq_Inr)
  then show ?thesis using render_entries_lines by blast
qed

definition demo_env_schema :: json where
  "demo_env_schema = JObj [(''version'', JInt 1), (''entries'', JArr
     [JObj [(''key'', JStr ''TOKEN''), (''env'', JStr ''APP_TOKEN''), (''required'', JBool True)],
      JObj [(''key'', JStr ''HOST''), (''literal'', JStr ''web'')]])]"

definition demo_environment :: "string \<Rightarrow> string \<Rightarrow> string option" where
  "demo_environment value name = (if name = ''APP_TOKEN'' then Some value else None)"

definition demo_env_entries :: "jobj list" where
  "demo_env_entries =
     [[(''key'', JStr ''TOKEN''), (''source_kind'', JStr ''env''), (''source'', JStr ''APP_TOKEN''),
       (''required'', JBool True), (''secret'', JBool True), (''default'', JNull)],
      [(''key'', JStr ''HOST''), (''source_kind'', JStr ''literal''), (''literal'', JStr ''web''),
       (''required'', JBool True), (''secret'', JBool False), (''default'', JNull)]]"

lemma demo_env_keys: "fullmatch KEY_RE ''TOKEN''" "fullmatch KEY_RE ''HOST''" "fullmatch KEY_RE ''APP_TOKEN''"
  by code_simp+

lemma demo_env_normal: "normalize_schema demo_env_schema = Inr demo_env_entries"
  by (simp add: demo_env_schema_def demo_env_entries_def normalize_schema_def normalize_entry_def
      normalize_env_def normalize_literal_def entry_key_def bounded_value_def demo_env_keys utf8_encode_def
      MAX_ENTRIES_def MAX_VALUE_BYTES_def Let_def jget_or_def)

definition demo_env_lines :: "string \<Rightarrow> string list" where
  "demo_env_lines quoted =
     [''TOKEN='' @ CHR 0x22 # quoted @ [CHR 0x22], ''HOST='' @ CHR 0x22 # ''web'' @ [CHR 0x22]]"

lemma demo_env_rendered:
  "render_entries (\<lambda>s. s) (demo_environment ''a$b'') demo_env_entries
     = Inr (demo_env_lines ''a$$b'', map (\<lambda>e. entry_metadata (\<lambda>s. s) e True) demo_env_entries)"
  "render_entries (\<lambda>s. s) (demo_environment ''c'') demo_env_entries
     = Inr (demo_env_lines ''c'', map (\<lambda>e. entry_metadata (\<lambda>s. s) e True) demo_env_entries)"
  by (simp_all add: demo_env_entries_def demo_env_lines_def demo_environment_def entry_value_def
      compose_quote_def bounded_value_def utf8_encode_def replace_char_def MAX_VALUE_BYTES_def
      backslash_def CR_def LF_def)

lemma env_lines_read_back_witness:
  "\<exists>entries lines. normalize_schema demo_env_schema = Inr entries
    \<and> join_str [LF] (demo_env_lines ''a$$b'') @ [LF] = join_str [LF] lines @ [LF]
    \<and> list_all2 (\<lambda>entry line. \<exists>v p body. entry_value (demo_environment ''a$b'') entry = Inr (v, p)
          \<and> line = (case jget ''key'' entry of JStr k \<Rightarrow> k | _ \<Rightarrow> []) @ ''='' @ CHR 0x22 # body
          \<and> unquote body = Some v \<and> LF \<notin> set body \<and> CR \<notin> set body) entries lines"
  by (rule env_lines_read_back [where sha = "\<lambda>s. s"
        and metadata = "map (\<lambda>e. entry_metadata (\<lambda>s. s) e True) demo_env_entries"])
    (simp add: render_env_def demo_env_normal demo_env_rendered)

text \<open>
  C30: The evidence of an environment file tells nothing of the values: two environments in
  which the same variables are missing or empty give the same metadata.
\<close>

theorem env_evidence_value_free:
  assumes "render_env sha schema e1 = Inr (r1, m1)" "render_env sha schema e2 = Inr (r2, m2)"
    and "missing_source e1 = missing_source e2"
  shows "m1 = m2"
proof -
  obtain entries l1 l2 where "render_entries sha e1 entries = Inr (l1, m1)"
    "render_entries sha e2 entries = Inr (l2, m2)"
    using assms(1,2) by (auto simp: render_env_def bindE_eq_Inr)
  then show ?thesis using assms(3) by (rule render_entries_metadata)
qed

lemma env_evidence_value_free_witness:
  "map (\<lambda>e. entry_metadata (\<lambda>s. s) e True) demo_env_entries
     = map (\<lambda>e. entry_metadata (\<lambda>s. s) e True) demo_env_entries
   \<and> missing_source (demo_environment ''a$b'') = missing_source (demo_environment ''c'')"
proof (rule conjI)
  show m: "missing_source (demo_environment ''a$b'') = missing_source (demo_environment ''c'')"
    by (rule ext) (simp add: missing_source_def demo_environment_def)
  show "map (\<lambda>e. entry_metadata (\<lambda>s. s) e True) demo_env_entries
     = map (\<lambda>e. entry_metadata (\<lambda>s. s) e True) demo_env_entries"
    by (rule env_evidence_value_free [OF _ _ m, of "\<lambda>s. s" demo_env_schema])
      (simp_all add: render_env_def demo_env_normal demo_env_rendered)
qed

text \<open>
  The action cannot write a file with a variable of the environment: \<open>main\<close> hands
  \<open>write_env_file\<close> the schema \<open>load_schema\<close> has normalised, \<open>render_env\<close> normalises it
  again, and a normalised environment entry has neither \<open>env\<close> nor \<open>literal\<close>. Every such call
  fails and changes no file.
\<close>

lemma env_loaded_schema_refused:
  assumes "load_schema loads fs p = Inr schema" "read_file fs p = Inr s" "loads s = Inr (JObj d)"
    and "jget ''entries'' d = JArr raws" "JObj raw \<in> set raws" "jhas ''env'' raw"
  shows "\<exists>e. write_env_file sha dumps schema environment destination allowed_root mode evidence fs = (Inl e, fs)"
proof -
  obtain entries where e: "normalize_schema (JObj d) = Inr entries" "schema = schema_json entries"
    using load_schema_Inr [OF assms(1)] assms(2,3) by (metis sum.inject(2))
  have "normalize_entries raws [] = Inr entries"
    using normalize_schema_Inr [OF e(1)] assms(4) by auto
  then have "\<not> list_all literal_entry entries"
    using normalize_entries_literal assms(5,6) by blast
  then obtain k where "normalize_schema schema
      = Inl (env_error (k @ '' must define exactly one of env or literal''))"
    using normalize_again [OF e(1)] e(2) by auto
  then have "render_env sha schema environment = Inl (env_error (k @ '' must define exactly one of env or literal''))"
    by (simp add: render_env_def)
  then show ?thesis
    by (cases "resolve_destination fs destination allowed_root"; cases "List.member ALLOWED_MODES mode")
      (simp_all add: write_env_file_def bindW_def liftW_def guardE_def)
qed

definition demo_env_fs :: fsys where
  "demo_env_fs = \<lparr>nodes = [[''schema.json''] \<mapsto> File ''{}''], cwd = []\<rparr>"

lemma demo_env_file:
  "is_file demo_env_fs [''schema.json'']" "\<not> is_symlink demo_env_fs [''schema.json'']"
  "read_file demo_env_fs [''schema.json''] = Inr ''{}''"
  by code_simp+

lemma demo_env_loaded:
  "load_schema (\<lambda>s. Inr demo_env_schema) demo_env_fs [''schema.json''] = Inr (schema_json demo_env_entries)"
  by (simp add: load_schema_def demo_env_normal demo_env_file MAX_SCHEMA_BYTES_def)

lemma env_loaded_schema_refused_witness:
  "\<exists>e. write_env_file (\<lambda>s. s) (\<lambda>j. []) (schema_json demo_env_entries) (demo_environment ''a'')
          (parse_path ''/out.env'') (parse_path ''/'') 384 [''evidence.json''] demo_env_fs = (Inl e, demo_env_fs)"
  by (rule env_loaded_schema_refused [OF demo_env_loaded, where s = "''{}''"
        and raws = "[JObj [(''key'', JStr ''TOKEN''), (''env'', JStr ''APP_TOKEN''), (''required'', JBool True)],
          JObj [(''key'', JStr ''HOST''), (''literal'', JStr ''web'')]]"
        and raw = "[(''key'', JStr ''TOKEN''), (''env'', JStr ''APP_TOKEN''), (''required'', JBool True)]"])
    (simp add: demo_env_schema_def demo_env_file)+

end
