(* ===== verification/Exception_Policy.thy ===== *)
theory Exception_Policy
  imports Security_Summary FileOutput World
begin

text \<open>
  The reviewed exceptions of the security gate, \<open>scripts/security_gate/evidence.py\<close>: the check
  of a complete policy against the exact set of images, the rendering of the entries that
  apply to one target, the filter that removes the findings they cover from a Trivy report, and
  the evidence records. Dates are ordinals and \<open>reference\<close> is the day of the run.
\<close>

section \<open>Dates and fields\<close>

definition policy_error :: "string \<Rightarrow> exc" where "policy_error m = Exc ValueError m"

text \<open>\<open>date.isoformat()\<close> of an ordinal\<close>

fun month_of :: "nat \<Rightarrow> nat list \<Rightarrow> nat \<Rightarrow> nat \<times> nat" where
  "month_of y [] r = (12, Suc r)"
| "month_of y (m # ms) r =
     (if r < days_in_month y m then (m, Suc r) else month_of y ms (r - days_in_month y m))"

definition date_of_ordinal :: "nat \<Rightarrow> nat \<times> nat \<times> nat" where
  "date_of_ordinal n =
     (let k = n - 1; k400 = k mod 146097; k100 = k400 mod 36524; k4 = k100 mod 1461;
          y = k div 146097 * 400 + k400 div 36524 * 100 + k100 div 1461 * 4 + k4 div 365 in
      if k4 div 365 = 4 \<or> k400 div 36524 = 4 then (y, 12, 31)
      else (Suc y, month_of (Suc y) [1..<13] (k4 mod 365)))"

definition date_isoformat :: "nat \<Rightarrow> string" where
  "date_isoformat n = (case date_of_ordinal n of (y, m, d) \<Rightarrow> pad4 y @ ''-'' @ pad2 m @ ''-'' @ pad2 d)"

definition HASH_PATTERN :: rx where
  "HASH_PATTERN = anchored (fixed (replicate 64 hex_lower))"

definition IMAGE_DIGEST_PATTERN :: rx where
  "IMAGE_DIGEST_PATTERN = anchored (Seq (ilit ''sha256:'') (fixed (replicate 64 hex_any)))"

definition entry_name :: "nat \<Rightarrow> string" where
  "entry_name i = ''vulnerabilities['' @ dec i @ '']''"

definition require_text :: "jobj \<Rightarrow> string \<Rightarrow> nat \<Rightarrow> string result" where
  "require_text entry fld i =
     (case jget fld entry of
        JStr v \<Rightarrow> guardE (py_strip v \<noteq> []) (policy_error (entry_name i @ ''.'' @ fld @ '' is required''))
                    (Inr (py_strip v))
      | _ \<Rightarrow> Inl (policy_error (entry_name i @ ''.'' @ fld @ '' is required'')))"

text \<open>The stripped texts of an array, if all of them are texts and none is blank\<close>

fun stripped_texts :: "json list \<Rightarrow> string list option" where
  "stripped_texts [] = Some []"
| "stripped_texts (JStr s # rest) =
     (if py_strip s = [] then None else map_option (Cons (py_strip s)) (stripped_texts rest))"
| "stripped_texts (_ # rest) = None"

definition text_array :: "exc \<Rightarrow> json \<Rightarrow> string list result" where
  "text_array e v =
     (case v of
        JArr xs \<Rightarrow> (case stripped_texts xs of Some ts \<Rightarrow> Inr ts | None \<Rightarrow> Inl e)
      | _ \<Rightarrow> Inl e)"

definition string_list :: "jobj \<Rightarrow> string \<Rightarrow> nat \<Rightarrow> string list result" where
  "string_list entry fld i =
     text_array (policy_error (entry_name i @ ''.'' @ fld @ '' must be a string array''))
       (jget_or fld (JArr []) entry)"

definition digest_list :: "jobj \<Rightarrow> string \<Rightarrow> nat \<Rightarrow> string list result" where
  "digest_list entry fld i =
     bindE (string_list entry fld i) (\<lambda>values.
     guardE (list_all (fullmatch IMAGE_DIGEST_PATTERN) values)
       (policy_error (entry_name i @ ''.'' @ fld @ '' must contain full sha256 digests''))
       (Inr (sort (remdups (map py_lower values)))))"

section \<open>Loading\<close>

definition load_exception_entries ::
    "(string \<Rightarrow> json result) \<Rightarrow> fsys \<Rightarrow> path \<Rightarrow> json list result" where
  "load_exception_entries loads fs source =
     guardE (is_file fs (parts (absolute fs source))) (policy_error (''exception policy is missing: '' @ path_text source))
     (bindE (except_raise (bindE (read_file fs (parts (absolute fs source))) loads) [OSError, JSONDecodeError]
              (policy_error (''exception policy is not valid JSON: '' @ path_text source))) (\<lambda>raw.
      case raw of
        JObj d \<Rightarrow>
          guardE (eq_int (jget ''version'' d) 1) (policy_error ''exception policy version must be 1'')
          (case jget ''vulnerabilities'' d of
             JArr entries \<Rightarrow> Inr entries
           | _ \<Rightarrow> Inl (policy_error ''exception policy vulnerabilities must be an array''))
      | _ \<Rightarrow> Inl (policy_error ''exception policy version must be 1'')))"

definition immutable_id :: "string \<Rightarrow> bool" where
  "immutable_id s \<longleftrightarrow> fullmatch IMAGE_DIGEST_PATTERN s \<and> s = py_lower s"

definition check_active_image_ids :: "string list \<Rightarrow> string list result" where
  "check_active_image_ids values =
     guardE (values \<noteq> []) (policy_error ''active image ID set must not be empty'')
     (guardE (list_all (\<lambda>v. v \<noteq> [] \<and> v = py_strip v) values)
       (policy_error ''active image ID set contains malformed values'')
     (guardE (list_all immutable_id values)
       (policy_error ''active image ID set contains invalid values; expected full lowercase sha256 IDs'')
     (guardE (distinct values)
       (policy_error ''active image ID set contains a duplicate active image ID'') (Inr values))))"

text \<open>\<open>decode\<close> is the UTF-8 decoding of \<open>read_text\<close>.\<close>

definition load_active_image_ids ::
    "(string \<Rightarrow> string result) \<Rightarrow> fsys \<Rightarrow> path \<Rightarrow> string list result" where
  "load_active_image_ids decode fs p =
     guardE (is_file fs (parts (absolute fs p))) (policy_error (''active image ID file is missing: '' @ path_text p))
     (bindE (except_raise (bindE (read_file fs (parts (absolute fs p))) decode) [OSError]
              (policy_error (''active image ID file cannot be read: '' @ path_text p))) (\<lambda>content.
      check_active_image_ids (py_splitlines content)))"

section \<open>One entry\<close>

record exception_meta =
  xm_id :: string
  xm_owner :: string
  xm_statement :: string
  xm_control :: string
  xm_expires_text :: string

definition exception_meta_of :: "jobj \<Rightarrow> nat \<Rightarrow> exception_meta result" where
  "exception_meta_of entry i =
     bindE (require_text entry ''id'' i) (\<lambda>vulnerability_id.
     bindE (require_text entry ''owner'' i) (\<lambda>owner.
     bindE (require_text entry ''statement'' i) (\<lambda>statement.
     bindE (require_text entry ''compensating_control'' i) (\<lambda>control.
     bindE (require_text entry ''expires'' i) (\<lambda>expires_text.
       Inr \<lparr>xm_id = vulnerability_id, xm_owner = owner, xm_statement = statement,
            xm_control = control, xm_expires_text = expires_text\<rparr>)))))"

definition date_error :: "nat \<Rightarrow> exc" where
  "date_error i = policy_error (entry_name i @ ''.expires must use YYYY-MM-DD'')"

definition exception_expiry :: "nat \<Rightarrow> string \<Rightarrow> nat result" where
  "exception_expiry i s = (case parse_date s of Some e \<Rightarrow> Inr e | None \<Rightarrow> Inl (date_error i))"

definition expired_error :: "nat \<Rightarrow> exception_meta \<Rightarrow> exc" where
  "expired_error i m =
     policy_error (entry_name i @ '' '' @ xm_id m @ '' expired on '' @ xm_expires_text m)"

definition exception_scan_types :: "jobj \<Rightarrow> nat \<Rightarrow> string list result" where
  "exception_scan_types entry i =
     bindE (text_array (policy_error (entry_name i @ ''.scan_types must be a string array''))
              (jget_or ''scan_types'' (JArr [JStr ''image'']) entry)) (\<lambda>types.
     guardE (types \<noteq> [] \<and> list_all (\<lambda>t. t = ''fs'' \<or> t = ''image'') types)
       (policy_error (entry_name i @ ''.scan_types must contain fs or image'')) (Inr types))"

section \<open>The complete policy\<close>

text \<open>The scope checks of one entry, after its metadata and scan types\<close>

definition validate_scope ::
    "string list \<Rightarrow> nat \<Rightarrow> exception_meta \<Rightarrow> string list \<Rightarrow> string list \<Rightarrow> string list \<Rightarrow> string list
     \<Rightarrow> string list \<Rightarrow> unit result" where
  "validate_scope active i m types targets lineage paths purls =
     bindE (if List.member types ''image''
            then guardE (targets \<noteq> [] \<or> lineage \<noteq> [])
                   (policy_error (entry_name i @ '' must scope the exception by targets or lineage_digests''))
                 (guardE (list_all immutable_id targets)
                   (policy_error (entry_name i @ ''.targets must contain full lowercase sha256 image IDs''))
                 (guardE (list_all (List.member active) targets)
                   (policy_error (entry_name i @ '' targets image IDs outside the exact active image set''))
                 (guardE (paths \<noteq> [] \<or> purls \<noteq> [])
                   (policy_error (entry_name i @ '' must be narrowed by path or purl''))
                 (guardE (lineage = [] \<or> purls \<noteq> [])
                   (policy_error (entry_name i @ ''.purls is required for lineage-scoped exceptions''))
                   (Inr ())))))
            else guardE (targets = [] \<and> lineage = [])
                   (policy_error (entry_name i @ '' filesystem-only exceptions must not target image IDs''))
                   (Inr ())) (\<lambda>_.
     guardE (\<not> (List.member types ''fs'' \<and> paths = []))
       (policy_error (entry_name i @ '' '' @ xm_id m @ '' filesystem exceptions must target paths''))
       (Inr ()))"

text \<open>One entry of the loop; the result is its identity.\<close>

definition validate_exception ::
    "nat \<Rightarrow> string list \<Rightarrow> nat \<Rightarrow> jobj \<Rightarrow> string list list result" where
  "validate_exception reference active i entry =
     bindE (exception_meta_of entry i) (\<lambda>m.
     bindE (exception_expiry i (xm_expires_text m)) (\<lambda>expires.
     guardE (date_isoformat expires = xm_expires_text m) (date_error i)
     (guardE (reference \<le> expires) (expired_error i m)
     (bindE (exception_scan_types entry i) (\<lambda>types.
      guardE (distinct types)
        (policy_error (entry_name i @ '' '' @ xm_id m @ '' contains duplicate scan types''))
     (bindE (string_list entry ''targets'' i) (\<lambda>targets.
      bindE (digest_list entry ''lineage_digests'' i) (\<lambda>lineage.
      bindE (string_list entry ''paths'' i) (\<lambda>paths.
      bindE (string_list entry ''purls'' i) (\<lambda>purls.
      bindE (validate_scope active i m types targets lineage paths purls) (\<lambda>_.
        Inr [[xm_id m], [date_isoformat expires], sort types, sort targets, sort lineage,
             sort paths, sort purls])))))))))))"

fun validate_exceptions ::
    "nat \<Rightarrow> string list \<Rightarrow> nat \<Rightarrow> string list list list \<Rightarrow> json list \<Rightarrow> unit result" where
  "validate_exceptions reference active i seen [] = Inr ()"
| "validate_exceptions reference active i seen (JObj entry # rest) =
     bindE (validate_exception reference active i entry) (\<lambda>identity.
     guardE (\<not> List.member seen identity) (policy_error (''duplicate exception: '' @ hd (hd identity)))
       (validate_exceptions reference active (Suc i) (identity # seen) rest))"
| "validate_exceptions reference active i seen (_ # rest) =
     Inl (policy_error (entry_name i @ '' must be an object''))"

text \<open>The active IDs and the entries as they are loaded; the entries are loaded last.\<close>

definition check_complete_policy ::
    "nat \<Rightarrow> string list result \<Rightarrow> string list \<Rightarrow> json list result \<Rightarrow> nat result" where
  "check_complete_policy reference active_ids refs load_entries =
     bindE active_ids (\<lambda>active.
     guardE (refs \<noteq> []) (policy_error ''image_refs must contain the complete active image set'')
     (guardE (list_all immutable_id refs)
       (policy_error ''image_refs must contain full immutable sha256 image IDs'')
     (guardE (distinct refs) (policy_error ''image_refs contains a duplicate immutable image ID'')
     (guardE (set active = set refs)
       (policy_error ''active image ID file must match the complete image_refs set'')
     (bindE load_entries (\<lambda>entries.
      bindE (validate_exceptions reference active 0 [] entries) (\<lambda>_. Inr (length entries))))))))"

definition validate_complete_exception_policy ::
    "(string \<Rightarrow> json result) \<Rightarrow> (string \<Rightarrow> string result) \<Rightarrow> fsys \<Rightarrow> nat \<Rightarrow> path \<Rightarrow> path
     \<Rightarrow> string list \<Rightarrow> nat result" where
  "validate_complete_exception_policy loads decode fs reference source active_image_ids_file refs =
     check_complete_policy reference (load_active_image_ids decode fs active_image_ids_file) refs
       (load_exception_entries loads fs source)"

section \<open>The rendered policy\<close>

definition render_entry :: "exception_meta \<Rightarrow> nat \<Rightarrow> string list \<Rightarrow> string list \<Rightarrow> jobj" where
  "render_entry m expires paths purls =
     [(''id'', JStr (xm_id m)), (''expired_at'', JStr (date_isoformat expires @ ''T23:59:59Z'')),
      (''statement'', JStr (xm_statement m @ ''; owner='' @ xm_owner m @ ''; control='' @ xm_control m))]
     @ (if paths \<noteq> [] then [(''paths'', JArr (map JStr paths))] else [])
     @ (if purls \<noteq> [] then [(''purls'', JArr (map JStr purls))] else [])"

text \<open>One entry: nothing if it does not apply to the target, else what is rendered and the lineage it matched.\<close>

definition render_exception ::
    "nat \<Rightarrow> string \<Rightarrow> string \<Rightarrow> string list \<Rightarrow> nat \<Rightarrow> jobj \<Rightarrow> (jobj \<times> string list) option result" where
  "render_exception reference scan_type target lineage i entry =
     bindE (exception_meta_of entry i) (\<lambda>m.
     bindE (exception_expiry i (xm_expires_text m)) (\<lambda>expires.
     guardE (reference \<le> expires) (expired_error i m)
     (bindE (exception_scan_types entry i) (\<lambda>types.
      if \<not> List.member types scan_type then Inr None
      else
        bindE (string_list entry ''targets'' i) (\<lambda>targets.
        bindE (digest_list entry ''lineage_digests'' i) (\<lambda>exception_lineage.
        bindE (string_list entry ''paths'' i) (\<lambda>paths.
        bindE (string_list entry ''purls'' i) (\<lambda>purls.
        guardE (\<not> (scan_type = ''image'' \<and> targets = [] \<and> exception_lineage = []))
          (policy_error (entry_name i @ '' must scope the exception by targets or lineage_digests''))
       (guardE (\<not> (scan_type = ''fs'' \<and> paths = []))
          (policy_error (entry_name i @ '' '' @ xm_id m @ '' filesystem exceptions must target paths''))
       (guardE (\<not> (exception_lineage \<noteq> [] \<and> purls = []))
          (policy_error (entry_name i @ ''.purls is required for lineage-scoped exceptions''))
       (let matching = filter (List.member lineage) exception_lineage in
        if scan_type = ''image'' \<and> \<not> List.member targets target \<and> \<not> List.member targets ''*'' \<and> matching = []
        then Inr None
        else Inr (Some (render_entry m expires paths purls, matching)))))))))))))"

fun render_exceptions ::
    "nat \<Rightarrow> string \<Rightarrow> string \<Rightarrow> string list \<Rightarrow> nat \<Rightarrow> json list \<Rightarrow> (jobj list \<times> string list) result" where
  "render_exceptions reference scan_type target lineage i [] = Inr ([], [])"
| "render_exceptions reference scan_type target lineage i (JObj entry # rest) =
     bindE (render_exception reference scan_type target lineage i entry) (\<lambda>one.
     bindE (render_exceptions reference scan_type target lineage (Suc i) rest) (\<lambda>(rendered, matched).
       Inr (case one of
              None \<Rightarrow> (rendered, matched)
            | Some (e, m) \<Rightarrow> (e # rendered, m @ matched))))"
| "render_exceptions reference scan_type target lineage i (_ # rest) =
     Inl (policy_error (entry_name i @ '' must be an object''))"

definition normalized_lineage :: "string list \<Rightarrow> string list" where
  "normalized_lineage digests = sort (remdups (map py_lower digests))"

definition rendered_policy :: "jobj list \<Rightarrow> json" where
  "rendered_policy rendered = JObj [(''vulnerabilities'', JArr (map JObj rendered))]"

text \<open>\<open>_atomic_write_json\<close>\<close>

definition atomic_write_json :: "(json \<Rightarrow> string) \<Rightarrow> string list \<Rightarrow> json \<Rightarrow> (fsys, unit) action" where
  "atomic_write_json dumps p payload =
     bindW (mkdir_parents (butlast p)) (\<lambda>_. write_and_replace p (dumps payload @ [LF]))"

definition hash_file :: "(string \<Rightarrow> string) \<Rightarrow> path \<Rightarrow> (fsys, string) action" where
  "hash_file sha p = (\<lambda>fs. (bindE (read_file fs (parts (absolute fs p))) (\<lambda>c. Inr (sha c)), fs))"

definition render_exception_policy ::
    "(string \<Rightarrow> json result) \<Rightarrow> (json \<Rightarrow> string) \<Rightarrow> (string \<Rightarrow> string) \<Rightarrow> nat \<Rightarrow> path \<Rightarrow> string
     \<Rightarrow> string \<Rightarrow> string list \<Rightarrow> string list \<Rightarrow> (fsys, jobj) action" where
  "render_exception_policy loads dumps sha reference source target scan_type output lineage_digests =
     bindW (liftW (guardE (scan_type = ''fs'' \<or> scan_type = ''image'')
              (policy_error ''scan_type must be fs or image'') (Inr ()))) (\<lambda>_.
     bindW (\<lambda>fs. (load_exception_entries loads fs source, fs)) (\<lambda>entries.
     let lineage = normalized_lineage lineage_digests in
     bindW (liftW (guardE (list_all (fullmatch IMAGE_DIGEST_PATTERN) lineage)
              (policy_error ''lineage_digests must contain full sha256 digests'')
              (render_exceptions reference scan_type target lineage 0 entries))) (\<lambda>(rendered, matched).
     bindW (atomic_write_json dumps output (rendered_policy rendered)) (\<lambda>_.
     bindW (hash_file sha source) (\<lambda>digest.
       liftW (Inr
         [(''source'', JStr (path_text source)), (''policy_sha256'', JStr digest),
          (''active_exceptions'', JInt (int (length rendered))), (''target'', JStr target),
          (''scan_type'', JStr scan_type), (''lineage_digests'', JArr (map JStr lineage)),
          (''matched_lineage_digests'', JArr (map JStr (sort (remdups matched)))),
          (''status'', JStr ''validated'')]))))))"

section \<open>Filtering a report\<close>

definition normalize_path :: "json \<Rightarrow> string" where
  "normalize_path v =
     (case v of
        JStr s \<Rightarrow> dropWhile (one_of ''./'') (map (\<lambda>c. if c = backslash then CHR ''/'' else c) s)
      | _ \<Rightarrow> [])"

definition path_matches :: "json list \<Rightarrow> json list \<Rightarrow> bool" where
  "path_matches candidates expected \<longleftrightarrow>
     list_ex (\<lambda>c. list_ex (\<lambda>p. c = p \<or> suffix (CHR ''/'' # p) c)
                    (filter (\<lambda>p. p \<noteq> []) (map normalize_path expected)))
       (filter (\<lambda>c. c \<noteq> []) (map normalize_path candidates))"

fun first_text :: "string list \<Rightarrow> jobj \<Rightarrow> string" where
  "first_text [] f = []"
| "first_text (k # ks) f =
     (case jget k f of
        JStr v \<Rightarrow> if py_strip v \<noteq> [] then py_strip v else first_text ks f
      | _ \<Rightarrow> first_text ks f)"

definition finding_id :: "jobj \<Rightarrow> string" where
  "finding_id f = first_text [''ID'', ''VulnerabilityID'', ''RuleID''] f"

fun texts_of :: "json list \<Rightarrow> string list" where
  "texts_of [] = []"
| "texts_of (JStr s # rest) = s # texts_of rest"
| "texts_of (_ # rest) = texts_of rest"

definition finding_purls :: "jobj \<Rightarrow> string list" where
  "finding_purls f =
     (case jget ''PkgIdentifier'' f of
        JObj identifier \<Rightarrow> texts_of [jget ''PURL'' identifier, jget ''Purl'' identifier]
      | v \<Rightarrow> texts_of [jget ''PURL'' f, v])"

text \<open>\<open>set(xs).intersection(vs)\<close>: every element of \<open>vs\<close> is hashed.\<close>

fun intersects :: "string list \<Rightarrow> json list \<Rightarrow> bool result" where
  "intersects xs [] = Inr False"
| "intersects xs (JArr _ # rest) = Inl (Exc TypeError ''unhashable type: list'')"
| "intersects xs (JObj _ # rest) = Inl (Exc TypeError ''unhashable type: dict'')"
| "intersects xs (v # rest) =
     bindE (intersects xs rest) (\<lambda>b. Inr (list_ex (\<lambda>x. v = JStr x) xs \<or> b))"

definition finding_matches_exception :: "jobj \<Rightarrow> jobj \<Rightarrow> json list \<Rightarrow> bool result" where
  "finding_matches_exception f e candidates =
     (if JStr (finding_id f) \<noteq> jget ''id'' e then Inr False
      else
        bindE (if truthy (jget ''paths'' e)
               then bindE (py_list (jget ''paths'' e)) (\<lambda>paths. Inr (path_matches candidates paths))
               else Inr True) (\<lambda>located.
        if \<not> located then Inr False
        else if truthy (jget ''purls'' e)
        then bindE (py_list (jget ''purls'' e)) (intersects (finding_purls f))
        else Inr True))"

fun matches_any :: "jobj \<Rightarrow> json list \<Rightarrow> jobj list \<Rightarrow> bool result" where
  "matches_any f candidates [] = Inr False"
| "matches_any f candidates (e # es) =
     bindE (finding_matches_exception f e candidates) (\<lambda>b.
       if b then Inr True else matches_any f candidates es)"

text \<open>The findings kept of one list and the number removed\<close>

fun filter_findings :: "jobj list \<Rightarrow> json \<Rightarrow> json list \<Rightarrow> (json list \<times> nat) result" where
  "filter_findings es target [] = Inr ([], 0)"
| "filter_findings es target (JObj f # rest) =
     bindE (matches_any f [target, jget ''Target'' f, jget ''PkgPath'' f] es) (\<lambda>covered.
     bindE (filter_findings es target rest) (\<lambda>(kept, n).
       Inr (if covered then (kept, Suc n) else (JObj f # kept, n))))"
| "filter_findings es target (v # rest) =
     bindE (filter_findings es target rest) (\<lambda>(kept, n). Inr (v # kept, n))"

definition count_failures :: "string \<Rightarrow> nat \<Rightarrow> jobj \<Rightarrow> jobj" where
  "count_failures fld n r =
     (if fld = ''Misconfigurations''
      then (case jget ''MisconfSummary'' r of
              JObj summary \<Rightarrow> dict_set ''MisconfSummary'' (JObj (dict_set ''Failures'' (JInt (int n)) summary)) r
            | _ \<Rightarrow> r)
      else r)"

definition filter_field :: "jobj list \<Rightarrow> json \<Rightarrow> string \<Rightarrow> jobj \<Rightarrow> (jobj \<times> nat) result" where
  "filter_field es target fld r =
     (case jget fld r of
        JArr findings \<Rightarrow>
          bindE (filter_findings es target findings) (\<lambda>(kept, n).
            Inr (count_failures fld (length kept) (dict_set fld (JArr kept) r), n))
      | _ \<Rightarrow> Inr (r, 0))"

record removed_counts =
  rm_vulnerabilities :: nat
  rm_misconfigurations :: nat
  rm_secrets :: nat

fun exception_filter_results ::
    "jobj list \<Rightarrow> json list \<Rightarrow> removed_counts \<Rightarrow> (json list \<times> removed_counts) result" where
  "exception_filter_results es [] removed = Inr ([], removed)"
| "exception_filter_results es (JObj r # rest) removed =
     (let target = jget_or ''Target'' (JStr []) r in
      bindE (filter_field es target ''Vulnerabilities'' r) (\<lambda>(r1, v).
      bindE (filter_field es target ''Misconfigurations'' r1) (\<lambda>(r2, m).
      bindE (filter_field es target ''Secrets'' r2) (\<lambda>(r3, s).
      bindE (exception_filter_results es rest
               \<lparr>rm_vulnerabilities = rm_vulnerabilities removed + v,
                rm_misconfigurations = rm_misconfigurations removed + m,
                rm_secrets = rm_secrets removed + s\<rparr>) (\<lambda>(rs, out).
        Inr (JObj r3 # rs, out))))))"
| "exception_filter_results es (x # rest) removed =
     bindE (exception_filter_results es rest removed) (\<lambda>(rs, out). Inr (x # rs, out))"

fun all_objects :: "json list \<Rightarrow> jobj list option" where
  "all_objects [] = Some []"
| "all_objects (JObj d # rest) = map_option (Cons d) (all_objects rest)"
| "all_objects (_ # rest) = None"

definition type_error :: "string \<Rightarrow> exc" where "type_error m = Exc TypeError m"

definition exception_filter_payload :: "jobj \<Rightarrow> jobj \<Rightarrow> (jobj \<times> removed_counts) result" where
  "exception_filter_payload report policy =
     (case jget_or ''vulnerabilities'' (JArr []) policy of
        JArr items \<Rightarrow>
          (case all_objects items of
             Some es \<Rightarrow>
               (case jget_or ''Results'' (JArr []) report of
                  JArr results \<Rightarrow>
                    bindE (exception_filter_results es results
                             \<lparr>rm_vulnerabilities = 0, rm_misconfigurations = 0, rm_secrets = 0\<rparr>)
                      (\<lambda>(rs, removed).
                        Inr (if jhas ''Results'' report then dict_set ''Results'' (JArr rs) report
                             else report, removed))
                | _ \<Rightarrow> Inl (type_error ''Trivy Results must be an array''))
           | None \<Rightarrow> Inl (type_error ''exception policy vulnerabilities must be an array of objects''))
      | _ \<Rightarrow> Inl (type_error ''exception policy vulnerabilities must be an array of objects''))"

definition exception_filter_report ::
    "(string \<Rightarrow> json result) \<Rightarrow> (json \<Rightarrow> string) \<Rightarrow> string list \<Rightarrow> string list \<Rightarrow> string list
     \<Rightarrow> (fsys, removed_counts) action" where
  "exception_filter_report loads dumps report policy output =
     bindW (\<lambda>fs. (except_raise
              (bindE (bindE (read_file fs report) loads) (\<lambda>r.
               bindE (bindE (read_file fs policy) loads) (\<lambda>p. Inr (r, p))))
              [OSError, UnicodeDecodeError, JSONDecodeError]
              (policy_error ''Trivy report or exception policy is invalid''), fs)) (\<lambda>(r, p).
     bindW (liftW (case (r, p) of
              (JObj rd, JObj pd) \<Rightarrow> exception_filter_payload rd pd
            | _ \<Rightarrow> Inl (type_error ''Trivy report and exception policy must be objects'')))
       (\<lambda>(filtered, removed).
     bindW (atomic_write_json dumps output (JObj filtered)) (\<lambda>_. liftW (Inr removed))))"

section \<open>Evidence\<close>

fun first_digest :: "json list \<Rightarrow> string option" where
  "first_digest [] = None"
| "first_digest (JStr s # rest) = (if contains ''@sha256:'' s then Some s else first_digest rest)"
| "first_digest (_ # rest) = first_digest rest"

definition resolve_image_identity :: "(string \<Rightarrow> json result) \<Rightarrow> fsys \<Rightarrow> path \<Rightarrow> string result" where
  "resolve_image_identity loads fs report_path =
     bindE (except_raise (bindE (read_file fs (parts (absolute fs report_path))) loads)
              [OSError, JSONDecodeError]
              (policy_error (''Trivy JSON report is invalid: '' @ path_text report_path))) (\<lambda>report.
     Inr (case (case report of JObj d \<Rightarrow> jget_or ''Metadata'' (JObj []) d | _ \<Rightarrow> JObj []) of
            JObj metadata \<Rightarrow>
              (case first_digest (case jget ''RepoDigests'' metadata of JArr ds \<Rightarrow> ds | _ \<Rightarrow> []) of
                 Some digest \<Rightarrow> digest
               | None \<Rightarrow>
                   (case jget ''ImageID'' metadata of
                      JStr i \<Rightarrow> if prefix ''sha256:'' i then i else []
                    | _ \<Rightarrow> []))
          | _ \<Rightarrow> []))"

text \<open>\<open>datetime.isoformat()\<close> of a UTC time\<close>

definition utc_isoformat :: "datetime \<Rightarrow> string" where
  "utc_isoformat t =
     pad4 (dt_year t) @ ''-'' @ pad2 (dt_month t) @ ''-'' @ pad2 (dt_day t) @ ''T''
     @ pad2 (dt_hour t) @ '':'' @ pad2 (dt_minute t) @ '':'' @ pad2 (dt_second t)
     @ (if dt_micro t = 0 then []
        else ''.'' @ pad2 (dt_micro t div 10000) @ pad4 (dt_micro t mod 10000)) @ ''+00:00''"

definition EXECUTION_FAILURE_PHASES :: "string list" where
  "EXECUTION_FAILURE_PHASES =
     [''input_validation'', ''trivy_database_initialization'', ''trivy_database_refresh'',
      ''trivy_database_validation'', ''target_preparation'', ''trivy_scan'',
      ''remediation_window_evaluation'', ''aggregate_evidence'']"

definition HEAD_SHA :: rx where "HEAD_SHA = fixed (replicate 40 hex_any)"

record evidence_spec =
  es_repository :: string
  es_head_sha :: string
  es_scan_type :: string
  es_target :: string
  es_identity :: string
  es_severity :: string
  es_ignore_unfixed :: bool
  es_trivy_version :: string
  es_database :: jobj
  es_exception_policy :: jobj
  es_reports :: "(string \<times> path) list"
  es_result :: string

definition report_record :: "(string \<Rightarrow> string) \<Rightarrow> fsys \<Rightarrow> path \<Rightarrow> json result" where
  "report_record sha fs p =
     (let q = parts (absolute fs p) in
      guardE (is_file fs q) (policy_error (''required report is missing: '' @ path_text p))
      (bindE (read_file fs q) (\<lambda>content.
       guardE (fullmatch HASH_PATTERN (sha content)) (policy_error (''invalid report digest for '' @ path_text p))
         (Inr (JObj [(''path'', JStr (path_text p)), (''sha256'', JStr (sha content)),
                     (''size_bytes'', JInt (int (length content)))])))))"

definition check_evidence :: "evidence_spec \<Rightarrow> unit result" where
  "check_evidence s =
     guardE (py_strip (es_repository s) \<noteq> []) (policy_error ''repository is required'')
     (guardE (fullmatch HEAD_SHA (es_head_sha s)) (policy_error ''head_sha must be a 40-character commit SHA'')
     (guardE (es_scan_type s = ''fs'' \<or> es_scan_type s = ''image'')
       (policy_error ''scan_type must be fs or image'')
     (guardE (\<not> (es_scan_type s = ''image'' \<and> es_identity s = []))
       (policy_error ''image scans require an immutable image identity'')
     (guardE (es_result s = ''passed'' \<or> es_result s = ''failed'')
       (policy_error ''result must be passed or failed'') (Inr ())))))"

definition evidence_payload :: "evidence_spec \<Rightarrow> datetime \<Rightarrow> (string \<times> json) list \<Rightarrow> jobj" where
  "evidence_payload s created_at report_evidence =
     [(''schema_version'', JInt 1), (''created_at'', JStr (utc_isoformat created_at)),
      (''repository'', JObj [(''name'', JStr (es_repository s)), (''head_sha'', JStr (py_lower (es_head_sha s)))]),
      (''target'', JObj [(''scan_type'', JStr (es_scan_type s)), (''value'', JStr (es_target s)),
                         (''identity'', JStr (es_identity s))]),
      (''tool'', JObj [(''name'', JStr ''trivy''), (''version'', JStr (py_strip (es_trivy_version s)))]),
      (''database'', JObj (es_database s)), (''exceptions'', JObj (es_exception_policy s)),
      (''policy'', JObj [(''severity'', JStr (es_severity s)), (''ignore_unfixed'', JBool (es_ignore_unfixed s)),
                         (''blocking'', JBool True)]),
      (''reports'', JObj report_evidence), (''result'', JStr (es_result s))]"

definition write_scan_evidence ::
    "(json \<Rightarrow> string) \<Rightarrow> (string \<Rightarrow> string) \<Rightarrow> datetime \<Rightarrow> string list \<Rightarrow> evidence_spec \<Rightarrow> (fsys, jobj) action" where
  "write_scan_evidence dumps sha created_at destination s =
     bindW (liftW (check_evidence s)) (\<lambda>_.
     bindW (\<lambda>fs. (mapE (\<lambda>(name, p). bindE (report_record sha fs p) (\<lambda>r. Inr (name, r))) (es_reports s), fs))
       (\<lambda>report_evidence.
     let payload = evidence_payload s created_at report_evidence in
     bindW (atomic_write_json dumps destination (JObj payload)) (\<lambda>_. liftW (Inr payload))))"

definition write_execution_failure ::
    "(json \<Rightarrow> string) \<Rightarrow> datetime \<Rightarrow> string list \<Rightarrow> string \<Rightarrow> int \<Rightarrow> (fsys, jobj) action" where
  "write_execution_failure dumps created_at destination phase exit_code =
     bindW (liftW (guardE (List.member EXECUTION_FAILURE_PHASES phase)
              (policy_error ''phase is not an allowed security-gate execution phase'')
            (guardE (1 \<le> exit_code \<and> exit_code \<le> 255)
              (policy_error ''exit_code must be between 1 and 255'') (Inr ())))) (\<lambda>_.
     let payload = [(''schema_version'', JInt 1), (''created_at'', JStr (utc_isoformat created_at)),
                    (''result'', JStr ''failed''), (''classification'', JStr ''scanner_error''),
                    (''failure_reason'', JStr ''security_gate_execution_failed''),
                    (''phase'', JStr phase), (''exit_code'', JInt exit_code)] in
     bindW (atomic_write_json dumps destination (JObj payload)) (\<lambda>_. liftW (Inr payload)))"

section \<open>The commands\<close>

text \<open>The commands but for \<open>validate-db\<close>, with their parsed arguments\<close>

datatype policy_command =
    Render_Exceptions "path option" string string "string list" "string list" "string list"
  | Validate_Exceptions path path "string list"
  | Filter_Report "string list" "string list" "string list"
  | Resolve_Image path
  | Write_Evidence "string list" evidence_spec path path "string list"
  | Write_Execution_Failure "string list" string int

record policy_env =
  pv_loads :: "string \<Rightarrow> json result"
  pv_dumps :: "json \<Rightarrow> string"
  pv_decode :: "string \<Rightarrow> string result"
  pv_sha :: "string \<Rightarrow> string"
  pv_today :: nat
  pv_now :: datetime

definition read_json_object :: "policy_env \<Rightarrow> fsys \<Rightarrow> path \<Rightarrow> jobj result" where
  "read_json_object env fs p =
     bindE (bindE (read_file fs (parts (absolute fs p))) (pv_loads env)) (\<lambda>v.
       case v of JObj d \<Rightarrow> Inr d | _ \<Rightarrow> Inl (policy_error (''JSON object expected: '' @ path_text p)))"

fun report_arguments :: "string list \<Rightarrow> (string \<times> path) list \<Rightarrow> (string \<times> path) list result" where
  "report_arguments [] acc = Inr acc"
| "report_arguments (v # rest) acc =
     (case partition_char CHR ''='' v of (name, separator, p) \<Rightarrow>
        guardE (separator \<and> name \<noteq> [] \<and> p \<noteq> []) (policy_error ''--report must use name=path'')
          (report_arguments rest (dict_set name (parse_path p) acc)))"

definition unconfigured_summary :: "string \<Rightarrow> string \<Rightarrow> string list \<Rightarrow> jobj" where
  "unconfigured_summary target scan_type lineage =
     [(''source'', JStr ''none''), (''policy_sha256'', JStr ''none''), (''active_exceptions'', JInt 0),
      (''target'', JStr target), (''scan_type'', JStr scan_type),
      (''lineage_digests'', JArr (map JStr lineage)), (''matched_lineage_digests'', JArr []),
      (''status'', JStr ''not-configured'')]"

fun policy_run :: "policy_env \<Rightarrow> policy_command \<Rightarrow> (fsys, unit) action" where
  "policy_run env (Render_Exceptions source target scan_type output summary_output lineage) =
     bindW (case source of
              Some p \<Rightarrow> render_exception_policy (pv_loads env) (pv_dumps env) (pv_sha env) (pv_today env) p
                          target scan_type output lineage
            | None \<Rightarrow> bindW (atomic_write_json (pv_dumps env) output (rendered_policy []))
                        (\<lambda>_. liftW (Inr (unconfigured_summary target scan_type lineage))))
       (\<lambda>summary. atomic_write_json (pv_dumps env) summary_output (JObj summary))"
| "policy_run env (Validate_Exceptions source ids refs) =
     (\<lambda>fs. (bindE (validate_complete_exception_policy (pv_loads env) (pv_decode env) fs (pv_today env) source ids refs)
              (\<lambda>_. Inr ()), fs))"
| "policy_run env (Filter_Report report policy output) =
     bindW (exception_filter_report (pv_loads env) (pv_dumps env) report policy output) (\<lambda>_. liftW (Inr ()))"
| "policy_run env (Resolve_Image report) =
     (\<lambda>fs. (bindE (resolve_image_identity (pv_loads env) fs report) (\<lambda>i.
        guardE (i \<noteq> []) (policy_error ''Trivy report does not contain an immutable image identity'') (Inr ())), fs))"
| "policy_run env (Write_Evidence output s database summary reports) =
     bindW (liftW (report_arguments reports [])) (\<lambda>rs.
     bindW (\<lambda>fs. (read_json_object env fs database, fs)) (\<lambda>db.
     bindW (\<lambda>fs. (read_json_object env fs summary, fs)) (\<lambda>xs.
     bindW (write_scan_evidence (pv_dumps env) (pv_sha env) (pv_now env) output
              (s\<lparr>es_database := db, es_exception_policy := xs, es_reports := rs\<rparr>)) (\<lambda>_. liftW (Inr ())))))"
| "policy_run env (Write_Execution_Failure output phase exit_code) =
     bindW (write_execution_failure (pv_dumps env) (pv_now env) output phase exit_code) (\<lambda>_. liftW (Inr ()))"

text \<open>
  \<open>main\<close>: 0, 2 through \<open>parser.error\<close> for the exceptions it names, and 1 for any other, which
  the \<open>TypeError\<close> of a malformed report is.
\<close>

definition policy_exit :: "unit result \<Rightarrow> nat" where
  "policy_exit r =
     (case r of
        Inr _ \<Rightarrow> 0
      | Inl e \<Rightarrow> if catches [OSError, ValueError, JSONDecodeError] e then 2 else 1)"

section \<open>What an entry says\<close>

definition text_in :: "string \<Rightarrow> jobj \<Rightarrow> string" where
  "text_in fld e = (case jget fld e of JStr v \<Rightarrow> py_strip v | _ \<Rightarrow> [])"

definition texts_in :: "string \<Rightarrow> json list \<Rightarrow> jobj \<Rightarrow> string list" where
  "texts_in fld dflt e =
     (case jget_or fld (JArr dflt) e of JArr xs \<Rightarrow> map py_strip (texts_of xs) | _ \<Rightarrow> [])"

text \<open>The entry is unexpired and applies to the target; and it covers a finding.\<close>

definition exception_active :: "nat \<Rightarrow> string \<Rightarrow> string \<Rightarrow> string list \<Rightarrow> jobj \<Rightarrow> bool" where
  "exception_active reference scan_type target lineage e \<longleftrightarrow>
     (\<exists>d. parse_date (text_in ''expires'' e) = Some d \<and> reference \<le> d)
     \<and> scan_type \<in> set (texts_in ''scan_types'' [JStr ''image''] e)
     \<and> (scan_type = ''image'' \<longrightarrow>
          target \<in> set (texts_in ''targets'' [] e) \<or> ''*'' \<in> set (texts_in ''targets'' [] e)
          \<or> (\<exists>l \<in> set (texts_in ''lineage_digests'' [] e). py_lower l \<in> set lineage))"

definition exception_reviewed :: "jobj \<Rightarrow> bool" where
  "exception_reviewed e \<longleftrightarrow>
     list_all (\<lambda>fld. text_in fld e \<noteq> []) [''id'', ''owner'', ''statement'', ''compensating_control'', ''expires'']"

definition exception_covers :: "jobj \<Rightarrow> jobj \<Rightarrow> json list \<Rightarrow> bool" where
  "exception_covers e f candidates \<longleftrightarrow>
     finding_id f = text_in ''id'' e
     \<and> (texts_in ''paths'' [] e = [] \<or> path_matches candidates (map JStr (texts_in ''paths'' [] e)))
     \<and> (texts_in ''purls'' [] e = [] \<or> set (finding_purls f) \<inter> set (texts_in ''purls'' [] e) \<noteq> {})"

lemma stripped_texts_Some: "stripped_texts xs = Some ts \<Longrightarrow> ts = map py_strip (texts_of xs) \<and> [] \<notin> set ts"
  by (induction xs arbitrary: ts rule: stripped_texts.induct) (auto split: if_splits)

lemma string_list_Inr: "string_list e fld i = Inr ts \<Longrightarrow> ts = texts_in fld [] e"
  by (auto simp: string_list_def text_array_def texts_in_def dest: stripped_texts_Some
      split: json.splits option.splits)

lemma digest_list_Inr:
  "digest_list e fld i = Inr ds \<Longrightarrow> ds = sort (remdups (map py_lower (texts_in fld [] e)))"
  by (auto simp: digest_list_def res_simps dest: string_list_Inr)

lemma require_text_Inr: "require_text e fld i = Inr v \<Longrightarrow> v = text_in fld e \<and> v \<noteq> []"
  by (auto simp: require_text_def text_in_def res_simps split: json.splits)

lemma scan_types_Inr: "exception_scan_types e i = Inr ts \<Longrightarrow> ts = texts_in ''scan_types'' [JStr ''image''] e"
  by (auto simp: exception_scan_types_def text_array_def texts_in_def res_simps dest: stripped_texts_Some
      split: json.splits option.splits)

section \<open>What is rendered\<close>

definition meta_of :: "jobj \<Rightarrow> exception_meta" where
  "meta_of e = \<lparr>xm_id = text_in ''id'' e, xm_owner = text_in ''owner'' e, xm_statement = text_in ''statement'' e,
      xm_control = text_in ''compensating_control'' e, xm_expires_text = text_in ''expires'' e\<rparr>"

definition rendered_entry :: "nat \<Rightarrow> jobj \<Rightarrow> jobj" where
  "rendered_entry d e = render_entry (meta_of e) d (texts_in ''paths'' [] e) (texts_in ''purls'' [] e)"

lemma exception_meta_Inr: "exception_meta_of e i = Inr m \<Longrightarrow> m = meta_of e \<and> exception_reviewed e"
  by (auto simp: exception_meta_of_def exception_reviewed_def meta_of_def res_simps dest!: require_text_Inr)

lemma meta_of_simps [simp]: "xm_id (meta_of e) = text_in ''id'' e"
  "xm_expires_text (meta_of e) = text_in ''expires'' e"
  by (simp_all add: meta_of_def)

lemma render_exception_Inr:
  assumes "render_exception reference scan_type target lineage i e = Inr out"
  shows "exception_reviewed e \<and>
    (if exception_active reference scan_type target lineage e
     then \<exists>d m. parse_date (text_in ''expires'' e) = Some d \<and> reference \<le> d \<and> out = Some (rendered_entry d e, m)
     else out = None)"
proof -
  obtain m d types where h: "exception_meta_of e i = Inr m" "exception_expiry i (xm_expires_text m) = Inr d"
    "reference \<le> d" "exception_scan_types e i = Inr types"
    using assms by (auto simp: render_exception_def res_simps)
  have m: "m = meta_of e" "exception_reviewed e"
    using exception_meta_Inr [OF h(1)] by auto
  have d: "parse_date (text_in ''expires'' e) = Some d"
    using h(2) m by (auto simp: exception_expiry_def split: option.splits)
  note types = scan_types_Inr [OF h(4)]
  show ?thesis
  proof (cases "List.member types scan_type")
    case False
    then have "out = None" using assms h by (simp add: render_exception_def)
    then show ?thesis using False types m(2) by (auto simp: exception_active_def)
  next
    case True
    note a = assms [unfolded render_exception_def h(1) bindE_Inr h(2) h(4) guardE_eq_Inr]
    from a True obtain targets lineages paths purls where l: "string_list e ''targets'' i = Inr targets"
      "digest_list e ''lineage_digests'' i = Inr lineages" "string_list e ''paths'' i = Inr paths"
      "string_list e ''purls'' i = Inr purls"
      by (auto simp only: bindE_eq_Inr if_True if_False not_True_eq_False)
    have out: "out = (if scan_type = ''image'' \<and> \<not> List.member targets target \<and> \<not> List.member targets ''*''
          \<and> filter (List.member lineage) lineages = [] then None
        else Some (rendered_entry d e, filter (List.member lineage) lineages))"
      using a True m(1) string_list_Inr [OF l(3)] string_list_Inr [OF l(4)]
      by (auto simp: l guardE_eq_Inr Let_def rendered_entry_def split: if_splits)
    have "filter (List.member lineage) lineages = [] \<longleftrightarrow>
        \<not> (\<exists>l \<in> set (texts_in ''lineage_digests'' [] e). py_lower l \<in> set lineage)"
      using digest_list_Inr [OF l(2)] by (auto simp: filter_empty_conv)
    then show ?thesis
      using out True types d h(3) m(2) string_list_Inr [OF l(1)] by (auto simp: exception_active_def)
  qed
qed

lemma render_exceptions_Inr:
  "render_exceptions reference scan_type target lineage i items = Inr (rendered, matched) \<Longrightarrow>
     items = map JObj (objects items)
     \<and> list_all exception_reviewed (objects items)
     \<and> list_all2 (\<lambda>r e. \<exists>d. parse_date (text_in ''expires'' e) = Some d \<and> reference \<le> d \<and> r = rendered_entry d e)
         rendered (filter (exception_active reference scan_type target lineage) (objects items))"
proof (induction reference scan_type target lineage i items arbitrary: rendered matched
    rule: render_exceptions.induct)
  case (2 reference scan_type target lineage i entry rest)
  then obtain out rs ms where one: "render_exception reference scan_type target lineage i entry = Inr out"
    and rest: "render_exceptions reference scan_type target lineage (Suc i) rest = Inr (rs, ms)"
    and r: "rendered = (case out of None \<Rightarrow> rs | Some (e, m) \<Rightarrow> e # rs)"
    by (auto simp: res_simps split: option.splits)
  show ?case
    using render_exception_Inr [OF one] 2(1) [OF one rest] r by (auto split: if_splits)
qed auto

section \<open>What the filter removes\<close>

lemma sort_keys_texts [simp]: "map sort_keys (map JStr ts) = map JStr ts"
  by (induction ts) simp_all

lemma intersects_texts: "intersects xs (map JStr ts) = Inr (set xs \<inter> set ts \<noteq> {})"
  by (induction ts) (auto simp: list_ex_iff)

lemma jget_rendered:
  "jget ''id'' (rendered_entry d e) = JStr (text_in ''id'' e)"
  "jget ''paths'' (rendered_entry d e) =
     (if texts_in ''paths'' [] e = [] then JNull else JArr (map JStr (texts_in ''paths'' [] e)))"
  "jget ''purls'' (rendered_entry d e) =
     (if texts_in ''purls'' [] e = [] then JNull else JArr (map JStr (texts_in ''purls'' [] e)))"
  by (simp_all add: rendered_entry_def render_entry_def)

abbreviation read_back :: "jobj \<Rightarrow> jobj" where
  "read_back d \<equiv> sort_key fst (map (\<lambda>(k, v). (k, sort_keys v)) d)"

lemma matches_rendered:
  "finding_matches_exception f (read_back (rendered_entry d e)) candidates = Inr (exception_covers e f candidates)"
proof -
  have g: "jget k (read_back (rendered_entry d e)) = sort_keys (jget k (rendered_entry d e))" for k
    by (rule jget_sort_keys)
  show ?thesis
    by (simp add: finding_matches_exception_def g jget_rendered exception_covers_def intersects_texts
        del: map_map)
qed

lemma matches_any_rendered:
  assumes "list_all2 (\<lambda>r e. \<exists>d. P d e \<and> r = rendered_entry d e) rendered es"
  shows "matches_any f candidates (map read_back rendered) = Inr (list_ex (\<lambda>e. exception_covers e f candidates) es)"
  using assms
proof (induction rendered es rule: list_all2_induct)
  case (Cons r rs e es)
  then obtain d where "r = rendered_entry d e" by blast
  then show ?case using Cons(3) by (simp only: list.map matches_any.simps matches_rendered) simp
qed simp

definition finding_covered :: "jobj list \<Rightarrow> json \<Rightarrow> json \<Rightarrow> bool" where
  "finding_covered es target v =
     (case v of
        JObj f \<Rightarrow> list_ex (\<lambda>e. exception_covers e f [target, jget ''Target'' f, jget ''PkgPath'' f]) es
      | _ \<Rightarrow> False)"

lemma filter_findings_exact:
  assumes "list_all2 (\<lambda>r e. \<exists>d. P d e \<and> r = rendered_entry d e) rendered es"
  shows "filter_findings (map read_back rendered) target vs
    = Inr (filter (\<lambda>v. \<not> finding_covered es target v) vs, length (filter (finding_covered es target) vs))"
proof (induction vs)
  case (Cons v vs)
  then show ?case
    by (cases v) (simp_all add: finding_covered_def matches_any_rendered [OF assms])
qed simp

text \<open>The findings of one kind in a result, before and after; \<open>gone\<close> counts the removed ones.\<close>

definition kept :: "jobj list \<Rightarrow> json \<Rightarrow> json \<Rightarrow> json" where
  "kept es target v =
     (case v of JArr vs \<Rightarrow> JArr (filter (\<lambda>x. \<not> finding_covered es target x) vs) | _ \<Rightarrow> v)"

definition gone :: "jobj list \<Rightarrow> json \<Rightarrow> json \<Rightarrow> nat" where
  "gone es target v = (case v of JArr vs \<Rightarrow> length (filter (finding_covered es target) vs) | _ \<Rightarrow> 0)"

lemma map_of_count_failures:
  "k \<noteq> ''MisconfSummary'' \<Longrightarrow> map_of (count_failures fld n r) k = map_of r k"
  by (auto simp: count_failures_def map_of_dict_set split: json.splits)

lemma filter_field_exact:
  assumes "list_all2 (\<lambda>r e. \<exists>d. P d e \<and> r = rendered_entry d e) rendered es"
  shows "\<exists>r'. filter_field (map read_back rendered) target fld r = Inr (r', gone es target (jget fld r))
    \<and> (\<forall>k. k \<noteq> ''MisconfSummary'' \<longrightarrow>
         map_of r' k = (if k = fld then map_option (kept es target) (map_of r k) else map_of r k))"
proof (cases "\<exists>vs. jget fld r = JArr vs")
  case True
  then obtain vs where vs: "jget fld r = JArr vs" by blast
  then have "map_of r fld = Some (JArr vs)" by (auto simp: jget_def split: option.splits)
  then show ?thesis
    by (simp add: filter_field_def vs filter_findings_exact [OF assms] gone_def map_of_count_failures
        map_of_dict_set kept_def)
next
  case False
  then have k: "kept es target (jget fld r) = jget fld r" "gone es target (jget fld r) = 0"
    "filter_field (map read_back rendered) target fld r = Inr (r, 0)"
    by (simp_all add: kept_def gone_def filter_field_def split: json.split)
  moreover have "map_option (kept es target) (map_of r fld) = map_of r fld"
    using k(1) by (cases "map_of r fld") (simp_all add: jget_def)
  ultimately show ?thesis by auto
qed

definition FINDING_LISTS :: "string list" where
  "FINDING_LISTS = [''Vulnerabilities'', ''Misconfigurations'', ''Secrets'']"

abbreviation target_of :: "jobj \<Rightarrow> json" where "target_of r \<equiv> jget_or ''Target'' (JStr []) r"

text \<open>
  One result before and after: of its lists of findings exactly the covered ones are gone, in
  place, and every other key but the summary that counts the misconfigurations is as it was.
\<close>

definition result_filtered :: "jobj list \<Rightarrow> json \<Rightarrow> json \<Rightarrow> bool" where
  "result_filtered es x y \<longleftrightarrow>
     (case x of
        JObj r \<Rightarrow> \<exists>r'. y = JObj r' \<and> (\<forall>k. k \<noteq> ''MisconfSummary'' \<longrightarrow>
          map_of r' k = (if k \<in> set FINDING_LISTS then map_option (kept es (target_of r)) (map_of r k)
                         else map_of r k))
      | _ \<Rightarrow> y = x)"

abbreviation gone_from :: "jobj list \<Rightarrow> string \<Rightarrow> jobj \<Rightarrow> nat" where
  "gone_from es fld r \<equiv> gone es (target_of r) (jget fld r)"

lemma exception_filter_results_exact:
  assumes "list_all2 (\<lambda>r e. \<exists>d. P d e \<and> r = rendered_entry d e) rendered es"
  shows "\<exists>results' out. exception_filter_results (map read_back rendered) results removed = Inr (results', out)
    \<and> list_all2 (result_filtered es) results results'
    \<and> rm_vulnerabilities out = rm_vulnerabilities removed
        + sum_list (map (gone_from es ''Vulnerabilities'') (objects results))
    \<and> rm_misconfigurations out = rm_misconfigurations removed
        + sum_list (map (gone_from es ''Misconfigurations'') (objects results))
    \<and> rm_secrets out = rm_secrets removed + sum_list (map (gone_from es ''Secrets'') (objects results))"
proof (induction results arbitrary: removed)
  case (Cons x rest)
  show ?case
  proof (cases "\<exists>r. x = JObj r")
    case False
    then have "exception_filter_results (map read_back rendered) (x # rest) removed
        = bindE (exception_filter_results (map read_back rendered) rest removed) (\<lambda>(rs, out). Inr (x # rs, out))"
      and "objects (x # rest) = objects rest" and "result_filtered es x x"
      by (cases x; simp add: result_filtered_def)+
    then show ?thesis using Cons [of removed] by auto
  next
    case True
    then obtain r where x: "x = JObj r" by blast
    note ff = filter_field_exact [OF assms, of "target_of r"]
    obtain r1 where r1: "filter_field (map read_back rendered) (target_of r) ''Vulnerabilities'' r
        = Inr (r1, gone_from es ''Vulnerabilities'' r)"
      "\<And>k. k \<noteq> ''MisconfSummary'' \<Longrightarrow> map_of r1 k =
         (if k = ''Vulnerabilities'' then map_option (kept es (target_of r)) (map_of r k) else map_of r k)"
      using ff [of "''Vulnerabilities''" r] by blast
    obtain r2 where r2: "filter_field (map read_back rendered) (target_of r) ''Misconfigurations'' r1
        = Inr (r2, gone es (target_of r) (jget ''Misconfigurations'' r1))"
      "\<And>k. k \<noteq> ''MisconfSummary'' \<Longrightarrow> map_of r2 k =
         (if k = ''Misconfigurations'' then map_option (kept es (target_of r)) (map_of r1 k) else map_of r1 k)"
      using ff [of "''Misconfigurations''" r1] by blast
    obtain r3 where r3: "filter_field (map read_back rendered) (target_of r) ''Secrets'' r2
        = Inr (r3, gone es (target_of r) (jget ''Secrets'' r2))"
      "\<And>k. k \<noteq> ''MisconfSummary'' \<Longrightarrow> map_of r3 k =
         (if k = ''Secrets'' then map_option (kept es (target_of r)) (map_of r2 k) else map_of r2 k)"
      using ff [of "''Secrets''" r2] by blast
    have same: "jget ''Misconfigurations'' r1 = jget ''Misconfigurations'' r" "jget ''Secrets'' r2 = jget ''Secrets'' r"
      using r1(2) r2(2) by (simp_all add: jget_def)
    have "result_filtered es x (JObj r3)"
      unfolding result_filtered_def x FINDING_LISTS_def by (simp add: r1(2) r2(2) r3(2))
    moreover obtain rs out where "exception_filter_results (map read_back rendered) rest
        \<lparr>rm_vulnerabilities = rm_vulnerabilities removed + gone_from es ''Vulnerabilities'' r,
         rm_misconfigurations = rm_misconfigurations removed + gone_from es ''Misconfigurations'' r,
         rm_secrets = rm_secrets removed + gone_from es ''Secrets'' r\<rparr> = Inr (rs, out)"
      "list_all2 (result_filtered es) rest rs"
      "rm_vulnerabilities out = rm_vulnerabilities removed + gone_from es ''Vulnerabilities'' r
        + sum_list (map (gone_from es ''Vulnerabilities'') (objects rest))"
      "rm_misconfigurations out = rm_misconfigurations removed + gone_from es ''Misconfigurations'' r
        + sum_list (map (gone_from es ''Misconfigurations'') (objects rest))"
      "rm_secrets out = rm_secrets removed + gone_from es ''Secrets'' r
        + sum_list (map (gone_from es ''Secrets'') (objects rest))"
      using Cons [of "\<lparr>rm_vulnerabilities = rm_vulnerabilities removed + gone_from es ''Vulnerabilities'' r,
         rm_misconfigurations = rm_misconfigurations removed + gone_from es ''Misconfigurations'' r,
         rm_secrets = rm_secrets removed + gone_from es ''Secrets'' r\<rparr>"] by auto
    ultimately show ?thesis using r1(1) r2(1) r3(1) x same by (simp add: Let_def)
  qed
qed simp

lemma read_back_policy:
  assumes "sort_keys (rendered_policy rendered) = JObj policy"
  shows "jget_or ''vulnerabilities'' (JArr []) policy = JArr (map (\<lambda>r. JObj (read_back r)) rendered)"
  using assms by (auto simp: rendered_policy_def)

lemma all_objects_map: "all_objects (map (\<lambda>r. JObj (f r)) rs) = Some (map f rs)"
  by (induction rs) simp_all

text \<open>
  C33: What the exceptions of a target suppress. Let every entry that is not expired and applies
  to the target be scoped by paths or package URLs. With the policy rendered for the target and
  read back, the filter succeeds on every report whose results are an array; of every list of
  vulnerabilities, misconfigurations and secrets it removes exactly the findings such an entry
  covers, all other findings stay in place, and the removed counts are exact. The entry of a
  removed finding has an owner, a statement and a compensating control, names the identifier of
  the finding and lists one of its paths or one of its package URLs: no finding is removed by
  its identifier alone.
\<close>
theorem exceptions_remove_reviewed_only:
  fixes reference :: nat and scan_type target :: string and lineage :: "string list" and items :: "json list"
  defines "active \<equiv> filter (exception_active reference scan_type target lineage) (objects items)"
  assumes "render_exceptions reference scan_type target lineage 0 items = Inr (rendered, matched)"
    and "sort_keys (rendered_policy rendered) = JObj policy"
    and "jget_or ''Results'' (JArr []) report = JArr results"
    and "\<forall>e \<in> set active. texts_in ''paths'' [] e \<noteq> [] \<or> texts_in ''purls'' [] e \<noteq> []"
  shows "(\<forall>e \<in> set active. exception_reviewed e \<and> (\<forall>f candidates. exception_covers e f candidates \<longrightarrow>
       finding_id f = text_in ''id'' e
       \<and> (path_matches candidates (map JStr (texts_in ''paths'' [] e))
          \<or> set (finding_purls f) \<inter> set (texts_in ''purls'' [] e) \<noteq> {}))) \<and>
    (\<exists>out results' removed. exception_filter_payload report policy = Inr (out, removed)
     \<and> array_of ''Results'' out = results' \<and> list_all2 (result_filtered active) results results'
     \<and> rm_vulnerabilities removed = sum_list (map (gone_from active ''Vulnerabilities'') (objects results))
     \<and> rm_misconfigurations removed = sum_list (map (gone_from active ''Misconfigurations'') (objects results))
     \<and> rm_secrets removed = sum_list (map (gone_from active ''Secrets'') (objects results)))"
proof -
  note r = render_exceptions_Inr [OF assms(2), folded active_def]
  let ?zero = "\<lparr>rm_vulnerabilities = 0, rm_misconfigurations = 0, rm_secrets = 0\<rparr>"
  obtain results' removed where e: "exception_filter_results (map read_back rendered) results ?zero = Inr (results', removed)"
    "list_all2 (result_filtered active) results results'"
    "rm_vulnerabilities removed = sum_list (map (gone_from active ''Vulnerabilities'') (objects results))"
    "rm_misconfigurations removed = sum_list (map (gone_from active ''Misconfigurations'') (objects results))"
    "rm_secrets removed = sum_list (map (gone_from active ''Secrets'') (objects results))"
    using exception_filter_results_exact
      [where P = "\<lambda>d e. parse_date (text_in ''expires'' e) = Some d \<and> reference \<le> d"
         and rendered = rendered and es = active and results = results and removed = ?zero] r by auto
  have out: "exception_filter_payload report policy
      = Inr (if jhas ''Results'' report then dict_set ''Results'' (JArr results') report else report, removed)"
    by (simp add: exception_filter_payload_def read_back_policy [OF assms(3)] all_objects_map assms(4) e(1))
  have "\<not> jhas ''Results'' report \<Longrightarrow> results' = []" "\<not> jhas ''Results'' report \<Longrightarrow> array_of ''Results'' report = []"
    using assms(4) e(2) by (auto simp: jhas_def jget_or_def array_of_def jget_def)
  then have "array_of ''Results'' (if jhas ''Results'' report then dict_set ''Results'' (JArr results') report else report) = results'"
    by (auto simp: array_of_def jget_dict_set)
  moreover have "\<forall>e \<in> set active. exception_reviewed e" using r by (auto simp: active_def list_all_iff)
  moreover have "\<forall>e \<in> set active. \<forall>f candidates. exception_covers e f candidates \<longrightarrow> finding_id f = text_in ''id'' e
       \<and> (path_matches candidates (map JStr (texts_in ''paths'' [] e))
          \<or> set (finding_purls f) \<inter> set (texts_in ''purls'' [] e) \<noteq> {})"
    using assms(5) unfolding exception_covers_def by blast
  ultimately show ?thesis using out e by blast
qed

section \<open>A validated policy can be rendered\<close>

definition narrowed :: "jobj \<Rightarrow> bool" where
  "narrowed r \<longleftrightarrow> jhas ''paths'' r \<or> jhas ''purls'' r"

lemma validated_exception_renders:
  assumes "validate_exception reference active i e = Inr identity"
  shows "\<exists>out. render_exception reference scan_type target lineage i e = Inr out
    \<and> (\<forall>r m. out = Some (r, m) \<longrightarrow> narrowed r)"
proof -
  from assms obtain m d types targets lineages paths purls u where h:
    "exception_meta_of e i = Inr m" "exception_expiry i (xm_expires_text m) = Inr d" "reference \<le> d"
    "exception_scan_types e i = Inr types" "string_list e ''targets'' i = Inr targets"
    "digest_list e ''lineage_digests'' i = Inr lineages" "string_list e ''paths'' i = Inr paths"
    "string_list e ''purls'' i = Inr purls"
    "validate_scope active i m types targets lineages paths purls = Inr u"
    by (auto simp only: validate_exception_def bindE_eq_Inr guardE_eq_Inr sum.inject)
  have types: "types \<noteq> []" "\<forall>t \<in> set types. t = ''fs'' \<or> t = ''image''"
    using h(4) by (auto simp: exception_scan_types_def res_simps list_all_iff)
  have scope: "''image'' \<in> set types \<Longrightarrow> (targets \<noteq> [] \<or> lineages \<noteq> []) \<and> (paths \<noteq> [] \<or> purls \<noteq> [])
        \<and> (lineages = [] \<or> purls \<noteq> [])"
    "''image'' \<notin> set types \<Longrightarrow> targets = [] \<and> lineages = []" "''fs'' \<in> set types \<Longrightarrow> paths \<noteq> []"
    using h(9) by (auto simp: validate_scope_def res_simps split: if_splits)
  have narrow: "paths \<noteq> [] \<or> purls \<noteq> []" using scope types by (cases types) auto
  then have "narrowed (render_entry m d paths purls)" by (auto simp: narrowed_def render_entry_def)
  moreover have "lineages = [] \<or> purls \<noteq> []" using scope by blast
  ultimately show ?thesis
    using h scope by (auto simp: render_exception_def Let_def guardE_def)
qed

lemma validated_exceptions_render:
  "validate_exceptions reference active i seen items = Inr u \<Longrightarrow>
     \<exists>rendered matched. render_exceptions reference scan_type target lineage i items = Inr (rendered, matched)
       \<and> list_all narrowed rendered"
proof (induction reference active i seen items rule: validate_exceptions.induct)
  case (2 reference active i seen entry rest)
  then obtain identity where one: "validate_exception reference active i entry = Inr identity"
    "\<not> List.member seen identity" "validate_exceptions reference active (Suc i) (identity # seen) rest = Inr u"
    by (auto simp: res_simps)
  obtain out where out: "render_exception reference scan_type target lineage i entry = Inr out"
    "\<And>r m. out = Some (r, m) \<Longrightarrow> narrowed r"
    using validated_exception_renders [OF one(1)] by blast
  obtain rs ms where rest: "render_exceptions reference scan_type target lineage (Suc i) rest = Inr (rs, ms)"
    "list_all narrowed rs"
    using 2(1) [OF one] by blast
  show ?case using out rest by (cases out) auto
qed auto

text \<open>
  C34: The check of the complete policy is sound for the rendering: a policy accepted against
  the exact set of images is rendered without an error on the same day for every target, kind of
  scan and lineage, so the gate cannot fail on it afterwards; the images are distinct immutable
  IDs; and every rendered entry is narrowed to paths or package URLs.
\<close>
theorem validated_policy_renders:
  assumes "validate_complete_exception_policy loads decode fs reference source ids refs = Inr n"
  shows "\<exists>entries rendered matched. load_exception_entries loads fs source = Inr entries
    \<and> length entries = n
    \<and> render_exceptions reference scan_type target lineage 0 entries = Inr (rendered, matched)
    \<and> list_all narrowed rendered
    \<and> refs \<noteq> [] \<and> distinct refs \<and> list_all immutable_id refs"
proof -
  obtain entries active u where h: "load_exception_entries loads fs source = Inr entries"
    "validate_exceptions reference active 0 [] entries = Inr u" "n = length entries"
    "refs \<noteq> []" "distinct refs" "list_all immutable_id refs"
    using assms by (auto simp: validate_complete_exception_policy_def check_complete_policy_def res_simps)
  then show ?thesis using validated_exceptions_render [OF h(2)] by blast
qed

section \<open>A concrete policy\<close>

definition demo_exception :: jobj where
  "demo_exception =
     [(''id'', JStr ''CVE-1''), (''owner'', JStr ''sec''), (''statement'', JStr ''s''),
      (''compensating_control'', JStr ''c''), (''expires'', JStr ''2030-01-31''),
      (''targets'', JArr [JStr ''app'']), (''purls'', JArr [JStr ''pkg:a''])]"

definition demo_vulnerability :: "string \<Rightarrow> string \<Rightarrow> json" where
  "demo_vulnerability i purl =
     JObj [(''VulnerabilityID'', JStr i), (''PkgIdentifier'', JObj [(''PURL'', JStr purl)])]"

definition demo_expiry :: nat where "demo_expiry = ordinal 2030 1 31"

lemma demo_exception_date: "parse_date ''2030-01-31'' = Some demo_expiry"
proof -
  have "date_shape ''dddd-dd-dd'' ''2030-01-31''" "field ''2030-01-31'' 0 4 = 2030" "field ''2030-01-31'' 5 2 = 1"
    "field ''2030-01-31'' 8 2 = 31" "valid_date 2030 1 31"
    by code_simp+
  then show ?thesis by (simp add: parse_date_def calendar_ordinal_def demo_expiry_def)
qed

lemma demo_exception_rendered:
  "\<exists>m. render_exceptions demo_expiry ''image'' ''app'' [] 0 [JObj demo_exception] = Inr ([rendered_entry demo_expiry demo_exception], m)"
proof -
  have "exception_meta_of demo_exception 0 = Inr (meta_of demo_exception)"
    "exception_scan_types demo_exception 0 = Inr [''image'']" "string_list demo_exception ''targets'' 0 = Inr [''app'']"
    "digest_list demo_exception ''lineage_digests'' 0 = Inr []" "string_list demo_exception ''paths'' 0 = Inr []"
    "string_list demo_exception ''purls'' 0 = Inr [''pkg:a'']" "text_in ''expires'' demo_exception = ''2030-01-31''"
    "texts_in ''paths'' [] demo_exception = []" "texts_in ''purls'' [] demo_exception = [''pkg:a'']"
    by code_simp+
  then show ?thesis
    by (simp add: render_exception_def exception_expiry_def demo_exception_date rendered_entry_def)
qed

theorem exceptions_remove_reviewed_only_witness:
  "\<exists>rendered matched policy out removed.
     render_exceptions demo_expiry ''image'' ''app'' [] 0 [JObj demo_exception] = Inr (rendered, matched)
     \<and> sort_keys (rendered_policy rendered) = JObj policy
     \<and> exception_filter_payload [(''Results'', JArr [JObj [(''Vulnerabilities'',
           JArr [demo_vulnerability ''CVE-1'' ''pkg:a'', demo_vulnerability ''CVE-1'' ''pkg:b''])]])] policy = Inr (out, removed)
     \<and> rm_vulnerabilities removed = 1"
proof -
  let ?r = "[(''Vulnerabilities'', JArr [demo_vulnerability ''CVE-1'' ''pkg:a'', demo_vulnerability ''CVE-1'' ''pkg:b''])]"
  let ?report = "[(''Results'', JArr [JObj ?r])]"
  obtain rendered matched policy where r: "render_exceptions demo_expiry ''image'' ''app'' [] 0 [JObj demo_exception] = Inr (rendered, matched)"
    "sort_keys (rendered_policy rendered) = JObj policy"
    using demo_exception_rendered by (force simp: rendered_policy_def)
  have "jget_or ''Results'' (JArr []) ?report = JArr [JObj ?r]" by simp
  note t = exceptions_remove_reviewed_only [OF r this]
  have "texts_in ''purls'' [] demo_exception = [''pkg:a'']" by code_simp
  then have scoped: "\<forall>e \<in> set [demo_exception]. texts_in ''paths'' [] e \<noteq> [] \<or> texts_in ''purls'' [] e \<noteq> []"
    by simp
  have "exception_active demo_expiry ''image'' ''app'' [] demo_exception"
    using demo_exception_date by (auto simp: exception_active_def text_in_def texts_in_def demo_exception_def py_strip_def
        py_rstrip_def py_lstrip_def py_isspace_def code_def)
  then have "filter (exception_active demo_expiry ''image'' ''app'' []) (objects [JObj demo_exception]) = [demo_exception]"
    by simp
  note t = t [unfolded this, OF scoped]
  have "gone_from [demo_exception] ''Vulnerabilities'' ?r = 1" by code_simp
  then show ?thesis using t r by auto
qed

definition demo_image :: string where "demo_image = ''sha256:'' @ replicate 64 (CHR ''a'')"

definition demo_targeted :: jobj where
  "demo_targeted = dict_set ''targets'' (JArr [JStr demo_image]) demo_exception"

definition demo_policy_fs :: fsys where
  "demo_policy_fs = \<lparr>nodes = [[''p''] \<mapsto> File ''policy'', [''i''] \<mapsto> File demo_image], cwd = []\<rparr>"

definition demo_policy_loads :: "string \<Rightarrow> json result" where
  "demo_policy_loads s = Inr (JObj [(''version'', JInt 1), (''vulnerabilities'', JArr [JObj demo_targeted])])"

lemma demo_expiry_text: "date_isoformat demo_expiry = ''2030-01-31''"
proof -
  have "demo_expiry = 741108" by (simp add: demo_expiry_def ordinal_def days_before_year_def days_before_month_def)
  moreover have "date_of_ordinal 741108 = (2030, 1, 31)"
    by (simp add: date_of_ordinal_def Let_def upt_conv_Cons days_in_month_def)
  moreover have "pad4 2030 = ''2030''" "pad2 1 = ''01''" "pad2 31 = ''31''" by code_simp+
  ultimately show ?thesis by (simp add: date_isoformat_def)
qed

lemma demo_image_facts: "immutable_id demo_image" "py_splitlines demo_image = [demo_image]"
  "py_strip demo_image = demo_image" "demo_image \<noteq> []"
  by code_simp+

lemma demo_targeted_valid: "validate_exceptions demo_expiry [demo_image] 0 [] [JObj demo_targeted] = Inr ()"
proof -
  have entry: "exception_meta_of demo_targeted 0 = Inr (meta_of demo_targeted)" "text_in ''expires'' demo_targeted = ''2030-01-31''"
    "exception_scan_types demo_targeted 0 = Inr [''image'']" "string_list demo_targeted ''targets'' 0 = Inr [demo_image]"
    "digest_list demo_targeted ''lineage_digests'' 0 = Inr []" "string_list demo_targeted ''paths'' 0 = Inr []"
    "string_list demo_targeted ''purls'' 0 = Inr [''pkg:a'']"
    by code_simp+
  have "validate_scope [demo_image] 0 (meta_of demo_targeted) [''image''] [demo_image] [] [] [''pkg:a''] = Inr ()"
    by (simp add: validate_scope_def demo_image_facts)
  moreover have "exception_expiry 0 ''2030-01-31'' = Inr demo_expiry"
    by (simp add: exception_expiry_def demo_exception_date)
  ultimately have "\<exists>identity. validate_exception demo_expiry [demo_image] 0 demo_targeted = Inr identity"
    unfolding validate_exception_def by (simp only: entry bindE_Inr meta_of_simps demo_expiry_text) simp
  then show ?thesis by auto
qed

theorem validated_policy_renders_witness:
  "validate_complete_exception_policy demo_policy_loads Inr demo_policy_fs demo_expiry (Path True [''p'']) (Path True [''i'']) [demo_image] = Inr 1
   \<and> (\<exists>rendered matched. render_exceptions demo_expiry ''image'' demo_image [] 0 [JObj demo_targeted] = Inr (rendered, matched))"
proof -
  note v = demo_targeted_valid
  have p: "is_file demo_policy_fs [''i'']" "is_file demo_policy_fs [''p'']"
    "read_file demo_policy_fs [''i''] = Inr demo_image" "read_file demo_policy_fs [''p''] = Inr ''policy''"
    by code_simp+
  have c: "validate_complete_exception_policy demo_policy_loads Inr demo_policy_fs demo_expiry
      (Path True [''p'']) (Path True [''i'']) [demo_image] = Inr 1"
    using demo_image_facts v p
    by (simp add: validate_complete_exception_policy_def check_complete_policy_def load_active_image_ids_def
        check_active_image_ids_def load_exception_entries_def absolute_def demo_policy_loads_def)
  have "load_exception_entries demo_policy_loads demo_policy_fs (Path True [''p'']) = Inr [JObj demo_targeted]"
    using p by (simp add: load_exception_entries_def absolute_def demo_policy_loads_def)
  then show ?thesis using c validated_policy_renders [OF c, of "''image''" demo_image "[]"] by auto
qed

end
