(* ===== verification/Window_Run.thy ===== *)
theory Window_Run
  imports Remediation_Window FileOutput
begin

text \<open>
  The commands of \<open>scripts/security_gate/remediation_window.py\<close>: \<open>collect\<close>, which turns a Trivy
  report into observations, and \<open>evaluate\<close>, which reads observations, evaluates them and writes
  the result and the step outputs. \<open>dumps\<close> is \<open>json.dumps\<close> with the options of the call.
\<close>

section \<open>One observation\<close>

definition single_candidate :: "jobj \<Rightarrow> string option \<Rightarrow> bool \<Rightarrow> jobj" where
  "single_candidate ob exposure_criticality fixed_image_verified =
     (let c1 = (case exposure_criticality of
                  Some e \<Rightarrow> dict_set ''exposure_criticality'' (JStr e) ob | None \<Rightarrow> ob);
          c2 = (if jhas ''severity'' c1 then c1 else dict_set ''severity'' (JStr ''HIGH'') c1);
          c3 = (if jhas ''known_exploited'' c2 then c2 else dict_set ''known_exploited'' (JBool False) c2)
      in dict_set ''fixed_image_verified''
           (JBool (fixed_image_verified \<or> truthy (jget_or ''fixed_image_verified'' (JBool False) c3))) c3)"

text \<open>The aggregate with the digest of its one observation\<close>

definition evaluate_remediation_window ::
    "win_env \<Rightarrow> fsys \<Rightarrow> string list option \<Rightarrow> jobj \<Rightarrow> bool \<Rightarrow> string option \<Rightarrow> string option \<Rightarrow> bool
     \<Rightarrow> (window_result \<times> string) result" where
  "evaluate_remediation_window env fs policy_path ob enabled evaluation_time exposure_criticality
     fixed_image_verified =
     bindE (evaluate_remediation_windows env fs policy_path
              [single_candidate ob exposure_criticality fixed_image_verified] enabled evaluation_time [] [])
       (\<lambda>aggregate. Inr (aggregate,
          (case wr_findings aggregate of f # _ \<Rightarrow> fi_observation_digest f | [] \<Rightarrow> [])))"

section \<open>Collecting observations\<close>

record collect_spec =
  cs_service_scope :: string
  cs_exposure :: string
  cs_source_sha :: string
  cs_image_identity :: string
  cs_fixed_image_verified :: bool
  cs_known_exploited_ids :: "string list"

definition finding_purl :: "(json \<Rightarrow> string) \<Rightarrow> jobj \<Rightarrow> string" where
  "finding_purl show f =
     (let purl = (case jget ''PkgIdentifier'' f of
                    JObj identifier \<Rightarrow> normal_text show (jget ''PURL'' identifier)
                  | _ \<Rightarrow> []) in
      if purl = [] then normal_text show (jget ''PURL'' f) else purl)"

definition exploited_ids :: "collect_spec \<Rightarrow> string list" where
  "exploited_ids spec = filter (\<lambda>s. s \<noteq> []) (map py_strip (cs_known_exploited_ids spec))"

definition observation_of ::
    "(json \<Rightarrow> string) \<Rightarrow> collect_spec \<Rightarrow> string list \<Rightarrow> jobj \<Rightarrow> jobj" where
  "observation_of show spec lineage f =
     [(''service_scope'', JStr (cs_service_scope spec)),
      (''exposure_criticality'', JStr (cs_exposure spec)),
      (''classification'', JStr ALLOWED_CLASSIFICATION),
      (''severity'', JStr (py_upper (normal_text show (jget ''Severity'' f)))),
      (''known_exploited'', JBool (List.member (exploited_ids spec)
                                    (normal_text show (jget ''VulnerabilityID'' f)))),
      (''advisory_id'', JStr (normal_text show (jget ''VulnerabilityID'' f))),
      (''package_purl'', JStr (finding_purl show f)),
      (''installed_version'', JStr (normal_text show (jget ''InstalledVersion'' f))),
      (''fixed_version'', JStr (normal_text show (jget ''FixedVersion'' f))),
      (''image_lineage_digests'', JArr (map JStr lineage)),
      (''source_sha'', JStr (cs_source_sha spec)),
      (''image_identity'', JStr (cs_image_identity spec)),
      (''fixed_image_verified'', JBool (cs_fixed_image_verified spec))]"

text \<open>The key of the dictionary; the lineage, the same for every finding, is its last component.\<close>

definition finding_key :: "(json \<Rightarrow> string) \<Rightarrow> jobj \<Rightarrow> string list" where
  "finding_key show f =
     [normal_text show (jget ''VulnerabilityID'' f), finding_purl show f,
      normal_text show (jget ''InstalledVersion'' f), normal_text show (jget ''FixedVersion'' f)]"

fun add_findings ::
    "(json \<Rightarrow> string) \<Rightarrow> collect_spec \<Rightarrow> string list \<Rightarrow> json list \<Rightarrow> (string list \<times> jobj) list
     \<Rightarrow> (string list \<times> jobj) list" where
  "add_findings show spec lineage [] acc = acc"
| "add_findings show spec lineage (JObj f # rest) acc =
     (if normal_text show (jget ''FixedVersion'' f) = []
      then add_findings show spec lineage rest acc
      else add_findings show spec lineage rest
             (dict_set (finding_key show f) (observation_of show spec lineage f) acc))"
| "add_findings show spec lineage (_ # rest) acc = add_findings show spec lineage rest acc"

fun add_results ::
    "(json \<Rightarrow> string) \<Rightarrow> collect_spec \<Rightarrow> string list \<Rightarrow> json list \<Rightarrow> (string list \<times> jobj) list
     \<Rightarrow> (string list \<times> jobj) list" where
  "add_results show spec lineage [] acc = acc"
| "add_results show spec lineage (JObj result # rest) acc =
     add_results show spec lineage rest
       (case jget ''Vulnerabilities'' result of
          JArr vs \<Rightarrow> add_findings show spec lineage vs acc
        | _ \<Rightarrow> acc)"
| "add_results show spec lineage (_ # rest) acc = add_results show spec lineage rest acc"

definition observations_from_trivy_report ::
    "win_env \<Rightarrow> fsys \<Rightarrow> string list \<Rightarrow> collect_spec \<Rightarrow> string list \<Rightarrow> jobj list result" where
  "observations_from_trivy_report env fs report_path spec image_lineage_digests =
     bindE (load_json (we_loads env) fs report_path ''Trivy report'') (\<lambda>report.
     (case jget ''Results'' report of
        JArr results \<Rightarrow>
          bindE (normalize_digest_list (we_show env) (JArr (map JStr image_lineage_digests))
                   ''image_lineage_digests'') (\<lambda>lineage.
          Inr (map snd (sort_key fst (add_results (we_show env) spec lineage results []))))
      | _ \<Rightarrow> Inl (win_error ''Trivy report Results must be an array'')))"

definition load_transport_lineage :: "win_env \<Rightarrow> fsys \<Rightarrow> string list \<Rightarrow> string list result" where
  "load_transport_lineage env fs p =
     bindE (load_json (we_loads env) fs p ''transport metadata'') (\<lambda>payload.
     bindE (if truthy (jget ''lineage_digests'' payload) then py_list (jget ''lineage_digests'' payload)
            else Inr []) (\<lambda>digests.
       normalize_digest_list (we_show env) (JArr digests) ''transport_metadata.lineage_digests''))"

section \<open>Files\<close>

definition write_result :: "string list \<Rightarrow> string \<Rightarrow> (fsys, unit) action" where
  "write_result p content =
     bindW (refuse_symlink (win_error ''output must not be a symlink'') p) (\<lambda>_.
     bindW (mkdir_parents (butlast p)) (\<lambda>_.
     bindW (\<lambda>fs. let temporary = butlast p @ [last p @ ''.tmp''] in
              (if path_exists fs temporary \<and> is_symlink fs temporary
               then Inl (win_error ''temporary output must not be a symlink'') else Inr (), fs)) (\<lambda>_.
       write_and_replace p content)))"

definition write_observations_file ::
    "(json \<Rightarrow> string) \<Rightarrow> string list \<Rightarrow> jobj list \<Rightarrow> (fsys, unit) action" where
  "write_observations_file dumps p obs =
     write_result p (dumps (JObj [(''schema_version'', JInt 1),
                                  (''observations'', JArr (map JObj obs))]) @ [LF])"

fun observation_items :: "nat \<Rightarrow> json list \<Rightarrow> jobj list result" where
  "observation_items i [] = Inr []"
| "observation_items i (JObj d # rest) =
     bindE (observation_items i rest) (\<lambda>ds. Inr (d # ds))"
| "observation_items i (_ # rest) =
     Inl (win_error (''observations['' @ dec i @ ''] entries must be objects''))"

fun load_observation_files :: "win_env \<Rightarrow> fsys \<Rightarrow> nat \<Rightarrow> string list list \<Rightarrow> jobj list result" where
  "load_observation_files env fs i [] = Inr []"
| "load_observation_files env fs i (p # ps) =
     bindE (load_json (we_loads env) fs p (''observations['' @ dec i @ '']'')) (\<lambda>payload.
     bindE (case jget ''observations'' payload of
              JArr items \<Rightarrow> observation_items i items
            | _ \<Rightarrow> Inl (win_error (''observations['' @ dec i @ ''].observations must be an array'')))
       (\<lambda>ds. bindE (load_observation_files env fs (Suc i) ps) (\<lambda>rest. Inr (ds @ rest))))"

section \<open>The result as JSON and as step outputs\<close>

definition finding_json :: "finding \<Rightarrow> json" where
  "finding_json f = JObj
     [(''observation_digest'', JStr (fi_observation_digest f)),
      (''advisory_id'', JStr (fi_advisory_id f)), (''package_purl'', JStr (fi_package_purl f)),
      (''image_identity'', JStr (fi_image_identity f)), (''state'', JStr (fi_state f)),
      (''failure_reason'', JStr (fi_failure_reason f)),
      (''policy_entry_id'', JStr (fi_policy_entry_id f)),
      (''policy_entry_status'', JStr (fi_policy_entry_status f)),
      (''first_seen_at'', JStr (fi_first_seen f)),
      (''original_deadline_at'', JStr (fi_original_deadline f)),
      (''deadline_at'', JStr (fi_deadline f)),
      (''revision_count'', JInt (int (fi_revision_count f)))]"

definition result_json :: "window_result \<Rightarrow> json" where
  "result_json r = JObj
     [(''source_sha'', JStr (wr_source_sha r)), (''image_digest'', JStr (wr_image_digest r)),
      (''classification'', JStr (wr_classification r)),
      (''remediation_window_allowed'', JBool (wr_allowed r)),
      (''remediation_state'', JStr (wr_state r)), (''decision'', JStr (wr_decision r)),
      (''blocking_total'', JInt (int (wr_blocking_total r))),
      (''window_covered'', JInt (int (wr_covered r))),
      (''uncovered_blocking_findings'', JInt (wr_uncovered r)),
      (''rejected_count'', JInt (int (wr_rejected r))),
      (''overdue_count'', JInt (int (wr_overdue r))),
      (''unmatched_count'', JInt (int (wr_unmatched r))),
      (''reintroduced_count'', JInt (int (wr_reintroduced r))),
      (''due_soon_count'', JInt (int (wr_due_soon r))),
      (''matching_entry_count'', JInt (int (wr_matching r))),
      (''nearest_deadline'', JStr (wr_nearest_deadline r)),
      (''policy_digest'', JStr (wr_policy_digest r)),
      (''evaluator_version'', JStr (wr_evaluator_version r)),
      (''failure_reason'', JStr (wr_failure_reason r)),
      (''findings'', JArr (map finding_json (wr_findings r)))]"

definition window_outputs :: "window_result \<Rightarrow> (string \<times> string) list" where
  "window_outputs r =
     [(''remediation_window_allowed'', if wr_allowed r then ''true'' else ''false''),
      (''remediation_state'', wr_state r),
      (''remediation_window_decision'', wr_decision r),
      (''remediation_window_classification'', wr_classification r),
      (''remediation_window_count'', dec (wr_matching r)),
      (''remediation_window_blocking_total'', dec (wr_blocking_total r)),
      (''remediation_window_covered'', dec (wr_covered r)),
      (''remediation_window_uncovered'', dec_int (wr_uncovered r)),
      (''remediation_window_rejected_count'', dec (wr_rejected r)),
      (''remediation_window_overdue_count'', dec (wr_overdue r)),
      (''remediation_window_unmatched_count'', dec (wr_unmatched r)),
      (''remediation_window_reintroduced_count'', dec (wr_reintroduced r)),
      (''remediation_window_due_soon_count'', dec (wr_due_soon r)),
      (''nearest_deadline'', wr_nearest_deadline r),
      (''policy_digest'', wr_policy_digest r),
      (''evaluator_version'', wr_evaluator_version r),
      (''remediation_window_failure_reason'', wr_failure_reason r),
      (''remediation_window_source_sha'', wr_source_sha r),
      (''remediation_window_image_digest'', wr_image_digest r)]"

text \<open>The lines written before a value with a line break is met, and the error of that value\<close>

fun output_lines :: "(string \<times> string) list \<Rightarrow> string \<times> exc option" where
  "output_lines [] = ([], None)"
| "output_lines ((k, v) # rest) =
     (if has_char LF v \<or> has_char CR v
      then ([], Some (win_error (''github output field '' @ k @ '' contains a newline'')))
      else (case output_lines rest of (ls, e) \<Rightarrow> (k @ ''='' @ v @ LF # ls, e)))"

definition write_window_output :: "string list \<Rightarrow> window_result \<Rightarrow> (fsys, unit) action" where
  "write_window_output p r =
     bindW (refuse_symlink (win_error ''github output must not be a symlink'') p) (\<lambda>_.
     (case output_lines (window_outputs r) of (ls, e) \<Rightarrow>
       bindW (append_text p ls) (\<lambda>_. liftW (case e of None \<Rightarrow> Inr () | Some x \<Rightarrow> Inl x))))"

section \<open>The commands\<close>

record evaluate_args =
  ev_workspace :: path
  ev_policy :: string
  ev_observations :: "string list list"
  ev_output :: "string list"
  ev_github_output :: "string list option"
  ev_source_sha :: string
  ev_image_digest :: string
  ev_enabled :: bool
  ev_evaluation_time :: "string option"
  ev_test_mode :: bool

definition evaluate_result :: "win_env \<Rightarrow> fsys \<Rightarrow> evaluate_args \<Rightarrow> window_result result" where
  "evaluate_result env fs a =
     guardE (\<not> (ev_evaluation_time a \<noteq> None \<and> ev_evaluation_time a \<noteq> Some []) \<or> ev_test_mode a)
       (win_error ''evaluation-time override is allowed only in test mode'')
     (if \<not> ev_enabled a
      then evaluate_remediation_windows env fs None [] False (ev_evaluation_time a) [] []
      else
        bindE (resolve_policy_path fs (ev_workspace a) (ev_policy a)) (\<lambda>policy.
        bindE (load_observation_files env fs 0 (ev_observations a)) (\<lambda>obs.
          evaluate_remediation_windows env fs (Some policy) obs True (ev_evaluation_time a)
            (ev_source_sha a) (ev_image_digest a))))"

definition run_evaluate :: "win_env \<Rightarrow> (json \<Rightarrow> string) \<Rightarrow> evaluate_args \<Rightarrow> (fsys, unit) action" where
  "run_evaluate env dumps a =
     bindW (\<lambda>fs. (evaluate_result env fs a, fs)) (\<lambda>r.
     bindW (write_result (ev_output a) (dumps (result_json r) @ [LF])) (\<lambda>_.
       (case ev_github_output a of
          Some p \<Rightarrow> write_window_output p r
        | None \<Rightarrow> liftW (Inr ()))))"

definition run_collect ::
    "win_env \<Rightarrow> (json \<Rightarrow> string) \<Rightarrow> string list \<Rightarrow> string list \<Rightarrow> string list \<Rightarrow> collect_spec
     \<Rightarrow> (fsys, unit) action" where
  "run_collect env dumps report transport_metadata output spec =
     bindW (\<lambda>fs. (bindE (load_transport_lineage env fs transport_metadata)
                    (observations_from_trivy_report env fs report spec), fs)) (\<lambda>obs.
       write_observations_file dumps output obs)"

text \<open>\<open>main\<close>: 0, or 2 for an error it names; any other exception ends the process with 1.\<close>

definition window_exit :: "unit result \<Rightarrow> nat" where
  "window_exit r =
     (case r of
        Inr _ \<Rightarrow> 0
      | Inl e \<Rightarrow> if catches [RemediationWindowError, OSError, KeyError] e then 2 else 1)"

section \<open>What collecting keeps\<close>

text \<open>The findings of a report that name a fixed version, in the order of the report\<close>

definition fixable_findings :: "(json \<Rightarrow> string) \<Rightarrow> json list \<Rightarrow> jobj list" where
  "fixable_findings show results =
     concat (map (\<lambda>r. case r of
         JObj d \<Rightarrow> concat (map (\<lambda>v. case v of
             JObj f \<Rightarrow> if normal_text show (jget ''FixedVersion'' f) = [] then [] else [f] | _ \<Rightarrow> [])
           (array_of ''Vulnerabilities'' d))
       | _ \<Rightarrow> []) results)"

abbreviation collected ::
    "(json \<Rightarrow> string) \<Rightarrow> collect_spec \<Rightarrow> string list \<Rightarrow> jobj list \<Rightarrow> (string list \<times> jobj) list
     \<Rightarrow> (string list \<times> jobj) list" where
  "collected show spec lineage fs acc \<equiv>
     foldl (\<lambda>a f. dict_set (finding_key show f) (observation_of show spec lineage f) a) acc fs"

lemma add_findings_fold:
  "add_findings show spec lineage vs acc
     = collected show spec lineage
         (concat (map (\<lambda>v. case v of
             JObj f \<Rightarrow> if normal_text show (jget ''FixedVersion'' f) = [] then [] else [f] | _ \<Rightarrow> []) vs)) acc"
proof (induction vs arbitrary: acc)
  case (Cons v vs)
  then show ?case by (cases v) simp_all
qed simp

lemma add_results_fold:
  "add_results show spec lineage rs acc = collected show spec lineage (fixable_findings show rs) acc"
proof (induction rs arbitrary: acc)
  case (Cons r rs)
  show ?case
  proof (cases r)
    case (JObj d)
    then show ?thesis
      using Cons by (cases "jget ''Vulnerabilities'' d")
        (simp_all add: fixable_findings_def add_findings_fold array_of_def)
  qed (use Cons in \<open>simp_all add: fixable_findings_def\<close>)
qed (simp add: fixable_findings_def)

lemma collected_lookup:
  "map_of (collected show spec lineage fs acc) k =
     (if k \<in> finding_key show ` set fs
      then Some (observation_of show spec lineage (last (filter (\<lambda>f. finding_key show f = k) fs)))
      else map_of acc k)"
  by (induction fs arbitrary: acc) (auto simp: map_of_dict_set filter_empty_conv)

lemma collected_keys:
  "fst ` set (collected show spec lineage fs acc) = fst ` set acc \<union> finding_key show ` set fs"
  by (induction fs arbitrary: acc) (auto simp: keys_dict_set)

lemma collected_distinct:
  "distinct (map fst acc) \<Longrightarrow> distinct (map fst (collected show spec lineage fs acc))"
  by (induction fs arbitrary: acc) (simp_all add: distinct_dict_set)

text \<open>A dictionary read in the order of its keys\<close>

lemma sorted_items:
  fixes d :: "('k :: linorder \<times> 'v) list"
  assumes "distinct (map fst d)" and "\<And>k. k \<in> fst ` set d \<Longrightarrow> map_of d k = Some (g k)"
  shows "map snd (sort_key fst d) = map g (sorted_list_of_set (fst ` set d))"
proof -
  have keys: "map fst (sort_key fst d) = sorted_list_of_set (fst ` set d)"
    using assms(1) by (intro sorted_distinct_set_unique) (simp_all add: distinct_map)
  have "snd p = g (fst p)" if "p \<in> set (sort_key fst d)" for p
    using that assms by (metis image_eqI map_of_eq_Some_iff option.inject prod.collapse set_sort)
  then have "map snd (sort_key fst d) = map (\<lambda>p. g (fst p)) (sort_key fst d)"
    by (intro map_cong refl) auto
  also have "\<dots> = map g (map fst (sort_key fst d))" by simp
  finally show ?thesis by (simp only: keys)
qed

lemma observations_Inr:
  assumes "observations_from_trivy_report env fs p spec digests = Inr obs"
  obtains report results lineage where
    "load_json (we_loads env) fs p ''Trivy report'' = Inr report" "jget ''Results'' report = JArr results"
    "normalize_digest_list (we_show env) (JArr (map JStr digests)) ''image_lineage_digests'' = Inr lineage"
    "obs = map snd (sort_key fst (add_results (we_show env) spec lineage results []))"
  using assms by (auto simp: observations_from_trivy_report_def bindE_eq_Inr case_array_Inr)

section \<open>What an allowed window reports\<close>

lemma evaluate_one_entry:
  "evaluate_one env tab now ob = Inr f \<Longrightarrow> fi_state f \<in> {''active'', ''due_soon''} \<Longrightarrow>
     \<exists>e. map_of tab (ob_fingerprint ob) = Some e \<and> fi_policy_entry_id f = pe_id e"
  by (auto simp: evaluate_one_def Let_def finding_result_def bindE_eq_Inr split: if_splits option.splits)

lemma load_entry_id: "load_entry sh reference label ids seen raw = Inr e \<Longrightarrow> pe_id e \<noteq> []"
  unfolding load_entry_def by (auto simp: res_simps required_text_Inr)

lemma load_entries_ids:
  "load_entries sh reference i acc raws = Inr es \<Longrightarrow> list_all (\<lambda>e. pe_id e \<noteq> []) acc
   \<Longrightarrow> list_all (\<lambda>e. pe_id e \<noteq> []) es"
  by (induction sh reference i acc raws rule: load_entries.induct)
    (auto simp: bindE_eq_Inr dest: load_entry_id)

lemma load_policy_ids:
  assumes "load_policy env fs p t = Inr po"
  shows "list_all (\<lambda>e. pe_id e \<noteq> []) (po_entries po)"
proof -
  from assms obtain payload owner where
    rest: "(case jget ''entries'' payload of
        JArr (x # xs) \<Rightarrow>
          bindE (case t of
                   Some s \<Rightarrow> if s = [] then Inr (we_now env)
                             else parse_utc RemediationWindowError ''reference_time'' s
                 | None \<Rightarrow> Inr (we_now env)) (\<lambda>reference.
          bindE (load_entries (we_show env) reference 0 [] (x # xs)) (\<lambda>entries.
          bindE (read_file fs p) (\<lambda>bytes.
            Inr \<lparr>po_owner = owner, po_entries = entries, po_digest = we_hash_file env bytes\<rparr>)))
      | _ \<Rightarrow> Inl (win_error ''policy entries must be a non-empty array'')) = Inr po"
    unfolding load_policy_def bindE_eq_Inr guardE_eq_Inr by (elim exE conjE) blast
  then obtain reference x xs where "load_entries (we_show env) reference 0 [] (x # xs) = Inr (po_entries po)"
    by (cases "jget ''entries'' payload") (auto simp: bindE_eq_Inr split: list.splits)
  then show ?thesis using load_entries_ids by fastforce
qed

lemma evaluate_windows_shape:
  assumes "evaluate_remediation_windows env fs (Some p) raws True t sha dig = Inr r"
  obtains a b d n fs' where
    "r = empty_result\<lparr>wr_source_sha := a, wr_image_digest := b, wr_policy_digest := d, wr_blocking_total := n\<rparr>
     \<or> r = summarize n fs' (empty_result\<lparr>wr_source_sha := a, wr_image_digest := b, wr_policy_digest := d,
              wr_blocking_total := n\<rparr>)"
proof -
  obtain obs rej where norm: "normalize_observations env 0 [] [] raws = Inr (obs, rej)"
    by (rule normalize_all)
  from assms obtain a b now policy where "load_policy env fs p (Some (format_utc now)) = Inr policy"
    and rest: "(let blocking = length obs + length rej;
              result = empty_result\<lparr>wr_source_sha := a, wr_image_digest := b,
                         wr_policy_digest := po_digest policy, wr_blocking_total := blocking\<rparr>
          in if blocking = 0 then Inr result
             else
               bindE (mapE (evaluate_one env
                        (map (\<lambda>e. (pe_fingerprint e, e)) (po_entries policy)) now) obs)
                 (\<lambda>findings.
                   Inr (summarize blocking (sort_key finding_order (findings @ rej)) result))) = Inr r"
    unfolding evaluate_remediation_windows_def by (simp add: norm bindE_eq_Inr) blast
  show ?thesis
  proof (cases "length obs + length rej = 0")
    case True
    then show ?thesis using rest that by (simp add: Let_def) blast
  next
    case False
    then obtain findings where "r = summarize (length obs + length rej) (sort_key finding_order (findings @ rej))
        (empty_result\<lparr>wr_source_sha := a, wr_image_digest := b, wr_policy_digest := po_digest policy,
           wr_blocking_total := length obs + length rej\<rparr>)"
      using rest by (auto simp: Let_def bindE_eq_Inr split: if_splits)
    then show ?thesis by (intro that disjI2)
  qed
qed

lemma summarize_allowed:
  "wr_allowed (summarize n fs r) \<Longrightarrow> \<not> wr_allowed r \<Longrightarrow> wr_failure_reason r = [] \<Longrightarrow>
     wr_decision (summarize n fs r) = ''allowed_window''
     \<and> wr_classification (summarize n fs r) = ALLOWED_CLASSIFICATION
     \<and> wr_failure_reason (summarize n fs r) = []
     \<and> wr_evaluator_version (summarize n fs r) = wr_evaluator_version r
     \<and> wr_matching (summarize n fs r) = length (filter (\<lambda>f. fi_policy_entry_id f \<noteq> []) fs)"
  by (auto simp: summarize_def Let_def split: if_splits)

lemma window_allowed_report:
  assumes "evaluate_remediation_windows env fs (Some p) raws True t sha dig = Inr r" and "wr_allowed r"
  shows "wr_decision r = ''allowed_window'' \<and> wr_classification r = ALLOWED_CLASSIFICATION
    \<and> wr_failure_reason r = [] \<and> wr_evaluator_version r = EVALUATOR_VERSION
    \<and> wr_matching r = length (filter (\<lambda>f. fi_policy_entry_id f \<noteq> []) (wr_findings r))"
proof -
  obtain a b d n fs' where "r = empty_result\<lparr>wr_source_sha := a, wr_image_digest := b,
      wr_policy_digest := d, wr_blocking_total := n\<rparr>
     \<or> r = summarize n fs' (empty_result\<lparr>wr_source_sha := a, wr_image_digest := b, wr_policy_digest := d,
              wr_blocking_total := n\<rparr>)" by (rule evaluate_windows_shape [OF assms(1)])
  then show ?thesis
    using assms(2) summarize_allowed [of n fs' "empty_result\<lparr>wr_source_sha := a, wr_image_digest := b,
        wr_policy_digest := d, wr_blocking_total := n\<rparr>"]
    by (auto simp: summarize_fields empty_result_def)
qed

lemma window_allowed_matching:
  assumes "evaluate_remediation_windows env fs (Some p) raws True t sha dig = Inr r" and "wr_allowed r"
  shows "wr_matching r \<noteq> 0 \<and> wr_matching r \<le> wr_blocking_total r"
proof -
  obtain now policy obs rej findings where
    pol: "load_policy env fs p (Some (format_utc now)) = Inr policy"
    and ev: "list_all2 (\<lambda>ob f. evaluate_one env (map (\<lambda>e. (pe_fingerprint e, e)) (po_entries policy)) now ob
       = Inr f) obs findings"
    and cov: "list_all2 (\<lambda>ob f. (fi_state f \<in> {''active'', ''due_soon''} \<longleftrightarrow> covered (po_entries policy) now ob)
       \<and> fi_state f \<in> known_states) obs findings"
    and tot: "wr_blocking_total r = length obs + length rej"
    and al: "wr_allowed r \<longleftrightarrow> obs \<noteq> [] \<and> rej = [] \<and> list_all (covered (po_entries policy) now) obs"
    and fnd: "wr_findings r = sort_key finding_order (findings @ rej)"
    by (rule evaluate_windows_Inr [OF assms(1)]) blast
  obtain ob obs' f fs' where "obs = ob # obs'" "findings = f # fs'"
    using al assms(2) ev by (cases obs; cases findings) auto
  then have f: "evaluate_one env (map (\<lambda>e. (pe_fingerprint e, e)) (po_entries policy)) now ob = Inr f"
    "fi_state f \<in> {''active'', ''due_soon''}"
    using ev cov al assms(2) by auto
  obtain e where e: "map_of (map (\<lambda>e. (pe_fingerprint e, e)) (po_entries policy)) (ob_fingerprint ob) = Some e"
    "fi_policy_entry_id f = pe_id e"
    using evaluate_one_entry [OF f] by blast
  then have "e \<in> set (po_entries policy)" using map_of_SomeD [OF e(1)] by auto
  with e(2) have "fi_policy_entry_id f \<noteq> []" using load_policy_ids [OF pol] by (auto simp: list_all_iff)
  then have "f \<in> set (filter (\<lambda>f. fi_policy_entry_id f \<noteq> []) (wr_findings r))"
    unfolding fnd using \<open>findings = f # fs'\<close> by (simp add: set_insort_key)
  then have "0 < length (filter (\<lambda>f. fi_policy_entry_id f \<noteq> []) (wr_findings r))"
    by (rule length_pos_if_in_set)
  moreover have "length (filter (\<lambda>f. fi_policy_entry_id f \<noteq> []) (wr_findings r)) \<le> length (wr_findings r)"
    by simp
  moreover have "length (wr_findings r) = wr_blocking_total r"
    using fnd tot ev by (simp add: list_all2_lengthD)
  ultimately show ?thesis using window_allowed_report [OF assms] by simp
qed

section \<open>Properties\<close>

text \<open>
  Collecting drops no fixable vulnerability and invents none. The observations of a report
  are exactly one per distinct combination of advisory, package, installed and fixed version
  among its findings with a fixed version, in the order of these keys, and each is made of the
  last finding with its key.
\<close>

lemma collected_observations_exact:
  assumes "observations_from_trivy_report env fs p spec digests = Inr obs"
  shows "\<exists>report results lineage.
    load_json (we_loads env) fs p ''Trivy report'' = Inr report \<and> jget ''Results'' report = JArr results
    \<and> normalize_digest_list (we_show env) (JArr (map JStr digests)) ''image_lineage_digests'' = Inr lineage
    \<and> (let found = fixable_findings (we_show env) results in
       obs = map (\<lambda>k. observation_of (we_show env) spec lineage
                        (last (filter (\<lambda>f. finding_key (we_show env) f = k) found)))
               (sorted_list_of_set (finding_key (we_show env) ` set found)))"
proof -
  obtain report results lineage where o:
    "load_json (we_loads env) fs p ''Trivy report'' = Inr report" "jget ''Results'' report = JArr results"
    "normalize_digest_list (we_show env) (JArr (map JStr digests)) ''image_lineage_digests'' = Inr lineage"
    "obs = map snd (sort_key fst (add_results (we_show env) spec lineage results []))"
    by (rule observations_Inr [OF assms])
  let ?fs = "fixable_findings (we_show env) results"
  have "obs = map (\<lambda>k. observation_of (we_show env) spec lineage
        (last (filter (\<lambda>f. finding_key (we_show env) f = k) ?fs)))
      (sorted_list_of_set (fst ` set (collected (we_show env) spec lineage ?fs [])))"
    unfolding o(4) add_results_fold
    by (rule sorted_items) (simp_all add: collected_distinct collected_keys collected_lookup)
  then show ?thesis using o(1-3) by (auto simp: collected_keys Let_def)
qed

definition demo_trivy_finding :: "string \<Rightarrow> jobj" where
  "demo_trivy_finding severity =
     [(''VulnerabilityID'', JStr ''CVE-1''), (''PkgIdentifier'', JObj [(''PURL'', JStr ''pkg'')]),
      (''InstalledVersion'', JStr ''1''), (''FixedVersion'', JStr ''2''), (''Severity'', JStr severity)]"

definition demo_trivy_results :: "json list" where
  "demo_trivy_results = [JObj [(''Vulnerabilities'',
     JArr [JObj (demo_trivy_finding ''HIGH''), JObj [(''VulnerabilityID'', JStr ''CVE-2'')],
           JObj (demo_trivy_finding ''CRITICAL'')])]]"

definition demo_trivy :: jobj where "demo_trivy = [(''Results'', JArr demo_trivy_results)]"

definition demo_collect_env :: win_env where
  "demo_collect_env = demo_env\<lparr>we_loads := (\<lambda>s. Inr (JObj demo_trivy))\<rparr>"

definition demo_collect :: collect_spec where
  "demo_collect = \<lparr>cs_service_scope = ''api'', cs_exposure = ''internal'', cs_source_sha = demo_sha,
     cs_image_identity = demo_digest, cs_fixed_image_verified = False, cs_known_exploited_ids = []\<rparr>"

lemma demo_trivy_loaded:
  "load_json (we_loads demo_collect_env) sample_fs demo_policy_path ''Trivy report'' = Inr demo_trivy"
proof -
  have "is_file sample_fs demo_policy_path \<and> \<not> is_symlink sample_fs demo_policy_path"
    "read_file sample_fs demo_policy_path = Inr ''body''"
    unfolding demo_policy_path_def by code_simp+
  then show ?thesis by (simp add: load_json_def load_object_def demo_collect_env_def)
qed

lemma demo_trivy_findings:
  "fixable_findings (we_show demo_collect_env) demo_trivy_results
     = [demo_trivy_finding ''HIGH'', demo_trivy_finding ''CRITICAL'']"
  "finding_key (we_show demo_collect_env) (demo_trivy_finding severity) = [''CVE-1'', ''pkg'', ''1'', ''2'']"
  by (simp_all add: demo_trivy_results_def fixable_findings_def array_of_def demo_trivy_finding_def
      normal_text_def finding_key_def finding_purl_def demo_strips)

lemma demo_lineage:
  "normalize_digest_list (we_show demo_collect_env) (JArr (map JStr [demo_digest])) ''image_lineage_digests''
     = Inr [demo_digest]"
  by (simp add: normalize_digest_list_def normal_text_def demo_texts)

theorem collected_observations_exact_witness:
  "\<exists>obs. observations_from_trivy_report demo_collect_env sample_fs demo_policy_path demo_collect [demo_digest]
       = Inr obs \<and> map (jget ''severity'') obs = [JStr ''CRITICAL'']"
proof -
  obtain obs where o: "observations_from_trivy_report demo_collect_env sample_fs demo_policy_path
      demo_collect [demo_digest] = Inr obs"
    using demo_trivy_loaded demo_lineage
    by (simp add: observations_from_trivy_report_def demo_trivy_def)
  obtain lineage where
    "obs = [observation_of (we_show demo_collect_env) demo_collect lineage (demo_trivy_finding ''CRITICAL'')]"
    using collected_observations_exact [OF o] demo_trivy_loaded
    by (auto simp: demo_trivy_def demo_trivy_findings)
  moreover have "py_strip ''CRITICAL'' = ''CRITICAL''" "py_upper ''CRITICAL'' = ''CRITICAL''" by code_simp+
  ultimately show ?thesis
    using o by (auto simp: observation_of_def normal_text_def demo_trivy_finding_def)
qed

end
