(* ===== verification/Window_Contract.thy ===== *)
theory Window_Contract
  imports Window_Run
begin

text \<open>
  The image publisher's side of the remediation windows,
  \<open>scripts/container_release/remediation_window_contract.py\<close>: which settings a publication may
  opt in with, when a security gate is acceptable, and the evidence that authorises a
  promotion; and \<open>scripts/container_release/validate_candidate_exceptions.py\<close>, the scope of the
  exceptions of one candidate. The theorems tie the evidence to one image and one commit and
  compose it with the window evaluation.
\<close>

section \<open>Patterns and vocabulary\<close>

definition contract_error :: "string \<Rightarrow> exc" where "contract_error m = Exc ContractError m"

definition service_name_tail :: "char \<Rightarrow> bool" where
  "service_name_tail c \<longleftrightarrow> is_lower c \<or> is_digit c \<or> one_of ''._-'' c"

definition SERVICE_NAME :: rx where
  "SERVICE_NAME = Seq (Seq (Cls (\<lambda>c. is_lower c \<or> is_digit c)) (upto_rep 62 (Cls service_name_tail))) Eos"

definition path_char :: "char \<Rightarrow> bool" where
  "path_char c \<longleftrightarrow> is_alnum c \<or> one_of ''_.-'' c"

definition POLICY_PATH :: rx where
  "POLICY_PATH = Seq (Seq (plus (Cls path_char))
     (Star (Seq (Cls (\<lambda>c. c = CHR ''/'')) (plus (Cls path_char))))) Eos"

definition COMMIT_SHA :: rx where "COMMIT_SHA = Seq (fixed (replicate 40 hex_lower)) Eos"

definition IMAGE_DIGEST :: rx where
  "IMAGE_DIGEST = Seq (fixed (map (\<lambda>c x. x = c) ''sha256:'' @ replicate 64 hex_lower)) Eos"

definition HEX_DIGEST :: rx where "HEX_DIGEST = Seq (fixed (replicate 64 hex_lower)) Eos"

definition nonzero_digit :: "char \<Rightarrow> bool" where
  "nonzero_digit c \<longleftrightarrow> in_range CHR ''1'' CHR ''9'' c"

definition EVALUATOR_VERSION_RE :: rx where
  "EVALUATOR_VERSION_RE = Seq (Seq (Cls nonzero_digit) (upto_rep 5 (Cls is_digit))) Eos"

definition COUNT_RE :: rx where
  "COUNT_RE = Alt (Cls (\<lambda>c. c = CHR ''0'')) (Seq (Cls nonzero_digit) (upto_rep 9 (Cls is_digit)))"

definition CLASSIFICATIONS :: "string list" where
  "CLASSIFICATIONS = [''clean'', ''actionable_vulnerability'', ''unfixed_warning'',
     ''misconfiguration_detected'', ''secret_detected'', ''scanner_error'']"

definition OUTCOMES :: "string list" where
  "OUTCOMES = [''success'', ''failure'', ''cancelled'', ''skipped'']"

definition DECISIONS :: "string list" where
  "DECISIONS = [''not_applicable'', ''blocked'', ''allowed_window'']"

definition PASSING_CLASSIFICATIONS :: "string list" where
  "PASSING_CLASSIFICATIONS = [''clean'', ''unfixed_warning'']"

section \<open>The settings\<close>

record service_context =
  sv_name :: string
  sv_scope :: string
  sv_exposure :: string

fun service_contexts :: "nat \<Rightarrow> string list \<Rightarrow> json list \<Rightarrow> service_context list result" where
  "service_contexts i seen [] = Inr []"
| "service_contexts i seen (JObj service # rest) =
     (case jget ''name'' service of
        JStr name \<Rightarrow>
          guardE (fullmatch SERVICE_NAME name)
            (contract_error (''services['' @ dec i @ ''].name is invalid''))
          (guardE (\<not> List.member seen name) (contract_error ''service names must be unique'')
          (bindE (except_raise
                    (validate_remediation_context
                       (jget ''remediation_window_service_scope'' service)
                       (jget ''remediation_window_exposure_criticality'' service))
                    [RemediationWindowError]
                    (contract_error (''services['' @ dec i @ ''] has invalid remediation context'')))
             (\<lambda>(scope, exposure).
           bindE (service_contexts (Suc i) (name # seen) rest) (\<lambda>contexts.
             Inr (\<lparr>sv_name = name, sv_scope = scope, sv_exposure = exposure\<rparr> # contexts)))))
      | _ \<Rightarrow> Inl (contract_error (''services['' @ dec i @ ''].name is invalid'')))"
| "service_contexts i seen (_ # rest) =
     Inl (contract_error (''services['' @ dec i @ ''] must be an object''))"

definition validate_remediation_window_contract ::
    "bool \<Rightarrow> bool \<Rightarrow> string \<Rightarrow> json \<Rightarrow> service_context list result" where
  "validate_remediation_window_contract enabled push policy_file services =
     (if \<not> enabled then Inr []
      else
        guardE push (contract_error ''remediation windows require immutable GHCR publication'')
        (guardE (policy_file \<noteq> [] \<and> length policy_file \<le> 1024 \<and> fullmatch POLICY_PATH policy_file
                 \<and> \<not> list_ex (\<lambda>part. part = ''.'' \<or> part = ''..'') (split_char CHR ''/'' policy_file))
          (contract_error ''policy_file must be a safe repository-relative path'')
        (case services of
           JArr (s # ss) \<Rightarrow> service_contexts 0 [] (s # ss)
         | _ \<Rightarrow> Inl (contract_error ''services must be a non-empty JSON array''))))"

section \<open>Is a gate acceptable\<close>

definition boolean_field :: "json \<Rightarrow> bool option" where
  "boolean_field v =
     (if v = JBool True \<or> v = JStr ''true'' then Some True
      else if v = JBool False \<or> v = JStr ''false'' then Some False else None)"

definition count_field :: "json \<Rightarrow> nat option" where
  "count_field v =
     (case v of JStr s \<Rightarrow> if fullmatch COUNT_RE s then Some (num_of s) else None | _ \<Rightarrow> None)"

text \<open>\<open>value in {...}\<close> for a set of texts: a list or an object cannot be hashed.\<close>

fun in_texts :: "json \<Rightarrow> string list \<Rightarrow> bool result" where
  "in_texts (JStr s) xs = Inr (List.member xs s)"
| "in_texts (JArr _) xs = Inl (Exc TypeError ''unhashable type: list'')"
| "in_texts (JObj _) xs = Inl (Exc TypeError ''unhashable type: dict'')"
| "in_texts _ xs = Inr False"

text \<open>\<open>ref.rsplit("@", 1)[-1]\<close>\<close>

definition after_last_at :: "string \<Rightarrow> string" where
  "after_last_at s = rev (takeWhile (\<lambda>c. c \<noteq> CHR ''@'') (rev s))"

definition matches :: "rx \<Rightarrow> json \<Rightarrow> bool" where
  "matches r v = (case v of JStr s \<Rightarrow> fullmatch r s | _ \<Rightarrow> False)"

definition image_bound :: "json \<Rightarrow> json \<Rightarrow> bool" where
  "image_bound image_ref digest =
     (case image_ref of
        JStr r \<Rightarrow> has_char CHR ''@'' r \<and> JStr (after_last_at r) = digest
      | _ \<Rightarrow> False)"

definition visible :: "json \<Rightarrow> bool" where
  "visible v = (case v of JStr s \<Rightarrow> \<not> list_ex (\<lambda>c. py_isspace c \<or> code c < 32) s | _ \<Rightarrow> True)"

definition counts_cover :: "jobj \<Rightarrow> bool" where
  "counts_cover flds =
     (let cnt = (\<lambda>k. count_field (jget k flds)) in
      \<not> (cnt ''blocking_total'' = None \<or> cnt ''blocking_total'' = Some 0
         \<or> cnt ''window_count'' = None \<or> cnt ''window_count'' = Some 0
         \<or> cnt ''covered'' \<noteq> cnt ''blocking_total'' \<or> cnt ''uncovered'' \<noteq> Some 0
         \<or> cnt ''rejected'' \<noteq> Some 0 \<or> cnt ''overdue'' \<noteq> Some 0
         \<or> cnt ''unmatched'' \<noteq> Some 0 \<or> cnt ''reintroduced'' \<noteq> Some 0))"

text \<open>The checks of an allowed window, after the outcome\<close>

definition window_acceptable :: "jobj \<Rightarrow> bool" where
  "window_acceptable flds =
     (if boolean_field (jget ''window_enabled'' flds) \<noteq> Some True then False
      else if jget ''classification'' flds \<noteq> JStr ''actionable_vulnerability'' then False
      else if jget ''window_allowed'' flds \<noteq> JStr ''true'' then False
      else if jget ''window_decision'' flds \<noteq> JStr ''allowed_window'' then False
      else if jget ''window_classification'' flds \<noteq> JStr ''actionable_vulnerability'' then False
      else if truthy (jget_or ''failure_reason'' (JStr []) flds)
              \<or> truthy (jget_or ''window_failure_reason'' (JStr []) flds) then False
      else if \<not> counts_cover flds then False
      else if \<not> matches IMAGE_DIGEST (jget ''image_digest'' flds) then False
      else if \<not> image_bound (jget ''scanned_image_ref'' flds) (jget ''image_digest'' flds)
              \<or> \<not> visible (jget ''scanned_image_ref'' flds) then False
      else if \<not> matches COMMIT_SHA (jget ''source_sha'' flds) then False
      else if \<not> matches HEX_DIGEST (jget ''policy_digest'' flds) then False
      else matches EVALUATOR_VERSION_RE (jget ''evaluator_version'' flds))"

definition security_gate_acceptable :: "jobj \<Rightarrow> bool result" where
  "security_gate_acceptable flds =
     bindE (in_texts (jget ''outcome'' flds) OUTCOMES) (\<lambda>known_outcome.
     if \<not> known_outcome then Inr False
     else
       bindE (in_texts (jget ''classification'' flds) CLASSIFICATIONS) (\<lambda>known_class.
       Inr (if \<not> known_class then False
            else if boolean_field (jget ''push'' flds) = Some True
              \<and> (\<not> matches IMAGE_DIGEST (jget ''image_digest'' flds)
                 \<or> \<not> image_bound (jget ''scanned_image_ref'' flds) (jget ''image_digest'' flds)
                 \<or> \<not> matches COMMIT_SHA (jget ''source_sha'' flds)) then False
            else if jget ''outcome'' flds = JStr ''success''
            then jget ''result'' flds = JStr ''passed''
                 \<and> list_ex (\<lambda>c. jget ''classification'' flds = JStr c) PASSING_CLASSIFICATIONS
            else if jget ''outcome'' flds \<noteq> JStr ''failure'' \<or> jget ''result'' flds \<noteq> JStr ''failed''
            then False
            else window_acceptable flds)))"

section \<open>The evidence\<close>

definition safe_value :: "json \<Rightarrow> string list \<Rightarrow> string \<Rightarrow> string" where
  "safe_value v allowed fallback =
     (case v of JStr s \<Rightarrow> if List.member allowed s then s else fallback | _ \<Rightarrow> fallback)"

definition safe_text :: "json \<Rightarrow> rx \<Rightarrow> string" where
  "safe_text v r = (case v of JStr s \<Rightarrow> if fullmatch r s then s else [] | _ \<Rightarrow> [])"

definition opt_count :: "nat option \<Rightarrow> json" where
  "opt_count c = (case c of None \<Rightarrow> JNull | Some n \<Rightarrow> JInt (int n))"

definition safe_image_ref :: "string \<Rightarrow> string" where
  "safe_image_ref r = (if length r \<le> 2048 \<and> visible (JStr r) then r else [])"

definition decision_fields :: "jobj \<Rightarrow> string \<Rightarrow> string \<Rightarrow> string \<Rightarrow> jobj" where
  "decision_fields outputs image_digest scanned_image_ref source_sha =
     dict_set ''evaluator_version'' (JStr (safe_text (jget ''evaluator_version'' outputs) EVALUATOR_VERSION_RE))
     (dict_set ''policy_digest'' (JStr (safe_text (jget ''policy_digest'' outputs) HEX_DIGEST))
     (dict_set ''source_sha'' (JStr (safe_text (JStr source_sha) COMMIT_SHA))
     (dict_set ''scanned_image_ref'' (JStr (safe_image_ref scanned_image_ref))
     (dict_set ''image_digest'' (JStr (safe_text (JStr image_digest) IMAGE_DIGEST))
     (dict_set ''window_enabled'' (JBool (boolean_field (jget ''window_enabled'' outputs) = Some True))
       outputs)))))"

definition window_evidence :: "jobj \<Rightarrow> json" where
  "window_evidence outputs =
     (let enabled = (boolean_field (jget ''window_enabled'' outputs) = Some True);
          cnt = (\<lambda>k. opt_count (count_field (jget k outputs))) in
      JObj [(''enabled'', JBool enabled),
            (''allowed'', JBool (jget ''window_allowed'' outputs = JStr ''true'')),
            (''decision'', JStr (safe_value (jget ''window_decision'' outputs) DECISIONS
                                   (if enabled then ''blocked'' else ''not_applicable''))),
            (''classification'', JStr (safe_value (jget ''window_classification'' outputs) CLASSIFICATIONS [])),
            (''matching_policy_entries'', cnt ''window_count''),
            (''blocking_total'', cnt ''blocking_total''), (''covered'', cnt ''covered''),
            (''uncovered'', cnt ''uncovered''), (''rejected'', cnt ''rejected''),
            (''overdue'', cnt ''overdue''), (''unmatched'', cnt ''unmatched''),
            (''reintroduced'', cnt ''reintroduced''),
            (''policy_digest'', JStr (safe_text (jget ''policy_digest'' outputs) HEX_DIGEST)),
            (''evaluator_version'', JStr (safe_text (jget ''evaluator_version'' outputs) EVALUATOR_VERSION_RE))])"

definition build_security_evidence :: "jobj \<Rightarrow> string \<Rightarrow> string \<Rightarrow> string \<Rightarrow> jobj result" where
  "build_security_evidence outputs image_digest scanned_image_ref source_sha =
     bindE (security_gate_acceptable (decision_fields outputs image_digest scanned_image_ref source_sha))
       (\<lambda>accepted. let pushed = (boolean_field (jget ''push'' outputs) = Some True) in
         Inr [(''image_digest'', JStr (safe_text (JStr image_digest) IMAGE_DIGEST)),
              (''scanned_image_ref'', JStr (safe_image_ref scanned_image_ref)),
              (''source_sha'', JStr (safe_text (JStr source_sha) COMMIT_SHA)),
              (''gate'', JObj
                 [(''outcome'', JStr (safe_value (jget ''outcome'' outputs) OUTCOMES ''unknown'')),
                  (''result'', JStr (safe_value (jget ''result'' outputs) [''passed'', ''failed''] ''unknown'')),
                  (''classification'', JStr (safe_value (jget ''classification'' outputs) CLASSIFICATIONS
                                               ''scanner_error''))]),
              (''push'', JBool pushed),
              (''remediation_window'', window_evidence outputs),
              (''security_gate_accepted'', JBool accepted),
              (''promotion_authorized'', JBool (pushed \<and> accepted))])"

section \<open>The two commands\<close>

type_synonym env_vars = "string \<Rightarrow> string option"

definition env_text :: "env_vars \<Rightarrow> string \<Rightarrow> string" where
  "env_text env name = (case env name of Some v \<Rightarrow> v | None \<Rightarrow> [])"

definition read_boolean_env :: "env_vars \<Rightarrow> string \<Rightarrow> bool result" where
  "read_boolean_env env name =
     guardE (env_text env name \<in> {''true'', ''false''}) (contract_error (name @ '' must be true or false''))
       (Inr (env_text env name = ''true''))"

definition validate_from_environment :: "(string \<Rightarrow> json result) \<Rightarrow> env_vars \<Rightarrow> unit result" where
  "validate_from_environment loads env =
     bindE (except_raise
              (case env ''SERVICES_JSON'' of
                 Some s \<Rightarrow> loads s | None \<Rightarrow> Inl (Exc KeyError ''SERVICES_JSON''))
              [KeyError, JSONDecodeError] (contract_error ''SERVICES_JSON must be a JSON array'')) (\<lambda>services.
     bindE (read_boolean_env env ''SECURITY_REMEDIATION_WINDOW_ENABLED'') (\<lambda>enabled.
     bindE (read_boolean_env env ''PUSH'') (\<lambda>push.
     bindE (validate_remediation_window_contract enabled push
              (env_text env ''SECURITY_REMEDIATION_WINDOW_POLICY_FILE'') services) (\<lambda>_. Inr ()))))"

definition OUTPUT_VARIABLES :: "(string \<times> string) list" where
  "OUTPUT_VARIABLES =
     [(''outcome'', ''SECURITY_OUTCOME''), (''result'', ''SECURITY_RESULT''),
      (''classification'', ''SECURITY_CLASSIFICATION''), (''window_enabled'', ''SECURITY_WINDOW_ENABLED''),
      (''push'', ''SECURITY_PUSH''), (''window_allowed'', ''SECURITY_WINDOW_ALLOWED''),
      (''window_decision'', ''SECURITY_WINDOW_DECISION''),
      (''window_classification'', ''SECURITY_WINDOW_CLASSIFICATION''),
      (''window_count'', ''SECURITY_WINDOW_COUNT''),
      (''blocking_total'', ''SECURITY_WINDOW_BLOCKING_TOTAL''), (''covered'', ''SECURITY_WINDOW_COVERED''),
      (''uncovered'', ''SECURITY_WINDOW_UNCOVERED''), (''rejected'', ''SECURITY_WINDOW_REJECTED''),
      (''overdue'', ''SECURITY_WINDOW_OVERDUE''), (''unmatched'', ''SECURITY_WINDOW_UNMATCHED''),
      (''reintroduced'', ''SECURITY_WINDOW_REINTRODUCED''),
      (''policy_digest'', ''SECURITY_WINDOW_POLICY_DIGEST''),
      (''evaluator_version'', ''SECURITY_WINDOW_EVALUATOR_VERSION''),
      (''failure_reason'', ''SECURITY_FAILURE_REASON''),
      (''window_failure_reason'', ''SECURITY_WINDOW_FAILURE_REASON'')]"

definition outputs_from_environment :: "env_vars \<Rightarrow> jobj" where
  "outputs_from_environment env = map (\<lambda>(k, name). (k, JStr (env_text env name))) OUTPUT_VARIABLES"

definition write_evidence_json :: "string list \<Rightarrow> string \<Rightarrow> (fsys, unit) action" where
  "write_evidence_json p content =
     bindW (refuse_symlink (contract_error ''security evidence destination must not be a symlink'') p) (\<lambda>_.
     bindW (mkdir_parents (butlast p)) (\<lambda>_.
     bindW (refuse_symlink (contract_error ''security evidence temporary file must not be a symlink'')
              (butlast p @ [last p @ ''.tmp''])) (\<lambda>_.
       write_and_replace p content)))"

definition env_path :: "env_vars \<Rightarrow> fsys \<Rightarrow> string \<Rightarrow> string list result" where
  "env_path env fs name =
     (case env name of
        Some s \<Rightarrow> Inr (parts (absolute fs (parse_path s)))
      | None \<Rightarrow> Inl (Exc KeyError name))"

definition record_from_environment :: "(json \<Rightarrow> string) \<Rightarrow> env_vars \<Rightarrow> (fsys, unit) action" where
  "record_from_environment dumps env =
     bindW (liftW (build_security_evidence (outputs_from_environment env)
              (env_text env ''SECURITY_IMAGE_DIGEST'') (env_text env ''SECURITY_SCANNED_IMAGE_REF'')
              (env_text env ''SECURITY_SOURCE_SHA''))) (\<lambda>evidence.
     bindW (\<lambda>fs. (env_path env fs ''SECURITY_EVIDENCE_PATH'', fs)) (\<lambda>destination.
     bindW (\<lambda>fs. (env_path env fs ''GITHUB_OUTPUT'', fs)) (\<lambda>output.
     bindW (refuse_symlink (contract_error ''GitHub output must not be a symlink'') output) (\<lambda>_.
     bindW (write_evidence_json destination (dumps (JObj evidence) @ [LF])) (\<lambda>_.
       append_text output
         (''allowed='' @ (if truthy (jget ''security_gate_accepted'' evidence) then ''true'' else ''false'')
          @ [LF]))))))"

text \<open>\<open>main\<close>: 0, or 2 for the exceptions it names, which are all the commands can raise but \<open>RuntimeError\<close>.\<close>

definition contract_exit :: "unit result \<Rightarrow> nat" where
  "contract_exit r =
     (case r of
        Inr _ \<Rightarrow> 0
      | Inl e \<Rightarrow> if catches [ContractError, OSError, KeyError, TypeError, ValueError] e then 2 else 1)"

section \<open>Exceptions of one candidate\<close>

definition candidate_error :: "string \<Rightarrow> exc" where "candidate_error m = Exc CandidateExceptionError m"

definition lower_digit :: "char \<Rightarrow> bool" where "lower_digit c \<longleftrightarrow> is_lower c \<or> is_digit c"

definition CANDIDATE_IMAGE_REF :: rx where
  "CANDIDATE_IMAGE_REF = anchored (seqs
     [lit ''ghcr.io'',
      plus (seqs [lit ''/'', plus (Cls lower_digit),
                  Star (Seq (Cls (one_of ''._-'')) (plus (Cls lower_digit)))]),
      lit ''@sha256:'', fixed (replicate 64 hex_lower)])"

definition REQUIRED_FIELDS :: "string list" where
  "REQUIRED_FIELDS = [''id'', ''owner'', ''statement'', ''compensating_control'', ''expires'']"

definition ALLOWED_FIELDS :: "string list" where
  "ALLOWED_FIELDS = REQUIRED_FIELDS @ [''scan_types'', ''targets'', ''purls'', ''paths'', ''lineage_digests'']"

fun exact_purl :: "json \<Rightarrow> bool" where
  "exact_purl (JStr p) \<longleftrightarrow> py_strip p \<noteq> [] \<and> \<not> has_char CHR ''*'' p"
| "exact_purl _ \<longleftrightarrow> False"

definition validate_candidate_entry :: "string \<Rightarrow> string \<Rightarrow> string list \<Rightarrow> jobj \<Rightarrow> string result" where
  "validate_candidate_entry candidate_image label seen entry =
     guardE (list_all (\<lambda>k. List.member ALLOWED_FIELDS k) (jkeys entry))
       (candidate_error (label @ '' contains unsupported fields''))
     (guardE (list_all (\<lambda>k. jhas k entry) REQUIRED_FIELDS)
       (candidate_error (label @ '' is missing required exception metadata''))
     (case jget ''id'' entry of
        JStr identifier \<Rightarrow>
          guardE (py_strip identifier \<noteq> [] \<and> identifier = py_strip identifier
                  \<and> \<not> has_char CHR ''*'' identifier)
            (candidate_error (label @ ''.id must be an exact advisory identifier''))
          (guardE (\<not> List.member seen (py_upper identifier))
            (candidate_error (''duplicate exception identifier: '' @ identifier))
          (guardE (jget_or ''scan_types'' (JArr [JStr ''image'']) entry = JArr [JStr ''image''])
            (candidate_error (label @ '' must be image-only''))
          (guardE (jget ''targets'' entry = JArr [JStr candidate_image])
            (candidate_error (label @ '' must target the exact candidate digest''))
          (guardE (\<not> truthy (jget ''lineage_digests'' entry))
            (candidate_error (label @ '' must target the exact candidate digest directly''))
          (case jget ''purls'' entry of
             JArr purls \<Rightarrow>
               guardE (purls \<noteq> [] \<and> list_all exact_purl purls)
                 (candidate_error (label @ '' must contain at least one exact PURL''))
               (guardE (distinct purls) (candidate_error (label @ '' contains duplicate PURLs''))
                 (Inr (py_upper identifier)))
           | _ \<Rightarrow> Inl (candidate_error (label @ '' must contain at least one exact PURL'')))))))
      | _ \<Rightarrow> Inl (candidate_error (label @ ''.id must be an exact advisory identifier''))))"

fun validate_candidate_entries :: "string \<Rightarrow> nat \<Rightarrow> string list \<Rightarrow> json list \<Rightarrow> unit result" where
  "validate_candidate_entries candidate_image i seen [] = Inr ()"
| "validate_candidate_entries candidate_image i seen (JObj entry # rest) =
     bindE (validate_candidate_entry candidate_image (''vulnerabilities['' @ dec i @ '']'') seen entry)
       (\<lambda>identifier. validate_candidate_entries candidate_image (Suc i) (identifier # seen) rest)"
| "validate_candidate_entries candidate_image i seen (_ # rest) =
     Inl (candidate_error (''vulnerabilities['' @ dec i @ ''] must be an object''))"

definition validate_candidate_policy :: "json \<Rightarrow> string \<Rightarrow> nat result" where
  "validate_candidate_policy payload candidate_image =
     guardE (fullmatch CANDIDATE_IMAGE_REF candidate_image)
       (candidate_error ''candidate image must be a full GHCR digest reference'')
     (case payload of
        JObj d \<Rightarrow>
          guardE (\<not> is_bool (jget ''version'' d) \<and> eq_int (jget ''version'' d) 1)
            (candidate_error ''exception policy version must be 1'')
          (case jget ''vulnerabilities'' d of
             JArr entries \<Rightarrow>
               guardE (entries \<noteq> [] \<and> length entries \<le> 25)
                 (candidate_error ''candidate policy must contain between 1 and 25 exceptions'')
               (bindE (validate_candidate_entries candidate_image 0 [] entries)
                  (\<lambda>_. Inr (length entries)))
           | _ \<Rightarrow> Inl (candidate_error ''candidate policy must contain between 1 and 25 exceptions''))
      | _ \<Rightarrow> Inl (candidate_error ''exception policy version must be 1''))"

section \<open>Counts as texts\<close>

lemma dec_hd: "n \<noteq> 0 \<Longrightarrow> dec n \<noteq> [] \<and> nonzero_digit (hd (dec n))"
proof (induction n rule: dec.induct)
  case (1 n)
  show ?case
  proof (cases "n < 10")
    case True
    then show ?thesis
      using 1(2) by (subst (1 2) dec.simps) (simp add: nonzero_digit_def in_range_def digit_char_code code_def digit_char_def)
  next
    case False
    then have "n div 10 \<noteq> 0" by (simp add: div_eq_0_iff)
    with 1(1) False show ?thesis by (subst (1 2) dec.simps) (simp add: hd_append)
  qed
qed

lemma fullmatch_Cls_zero: "fullmatch (Cls (\<lambda>c. c = CHR ''0'')) s \<longleftrightarrow> s = ''0''"
  using fullmatch_fixed [of "[\<lambda>c. c = CHR ''0'']" s]
  by (cases s; cases "tl s") (auto simp: fullmatch_iff)

lemma count_field_dec: "n < 10000000000 \<Longrightarrow> count_field (JStr (dec n)) = Some n"
proof -
  assume "n < 10000000000"
  then have len: "length (dec n) \<le> 10" using dec_length [of n 9] by simp
  have "fullmatch COUNT_RE (dec n)"
  proof (cases "n = 0")
    case True
    have "dec 0 = ''0''" by code_simp
    then show ?thesis using True by (simp add: COUNT_RE_def fullmatch_Alt fullmatch_iff)
  next
    case False
    then have "ident_shape nonzero_digit is_digit 9 (dec n)"
      using dec_hd [OF False] dec_digits [of n] len
      by (cases "dec n") (auto simp: ident_shape_def)
    then show ?thesis by (simp add: COUNT_RE_def fullmatch_Alt fullmatch_ident)
  qed
  then show ?thesis by (simp add: count_field_def num_of_dec)
qed

lemma dec_of_digits:
  "list_all is_digit s \<Longrightarrow> s \<noteq> [] \<Longrightarrow> nonzero_digit (hd s) \<Longrightarrow>
     dec (num_of s) = s \<and> 0 < num_of s \<and> num_of s < 10 ^ length s"
proof (induction s rule: rev_induct)
  case (snoc c s)
  have c: "is_digit c" "digit_value c < 10" "digit_char (digit_value c) = c"
    using snoc.prems(1) digit_value_less by simp_all
  show ?case
  proof (cases "s = []")
    case True
    have "0 < digit_value c"
      using snoc.prems(3) True by (simp add: nonzero_digit_def in_range_def digit_value_def code_def)
    then show ?thesis
      using True c num_of_snoc [of "[]" c] by (subst dec.simps) (simp add: num_of_def)
  next
    case False
    then have i: "dec (num_of s) = s" "0 < num_of s" "num_of s < 10 ^ length s"
      using snoc by simp_all
    have "dec (num_of s * 10 + digit_value c) = s @ [c]"
      using i(1,2) c(2,3) by (subst dec.simps) simp
    moreover have "num_of s * 10 + digit_value c < 10 ^ Suc (length s)"
      using i(3) c(2) by simp
    ultimately show ?thesis using i(2) by (simp add: num_of_snoc)
  qed
qed simp

text \<open>A count is a decimal text without leading zeros, of at most ten digits.\<close>

lemma count_field_iff: "count_field v = Some n \<longleftrightarrow> v = JStr (dec n) \<and> n < 10000000000"
proof
  assume "count_field v = Some n"
  then obtain s where s: "v = JStr s" "fullmatch COUNT_RE s" "n = num_of s"
    by (cases v) (auto simp: count_field_def split: if_splits)
  show "v = JStr (dec n) \<and> n < 10000000000"
  proof (cases "s = ''0''")
    case True
    have "dec 0 = ''0''" "num_of ''0'' = 0" by code_simp+
    then show ?thesis using True s by simp
  next
    case False
    then have i: "ident_shape nonzero_digit is_digit 9 s"
      using s(2) fullmatch_fixed [of "[\<lambda>c. c = CHR ''0'']" s]
      by (auto simp: COUNT_RE_def fullmatch_Alt fullmatch_ident fullmatch_Cls_zero)
    moreover have "is_digit c" if "nonzero_digit c" for c
      using that by (auto simp: nonzero_digit_def is_digit_def in_range_def code_def)
    ultimately have "list_all is_digit s" "s \<noteq> []" "nonzero_digit (hd s)" "length s \<le> 10"
      by (cases s; auto simp: ident_shape_def)+
    moreover from this have "(10::nat) ^ length s \<le> 10 ^ 10" by (intro power_increasing) simp_all
    ultimately show ?thesis using dec_of_digits [of s] s by simp
  qed
qed (auto simp: count_field_dec)

section \<open>What an accepted gate shows\<close>

lemmas decision_simps = decision_fields_def jget_dict_set jget_or_dict_set

lemma in_texts_True: "in_texts v xs = Inr True \<longleftrightarrow> (\<exists>s. v = JStr s \<and> s \<in> set xs)"
  by (cases v) auto

lemma gate_acceptable_iff:
  "security_gate_acceptable flds = Inr True \<longleftrightarrow>
     (\<exists>outcome classification. jget ''outcome'' flds = JStr outcome \<and> outcome \<in> set OUTCOMES
      \<and> jget ''classification'' flds = JStr classification \<and> classification \<in> set CLASSIFICATIONS
      \<and> (boolean_field (jget ''push'' flds) = Some True \<longrightarrow>
           matches IMAGE_DIGEST (jget ''image_digest'' flds)
           \<and> image_bound (jget ''scanned_image_ref'' flds) (jget ''image_digest'' flds)
           \<and> matches COMMIT_SHA (jget ''source_sha'' flds))
      \<and> (outcome = ''success'' \<and> jget ''result'' flds = JStr ''passed''
           \<and> classification \<in> set PASSING_CLASSIFICATIONS
         \<or> outcome = ''failure'' \<and> jget ''result'' flds = JStr ''failed'' \<and> window_acceptable flds))"
  (is "?l \<longleftrightarrow> ?r")
proof
  assume ?l
  then obtain o1 where o: "in_texts (jget ''outcome'' flds) OUTCOMES = Inr o1" "o1"
    by (auto simp: security_gate_acceptable_def bindE_eq_Inr split: if_splits)
  then obtain c1 where c: "in_texts (jget ''classification'' flds) CLASSIFICATIONS = Inr c1" "c1"
    using \<open>?l\<close> by (auto simp: security_gate_acceptable_def bindE_eq_Inr split: if_splits)
  from o c show ?r
    using \<open>?l\<close> by (auto simp: security_gate_acceptable_def in_texts_True list_ex_iff split: if_splits)
next
  assume ?r
  then show ?l
    by (auto simp: security_gate_acceptable_def list_ex_iff)
qed

lemma image_bound_iff:
  "image_bound (JStr r) (JStr d) \<longleftrightarrow> (\<exists>name. r = name @ CHR ''@'' # d \<and> CHR ''@'' \<notin> set d)"
proof
  assume b: "image_bound (JStr r) (JStr d)"
  let ?tl = "takeWhile (\<lambda>c. c \<noteq> CHR ''@'') (rev r)"
  have d: "d = rev ?tl" using b by (simp add: image_bound_def after_last_at_def)
  have "dropWhile (\<lambda>c. c \<noteq> CHR ''@'') (rev r) \<noteq> []"
    using b by (auto simp: image_bound_def has_char_iff dropWhile_eq_Nil_conv)
  then obtain x xs where x: "dropWhile (\<lambda>c. c \<noteq> CHR ''@'') (rev r) = x # xs" by (meson neq_Nil_conv)
  then have "x = CHR ''@''" using hd_dropWhile [of "\<lambda>c. c \<noteq> CHR ''@''" "rev r"] by simp
  then have "rev r = ?tl @ CHR ''@'' # xs" using x takeWhile_dropWhile_id [of "\<lambda>c. c \<noteq> CHR ''@''" "rev r"] by simp
  then have "r = rev xs @ CHR ''@'' # d" unfolding d by (metis append.assoc append_Cons append_Nil rev.simps(2) rev_append rev_rev_ident)
  moreover have "CHR ''@'' \<notin> set d" unfolding d by (auto dest: set_takeWhileD)
  ultimately show "\<exists>name. r = name @ CHR ''@'' # d \<and> CHR ''@'' \<notin> set d" by blast
next
  assume "\<exists>name. r = name @ CHR ''@'' # d \<and> CHR ''@'' \<notin> set d"
  then obtain name where r: "r = name @ CHR ''@'' # d" "CHR ''@'' \<notin> set d" by blast
  have "takeWhile (\<lambda>c. c \<noteq> CHR ''@'') (rev d @ CHR ''@'' # rev name) = rev d"
    using r(2) by (subst takeWhile_append2) auto
  then show "image_bound (JStr r) (JStr d)"
    by (simp add: image_bound_def after_last_at_def has_char_iff r(1))
qed

lemma evidence_Inr:
  assumes "build_security_evidence outputs digest ref sha = Inr ev"
  obtains accepted where "security_gate_acceptable (decision_fields outputs digest ref sha) = Inr accepted"
    "jget ''security_gate_accepted'' ev = JBool accepted"
    "jget ''promotion_authorized'' ev
       = JBool (boolean_field (jget ''push'' outputs) = Some True \<and> accepted)"
    "jget ''image_digest'' ev = JStr (safe_text (JStr digest) IMAGE_DIGEST)"
    "jget ''source_sha'' ev = JStr (safe_text (JStr sha) COMMIT_SHA)"
  using assms by (auto simp: build_security_evidence_def bindE_eq_Inr Let_def)

lemma fixed_excludes: "list_all2 (\<lambda>P c. P c) ps s \<Longrightarrow> \<forall>P \<in> set ps. \<not> P x \<Longrightarrow> x \<notin> set s"
  by (induction rule: list_all2_induct) auto

lemma digest_no_at: "fullmatch IMAGE_DIGEST d \<Longrightarrow> CHR ''@'' \<notin> set d"
  unfolding IMAGE_DIGEST_def fullmatch_Eos fullmatch_fixed
  by (rule fixed_excludes) (auto simp: hex_lower_def is_digit_def in_range_def code_def)

lemma digest_shapes: "\<not> fullmatch IMAGE_DIGEST []" "\<not> fullmatch COMMIT_SHA []"
  by (simp_all add: IMAGE_DIGEST_def COMMIT_SHA_def fullmatch_Eos fullmatch_fixed)

section \<open>From the evaluation to the promotion\<close>

text \<open>
  The fields of a gate that failed on actionable vulnerabilities alone and was handed to the
  window evaluation: the publisher's variables hold the step outputs of the same meaning.
\<close>

definition output_text :: "window_result \<Rightarrow> string \<Rightarrow> json" where
  "output_text r name = JStr (case map_of (window_outputs r) name of Some v \<Rightarrow> v | None \<Rightarrow> [])"

definition gate_outputs :: "window_result \<Rightarrow> jobj" where
  "gate_outputs r =
     [(''outcome'', JStr ''failure''), (''result'', JStr ''failed''),
      (''classification'', JStr ''actionable_vulnerability''), (''window_enabled'', JStr ''true''),
      (''push'', JStr ''true''),
      (''window_allowed'', output_text r ''remediation_window_allowed''),
      (''window_decision'', output_text r ''remediation_window_decision''),
      (''window_classification'', output_text r ''remediation_window_classification''),
      (''window_count'', output_text r ''remediation_window_count''),
      (''blocking_total'', output_text r ''remediation_window_blocking_total''),
      (''covered'', output_text r ''remediation_window_covered''),
      (''uncovered'', output_text r ''remediation_window_uncovered''),
      (''rejected'', output_text r ''remediation_window_rejected_count''),
      (''overdue'', output_text r ''remediation_window_overdue_count''),
      (''unmatched'', output_text r ''remediation_window_unmatched_count''),
      (''reintroduced'', output_text r ''remediation_window_reintroduced_count''),
      (''policy_digest'', output_text r ''policy_digest''),
      (''evaluator_version'', output_text r ''evaluator_version''),
      (''failure_reason'', JStr []),
      (''window_failure_reason'', output_text r ''remediation_window_failure_reason'')]"

lemma output_texts:
  "output_text r ''remediation_window_allowed'' = JStr (if wr_allowed r then ''true'' else ''false'')"
  "output_text r ''remediation_window_decision'' = JStr (wr_decision r)"
  "output_text r ''remediation_window_classification'' = JStr (wr_classification r)"
  "output_text r ''remediation_window_count'' = JStr (dec (wr_matching r))"
  "output_text r ''remediation_window_blocking_total'' = JStr (dec (wr_blocking_total r))"
  "output_text r ''remediation_window_covered'' = JStr (dec (wr_covered r))"
  "output_text r ''remediation_window_uncovered'' = JStr (dec_int (wr_uncovered r))"
  "output_text r ''remediation_window_rejected_count'' = JStr (dec (wr_rejected r))"
  "output_text r ''remediation_window_overdue_count'' = JStr (dec (wr_overdue r))"
  "output_text r ''remediation_window_unmatched_count'' = JStr (dec (wr_unmatched r))"
  "output_text r ''remediation_window_reintroduced_count'' = JStr (dec (wr_reintroduced r))"
  "output_text r ''policy_digest'' = JStr (wr_policy_digest r)"
  "output_text r ''evaluator_version'' = JStr (wr_evaluator_version r)"
  "output_text r ''remediation_window_failure_reason'' = JStr (wr_failure_reason r)"
  by (simp_all add: output_text_def window_outputs_def)

lemma version_matches: "fullmatch EVALUATOR_VERSION_RE EVALUATOR_VERSION"
  by code_simp

lemma allowed_counts_cover:
  assumes "evaluate_remediation_windows env fs (Some p) raws True t sh dig = Inr r" and "wr_allowed r"
    and "wr_blocking_total r < 10000000000"
  shows "counts_cover (gate_outputs r)"
proof -
  have parts: "wr_covered r = wr_blocking_total r" "wr_uncovered r = 0" "wr_rejected r = 0" "wr_overdue r = 0"
    "wr_unmatched r = 0" "wr_reintroduced r = 0" "wr_blocking_total r \<noteq> 0"
    using window_counts [OF assms(1)] assms(2) by auto
  have "wr_matching r \<noteq> 0" "wr_matching r < 10000000000"
    using window_allowed_matching [OF assms(1,2)] assms(3) by auto
  then show ?thesis
    using parts assms(3)
    by (simp add: counts_cover_def gate_outputs_def output_texts dec_int_def count_field_dec)
qed

section \<open>An accepted gate, written out\<close>

lemma true_field_iff: "boolean_field v = Some True \<longleftrightarrow> v \<in> {JBool True, JStr ''true''}"
  by (auto simp: boolean_field_def)

lemma visible_iff: "visible (JStr s) \<longleftrightarrow> \<not> (\<exists>c \<in> set s. py_isspace c \<or> code c < 32)"
  by (simp add: visible_def list_ex_iff)

lemma fixed_literal: "list_all2 (\<lambda>P c. P c) (map (\<lambda>c x. x = c) p @ ps) s \<longleftrightarrow>
    (\<exists>h. s = p @ h \<and> list_all2 (\<lambda>P c. P c) ps h)"
proof (induction p arbitrary: s)
  case (Cons c p)
  then show ?case by (cases s) auto
qed simp

lemma fixed_replicate: "list_all2 (\<lambda>P c. P c) (replicate n P) s \<longleftrightarrow> length s = n \<and> list_all P s"
  by (auto simp: list_all2_conv_all_nth list_all_length)

lemma digest_shape_iff: "fullmatch IMAGE_DIGEST d \<longleftrightarrow>
    (\<exists>hex. d = ''sha256:'' @ hex \<and> length hex = 64 \<and> list_all hex_lower hex)"
  by (simp only: IMAGE_DIGEST_def fullmatch_Eos fullmatch_fixed fixed_literal fixed_replicate)

lemma sha_shape_iff: "fullmatch COMMIT_SHA s \<longleftrightarrow> length s = 40 \<and> list_all hex_lower s"
  by (simp only: COMMIT_SHA_def fullmatch_Eos fullmatch_fixed fixed_replicate)

lemma hex_shape_iff: "fullmatch HEX_DIGEST s \<longleftrightarrow> length s = 64 \<and> list_all hex_lower s"
  by (simp only: HEX_DIGEST_def fullmatch_Eos fullmatch_fixed fixed_replicate)

lemma covering_counts:
  fixes b c w :: "nat option"
  shows "\<not> (b = None \<or> b = Some 0 \<or> w = None \<or> w = Some 0 \<or> c \<noteq> b \<or> P) \<longleftrightarrow>
     (\<exists>n m. 0 < n \<and> 0 < m \<and> b = Some n \<and> c = Some n \<and> w = Some m) \<and> \<not> P"
  by (cases b; cases w) auto

lemma counts_cover_iff: "counts_cover flds \<longleftrightarrow>
    (\<exists>n m. 0 < n \<and> n < 10000000000 \<and> 0 < m \<and> m < 10000000000
       \<and> jget ''blocking_total'' flds = JStr (dec n) \<and> jget ''covered'' flds = JStr (dec n)
       \<and> jget ''window_count'' flds = JStr (dec m))
    \<and> jget ''uncovered'' flds = JStr ''0'' \<and> jget ''rejected'' flds = JStr ''0''
    \<and> jget ''overdue'' flds = JStr ''0'' \<and> jget ''unmatched'' flds = JStr ''0''
    \<and> jget ''reintroduced'' flds = JStr ''0''"
proof -
  have z: "dec 0 = ''0''" by code_simp
  have "counts_cover flds \<longleftrightarrow>
      (\<exists>n m. 0 < n \<and> 0 < m \<and> count_field (jget ''blocking_total'' flds) = Some n
         \<and> count_field (jget ''covered'' flds) = Some n \<and> count_field (jget ''window_count'' flds) = Some m)
      \<and> count_field (jget ''uncovered'' flds) = Some 0 \<and> count_field (jget ''rejected'' flds) = Some 0
      \<and> count_field (jget ''overdue'' flds) = Some 0 \<and> count_field (jget ''unmatched'' flds) = Some 0
      \<and> count_field (jget ''reintroduced'' flds) = Some 0"
    unfolding counts_cover_def Let_def covering_counts by (simp only: de_Morgan_disj not_not)
  then show ?thesis unfolding count_field_iff by (simp add: z) blast
qed

text \<open>The sanitised fields, for the checks that read them\<close>

definition window_covers :: "jobj \<Rightarrow> bool" where
  "window_covers outputs \<longleftrightarrow>
     jget ''classification'' outputs = JStr ''actionable_vulnerability''
     \<and> boolean_field (jget ''window_enabled'' outputs) = Some True
     \<and> jget ''window_allowed'' outputs = JStr ''true''
     \<and> jget ''window_decision'' outputs = JStr ''allowed_window''
     \<and> jget ''window_classification'' outputs = JStr ''actionable_vulnerability''
     \<and> \<not> truthy (jget_or ''failure_reason'' (JStr []) outputs)
     \<and> \<not> truthy (jget_or ''window_failure_reason'' (JStr []) outputs)
     \<and> counts_cover outputs
     \<and> (\<exists>hex. jget ''policy_digest'' outputs = JStr hex \<and> fullmatch HEX_DIGEST hex)
     \<and> (\<exists>version. jget ''evaluator_version'' outputs = JStr version \<and> fullmatch EVALUATOR_VERSION_RE version)"

lemma matches_safe_text:
  "\<not> fullmatch r [] \<Longrightarrow> matches r (JStr (safe_text v r)) \<longleftrightarrow> (\<exists>t. v = JStr t \<and> fullmatch r t)"
  by (cases v) (auto simp: matches_def safe_text_def)

lemma window_decision_iff:
  "window_acceptable (decision_fields outputs digest ref sha) \<longleftrightarrow> window_covers outputs
     \<and> matches IMAGE_DIGEST (JStr (safe_text (JStr digest) IMAGE_DIGEST))
     \<and> image_bound (JStr (safe_image_ref ref)) (JStr (safe_text (JStr digest) IMAGE_DIGEST))
     \<and> visible (JStr (safe_image_ref ref))
     \<and> matches COMMIT_SHA (JStr (safe_text (JStr sha) COMMIT_SHA))"
proof -
  have nil: "\<not> fullmatch HEX_DIGEST []" "\<not> fullmatch EVALUATOR_VERSION_RE []"
    by (simp add: hex_shape_iff) code_simp
  have same: "counts_cover (decision_fields outputs digest ref sha) = counts_cover outputs"
    by (simp add: decision_simps counts_cover_def)
  have b: "boolean_field (JBool b) = Some True \<longleftrightarrow> b" for b
    by (simp add: boolean_field_def)
  show ?thesis
    unfolding window_acceptable_def window_covers_def same
    by (simp add: decision_simps b matches_safe_text [OF nil(1)] matches_safe_text [OF nil(2)] conj_ac del: not_ex)
qed

lemma image_bound_given:
  assumes "fullmatch IMAGE_DIGEST d"
  shows "image_bound (JStr (safe_image_ref r)) (JStr d) \<longleftrightarrow>
    (\<exists>name. r = name @ CHR ''@'' # d) \<and> length r \<le> 2048 \<and> visible (JStr r)"
  using digest_no_at [OF assms] by (auto simp: image_bound_iff safe_image_ref_def)

lemma pushed_gate_iff:
  "boolean_field (jget ''push'' outputs) = Some True
     \<and> security_gate_acceptable (decision_fields outputs digest ref sha) = Inr True \<longleftrightarrow>
   boolean_field (jget ''push'' outputs) = Some True
     \<and> fullmatch IMAGE_DIGEST digest \<and> fullmatch COMMIT_SHA sha
     \<and> (\<exists>name. ref = name @ CHR ''@'' # digest) \<and> length ref \<le> 2048 \<and> visible (JStr ref)
     \<and> (jget ''outcome'' outputs = JStr ''success'' \<and> jget ''result'' outputs = JStr ''passed''
          \<and> jget ''classification'' outputs \<in> {JStr ''clean'', JStr ''unfixed_warning''}
        \<or> jget ''outcome'' outputs = JStr ''failure'' \<and> jget ''result'' outputs = JStr ''failed''
          \<and> window_covers outputs)"
    (is "?push \<and> ?acc \<longleftrightarrow> ?push \<and> ?dig \<and> ?sha \<and> ?rest")
proof (cases "?push \<and> ?dig \<and> ?sha")
  case True
  have d: "safe_text (JStr digest) IMAGE_DIGEST = digest" "safe_text (JStr sha) COMMIT_SHA = sha"
    "matches IMAGE_DIGEST (JStr digest)" "matches COMMIT_SHA (JStr sha)"
    using True by (simp_all add: safe_text_def matches_def)
  have k: "window_covers outputs \<Longrightarrow> jget ''classification'' outputs = JStr ''actionable_vulnerability''"
    by (simp add: window_covers_def)
  have v: "visible (JStr ref) \<and> length ref \<le> 2048 \<Longrightarrow> visible (JStr (safe_image_ref ref))"
    by (simp add: safe_image_ref_def)
  have push: "?push" and dig: "?dig" using True by blast+
  have "?acc \<longleftrightarrow> ?rest"
    unfolding gate_acceptable_iff window_decision_iff
    by (simp only: decision_simps d simp_thms list.inject char.inject if_False)
      (use k v push image_bound_given [OF dig, of ref] d in
        \<open>auto simp: OUTCOMES_def CLASSIFICATIONS_def PASSING_CLASSIFICATIONS_def\<close>)
  then show ?thesis using True by blast
next
  case False
  then show ?thesis
    using digest_shapes by (auto simp: gate_acceptable_iff decision_simps matches_safe_text)
qed

section \<open>Properties\<close>

text \<open>
  C1: A promotion is authorised exactly for a pushed image whose digest, commit and reference
  are bound to one another and whose gate passed, or failed on vulnerabilities that an open
  remediation window covers. The evidence says \<open>promotion_authorized\<close> if and only if the
  publication pushed, the digest is \<open>sha256:\<close> and 64 hexadecimal digits, the commit is 40 of
  them, the scanned reference is a name, an \<open>@\<close> and this digest, at most 2048 visible
  characters long, and either the gate succeeded, its result is \<open>passed\<close> and it found nothing
  or unfixed findings only; or it failed on actionable vulnerabilities, the window evaluation
  was enabled, allowed the release and reports no failure, a positive number of findings is
  blocking and exactly as many are covered, a positive number of policy entries matched, no
  finding is uncovered, rejected, overdue, unmatched or reintroduced, and the evaluated policy
  and evaluator are named. An authorised promotion records the digest and the commit as given.
\<close>

theorem promotion_authorised_bound:
  assumes "build_security_evidence outputs digest ref sha = Inr ev"
  shows "(jget ''promotion_authorized'' ev = JBool True \<longleftrightarrow>
      jget ''push'' outputs \<in> {JBool True, JStr ''true''}
      \<and> (\<exists>hex. digest = ''sha256:'' @ hex \<and> length hex = 64 \<and> list_all hex_lower hex)
      \<and> length sha = 40 \<and> list_all hex_lower sha
      \<and> (\<exists>name. ref = name @ CHR ''@'' # digest) \<and> length ref \<le> 2048
      \<and> \<not> (\<exists>c \<in> set ref. py_isspace c \<or> code c < 32)
      \<and> (jget ''outcome'' outputs = JStr ''success'' \<and> jget ''result'' outputs = JStr ''passed''
           \<and> jget ''classification'' outputs \<in> {JStr ''clean'', JStr ''unfixed_warning''}
         \<or> jget ''outcome'' outputs = JStr ''failure'' \<and> jget ''result'' outputs = JStr ''failed''
           \<and> jget ''classification'' outputs = JStr ''actionable_vulnerability''
           \<and> jget ''window_enabled'' outputs \<in> {JBool True, JStr ''true''}
           \<and> jget ''window_allowed'' outputs = JStr ''true''
           \<and> jget ''window_decision'' outputs = JStr ''allowed_window''
           \<and> jget ''window_classification'' outputs = JStr ''actionable_vulnerability''
           \<and> \<not> truthy (jget_or ''failure_reason'' (JStr []) outputs)
           \<and> \<not> truthy (jget_or ''window_failure_reason'' (JStr []) outputs)
           \<and> (\<exists>n m. 0 < n \<and> n < 10000000000 \<and> 0 < m \<and> m < 10000000000
               \<and> jget ''blocking_total'' outputs = JStr (dec n) \<and> jget ''covered'' outputs = JStr (dec n)
               \<and> jget ''window_count'' outputs = JStr (dec m))
           \<and> jget ''uncovered'' outputs = JStr ''0'' \<and> jget ''rejected'' outputs = JStr ''0''
           \<and> jget ''overdue'' outputs = JStr ''0'' \<and> jget ''unmatched'' outputs = JStr ''0''
           \<and> jget ''reintroduced'' outputs = JStr ''0''
           \<and> (\<exists>hex. jget ''policy_digest'' outputs = JStr hex \<and> length hex = 64 \<and> list_all hex_lower hex)
           \<and> (\<exists>version. jget ''evaluator_version'' outputs = JStr version
               \<and> fullmatch EVALUATOR_VERSION_RE version)))
    \<and> (jget ''promotion_authorized'' ev = JBool True \<longrightarrow>
         jget ''image_digest'' ev = JStr digest \<and> jget ''source_sha'' ev = JStr sha)"
proof -
  let ?d = "decision_fields outputs digest ref sha"
  obtain accepted where e: "security_gate_acceptable ?d = Inr accepted"
    "jget ''promotion_authorized'' ev = JBool (boolean_field (jget ''push'' outputs) = Some True \<and> accepted)"
    "jget ''image_digest'' ev = JStr (safe_text (JStr digest) IMAGE_DIGEST)"
    "jget ''source_sha'' ev = JStr (safe_text (JStr sha) COMMIT_SHA)"
    by (rule evidence_Inr [OF assms])
  have auth: "jget ''promotion_authorized'' ev = JBool True \<longleftrightarrow>
      boolean_field (jget ''push'' outputs) = Some True \<and> security_gate_acceptable ?d = Inr True"
    using e(1,2) by simp
  have "jget ''promotion_authorized'' ev = JBool True \<longrightarrow> fullmatch IMAGE_DIGEST digest \<and> fullmatch COMMIT_SHA sha"
    unfolding auth pushed_gate_iff by blast
  then have "jget ''promotion_authorized'' ev = JBool True \<longrightarrow>
      jget ''image_digest'' ev = JStr digest \<and> jget ''source_sha'' ev = JStr sha"
    unfolding e(3,4) by (simp add: safe_text_def)
  then show ?thesis
    unfolding auth pushed_gate_iff
    unfolding window_covers_def counts_cover_iff true_field_iff digest_shape_iff sha_shape_iff hex_shape_iff
      visible_iff
    by (simp only: conj_assoc simp_thms)
qed

text \<open>
  C2: The window evaluation decides the promotion. A gate that failed on actionable
  vulnerabilities alone, whose findings were evaluated against a loaded policy, is promoted
  with its pushed image if and only if the evaluation allowed the release, and never raises:
  the counts survive their way through the step outputs as decimal texts.
\<close>

theorem window_decides_promotion:
  assumes "evaluate_remediation_windows env fs (Some p) raws True t sh dig = Inr r"
    and "wr_blocking_total r < 10000000000" and "fullmatch HEX_DIGEST (wr_policy_digest r)"
    and "fullmatch IMAGE_DIGEST digest" and "fullmatch COMMIT_SHA sha"
    and "ref = name @ CHR ''@'' # digest"
    and "length ref \<le> 2048" and "visible (JStr ref)"
  shows "\<exists>ev. build_security_evidence (gate_outputs r) digest ref sha = Inr ev
    \<and> jget ''promotion_authorized'' ev = JBool (wr_allowed r)"
proof -
  let ?d = "decision_fields (gate_outputs r) digest ref sha"
  have d: "safe_image_ref ref = ref" using assms(7,8) by (simp add: safe_image_ref_def)
  have b: "image_bound (JStr ref) (JStr digest)" using assms(6) digest_no_at [OF assms(4)] by (simp add: image_bound_iff)
  have "security_gate_acceptable ?d = Inr (wr_allowed r)"
  proof (cases "wr_allowed r")
    case True
    have c: "counts_cover ?d"
      using allowed_counts_cover [OF assms(1) True assms(2)] by (simp add: counts_cover_def decision_simps)
    have "window_acceptable ?d"
      using window_allowed_report [OF assms(1) True] True c assms(3-5,8) d b version_matches
      by (simp add: window_acceptable_def decision_simps gate_outputs_def output_texts boolean_field_def
          matches_def safe_text_def ALLOWED_CLASSIFICATION_def)
    then have "security_gate_acceptable ?d = Inr True"
      using assms(4,5) b d
      by (simp add: gate_acceptable_iff decision_simps gate_outputs_def OUTCOMES_def CLASSIFICATIONS_def
          matches_def safe_text_def)
    then show ?thesis using True by simp
  next
    case False
    have "\<not> window_acceptable ?d"
      using False by (simp add: window_acceptable_def decision_simps gate_outputs_def output_texts)
    then show ?thesis
      using False by (simp add: security_gate_acceptable_def decision_simps gate_outputs_def OUTCOMES_def
          CLASSIFICATIONS_def)
  qed
  then show ?thesis
    by (simp add: build_security_evidence_def Let_def gate_outputs_def boolean_field_def)
qed

section \<open>A candidate\<close>

definition demo_ref :: string where "demo_ref = ''ghcr.io/acme/api'' @ CHR ''@'' # demo_digest"

definition demo_clean :: jobj where
  "demo_clean = [(''outcome'', JStr ''success''), (''result'', JStr ''passed''),
     (''classification'', JStr ''clean''), (''push'', JStr ''true'')]"

lemma demo_image:
  "fullmatch IMAGE_DIGEST demo_digest" "fullmatch COMMIT_SHA demo_sha" "fullmatch HEX_DIGEST demo_hex"
  "visible (JStr demo_ref)" "length demo_ref \<le> 2048"
  by (code_simp, code_simp, code_simp, code_simp)
    (simp add: demo_ref_def demo_digest_def)

lemma demo_bound: "image_bound (JStr demo_ref) (JStr demo_digest)"
  unfolding image_bound_iff demo_ref_def using digest_no_at [OF demo_image(1)] by blast

lemma demo_clean_evidence:
  "\<exists>ev. build_security_evidence demo_clean demo_digest demo_ref demo_sha = Inr ev
     \<and> jget ''promotion_authorized'' ev = JBool True"
proof -
  have "security_gate_acceptable (decision_fields demo_clean demo_digest demo_ref demo_sha) = Inr True"
    using demo_image demo_bound
    by (simp add: gate_acceptable_iff decision_simps demo_clean_def OUTCOMES_def CLASSIFICATIONS_def
        PASSING_CLASSIFICATIONS_def matches_def safe_text_def safe_image_ref_def)
  then show ?thesis
    by (simp add: build_security_evidence_def Let_def demo_clean_def boolean_field_def)
qed

theorem promotion_authorised_bound_witness:
  "\<exists>ev. build_security_evidence demo_clean demo_digest demo_ref demo_sha = Inr ev
     \<and> jget ''image_digest'' ev = JStr demo_digest \<and> jget ''source_sha'' ev = JStr demo_sha
     \<and> length demo_sha = 40 \<and> (\<exists>name. demo_ref = name @ CHR ''@'' # demo_digest)"
proof -
  obtain ev where e: "build_security_evidence demo_clean demo_digest demo_ref demo_sha = Inr ev"
    "jget ''promotion_authorized'' ev = JBool True" using demo_clean_evidence by blast
  from promotion_authorised_bound [OF e(1)] e show ?thesis by blast
qed

theorem window_decides_promotion_witness:
  "\<exists>r ev. evaluate_remediation_windows demo_env sample_fs (Some demo_policy_path) [demo_raw] True None [] [] = Inr r
     \<and> build_security_evidence (gate_outputs r) demo_digest demo_ref demo_sha = Inr ev
     \<and> jget ''promotion_authorized'' ev = JBool True"
proof -
  obtain r where r: "evaluate_remediation_windows demo_env sample_fs (Some demo_policy_path) [demo_raw] True
      None [] [] = Inr r" "wr_allowed r" "wr_blocking_total r = 1" "wr_policy_digest r = demo_hex"
    using demo_evaluated by blast
  have "wr_blocking_total r < 10000000000" "fullmatch HEX_DIGEST (wr_policy_digest r)"
    using r(3,4) demo_image(3) by simp_all
  from window_decides_promotion [OF r(1) this demo_image(1,2) demo_ref_def demo_image(5,4)] r(1,2)
  show ?thesis by auto
qed

end
