(* ===== verification/Publisher_Set.thy ===== *)
theory Publisher_Set
  imports Exception_Policy Window_Contract Delivery_Manifest
begin

text \<open>
  The final check of a release, \<open>scripts/container_release/validate_publisher_exception_set.py\<close>:
  the candidate fragments of all services together are the requested matrix, each is one
  immutable image of its service and commit that the security gate accepted, and the exception
  policies hold for the complete final set of images. \<open>found\<close> is what \<open>rglob\<close> finds below the
  fragments directory, relative to it; \<open>loads\<close>, \<open>canon\<close> and \<open>sha\<close> are \<open>json.loads\<close>, the canonical
  \<open>json.dumps\<close> and SHA-256. The temporary files of the policy validation are not in the file
  system of the model: they are read back as they are written.
\<close>

section \<open>Names and references\<close>

definition set_error :: "string \<Rightarrow> exc" where "set_error m = Exc AggregateExceptionSetError m"

definition CANDIDATE_SHA :: rx where
  "CANDIDATE_SHA = anchored (Seq (rep 40 (Cls hex_lower)) (upto_rep 24 (Cls hex_lower)))"

definition PUBLISHER_SERVICE :: rx where
  "PUBLISHER_SERVICE = anchored (Seq (Cls lower_digit) (upto_rep 62 (Cls (\<lambda>c. lower_digit c \<or> one_of ''._-'' c))))"

definition PUBLISHER_POLICY_PATH :: rx where
  "PUBLISHER_POLICY_PATH = anchored (Seq (plus (Cls path_char))
     (Star (Seq (Cls (\<lambda>c. c = CHR ''/'')) (plus (Cls path_char)))))"

definition REGISTRY :: rx where
  "REGISTRY = anchored (Seq
     (Seq (Cls lower_digit) (opt (Seq (Star (Cls (\<lambda>c. lower_digit c \<or> one_of ''.-'' c))) (Cls lower_digit))))
     (opt (Seq (Cls (\<lambda>c. c = CHR '':'')) (Seq (Cls is_digit) (upto_rep 4 (Cls is_digit))))))"

definition IMAGE_PATH_SEGMENT :: rx where
  "IMAGE_PATH_SEGMENT = anchored (Seq (plus (Cls lower_digit))
     (Star (Seq (Cls (one_of ''._-'')) (plus (Cls lower_digit)))))"

definition MAX_JSON_BYTES :: nat where "MAX_JSON_BYTES = 1024 * 1024"

definition service_name :: "json \<Rightarrow> string \<Rightarrow> string result" where
  "service_name v fld =
     (case v of
        JStr s \<Rightarrow> guardE (fullmatch PUBLISHER_SERVICE s)
                    (set_error (fld @ '' must be a bounded lowercase service name'')) (Inr s)
      | _ \<Rightarrow> Inl (set_error (fld @ '' must be a bounded lowercase service name'')))"

definition policy_relative_path :: "json \<Rightarrow> string \<Rightarrow> string result" where
  "policy_relative_path v fld =
     (if v = JNull \<or> v = JStr [] then Inr []
      else case v of
        JStr s \<Rightarrow>
          guardE (length s \<le> 1024 \<and> fullmatch PUBLISHER_POLICY_PATH s
                  \<and> \<not> list_ex (\<lambda>part. part = ''.'' \<or> part = ''..'') (split_char CHR ''/'' s))
            (set_error (fld @ '' is not a safe repository-relative policy path'')) (Inr s)
      | _ \<Rightarrow> Inl (set_error (fld @ '' is not a safe repository-relative policy path'')))"

definition before_last_at :: "string \<Rightarrow> string" where
  "before_last_at s = take (length s - length (after_last_at s) - 1) s"

definition image_name :: "string \<Rightarrow> string \<Rightarrow> string \<Rightarrow> string" where
  "image_name registry image_namespace service = registry @ ''/'' @ image_namespace @ ''/'' @ service"

text \<open>The reference and its digest\<close>

definition full_image_ref ::
    "json \<Rightarrow> string \<Rightarrow> string \<Rightarrow> string \<Rightarrow> string \<Rightarrow> (string \<times> string) result" where
  "full_image_ref v registry image_namespace service fld =
     (case v of
        JStr r \<Rightarrow>
          guardE (has_char CHR ''@'' r) (set_error (fld @ '' must be a full immutable image reference''))
          (guardE (before_last_at r = image_name registry image_namespace service
                   \<and> fullmatch DIGEST_RE (after_last_at r))
            (set_error (fld @ '' must match the configured registry, namespace, service, and sha256 digest''))
            (Inr (r, after_last_at r)))
      | _ \<Rightarrow> Inl (set_error (fld @ '' must be a full immutable image reference'')))"

section \<open>Files\<close>

definition read_json_file :: "(string \<Rightarrow> json result) \<Rightarrow> fsys \<Rightarrow> string list \<Rightarrow> string \<Rightarrow> json result" where
  "read_json_file loads fs p label =
     guardE (\<not> is_symlink fs p \<and> is_file fs p) (set_error (label @ '' must be a regular non-symlink file''))
     (bindE (read_file fs p) (\<lambda>content.
      guardE (length content \<le> MAX_JSON_BYTES) (set_error (label @ '' exceeds the 1 MiB contract limit''))
        (except_raise (loads content) [OSError, UnicodeDecodeError, JSONDecodeError]
          (set_error (label @ '' must be valid UTF-8 JSON'')))))"

text \<open>Does one of the directories on the way, below the base, look like a link?\<close>

definition link_below :: "fsys \<Rightarrow> string list \<Rightarrow> string list \<Rightarrow> bool" where
  "link_below fs base rel \<longleftrightarrow> list_ex (\<lambda>q. is_symlink fs (base @ q)) (tl (prefixes rel))"

definition check_fragment_file :: "fsys \<Rightarrow> string list \<Rightarrow> string list \<Rightarrow> string list \<Rightarrow> unit result" where
  "check_fragment_file fs base resolved_root rel =
     guardE (\<not> is_symlink fs (base @ rel) \<and> is_file fs (base @ rel))
       (set_error ''candidate fragment must be a regular non-symlink file'')
     (bindE (walk fs True link_limit [] (base @ rel)) (\<lambda>r.
      guardE (prefix resolved_root r)
        (set_error ''candidate fragment escapes its artifact directory'') (Inr ())))"

definition candidate_fragment_files ::
    "fsys \<Rightarrow> string list \<Rightarrow> string list list \<Rightarrow> string list list result" where
  "candidate_fragment_files fs base found =
     guardE (\<not> is_symlink fs base \<and> is_dir fs base)
       (set_error ''candidate fragments directory is missing or unsafe'')
     (bindE (walk fs True link_limit [] base) (\<lambda>resolved_root.
      guardE (\<not> list_ex (\<lambda>rel. link_below fs base (butlast rel)) found)
        (set_error ''candidate fragment directories must not traverse symlinks'')
      (bindE (mapE (check_fragment_file fs base resolved_root) found) (\<lambda>_. Inr found))))"

definition is_array :: "json \<Rightarrow> bool" where
  "is_array v = (case v of JArr _ \<Rightarrow> True | _ \<Rightarrow> False)"

definition policy_file ::
    "(string \<Rightarrow> json result) \<Rightarrow> (string \<Rightarrow> string) \<Rightarrow> fsys \<Rightarrow> string list \<Rightarrow> string \<Rightarrow> (jobj \<times> string) result" where
  "policy_file loads sha fs base relative =
     (let rel = split_char CHR ''/'' relative in
      bindE (walk fs True link_limit [] base) (\<lambda>resolved_root.
      guardE (\<not> link_below fs base rel) (set_error ''exception policy paths must not traverse symlinks'')
      (guardE (is_file fs (base @ rel))
        (set_error ''configured exception policy is missing or outside the candidate source'')
      (bindE (walk fs True link_limit [] (base @ rel)) (\<lambda>r.
       guardE (prefix resolved_root r)
         (set_error ''configured exception policy is missing or outside the candidate source'')
       (bindE (read_file fs (base @ rel)) (\<lambda>raw.
        guardE (length raw \<le> MAX_JSON_BYTES) (set_error ''exception policy exceeds the 1 MiB contract limit'')
        (bindE (except_raise (loads raw) [UnicodeDecodeError, JSONDecodeError]
                  (set_error ''exception policy must be valid UTF-8 JSON'')) (\<lambda>payload.
         case payload of
           JObj d \<Rightarrow>
             guardE (\<not> is_bool (jget ''version'' d) \<and> eq_int (jget ''version'' d) 1
                     \<and> set (jkeys d) = {''version'', ''vulnerabilities''}
                     \<and> is_array (jget ''vulnerabilities'' d))
               (set_error ''exception policy must use the supported version 1 schema'')
               (Inr (d, ''sha256:'' @ sha raw))
         | _ \<Rightarrow> Inl (set_error ''exception policy must use the supported version 1 schema''))))))))))"

section \<open>The declared services\<close>

fun collect_services :: "nat \<Rightarrow> json list \<Rightarrow> (string \<times> jobj) list \<Rightarrow> (string \<times> jobj) list result" where
  "collect_services i [] acc = Inr acc"
| "collect_services i (JObj service # rest) acc =
     bindE (service_name (jget ''name'' service) (''services['' @ dec i @ ''].name'')) (\<lambda>name.
     guardE (\<not> List.member (map fst acc) name) (set_error (''duplicate candidate service: '' @ name))
       (collect_services (Suc i) rest (acc @ [(name, service)])))"
| "collect_services i (_ # rest) acc =
     Inl (set_error (''services['' @ dec i @ ''] must be an object''))"

fun collect_unchanged ::
    "string list \<Rightarrow> nat \<Rightarrow> json list \<Rightarrow> (string \<times> jobj) list \<Rightarrow> (string \<times> jobj) list result" where
  "collect_unchanged expected i [] acc = Inr acc"
| "collect_unchanged expected i (JObj im # rest) acc =
     bindE (service_name (jget ''service'' im) (''unchanged_images['' @ dec i @ ''].service'')) (\<lambda>name.
     guardE (\<not> List.member expected name \<and> \<not> List.member (map fst acc) name)
       (set_error (''duplicate final image service: '' @ name))
       (collect_unchanged expected (Suc i) rest (acc @ [(name, im)])))"
| "collect_unchanged expected i (_ # rest) acc =
     Inl (set_error (''unchanged_images['' @ dec i @ ''] must be an object''))"

section \<open>The candidate fragments\<close>

record set_spec =
  ss_candidate_sha :: string
  ss_registry :: string
  ss_namespace :: string
  ss_validate_policies :: bool
  ss_set_complete :: bool
  ss_require_promotion :: bool
  ss_require_attestations :: bool

record image_fragment =
  if_service :: string
  if_image :: string
  if_digest :: string
  if_evidence :: jobj

definition candidate_fragment ::
    "set_spec \<Rightarrow> string list \<Rightarrow> string list \<Rightarrow> json \<Rightarrow> image_fragment result" where
  "candidate_fragment spec expected seen payload =
     (case payload of
        JObj d \<Rightarrow>
          bindE (service_name (jget ''service'' d) ''candidate fragment service'') (\<lambda>service.
          guardE (List.member expected service \<and> \<not> List.member seen service)
            (set_error ''candidate fragments must contain exactly the requested candidate services'')
          (guardE (jget ''candidate_sha'' d = JStr (ss_candidate_sha spec))
            (set_error ''candidate fragment does not match the requested candidate source commit'')
          (bindE (full_image_ref (jget ''image'' d) (ss_registry spec) (ss_namespace spec) service
                    ''candidate fragment image'') (\<lambda>(image_ref, digest).
           guardE (jget ''digest'' d = JStr digest)
             (set_error ''candidate fragment image reference does not match its digest'')
          (guardE (\<not> (ss_require_attestations spec \<and> jget ''attestation_verified'' d \<noteq> JBool True))
             (set_error ''candidate fragment is missing verified quarantine attestations'')
          (case jget ''security_evidence'' d of
             JObj g \<Rightarrow>
               guardE (jget ''source_sha'' g = JStr (ss_candidate_sha spec))
                 (set_error ''per-image security evidence does not match the candidate source commit'')
               (guardE (jget ''image_digest'' g = JStr digest)
                 (set_error ''per-image security evidence does not match the immutable image digest'')
               (guardE (jget ''security_gate_accepted'' g = JBool True)
                 (set_error ''candidate fragment contains an image rejected by the security gate'')
               (guardE (\<not> (ss_require_promotion spec \<and> jget ''promotion_authorized'' g \<noteq> JBool True))
                 (set_error ''candidate fragment lacks per-image promotion authorization'')
                 (Inr \<lparr>if_service = service, if_image = image_ref, if_digest = digest, if_evidence = g\<rparr>))))
           | _ \<Rightarrow> Inl (set_error ''candidate fragment is missing per-image security evidence'')))))))
      | _ \<Rightarrow> Inl (set_error ''candidate fragment must be a JSON object''))"

fun collect_fragments ::
    "(string \<Rightarrow> json result) \<Rightarrow> fsys \<Rightarrow> set_spec \<Rightarrow> string list \<Rightarrow> string list list
     \<Rightarrow> image_fragment list \<Rightarrow> image_fragment list result" where
  "collect_fragments loads fs spec expected [] acc = Inr acc"
| "collect_fragments loads fs spec expected (p # ps) acc =
     bindE (read_json_file loads fs p ''candidate fragment'') (\<lambda>payload.
     bindE (candidate_fragment spec expected (map if_service acc) payload) (\<lambda>f.
       collect_fragments loads fs spec expected ps (acc @ [f])))"

section \<open>The final set\<close>

fun unchanged_refs :: "set_spec \<Rightarrow> (string \<times> jobj) list \<Rightarrow> (string \<times> string) list result" where
  "unchanged_refs spec [] = Inr []"
| "unchanged_refs spec ((name, im) # rest) =
     bindE (full_image_ref (jget ''image'' im) (ss_registry spec) (ss_namespace spec) name
              (''unchanged_images.'' @ name @ ''.image'')) (\<lambda>(image_ref, digest).
     bindE (unchanged_refs spec rest) (\<lambda>refs. Inr ((name, image_ref) # refs)))"

text \<open>The policies of the services: the distinct files with their entries, and the hash of each service\<close>

fun service_policies ::
    "(string \<Rightarrow> json result) \<Rightarrow> (string \<Rightarrow> string) \<Rightarrow> fsys \<Rightarrow> string list \<Rightarrow> (string \<times> jobj) list
     \<Rightarrow> (string \<times> jobj) list \<Rightarrow> (string \<times> string) list
     \<Rightarrow> ((string \<times> jobj) list \<times> (string \<times> string) list) result" where
  "service_policies loads sha fs policy_root [] files hashes = Inr (files, hashes)"
| "service_policies loads sha fs policy_root ((name, definition) # rest) files hashes =
     bindE (policy_relative_path (jget_or ''security_exceptions_file'' (JStr []) definition)
              (name @ ''.security_exceptions_file'')) (\<lambda>relative.
     if relative = [] then service_policies loads sha fs policy_root rest files (hashes @ [(name, ''none'')])
     else
       bindE (policy_file loads sha fs policy_root relative) (\<lambda>(payload, digest).
         service_policies loads sha fs policy_root rest
           (if List.member (map fst files) relative then files else files @ [(relative, payload)])
           (hashes @ [(name, digest)])))"

definition policy_entries :: "jobj \<Rightarrow> json list" where
  "policy_entries payload = array_of ''vulnerabilities'' payload"

fun render_all ::
    "(string \<Rightarrow> json result) \<Rightarrow> fsys \<Rightarrow> nat \<Rightarrow> string list \<Rightarrow> string \<Rightarrow> string list \<Rightarrow> unit result" where
  "render_all loads fs reference policy_root target [] = Inr ()"
| "render_all loads fs reference policy_root target (relative # rest) =
     bindE (load_exception_entries loads fs (Path True (policy_root @ split_char CHR ''/'' relative))) (\<lambda>entries.
     bindE (render_exceptions reference ''image'' target [] 0 entries) (\<lambda>_.
       render_all loads fs reference policy_root target rest))"

definition validate_policy_files ::
    "(string \<Rightarrow> json result) \<Rightarrow> fsys \<Rightarrow> nat \<Rightarrow> string list \<Rightarrow> (string \<times> jobj) list \<Rightarrow> string list
     \<Rightarrow> nat result" where
  "validate_policy_files loads fs reference policy_root files active_image_ids =
     bindE (check_complete_policy reference (check_active_image_ids active_image_ids) active_image_ids
              (Inr (concat (map (policy_entries \<circ> snd) files)))) (\<lambda>exception_count.
     bindE (render_all loads fs reference policy_root (hd active_image_ids) (map fst files)) (\<lambda>_.
       Inr exception_count))"

definition image_entry :: "string \<times> string \<Rightarrow> json" where
  "image_entry im = JObj [(''service'', JStr (fst im)), (''image'', JStr (snd im))]"

definition check_set_spec :: "set_spec \<Rightarrow> json \<Rightarrow> json \<Rightarrow> (json list \<times> json list) result" where
  "check_set_spec spec services unchanged_images =
     guardE (fullmatch CANDIDATE_SHA (ss_candidate_sha spec))
       (set_error ''candidate_sha must be a full lowercase commit SHA'')
     (guardE (fullmatch REGISTRY (ss_registry spec))
       (set_error ''registry must be a safe lowercase registry hostname'')
     (guardE (ss_namespace spec \<noteq> [] \<and> \<not> prefix ''/'' (ss_namespace spec) \<and> \<not> suffix ''/'' (ss_namespace spec)
              \<and> list_all (fullmatch IMAGE_PATH_SEGMENT) (split_char CHR ''/'' (ss_namespace spec)))
       (set_error ''image_namespace must be a safe repository namespace'')
     (case services of
        JArr (s # ss) \<Rightarrow>
          (case unchanged_images of
             JArr us \<Rightarrow>
               guardE (\<not> (ss_validate_policies spec \<and> \<not> ss_set_complete spec))
                 (set_error ''strict exception validation requires the caller to declare the final set complete'')
               (guardE (\<not> (\<not> ss_validate_policies spec \<and> (ss_set_complete spec \<or> us \<noteq> [])))
                 (set_error ''final-set declarations require strict exception validation to be enabled'')
                 (Inr (s # ss, us)))
           | _ \<Rightarrow> Inl (set_error ''unchanged_images must be a JSON array''))
      | _ \<Rightarrow> Inl (set_error ''services must declare the complete non-empty candidate matrix''))))"

record final_set =
  fs_images :: "(string \<times> string) list"
  fs_ids :: "string list"
  fs_policy_hashes :: "(string \<times> string) list"
  fs_exception_count :: "nat option"

definition check_final_set ::
    "(string \<Rightarrow> json result) \<Rightarrow> (string \<Rightarrow> string) \<Rightarrow> fsys \<Rightarrow> nat \<Rightarrow> string list
     \<Rightarrow> set_spec \<Rightarrow> (string \<times> jobj) list \<Rightarrow> (string \<times> string) list \<Rightarrow> final_set result" where
  "check_final_set loads sha fs reference policy_root spec final_services images =
     (let ids = map (after_last_at \<circ> snd) images in
      guardE (distinct ids) (set_error ''final image set contains a duplicate active image ID'')
     (if \<not> ss_validate_policies spec
      then Inr \<lparr>fs_images = images, fs_ids = ids, fs_policy_hashes = [], fs_exception_count = None\<rparr>
      else
        guardE (\<not> is_symlink fs policy_root \<and> is_dir fs policy_root)
          (set_error ''candidate policy root is missing or unsafe'')
        (bindE (service_policies loads sha fs policy_root final_services [] []) (\<lambda>(policies, hashes).
         bindE (validate_policy_files loads fs reference policy_root policies ids) (\<lambda>n.
           Inr \<lparr>fs_images = images, fs_ids = ids, fs_policy_hashes = hashes, fs_exception_count = Some n\<rparr>)))))"

definition collect_final_set ::
    "(string \<Rightarrow> json result) \<Rightarrow> (string \<Rightarrow> string) \<Rightarrow> fsys \<Rightarrow> nat \<Rightarrow> string list \<Rightarrow> string list list
     \<Rightarrow> string list \<Rightarrow> set_spec \<Rightarrow> json \<Rightarrow> json \<Rightarrow> final_set result" where
  "collect_final_set loads sha fs reference fragments_dir found policy_root spec services unchanged_images =
     bindE (check_set_spec spec services unchanged_images) (\<lambda>declarations.
     bindE (collect_services 0 (fst declarations) []) (\<lambda>expected.
     bindE (collect_unchanged (map fst expected) 0 (snd declarations) []) (\<lambda>unchanged.
     bindE (candidate_fragment_files fs fragments_dir found) (\<lambda>files.
     bindE (collect_fragments loads fs spec (map fst expected) (map ((@) fragments_dir) files) []) (\<lambda>fragments.
     guardE (set (map if_service fragments) = set (map fst expected))
       (set_error ''candidate fragments must contain exactly the requested candidate services'')
     (bindE (unchanged_refs spec unchanged) (\<lambda>refs.
      check_final_set loads sha fs reference policy_root spec (expected @ unchanged)
        (sort_key fst (map (\<lambda>f. (if_service f, if_image f)) fragments @ refs)))))))))"

text \<open>The record of the validation\<close>

definition set_record :: "(json \<Rightarrow> string) \<Rightarrow> (string \<Rightarrow> string) \<Rightarrow> set_spec \<Rightarrow> final_set \<Rightarrow> jobj" where
  "set_record canon sha spec s =
     (let digest = (\<lambda>v. JStr (''sha256:'' @ sha (canon v))); images = JArr (map image_entry (fs_images s)) in
      [(''schema_version'', JInt 1),
       (''status'', JStr (if ss_validate_policies spec then ''validated'' else ''not_requested'')),
       (''policy_validation_enabled'', JBool (ss_validate_policies spec)),
       (''candidate_matrix_complete'', JBool True), (''set_complete'', JBool (ss_set_complete spec)),
       (''candidate_sha'', JStr (ss_candidate_sha spec)), (''images'', images),
       (''active_image_count'', JInt (int (length (fs_images s)))),
       (''active_image_ids_sha256'', digest (JArr (map JStr (sort (fs_ids s))))),
       (''image_set_sha256'', digest (JObj [(''candidate_sha'', JStr (ss_candidate_sha spec)), (''images'', images)])),
       (''policy_set_sha256'', digest (JArr (map (\<lambda>(n, h). JObj [(''service'', JStr n), (''policy_sha256'', JStr h)])
          (sort_key fst (fs_policy_hashes s))))),
       (''exception_count'', case fs_exception_count s of None \<Rightarrow> JNull | Some n \<Rightarrow> JInt (int n))])"

definition validate_aggregate_exception_set ::
    "(string \<Rightarrow> json result) \<Rightarrow> (json \<Rightarrow> string) \<Rightarrow> (string \<Rightarrow> string) \<Rightarrow> fsys \<Rightarrow> nat \<Rightarrow> string list
     \<Rightarrow> string list list \<Rightarrow> string list \<Rightarrow> set_spec \<Rightarrow> json \<Rightarrow> json \<Rightarrow> jobj result" where
  "validate_aggregate_exception_set loads canon sha fs reference fragments_dir found policy_root spec services
     unchanged_images =
     bindE (collect_final_set loads sha fs reference fragments_dir found policy_root spec services unchanged_images)
       (\<lambda>s. Inr (set_record canon sha spec s))"

definition parse_json_argument :: "(string \<Rightarrow> json result) \<Rightarrow> string \<Rightarrow> string \<Rightarrow> json result" where
  "parse_json_argument loads v label =
     except_raise (loads v) [JSONDecodeError] (set_error (label @ '' must be valid JSON''))"

definition publisher_main ::
    "(string \<Rightarrow> json result) \<Rightarrow> (json \<Rightarrow> string) \<Rightarrow> (json \<Rightarrow> string) \<Rightarrow> (string \<Rightarrow> string) \<Rightarrow> nat \<Rightarrow> string list
     \<Rightarrow> (fsys \<Rightarrow> string list list) \<Rightarrow> string list \<Rightarrow> set_spec \<Rightarrow> string \<Rightarrow> string \<Rightarrow> string list
     \<Rightarrow> (fsys, unit) action" where
  "publisher_main loads canon dumps sha reference fragments_dir rglob policy_root spec services_json unchanged_json
     output =
     bindW (\<lambda>fs. (bindE (parse_json_argument loads services_json ''services_json'') (\<lambda>services.
                   bindE (parse_json_argument loads unchanged_json ''unchanged_images_json'') (\<lambda>unchanged.
                     validate_aggregate_exception_set loads canon sha fs reference fragments_dir (rglob fs)
                       policy_root spec services unchanged)), fs)) (\<lambda>result.
     bindW (mkdir_parents (butlast output)) (\<lambda>_.
     bindW (refuse_symlink (set_error ''validation evidence path must not be a symlink'') output) (\<lambda>_.
       write_text output (dumps (JObj result) @ [LF]))))"

definition publisher_exit :: "unit result \<Rightarrow> nat" where
  "publisher_exit r =
     (case r of
        Inr _ \<Rightarrow> 0
      | Inl e \<Rightarrow> if catches [AggregateExceptionSetError, OSError, ValueError] e then 2 else 1)"

section \<open>What a validated set guarantees\<close>

lemma last_at_split: "has_char CHR ''@'' r \<Longrightarrow> r = before_last_at r @ CHR ''@'' # after_last_at r"
proof -
  assume at: "has_char CHR ''@'' r"
  let ?P = "\<lambda>c. c \<noteq> CHR ''@''"
  obtain x xs where d: "dropWhile ?P (rev r) = x # xs"
    using at by (cases "dropWhile ?P (rev r)") (auto simp: has_char_def dropWhile_eq_Nil_conv)
  then have "x = CHR ''@''" using hd_dropWhile [of ?P "rev r"] by simp
  then have "rev r = rev (after_last_at r) @ CHR ''@'' # xs"
    using d takeWhile_dropWhile_id [of ?P "rev r"] by (simp add: after_last_at_def)
  then have "r = rev xs @ CHR ''@'' # after_last_at r" by (metis rev_rev_ident rev_append rev.simps(2) append_assoc append_Cons append_Nil)
  moreover from this have "before_last_at r = rev xs"
    unfolding before_last_at_def by (metis add_diff_cancel_right' append_eq_conv_conj diff_diff_left length_Cons length_append One_nat_def add_Suc_right plus_1_eq_Suc)
  ultimately show ?thesis by simp
qed

definition immutable_ref :: "set_spec \<Rightarrow> string \<Rightarrow> string \<Rightarrow> bool" where
  "immutable_ref spec service r \<longleftrightarrow>
     (\<exists>d. fullmatch DIGEST_RE d \<and> r = image_name (ss_registry spec) (ss_namespace spec) service @ CHR ''@'' # d)"

lemma full_image_ref_Inr:
  assumes "full_image_ref v (ss_registry spec) (ss_namespace spec) service fld = Inr (r, d)"
  shows "v = JStr r \<and> d = after_last_at r \<and> immutable_ref spec service r"
proof -
  from assms have h: "v = JStr r" "d = after_last_at r" "has_char CHR ''@'' r"
    "before_last_at r = image_name (ss_registry spec) (ss_namespace spec) service" "fullmatch DIGEST_RE d"
    by (auto simp: full_image_ref_def guardE_eq_Inr split: json.splits)
  then show ?thesis using last_at_split [OF h(3)] by (auto simp: immutable_ref_def)
qed

definition declared :: "string \<Rightarrow> json \<Rightarrow> string list" where
  "declared fld v =
     (case v of JArr xs \<Rightarrow> map (\<lambda>d. case jget fld d of JStr n \<Rightarrow> n | _ \<Rightarrow> []) (objects xs) | _ \<Rightarrow> [])"

lemma service_name_Inr: "service_name v fld = Inr n \<Longrightarrow> v = JStr n"
  by (auto simp: service_name_def guardE_eq_Inr split: json.splits)

lemma collect_services_Inr:
  "collect_services i xs acc = Inr out \<Longrightarrow> distinct (map fst acc) \<Longrightarrow>
     map fst out = map fst acc @ declared ''name'' (JArr xs) \<and> distinct (map fst out)
     \<and> map snd out = map snd acc @ objects xs"
proof (induction i xs acc rule: collect_services.induct)
  case (2 i service rest acc)
  then obtain n where n: "service_name (jget ''name'' service) (''services['' @ dec i @ ''].name'') = Inr n"
    "\<not> List.member (map fst acc) n" "collect_services (Suc i) rest (acc @ [(n, service)]) = Inr out"
    by (auto simp: bindE_eq_Inr guardE_eq_Inr)
  have "distinct (map fst (acc @ [(n, service)]))" using 2(3) n(2) by auto
  note ih = 2(1) [OF n this]
  show ?case using conjunct1 [OF ih] conjunct2 [OF ih] service_name_Inr [OF n(1)] by (simp add: declared_def)
qed (auto simp: declared_def)

lemma collect_unchanged_Inr:
  "collect_unchanged expected i xs acc = Inr out \<Longrightarrow> distinct (map fst acc) \<Longrightarrow>
     set (map fst acc) \<inter> set expected = {} \<Longrightarrow>
     map fst out = map fst acc @ declared ''service'' (JArr xs) \<and> distinct (map fst out)
     \<and> set (map fst out) \<inter> set expected = {} \<and> map snd out = map snd acc @ objects xs"
proof (induction expected i xs acc rule: collect_unchanged.induct)
  case (2 expected i im rest acc)
  then obtain n where n: "service_name (jget ''service'' im) (''unchanged_images['' @ dec i @ ''].service'') = Inr n"
    "\<not> List.member expected n \<and> \<not> List.member (map fst acc) n"
    "collect_unchanged expected (Suc i) rest (acc @ [(n, im)]) = Inr out"
    by (auto simp: bindE_eq_Inr guardE_eq_Inr)
  have "distinct (map fst (acc @ [(n, im)]))" "set (map fst (acc @ [(n, im)])) \<inter> set expected = {}"
    using 2(3,4) n(2) by auto
  note ih = 2(1) [OF n this]
  show ?case using conjunct1 [OF ih] conjunct2 [OF ih] service_name_Inr [OF n(1)] by (simp add: declared_def)
qed (auto simp: declared_def)

text \<open>The document of a fragment is accepted as this image of this service.\<close>

definition fragment_accepted :: "set_spec \<Rightarrow> json \<Rightarrow> string \<Rightarrow> string \<Rightarrow> bool" where
  "fragment_accepted spec v service r \<longleftrightarrow>
     (\<exists>d g. v = JObj d \<and> jget ''service'' d = JStr service \<and> jget ''candidate_sha'' d = JStr (ss_candidate_sha spec)
        \<and> jget ''image'' d = JStr r \<and> immutable_ref spec service r \<and> jget ''digest'' d = JStr (after_last_at r)
        \<and> (ss_require_attestations spec \<longrightarrow> jget ''attestation_verified'' d = JBool True)
        \<and> jget ''security_evidence'' d = JObj g \<and> jget ''source_sha'' g = JStr (ss_candidate_sha spec)
        \<and> jget ''image_digest'' g = JStr (after_last_at r) \<and> jget ''security_gate_accepted'' g = JBool True
        \<and> (ss_require_promotion spec \<longrightarrow> jget ''promotion_authorized'' g = JBool True))"

lemma candidate_fragment_Inr:
  assumes "candidate_fragment spec expected seen v = Inr f"
  shows "fragment_accepted spec v (if_service f) (if_image f) \<and> if_service f \<in> set expected \<and> if_service f \<notin> set seen"
proof (cases v)
  case (JObj d)
  then obtain service r digest where h: "service_name (jget ''service'' d) ''candidate fragment service'' = Inr service"
    "List.member expected service \<and> \<not> List.member seen service" "jget ''candidate_sha'' d = JStr (ss_candidate_sha spec)"
    "full_image_ref (jget ''image'' d) (ss_registry spec) (ss_namespace spec) service ''candidate fragment image'' = Inr (r, digest)"
    "jget ''digest'' d = JStr digest" "ss_require_attestations spec \<longrightarrow> jget ''attestation_verified'' d = JBool True"
    and e: "(case jget ''security_evidence'' d of
             JObj g \<Rightarrow>
               guardE (jget ''source_sha'' g = JStr (ss_candidate_sha spec))
                 (set_error ''per-image security evidence does not match the candidate source commit'')
               (guardE (jget ''image_digest'' g = JStr digest)
                 (set_error ''per-image security evidence does not match the immutable image digest'')
               (guardE (jget ''security_gate_accepted'' g = JBool True)
                 (set_error ''candidate fragment contains an image rejected by the security gate'')
               (guardE (\<not> (ss_require_promotion spec \<and> jget ''promotion_authorized'' g \<noteq> JBool True))
                 (set_error ''candidate fragment lacks per-image promotion authorization'')
                 (Inr \<lparr>if_service = service, if_image = r, if_digest = digest, if_evidence = g\<rparr>))))
           | _ \<Rightarrow> Inl (set_error ''candidate fragment is missing per-image security evidence'')) = Inr f"
    using assms by (auto simp: candidate_fragment_def bindE_eq_Inr guardE_eq_Inr)
  from e obtain g where g: "jget ''security_evidence'' d = JObj g" "jget ''source_sha'' g = JStr (ss_candidate_sha spec)"
    "jget ''image_digest'' g = JStr digest" "jget ''security_gate_accepted'' g = JBool True"
    "ss_require_promotion spec \<longrightarrow> jget ''promotion_authorized'' g = JBool True"
    "f = \<lparr>if_service = service, if_image = r, if_digest = digest, if_evidence = g\<rparr>"
    by (auto simp: guardE_eq_Inr case_object_Inr)
  show ?thesis
    using h g JObj service_name_Inr [OF h(1)] full_image_ref_Inr [OF h(4)]
    by (auto simp: fragment_accepted_def)
qed (use assms in \<open>simp_all add: candidate_fragment_def\<close>)

lemma collect_fragments_Inr:
  "collect_fragments loads fs spec expected ps acc = Inr out \<Longrightarrow> distinct (map if_service acc) \<Longrightarrow>
     set (map if_service acc) \<subseteq> set expected \<Longrightarrow>
     distinct (map if_service out) \<and> set (map if_service out) \<subseteq> set expected
     \<and> (\<exists>new. out = acc @ new \<and> (\<forall>f \<in> set new. \<exists>p \<in> set ps. \<exists>content v. is_file fs p \<and> \<not> is_symlink fs p
           \<and> read_file fs p = Inr content \<and> loads content = Inr v
           \<and> fragment_accepted spec v (if_service f) (if_image f)))"
proof (induction ps arbitrary: acc)
  case (Cons p ps)
  then obtain v f where v: "read_json_file loads fs p ''candidate fragment'' = Inr v"
    "candidate_fragment spec expected (map if_service acc) v = Inr f"
    "collect_fragments loads fs spec expected ps (acc @ [f]) = Inr out"
    by (auto simp: bindE_eq_Inr)
  note f = candidate_fragment_Inr [OF v(2)]
  have "distinct (map if_service (acc @ [f]))" "set (map if_service (acc @ [f])) \<subseteq> set expected"
    using Cons.prems f by auto
  note ih = Cons.IH [OF v(3) this]
  obtain content where c: "is_file fs p" "\<not> is_symlink fs p" "read_file fs p = Inr content" "loads content = Inr v"
    using v(1) by (auto simp: read_json_file_def res_simps)
  from ih obtain new where new: "out = (acc @ [f]) @ new" "\<forall>f \<in> set new. \<exists>p \<in> set ps. \<exists>content v. is_file fs p \<and> \<not> is_symlink fs p
           \<and> read_file fs p = Inr content \<and> loads content = Inr v
           \<and> fragment_accepted spec v (if_service f) (if_image f)" by blast
  have "\<forall>g \<in> set (f # new). \<exists>q \<in> set (p # ps). \<exists>content v. is_file fs q \<and> \<not> is_symlink fs q
           \<and> read_file fs q = Inr content \<and> loads content = Inr v
           \<and> fragment_accepted spec v (if_service g) (if_image g)"
    using new(2) c f by (auto; blast)
  then show ?case using ih new(1) by (intro conjI exI [of _ "f # new"]) auto
qed simp

lemma unchanged_refs_Inr:
  "unchanged_refs spec us = Inr refs \<Longrightarrow>
     map fst refs = map fst us \<and> (\<forall>(n, r) \<in> set refs. immutable_ref spec n r)"
proof (induction us arbitrary: refs)
  case (Cons u us)
  obtain n im where u: "u = (n, im)" by (cases u)
  with Cons.prems obtain r d rs where r: "full_image_ref (jget ''image'' im) (ss_registry spec) (ss_namespace spec) n
      (''unchanged_images.'' @ n @ ''.image'') = Inr (r, d)" "unchanged_refs spec us = Inr rs" "refs = (n, r) # rs"
    by (auto simp: bindE_eq_Inr)
  show ?case using Cons.IH [OF r(2)] r(3) full_image_ref_Inr [OF r(1)] u by auto
qed simp

text \<open>
  The policy files the services name; the document of such a file; and what a valid entry says,
  for the active images.
\<close>

definition policy_names :: "jobj list \<Rightarrow> string set" where
  "policy_names ds = {r. r \<noteq> [] \<and> (\<exists>d \<in> set ds. jget_or ''security_exceptions_file'' (JStr []) d = JStr r)}"

definition declarations :: "json \<Rightarrow> jobj list" where
  "declarations v = (case v of JArr xs \<Rightarrow> objects xs | _ \<Rightarrow> [])"

definition policy_document ::
    "(string \<Rightarrow> json result) \<Rightarrow> fsys \<Rightarrow> string list \<Rightarrow> string \<Rightarrow> jobj \<Rightarrow> bool" where
  "policy_document loads fs policy_root r d \<longleftrightarrow>
     (let p = policy_root @ split_char CHR ''/'' r in
      is_file fs p \<and> (\<exists>raw. read_file fs p = Inr raw \<and> loads raw = Inr (JObj d))
      \<and> eq_int (jget ''version'' d) 1 \<and> set (jkeys d) = {''version'', ''vulnerabilities''})"

definition exception_valid :: "nat \<Rightarrow> string list \<Rightarrow> jobj \<Rightarrow> bool" where
  "exception_valid reference active e \<longleftrightarrow>
     exception_reviewed e
     \<and> (\<exists>x. parse_date (text_in ''expires'' e) = Some x \<and> reference \<le> x)
     \<and> (texts_in ''paths'' [] e \<noteq> [] \<or> texts_in ''purls'' [] e \<noteq> [])
     \<and> (''image'' \<in> set (texts_in ''scan_types'' [JStr ''image''] e) \<longrightarrow>
          set (texts_in ''targets'' [] e) \<subseteq> set active)"

lemma validate_exception_valid:
  assumes "validate_exception reference active i e = Inr identity"
  shows "exception_valid reference active e"
proof -
  from assms obtain m d types targets lineages paths purls u where h:
    "exception_meta_of e i = Inr m" "exception_expiry i (xm_expires_text m) = Inr d" "reference \<le> d"
    "exception_scan_types e i = Inr types" "string_list e ''targets'' i = Inr targets"
    "digest_list e ''lineage_digests'' i = Inr lineages" "string_list e ''paths'' i = Inr paths"
    "string_list e ''purls'' i = Inr purls"
    "validate_scope active i m types targets lineages paths purls = Inr u"
    by (auto simp only: validate_exception_def bindE_eq_Inr guardE_eq_Inr sum.inject)
  have m: "m = meta_of e" "exception_reviewed e" using exception_meta_Inr [OF h(1)] by auto
  have d: "parse_date (text_in ''expires'' e) = Some d"
    using h(2) m by (auto simp: exception_expiry_def split: option.splits)
  have types: "types \<noteq> []" "\<forall>t \<in> set types. t = ''fs'' \<or> t = ''image''"
    using h(4) by (auto simp: exception_scan_types_def res_simps list_all_iff)
  have scope: "''image'' \<in> set types \<Longrightarrow> set targets \<subseteq> set active \<and> (paths \<noteq> [] \<or> purls \<noteq> [])"
    "''fs'' \<in> set types \<Longrightarrow> paths \<noteq> []"
    using h(9) by (auto simp: validate_scope_def res_simps list_all_iff split: if_splits)
  have "paths \<noteq> [] \<or> purls \<noteq> []" using scope types by (cases types) auto
  then show ?thesis
    using m(2) d h(3) scope(1) scan_types_Inr [OF h(4)] string_list_Inr [OF h(5)] string_list_Inr [OF h(7)]
      string_list_Inr [OF h(8)]
    by (simp add: exception_valid_def)
qed

lemma validate_exceptions_valid:
  "validate_exceptions reference active i seen items = Inr u \<Longrightarrow>
     items = map JObj (objects items) \<and> list_all (exception_valid reference active) (objects items)"
proof (induction reference active i seen items rule: validate_exceptions.induct)
  case (2 reference active i seen entry rest)
  then obtain identity where one: "validate_exception reference active i entry = Inr identity"
    "\<not> List.member seen identity" "validate_exceptions reference active (Suc i) (identity # seen) rest = Inr u"
    by (auto simp: res_simps)
  show ?case using 2(1) [OF one] validate_exception_valid [OF one(1)] by simp
qed auto

lemma policy_file_Inr:
  assumes "policy_file loads sha fs base r = Inr (d, h)"
  shows "policy_document loads fs base r d"
proof -
  obtain raw where raw: "is_file fs (base @ split_char CHR ''/'' r)"
    "read_file fs (base @ split_char CHR ''/'' r) = Inr raw"
    and l: "bindE (except_raise (loads raw) [UnicodeDecodeError, JSONDecodeError]
                  (set_error ''exception policy must be valid UTF-8 JSON'')) (\<lambda>payload.
         case payload of
           JObj d \<Rightarrow>
             guardE (\<not> is_bool (jget ''version'' d) \<and> eq_int (jget ''version'' d) 1
                     \<and> set (jkeys d) = {''version'', ''vulnerabilities''}
                     \<and> is_array (jget ''vulnerabilities'' d))
               (set_error ''exception policy must use the supported version 1 schema'')
               (Inr (d, ''sha256:'' @ sha raw))
         | _ \<Rightarrow> Inl (set_error ''exception policy must use the supported version 1 schema'')) = Inr (d, h)"
    using assms by (auto simp only: policy_file_def Let_def bindE_eq_Inr guardE_eq_Inr)
  from l obtain v where v: "loads raw = Inr v" by (auto simp: res_simps)
  with l have "v = JObj d \<and> eq_int (jget ''version'' d) 1 \<and> set (jkeys d) = {''version'', ''vulnerabilities''}"
    by (cases v) (auto simp: except_raise_def guardE_eq_Inr)
  then show ?thesis using raw v by (simp add: policy_document_def)
qed

lemma policy_relative_path_Inr:
  "policy_relative_path v fld = Inr r \<Longrightarrow> v = JStr r \<or> v = JNull \<and> r = []"
  by (auto simp: policy_relative_path_def guardE_eq_Inr split: if_splits json.splits)

text \<open>Every policy a service names is loaded, each once.\<close>

lemma service_policies_Inr:
  "service_policies loads sha fs policy_root services fls hashes = Inr (out, hs) \<Longrightarrow>
     distinct (map fst fls) \<Longrightarrow> list_all (\<lambda>(r, d). policy_document loads fs policy_root r d) fls \<Longrightarrow>
     distinct (map fst out) \<and> list_all (\<lambda>(r, d). policy_document loads fs policy_root r d) out
     \<and> set (map fst out) = set (map fst fls) \<union> policy_names (map snd services)"
proof (induction services arbitrary: fls hashes)
  case Nil
  then show ?case by (simp add: policy_names_def)
next
  case (Cons s services)
  obtain name d where s: "s = (name, d)" by (cases s)
  obtain r where r: "policy_relative_path (jget_or ''security_exceptions_file'' (JStr []) d)
      (name @ ''.security_exceptions_file'') = Inr r"
    using Cons.prems(1) unfolding s by (auto simp: bindE_eq_Inr)
  have names: "policy_names (map snd (s # services)) = policy_names (map snd services) \<union> (if r = [] then {} else {r})"
    using policy_relative_path_Inr [OF r] by (auto simp: policy_names_def s)
  show ?case
  proof (cases "r = []")
    case True
    then show ?thesis using Cons.prems(1) r Cons.IH [OF _ Cons.prems(2,3)] names by (simp add: s)
  next
    case False
    then obtain payload digest where p: "policy_file loads sha fs policy_root r = Inr (payload, digest)"
      "service_policies loads sha fs policy_root services
         (if List.member (map fst fls) r then fls else fls @ [(r, payload)]) (hashes @ [(name, digest)]) = Inr (out, hs)"
      using Cons.prems(1) r unfolding s by (auto simp: bindE_eq_Inr)
    show ?thesis
    proof (cases "List.member (map fst fls) r")
      case True
      then show ?thesis using Cons.IH [OF p(2)] Cons.prems(2,3) names False by auto
    next
      case new: False
      then have "distinct (map fst (fls @ [(r, payload)]))"
        "list_all (\<lambda>(r, d). policy_document loads fs policy_root r d) (fls @ [(r, payload)])"
        using Cons.prems(2,3) policy_file_Inr [OF p(1)] by auto
      then show ?thesis using Cons.IH [OF p(2)] new names False by auto
    qed
  qed
qed

text \<open>The policies of a validated set hold for the active images.\<close>

lemma validate_policy_files_Inr:
  assumes "validate_policy_files loads fs reference policy_root policies ids = Inr n"
  shows "n = length (concat (map (policy_entries \<circ> snd) policies))
    \<and> validate_exceptions reference ids 0 [] (concat (map (policy_entries \<circ> snd) policies)) = Inr ()"
proof -
  from assms have "check_complete_policy reference (check_active_image_ids ids) ids
      (Inr (concat (map (policy_entries \<circ> snd) policies))) = Inr n"
    by (auto simp: validate_policy_files_def bindE_eq_Inr)
  then obtain active u where a: "check_active_image_ids ids = Inr active"
    "validate_exceptions reference active 0 [] (concat (map (policy_entries \<circ> snd) policies)) = Inr u"
    "n = length (concat (map (policy_entries \<circ> snd) policies))"
    by (auto simp only: check_complete_policy_def bindE_eq_Inr guardE_eq_Inr sum.inject)
  have "active = ids" using a(1) by (auto simp: check_active_image_ids_def guardE_eq_Inr)
  then show ?thesis using a by auto
qed

text \<open>The named policy files, each once, and the validity of all their entries\<close>

definition policies_valid ::
    "(string \<Rightarrow> json result) \<Rightarrow> fsys \<Rightarrow> nat \<Rightarrow> string list \<Rightarrow> jobj list \<Rightarrow> string list \<Rightarrow> nat option \<Rightarrow> bool" where
  "policies_valid loads fs reference policy_root ds active exception_count \<longleftrightarrow>
     (\<exists>ps. distinct (map fst ps) \<and> set (map fst ps) = policy_names ds
       \<and> (\<forall>(r, d) \<in> set ps. policy_document loads fs policy_root r d
            \<and> (\<forall>v \<in> set (array_of ''vulnerabilities'' d). \<exists>e. v = JObj e \<and> exception_valid reference active e))
       \<and> exception_count = Some (sum_list (map (\<lambda>(r, d). length (array_of ''vulnerabilities'' d)) ps)))"

lemma check_final_set_Inr:
  assumes "check_final_set loads sha fs reference policy_root spec final_services images = Inr s"
  shows "fs_images s = images \<and> distinct (map (after_last_at \<circ> snd) images)
    \<and> (ss_validate_policies spec \<longrightarrow> policies_valid loads fs reference policy_root (map snd final_services)
         (map (after_last_at \<circ> snd) images) (fs_exception_count s))"
proof (cases "ss_validate_policies spec")
  case False
  then show ?thesis using assms by (auto simp: check_final_set_def Let_def guardE_eq_Inr)
next
  case True
  let ?ids = "map (after_last_at \<circ> snd) images"
  obtain ps hs n where h: "distinct ?ids" "fs_images s = images"
    "service_policies loads sha fs policy_root final_services [] [] = Inr (ps, hs)"
    "validate_policy_files loads fs reference policy_root ps ?ids = Inr n" "fs_exception_count s = Some n"
    using assms True by (auto simp: check_final_set_def Let_def guardE_eq_Inr bindE_eq_Inr)
  note sp = service_policies_Inr [OF h(3), simplified]
  note vp = validate_policy_files_Inr [OF h(4)]
  let ?es = "concat (map (policy_entries \<circ> snd) ps)"
  have es: "?es = map JObj (objects ?es)" "list_all (exception_valid reference ?ids) (objects ?es)"
    using validate_exceptions_valid [of reference ?ids 0 "[]" ?es] vp by blast+
  have "\<exists>e. v = JObj e \<and> exception_valid reference ?ids e" if "v \<in> set ?es" for v
    using that es by (metis (no_types, lifting) imageE list.set_map list_all_iff)
  then have "\<forall>(r, d) \<in> set ps. policy_document loads fs policy_root r d
      \<and> (\<forall>v \<in> set (array_of ''vulnerabilities'' d). \<exists>e. v = JObj e \<and> exception_valid reference ?ids e)"
    using sp by (fastforce simp: policy_entries_def list_all_iff)
  moreover have "n = sum_list (map (\<lambda>(r, d). length (array_of ''vulnerabilities'' d)) ps)"
    using vp by (simp add: length_concat comp_def policy_entries_def case_prod_unfold)
  ultimately have "policies_valid loads fs reference policy_root (map snd final_services) ?ids (Some n)"
    using sp unfolding policies_valid_def by (intro exI [of _ ps]) simp
  then show ?thesis using h by simp
qed

lemma sorted_images:
  assumes "distinct (map fst xs)"
  shows "sorted (map fst (sort_key fst xs)) \<and> distinct (map fst (sort_key fst xs))
    \<and> set (map fst (sort_key fst xs)) = fst ` set xs"
  using assms by (simp add: distinct_map)

text \<open>
  C32: A final set is validated only if its images are, in the order of their names, exactly the
  declared candidate services and the declared unchanged services, every service once, each by an
  immutable reference of the configured registry and namespace and no digest twice; every candidate
  service has a regular fragment file whose document names the requested commit and was accepted by
  the security gate for exactly that image. If policies are validated, the policy files the
  declared and the unchanged services name are exactly the ones read, each once, each a version 1
  document below the policy root; every entry of every one of them has its review fields, is not
  expired on the day of the run, is scoped by paths or package URLs and, for image scans, targets
  images of the final set only; and the reported number of exceptions is that of these entries.
\<close>

theorem publisher_set_exact:
  assumes "collect_final_set loads sha fs reference fragments_dir found policy_root spec services unchanged_images = Inr s"
  shows "sorted (map fst (fs_images s)) \<and> distinct (map fst (fs_images s))
     \<and> set (map fst (fs_images s)) = set (declared ''name'' services) \<union> set (declared ''service'' unchanged_images)
     \<and> (\<forall>(n, r) \<in> set (fs_images s). immutable_ref spec n r)
     \<and> distinct (map (after_last_at \<circ> snd) (fs_images s))
     \<and> (\<forall>n \<in> set (declared ''name'' services). \<exists>r. (n, r) \<in> set (fs_images s) \<and>
          (\<exists>rel \<in> set found. \<exists>content v. is_file fs (fragments_dir @ rel) \<and> \<not> is_symlink fs (fragments_dir @ rel)
             \<and> read_file fs (fragments_dir @ rel) = Inr content \<and> loads content = Inr v \<and> fragment_accepted spec v n r))
     \<and> (ss_validate_policies spec \<longrightarrow> policies_valid loads fs reference policy_root
          (declarations services @ declarations unchanged_images) (map (after_last_at \<circ> snd) (fs_images s))
          (fs_exception_count s))"
proof -
  from assms obtain ss us expected unchanged files fragments refs where
    h: "check_set_spec spec services unchanged_images = Inr (ss, us)" "collect_services 0 ss [] = Inr expected"
    "collect_unchanged (map fst expected) 0 us [] = Inr unchanged" "candidate_fragment_files fs fragments_dir found = Inr files"
    "collect_fragments loads fs spec (map fst expected) (map ((@) fragments_dir) files) [] = Inr fragments"
    "set (map if_service fragments) = set (map fst expected)" "unchanged_refs spec unchanged = Inr refs"
    and rest: "check_final_set loads sha fs reference policy_root spec (expected @ unchanged)
        (sort_key fst (map (\<lambda>f. (if_service f, if_image f)) fragments @ refs)) = Inr s"
    by (auto simp only: collect_final_set_def bindE_eq_Inr guardE_eq_Inr fst_conv snd_conv split_paired_Ex)
  let ?all = "map (\<lambda>f. (if_service f, if_image f)) fragments @ refs"
  have s: "fs_images s = sort_key fst ?all" "distinct (map (after_last_at \<circ> snd) (fs_images s))"
    "ss_validate_policies spec \<longrightarrow> policies_valid loads fs reference policy_root (map snd (expected @ unchanged))
       (map (after_last_at \<circ> snd) (fs_images s)) (fs_exception_count s)"
    using check_final_set_Inr [OF rest] by simp_all
  have sv: "services = JArr ss" "unchanged_images = JArr us"
    using h(1) by (auto simp: check_set_spec_def guardE_eq_Inr split: json.splits list.splits)
  have ff: "files = found" using h(4) by (auto simp: candidate_fragment_files_def res_simps)
  note e = collect_services_Inr [OF h(2), simplified]
  have u: "map fst unchanged = declared ''service'' (JArr us)" "distinct (map fst unchanged)"
      "set (map fst unchanged) \<inter> set (map fst expected) = {}" "map snd unchanged = objects us"
    proof -
    have "distinct (map fst ([] :: (string \<times> jobj) list))" "set (map fst ([] :: (string \<times> jobj) list)) \<inter> set (map fst expected) = {}" by simp_all
    note c = collect_unchanged_Inr [OF h(3) this]
    show "map fst unchanged = declared ''service'' (JArr us)" using c by (metis append_Nil list.map(1))
    show "distinct (map fst unchanged)" using c by blast
    show "map snd unchanged = objects us" using c by (metis append_Nil list.map(1))
    show "set (map fst unchanged) \<inter> set (map fst expected) = {}" using c by blast
  qed
  note fr = collect_fragments_Inr [OF h(5), simplified]
  note un = unchanged_refs_Inr [OF h(7)]
  have names: "map fst ?all = map if_service fragments @ map fst unchanged" using un by (simp add: comp_def)
  have d: "distinct (map fst ?all)" unfolding names using fr u(2,3) h(6) by auto
  note so = sorted_images [OF d, folded s(1)]
  have acc: "\<forall>f \<in> set fragments. \<exists>rel \<in> set found. \<exists>content v. is_file fs (fragments_dir @ rel)
      \<and> \<not> is_symlink fs (fragments_dir @ rel) \<and> read_file fs (fragments_dir @ rel) = Inr content \<and> loads content = Inr v
      \<and> fragment_accepted spec v (if_service f) (if_image f)"
    using fr ff by auto
  then have imm: "\<forall>(n, r) \<in> set (fs_images s). immutable_ref spec n r"
    using un unfolding s(1) by (fastforce simp: fragment_accepted_def)
  have cand: "\<exists>r. (n, r) \<in> set (fs_images s) \<and> (\<exists>rel \<in> set found. \<exists>content v. is_file fs (fragments_dir @ rel)
      \<and> \<not> is_symlink fs (fragments_dir @ rel) \<and> read_file fs (fragments_dir @ rel) = Inr content \<and> loads content = Inr v
      \<and> fragment_accepted spec v n r)" if "n \<in> set (declared ''name'' services)" for n
  proof -
    have "n \<in> set (map if_service fragments)" using that h(6) e sv(1) by simp
    then obtain f where f: "f \<in> set fragments" "n = if_service f" by auto
    then have "(n, if_image f) \<in> set (fs_images s)" unfolding s(1) by auto
    then show ?thesis using acc f by blast
  qed
  have "set (map fst (fs_images s)) = set (declared ''name'' services) \<union> set (declared ''service'' unchanged_images)"
    using so names e u h(6) sv by (metis list.set_map set_append)
  moreover have "map snd (expected @ unchanged) = declarations services @ declarations unchanged_images"
    using e u(4) by (simp add: declarations_def sv)
  then have "ss_validate_policies spec \<longrightarrow> policies_valid loads fs reference policy_root
      (declarations services @ declarations unchanged_images) (map (after_last_at \<circ> snd) (fs_images s))
      (fs_exception_count s)"
    using s(3) by simp
  ultimately show ?thesis using so imm s(2) cand by (intro conjI ballI) (simp_all only:)
qed

section \<open>A concrete release\<close>

definition demo_sha40 :: string where "demo_sha40 = replicate 40 (CHR ''a'')"

definition demo_set_spec :: set_spec where
  "demo_set_spec = \<lparr>ss_candidate_sha = demo_sha40, ss_registry = ''r.io'', ss_namespace = ''o'',
     ss_validate_policies = True, ss_set_complete = True, ss_require_promotion = True,
     ss_require_attestations = True\<rparr>"

definition demo_release_ref :: string where "demo_release_ref = ''r.io/o/app@'' @ demo_image"

definition demo_fragment :: jobj where
  "demo_fragment =
     [(''service'', JStr ''app''), (''candidate_sha'', JStr demo_sha40),
      (''image'', JStr demo_release_ref), (''digest'', JStr demo_image),
      (''attestation_verified'', JBool True),
      (''security_evidence'', JObj [(''source_sha'', JStr demo_sha40), (''image_digest'', JStr demo_image),
         (''security_gate_accepted'', JBool True), (''promotion_authorized'', JBool True)])]"

definition demo_release_fs :: fsys where
  "demo_release_fs = \<lparr>nodes = [[''f''] \<mapsto> Dir, [''f'', ''a''] \<mapsto> File ''{}'', [''p''] \<mapsto> Dir,
     [''p'', ''e''] \<mapsto> File ''policy''], cwd = []\<rparr>"

definition demo_service :: jobj where
  "demo_service = [(''name'', JStr ''app''), (''security_exceptions_file'', JStr ''e'')]"

definition demo_fragment_loads :: "string \<Rightarrow> json result" where
  "demo_fragment_loads s = (if s = ''policy'' then demo_policy_loads s else Inr (JObj demo_fragment))"

definition demo_final_set :: final_set where
  "demo_final_set = \<lparr>fs_images = [(''app'', demo_release_ref)], fs_ids = [demo_image],
     fs_policy_hashes = [(''app'', ''sha256:policy'')], fs_exception_count = Some 1\<rparr>"

lemma demo_release_parts:
  "check_set_spec demo_set_spec (JArr [JObj demo_service]) (JArr []) = Inr ([JObj demo_service], [])"
  "collect_services 0 [JObj demo_service] [] = Inr [(''app'', demo_service)]"
  "candidate_fragment_files demo_release_fs [''f''] [[''a'']] = Inr [[''a'']]"
  "is_file demo_release_fs [''f'', ''a'']" "is_symlink demo_release_fs [''f'', ''a''] = False"
  "read_file demo_release_fs [''f'', ''a''] = Inr ''{}''"
  "is_symlink demo_release_fs [''p''] = False" "is_dir demo_release_fs [''p'']"
  "walk demo_release_fs True link_limit [] [''p''] = Inr [''p'']"
  "walk demo_release_fs True link_limit [] [''p'', ''e''] = Inr [''p'', ''e'']"
  "is_file demo_release_fs [''p'', ''e'']" "read_file demo_release_fs [''p'', ''e''] = Inr ''policy''"
  "link_below demo_release_fs [''p''] [''e''] = False"
  "policy_relative_path (JStr ''e'') ''app.security_exceptions_file'' = Inr ''e''"
  "split_char CHR ''/'' ''e'' = [''e'']" "jget_or ''security_exceptions_file'' (JStr []) demo_service = JStr ''e''"
  by code_simp+

lemma demo_fragment_parts:
  "service_name (JStr ''app'') ''candidate fragment service'' = Inr ''app''"
  "full_image_ref (JStr demo_release_ref) ''r.io'' ''o'' ''app'' ''candidate fragment image''
     = Inr (demo_release_ref, demo_image)"
  "after_last_at demo_release_ref = demo_image"
  by code_simp+

lemma demo_fragment_accepted:
  "candidate_fragment demo_set_spec [''app''] [] (JObj demo_fragment)
     = Inr \<lparr>if_service = ''app'', if_image = demo_release_ref, if_digest = demo_image,
            if_evidence = [(''source_sha'', JStr demo_sha40), (''image_digest'', JStr demo_image),
              (''security_gate_accepted'', JBool True), (''promotion_authorized'', JBool True)]\<rparr>"
proof -
  have s: "ss_registry demo_set_spec = ''r.io''" "ss_namespace demo_set_spec = ''o''"
    "ss_candidate_sha demo_set_spec = demo_sha40" by (simp_all add: demo_set_spec_def)
  have f: "jget ''service'' demo_fragment = JStr ''app''" "jget ''candidate_sha'' demo_fragment = JStr demo_sha40"
    "jget ''image'' demo_fragment = JStr demo_release_ref" "jget ''digest'' demo_fragment = JStr demo_image"
    "jget ''attestation_verified'' demo_fragment = JBool True"
    "jget ''security_evidence'' demo_fragment = JObj [(''source_sha'', JStr demo_sha40), (''image_digest'', JStr demo_image),
         (''security_gate_accepted'', JBool True), (''promotion_authorized'', JBool True)]"
    by (simp_all add: demo_fragment_def)
  show ?thesis by (simp add: candidate_fragment_def f s demo_fragment_parts)
qed

definition demo_policy_doc :: jobj where
  "demo_policy_doc = [(''version'', JInt 1), (''vulnerabilities'', JArr [JObj demo_targeted])]"

lemma demo_policy_read:
  "policy_file demo_fragment_loads id demo_release_fs [''p''] ''e'' = Inr (demo_policy_doc, ''sha256:policy'')"
  by (simp add: policy_file_def Let_def demo_release_parts demo_fragment_loads_def demo_policy_loads_def
      demo_policy_doc_def MAX_JSON_BYTES_def is_array_def jkeys_def)

lemma demo_policy_validated:
  "validate_policy_files demo_fragment_loads demo_release_fs demo_expiry [''p''] [(''e'', demo_policy_doc)] [demo_image] = Inr 1"
proof -
  have e: "array_of ''vulnerabilities'' demo_policy_doc = [JObj demo_targeted]"
    by (simp add: array_of_def demo_policy_doc_def)
  have v: "validate_exceptions demo_expiry [demo_image] 0 [] [JObj demo_targeted] = Inr ()"
    by (rule demo_targeted_valid)
  then obtain r m where "render_exceptions demo_expiry ''image'' demo_image [] 0 [JObj demo_targeted] = Inr (r, m)"
    using validated_exceptions_render [OF v] by blast
  moreover have "load_exception_entries demo_fragment_loads demo_release_fs (Path True [''p'', ''e'']) = Inr [JObj demo_targeted]"
    by (simp add: load_exception_entries_def absolute_def demo_release_parts demo_fragment_loads_def demo_policy_loads_def)
  ultimately show ?thesis
    using v by (simp add: validate_policy_files_def check_complete_policy_def check_active_image_ids_def
        demo_image_facts policy_entries_def e demo_release_parts(15))
qed

lemma demo_release:
  "collect_final_set demo_fragment_loads id demo_release_fs demo_expiry [''f''] [[''a'']] [''p''] demo_set_spec
     (JArr [JObj demo_service]) (JArr []) = Inr demo_final_set"
proof -
  have "read_json_file demo_fragment_loads demo_release_fs [''f'', ''a''] ''candidate fragment'' = Inr (JObj demo_fragment)"
    by (simp add: read_json_file_def demo_release_parts demo_fragment_loads_def MAX_JSON_BYTES_def)
  then have "collect_fragments demo_fragment_loads demo_release_fs demo_set_spec [''app''] [[''f'', ''a'']] []
      = Inr [\<lparr>if_service = ''app'', if_image = demo_release_ref, if_digest = demo_image,
            if_evidence = [(''source_sha'', JStr demo_sha40), (''image_digest'', JStr demo_image),
              (''security_gate_accepted'', JBool True), (''promotion_authorized'', JBool True)]\<rparr>]"
    by (simp add: demo_fragment_accepted)
  moreover have "service_policies demo_fragment_loads id demo_release_fs [''p''] [(''app'', demo_service)] [] []
      = Inr ([(''e'', demo_policy_doc)], [(''app'', ''sha256:policy'')])"
    using demo_policy_read by (simp add: demo_release_parts)
  moreover note demo_policy_validated
  moreover have "ss_validate_policies demo_set_spec" by (simp add: demo_set_spec_def)
  ultimately show ?thesis
    by (simp add: collect_final_set_def demo_release_parts check_final_set_def Let_def demo_fragment_parts(3)
        demo_final_set_def del: collect_fragments.simps service_policies.simps collect_services.simps)
qed

theorem publisher_set_exact_witness:
  "set (map fst (fs_images demo_final_set)) = {''app''} \<and> fs_exception_count demo_final_set = Some 1
   \<and> fragment_accepted demo_set_spec (JObj demo_fragment) ''app'' demo_release_ref
   \<and> policies_valid demo_fragment_loads demo_release_fs demo_expiry [''p''] [demo_service] [demo_image] (Some 1)"
proof -
  note x = publisher_set_exact [OF demo_release]
  have f: "fs_images demo_final_set = [(''app'', demo_release_ref)]" "fs_exception_count demo_final_set = Some 1"
    "declared ''name'' (JArr [JObj demo_service]) = [''app'']" "ss_validate_policies demo_set_spec"
    "declarations (JArr [JObj demo_service]) @ declarations (JArr []) = [demo_service]"
    by (simp_all add: demo_final_set_def declared_def demo_service_def demo_set_spec_def declarations_def)
  have "policies_valid demo_fragment_loads demo_release_fs demo_expiry [''p''] [demo_service] [demo_image] (Some 1)"
    using x f demo_fragment_parts(3) by simp
  moreover obtain rel content v where "rel \<in> {''a'' # []}" "read_file demo_release_fs ([''f''] @ rel) = Inr content"
    "demo_fragment_loads content = Inr v" "fragment_accepted demo_set_spec v ''app'' demo_release_ref"
    using x f by auto
  ultimately show ?thesis
    using f x demo_release_parts(6) by (auto simp: demo_fragment_loads_def)
qed

end
