(* ===== verification/Validation.thy ===== *)
theory Validation
  imports Security_Common FileOutput World
begin

text \<open>
  Exact-commit validation: \<open>scripts/validation_attestation/attestation.py\<close> attests which required
  checks of one commit succeeded, and \<open>scripts/validation_authorization/authorize.py\<close> authorises
  a delivery on such an attestation. \<open>loads\<close> is \<open>json.loads\<close>, \<open>sha\<close> the hex form of
  \<open>hashlib.sha256\<close>, \<open>canon\<close> and \<open>dumps\<close> are \<open>json.dumps\<close> with the options of the two calls.
  The last theorem composes the two programs.
\<close>

definition val_error :: "string \<Rightarrow> exc" where "val_error m = Exc ValueError m"

definition VALIDATION_SHA :: rx where "VALIDATION_SHA = Seq (fixed (replicate 40 hex_lower)) Eos"

section \<open>The attestation\<close>

definition VALIDATION_PATHS :: "string list" where
  "VALIDATION_PATHS = [''hosted'', ''self-hosted'', ''ephemeral-pr'', ''reviewed-emergency'']"

definition CHECK_RESULTS :: "string list" where
  "CHECK_RESULTS = [''success'', ''failure'', ''cancelled'', ''skipped'']"

record attest_args =
  at_repository :: string
  at_candidate_sha :: string
  at_context_sha :: string
  at_validation_path :: string
  at_required_checks :: string
  at_results :: string
  at_workflow_repository :: string
  at_workflow_ref :: string
  at_workflow_sha :: string
  at_run_id :: string

definition parse_array :: "(string \<Rightarrow> json result) \<Rightarrow> string \<Rightarrow> string \<Rightarrow> json list result" where
  "parse_array loads s label =
     bindE (except_raise (loads s) [JSONDecodeError] (val_error (label @ '' must be valid JSON'')))
       (\<lambda>v. case v of JArr xs \<Rightarrow> Inr xs | _ \<Rightarrow> Inl (val_error (label @ '' has an invalid type'')))"

definition parse_dict :: "(string \<Rightarrow> json result) \<Rightarrow> string \<Rightarrow> string \<Rightarrow> jobj result" where
  "parse_dict loads s label =
     bindE (except_raise (loads s) [JSONDecodeError] (val_error (label @ '' must be valid JSON'')))
       (\<lambda>v. case v of JObj d \<Rightarrow> Inr d | _ \<Rightarrow> Inl (val_error (label @ '' has an invalid type'')))"

fun nonempty_texts :: "json list \<Rightarrow> string list option" where
  "nonempty_texts [] = Some []"
| "nonempty_texts (JStr s # rest) =
     (if s = [] then None else map_option (Cons s) (nonempty_texts rest))"
| "nonempty_texts (_ # rest) = None"

definition required_checks :: "json list \<Rightarrow> string list result" where
  "required_checks xs =
     (case nonempty_texts xs of
        Some names \<Rightarrow>
          guardE (names \<noteq> []) (val_error ''required checks must be a non-empty string array'')
          (guardE (distinct names) (val_error ''required checks must be unique'') (Inr names))
      | None \<Rightarrow> Inl (val_error ''required checks must be a non-empty string array''))"

text \<open>\<open>any(value not in RESULTS for value in values)\<close>: the first list or object cannot be hashed.\<close>

fun check_values :: "json list \<Rightarrow> unit result" where
  "check_values [] = Inr ()"
| "check_values (JStr s # rest) =
     (if List.member CHECK_RESULTS s then check_values rest
      else Inl (val_error ''result value is not allowed''))"
| "check_values (JArr _ # rest) = Inl (Exc TypeError ''unhashable type: list'')"
| "check_values (JObj _ # rest) = Inl (Exc TypeError ''unhashable type: dict'')"
| "check_values (_ # rest) = Inl (val_error ''result value is not allowed'')"

definition blocking_checks :: "string list \<Rightarrow> jobj \<Rightarrow> string list" where
  "blocking_checks required results = sort (filter (\<lambda>n. jget n results \<noteq> JStr ''success'') required)"

definition attestation :: "attest_args \<Rightarrow> string list \<Rightarrow> jobj \<Rightarrow> jobj" where
  "attestation a required results =
     (let blocking = blocking_checks required results in
      [(''schema_version'', JInt 1), (''repository'', JStr (at_repository a)),
       (''validated_sha'', JStr (at_candidate_sha a)),
       (''validation_path'', JStr (at_validation_path a)),
       (''required_checks'', JArr (map JStr (sort required))),
       (''check_results'', JObj (map (\<lambda>n. (n, jget n results)) (sort (jkeys results)))),
       (''blocking_checks'', JArr (map JStr blocking)),
       (''result'', JStr (if blocking \<noteq> [] then ''failed'' else ''passed'')),
       (''actions_workflow_repository'', JStr (at_workflow_repository a)),
       (''actions_workflow_ref'', JStr (at_workflow_ref a)),
       (''actions_workflow_sha'', JStr (at_workflow_sha a)), (''run_id'', JStr (at_run_id a))])"

definition check_commits :: "attest_args \<Rightarrow> unit result" where
  "check_commits a =
     guardE (fullmatch VALIDATION_SHA (at_candidate_sha a))
       (val_error ''candidate SHA must be a lowercase 40-character Git SHA'')
     (guardE (fullmatch VALIDATION_SHA (at_context_sha a))
       (val_error ''caller context SHA must be a lowercase 40-character Git SHA'')
     (guardE (fullmatch VALIDATION_SHA (at_workflow_sha a))
       (val_error ''workflow SHA must be a lowercase 40-character Git SHA'')
     (guardE (at_candidate_sha a = at_context_sha a)
       (val_error ''candidate SHA must equal caller context SHA'')
     (guardE (List.member VALIDATION_PATHS (at_validation_path a))
       (val_error ''validation path is not allowed'') (Inr ())))))"

text \<open>The payload with its digest, the blocking checks, and the digest\<close>

definition attest ::
    "(string \<Rightarrow> json result) \<Rightarrow> (string \<Rightarrow> string) \<Rightarrow> (json \<Rightarrow> string) \<Rightarrow> attest_args
     \<Rightarrow> (jobj \<times> string list \<times> string) result" where
  "attest loads sha canon a =
     bindE (check_commits a) (\<lambda>_.
     bindE (parse_array loads (at_required_checks a) ''required checks'') (\<lambda>required_json.
     bindE (parse_dict loads (at_results a) ''results'') (\<lambda>results.
     bindE (required_checks required_json) (\<lambda>required.
     guardE (set (jkeys results) = set required)
       (val_error ''results must contain exactly the required checks'')
     (bindE (check_values (map snd results)) (\<lambda>_.
        let payload = attestation a required results;
            digest = ''sha256:'' @ sha (canon (JObj payload)) in
        Inr (dict_set ''evidence_digest'' (JStr digest) payload, blocking_checks required results, digest)))))))"

definition attest_outputs :: "attest_args \<Rightarrow> jobj \<Rightarrow> string \<Rightarrow> string \<Rightarrow> (string \<times> string) list" where
  "attest_outputs a payload digest evidence_path =
     [(''result'', case jget ''result'' payload of JStr s \<Rightarrow> s | _ \<Rightarrow> []),
      (''validated_sha'', at_candidate_sha a), (''validation_path'', at_validation_path a),
      (''evidence_digest'', digest), (''actions_workflow_sha'', at_workflow_sha a),
      (''evidence_path'', evidence_path)]"

definition output_block :: "(string \<times> string) list \<Rightarrow> string" where
  "output_block fs = concat (map (\<lambda>(k, v). k @ ''='' @ v @ [LF]) fs)"

text \<open>
  \<open>main\<close> from the parsed arguments: the evidence is written, the outputs are appended when a
  file for them is named, and the return value is 1 when a check blocks.
\<close>

definition attest_main ::
    "(string \<Rightarrow> json result) \<Rightarrow> (string \<Rightarrow> string) \<Rightarrow> (json \<Rightarrow> string) \<Rightarrow> (json \<Rightarrow> string) \<Rightarrow> attest_args
     \<Rightarrow> path \<Rightarrow> path option \<Rightarrow> (fsys, nat) action" where
  "attest_main loads sha canon dumps a evidence github_output =
     bindW (liftW (attest loads sha canon a)) (\<lambda>(payload, blocking, digest).
     bindW (\<lambda>fs. mkdir_parents (butlast (parts (absolute fs evidence))) fs) (\<lambda>_.
     bindW (\<lambda>fs. write_text (parts (absolute fs evidence)) (dumps (JObj payload) @ [LF]) fs) (\<lambda>_.
     bindW (\<lambda>fs. case github_output of
              Some p \<Rightarrow> append_text (parts (absolute fs p))
                (output_block (attest_outputs a payload digest (path_text evidence))) fs
            | None \<Rightarrow> (Inr (), fs)) (\<lambda>_.
       liftW (Inr (if blocking \<noteq> [] then 1 else 0))))))"

section \<open>The authorisation\<close>

definition EVIDENCE_DIGEST :: rx where
  "EVIDENCE_DIGEST = Seq (fixed (map (\<lambda>c x. x = c) ''sha256:'' @ replicate 64 hex_lower)) Eos"

record authorize_args =
  au_gate_job_result :: string
  au_gate_result :: string
  au_validated_sha :: string
  au_candidate_sha :: string
  au_evidence_digest :: string
  au_workflow_sha :: string
  au_validation_path :: string
  au_candidate_ref :: string
  au_required_ref :: string
  au_allowed_paths :: string

definition auth_error :: "string \<Rightarrow> exc" where "auth_error m = Exc AuthorizationError m"

definition parse_allowed_paths :: "(string \<Rightarrow> json result) \<Rightarrow> string \<Rightarrow> string list result" where
  "parse_allowed_paths loads s =
     bindE (except_raise (loads s) [JSONDecodeError] (val_error ''allowed paths must be valid JSON''))
       (\<lambda>v. case v of
          JArr xs \<Rightarrow>
            (case nonempty_texts xs of
               Some paths \<Rightarrow>
                 guardE (paths \<noteq> []) (val_error ''allowed paths must be a non-empty string array'')
                 (guardE (distinct paths) (val_error ''allowed paths must be unique'') (Inr paths))
             | None \<Rightarrow> Inl (val_error ''allowed paths must be a non-empty string array''))
        | _ \<Rightarrow> Inl (val_error ''allowed paths must be a non-empty string array''))"

definition require_sha :: "string \<Rightarrow> string \<Rightarrow> unit result" where
  "require_sha v label =
     guardE (fullmatch VALIDATION_SHA v)
       (val_error (label @ '' must be a lowercase 40-character Git SHA'')) (Inr ())"

definition authorize :: "(string \<Rightarrow> json result) \<Rightarrow> authorize_args \<Rightarrow> (string \<times> string) list result" where
  "authorize loads a =
     guardE (List.member CHECK_RESULTS (au_gate_job_result a)) (val_error ''gate job result is not allowed'')
     (guardE (List.member [''passed'', ''failed''] (au_gate_result a)) (val_error ''gate result is not allowed'')
     (bindE (require_sha (au_validated_sha a) ''validated SHA'') (\<lambda>_.
      bindE (require_sha (au_candidate_sha a) ''candidate SHA'') (\<lambda>_.
      bindE (require_sha (au_workflow_sha a) ''Actions workflow SHA'') (\<lambda>_.
      guardE (fullmatch EVIDENCE_DIGEST (au_evidence_digest a))
        (val_error ''evidence digest must use sha256:<64 lowercase hex>'')
     (guardE (au_candidate_ref a \<noteq> [] \<and> au_required_ref a \<noteq> [])
        (val_error ''candidate ref and required ref must be non-empty'')
     (bindE (parse_allowed_paths loads (au_allowed_paths a)) (\<lambda>allowed_paths.
      guardE (au_gate_job_result a = ''success'') (auth_error ''gate job must succeed'')
     (guardE (au_gate_result a = ''passed'') (auth_error ''gate result must be passed'')
     (guardE (au_validated_sha a = au_candidate_sha a)
        (auth_error ''validated SHA must equal candidate SHA'')
     (guardE (List.member allowed_paths (au_validation_path a))
        (auth_error ''validation path is not allowed'')
     (guardE (au_candidate_ref a = au_required_ref a)
        (auth_error ''candidate ref must equal required ref'')
        (Inr [(''result'', ''authorized''), (''validated_sha'', au_validated_sha a),
              (''evidence_digest'', au_evidence_digest a),
              (''actions_workflow_sha'', au_workflow_sha a),
              (''validation_path'', au_validation_path a)])))))))))))))"

definition write_authorization :: "path option \<Rightarrow> (string \<times> string) list \<Rightarrow> (fsys, unit) action" where
  "write_authorization github_output outputs fs =
     (case github_output of
        Some p \<Rightarrow> append_text (parts (absolute fs p)) (output_block outputs) fs
      | None \<Rightarrow> (Inr (), fs))"

definition authorize_main ::
    "(string \<Rightarrow> json result) \<Rightarrow> authorize_args \<Rightarrow> path option \<Rightarrow> (fsys, nat) action" where
  "authorize_main loads a github_output =
     bindW (liftW (authorize loads a)) (\<lambda>outputs.
     bindW (write_authorization github_output outputs) (\<lambda>_. liftW (Inr 0)))"

text \<open>The exit code of either program; an exception it does not name ends the process with 1.\<close>

definition validation_exit :: "nat result \<Rightarrow> nat" where
  "validation_exit r =
     (case r of
        Inr n \<Rightarrow> n
      | Inl e \<Rightarrow> if catches [AuthorizationError] e then 1 else if catches [ValueError] e then 2 else 1)"

section \<open>What an attestation says\<close>

lemma check_values_Inr: "check_values vs = Inr () \<Longrightarrow> v \<in> set vs \<Longrightarrow> \<exists>s \<in> set CHECK_RESULTS. v = JStr s"
  by (induction vs rule: check_values.induct) (auto split: if_splits)

lemma nonempty_texts_iff: "nonempty_texts xs = Some names \<longleftrightarrow> xs = map JStr names \<and> [] \<notin> set names"
proof (induction xs arbitrary: names)
  case (Cons x xs)
  then show ?case by (cases x; cases names) auto
qed auto

lemma blocking_Nil: "blocking_checks required results = [] \<longleftrightarrow> (\<forall>n \<in> set required. jget n results = JStr ''success'')"
proof -
  have "blocking_checks required results = [] \<longleftrightarrow> filter (\<lambda>n. jget n results \<noteq> JStr ''success'') required = []"
    unfolding blocking_checks_def by (simp only: length_0_conv [symmetric] length_sort)
  then show ?thesis by (auto simp: filter_empty_conv)
qed

lemma attest_Inr:
  assumes "attest loads sha canon a = Inr (payload, blocking, digest)"
  obtains required results where "loads (at_required_checks a) = Inr (JArr (map JStr required))"
    "loads (at_results a) = Inr (JObj results)" "required \<noteq> []" "distinct required"
    "set (jkeys results) = set required" "check_values (map snd results) = Inr ()"
    "blocking = blocking_checks required results"
    "payload = dict_set ''evidence_digest'' (JStr digest) (attestation a required results)"
    "digest = ''sha256:'' @ sha (canon (JObj (attestation a required results)))"
    "check_commits a = Inr ()"
proof -
  from assms obtain rj results required where
    r: "parse_array loads (at_required_checks a) ''required checks'' = Inr rj"
      "parse_dict loads (at_results a) ''results'' = Inr results" "required_checks rj = Inr required"
    and rest: "set (jkeys results) = set required" "check_values (map snd results) = Inr ()"
    "blocking = blocking_checks required results"
    "payload = dict_set ''evidence_digest'' (JStr digest) (attestation a required results)"
    "digest = ''sha256:'' @ sha (canon (JObj (attestation a required results)))" "check_commits a = Inr ()"
    by (auto simp: attest_def bindE_eq_Inr guardE_eq_Inr Let_def)
  have "loads (at_required_checks a) = Inr (JArr rj)" "loads (at_results a) = Inr (JObj results)"
    using r(1,2) by (auto simp: parse_array_def parse_dict_def bindE_eq_Inr except_raise_eq_Inr case_array_Inr case_object_Inr)
  moreover have "rj = map JStr required" "required \<noteq> []" "distinct required"
    using r(3) by (auto simp: required_checks_def guardE_eq_Inr nonempty_texts_iff split: option.splits)
  ultimately show ?thesis using rest that by blast
qed

lemma payload_result:
  "jget ''result'' (dict_set ''evidence_digest'' d (attestation a required results))
     = JStr (if blocking_checks required results \<noteq> [] then ''failed'' else ''passed'')"
  by (simp add: jget_dict_set attestation_def Let_def)

lemma authorize_Inr:
  "authorize loads b = Inr outs \<longleftrightarrow>
     au_gate_job_result b = ''success'' \<and> au_gate_result b = ''passed''
     \<and> fullmatch VALIDATION_SHA (au_validated_sha b) \<and> fullmatch VALIDATION_SHA (au_workflow_sha b)
     \<and> fullmatch EVIDENCE_DIGEST (au_evidence_digest b)
     \<and> au_candidate_ref b \<noteq> [] \<and> au_candidate_ref b = au_required_ref b
     \<and> au_validated_sha b = au_candidate_sha b
     \<and> (\<exists>paths. parse_allowed_paths loads (au_allowed_paths b) = Inr paths \<and> au_validation_path b \<in> set paths)
     \<and> outs = [(''result'', ''authorized''), (''validated_sha'', au_validated_sha b),
              (''evidence_digest'', au_evidence_digest b),
              (''actions_workflow_sha'', au_workflow_sha b), (''validation_path'', au_validation_path b)]"
  by (auto simp: authorize_def require_sha_def bindE_eq_Inr guardE_eq_Inr CHECK_RESULTS_def)

section \<open>Properties\<close>


text \<open>
  C3: A delivery is authorised exactly for a commit whose required checks all succeeded. When
  the gate's outputs are those of an attestation, the job succeeds if nothing blocks, and the
  allowed paths and references are well formed, then authorisation succeeds if and only if
  every required check succeeded, the delivered commit is the attested one, its validation
  path is allowed and the references agree; it then hands on the attested digest.
\<close>

theorem authorised_iff_validated:
  assumes "attest loads sha canon a = Inr (payload, blocking, digest)"
    and "\<And>s. fullmatch (fixed (replicate 64 hex_lower)) (sha s)"
    and "parse_allowed_paths loads (au_allowed_paths b) = Inr paths"
    and "au_candidate_ref b \<noteq> []"
    and "au_gate_job_result b = (if blocking = [] then ''success'' else ''failure'')"
    and "JStr (au_gate_result b) = jget ''result'' payload"
    and "au_validated_sha b = at_candidate_sha a" and "au_workflow_sha b = at_workflow_sha a"
    and "au_validation_path b = at_validation_path a" and "au_evidence_digest b = digest"
    and "loads (at_required_checks a) = Inr (JArr (map JStr required))"
    and "loads (at_results a) = Inr (JObj results)"
  shows "(\<exists>outs. authorize loads b = Inr outs \<and> map_of outs ''evidence_digest'' = Some digest) \<longleftrightarrow>
    (\<forall>n \<in> set required. jget n results = JStr ''success'')
    \<and> au_candidate_sha b = at_context_sha a \<and> at_validation_path a \<in> set paths
    \<and> au_candidate_ref b = au_required_ref b"
proof -
  obtain required' results' where r: "loads (at_required_checks a) = Inr (JArr (map JStr required'))"
    "loads (at_results a) = Inr (JObj results')" "required' \<noteq> []" "distinct required'"
    "set (jkeys results') = set required'" "check_values (map snd results') = Inr ()"
    "blocking = blocking_checks required' results'"
    "payload = dict_set ''evidence_digest'' (JStr digest) (attestation a required' results')"
    "digest = ''sha256:'' @ sha (canon (JObj (attestation a required' results')))" "check_commits a = Inr ()"
    by (rule attest_Inr [OF assms(1)])
  have same: "required' = required" "results' = results"
    using r(1,2) assms(11,12) by (auto dest: map_injective simp: inj_def)
  have "fullmatch EVIDENCE_DIGEST digest"
    using assms(2) unfolding r(9) EVIDENCE_DIGEST_def fullmatch_Eos fullmatch_fixed
    by (intro list_all2_appendI) simp_all
  moreover have "fullmatch VALIDATION_SHA (at_candidate_sha a)" "fullmatch VALIDATION_SHA (at_workflow_sha a)"
    "at_candidate_sha a = at_context_sha a"
    using r(10) by (simp_all add: check_commits_def guardE_eq_Inr)
  moreover have "blocking = [] \<longleftrightarrow> (\<forall>n \<in> set required. jget n results = JStr ''success'')"
    using blocking_Nil r(7) same by simp
  moreover have "au_gate_result b = (if blocking = [] then ''passed'' else ''failed'')"
    using assms(6) r(7) unfolding r(8) payload_result by (simp split: if_splits)
  ultimately show ?thesis
    using assms(3-5,7-10) by (auto simp: authorize_Inr split: if_splits)
qed

section \<open>An attested commit\<close>

definition demo_commit :: string where "demo_commit = replicate 40 CHR ''a''"

definition attest_loads :: "string \<Rightarrow> json result" where
  "attest_loads s =
     (if s = ''required'' then Inr (JArr [JStr ''ci'', JStr ''lint''])
      else if s = ''results'' then Inr (JObj [(''ci'', JStr ''success''), (''lint'', JStr ''success'')])
      else Inr (JArr [JStr ''hosted'']))"

definition demo_attest :: attest_args where
  "demo_attest = \<lparr>at_repository = ''acme/api'', at_candidate_sha = demo_commit, at_context_sha = demo_commit,
     at_validation_path = ''hosted'', at_required_checks = ''required'', at_results = ''results'',
     at_workflow_repository = ''acme/actions'', at_workflow_ref = ''refs/heads/main'',
     at_workflow_sha = demo_commit, at_run_id = ''1''\<rparr>"

definition demo_authorize :: authorize_args where
  "demo_authorize = \<lparr>au_gate_job_result = ''success'', au_gate_result = ''passed'',
     au_validated_sha = demo_commit, au_candidate_sha = demo_commit,
     au_evidence_digest = ''sha256:'' @ replicate 64 CHR ''b'', au_workflow_sha = demo_commit,
     au_validation_path = ''hosted'', au_candidate_ref = ''refs/heads/main'',
     au_required_ref = ''refs/heads/main'', au_allowed_paths = ''paths''\<rparr>"

lemma demo_hex_texts:
  "fullmatch VALIDATION_SHA demo_commit" "fullmatch (fixed (replicate 64 hex_lower)) (replicate 64 CHR ''b'')"
  by code_simp+

lemma demo_attested:
  "\<exists>payload. attest attest_loads (\<lambda>s. replicate 64 CHR ''b'') (\<lambda>j. []) demo_attest
     = Inr (payload, [], ''sha256:'' @ replicate 64 CHR ''b'') \<and> jget ''result'' payload = JStr ''passed''"
proof -
  let ?res = "[(''ci'', JStr ''success''), (''lint'', JStr ''success'')]"
  have b: "blocking_checks [''ci'', ''lint''] ?res = []" by (simp add: blocking_Nil)
  have "parse_array attest_loads ''required'' l = Inr [JStr ''ci'', JStr ''lint'']"
    "parse_dict attest_loads ''results'' l = Inr ?res" for l
    by (simp_all add: parse_array_def parse_dict_def attest_loads_def)
  moreover have "required_checks [JStr ''ci'', JStr ''lint''] = Inr [''ci'', ''lint'']"
    by (simp add: required_checks_def)
  ultimately show ?thesis
    using b payload_result [of _ demo_attest "[''ci'', ''lint'']" ?res] demo_hex_texts
    by (simp add: attest_def check_commits_def demo_attest_def VALIDATION_PATHS_def CHECK_RESULTS_def jkeys_def Let_def)
qed


theorem authorised_iff_validated_witness:
  "\<exists>outs. authorize attest_loads demo_authorize = Inr outs
     \<and> map_of outs ''evidence_digest'' = Some (''sha256:'' @ replicate 64 CHR ''b'')"
proof -
  obtain payload where p: "attest attest_loads (\<lambda>s. replicate 64 CHR ''b'') (\<lambda>j. []) demo_attest
      = Inr (payload, [], ''sha256:'' @ replicate 64 CHR ''b'')" "jget ''result'' payload = JStr ''passed''"
    using demo_attested by blast
  have paths: "parse_allowed_paths attest_loads (au_allowed_paths demo_authorize) = Inr [''hosted'']"
    by (simp add: parse_allowed_paths_def attest_loads_def demo_authorize_def)
  have "attest_loads (at_required_checks demo_attest) = Inr (JArr (map JStr [''ci'', ''lint'']))"
    "attest_loads (at_results demo_attest) = Inr (JObj [(''ci'', JStr ''success''), (''lint'', JStr ''success'')])"
    by (simp_all add: attest_loads_def demo_attest_def)
  from authorised_iff_validated [OF p(1) demo_hex_texts(2) paths _ _ _ _ _ _ _ this] p(2)
  show ?thesis by (simp add: demo_authorize_def demo_attest_def)
qed

end
