(* ===== verification/Deploy_Record.thy ===== *)
theory Deploy_Record
  imports Delivery_Manifest Snapshot_Retention Retry_Decision Remediation_Window FileOutput
begin

text \<open>
  The record of a deployment on its host, \<open>scripts/deploy_manifest\<close>: \<open>write.py\<close> writes an
  immutable manifest and the pointer to the last successful one and expires old manifests,
  \<open>record.py\<close> collects the Docker state a manifest holds, \<open>remediation.py\<close> adds the state of
  the security remediation to it. \<open>listing\<close> is the names in a directory, \<open>loads\<close> and \<open>dumps\<close>
  are \<open>json.loads\<close> and \<open>json.dumps\<close>; the runner of Docker commands is a parameter. Modes and
  \<open>fsync\<close> are not modelled.
\<close>

section \<open>Scalars\<close>

definition BEARER_RE :: rx where
  "BEARER_RE = seqs [WordB, ilit ''bearer'', plus (Cls py_isspace),
     plus (Cls (\<lambda>c. is_alnum c \<or> one_of ''._~+/-'' c)), Star (Cls (one_of ''=''))]"

definition KEY_BLOCK_RE :: rx where
  "KEY_BLOCK_RE = seqs [lit ''-----BEGIN '', Star (Cls (\<lambda>c. is_upper c \<or> is_digit c \<or> c = CHR '' '')),
     lit ''PRIVATE KEY-----'']"

definition SIGNATURE_RE :: rx where
  "SIGNATURE_RE = seqs [alts [ilit ''x-amz-signature'', ilit ''x-goog-signature'', ilit ''signature'',
     ilit ''signed_url'', ilit ''sig''], lit ''='', plus (Cls (\<lambda>c. c \<noteq> CHR ''&'' \<and> \<not> py_isspace c))]"

definition DOTENV_RE :: rx where
  "DOTENV_RE = seqs [Alt Bol (Cls (one_of [CHR ''/'', backslash])), ilit ''.env'',
     Alt Eol (Cls (one_of [CHR ''.'', CHR ''/'', backslash]))]"

definition SECRET_VALUE_PATTERNS :: "rx list" where
  "SECRET_VALUE_PATTERNS = [SECRET_ASSIGN, BEARER_RE, KEY_BLOCK_RE, SIGNATURE_RE, DOTENV_RE]"

definition MAX_SCALAR_LENGTH :: nat where "MAX_SCALAR_LENGTH = 512"

definition record_scalar :: "string \<Rightarrow> json \<Rightarrow> string result" where
  "record_scalar name v =
     (case v of
        JStr s \<Rightarrow>
          guardE (s \<noteq> []) (value_error (name @ '' must not be empty''))
          (guardE (\<not> has_char LF s \<and> \<not> has_char CR s) (value_error (name @ '' must be a single-line value''))
          (guardE (length s \<le> MAX_SCALAR_LENGTH) (value_error (name @ '' exceeds 512 characters''))
          (guardE (\<not> list_ex (\<lambda>r. search r s) SECRET_VALUE_PATTERNS)
            (value_error (name @ '' contains prohibited secret-like data'')) (Inr s))))
      | _ \<Rightarrow> Inl (value_error (name @ '' must be a string'')))"

section \<open>Configuration\<close>

record deploy_config =
  dc_deploy_path :: path
  dc_status :: string
  dc_repository :: string
  dc_deployed_sha :: string
  dc_deployed_ref :: string
  dc_environment :: string
  dc_workflow :: string
  dc_run_id :: string
  dc_actor :: string
  dc_runner_name :: string
  dc_services :: "json list"
  dc_images :: "json list"
  dc_healthchecks :: "json list"
  dc_migration_result :: string
  dc_optional_build_result :: string
  dc_rollback_of :: "string option"
  dc_retention :: int
  dc_now :: "py_stamp option"

record deploy_record =
  dr_manifest_path :: "string list"
  dr_last_successful_path :: "string list"

definition COMPOSE_SERVICE_RE :: rx where
  "COMPOSE_SERVICE_RE = anchored (Seq (Cls is_alnum) (upto_rep 127 (Cls (\<lambda>c. is_alnum c \<or> one_of ''._-'' c))))"

definition HEALTHCHECK_STATUSES :: "string list" where
  "HEALTHCHECK_STATUSES = [''passed'', ''failed'', ''skipped'']"

definition STEP_RESULTS :: "string list" where
  "STEP_RESULTS = [''passed'', ''failed'', ''skipped'', ''not-reported'']"

definition DEPLOY_STATUSES :: "string list" where "DEPLOY_STATUSES = [''success'', ''failure'']"

definition validate_deploy_path :: "fsys \<Rightarrow> path \<Rightarrow> string list result" where
  "validate_deploy_path fs p =
     guardE (is_abs p) (value_error ''deploy_path must be absolute'')
     (guardE (parts p \<noteq> []) (value_error ''deploy_path must not be a filesystem root'')
     (guardE (path_exists fs (parts p) \<and> is_dir fs (parts p))
       (value_error ''deploy_path must be an existing directory'')
     (guardE (\<not> live_symlink_component fs (parts p))
       (value_error ''deploy_path must not contain symlink components'') (Inr (parts p)))))"

fun validate_services :: "json list \<Rightarrow> string list result" where
  "validate_services [] = Inr []"
| "validate_services (JStr s # rest) =
     guardE (fullmatch COMPOSE_SERVICE_RE s)
       (value_error ''service names must use letters, digits, dot, underscore or hyphen'')
       (bindE (validate_services rest) (\<lambda>ss. Inr (s # ss)))"
| "validate_services (_ # rest) =
     Inl (value_error ''service names must use letters, digits, dot, underscore or hyphen'')"

fun validate_deploy_images :: "json list \<Rightarrow> json list result" where
  "validate_deploy_images [] = Inr []"
| "validate_deploy_images (JObj im # rest) =
     guardE (set (jkeys im) = {''image'', ''digest''})
       (value_error ''each image requires exactly image and digest keys'')
     (bindE (record_scalar ''image'' (jget ''image'' im)) (\<lambda>name.
      bindE (record_scalar ''digest'' (jget ''digest'' im)) (\<lambda>digest.
      guardE (digest = ''unknown'' \<or> fullmatch DIGEST_RE digest)
        (value_error ''digest must be unknown or a lowercase sha256 digest'')
     (bindE (validate_deploy_images rest) (\<lambda>images.
        Inr (JObj [(''image'', JStr name), (''digest'', JStr digest)] # images))))))"
| "validate_deploy_images (_ # rest) =
     Inl (value_error ''each image requires exactly image and digest keys'')"

fun validate_healthchecks :: "json list \<Rightarrow> json list result" where
  "validate_healthchecks [] = Inr []"
| "validate_healthchecks (JObj check # rest) =
     guardE (set (jkeys check) = {''name'', ''status'', ''target''})
       (value_error ''each healthcheck requires exactly name, status and target keys'')
     (bindE (record_scalar ''healthcheck.name'' (jget ''name'' check)) (\<lambda>name.
      bindE (record_scalar ''healthcheck.status'' (jget ''status'' check)) (\<lambda>status.
      bindE (record_scalar ''healthcheck.target'' (jget ''target'' check)) (\<lambda>target.
      guardE (List.member HEALTHCHECK_STATUSES status)
        (value_error ''healthcheck status must be passed, failed or skipped'')
     (bindE (validate_healthchecks rest) (\<lambda>checks.
        Inr (JObj [(''name'', JStr name), (''status'', JStr status), (''target'', JStr target)] # checks)))))))"
| "validate_healthchecks (_ # rest) =
     Inl (value_error ''each healthcheck requires exactly name, status and target keys'')"

definition safe_segment_char :: "char \<Rightarrow> bool" where
  "safe_segment_char c \<longleftrightarrow> is_digit c \<or> is_alnum c \<or> one_of ''._-'' c"

definition safe_filename_segment :: "string \<Rightarrow> string \<Rightarrow> string" where
  "safe_filename_segment v fallback =
     (let s = map (\<lambda>c. if safe_segment_char c then c else CHR ''-'') v in if s = [] then fallback else s)"

definition utc_of :: "datetime \<Rightarrow> py_stamp option \<Rightarrow> datetime result" where
  "utc_of utc_now value =
     (case value of
        None \<Rightarrow> Inr utc_now
      | Some (Aware t) \<Rightarrow> Inr t
      | Some (Naive t) \<Rightarrow> Inl (value_error ''now must be timezone-aware''))"

text \<open>\<open>strftime("%Y%m%dT%H%M%SZ")\<close>\<close>

definition compact_timestamp :: "datetime \<Rightarrow> string" where
  "compact_timestamp t =
     pad4 (dt_year t) @ pad2 (dt_month t) @ pad2 (dt_day t) @ ''T'' @ pad2 (dt_hour t)
     @ pad2 (dt_minute t) @ pad2 (dt_second t) @ ''Z''"

section \<open>The manifest\<close>

definition optional_record_scalar :: "string \<Rightarrow> string option \<Rightarrow> json result" where
  "optional_record_scalar name v =
     (case v of None \<Rightarrow> Inr JNull | Some s \<Rightarrow> bindE (record_scalar name (JStr s)) (\<lambda>t. Inr (JStr t)))"

text \<open>The validated metadata in the order the source validates it\<close>

definition deploy_payload :: "datetime \<Rightarrow> deploy_config \<Rightarrow> (datetime \<times> jobj) result" where
  "deploy_payload utc_now c =
     guardE (List.member DEPLOY_STATUSES (dc_status c)) (value_error ''status must be success or failure'')
     (guardE (1 \<le> dc_retention c \<and> dc_retention c \<le> 500)
       (value_error ''retention must be between 1 and 500'')
     (bindE (record_scalar ''repository'' (JStr (dc_repository c))) (\<lambda>repository.
      bindE (record_scalar ''deployed_sha'' (JStr (dc_deployed_sha c))) (\<lambda>deployed_sha.
      bindE (record_scalar ''deployed_ref'' (JStr (dc_deployed_ref c))) (\<lambda>deployed_ref.
      bindE (record_scalar ''environment'' (JStr (dc_environment c))) (\<lambda>environment.
      bindE (record_scalar ''workflow'' (JStr (dc_workflow c))) (\<lambda>workflow.
      bindE (record_scalar ''run_id'' (JStr (dc_run_id c))) (\<lambda>run_id.
      bindE (record_scalar ''actor'' (JStr (dc_actor c))) (\<lambda>actor.
      bindE (record_scalar ''runner_name'' (JStr (dc_runner_name c))) (\<lambda>runner_name.
      bindE (optional_record_scalar ''rollback_of'' (dc_rollback_of c)) (\<lambda>rollback_of.
      guardE (List.member STEP_RESULTS (dc_migration_result c))
        (value_error ''migration_result is not an allowed value'')
     (guardE (List.member STEP_RESULTS (dc_optional_build_result c))
        (value_error ''optional_build_result is not an allowed value'')
     (bindE (validate_services (dc_services c)) (\<lambda>services.
      bindE (validate_deploy_images (dc_images c)) (\<lambda>images.
      bindE (validate_healthchecks (dc_healthchecks c)) (\<lambda>healthchecks.
      bindE (utc_of utc_now (dc_now c)) (\<lambda>now.
        Inr (now,
            [(''schema_version'', JStr ''1.0''), (''status'', JStr (dc_status c)),
             (''deployed_at'', JStr (format_utc now)), (''repository'', JStr repository),
             (''deployed_sha'', JStr deployed_sha), (''deployed_ref'', JStr deployed_ref),
             (''workflow'', JStr workflow), (''run_id'', JStr run_id),
             (''environment'', JStr environment), (''actor'', JStr actor),
             (''runner_name'', JStr runner_name), (''services'', JArr (map JStr services)),
             (''images'', JArr images), (''healthchecks'', JArr healthchecks),
             (''migration_result'', JStr (dc_migration_result c)),
             (''optional_build_result'', JStr (dc_optional_build_result c)),
             (''rollback_of'', rollback_of)]))))))))))))))))))"

definition manifest_name :: "datetime \<Rightarrow> deploy_config \<Rightarrow> string" where
  "manifest_name now c =
     compact_timestamp now @ ''-'' @ safe_filename_segment (take 12 (dc_deployed_sha c)) ''unknown''
     @ ''-'' @ safe_filename_segment (dc_run_id c) ''unknown'' @ ''.json''"

definition LAST_SUCCESSFUL :: string where "LAST_SUCCESSFUL = ''last-successful.json''"

text \<open>A temporary file in the directory of the target takes its place.\<close>

definition put_file :: "string list \<Rightarrow> string \<Rightarrow> (fsys, unit) action" where
  "put_file p content fs =
     (case walk fs True link_limit [] (butlast p) of
        Inl e \<Rightarrow> (Inl e, fs)
      | Inr d \<Rightarrow>
          if lookup fs d \<noteq> Some Dir then (Inl enoent, fs)
          else if lookup fs (d @ [last p]) = Some Dir then (Inl eisdir, fs)
          else (Inr (), put_node (d @ [last p]) (File content) fs))"

text \<open>The manifests retention looks at, the greatest name first, and those it removes\<close>

definition immutable_names :: "string list \<Rightarrow> string list" where
  "immutable_names names = rev (sort (filter (\<lambda>n. suffix ''.json'' n \<and> n \<noteq> LAST_SUCCESSFUL) names))"

fun unlink_names :: "string list \<Rightarrow> string list \<Rightarrow> (fsys, unit) action" where
  "unlink_names dir [] = liftW (Inr ())"
| "unlink_names dir (n # ns) = bindW (unlink (dir @ [n])) (\<lambda>_. unlink_names dir ns)"

definition write_manifest ::
    "(fsys \<Rightarrow> string list \<Rightarrow> string list) \<Rightarrow> (json \<Rightarrow> string) \<Rightarrow> datetime \<Rightarrow> deploy_config
     \<Rightarrow> (fsys, deploy_record) action" where
  "write_manifest listing dumps utc_now c =
     bindW (\<lambda>fs. (validate_deploy_path fs (dc_deploy_path c), fs)) (\<lambda>deploy_path.
     bindW (liftW (deploy_payload utc_now c)) (\<lambda>(now, payload).
     let content = dumps (JObj payload) @ [LF]; dir = deploy_path @ [''.deploy-manifests''];
         manifest = dir @ [manifest_name now c] in
     bindW (mkdir1 dir) (\<lambda>_.
     bindW (refuse_symlink (value_error ''manifest directory must not be a symlink'') dir) (\<lambda>_.
     bindW (\<lambda>fs. (guardE (\<not> path_exists fs manifest)
                    (value_error ''immutable manifest path already exists'') (Inr ()), fs)) (\<lambda>_.
     bindW (put_file manifest content) (\<lambda>_.
     bindW (if dc_status c = ''success'' then put_file (dir @ [LAST_SUCCESSFUL]) content
            else liftW (Inr ())) (\<lambda>_.
     bindW (\<lambda>fs. unlink_names dir (drop (nat (dc_retention c)) (immutable_names (listing fs dir))) fs) (\<lambda>_.
       liftW (Inr \<lparr>dr_manifest_path = manifest, dr_last_successful_path = dir @ [LAST_SUCCESSFUL]\<rparr>)))))))))"

definition parse_json_list :: "(string \<Rightarrow> json result) \<Rightarrow> string \<Rightarrow> string \<Rightarrow> json list result" where
  "parse_json_list loads name raw =
     bindE (except_raise (loads raw) [JSONDecodeError] (value_error (name @ '' must be valid JSON'')))
       (\<lambda>v. case v of JArr xs \<Rightarrow> Inr xs | _ \<Rightarrow> Inl (value_error (name @ '' must be a JSON array'')))"

section \<open>Collecting the state of Docker\<close>

definition collection_error :: "string \<Rightarrow> exc" where "collection_error m = Exc CollectionError m"

type_synonym docker_runner = "string list \<Rightarrow> completed result"

definition docker_prefix :: "string \<Rightarrow> string list result" where
  "docker_prefix mode =
     guardE (mode = ''direct'' \<or> mode = ''sudo'') (collection_error ''docker_mode must be direct or sudo'')
       (Inr (if mode = ''direct'' then [''docker''] else [''sudo'', ''docker'']))"

definition compose_path :: "fsys \<Rightarrow> string list \<Rightarrow> string \<Rightarrow> string list result" where
  "compose_path fs deploy_root compose_file =
     guardE (compose_file \<noteq> [] \<and> \<not> has_char backslash compose_file)
       (collection_error ''compose_file must be repository relative'')
     (guardE (\<not> is_abs (parse_path compose_file) \<and> \<not> List.member (parts (parse_path compose_file)) dotdot)
       (collection_error ''compose_file must remain below deploy_path'')
     (let candidate = deploy_root @ parts (parse_path compose_file) in
      bindE (walk fs True link_limit [] candidate) (\<lambda>resolved.
      bindE (walk fs True link_limit [] deploy_root) (\<lambda>base.
      guardE (prefix base resolved \<and> \<not> is_symlink fs candidate \<and> is_file fs resolved)
        (collection_error ''compose_file must be a regular non-symlink file below deploy_path'')
        (Inr resolved)))))"

text \<open>\<open>raw.split()\<close>\<close>

definition py_split :: "string \<Rightarrow> string list" where
  "py_split s =
     filter (\<lambda>w. w \<noteq> []) (split_char CHR '' '' (map (\<lambda>c. if py_isspace c then CHR '' '' else c) s))"

text \<open>\<open>list(dict.fromkeys(xs))\<close>\<close>

definition unique_list :: "'a list \<Rightarrow> 'a list" where
  "unique_list xs = rev (remdups (rev xs))"

definition split_services :: "string \<Rightarrow> string list result" where
  "split_services raw =
     (let services = py_split raw in
      guardE (length services \<le> 100) (collection_error ''services exceeds 100 entries'')
      (guardE (list_all (fullmatch COMPOSE_SERVICE_RE) services)
        (collection_error ''services contains an invalid Compose service name'')
        (Inr (unique_list services))))"

definition select_services :: "docker_runner \<Rightarrow> string list \<Rightarrow> string \<Rightarrow> string list result" where
  "select_services runner compose_prefix services =
     bindE (split_services services) (\<lambda>selected.
     if selected \<noteq> [] then Inr selected
     else
       bindE (runner (compose_prefix @ [''config'', ''--services''])) (\<lambda>completed.
       if returncode completed = 0 then split_services (stdout_text completed) else Inr []))"

fun image_refs_of :: "string list \<Rightarrow> string list \<Rightarrow> string list" where
  "image_refs_of [] acc = acc"
| "image_refs_of (line # rest) acc =
     (let r = py_strip line in
      image_refs_of rest (if r \<noteq> [] \<and> length r \<le> 512 \<and> \<not> List.member acc r then acc @ [r] else acc))"

definition select_images :: "docker_runner \<Rightarrow> string list \<Rightarrow> string list result" where
  "select_images runner compose_prefix =
     bindE (runner (compose_prefix @ [''config'', ''--images''])) (\<lambda>completed.
       Inr (if returncode completed = 0 then image_refs_of (py_splitlines (stdout_text completed)) [] else []))"

definition image_digest_of :: "completed \<Rightarrow> string" where
  "image_digest_of inspected =
     (let d = (if returncode inspected = 0 then py_strip (stdout_text inspected) else ''unknown'') in
      if fullmatch DIGEST_RE d then d else ''unknown'')"

definition image_record :: "string \<Rightarrow> string \<Rightarrow> json" where
  "image_record r d = JObj [(''image'', JStr r), (''digest'', JStr d)]"

fun inspect_images :: "docker_runner \<Rightarrow> string list \<Rightarrow> string list \<Rightarrow> json list result" where
  "inspect_images runner pre [] = Inr []"
| "inspect_images runner pre (r # refs) =
     bindE (runner (pre @ [''image'', ''inspect'', ''--format'', ''{{.Id}}'', r])) (\<lambda>inspected.
     bindE (inspect_images runner pre refs) (\<lambda>images.
       Inr (image_record r (image_digest_of inspected) # images)))"

definition HEALTH_FORMAT :: string where
  "HEALTH_FORMAT = ''{{.State.Running}}|{{if .State.Health}}{{.State.Health.Status}}{{else}}none{{end}}''"

definition inspect_container :: "docker_runner \<Rightarrow> string list \<Rightarrow> string \<Rightarrow> json list result" where
  "inspect_container runner pre container_name =
     (if container_name = [] then Inr []
      else
        guardE (fullmatch COMPOSE_SERVICE_RE container_name)
          (collection_error ''container_name must be a bounded Docker identifier'')
        (bindE (runner (pre @ [''inspect'', ''--format'', HEALTH_FORMAT, container_name])) (\<lambda>inspected.
           let state = (if returncode inspected = 0 then py_strip (stdout_text inspected) else []) in
           Inr [JObj [(''name'', JStr ''primary-container''),
                      (''status'', JStr (if state = ''true|healthy'' then ''passed'' else ''failed'')),
                      (''target'', JStr container_name)]])))"

definition collect_state ::
    "docker_runner \<Rightarrow> fsys \<Rightarrow> path \<Rightarrow> string \<Rightarrow> string \<Rightarrow> string \<Rightarrow> string \<Rightarrow> string
     \<Rightarrow> (string list \<times> json list \<times> json list) result" where
  "collect_state runner fs deploy_path compose_file container_name compose_override_file services docker_mode =
     bindE (resolve fs True deploy_path) (\<lambda>deploy_root.
     bindE (compose_path fs deploy_root compose_file) (\<lambda>compose.
     bindE (docker_prefix docker_mode) (\<lambda>pre.
     bindE (if compose_override_file = [] then Inr []
            else bindE (compose_path fs deploy_root compose_override_file)
                   (\<lambda>override. Inr [''-f'', posix_text override])) (\<lambda>override.
     let compose_prefix = pre @ [''compose'', ''-f'', posix_text compose] @ override in
     bindE (select_services runner compose_prefix services) (\<lambda>selected.
     bindE (select_images runner compose_prefix) (\<lambda>refs.
     bindE (inspect_images runner pre refs) (\<lambda>images.
     bindE (inspect_container runner pre container_name) (\<lambda>healthchecks.
       Inr (selected, images, healthchecks)))))))))"

section \<open>The state of the remediation\<close>

definition remediation_error :: "string \<Rightarrow> exc" where "remediation_error m = Exc RemediationError m"

definition REBUILD_RESULTS :: "string list" where
  "REBUILD_RESULTS = [''passed'', ''failed'', ''skipped'', ''no_change'']"

definition REMEDIATION_WINDOW_STATES :: "string list" where
  "REMEDIATION_WINDOW_STATES = [''not_applicable'', ''blocked'', ''pending_review'', ''active'',
     ''due_soon'', ''overdue'', ''resolved'', ''reintroduced'']"

record decoration =
  de_status :: string
  de_initial_result :: string
  de_rebuild_attempted :: bool
  de_rebuild_result :: string
  de_final_result :: string
  de_window_state :: string

text \<open>The five entries the decoration adds, or why it is refused\<close>

definition decoration_entries :: "decoration \<Rightarrow> jobj result" where
  "decoration_entries d =
     guardE (List.member DEPLOY_STATUSES (de_status d)) (remediation_error ''status must be success or failure'')
     (bindE (except_raise
               (bindE (normalize_security_classification (de_initial_result d)) (\<lambda>i.
                bindE (normalize_security_classification (de_final_result d)) (\<lambda>f. Inr (i, f))))
               [ValueError] (remediation_error ''security classification is not allowed''))
        (\<lambda>(initial_result, final_result).
      guardE (List.member REBUILD_RESULTS (de_rebuild_result d))
        (remediation_error ''security rebuild result is not allowed'')
     (guardE (\<not> (\<not> de_rebuild_attempted d \<and> de_rebuild_result d \<noteq> ''skipped''))
        (remediation_error ''an unattempted rebuild must be skipped'')
     (guardE (\<not> (de_rebuild_attempted d \<and> de_rebuild_result d = ''skipped''))
        (remediation_error ''an attempted rebuild cannot be skipped'')
     (guardE (List.member REMEDIATION_WINDOW_STATES (de_window_state d))
        (remediation_error ''remediation window state is not allowed'')
        (Inr [(''security_initial_result'', JStr initial_result),
              (''security_rebuild_attempted'', JBool (de_rebuild_attempted d)),
              (''security_rebuild_result'', JStr (de_rebuild_result d)),
              (''security_final_result'', JStr final_result),
              (''security_remediation_window_state'', JStr (de_window_state d))]))))))"

definition load_deploy_manifest :: "(string \<Rightarrow> json result) \<Rightarrow> fsys \<Rightarrow> string list \<Rightarrow> jobj result" where
  "load_deploy_manifest loads fs p =
     guardE (is_file fs p \<and> \<not> is_symlink fs p)
       (remediation_error ''manifest must be a regular non-symlink file'')
     (guardE (butlast p \<noteq> [] \<and> last (butlast p) = ''.deploy-manifests'')
       (remediation_error ''manifest must remain in .deploy-manifests'')
     (bindE (except_raise (bindE (read_file fs p) loads) [OSError, UnicodeDecodeError, JSONDecodeError]
              (remediation_error ''manifest must be valid UTF-8 JSON'')) (\<lambda>payload.
      case payload of
        JObj d \<Rightarrow>
          guardE (jget ''schema_version'' d = JStr ''1.0'')
            (remediation_error ''manifest schema_version must be 1.0'') (Inr d)
      | _ \<Rightarrow> Inl (remediation_error ''manifest schema_version must be 1.0''))))"

text \<open>\<open>payload.update(entries)\<close>\<close>

definition dict_update :: "jobj \<Rightarrow> jobj \<Rightarrow> jobj" where
  "dict_update payload entries = foldl (\<lambda>d (k, v). dict_set k v d) payload entries"

definition decorate_manifest ::
    "(string \<Rightarrow> json result) \<Rightarrow> (json \<Rightarrow> string) \<Rightarrow> string list \<Rightarrow> string list \<Rightarrow> decoration
     \<Rightarrow> (fsys, unit) action" where
  "decorate_manifest loads dumps manifest last_successful d =
     bindW (liftW (decoration_entries d)) (\<lambda>entries.
     bindW (\<lambda>fs. (load_deploy_manifest loads fs manifest, fs)) (\<lambda>loaded.
     let content = dumps (JObj (dict_update loaded entries)) @ [LF] in
     bindW (put_file manifest content) (\<lambda>_.
     if de_status d \<noteq> ''success'' then liftW (Inr ())
     else
       bindW (liftW (guardE (butlast last_successful = butlast manifest \<and> last last_successful = LAST_SUCCESSFUL)
                (remediation_error ''last-successful path is inconsistent'') (Inr ()))) (\<lambda>_.
       bindW (refuse_symlink (remediation_error ''last-successful must not be a symlink'') last_successful)
         (\<lambda>_. put_file last_successful content)))))"

section \<open>Files in a settled directory\<close>

lemma put_file_settled:
  assumes "fs_wf fs" and "lookup fs d = Some Dir"
  shows "put_file (d @ [n]) content fs =
    (if lookup fs (d @ [n]) = Some Dir then (Inl eisdir, fs) else (Inr (), put_node (d @ [n]) (File content) fs))"
proof -
  have "settled fs d" using assms(2) by (simp add: settled_def is_link_at_def)
  then show ?thesis using assms by (simp add: put_file_def settled_walk)
qed

lemma put_node_wf:
  assumes "fs_wf fs" and "lookup fs d = Some Dir" and "lookup fs (d @ [n]) \<noteq> Some Dir" and "n \<noteq> dotdot"
  shows "fs_wf (put_node (d @ [n]) nd fs)"
  unfolding fs_wf_def
proof (intro allI impI)
  fix p x assume ex: "lookup (put_node (d @ [n]) nd fs) (p @ [x]) \<noteq> None"
  have ne: "d \<noteq> d @ [n]" by simp
  show "lookup (put_node (d @ [n]) nd fs) p = Some Dir \<and> x \<noteq> dotdot"
  proof (cases "p @ [x] = d @ [n]")
    case True
    then show ?thesis using assms by (simp add: lookup_put_node)
  next
    case False
    then have "lookup fs (p @ [x]) \<noteq> None" using ex by (auto simp: lookup_put_node split: if_splits)
    then have "lookup fs p = Some Dir" "x \<noteq> dotdot" using assms(1) by (auto simp: fs_wf_def)
    moreover from this have "p \<noteq> d @ [n]" using assms(3) by auto
    ultimately show ?thesis by (simp add: lookup_put_node)
  qed
qed

lemma unlink_settled:
  assumes "fs_wf fs" and "lookup fs d = Some Dir" and "unlink (d @ [n]) fs = (Inr (), fs')"
  shows "fs' = without d [n] fs \<and> lookup fs (d @ [n]) \<noteq> Some Dir"
proof -
  have "settled fs d" using assms(2) by (simp add: settled_def is_link_at_def)
  then show ?thesis
    using assms(1,3)
    by (auto simp: unlink_def settled_walk without_def fun_upd_def split: option.splits node.splits)
qed

lemma unlink_names_without:
  "unlink_names d ns fs = (Inr (), fs') \<Longrightarrow> fs_wf fs \<Longrightarrow> lookup fs d = Some Dir \<Longrightarrow> distinct ns
   \<Longrightarrow> fs' = without d ns fs"
proof (induction ns arbitrary: fs)
  case Nil
  then show ?case by (simp add: without_def)
next
  case (Cons n ns)
  obtain g where g: "unlink (d @ [n]) fs = (Inr (), g)" "unlink_names d ns g = (Inr (), fs')"
    using Cons.prems(1) by (auto simp: bindW_eq_Inr)
  have w: "g = without d [n] fs" "lookup fs (d @ [n]) \<noteq> Some Dir"
    using unlink_settled [OF Cons.prems(2,3) g(1)] by auto
  have "fs_wf g" unfolding w(1) using Cons.prems(2) w(2) by (intro without_wf) auto
  moreover have "lookup g d = Some Dir" using Cons.prems(3) by (simp add: w(1) lookup_without)
  ultimately have "fs' = without d ns g" using Cons.IH [OF g(2)] Cons.prems(4) by simp
  then show ?case by (simp add: w(1)) (auto simp: without_def intro!: fsys.equality)
qed

lemma mkdir1_settled:
  assumes "fs_wf fs" and "lookup fs d = Some Dir" and "mkdir1 (d @ [n]) fs = (Inr (), g)"
    and "\<not> is_symlink g (d @ [n])" and "n \<noteq> dotdot"
  shows "fs_wf g \<and> lookup g (d @ [n]) = Some Dir \<and> (\<forall>q. q \<noteq> d @ [n] \<longrightarrow> lookup g q = lookup fs q)
    \<and> (lookup fs (d @ [n]) = Some Dir \<or> lookup fs (d @ [n]) = None)"
proof -
  have st: "settled fs d" using assms(2) by (simp add: settled_def is_link_at_def)
  have w: "walk fs True link_limit [] (d @ [n]) = walk fs True link_limit d [n]"
    using settled_plain [OF assms(1) st] settled_walk [OF assms(1) st] walk_plain_snoc by blast
  show ?thesis
  proof (cases "is_dir fs (d @ [n])")
    case True
    then have g: "g = fs" using assms(3) by (simp add: mkdir1_def)
    have "\<not> is_link_at fs (d @ [n])"
      using assms(4,5) settled_walk [OF assms(1) st] by (simp add: g is_symlink_def)
    then have "walk fs True link_limit d [n] = Inr (d @ [n]) \<or> (\<exists>e. walk fs True link_limit d [n] = Inl e)"
      using assms(5) by (simp add: walk_Cons_plain)
    then have "lookup fs (d @ [n]) = Some Dir" using True w by (auto simp: is_dir_def split: sum.splits)
    then show ?thesis using g assms(1) by simp
  next
    case False
    have ne: "\<not> path_exists fs (d @ [n])" "\<not> is_symlink fs (d @ [n])"
      using assms(3) False by (auto simp: mkdir1_def split: if_splits)
    then have nl: "\<not> is_link_at fs (d @ [n])"
      using assms(5) settled_walk [OF assms(1) st] by (simp add: is_symlink_def)
    then have none: "lookup fs (d @ [n]) = None"
      using ne(1) assms(5) by (auto simp: path_exists_def w walk_Cons_plain split: if_splits)
    have "g = put_node (d @ [n]) Dir fs"
      using assms(2,3,5) False ne settled_walk [OF assms(1) st]
      by (simp add: mkdir1_def split: if_splits)
    then show ?thesis
      using put_node_wf [OF assms(1,2)] none assms(5) by (simp add: lookup_put_node)
  qed
qed

section \<open>Which manifests survive\<close>

lemma take_greatest:
  fixes xs :: "'a :: linorder list"
  assumes "sorted xs" and "distinct xs"
  shows "x \<in> set (take k (rev xs)) \<longleftrightarrow> x \<in> set xs \<and> card {y \<in> set xs. x < y} < k"
  using assms
proof (induction xs arbitrary: k rule: rev_induct)
  case (snoc z xs)
  have below: "y < z" if "y \<in> set xs" for y
    using that snoc.prems by (auto simp: sorted_append order_less_le)
  show ?case
  proof (cases k)
    case (Suc j)
    show ?thesis
    proof (cases "x = z")
      case True
      have none: "{y \<in> set (xs @ [z]). x < y} = {}" using below True by force
      show ?thesis unfolding none using True Suc by simp
    next
      case ne: False
      show ?thesis
      proof (cases "x \<in> set xs")
        case True
        then have "{y \<in> set (xs @ [z]). x < y} = insert z {y \<in> set xs. x < y}" using below by auto
        moreover have "z \<notin> {y \<in> set xs. x < y}" using snoc.prems(2) by simp
        ultimately have "card {y \<in> set (xs @ [z]). x < y} = Suc (card {y \<in> set xs. x < y})" by simp
        then show ?thesis using snoc.IH [of j] snoc.prems ne True Suc by (simp add: sorted_append)
      next
        case False
        then have "x \<notin> set (take j (rev xs))" by (auto dest: in_set_takeD)
        then show ?thesis using False ne Suc by simp
      qed
    qed
  qed simp
qed simp

definition is_manifest :: "string \<Rightarrow> bool" where
  "is_manifest n \<longleftrightarrow> suffix ''.json'' n \<and> n \<noteq> LAST_SUCCESSFUL"

lemma expired_iff:
  assumes "distinct names"
  shows "set (drop k (immutable_names names))
    = {n \<in> set names. is_manifest n \<and> \<not> card {y \<in> set names. is_manifest y \<and> n < y} < k}"
proof -
  let ?xs = "sort (filter is_manifest names)"
  have im: "immutable_names names = rev ?xs"
    by (simp add: immutable_names_def is_manifest_def [abs_def])
  have d: "distinct (rev ?xs)" using assms by simp
  have split: "n \<in> set (drop k (rev ?xs)) \<longleftrightarrow> n \<in> set ?xs \<and> n \<notin> set (take k (rev ?xs))" for n
  proof -
    have "set (take k (rev ?xs)) \<union> set (drop k (rev ?xs)) = set ?xs"
      by (metis append_take_drop_id set_append set_rev)
    moreover have "set (take k (rev ?xs)) \<inter> set (drop k (rev ?xs)) = {}"
      using d by (rule set_take_disj_set_drop_if_distinct) simp
    ultimately show ?thesis by blast
  qed
  have "{y \<in> set ?xs. n < y} = {y \<in> set names. is_manifest y \<and> n < y}" for n by auto
  then have "n \<in> set (take k (rev ?xs)) \<longleftrightarrow> n \<in> set ?xs \<and> card {y \<in> set names. is_manifest y \<and> n < y} < k" for n
    using take_greatest [of ?xs n k] assms by simp
  then show ?thesis unfolding im using split by auto
qed

lemma manifest_name_shape: "is_manifest (manifest_name now c) \<and> manifest_name now c \<noteq> dotdot"
proof -
  obtain x xs where m: "manifest_name now c = x # xs" "is_digit x"
    by (simp add: manifest_name_def compact_timestamp_def pad4_def)
  have "suffix ''.json'' (manifest_name now c)" by (simp add: manifest_name_def suffix_def)
  moreover have "\<not> is_digit CHR ''l''" "\<not> is_digit CHR ''.''" by code_simp+
  ultimately show ?thesis using m by (auto simp: is_manifest_def LAST_SUCCESSFUL_def dotdot_def)
qed

lemma deploy_path_settled:
  assumes "validate_deploy_path fs p = Inr dp" and "fs_wf fs" and "dotdot \<notin> set (parts p)"
  shows "dp = parts p \<and> lookup fs dp = Some Dir"
proof -
  have dir: "dp = parts p" "is_dir fs dp" "\<not> live_symlink_component fs dp"
    using assms(1) by (auto simp: validate_deploy_path_def guardE_eq_Inr)
  then obtain r where r: "walk fs True link_limit [] dp = Inr r" "lookup fs r = Some Dir"
    by (auto simp: is_dir_def split: sum.splits)
  then have "plain fs [] dp"
    using dir(3) live_symlink_strict [OF r(1)] no_symlink_plain by blast
  then have "r = dp"
    using r(1) dir(1) assms(3) walk_plain_InrD by (fastforce simp: normal_no_dotdot)
  then show ?thesis using dir(1) r(2) by simp
qed

abbreviation manifest_dir :: "deploy_config \<Rightarrow> string list" where
  "manifest_dir c \<equiv> parts (dc_deploy_path c) @ [''.deploy-manifests'']"

lemma refuse_symlink_Inr: "refuse_symlink e p fs = (Inr u, g) \<longleftrightarrow> \<not> is_symlink fs p \<and> g = fs"
  by (auto simp: refuse_symlink_def)

lemma liftW_eq: "liftW m w = (Inr x, w') \<longleftrightarrow> m = Inr x \<and> w' = w"
  by (auto simp: liftW_def)

text \<open>The state before retention: the directory, the manifest and the pointer are in place.\<close>

lemma write_manifest_Inr:
  assumes "write_manifest listing dumps utc_now c fs = (Inr r, fs')" and "fs_wf fs"
    and "dotdot \<notin> set (parts (dc_deploy_path c))"
  obtains now payload g1 g where
    "deploy_payload utc_now c = Inr (now, payload)"
    "r = \<lparr>dr_manifest_path = manifest_dir c @ [manifest_name now c],
          dr_last_successful_path = manifest_dir c @ [LAST_SUCCESSFUL]\<rparr>"
    "\<And>q. q \<noteq> manifest_dir c \<Longrightarrow> lookup g1 q = lookup fs q"
    "\<not> path_exists g1 (manifest_dir c @ [manifest_name now c])"
    "\<And>q. lookup g q = (if q = manifest_dir c @ [LAST_SUCCESSFUL] \<and> dc_status c = ''success''
                      \<or> q = manifest_dir c @ [manifest_name now c]
                    then Some (File (dumps (JObj payload) @ [LF])) else lookup g1 q)"
    "unlink_names (manifest_dir c) (drop (nat (dc_retention c)) (immutable_names (listing g (manifest_dir c)))) g
       = (Inr (), fs')"
    "fs_wf g" "lookup g (manifest_dir c) = Some Dir"
proof -
  let ?D = "manifest_dir c"
  from assms(1) obtain dp now payload g1 g2 g where
    v: "validate_deploy_path fs (dc_deploy_path c) = Inr dp" "deploy_payload utc_now c = Inr (now, payload)"
    and s: "mkdir1 (dp @ [''.deploy-manifests'']) fs = (Inr (), g1)"
      "\<not> is_symlink g1 (dp @ [''.deploy-manifests''])"
      "\<not> path_exists g1 (dp @ [''.deploy-manifests'', manifest_name now c])"
      "put_file (dp @ [''.deploy-manifests'', manifest_name now c]) (dumps (JObj payload) @ [LF]) g1 = (Inr (), g2)"
      "(if dc_status c = ''success'' then put_file ((dp @ [''.deploy-manifests'']) @ [LAST_SUCCESSFUL])
          (dumps (JObj payload) @ [LF]) else liftW (Inr ())) g2 = (Inr (), g)"
      "unlink_names (dp @ [''.deploy-manifests'']) (drop (nat (dc_retention c))
         (immutable_names (listing g (dp @ [''.deploy-manifests''])))) g = (Inr (), fs')"
      "r = \<lparr>dr_manifest_path = dp @ [''.deploy-manifests'', manifest_name now c],
          dr_last_successful_path = dp @ [''.deploy-manifests'', LAST_SUCCESSFUL]\<rparr>"
    by (auto simp: write_manifest_def bindW_eq_Inr Let_def refuse_symlink_Inr guardE_eq_Inr liftW_eq)
  note dp = deploy_path_settled [OF v(1) assms(2,3)]
  let ?c = "dumps (JObj payload) @ [LF]" and ?m = "manifest_name now c"
  have nd: "''.deploy-manifests'' \<noteq> dotdot" by (simp add: dotdot_def)
  have m1: "fs_wf g1" "lookup g1 ?D = Some Dir" "\<And>q. q \<noteq> ?D \<Longrightarrow> lookup g1 q = lookup fs q"
    using mkdir1_settled [OF assms(2) _ s(1,2) nd] dp by auto
  have mn: "?m \<noteq> dotdot" "?m \<noteq> LAST_SUCCESSFUL" using manifest_name_shape by (auto simp: is_manifest_def)
  have m2: "g2 = put_node (?D @ [?m]) (File ?c) g1" "lookup g1 (?D @ [?m]) \<noteq> Some Dir"
    using s(4) dp put_file_settled [OF m1(1,2), of ?m ?c] by (auto split: if_splits)
  have w2: "fs_wf g2" "lookup g2 ?D = Some Dir"
    using put_node_wf [OF m1(1,2) m2(2) mn(1)] m1(2) by (simp_all add: m2(1) lookup_put_node)
  have ln: "LAST_SUCCESSFUL \<noteq> dotdot" by (simp add: LAST_SUCCESSFUL_def dotdot_def)
  have m3: "if dc_status c = ''success'' then g = put_node (?D @ [LAST_SUCCESSFUL]) (File ?c) g2
        \<and> lookup g2 (?D @ [LAST_SUCCESSFUL]) \<noteq> Some Dir else g = g2"
    using s(5) dp put_file_settled [OF w2, of LAST_SUCCESSFUL ?c] by (auto simp: liftW_def split: if_splits)
  have look: "lookup g q = (if q = ?D @ [LAST_SUCCESSFUL] \<and> dc_status c = ''success'' \<or> q = ?D @ [?m]
      then Some (File ?c) else lookup g1 q)" for q
    using m3 by (auto simp: m2(1) lookup_put_node split: if_splits)
  show ?thesis
  proof (rule that [OF v(2)])
    show "fs_wf g" "lookup g ?D = Some Dir"
      using m3 w2 put_node_wf [OF w2 _ ln] by (auto simp: lookup_put_node split: if_splits)
    show "\<not> path_exists g1 (?D @ [?m])" using s(3) dp by simp
  qed (use m1(3) look s(6,7) dp in simp_all)
qed

section \<open>Properties\<close>

text \<open>
  Retention is by name and by name alone. After a manifest is written, a \<open>.json\<close> entry of
  the manifest directory other than the pointer is there exactly if it was there or is the new
  manifest, and fewer than \<open>retention\<close> entries have a greater name; nothing else of the file
  system changes but the pointer. So entries that are no manifests expire too, and the
  manifest just written is removed at once when enough greater names exist.
\<close>

lemma manifest_retention_by_name:
  assumes "write_manifest listing dumps utc_now c fs = (Inr r, fs')" and "fs_wf fs"
    and "dotdot \<notin> set (parts (dc_deploy_path c))"
    and "\<And>g d. finite {n. lookup g (d @ [n]) \<noteq> None} \<Longrightarrow>
           distinct (listing g d) \<and> set (listing g d) = {n. lookup g (d @ [n]) \<noteq> None}"
    and "finite {n. lookup fs (manifest_dir c @ [n]) \<noteq> None}"
  shows "\<exists>m. dr_manifest_path r = manifest_dir c @ [m] \<and> is_manifest m
    \<and> (\<forall>n. is_manifest n \<longrightarrow>
        (lookup fs' (manifest_dir c @ [n]) \<noteq> None \<longleftrightarrow>
         (n = m \<or> lookup fs (manifest_dir c @ [n]) \<noteq> None)
         \<and> card {k. is_manifest k \<and> (k = m \<or> lookup fs (manifest_dir c @ [k]) \<noteq> None) \<and> n < k}
             < nat (dc_retention c)))
    \<and> (\<forall>q. q \<noteq> manifest_dir c \<and> (\<forall>n. q = manifest_dir c @ [n] \<longrightarrow> \<not> is_manifest n \<and> n \<noteq> LAST_SUCCESSFUL)
        \<longrightarrow> lookup fs' q = lookup fs q)"
proof -
  let ?D = "manifest_dir c"
  obtain now payload g1 g where "deploy_payload utc_now c = Inr (now, payload)"
    and w: "r = \<lparr>dr_manifest_path = ?D @ [manifest_name now c], dr_last_successful_path = ?D @ [LAST_SUCCESSFUL]\<rparr>"
    and g1: "\<And>q. q \<noteq> ?D \<Longrightarrow> lookup g1 q = lookup fs q"
    and "\<not> path_exists g1 (?D @ [manifest_name now c])"
    and g: "\<And>q. lookup g q = (if q = ?D @ [LAST_SUCCESSFUL] \<and> dc_status c = ''success''
                      \<or> q = ?D @ [manifest_name now c]
                    then Some (File (dumps (JObj payload) @ [LF])) else lookup g1 q)"
    and u: "unlink_names ?D (drop (nat (dc_retention c)) (immutable_names (listing g ?D))) g = (Inr (), fs')"
      "fs_wf g" "lookup g ?D = Some Dir"
    by (rule write_manifest_Inr [OF assms(1-3)], rule that)
  let ?m = "manifest_name now c" and ?L = "listing g ?D" and ?k = "nat (dc_retention c)"
  have lg: "lookup g (?D @ [n]) \<noteq> None \<longleftrightarrow> n = ?m \<or> n = LAST_SUCCESSFUL \<and> dc_status c = ''success''
      \<or> lookup fs (?D @ [n]) \<noteq> None" for n
    using g [of "?D @ [n]"] g1 [of "?D @ [n]"] by auto
  have "{n. lookup g (?D @ [n]) \<noteq> None}
      \<subseteq> insert ?m (insert LAST_SUCCESSFUL {n. lookup fs (?D @ [n]) \<noteq> None})"
    using lg by blast
  then have "finite {n. lookup g (?D @ [n]) \<noteq> None}"
    by (rule finite_subset) (simp only: finite_insert assms(5))
  then have L: "distinct ?L" "set ?L = {n. lookup g (?D @ [n]) \<noteq> None}"
    using assms(4) [of g ?D] by (simp_all only: simp_thms)
  have im: "distinct (drop ?k (immutable_names ?L))" using L(1) by (simp add: immutable_names_def)
  have fs': "fs' = without ?D (drop ?k (immutable_names ?L)) g"
    by (rule unlink_names_without [OF u im])
  have man: "is_manifest n \<Longrightarrow> n \<in> set ?L \<longleftrightarrow> n = ?m \<or> lookup fs (?D @ [n]) \<noteq> None" for n
    using lg [of n] L(2) by (auto simp: is_manifest_def)
  have sets: "{y \<in> set ?L. is_manifest y \<and> n < y}
      = {k. is_manifest k \<and> (k = ?m \<or> lookup fs (?D @ [k]) \<noteq> None) \<and> n < k}" for n
    using man by blast
  have ex: "n \<in> set (drop ?k (immutable_names ?L)) \<longleftrightarrow> n \<in> set ?L \<and> is_manifest n
      \<and> \<not> card {k. is_manifest k \<and> (k = ?m \<or> lookup fs (?D @ [k]) \<noteq> None) \<and> n < k} < ?k" for n
    unfolding expired_iff [OF L(1)] sets by blast
  have kept: "lookup fs' (?D @ [n]) \<noteq> None \<longleftrightarrow> n \<in> set ?L \<and> n \<notin> set (drop ?k (immutable_names ?L))" for n
    using L(2) by (auto simp: fs' lookup_without)
  have rest: "lookup fs' q = lookup fs q"
    if "q \<noteq> ?D" "\<forall>n. q = ?D @ [n] \<longrightarrow> \<not> is_manifest n \<and> n \<noteq> LAST_SUCCESSFUL" for q
  proof -
    have "q \<noteq> ?D @ [?m]" "q \<noteq> ?D @ [LAST_SUCCESSFUL]" using that(2) manifest_name_shape by auto
    moreover have "q \<notin> (\<lambda>x. ?D @ [x]) ` set (drop ?k (immutable_names ?L))" using that(2) ex by auto
    ultimately show ?thesis using g [of q] g1 [OF that(1)] by (simp add: fs' lookup_without)
  qed
  show ?thesis
    using w manifest_name_shape [of now c] rest kept ex man by (intro exI [of _ ?m]) auto
qed

text \<open>The names of the immutable attempts: a compact timestamp, 16 characters long, comes first.\<close>

definition timestamped :: "string \<Rightarrow> bool" where
  "timestamped n \<longleftrightarrow> (\<exists>day second tail. n = day @ ''T'' @ second @ ''Z-'' @ tail @ ''.json''
     \<and> length day = 8 \<and> length second = 6 \<and> list_all is_digit (day @ second))"

abbreviation stamp :: "string \<Rightarrow> string" where "stamp n \<equiv> take 16 n"

lemma timestamped_manifest: "timestamped n \<Longrightarrow> is_manifest n"
proof -
  assume "timestamped n"
  then obtain day second tail where n: "n = day @ ''T'' @ second @ ''Z-'' @ tail @ ''.json''" "length day = 8"
    "list_all is_digit (day @ second)" by (auto simp: timestamped_def)
  have "\<not> is_digit CHR ''l''" by code_simp
  then show ?thesis using n by (cases day) (auto simp: is_manifest_def LAST_SUCCESSFUL_def suffix_def)
qed

lemma manifest_name_timestamped: "timestamped (manifest_name now c)"
  unfolding timestamped_def manifest_name_def compact_timestamp_def
  by (rule exI [of _ "pad4 (dt_year now) @ pad2 (dt_month now) @ pad2 (dt_day now)"],
      rule exI [of _ "pad2 (dt_hour now) @ pad2 (dt_minute now) @ pad2 (dt_second now)"],
      rule exI [of _ "safe_filename_segment (take 12 (dc_deployed_sha c)) ''unknown'' @ ''-''
        @ safe_filename_segment (dc_run_id c) ''unknown''"])
    (simp add: pad4_def pad2_def)

lemma written_manifest_name:
  assumes "write_manifest listing dumps utc_now c fs = (Inr r, fs')"
  shows "1 \<le> nat (dc_retention c) \<and> timestamped (last (dr_manifest_path r))"
proof -
  obtain dp now payload where "deploy_payload utc_now c = Inr (now, payload)"
    "dr_manifest_path r = dp @ [''.deploy-manifests'', manifest_name now c]"
    using assms by (auto simp: write_manifest_def bindW_eq_Inr Let_def liftW_eq)
  then show ?thesis
    using manifest_name_timestamped [of now c] by (auto simp: deploy_payload_def guardE_eq_Inr)
qed

lemma take_mono:
  fixes xs ys :: "'a :: linorder list"
  shows "xs \<le> ys \<Longrightarrow> take k xs \<le> take k ys"
proof (induction xs arbitrary: ys k)
  case (Cons x xs)
  then show ?case by (cases ys; cases k) auto
qed simp

lemma card_greatest:
  fixes E :: "'a :: linorder set"
  assumes "finite E"
  shows "card {n \<in> E. card {k \<in> E. n < k} < R} = min R (card E)"
proof -
  let ?xs = "sorted_list_of_set E"
  have "{n \<in> E. card {k \<in> E. n < k} < R} = set (take R (rev ?xs))"
    using take_greatest [of ?xs _ R] assms by auto
  moreover have "distinct (take R (rev ?xs))" by simp
  ultimately show ?thesis using assms by (simp add: distinct_card min.commute)
qed

text \<open>
  C4: The newest manifests are kept. Let the entries of the manifest directory, apart from the
  pointer and from names that are no JSON files, be timestamped manifests of earlier seconds.
  After a write the new manifest is timestamped and there; of the older ones exactly those stay
  that have fewer than \<open>retention - 1\<close> greater names among them, so the kept manifests are as
  many as there are, up to the retention, and no removed one has a later timestamp than a
  kept one. Nothing else of the file system changes but the directory and the pointer.
\<close>

theorem newest_manifests_kept:
  assumes "write_manifest listing dumps utc_now c fs = (Inr r, fs')" and "fs_wf fs"
    and "dotdot \<notin> set (parts (dc_deploy_path c))"
    and "\<And>g d. finite {n. lookup g (d @ [n]) \<noteq> None} \<Longrightarrow>
           distinct (listing g d) \<and> set (listing g d) = {n. lookup g (d @ [n]) \<noteq> None}"
    and "finite {n. lookup fs (manifest_dir c @ [n]) \<noteq> None}"
    and "\<forall>n. lookup fs (manifest_dir c @ [n]) \<noteq> None \<and> suffix ''.json'' n \<and> n \<noteq> LAST_SUCCESSFUL \<longrightarrow>
           timestamped n \<and> stamp n < stamp (last (dr_manifest_path r))"
  defines "old \<equiv> {n. timestamped n \<and> lookup fs (manifest_dir c @ [n]) \<noteq> None}"
    and "now \<equiv> {n. timestamped n \<and> lookup fs' (manifest_dir c @ [n]) \<noteq> None}"
  shows "\<exists>m. dr_manifest_path r = manifest_dir c @ [m] \<and> m \<in> now \<and> m \<notin> old
    \<and> now - {m} = {n \<in> old. card {k \<in> old. n < k} < nat (dc_retention c) - 1}
    \<and> card now = min (nat (dc_retention c)) (Suc (card old))
    \<and> (\<forall>removed \<in> old - now. \<forall>there \<in> now. stamp removed \<le> stamp there)
    \<and> (\<forall>q. q \<noteq> manifest_dir c \<and> q \<noteq> manifest_dir c @ [LAST_SUCCESSFUL]
          \<and> (\<forall>n. q = manifest_dir c @ [n] \<longrightarrow> \<not> timestamped n) \<longrightarrow> lookup fs' q = lookup fs q)"
proof -
  let ?D = "manifest_dir c" and ?R = "nat (dc_retention c)"
  have "\<exists>m. dr_manifest_path r = ?D @ [m] \<and> is_manifest m
    \<and> (\<forall>n. is_manifest n \<longrightarrow> (lookup fs' (?D @ [n]) \<noteq> None \<longleftrightarrow>
         (n = m \<or> lookup fs (?D @ [n]) \<noteq> None)
         \<and> card {k. is_manifest k \<and> (k = m \<or> lookup fs (?D @ [k]) \<noteq> None) \<and> n < k} < ?R))
    \<and> (\<forall>q. q \<noteq> ?D \<and> (\<forall>n. q = ?D @ [n] \<longrightarrow> \<not> is_manifest n \<and> n \<noteq> LAST_SUCCESSFUL)
        \<longrightarrow> lookup fs' q = lookup fs q)"
    by (rule manifest_retention_by_name [OF assms(1-3) _ assms(5)]) (rule assms(4))
  then obtain m where m: "dr_manifest_path r = ?D @ [m]" "is_manifest m"
    and k: "\<forall>n. is_manifest n \<longrightarrow> (lookup fs' (?D @ [n]) \<noteq> None \<longleftrightarrow>
        (n = m \<or> lookup fs (?D @ [n]) \<noteq> None)
        \<and> card {k. is_manifest k \<and> (k = m \<or> lookup fs (?D @ [k]) \<noteq> None) \<and> n < k} < ?R)"
    and q: "\<forall>q. q \<noteq> ?D \<and> (\<forall>n. q = ?D @ [n] \<longrightarrow> \<not> is_manifest n \<and> n \<noteq> LAST_SUCCESSFUL) \<longrightarrow>
        lookup fs' q = lookup fs q"
    by (elim exE conjE) (rule that; assumption)
  note kept = k [rule_format] and rest = q [rule_format, OF conjI]
  have R: "1 \<le> ?R" and tm: "timestamped m"
    using written_manifest_name [OF assms(1)] m(1) by auto
  have earlier: "timestamped n \<and> stamp n < stamp m"
    if "lookup fs (?D @ [n]) \<noteq> None" "is_manifest n" for n
    using assms(6) that m(1) by (simp add: is_manifest_def)
  have lt: "n < m" if "n \<in> old" for n
  proof -
    have "\<not> stamp m \<le> stamp n" using that earlier [of n] timestamped_manifest by (auto simp: old_def)
    then show ?thesis using take_mono [of m n 16] by (meson not_le)
  qed
  have new: "m \<notin> old" using lt by blast
  have fin: "finite old" using assms(5) by (rule finite_subset [rotated]) (auto simp: old_def)
  have E: "{k. is_manifest k \<and> (k = m \<or> lookup fs (?D @ [k]) \<noteq> None) \<and> n < k} = {k \<in> insert m old. n < k}" for n
    using earlier timestamped_manifest m(2) by (auto simp: old_def)
  have now: "n \<in> now \<longleftrightarrow> n \<in> insert m old \<and> card {k \<in> insert m old. n < k} < ?R" for n
    using kept [of n, unfolded E] timestamped_manifest [of n] tm unfolding now_def old_def by blast
  have none: "{k \<in> insert m old. m < k} = {}" using lt by (auto dest: order.asym)
  have mn: "m \<in> now" using R unfolding now [of m] none by simp
  have greater: "card {k \<in> insert m old. n < k} = Suc (card {k \<in> old. n < k})" if "n \<in> old" for n
  proof -
    have "{k \<in> insert m old. n < k} = insert m {k \<in> old. n < k}" using lt [OF that] by blast
    then show ?thesis using new fin by simp
  qed
  have old_kept: "now - {m} = {n \<in> old. card {k \<in> old. n < k} < ?R - 1}"
    using now greater new by fastforce
  have "now = {n \<in> insert m old. card {k \<in> insert m old. n < k} < ?R}" using now by blast
  then have card: "card now = min ?R (Suc (card old))"
    using card_greatest [of "insert m old" ?R] fin new by simp
  have order: "stamp x \<le> stamp y" if "x \<in> old - now" "y \<in> now" for x y
  proof (cases "x \<le> y")
    case True
    then show ?thesis by (rule take_mono)
  next
    case False
    then have "{k \<in> insert m old. x < k} \<subseteq> {k \<in> insert m old. y < k}" by auto
    then have "card {k \<in> insert m old. x < k} \<le> card {k \<in> insert m old. y < k}"
      using fin by (intro card_mono) auto
    then show ?thesis using that now [of x] now [of y] by auto
  qed
  have same: "lookup fs' q = lookup fs q"
    if "q \<noteq> ?D" "q \<noteq> ?D @ [LAST_SUCCESSFUL]" "\<forall>n. q = ?D @ [n] \<longrightarrow> \<not> timestamped n" for q
  proof (cases "\<exists>n. q = ?D @ [n] \<and> is_manifest n")
    case True
    then obtain n where n: "q = ?D @ [n]" "is_manifest n" by blast
    then have "lookup fs q = None" "n \<noteq> m" using earlier that(3) tm by blast+
    then show ?thesis using kept [OF n(2)] n(1) by auto
  qed (use that rest [of q] in auto)
  show ?thesis using m(1) mn new old_kept card order same by (intro exI [of _ m]) simp
qed

definition names_in :: "fsys \<Rightarrow> string list \<Rightarrow> string list" where
  "names_in g d = sorted_list_of_set {n. lookup g (d @ [n]) \<noteq> None}"

definition demo_deploy :: deploy_config where
  "demo_deploy = \<lparr>dc_deploy_path = Path True [''dst''], dc_status = ''failure'', dc_repository = ''r1'',
     dc_deployed_sha = ''r1'', dc_deployed_ref = ''r1'', dc_environment = ''r1'', dc_workflow = ''r1'',
     dc_run_id = ''r1'', dc_actor = ''r1'', dc_runner_name = ''r1'', dc_services = [], dc_images = [],
     dc_healthchecks = [], dc_migration_result = ''passed'', dc_optional_build_result = ''passed'',
     dc_rollback_of = None, dc_retention = 50, dc_now = None\<rparr>"

lemma demo_deploy_simps [simp]:
  "dc_deploy_path demo_deploy = Path True [''dst'']" "dc_status demo_deploy = ''failure''"
  "dc_retention demo_deploy = 50"
  by (simp_all add: demo_deploy_def)

lemma demo_deploy_payload: "\<exists>p. deploy_payload (demo_time 1) demo_deploy = Inr (demo_time 1, p)"
proof -
  have "record_scalar l (JStr ''r1'') = Inr ''r1''" for l
  proof -
    have "\<not> list_ex (\<lambda>r. search r ''r1'') SECRET_VALUE_PATTERNS" by code_simp
    then show ?thesis by (simp add: record_scalar_def has_char_def MAX_SCALAR_LENGTH_def LF_def CR_def)
  qed
  then show ?thesis
    by (simp add: deploy_payload_def demo_deploy_def DEPLOY_STATUSES_def STEP_RESULTS_def
        optional_record_scalar_def utc_of_def)
qed

lemma demo_children:
  "{n. lookup demo_fs ([''dst'', ''.deploy-manifests''] @ [n]) \<noteq> None} = {}"
  by (auto simp: lookup_def demo_fs_def)

lemma demo_deploy_written:
  "\<exists>r fs'. write_manifest names_in (\<lambda>j. []) (demo_time 1) demo_deploy demo_fs = (Inr r, fs')"
proof -
  let ?D = "[''dst'', ''.deploy-manifests'']" and ?m = "manifest_name (demo_time 1) demo_deploy"
  let ?g1 = "put_node ?D Dir demo_fs" and ?c = "[] @ [LF]"
  obtain p where p: "deploy_payload (demo_time 1) demo_deploy = Inr (demo_time 1, p)"
    using demo_deploy_payload by blast
  have v: "validate_deploy_path demo_fs (Path True [''dst'']) = Inr [''dst'']" by code_simp
  have pieces: "\<not> is_dir demo_fs ?D" "\<not> path_exists demo_fs ?D" "\<not> is_symlink demo_fs ?D"
    "walk demo_fs True link_limit [] [''dst''] = Inr [''dst'']" "lookup demo_fs [''dst''] = Some Dir"
    "last ?D \<noteq> dotdot" "\<not> is_symlink ?g1 ?D"
    by code_simp+
  have mk: "mkdir1 ?D demo_fs = (Inr (), ?g1)" using pieces by (simp add: mkdir1_def)
  have w1: "fs_wf ?g1" "lookup ?g1 ?D = Some Dir"
    using put_node_wf [OF demo_fs_wf pieces(5), of "''.deploy-manifests''"] demo_children pieces
    by (simp_all add: lookup_put_node) (auto simp: lookup_def demo_fs_def dotdot_def)
  have none: "lookup ?g1 (?D @ [?m]) = None"
    using demo_children by (auto simp: lookup_put_node)
  have "\<not> path_exists ?g1 (?D @ [?m])"
    using none settled_walk [OF w1(1), of ?D] settled_plain [OF w1(1), of ?D] manifest_name_shape
      walk_plain_snoc [of ?g1 "[]" ?D link_limit ?D "[?m]"] w1(2)
    by (auto simp: path_exists_def settled_def is_link_at_def walk_Cons_plain)
  moreover have "put_file (?D @ [?m]) ?c ?g1 = (Inr (), put_node (?D @ [?m]) (File ?c) ?g1)"
    using put_file_settled [OF w1, of ?m ?c] none by simp
  moreover have "drop (nat 50) (immutable_names (names_in (put_node (?D @ [?m]) (File ?c) ?g1) ?D)) = []"
  proof -
    have "{n. lookup (put_node (?D @ [?m]) (File ?c) ?g1) (?D @ [n]) \<noteq> None} = {?m}"
      using demo_children by (auto simp: lookup_put_node)
    then have "names_in (put_node (?D @ [?m]) (File ?c) ?g1) ?D = [?m]" by (simp add: names_in_def)
    then show ?thesis by (simp add: immutable_names_def)
  qed
  ultimately show ?thesis
    using v p mk pieces(7)
    by (simp add: write_manifest_def bindW_def liftW_def refuse_symlink_def Let_def)
qed

theorem newest_manifests_kept_witness:
  "\<exists>r fs' m. write_manifest names_in (\<lambda>j. []) (demo_time 1) demo_deploy demo_fs = (Inr r, fs')
    \<and> dr_manifest_path r = [''dst'', ''.deploy-manifests'', m]
    \<and> {n. timestamped n \<and> lookup fs' [''dst'', ''.deploy-manifests'', n] \<noteq> None} = {m}"
proof -
  obtain r fs' where w: "write_manifest names_in (\<lambda>j. []) (demo_time 1) demo_deploy demo_fs = (Inr r, fs')"
    using demo_deploy_written by blast
  have l: "distinct (names_in g d) \<and> set (names_in g d) = {n. lookup g (d @ [n]) \<noteq> None}"
    if "finite {n. lookup g (d @ [n]) \<noteq> None}" for g d
    using that by (simp add: names_in_def)
  have none: "lookup demo_fs [''dst'', ''.deploy-manifests'', n] = None" for n
    using demo_children by auto
  then obtain m where "dr_manifest_path r = [''dst'', ''.deploy-manifests'', m]"
    "m \<in> {n. timestamped n \<and> lookup fs' [''dst'', ''.deploy-manifests'', n] \<noteq> None}"
    "{n. timestamped n \<and> lookup fs' [''dst'', ''.deploy-manifests'', n] \<noteq> None} - {m} = {}"
    using newest_manifests_kept [OF w demo_fs_wf _ l] by (auto simp: dotdot_def)
  then show ?thesis using w by blast
qed

section \<open>The evidence of a retry can be recorded\<close>

lemma window_state_known:
  assumes "evaluate_remediation_windows env fs policy observations enabled evaluated sha digest = Inr w"
  shows "wr_state w \<in> set REMEDIATION_WINDOW_STATES"
proof -
  have "wr_state (summarize b fs r) \<in> set REMEDIATION_WINDOW_STATES" for b fs r
    unfolding summarize_def Let_def by (simp add: REMEDIATION_WINDOW_STATES_def)
  moreover have "wr_state empty_result \<in> set REMEDIATION_WINDOW_STATES"
    by (simp add: REMEDIATION_WINDOW_STATES_def empty_result_def)
  ultimately show ?thesis
    using assms
    by (auto simp: evaluate_remediation_windows_def Let_def bindE_eq_Inr
        split: option.splits if_splits)
qed

lemma retry_classification_normal:
  "normalize_security_classification (retry_classification raw) = Inr (retry_classification raw)"
proof -
  have "normalize_security_classification ''scanner_error'' = Inr ''scanner_error''" by code_simp
  then show ?thesis
    by (auto simp: retry_classification_def split: sum.splits)
      (simp add: normalize_security_classification_def)
qed

lemma retry_evidence_shape:
  fixes i defines "r \<equiv> evaluate_retry i"
  shows "normalize_security_classification (ev_initial_result r) = Inr (ev_initial_result r)"
    "normalize_security_classification (ev_final_result r) = Inr (ev_final_result r)"
    "ev_rebuild_result r \<in> set REBUILD_RESULTS"
    "ev_rebuild_attempted r \<longleftrightarrow> ev_rebuild_result r \<noteq> ''skipped''"
proof -
  have s: "normalize_security_classification ''scanner_error'' = Inr ''scanner_error''"
    and a: "normalize_security_classification ''actionable_vulnerability'' = Inr ''actionable_vulnerability''"
    by code_simp+
  note n = retry_classification_normal
  show "normalize_security_classification (ev_initial_result r) = Inr (ev_initial_result r)"
    using n a by (simp add: r_def evaluate_retry_def evaluate_retry_refs_def Let_def split: option.split)
  show "normalize_security_classification (ev_final_result r) = Inr (ev_final_result r)"
    using n s a by (simp add: r_def evaluate_retry_def evaluate_retry_refs_def Let_def split: option.split)
  show "ev_rebuild_result r \<in> set REBUILD_RESULTS"
    by (simp add: r_def evaluate_retry_def evaluate_retry_refs_def Let_def REBUILD_RESULTS_def split: option.split)
  show "ev_rebuild_attempted r \<longleftrightarrow> ev_rebuild_result r \<noteq> ''skipped''"
    by (simp add: r_def evaluate_retry_def evaluate_retry_refs_def Let_def split: option.split)
qed

text \<open>
  C5: What the security retry decides can always be recorded: for every result of
  \<open>evaluate_retry\<close>, every state a remediation window evaluation reports and either deploy
  status, the decoration of the deploy manifest is accepted, and the five entries it adds hold
  exactly these values. So no verdict of the security gate is lost between the two programs.
\<close>
theorem retry_evidence_decorates:
  fixes i :: retry_input
  assumes "evaluate_remediation_windows env fs policy observations enabled evaluated sha digest = Inr w"
    and "status \<in> {''success'', ''failure''}"
  defines "e \<equiv> evaluate_retry i"
  shows "decoration_entries \<lparr>de_status = status, de_initial_result = ev_initial_result e,
      de_rebuild_attempted = ev_rebuild_attempted e, de_rebuild_result = ev_rebuild_result e,
      de_final_result = ev_final_result e, de_window_state = wr_state w\<rparr>
    = Inr [(''security_initial_result'', JStr (ev_initial_result e)),
           (''security_rebuild_attempted'', JBool (ev_rebuild_attempted e)),
           (''security_rebuild_result'', JStr (ev_rebuild_result e)),
           (''security_final_result'', JStr (ev_final_result e)),
           (''security_remediation_window_state'', JStr (wr_state w))]"
proof -
  note s = retry_evidence_shape [of i, folded e_def]
  have "List.member DEPLOY_STATUSES status" using assms(2) by (auto simp: DEPLOY_STATUSES_def)
  moreover have "List.member REMEDIATION_WINDOW_STATES (wr_state w)" "List.member REBUILD_RESULTS (ev_rebuild_result e)"
    using window_state_known [OF assms(1)] s(3) by simp_all
  ultimately show ?thesis
    using s by (auto simp: decoration_entries_def except_raise_def)
qed

theorem retry_evidence_decorates_witness:
  "\<exists>w entries. evaluate_remediation_windows demo_env sample_fs (Some demo_policy_path) [demo_raw] True None [] [] = Inr w
    \<and> wr_allowed w
    \<and> decoration_entries \<lparr>de_status = ''success'', de_initial_result = ev_initial_result (evaluate_retry (retry_input_of (\<lambda>n. None))),
        de_rebuild_attempted = ev_rebuild_attempted (evaluate_retry (retry_input_of (\<lambda>n. None))),
        de_rebuild_result = ev_rebuild_result (evaluate_retry (retry_input_of (\<lambda>n. None))),
        de_final_result = ev_final_result (evaluate_retry (retry_input_of (\<lambda>n. None))),
        de_window_state = wr_state w\<rparr> = Inr entries"
proof -
  obtain w where w: "evaluate_remediation_windows demo_env sample_fs (Some demo_policy_path) [demo_raw] True None
      [] [] = Inr w" "wr_allowed w"
    using demo_evaluated by blast
  show ?thesis
    using w retry_evidence_decorates [OF w(1), of "''success''" "retry_input_of (\<lambda>n. None)"] by auto
qed

end
