(* ===== verification/Volume_Contract.thy ===== *)
theory Volume_Contract
  imports Deploy_Record Env_Writer Window_Contract
begin

text \<open>
  Docker volumes of a deployment, \<open>scripts/deploy/volume_probe_contract.py\<close>: the validated
  contract, the creation of missing networks and volumes, and the write probes in running
  containers. Docker is the parameter \<open>respond\<close>, from the arguments of one command and its own
  state to the finished command or the error that it could not be run; every command and what
  came of it is logged in the state, so that properties can speak of the commands.
  \<open>strict_loads\<close> is \<open>json.loads\<close> with the two hooks it calls, \<open>loads\<close> without, \<open>dumps\<close> is
  \<open>json.dump\<close>; \<open>fresh\<close> is the name \<open>mkstemp\<close> finds. Captured output is always text.
\<close>

section \<open>The input\<close>

definition MAX_NAME_LENGTH :: nat where "MAX_NAME_LENGTH = 255"
definition MAX_NAME_LIST_BYTES :: nat where "MAX_NAME_LIST_BYTES = 64 * 1024"
definition MAX_NETWORKS :: nat where "MAX_NETWORKS = 128"
definition MAX_VOLUMES :: nat where "MAX_VOLUMES = 256"
definition MAX_PROBES :: nat where "MAX_PROBES = 32"
definition MAX_PROBE_JSON_BYTES :: nat where "MAX_PROBE_JSON_BYTES = 32 * 1024"
definition MAX_MANIFEST_BYTES :: nat where "MAX_MANIFEST_BYTES = 512 * 1024"

definition NAME_RE :: rx where
  "NAME_RE = anchored (Seq (Cls is_alnum) (Star (Cls path_char)))"

definition PATH_SEGMENT_RE :: rx where "PATH_SEGMENT_RE = anchored (plus (Cls path_char))"

definition CONTAINER_ID_RE :: rx where "CONTAINER_ID_RE = anchored (fixed (replicate 64 hex_any))"

definition IMAGE_ID_RE :: rx where
  "IMAGE_ID_RE = anchored (fixed (map (\<lambda>c x. x = c) ''sha256:'' @ replicate 64 hex_any))"

definition PROBE_FIELDS :: "string list" where
  "PROBE_FIELDS = [''container'', ''volume'', ''mount_path'', ''uid'']"

definition WRITE_PROBE_SCRIPT :: string where
  "WRITE_PROBE_SCRIPT = concat (map (\<lambda>line. line @ [LF])
     [''set -eu'', ''umask 077'', ''target=\"$1\"'',
      ''probe_file=\"$(mktemp \"$target/.optimizr-write-probe.XXXXXX\")\"'',
      ''cleanup() {'', ''  rm -f -- \"$probe_file\"'', ''}'', ''trap cleanup EXIT'',
      ''printf '' @ [CHR 0x27] @ ''optimizr-volume-write-probe'' @ [backslash] @ ''n'' @ [CHR 0x27]
        @ '' > \"$probe_file\"'',
      ''test -s \"$probe_file\"'', ''rm -f -- \"$probe_file\"'', ''trap - EXIT''])"

definition volume_error :: "string \<Rightarrow> exc" where "volume_error m = Exc ProbeContractError m"

type_synonym docker_env = "string \<Rightarrow> string option"

definition volume_env :: "docker_env \<Rightarrow> string \<Rightarrow> string \<Rightarrow> string" where
  "volume_env env key d = (case env key of Some v \<Rightarrow> v | None \<Rightarrow> d)"

definition docker_name :: "string \<Rightarrow> bool" where
  "docker_name v \<longleftrightarrow> length v \<le> MAX_NAME_LENGTH \<and> fullmatch NAME_RE v"

definition split_names :: "string \<Rightarrow> string \<Rightarrow> nat \<Rightarrow> string list result" where
  "split_names raw fld maximum =
     guardE (length (utf8_encode raw) \<le> MAX_NAME_LIST_BYTES)
       (volume_error (fld @ '' exceeds the maximum size''))
     (let names = py_split raw in
      guardE (length names \<le> maximum) (volume_error (fld @ '' contains too many names''))
      (guardE (distinct names) (volume_error (fld @ '' must not contain duplicate names''))
      (guardE (list_all docker_name names) (volume_error (fld @ '' contains an invalid Docker name''))
        (Inr names))))"

fun reject_duplicate_keys :: "(string \<times> json) list \<Rightarrow> jobj \<Rightarrow> jobj result" where
  "reject_duplicate_keys [] d = Inr d"
| "reject_duplicate_keys ((k, v) # rest) d =
     guardE (\<not> jhas k d) (volume_error ''volume_write_probes_json contains a duplicate object key'')
       (reject_duplicate_keys rest (d @ [(k, v)]))"

definition reject_json_constant :: "string \<Rightarrow> json result" where
  "reject_json_constant v = Inl (volume_error ''volume_write_probes_json contains a non-standard JSON number'')"

definition validate_mount_path :: "json \<Rightarrow> string result" where
  "validate_mount_path v =
     (case v of
        JStr s \<Rightarrow>
          guardE (length s \<le> 4096) (volume_error ''probe mount_path must be a bounded absolute path'')
          (guardE (prefix ''/'' s \<and> s \<noteq> ''/'' \<and> \<not> has_char backslash s \<and> \<not> has_char (CHR 0x00) s)
            (volume_error ''probe mount_path must be a non-root POSIX absolute path'')
          (guardE (list_all (\<lambda>p. p \<noteq> [] \<and> p \<noteq> ''.'' \<and> p \<noteq> dotdot \<and> fullmatch PATH_SEGMENT_RE p)
                     (split_char CHR ''/'' (tl s)))
            (volume_error ''probe mount_path contains an invalid or traversing segment'') (Inr s)))
      | _ \<Rightarrow> Inl (volume_error ''probe mount_path must be a bounded absolute path''))"

record write_probe =
  wp_container :: string
  wp_volume :: string
  wp_mount_path :: string
  wp_uid :: nat

definition probe_name :: "json \<Rightarrow> string \<Rightarrow> string result" where
  "probe_name v fld =
     (case v of
        JStr s \<Rightarrow> guardE (docker_name s)
                    (volume_error (''probe '' @ fld @ '' contains an invalid Docker name'')) (Inr s)
      | _ \<Rightarrow> Inl (volume_error (''probe '' @ fld @ '' contains an invalid Docker name'')))"

definition probe_uid :: "json \<Rightarrow> nat result" where
  "probe_uid v =
     (case v of
        JInt i \<Rightarrow> guardE (0 \<le> i \<and> i \<le> 2147483647)
                    (volume_error ''probe uid must be an integer between 0 and 2147483647'') (Inr (nat i))
      | _ \<Rightarrow> Inl (volume_error ''probe uid must be an integer between 0 and 2147483647''))"

definition validate_probe :: "json \<Rightarrow> string list \<Rightarrow> write_probe result" where
  "validate_probe raw volumes =
     (case raw of
        JObj d \<Rightarrow>
          guardE (set (jkeys d) = set PROBE_FIELDS)
            (volume_error ''each volume probe must contain only container, volume, mount_path, and uid'')
          (bindE (probe_name (jget ''container'' d) ''container'') (\<lambda>container.
           bindE (probe_name (jget ''volume'' d) ''volume'') (\<lambda>vol.
           guardE (List.member volumes vol)
             (volume_error ''every probed volume must also appear in ensure_volumes'')
           (bindE (probe_uid (jget ''uid'' d)) (\<lambda>uid.
            bindE (validate_mount_path (jget ''mount_path'' d)) (\<lambda>mount_path.
              Inr \<lparr>wp_container = container, wp_volume = vol, wp_mount_path = mount_path, wp_uid = uid\<rparr>))))))
      | _ \<Rightarrow> Inl (volume_error ''each volume probe must contain only container, volume, mount_path, and uid''))"

fun validate_probes :: "json list \<Rightarrow> string list \<Rightarrow> write_probe list \<Rightarrow> write_probe list result" where
  "validate_probes [] volumes acc = Inr acc"
| "validate_probes (raw # rest) volumes acc =
     bindE (validate_probe raw volumes) (\<lambda>p.
     guardE (\<not> List.member acc p) (volume_error ''volume_write_probes_json contains a duplicate probe'')
       (validate_probes rest volumes (acc @ [p])))"

record volume_manifest =
  vm_networks :: "string list"
  vm_volumes :: "string list"
  vm_create_missing :: bool
  vm_allowlist :: "string list"
  vm_probes :: "write_probe list"
  vm_services :: "string list option"

definition probes_value ::
    "(((string \<times> json) list \<Rightarrow> jobj result) \<Rightarrow> (string \<Rightarrow> json result) \<Rightarrow> string \<Rightarrow> json result)
     \<Rightarrow> string \<Rightarrow> json list result" where
  "probes_value strict_loads raw =
     guardE (length (utf8_encode raw) \<le> MAX_PROBE_JSON_BYTES)
       (volume_error ''volume_write_probes_json exceeds the maximum size'')
     (bindE (except_raise (strict_loads (\<lambda>pairs. reject_duplicate_keys pairs []) reject_json_constant raw)
              [ValueError, ProbeContractError, UnicodeDecodeError, RecursionError]
              (volume_error ''volume_write_probes_json must be valid strict JSON'')) (\<lambda>v.
      case v of
        JArr xs \<Rightarrow>
          guardE (length xs \<le> MAX_PROBES) (volume_error ''volume_write_probes_json contains too many probes'')
            (Inr xs)
      | _ \<Rightarrow> Inl (volume_error ''volume_write_probes_json must be a JSON array'')))"

definition rollout_services :: "docker_env \<Rightarrow> write_probe list \<Rightarrow> string list option result" where
  "rollout_services env probes =
     (case (probes, env ''ROLLOUT_SERVICES'') of
        (_ # _, Some raw) \<Rightarrow>
          bindE (split_names raw ''services_up'' MAX_VOLUMES) (\<lambda>services.
          guardE (services \<noteq> [])
            (volume_error ''monorepo volume probes require services_up to roll out first'') (Inr (Some services)))
      | _ \<Rightarrow> Inr None)"

definition validate_inputs ::
    "(((string \<times> json) list \<Rightarrow> jobj result) \<Rightarrow> (string \<Rightarrow> json result) \<Rightarrow> string \<Rightarrow> json result)
     \<Rightarrow> docker_env \<Rightarrow> volume_manifest result" where
  "validate_inputs strict_loads env =
     bindE (split_names (volume_env env ''ENSURE_NETWORKS'' []) ''ensure_networks'' MAX_NETWORKS) (\<lambda>networks.
     bindE (split_names (volume_env env ''ENSURE_VOLUMES'' []) ''ensure_volumes'' MAX_VOLUMES) (\<lambda>volumes.
     bindE (split_names (volume_env env ''CREATE_MISSING_VOLUMES_ALLOWLIST'' [])
              ''create_missing_volumes_allowlist'' MAX_VOLUMES) (\<lambda>allowlist.
     guardE (set allowlist \<subseteq> set volumes)
       (volume_error ''every allowlisted volume must also appear in ensure_volumes'')
     (let legacy = py_lower (volume_env env ''CREATE_MISSING_VOLUMES'' ''false'') in
      guardE (legacy = ''true'' \<or> legacy = ''false'')
        (volume_error ''create_missing_volumes must be true or false'')
     (guardE (\<not> (legacy = ''true'' \<and> allowlist \<noteq> []))
        (volume_error ''create_missing_volumes and create_missing_volumes_allowlist are mutually exclusive'')
     (bindE (probes_value strict_loads (volume_env env ''VOLUME_WRITE_PROBES_JSON'' ''[]'')) (\<lambda>raw_probes.
      bindE (validate_probes raw_probes volumes []) (\<lambda>probes.
      bindE (rollout_services env probes) (\<lambda>services.
        Inr \<lparr>vm_networks = networks, vm_volumes = volumes, vm_create_missing = (legacy = ''true''),
             vm_allowlist = allowlist, vm_probes = probes, vm_services = services\<rparr>)))))))))"

definition may_create_missing_volume :: "volume_manifest \<Rightarrow> string \<Rightarrow> bool" where
  "may_create_missing_volume m v \<longleftrightarrow> vm_create_missing m \<or> List.member (vm_allowlist m) v"

section \<open>Docker\<close>

type_synonym 's docker = "string list \<Rightarrow> 's \<Rightarrow> completed result \<times> 's"

record 's docker_host =
  dh_fs :: fsys
  dh_log :: "(string list \<times> completed result) list"
  dh_state :: 's

definition docker_call :: "'s docker \<Rightarrow> string list \<Rightarrow> ('s docker_host, completed) action" where
  "docker_call respond args h =
     (case respond args (dh_state h) of
        (r, s) \<Rightarrow> (r, h\<lparr>dh_log := dh_log h @ [(args, r)], dh_state := s\<rparr>))"

definition docker_argv :: "docker_env \<Rightarrow> string list result" where
  "docker_argv env =
     (let mode = volume_env env ''DOCKER_MODE'' ''sudo''; config = volume_env env ''DOCKER_CONFIG'' [] in
      if mode = ''direct'' then Inr [''docker'']
      else if mode = ''sudo'' \<or> mode = ''auto''
      then Inr ([''sudo'', ''docker''] @ (if config \<noteq> [] then [''--config'', config] else []))
      else Inl (volume_error ''unsupported docker_mode''))"

text \<open>What becomes of a child process: it ends, exceeds its time or cannot be started.\<close>

datatype child_process = Ended completed | Timed_out | Not_started

definition run_docker :: "(string list \<Rightarrow> 's \<Rightarrow> child_process \<times> 's) \<Rightarrow> docker_env \<Rightarrow> 's docker" where
  "run_docker spawn env args s =
     (case docker_argv env of
        Inl e \<Rightarrow> (Inl e, s)
      | Inr argv \<Rightarrow>
          (case spawn (argv @ args) s of
             (Ended c, s') \<Rightarrow> (Inr c, s')
           | (Timed_out, s') \<Rightarrow> (Inl (volume_error ''Docker command exceeded its execution time limit''), s')
           | (Not_started, s') \<Rightarrow> (Inl (volume_error ''Docker command could not be started''), s')))"

definition compose_args :: "docker_env \<Rightarrow> string list \<Rightarrow> string list result" where
  "compose_args env args =
     (let compose_file = volume_env env ''COMPOSE_FILE'' []; prebuilt = volume_env env ''PREBUILT_COMPOSE_FILE'' [] in
      guardE (compose_file \<noteq> []) (volume_error ''COMPOSE_FILE is required for volume write probes'')
      (if volume_env env ''DEPLOYMENT_MODE'' ''build'' = ''prebuilt-images''
       then guardE (prebuilt \<noteq> []) (volume_error ''PREBUILT_COMPOSE_FILE is required in prebuilt-images mode'')
              (Inr ([''compose'', ''-f'', compose_file, ''-f'', prebuilt] @ args))
       else Inr ([''compose'', ''-f'', compose_file] @ args)))"

definition compose_call :: "'s docker \<Rightarrow> docker_env \<Rightarrow> string list \<Rightarrow> ('s docker_host, completed) action" where
  "compose_call respond env args = bindW (liftW (compose_args env args)) (docker_call respond)"

definition require_success :: "string \<Rightarrow> completed \<Rightarrow> completed result" where
  "require_success description c =
     guardE (returncode c = 0)
       (volume_error (description @ '' failed with exit status '' @ dec_int (returncode c))) (Inr c)"

definition succeeding ::
    "('s docker_host, completed) action \<Rightarrow> string \<Rightarrow> ('s docker_host, completed) action" where
  "succeeding m description = bindW m (\<lambda>c. liftW (require_success description c))"

section \<open>Networks and volumes\<close>

definition inspect_volume_name :: "(string \<Rightarrow> json result) \<Rightarrow> completed \<Rightarrow> string \<Rightarrow> bool result" where
  "inspect_volume_name loads c expected =
     bindE (except_raise (loads (stdout_text c)) [TypeError, JSONDecodeError]
              (volume_error ''Docker returned an invalid volume inspection'')) (\<lambda>v.
     case v of
       JArr [JObj d] \<Rightarrow> Inr (jget ''Name'' d = JStr expected)
     | _ \<Rightarrow> Inl (volume_error ''Docker returned an invalid volume inspection''))"

definition volume_inspect :: "string \<Rightarrow> string list" where
  "volume_inspect v = [''volume'', ''inspect'', v]"

definition volume_ls :: "string \<Rightarrow> string list" where
  "volume_ls v = [''volume'', ''ls'', ''--format'', ''{{.Name}}'', ''--filter'', ''name='' @ v]"

definition volume_create :: "string \<Rightarrow> string list" where
  "volume_create v = [''volume'', ''create'', v]"

fun preflight_volumes ::
    "'s docker \<Rightarrow> (string \<Rightarrow> json result) \<Rightarrow> string list \<Rightarrow> string list
     \<Rightarrow> ('s docker_host, string list) action" where
  "preflight_volumes respond loads [] missing = liftW (Inr missing)"
| "preflight_volumes respond loads (v # vs) missing =
     bindW (docker_call respond (volume_inspect v)) (\<lambda>inspect.
     if returncode inspect = 0
     then
       bindW (liftW (inspect_volume_name loads inspect v)) (\<lambda>same.
       if same then preflight_volumes respond loads vs missing
       else liftW (Inl (volume_error ''Docker inspection did not match the requested volume'')))
     else
       bindW (succeeding (docker_call respond (volume_ls v)) ''Docker volume inventory'') (\<lambda>listed.
       if List.member (py_splitlines (stdout_text listed)) v
       then liftW (Inl (volume_error ''Docker listed a volume that it could not inspect''))
       else preflight_volumes respond loads vs (missing @ [v])))"

fun create_volumes ::
    "'s docker \<Rightarrow> (string \<Rightarrow> json result) \<Rightarrow> string list \<Rightarrow> ('s docker_host, unit) action" where
  "create_volumes respond loads [] = liftW (Inr ())"
| "create_volumes respond loads (v # vs) =
     bindW (succeeding (docker_call respond (volume_create v)) ''Docker volume creation'') (\<lambda>created.
     if py_strip (stdout_text created) \<noteq> v
     then liftW (Inl (volume_error ''Docker did not confirm creation of the exact requested volume''))
     else
       bindW (succeeding (docker_call respond (volume_inspect v)) ''Docker volume verification'') (\<lambda>inspected.
       bindW (liftW (inspect_volume_name loads inspected v)) (\<lambda>same.
       if same then create_volumes respond loads vs
       else liftW (Inl (volume_error ''Docker created a volume with an unexpected name'')))))"

definition ensure_volumes ::
    "'s docker \<Rightarrow> (string \<Rightarrow> json result) \<Rightarrow> volume_manifest \<Rightarrow> ('s docker_host, unit) action" where
  "ensure_volumes respond loads m =
     bindW (preflight_volumes respond loads (vm_volumes m) []) (\<lambda>missing.
     let unauthorized = filter (\<lambda>v. \<not> may_create_missing_volume m v) missing in
     if unauthorized \<noteq> []
     then liftW (Inl (volume_error (''required volume(s) are missing and not authorized for creation: ''
                        @ join_str '', '' unauthorized)))
     else create_volumes respond loads missing)"

fun ensure_networks :: "'s docker \<Rightarrow> string list \<Rightarrow> ('s docker_host, unit) action" where
  "ensure_networks respond [] = liftW (Inr ())"
| "ensure_networks respond (n # ns) =
     bindW (docker_call respond [''network'', ''inspect'', n]) (\<lambda>inspected.
     if returncode inspected \<noteq> 0
     then bindW (succeeding (docker_call respond [''network'', ''create'', n]) ''Docker network creation'')
            (\<lambda>_. ensure_networks respond ns)
     else ensure_networks respond ns)"

definition ensure_resources ::
    "'s docker \<Rightarrow> (string \<Rightarrow> json result) \<Rightarrow> volume_manifest \<Rightarrow> ('s docker_host, unit) action" where
  "ensure_resources respond loads m =
     bindW (ensure_networks respond (vm_networks m)) (\<lambda>_. ensure_volumes respond loads m)"

section \<open>Write probes\<close>

definition container_document :: "(string \<Rightarrow> json result) \<Rightarrow> string \<Rightarrow> jobj result" where
  "container_document loads raw =
     bindE (except_raise (loads raw) [JSONDecodeError]
              (volume_error ''Docker returned invalid container inspection data'')) (\<lambda>v.
     case v of
       JArr [JObj d] \<Rightarrow> Inr d
     | _ \<Rightarrow> Inl (volume_error ''Docker did not return exactly one inspected container''))"

definition container_identity :: "string list \<Rightarrow> string \<Rightarrow> jobj \<Rightarrow> string result" where
  "container_identity compose_ids name d =
     (case jget ''Id'' d of
        JStr i \<Rightarrow>
          guardE (fullmatch CONTAINER_ID_RE i \<and> List.member compose_ids i)
            (volume_error ''probe container is not part of the current Compose deployment'')
          (guardE (jget ''Name'' d = JStr (CHR ''/'' # name))
            (volume_error ''Docker inspected a different container than requested'')
          (guardE (case jget ''State'' d of JObj st \<Rightarrow> jget ''Running'' st = JBool True | _ \<Rightarrow> False)
            (volume_error ''probe container is not running'') (Inr i)))
      | _ \<Rightarrow> Inl (volume_error ''probe container is not part of the current Compose deployment''))"

definition image_reference_ok :: "json \<Rightarrow> bool" where
  "image_reference_ok v =
     (case v of
        JStr s \<Rightarrow> s \<noteq> [] \<and> length s \<le> 512 \<and> \<not> prefix ''-'' s
                  \<and> list_all (\<lambda>c. 33 \<le> code c \<and> code c \<le> 126) s
      | _ \<Rightarrow> False)"

definition text_of_json :: "json \<Rightarrow> string" where
  "text_of_json v = (case v of JStr s \<Rightarrow> s | _ \<Rightarrow> [])"

text \<open>The configured image and the Compose service of the container\<close>

definition container_service :: "string list option \<Rightarrow> jobj \<Rightarrow> (string \<times> string) result" where
  "container_service expected d =
     (case jget ''Config'' d of
        JObj config \<Rightarrow>
          guardE (image_reference_ok (jget ''Image'' config))
            (volume_error ''probe container has no configured image'')
          (case jget ''Labels'' config of
             JObj labels \<Rightarrow>
               (case jget ''com.docker.compose.service'' labels of
                  JStr service \<Rightarrow>
                    guardE (fullmatch NAME_RE service)
                      (volume_error ''probe container has an invalid Compose service label'')
                    (guardE (case expected of None \<Rightarrow> True | Some names \<Rightarrow> List.member names service)
                      (volume_error ''probe container service was not requested in this rollout'')
                    (guardE (py_lower (text_of_json (jget ''com.docker.compose.oneoff'' labels)) \<noteq> ''true'')
                      (volume_error ''probe target must be a deployed Compose service, not a one-off container'')
                      (Inr (text_of_json (jget ''Image'' config), service))))
                | _ \<Rightarrow> Inl (volume_error ''probe container has an invalid Compose service label''))
           | _ \<Rightarrow> Inl (volume_error ''probe container has no Compose service label''))
      | _ \<Rightarrow> Inl (volume_error ''probe container has no inspectable image configuration''))"

definition object_at :: "string \<Rightarrow> json \<Rightarrow> json" where
  "object_at k v = (case v of JObj d \<Rightarrow> jget k d | _ \<Rightarrow> JNull)"

definition configured_service :: "json \<Rightarrow> string \<Rightarrow> string \<Rightarrow> unit result" where
  "configured_service compose_config service img =
     (case object_at service (object_at ''services'' compose_config) of
        JObj d \<Rightarrow>
          guardE (jget ''image'' d = JNull \<or> jget ''image'' d = JStr img)
            (volume_error ''probe container image does not match the current Compose configuration'') (Inr ())
      | _ \<Rightarrow> Inl (volume_error ''probe container is not declared by the current Compose configuration''))"

definition container_image_id :: "jobj \<Rightarrow> string result" where
  "container_image_id d =
     (case jget ''Image'' d of
        JStr i \<Rightarrow> guardE (fullmatch IMAGE_ID_RE i)
                    (volume_error ''probe container has no immutable image identifier'') (Inr i)
      | _ \<Rightarrow> Inl (volume_error ''probe container has no immutable image identifier''))"

definition is_probe_mount :: "write_probe \<Rightarrow> json \<Rightarrow> bool" where
  "is_probe_mount p v =
     (case v of
        JObj d \<Rightarrow> jget ''Type'' d = JStr ''volume'' \<and> jget ''Name'' d = JStr (wp_volume p)
                  \<and> jget ''Destination'' d = JStr (wp_mount_path p)
      | _ \<Rightarrow> False)"

definition check_mounts :: "write_probe \<Rightarrow> jobj \<Rightarrow> unit result" where
  "check_mounts p d =
     (case jget ''Mounts'' d of
        JArr mounts \<Rightarrow>
          (case filter (is_probe_mount p) mounts of
             [m] \<Rightarrow> guardE (object_at ''RW'' m = JBool True)
                      (volume_error ''probe does not match one writable named-volume mount'') (Inr ())
           | _ \<Rightarrow> Inl (volume_error ''probe does not match one writable named-volume mount''))
      | _ \<Rightarrow> Inl (volume_error ''probe container has no inspectable mounts''))"

definition container_inspect :: "string \<Rightarrow> string list" where
  "container_inspect name = [''inspect'', ''--type'', ''container'', name]"

definition verify_probe_target ::
    "'s docker \<Rightarrow> (string \<Rightarrow> json result) \<Rightarrow> docker_env \<Rightarrow> string list option \<Rightarrow> write_probe
     \<Rightarrow> ('s docker_host, string) action" where
  "verify_probe_target respond loads env expected p =
     bindW (succeeding (compose_call respond env [''ps'', ''--all'', ''--quiet'', ''--no-trunc''])
              ''Compose container inventory'') (\<lambda>ps.
     bindW (succeeding (docker_call respond (container_inspect (wp_container p)))
              ''Docker container inspection'') (\<lambda>inspected.
     bindW (liftW (container_document loads (stdout_text inspected))) (\<lambda>d.
     bindW (liftW (container_identity (py_splitlines (stdout_text ps)) (wp_container p) d)) (\<lambda>container_id.
     bindW (liftW (container_service expected d)) (\<lambda>(config_image, service).
     bindW (succeeding (compose_call respond env [''config'', ''--format'', ''json''])
              ''Compose configuration inspection'') (\<lambda>config.
     bindW (liftW (except_raise (loads (stdout_text config)) [JSONDecodeError]
              (volume_error ''Compose returned invalid configuration data''))) (\<lambda>compose_config.
     bindW (liftW (configured_service compose_config service config_image)) (\<lambda>_.
     bindW (liftW (container_image_id d)) (\<lambda>image_id.
     bindW (succeeding (docker_call respond [''image'', ''inspect'', ''--format'', ''{{.Id}}'', config_image])
              ''Docker deployed image inspection'') (\<lambda>img.
     bindW (liftW (guardE (py_strip (stdout_text img) = image_id)
              (volume_error ''probe container image reference no longer resolves to its deployed image'')
              (check_mounts p d))) (\<lambda>_.
       liftW (Inr container_id))))))))))))"

definition probe_exec :: "write_probe \<Rightarrow> string \<Rightarrow> string list" where
  "probe_exec p container_id =
     [''exec'', ''--user'', dec (wp_uid p), container_id, ''sh'', ''-eu'', ''-c'', WRITE_PROBE_SCRIPT, ''sh'',
      wp_mount_path p]"

fun run_write_probes ::
    "'s docker \<Rightarrow> (string \<Rightarrow> json result) \<Rightarrow> docker_env \<Rightarrow> string list option \<Rightarrow> write_probe list
     \<Rightarrow> ('s docker_host, unit) action" where
  "run_write_probes respond loads env expected [] = liftW (Inr ())"
| "run_write_probes respond loads env expected (p # ps) =
     bindW (verify_probe_target respond loads env expected p) (\<lambda>container_id.
     bindW (succeeding (docker_call respond (probe_exec p container_id)) ''Docker volume write probe'') (\<lambda>_.
       run_write_probes respond loads env expected ps))"

section \<open>The manifest and the commands\<close>

definition probe_json :: "write_probe \<Rightarrow> json" where
  "probe_json p = JObj [(''container'', JStr (wp_container p)), (''volume'', JStr (wp_volume p)),
     (''mount_path'', JStr (wp_mount_path p)), (''uid'', JInt (int (wp_uid p)))]"

definition texts_json :: "string list \<Rightarrow> json" where
  "texts_json xs = JArr (map JStr xs)"

definition volume_manifest_json :: "volume_manifest \<Rightarrow> jobj" where
  "volume_manifest_json m =
     [(''ensure_networks'', texts_json (vm_networks m)), (''ensure_volumes'', texts_json (vm_volumes m)),
      (''create_missing_volumes'', JBool (vm_create_missing m)),
      (''create_missing_volumes_allowlist'', texts_json (vm_allowlist m)),
      (''volume_write_probes'', JArr (map probe_json (vm_probes m))),
      (''rollout_services'', case vm_services m of None \<Rightarrow> JNull | Some xs \<Rightarrow> texts_json xs)]"

definition write_volume_manifest ::
    "(json \<Rightarrow> string) \<Rightarrow> string \<Rightarrow> docker_env \<Rightarrow> volume_manifest \<Rightarrow> (fsys, string) action" where
  "write_volume_manifest dumps fresh env m fs =
     (let runner_temp = volume_env env ''RUNNER_TEMP'' []; github_output = volume_env env ''GITHUB_OUTPUT'' [];
          dir = parse_path runner_temp; p = parts dir @ [''optimizr-volume-contract-'' @ fresh @ ''.json''] in
      if runner_temp = [] \<or> github_output = []
      then (Inl (volume_error ''runner temporary directory and GITHUB_OUTPUT are required''), fs)
      else if \<not> (is_abs dir \<and> is_dir fs (parts dir))
      then (Inl (volume_error ''RUNNER_TEMP must be an existing absolute directory''), fs)
      else
        (case bindW (write_text p (dumps (JObj (volume_manifest_json m)) @ [LF])) (\<lambda>_.
                append_text (parts (absolute fs (parse_path github_output)))
                  (''manifest_path='' @ posix_text p @ [LF])) fs of
           (Inr _, fs') \<Rightarrow> (Inr (posix_text p), fs')
         | (Inl e, fs') \<Rightarrow>
             if catches [OSError, TypeError, ValueError] e
             then (Inl (volume_error ''validated volume manifest could not be written''), snd (unlink p fs'))
             else (Inl e, fs')))"

definition read_volume_manifest ::
    "(string \<Rightarrow> json result) \<Rightarrow> fsys \<Rightarrow> string list \<Rightarrow> path \<Rightarrow> json result" where
  "read_volume_manifest loads fs runner_temp p =
     guardE (is_abs p \<and> \<not> is_symlink fs (parts p))
       (volume_error ''volume manifest must be an absolute regular file, not a symbolic link'')
     (bindE (resolve fs True p) (\<lambda>resolved.
      guardE (in_parents runner_temp resolved \<and> is_file fs resolved)
        (volume_error ''volume manifest must remain inside RUNNER_TEMP'')
      (bindE (read_file fs resolved) (\<lambda>content.
       guardE (length content \<le> MAX_MANIFEST_BYTES) (volume_error ''volume manifest exceeds the maximum size'')
         (loads content)))))"

definition load_volume_manifest :: "(string \<Rightarrow> json result) \<Rightarrow> docker_env \<Rightarrow> fsys \<Rightarrow> jobj result" where
  "load_volume_manifest loads env fs =
     (let runner_temp = volume_env env ''RUNNER_TEMP'' []; raw = volume_env env ''VOLUME_MANIFEST'' [] in
      guardE (runner_temp \<noteq> [] \<and> raw \<noteq> []) (volume_error ''validated volume manifest is unavailable'')
      (bindE (except_raise (resolve fs True (parse_path runner_temp)) [OSError]
                (volume_error ''RUNNER_TEMP is unavailable'')) (\<lambda>root_dir.
       guardE (is_dir fs root_dir) (volume_error ''RUNNER_TEMP is unavailable'')
       (bindE (except_raise (read_volume_manifest loads fs root_dir (parse_path raw))
                 [OSError, ValueError, UnicodeDecodeError, RecursionError]
                 (volume_error ''validated volume manifest could not be read'')) (\<lambda>v.
        case v of
          JObj d \<Rightarrow> Inr d
        | _ \<Rightarrow> Inl (volume_error ''validated volume manifest has an invalid structure''))))))"

text \<open>
  What the commands read of a loaded document. A document that no validation wrote makes the
  source fail with an uncaught \<open>KeyError\<close> or \<open>TypeError\<close> where it first uses the missing part;
  here it fails before the first command.
\<close>

definition loaded_error :: exc where "loaded_error = Exc TypeError ''unusable manifest''"

definition loaded_text :: "json \<Rightarrow> string result" where
  "loaded_text v = (case v of JStr s \<Rightarrow> Inr s | _ \<Rightarrow> Inl loaded_error)"

definition loaded_texts :: "json \<Rightarrow> string list result" where
  "loaded_texts v = (case v of JArr xs \<Rightarrow> mapE loaded_text xs | _ \<Rightarrow> Inl loaded_error)"

definition loaded_probe :: "json \<Rightarrow> write_probe result" where
  "loaded_probe v =
     bindE (loaded_text (object_at ''container'' v)) (\<lambda>container.
     bindE (loaded_text (object_at ''volume'' v)) (\<lambda>vol.
     bindE (loaded_text (object_at ''mount_path'' v)) (\<lambda>mount_path.
     case object_at ''uid'' v of
       JInt i \<Rightarrow> guardE (0 \<le> i) loaded_error
                   (Inr \<lparr>wp_container = container, wp_volume = vol, wp_mount_path = mount_path, wp_uid = nat i\<rparr>)
     | _ \<Rightarrow> Inl loaded_error)))"

definition loaded_services :: "json \<Rightarrow> string list option result" where
  "loaded_services v =
     (case v of
        JNull \<Rightarrow> Inr None
      | JArr xs \<Rightarrow>
          bindE (except_raise (mapE loaded_text xs) [TypeError]
                   (volume_error ''validated rollout service list has an invalid structure''))
            (\<lambda>ys. Inr (Some ys))
      | _ \<Rightarrow> Inl (volume_error ''validated rollout service list has an invalid structure''))"

definition volume_manifest_of :: "jobj \<Rightarrow> volume_manifest result" where
  "volume_manifest_of d =
     bindE (loaded_texts (jget ''ensure_networks'' d)) (\<lambda>networks.
     bindE (loaded_texts (jget ''ensure_volumes'' d)) (\<lambda>volumes.
     bindE (loaded_texts (jget ''create_missing_volumes_allowlist'' d)) (\<lambda>allowlist.
     bindE (loaded_services (jget ''rollout_services'' d)) (\<lambda>services.
     case jget ''volume_write_probes'' d of
       JArr xs \<Rightarrow>
         bindE (mapE loaded_probe xs) (\<lambda>probes.
           Inr \<lparr>vm_networks = networks, vm_volumes = volumes,
                vm_create_missing = truthy (jget ''create_missing_volumes'' d), vm_allowlist = allowlist,
                vm_probes = probes, vm_services = services\<rparr>)
     | _ \<Rightarrow> Inl loaded_error))))"

definition volume_main ::
    "(((string \<times> json) list \<Rightarrow> jobj result) \<Rightarrow> (string \<Rightarrow> json result) \<Rightarrow> string \<Rightarrow> json result)
     \<Rightarrow> (string \<Rightarrow> json result) \<Rightarrow> (json \<Rightarrow> string) \<Rightarrow> string
     \<Rightarrow> (string list \<Rightarrow> 's \<Rightarrow> child_process \<times> 's) \<Rightarrow> docker_env \<Rightarrow> string list
     \<Rightarrow> ('s docker_host, unit) action" where
  "volume_main strict_loads loads dumps fresh spawn env args h =
     (if args = [''validate'']
      then (case validate_inputs strict_loads env of
              Inl e \<Rightarrow> (Inl e, h)
            | Inr m \<Rightarrow>
                (case write_volume_manifest dumps fresh env m (dh_fs h) of
                   (r, fs') \<Rightarrow> (bindE r (\<lambda>_. Inr ()), h\<lparr>dh_fs := fs'\<rparr>)))
      else if args = [''apply'']
      then bindW (\<lambda>h. (bindE (load_volume_manifest loads env (dh_fs h)) volume_manifest_of, h))
             (ensure_resources (run_docker spawn env) loads) h
      else if args = [''probe'']
      then bindW (\<lambda>h. (bindE (load_volume_manifest loads env (dh_fs h)) volume_manifest_of, h))
             (\<lambda>m. run_write_probes (run_docker spawn env) loads env (vm_services m) (vm_probes m)) h
      else (Inl (volume_error ''expected one command: validate, apply, or probe''), h))"

text \<open>The exit code; any other exception is not caught and ends with code 1 as well.\<close>

definition volume_exit :: "unit result \<Rightarrow> nat" where
  "volume_exit r = (case r of Inr _ \<Rightarrow> 0 | Inl _ \<Rightarrow> 1)"

section \<open>What the log holds\<close>

text \<open>
  \<open>extends_log P m\<close>: whatever \<open>m\<close> does, it only appends to the log, and \<open>P\<close> holds of its result
  and of what it appended.
\<close>

type_synonym docker_log = "(string list \<times> completed result) list"

definition extends_log :: "('a result \<Rightarrow> docker_log \<Rightarrow> bool) \<Rightarrow> ('s docker_host, 'a) action \<Rightarrow> bool" where
  "extends_log P m \<longleftrightarrow> (\<forall>h r h'. m h = (r, h') \<longrightarrow> (\<exists>new. dh_log h' = dh_log h @ new \<and> P r new))"

lemma extends_logD:
  "extends_log P m \<Longrightarrow> m h = (r, h') \<Longrightarrow> \<exists>new. dh_log h' = dh_log h @ new \<and> P r new"
  by (simp add: extends_log_def)

lemma extends_log_mono: "extends_log P m \<Longrightarrow> (\<And>r new. P r new \<Longrightarrow> Q r new) \<Longrightarrow> extends_log Q m"
  unfolding extends_log_def by blast

lemma extends_log_lift: "P r [] \<Longrightarrow> extends_log P (liftW r)"
  by (simp add: extends_log_def)

lemma extends_log_bind:
  assumes "extends_log P m" and "\<And>e new. P (Inl e) new \<Longrightarrow> Q (Inl e) new"
    and "\<And>x new. P (Inr x) new \<Longrightarrow> extends_log (\<lambda>r rest. Q r (new @ rest)) (k x)"
  shows "extends_log Q (bindW m k)"
  unfolding extends_log_def
proof (intro allI impI)
  fix h r h' assume b: "bindW m k h = (r, h')"
  obtain r1 h1 where m: "m h = (r1, h1)" by (cases "m h")
  obtain new where new: "dh_log h1 = dh_log h @ new" "P r1 new" using extends_logD [OF assms(1) m] by blast
  show "\<exists>new. dh_log h' = dh_log h @ new \<and> Q r new"
  proof (cases r1)
    case (Inl e)
    then show ?thesis using b m new assms(2) by (auto simp: bindW_def)
  next
    case (Inr x)
    then have "k x h1 = (r, h')" using b m by (simp add: bindW_def)
    moreover have "extends_log (\<lambda>r rest. Q r (new @ rest)) (k x)" using assms(3) new(2) Inr by simp
    ultimately show ?thesis using new(1) by (fastforce dest: extends_logD)
  qed
qed

lemma extends_log_bind_lift:
  "(\<And>e. r = Inl e \<Longrightarrow> Q (Inl e) []) \<Longrightarrow> (\<And>x. r = Inr x \<Longrightarrow> extends_log Q (k x))
     \<Longrightarrow> extends_log Q (bindW (liftW r) k)"
  by (cases r) (auto simp: extends_log_def)

lemma extends_log_call: "extends_log (\<lambda>r new. new = [(args, r)]) (docker_call respond args)"
  by (auto simp: extends_log_def docker_call_def split: prod.splits)

lemma extends_log_succeeding:
  "extends_log (\<lambda>r new. \<exists>outcome. new = [(args, outcome)] \<and> (\<forall>c. r = Inr c \<longrightarrow> outcome = Inr c \<and> returncode c = 0))
     (succeeding (docker_call respond args) description)"
  unfolding succeeding_def
  by (rule extends_log_bind [OF extends_log_call])
     (auto intro!: extends_log_lift simp: require_success_def guardE_def)

section \<open>Volumes are created only if authorised\<close>

text \<open>Docker confirmed the volume; Docker could not inspect the volume and did not list it.\<close>

definition confirmed :: "(string \<Rightarrow> json result) \<Rightarrow> docker_log \<Rightarrow> string \<Rightarrow> bool" where
  "confirmed loads entries v \<longleftrightarrow>
     (\<exists>c. (volume_inspect v, Inr c) \<in> set entries \<and> returncode c = 0 \<and> inspect_volume_name loads c v = Inr True)"

definition unlisted :: "docker_log \<Rightarrow> string \<Rightarrow> bool" where
  "unlisted entries v \<longleftrightarrow>
     (\<exists>i c. (volume_inspect v, Inr i) \<in> set entries \<and> returncode i \<noteq> 0
        \<and> (volume_ls v, Inr c) \<in> set entries \<and> returncode c = 0 \<and> v \<notin> set (py_splitlines (stdout_text c)))"

definition commands :: "docker_log \<Rightarrow> string list set" where
  "commands entries = fst ` set entries"

lemma confirmed_append [simp]: "confirmed loads (a @ b) v \<longleftrightarrow> confirmed loads a v \<or> confirmed loads b v"
  by (auto simp: confirmed_def)

lemma unlisted_mono: "unlisted a v \<Longrightarrow> set a \<subseteq> set b \<Longrightarrow> unlisted b v"
  unfolding unlisted_def by blast

lemma commands_simps [simp]: "commands [] = {}" "commands (e # entries) = insert (fst e) (commands entries)"
  "commands (a @ b) = commands a \<union> commands b"
  by (simp_all add: commands_def image_Un)

definition preflight_post :: "(string \<Rightarrow> json result) \<Rightarrow> string list \<Rightarrow> string list \<Rightarrow> string list result \<Rightarrow> docker_log \<Rightarrow> bool" where
  "preflight_post loads vs missing r new \<longleftrightarrow>
     commands new \<subseteq> (\<Union>v \<in> set vs. {volume_inspect v, volume_ls v})
     \<and> (\<forall>out. r = Inr out \<longrightarrow> (\<exists>ms. out = missing @ ms \<and> set ms \<subseteq> set vs
          \<and> (\<forall>v \<in> set vs. v \<in> set ms \<or> confirmed loads new v) \<and> (\<forall>v \<in> set ms. unlisted new v)))"

lemma preflight_post_found:
  assumes "preflight_post loads vs missing r rest" and "returncode c = 0" "inspect_volume_name loads c v = Inr True"
  shows "preflight_post loads (v # vs) missing r ((volume_inspect v, Inr c) # rest)"
proof -
  have one: "confirmed loads ((volume_inspect v, Inr c) # rest) v" using assms(2,3) by (auto simp: confirmed_def)
  have more: "confirmed loads rest u \<Longrightarrow> confirmed loads ((volume_inspect v, Inr c) # rest) u" for u
    by (auto simp: confirmed_def)
  have un: "unlisted rest u \<Longrightarrow> unlisted ((volume_inspect v, Inr c) # rest) u" for u
    by (rule unlisted_mono) auto
  show ?thesis using assms(1) one more un by (fastforce simp: preflight_post_def)
qed

lemma preflight_post_missing:
  assumes "preflight_post loads vs (missing @ [v]) r rest" and "returncode i \<noteq> 0" "returncode c = 0"
    "v \<notin> set (py_splitlines (stdout_text c))"
  shows "preflight_post loads (v # vs) missing r ((volume_inspect v, Inr i) # (volume_ls v, Inr c) # rest)"
proof -
  let ?entries = "(volume_inspect v, Inr i) # (volume_ls v, Inr c) # rest"
  have one: "unlisted ?entries v" using assms(2-4) by (auto simp: unlisted_def)
  have more: "confirmed loads rest u \<Longrightarrow> confirmed loads ?entries u" for u by (auto simp: confirmed_def)
  have un: "unlisted rest u \<Longrightarrow> unlisted ?entries u" for u by (rule unlisted_mono) auto
  have "\<exists>ms. out = missing @ ms \<and> set ms \<subseteq> set (v # vs)
      \<and> (\<forall>u \<in> set (v # vs). u \<in> set ms \<or> confirmed loads ?entries u) \<and> (\<forall>u \<in> set ms. unlisted ?entries u)"
    if "r = Inr out" for out
  proof -
    from assms(1) that obtain ms where ms: "out = missing @ v # ms" "set ms \<subseteq> set vs"
      "\<forall>u \<in> set vs. u \<in> set ms \<or> confirmed loads rest u" "\<forall>u \<in> set ms. unlisted rest u"
      by (auto simp: preflight_post_def)
    then show ?thesis using one more un by (intro exI [of _ "v # ms"]) auto
  qed
  then show ?thesis using assms(1) by (auto simp: preflight_post_def)
qed

lemma preflight_logs:
  "extends_log (preflight_post loads vs missing) (preflight_volumes respond loads vs missing)"
proof (induction vs arbitrary: missing)
  case Nil
  show ?case unfolding preflight_volumes.simps by (rule extends_log_lift) (auto simp: preflight_post_def)
next
  case (Cons v vs)
  have cont: "extends_log (\<lambda>r rest. preflight_post loads (v # vs) missing r ([(volume_inspect v, Inr i)] @ rest))
      (if returncode i = 0
       then bindW (liftW (inspect_volume_name loads i v)) (\<lambda>same.
         if same then preflight_volumes respond loads vs missing
         else liftW (Inl (volume_error ''Docker inspection did not match the requested volume'')))
       else bindW (succeeding (docker_call respond (volume_ls v)) ''Docker volume inventory'') (\<lambda>listed.
         if List.member (py_splitlines (stdout_text listed)) v
         then liftW (Inl (volume_error ''Docker listed a volume that it could not inspect''))
         else preflight_volumes respond loads vs (missing @ [v])))" for i
  proof (cases "returncode i = 0")
    case True
    have found: "extends_log (\<lambda>r rest. preflight_post loads (v # vs) missing r ((volume_inspect v, Inr i) # rest))
        (preflight_volumes respond loads vs missing)" if "inspect_volume_name loads i v = Inr True"
      by (rule extends_log_mono [OF Cons.IH]) (rule preflight_post_found [OF _ True that])
    show ?thesis
      using True found
      by (auto intro!: extends_log_bind_lift extends_log_lift simp: preflight_post_def [of _ "v # vs" _ "Inl _"])
  next
    case False
    have "extends_log (\<lambda>r rest. preflight_post loads (v # vs) missing r ([(volume_inspect v, Inr i)] @ rest))
        (bindW (succeeding (docker_call respond (volume_ls v)) ''Docker volume inventory'') (\<lambda>listed.
         if List.member (py_splitlines (stdout_text listed)) v
         then liftW (Inl (volume_error ''Docker listed a volume that it could not inspect''))
         else preflight_volumes respond loads vs (missing @ [v])))"
      by (rule extends_log_bind [OF extends_log_succeeding])
         (use False in
           \<open>auto intro!: extends_log_lift simp: preflight_post_def [of _ "v # vs" _ "Inl _"]
              intro: extends_log_mono [OF Cons.IH] preflight_post_missing\<close>)
    then show ?thesis using False by simp
  qed
  show ?case unfolding preflight_volumes.simps
    by (rule extends_log_bind [OF extends_log_call])
       (use cont in \<open>auto simp: preflight_post_def [of _ "v # vs" _ "Inl _"]\<close>)
qed

definition create_post :: "(string \<Rightarrow> json result) \<Rightarrow> string list \<Rightarrow> unit result \<Rightarrow> docker_log \<Rightarrow> bool" where
  "create_post loads vs r new \<longleftrightarrow>
     commands new \<subseteq> (\<Union>v \<in> set vs. {volume_create v, volume_inspect v})
     \<and> (r = Inr () \<longrightarrow> (\<forall>v \<in> set vs. confirmed loads new v))"

lemma create_logs: "extends_log (create_post loads vs) (create_volumes respond loads vs)"
proof (induction vs)
  case Nil
  show ?case unfolding create_volumes.simps by (rule extends_log_lift) (simp add: create_post_def)
next
  case (Cons v vs)
  have failing: "create_post loads (v # vs) (Inl e) [(volume_create v, a)]"
    "create_post loads (v # vs) (Inl e) [(volume_create v, a), (volume_inspect v, b)]" for e a b
    by (simp_all add: create_post_def)
  have found: "create_post loads (v # vs) r ((volume_create v, a) # (volume_inspect v, Inr c) # rest)"
    if "create_post loads vs r rest" "returncode c = 0" "inspect_volume_name loads c v = Inr True" for r a c rest
  proof -
    let ?log = "(volume_create v, a) # (volume_inspect v, Inr c) # rest"
    have "confirmed loads ?log v" using that(2,3) by (auto simp: confirmed_def)
    moreover have "confirmed loads rest u \<Longrightarrow> confirmed loads ?log u" for u by (auto simp: confirmed_def)
    ultimately show ?thesis using that(1) by (auto simp: create_post_def)
  qed
  have following: "extends_log (\<lambda>r rest. create_post loads (v # vs) r ((volume_create v, a) # (volume_inspect v, Inr c) # rest))
      (create_volumes respond loads vs)" if "returncode c = 0" "inspect_volume_name loads c v = Inr True" for a c
    by (rule extends_log_mono [OF Cons.IH]) (rule found [OF _ that])
  show ?case unfolding create_volumes.simps
    by (rule extends_log_bind [OF extends_log_succeeding])
       (use failing following in
         \<open>auto intro!: extends_log_bind [OF extends_log_succeeding] extends_log_bind_lift extends_log_lift\<close>)
qed

lemma network_logs:
  "extends_log (\<lambda>r new. commands new \<subseteq> (\<Union>n \<in> set ns. {[''network'', ''inspect'', n], [''network'', ''create'', n]}))
     (ensure_networks respond ns)"
proof (induction ns)
  case Nil
  show ?case unfolding ensure_networks.simps by (rule extends_log_lift) simp
next
  case (Cons n ns)
  have following: "extends_log (\<lambda>r rest. commands rest \<subseteq> (\<Union>n \<in> set (n # ns). {[''network'', ''inspect'', n], [''network'', ''create'', n]}))
      (ensure_networks respond ns)"
    by (rule extends_log_mono [OF Cons.IH]) auto
  show ?case unfolding ensure_networks.simps
    by (rule extends_log_bind [OF extends_log_call])
       (use following in \<open>auto intro!: extends_log_bind [OF extends_log_succeeding]\<close>)
qed

text \<open>The volumes a run may create: required, authorised, and neither inspectable nor listed\<close>

definition creatable :: "volume_manifest \<Rightarrow> docker_log \<Rightarrow> string \<Rightarrow> bool" where
  "creatable m pre v \<longleftrightarrow> v \<in> set (vm_volumes m) \<and> may_create_missing_volume m v \<and> unlisted pre v"

definition ensured_post :: "(string \<Rightarrow> json result) \<Rightarrow> volume_manifest \<Rightarrow> unit result \<Rightarrow> docker_log \<Rightarrow> bool" where
  "ensured_post loads m r new \<longleftrightarrow>
     (\<exists>pre post. new = pre @ post
        \<and> commands pre \<subseteq> (\<Union>v \<in> set (vm_volumes m). {volume_inspect v, volume_ls v})
        \<and> commands post \<subseteq> (\<Union>v \<in> {v. creatable m pre v}. {volume_create v, volume_inspect v})
        \<and> (post \<noteq> [] \<longrightarrow> (\<forall>v \<in> set (vm_volumes m). confirmed loads pre v \<or> creatable m pre v))
        \<and> (r = Inr () \<longrightarrow> (\<forall>v \<in> set (vm_volumes m). confirmed loads new v)))"

lemma ensure_logs: "extends_log (ensured_post loads m) (ensure_volumes respond loads m)"
  unfolding ensure_volumes_def
proof (rule extends_log_bind [OF preflight_logs])
  fix e new assume "preflight_post loads (vm_volumes m) [] (Inl e) new"
  then show "ensured_post loads m (Inl e) new"
    unfolding ensured_post_def by - (rule exI [of _ new], rule exI [of _ "[]"], simp add: preflight_post_def)
next
  fix missing pre assume p: "preflight_post loads (vm_volumes m) [] (Inr missing) pre"
  let ?un = "filter (\<lambda>v. \<not> may_create_missing_volume m v) missing"
  have refused: "ensured_post loads m (Inl e) (pre @ [])" for e
    using p unfolding ensured_post_def by - (rule exI [of _ pre], rule exI [of _ "[]"], simp add: preflight_post_def)
  have created: "ensured_post loads m r (pre @ post)" if "?un = []" "create_post loads missing r post" for r post
  proof -
    have c: "\<forall>v \<in> set missing. creatable m pre v"
      using p that(1) by (auto simp: preflight_post_def creatable_def filter_empty_conv)
    have d: "\<forall>v \<in> set (vm_volumes m). v \<in> set missing \<or> confirmed loads pre v"
      "commands pre \<subseteq> (\<Union>v \<in> set (vm_volumes m). {volume_inspect v, volume_ls v})"
      using p by (auto simp: preflight_post_def)
    have "commands post \<subseteq> (\<Union>v \<in> {v. creatable m pre v}. {volume_create v, volume_inspect v})"
      using that(2) c unfolding create_post_def by blast
    moreover have "r = Inr () \<longrightarrow> (\<forall>v \<in> set (vm_volumes m). confirmed loads (pre @ post) v)"
      using that(2) d(1) unfolding create_post_def confirmed_append by blast
    moreover have "\<forall>v \<in> set (vm_volumes m). confirmed loads pre v \<or> creatable m pre v" using c d(1) by blast
    ultimately show ?thesis using d(2)
      unfolding ensured_post_def by - (rule exI [of _ pre], rule exI [of _ post], intro conjI, blast+)
  qed
  show "extends_log (\<lambda>r rest. ensured_post loads m r (pre @ rest))
     (let unauthorized = ?un in
      if unauthorized \<noteq> []
      then liftW (Inl (volume_error (''required volume(s) are missing and not authorized for creation: ''
                        @ join_str '', '' unauthorized)))
      else create_volumes respond loads missing)"
  proof (cases "?un = []")
    case True
    have "extends_log (\<lambda>r rest. ensured_post loads m r (pre @ rest)) (create_volumes respond loads missing)"
      by (rule extends_log_mono [OF create_logs]) (rule created [OF True])
    then show ?thesis using True by (simp add: Let_def)
  next
    case False
    have "extends_log (\<lambda>r rest. ensured_post loads m r (pre @ rest))
        (liftW (Inl (volume_error (''required volume(s) are missing and not authorized for creation: ''
                        @ join_str '', '' ?un))))"
      by (rule extends_log_lift) (rule refused)
    then show ?thesis using False by (simp only: Let_def if_True not_False_eq_True)
  qed
qed

text \<open>
  C35: Whatever Docker answers, applying a contract runs first commands on its networks, then only
  inspections and listings of its required volumes, and creates a volume only if the contract
  requires it and authorises its creation, and Docker could not inspect it and does not list it.
  Nothing is created before every required volume was looked at and found to exist or to be such a
  volume, and a run that returns has seen Docker confirm every required volume by its name.
\<close>

theorem volumes_created_only_if_authorised:
  assumes "ensure_resources respond loads m h = (r, h')"
  shows "\<exists>nets pre post. dh_log h' = dh_log h @ nets @ pre @ post
    \<and> commands nets \<subseteq> (\<Union>n \<in> set (vm_networks m). {[''network'', ''inspect'', n], [''network'', ''create'', n]})
    \<and> commands pre \<subseteq> (\<Union>v \<in> set (vm_volumes m). {volume_inspect v, volume_ls v})
    \<and> commands post \<subseteq> (\<Union>v \<in> {v. creatable m pre v}. {volume_create v, volume_inspect v})
    \<and> (post \<noteq> [] \<longrightarrow> (\<forall>v \<in> set (vm_volumes m). confirmed loads pre v \<or> creatable m pre v))
    \<and> (r = Inr () \<longrightarrow> (\<forall>v \<in> set (vm_volumes m). confirmed loads (pre @ post) v))"
proof -
  let ?N = "\<Union>n \<in> set (vm_networks m). {[''network'', ''inspect'', n], [''network'', ''create'', n]}"
  have "extends_log (\<lambda>r new. \<exists>nets rest. new = nets @ rest \<and> commands nets \<subseteq> ?N \<and> ensured_post loads m r rest)
      (ensure_resources respond loads m)"
    unfolding ensure_resources_def
  proof (rule extends_log_bind [OF network_logs])
    fix e new assume "commands new \<subseteq> ?N"
    then show "\<exists>nets rest. new = nets @ rest \<and> commands nets \<subseteq> ?N \<and> ensured_post loads m (Inl e) rest"
      by - (rule exI [of _ new], rule exI [of _ "[]"], simp add: ensured_post_def)
  next
    fix x new assume n: "commands new \<subseteq> ?N"
    show "extends_log (\<lambda>r rest. \<exists>nets more. new @ rest = nets @ more \<and> commands nets \<subseteq> ?N \<and> ensured_post loads m r more)
        (ensure_volumes respond loads m)"
      by (rule extends_log_mono [OF ensure_logs]) (use n in blast)
  qed
  from extends_logD [OF this assms] obtain nets rest where n: "dh_log h' = dh_log h @ nets @ rest"
    "commands nets \<subseteq> ?N" "ensured_post loads m r rest" by auto
  from n(3) obtain pre post where "rest = pre @ post"
      "commands pre \<subseteq> (\<Union>v \<in> set (vm_volumes m). {volume_inspect v, volume_ls v})"
      "commands post \<subseteq> (\<Union>v \<in> {v. creatable m pre v}. {volume_create v, volume_inspect v})"
      "post \<noteq> [] \<longrightarrow> (\<forall>v \<in> set (vm_volumes m). confirmed loads pre v \<or> creatable m pre v)"
      "r = Inr () \<longrightarrow> (\<forall>v \<in> set (vm_volumes m). confirmed loads rest v)"
    unfolding ensured_post_def by blast
  then show ?thesis using n(1,2) by - (rule exI [of _ nets], rule exI [of _ pre], rule exI [of _ post], simp only:)
qed

section \<open>Required volumes come to exist\<close>

text \<open>
  What the code relies on of Docker, for valid names: an inspection succeeds exactly for the
  existing volumes and names the volume, a listing contains exactly the existing ones, creating
  a volume prints its name and adds it. \<open>vols\<close> are the volumes in a state of Docker.
\<close>

definition honest_docker :: "'s docker \<Rightarrow> (string \<Rightarrow> json result) \<Rightarrow> ('s \<Rightarrow> string set) \<Rightarrow> bool" where
  "honest_docker respond loads vols \<longleftrightarrow>
     (\<forall>v s. docker_name v \<longrightarrow>
        (\<exists>c. respond (volume_inspect v) s = (Inr c, s)
           \<and> (if v \<in> vols s then returncode c = 0 \<and> inspect_volume_name loads c v = Inr True else returncode c \<noteq> 0))
        \<and> (\<exists>c. respond (volume_ls v) s = (Inr c, s) \<and> returncode c = 0
             \<and> (v \<in> set (py_splitlines (stdout_text c)) \<longleftrightarrow> v \<in> vols s))
        \<and> (\<exists>c s'. respond (volume_create v) s = (Inr c, s') \<and> returncode c = 0
             \<and> py_strip (stdout_text c) = v \<and> vols s' = insert v (vols s)))"

lemma honest_dockerD:
  assumes "honest_docker respond loads vols" "docker_name v"
  shows "\<exists>c. respond (volume_inspect v) s = (Inr c, s)
           \<and> (if v \<in> vols s then returncode c = 0 \<and> inspect_volume_name loads c v = Inr True else returncode c \<noteq> 0)"
    and "\<exists>c. respond (volume_ls v) s = (Inr c, s) \<and> returncode c = 0
             \<and> (v \<in> set (py_splitlines (stdout_text c)) \<longleftrightarrow> v \<in> vols s)"
    and "\<exists>c s'. respond (volume_create v) s = (Inr c, s') \<and> returncode c = 0
             \<and> py_strip (stdout_text c) = v \<and> vols s' = insert v (vols s)"
  using assms unfolding honest_docker_def by blast+

lemma docker_call_reply:
  "respond args (dh_state h) = (r, s) \<Longrightarrow> \<exists>h'. docker_call respond args h = (r, h') \<and> dh_state h' = s"
  by (simp add: docker_call_def)

lemma honest_inspect:
  assumes "honest_docker respond loads vols" "docker_name v" "v \<in> vols (dh_state h)"
  shows "\<exists>c h'. docker_call respond (volume_inspect v) h = (Inr c, h') \<and> dh_state h' = dh_state h
    \<and> returncode c = 0 \<and> inspect_volume_name loads c v = Inr True"
proof -
  obtain c where c: "respond (volume_inspect v) (dh_state h) = (Inr c, dh_state h)" "returncode c = 0"
    "inspect_volume_name loads c v = Inr True"
    using honest_dockerD(1) [OF assms(1,2), of "dh_state h"] assms(3) by auto
  then show ?thesis using docker_call_reply [of respond "volume_inspect v" h, OF c(1)] by auto
qed

lemma honest_missing:
  assumes "honest_docker respond loads vols" "docker_name v" "v \<notin> vols (dh_state h)"
  shows "\<exists>i h1 c h2. docker_call respond (volume_inspect v) h = (Inr i, h1) \<and> returncode i \<noteq> 0
    \<and> docker_call respond (volume_ls v) h1 = (Inr c, h2) \<and> dh_state h2 = dh_state h \<and> returncode c = 0
    \<and> v \<notin> set (py_splitlines (stdout_text c))"
proof -
  obtain i where i: "respond (volume_inspect v) (dh_state h) = (Inr i, dh_state h)" "returncode i \<noteq> 0"
    using honest_dockerD(1) [OF assms(1,2), of "dh_state h"] assms(3) by auto
  obtain h1 where h1: "docker_call respond (volume_inspect v) h = (Inr i, h1)" "dh_state h1 = dh_state h"
    using docker_call_reply [of respond "volume_inspect v" h, OF i(1)] by auto
  obtain c where c: "respond (volume_ls v) (dh_state h1) = (Inr c, dh_state h1)" "returncode c = 0"
    "v \<notin> set (py_splitlines (stdout_text c))"
    using honest_dockerD(2) [OF assms(1,2), of "dh_state h1"] assms(3) h1(2) by auto
  obtain h2 where "docker_call respond (volume_ls v) h1 = (Inr c, h2)" "dh_state h2 = dh_state h1"
    using docker_call_reply [of respond "volume_ls v" h1, OF c(1)] by auto
  then show ?thesis using h1 i(2) c(2,3) by auto
qed

lemma honest_create:
  assumes "honest_docker respond loads vols" "docker_name v"
  shows "\<exists>c h'. docker_call respond (volume_create v) h = (Inr c, h') \<and> returncode c = 0 \<and> py_strip (stdout_text c) = v
    \<and> vols (dh_state h') = insert v (vols (dh_state h))"
proof -
  obtain c s where c: "respond (volume_create v) (dh_state h) = (Inr c, s)" "returncode c = 0"
    "py_strip (stdout_text c) = v" "vols s = insert v (vols (dh_state h))"
    using honest_dockerD(3) [OF assms, of "dh_state h"] by auto
  then show ?thesis using docker_call_reply [of respond "volume_create v" h, OF c(1)] by auto
qed

lemma succeeding_Inr:
  "docker_call respond args h = (Inr c, h') \<Longrightarrow> returncode c = 0
     \<Longrightarrow> succeeding (docker_call respond args) description h = (Inr c, h')"
  by (simp add: succeeding_def bindW_def require_success_def)

lemma honest_preflight:
  assumes "honest_docker respond loads vols" "list_all docker_name vs"
  shows "\<exists>h'. preflight_volumes respond loads vs missing h
      = (Inr (missing @ filter (\<lambda>v. v \<notin> vols (dh_state h)) vs), h') \<and> dh_state h' = dh_state h"
  using assms(2)
proof (induction vs arbitrary: missing h)
  case (Cons v vs)
  show ?case
  proof (cases "v \<in> vols (dh_state h)")
    case True
    then obtain c h1 where c: "docker_call respond (volume_inspect v) h = (Inr c, h1)" "dh_state h1 = dh_state h"
      "returncode c = 0" "inspect_volume_name loads c v = Inr True"
      using honest_inspect [OF assms(1), of v h] Cons.prems by auto
    with Cons.IH [of missing h1] Cons.prems True show ?thesis by (simp add: bindW_def)
  next
    case False
    then obtain i h1 c h2 where c: "docker_call respond (volume_inspect v) h = (Inr i, h1)" "returncode i \<noteq> 0"
      "docker_call respond (volume_ls v) h1 = (Inr c, h2)" "dh_state h2 = dh_state h" "returncode c = 0"
      "v \<notin> set (py_splitlines (stdout_text c))"
      using honest_missing [OF assms(1), of v h] Cons.prems by auto
    with Cons.IH [of "missing @ [v]" h2] Cons.prems False succeeding_Inr [OF c(3,5)] show ?thesis
      by (simp add: bindW_def)
  qed
qed simp

lemma honest_creation:
  assumes "honest_docker respond loads vols" "list_all docker_name vs"
  shows "\<exists>h'. create_volumes respond loads vs h = (Inr (), h') \<and> vols (dh_state h') = vols (dh_state h) \<union> set vs"
  using assms(2)
proof (induction vs arbitrary: h)
  case (Cons v vs)
  then obtain c h1 where c: "docker_call respond (volume_create v) h = (Inr c, h1)" "returncode c = 0"
    "py_strip (stdout_text c) = v" "vols (dh_state h1) = insert v (vols (dh_state h))"
    using honest_create [OF assms(1), of v h] by auto
  then obtain i h2 where i: "docker_call respond (volume_inspect v) h1 = (Inr i, h2)" "dh_state h2 = dh_state h1"
    "returncode i = 0" "inspect_volume_name loads i v = Inr True"
    using honest_inspect [OF assms(1), of v h1] Cons.prems by auto
  from Cons.IH [of h2] Cons.prems i(2) c(3,4) succeeding_Inr [OF c(1,2)] succeeding_Inr [OF i(1,3)] i(4)
  show ?case by (auto simp: bindW_def)
qed simp

text \<open>
  C36: With a Docker that does what it documents, ensuring the volumes of a contract with valid
  names ends and returns exactly when every missing volume may be created. Then all required
  volumes exist, no other one was added, and running it again returns without changing Docker;
  otherwise Docker is left as it was.
\<close>

theorem required_volumes_eventually_exist:
  assumes "honest_docker respond loads vols" and "list_all docker_name (vm_volumes m)"
  shows "if \<forall>v \<in> set (vm_volumes m). v \<in> vols (dh_state h) \<or> may_create_missing_volume m v
     then \<exists>h1. ensure_volumes respond loads m h = (Inr (), h1)
        \<and> vols (dh_state h1) = vols (dh_state h) \<union> set (vm_volumes m)
        \<and> (\<exists>h2. ensure_volumes respond loads m h1 = (Inr (), h2) \<and> dh_state h2 = dh_state h1)
     else \<exists>e h1. ensure_volumes respond loads m h = (Inl e, h1) \<and> exc_cls e = ProbeContractError
        \<and> dh_state h1 = dh_state h"
proof -
  let ?missing = "\<lambda>h. filter (\<lambda>v. v \<notin> vols (dh_state h)) (vm_volumes m)"
  let ?un = "\<lambda>h. filter (\<lambda>v. \<not> may_create_missing_volume m v) (?missing h)"
  have run: "ensure_volumes respond loads m h =
      (if ?un h = [] then create_volumes respond loads (?missing h) p
       else (Inl (volume_error (''required volume(s) are missing and not authorized for creation: ''
               @ join_str '', '' (?un h))), p))"
    if "preflight_volumes respond loads (vm_volumes m) [] h = (Inr (?missing h), p)" for h p
    using that by (simp add: ensure_volumes_def bindW_def Let_def)
  obtain p where p: "preflight_volumes respond loads (vm_volumes m) [] h = (Inr (?missing h), p)" "dh_state p = dh_state h"
    using honest_preflight [OF assms, of "[]" h] by auto
  show ?thesis
  proof (cases "\<forall>v \<in> set (vm_volumes m). v \<in> vols (dh_state h) \<or> may_create_missing_volume m v")
    case True
    then have un: "?un h = []" by (auto simp: filter_empty_conv)
    have "list_all docker_name (?missing h)" using assms(2) by (auto simp: list_all_iff)
    then obtain h1 where h1: "create_volumes respond loads (?missing h) p = (Inr (), h1)"
      "vols (dh_state h1) = vols (dh_state h) \<union> set (?missing h)"
      using honest_creation [OF assms(1)] p(2) by metis
    then have e: "ensure_volumes respond loads m h = (Inr (), h1)" using run [OF p(1)] un by simp
    have all: "vols (dh_state h1) = vols (dh_state h) \<union> set (vm_volumes m)" using h1(2) by auto
    have none: "?missing h1 = []" using all by (auto simp: filter_empty_conv)
    obtain q where q: "preflight_volumes respond loads (vm_volumes m) [] h1 = (Inr (?missing h1), q)" "dh_state q = dh_state h1"
      using honest_preflight [OF assms, of "[]" h1] by auto
    have "ensure_volumes respond loads m h1 = (Inr (), q)" using run [OF q(1)] none by simp
    then show ?thesis using True e all q(2) by auto
  next
    case False
    then have "?un h \<noteq> []" by (auto simp: filter_empty_conv)
    then show ?thesis using False run [OF p(1)] p(2) by (auto simp: volume_error_def)
  qed
qed

section \<open>Probes run only in verified containers\<close>

lemma succeeding_call_Inr:
  assumes "succeeding (docker_call respond args) description h = (Inr c, h')"
  shows "dh_log h' = dh_log h @ [(args, Inr c)] \<and> returncode c = 0"
  using assms
  by (auto simp: succeeding_def bindW_eq_Inr require_success_def guardE_eq_Inr docker_call_def split: prod.splits)

lemma succeeding_compose_Inr:
  assumes "succeeding (compose_call respond env args) description h = (Inr c, h')"
  shows "\<exists>a. compose_args env args = Inr a \<and> dh_log h' = dh_log h @ [(a, Inr c)] \<and> returncode c = 0"
proof (cases "compose_args env args")
  case (Inl e)
  then show ?thesis using assms by (simp add: succeeding_def compose_call_def bindW_def)
next
  case (Inr a)
  then have "succeeding (docker_call respond a) description h = (Inr c, h')"
    using assms by (simp add: succeeding_def compose_call_def bindW_def)
  then show ?thesis using succeeding_call_Inr Inr by metis
qed

definition compose_ps :: "string list" where "compose_ps = [''ps'', ''--all'', ''--quiet'', ''--no-trunc'']"
definition compose_config :: "string list" where "compose_config = [''config'', ''--format'', ''json'']"

text \<open>The commands that only read\<close>

definition reads :: "docker_env \<Rightarrow> string list \<Rightarrow> bool" where
  "reads env a \<longleftrightarrow>
     (\<exists>name. a = container_inspect name) \<or> compose_args env compose_ps = Inr a \<or> compose_args env compose_config = Inr a
     \<or> (\<exists>i. a = [''image'', ''inspect'', ''--format'', ''{{.Id}}'', i])"

definition only_reads :: "docker_env \<Rightarrow> docker_log \<Rightarrow> bool" where
  "only_reads env entries \<longleftrightarrow> list_all (\<lambda>e. reads env (fst e)) entries"

lemma only_reads_bind:
  assumes "extends_log (\<lambda>_. only_reads env) m" and "\<And>x. extends_log (\<lambda>_. only_reads env) (k x)"
  shows "extends_log (\<lambda>_. only_reads env) (bindW m k)"
  by (rule extends_log_bind [OF assms(1)])
     (auto simp: only_reads_def intro!: extends_log_mono [OF assms(2)])

lemma only_reads_lift: "extends_log (\<lambda>_. only_reads env) (liftW r)"
  by (rule extends_log_lift) (simp add: only_reads_def)

lemma only_reads_call:
  "reads env args \<Longrightarrow> extends_log (\<lambda>_. only_reads env) (succeeding (docker_call respond args) description)"
  by (rule extends_log_mono [OF extends_log_succeeding]) (auto simp: only_reads_def)

lemma only_reads_compose:
  assumes "\<And>a. compose_args env args = Inr a \<Longrightarrow> reads env a"
  shows "extends_log (\<lambda>_. only_reads env) (succeeding (compose_call respond env args) description)"
  unfolding succeeding_def compose_call_def
  by (intro only_reads_bind only_reads_lift extends_log_bind_lift)
     (use assms in \<open>auto simp: only_reads_def intro: extends_log_mono [OF extends_log_call]\<close>)

text \<open>
  Docker described the container of a probe as a running container of the Compose deployment
  with the name the probe gives and exactly one writable mount of its volume at its path.
\<close>

definition verified_target ::
    "(string \<Rightarrow> json result) \<Rightarrow> docker_env \<Rightarrow> docker_log \<Rightarrow> write_probe \<Rightarrow> string \<Rightarrow> bool" where
  "verified_target loads env entries p container_id \<longleftrightarrow>
     (\<exists>a ps c d mounts mnt state. compose_args env compose_ps = Inr a \<and> (a, Inr ps) \<in> set entries
        \<and> container_id \<in> set (py_splitlines (stdout_text ps))
        \<and> (container_inspect (wp_container p), Inr c) \<in> set entries \<and> returncode c = 0
        \<and> container_document loads (stdout_text c) = Inr d
        \<and> jget ''Id'' d = JStr container_id \<and> fullmatch CONTAINER_ID_RE container_id
        \<and> jget ''Name'' d = JStr (CHR ''/'' # wp_container p)
        \<and> jget ''State'' d = JObj state \<and> jget ''Running'' state = JBool True
        \<and> jget ''Mounts'' d = JArr mounts \<and> filter (is_probe_mount p) mounts = [mnt] \<and> object_at ''RW'' mnt = JBool True)"

lemma verified_target_mono:
  "verified_target loads env a p i \<Longrightarrow> set a \<subseteq> set b \<Longrightarrow> verified_target loads env b p i"
  unfolding verified_target_def by blast

lemma container_identity_Inr:
  assumes "container_identity ids name d = Inr i"
  shows "jget ''Id'' d = JStr i \<and> fullmatch CONTAINER_ID_RE i \<and> i \<in> set ids \<and> jget ''Name'' d = JStr (CHR ''/'' # name)
    \<and> (\<exists>state. jget ''State'' d = JObj state \<and> jget ''Running'' state = JBool True)"
  using assms by (auto simp: container_identity_def guardE_eq_Inr split: json.splits)

lemma check_mounts_Inr:
  assumes "check_mounts p d = Inr u"
  shows "\<exists>mounts mnt. jget ''Mounts'' d = JArr mounts \<and> filter (is_probe_mount p) mounts = [mnt]
    \<and> object_at ''RW'' mnt = JBool True"
  using assms by (auto simp: check_mounts_def guardE_eq_Inr split: json.splits list.splits)

lemma verify_reads: "extends_log (\<lambda>_. only_reads env) (verify_probe_target respond loads env expected p)"
  unfolding verify_probe_target_def
  by (auto simp: reads_def compose_ps_def compose_config_def split: prod.splits
      intro!: only_reads_bind only_reads_lift only_reads_call only_reads_compose)

lemma verify_Inr:
  assumes "verify_probe_target respond loads env expected p h = (Inr i, h')"
  shows "\<exists>new. dh_log h' = dh_log h @ new \<and> verified_target loads env new p i"
proof -
  from assms obtain ps h1 c h2 d image h3 config img u where s:
    "succeeding (compose_call respond env [''ps'', ''--all'', ''--quiet'', ''--no-trunc'']) ''Compose container inventory'' h
       = (Inr ps, h1)"
    "succeeding (docker_call respond (container_inspect (wp_container p))) ''Docker container inspection'' h1 = (Inr c, h2)"
    "container_document loads (stdout_text c) = Inr d"
    "container_identity (py_splitlines (stdout_text ps)) (wp_container p) d = Inr i"
    "succeeding (compose_call respond env [''config'', ''--format'', ''json'']) ''Compose configuration inspection'' h2
       = (Inr config, h3)"
    "succeeding (docker_call respond [''image'', ''inspect'', ''--format'', ''{{.Id}}'', image]) ''Docker deployed image inspection'' h3
       = (Inr img, h')"
    "check_mounts p d = Inr u"
    unfolding verify_probe_target_def
    by (auto simp only: bindW_eq_Inr liftW_eq guardE_eq_Inr prod.inject sum.inject case_prod_unfold)
  obtain a where a: "compose_args env compose_ps = Inr a" "dh_log h1 = dh_log h @ [(a, Inr ps)]"
    using succeeding_compose_Inr [OF s(1)] by (auto simp: compose_ps_def)
  have b: "dh_log h2 = dh_log h1 @ [(container_inspect (wp_container p), Inr c)]" "returncode c = 0"
    using succeeding_call_Inr [OF s(2)] by auto
  obtain e f where ef: "dh_log h3 = dh_log h2 @ [e]" "dh_log h' = dh_log h3 @ [f]"
    using succeeding_compose_Inr [OF s(5)] succeeding_call_Inr [OF s(6)] by auto
  let ?new = "[(a, Inr ps), (container_inspect (wp_container p), Inr c), e, f]"
  have "dh_log h' = dh_log h @ ?new" using a b ef by simp
  moreover have "verified_target loads env ?new p i"
  proof -
    have mem: "(a, Inr ps) \<in> set ?new" "(container_inspect (wp_container p), Inr c) \<in> set ?new" by simp_all
    show ?thesis
      using mem a(1) b(2) s(3) container_identity_Inr [OF s(4)] check_mounts_Inr [OF s(7)]
      unfolding verified_target_def by blast
  qed
  ultimately show ?thesis by blast
qed

definition probe_log ::
    "(string \<Rightarrow> json result) \<Rightarrow> docker_env \<Rightarrow> write_probe list \<Rightarrow> docker_log \<Rightarrow> bool" where
  "probe_log loads env ps new \<longleftrightarrow>
     (\<forall>pre a outcome post. new = pre @ (a, outcome) # post \<longrightarrow>
        reads env a \<or> (\<exists>p \<in> set ps. \<exists>i. a = probe_exec p i \<and> verified_target loads env pre p i))"

lemma probe_log_reads: "only_reads env new \<Longrightarrow> probe_log loads env ps new"
  by (auto simp: probe_log_def only_reads_def)

lemma probe_log_append:
  assumes "probe_log loads env ps a" "probe_log loads env ps b"
  shows "probe_log loads env ps (a @ b)"
  unfolding probe_log_def
proof (intro allI impI)
  fix pre c outcome post assume e: "a @ b = pre @ (c, outcome) # post"
  then consider us where "a = pre @ (c, outcome) # us" | us where "pre = a @ us" "b = us @ (c, outcome) # post"
    by (auto simp: append_eq_append_conv2 append_eq_Cons_conv)
  then show "reads env c \<or> (\<exists>p \<in> set ps. \<exists>i. c = probe_exec p i \<and> verified_target loads env pre p i)"
  proof cases
    case 1
    then show ?thesis using assms(1) unfolding probe_log_def by blast
  next
    case 2
    then have "reads env c \<or> (\<exists>p \<in> set ps. \<exists>i. c = probe_exec p i \<and> verified_target loads env us p i)"
      using assms(2) unfolding probe_log_def by blast
    then show ?thesis using verified_target_mono [of loads env us _ _ pre] 2(1) by auto
  qed
qed

lemma probe_log_exec:
  assumes "only_reads env new" "verified_target loads env new p i" "p \<in> set ps"
  shows "probe_log loads env ps (new @ [(probe_exec p i, outcome)])"
  unfolding probe_log_def
proof (intro allI impI)
  fix pre c o' post assume e: "new @ [(probe_exec p i, outcome)] = pre @ (c, o') # post"
  show "reads env c \<or> (\<exists>p \<in> set ps. \<exists>i. c = probe_exec p i \<and> verified_target loads env pre p i)"
  proof (cases "post = []")
    case True
    then show ?thesis using e assms by auto
  next
    case False
    then have "new = pre @ (c, o') # butlast post" using e by (metis butlast_append butlast_snoc list.distinct(1) butlast.simps(2))
    then show ?thesis using assms(1) by (auto simp: only_reads_def)
  qed
qed

lemma probe_log_mono: "probe_log loads env ps new \<Longrightarrow> set ps \<subseteq> set qs \<Longrightarrow> probe_log loads env qs new"
  unfolding probe_log_def by blast

lemma verify_logs:
  "extends_log (\<lambda>r new. only_reads env new \<and> (\<forall>i. r = Inr i \<longrightarrow> verified_target loads env new p i))
     (verify_probe_target respond loads env expected p)"
  unfolding extends_log_def
proof (intro allI impI)
  fix h r h' assume m: "verify_probe_target respond loads env expected p h = (r, h')"
  obtain new where new: "dh_log h' = dh_log h @ new" "only_reads env new"
    using extends_logD [OF verify_reads m] by blast
  have "verified_target loads env new p i" if "r = Inr i" for i
    using verify_Inr [of respond loads env expected p h i h'] m that new(1) by auto
  then show "\<exists>new. dh_log h' = dh_log h @ new \<and> only_reads env new \<and> (\<forall>i. r = Inr i \<longrightarrow> verified_target loads env new p i)"
    using new by blast
qed

definition probed :: "docker_log \<Rightarrow> write_probe \<Rightarrow> bool" where
  "probed new p \<longleftrightarrow> (\<exists>i c. (probe_exec p i, Inr c) \<in> set new \<and> returncode c = 0)"

lemma probes_logs:
  "extends_log (\<lambda>r new. probe_log loads env ps new \<and> (r = Inr () \<longrightarrow> (\<forall>p \<in> set ps. probed new p)))
     (run_write_probes respond loads env expected ps)"
proof (induction ps)
  case Nil
  show ?case unfolding run_write_probes.simps
    by (rule extends_log_lift) (simp add: probe_log_def)
next
  case (Cons p ps)
  let ?Q = "\<lambda>r new. probe_log loads env (p # ps) new \<and> (r = Inr () \<longrightarrow> (\<forall>p \<in> set (p # ps). probed new p))"
  have rest: "extends_log (\<lambda>r rest. ?Q r (new @ [(probe_exec p i, Inr c)] @ rest)) (run_write_probes respond loads env expected ps)"
    if "only_reads env new" "verified_target loads env new p i" "returncode c = 0" for new i c
  proof (rule extends_log_mono [OF Cons.IH])
    fix r more assume r: "probe_log loads env ps more \<and> (r = Inr () \<longrightarrow> (\<forall>p \<in> set ps. probed more p))"
    have "probe_log loads env (p # ps) ((new @ [(probe_exec p i, Inr c)]) @ more)"
      using r that by (intro probe_log_append probe_log_exec) (auto intro: probe_log_mono)
    moreover have "probed (new @ [(probe_exec p i, Inr c)] @ more) p" using that(3) by (auto simp: probed_def)
    moreover have "probed more q \<Longrightarrow> probed (new @ [(probe_exec p i, Inr c)] @ more) q" for q by (auto simp: probed_def)
    ultimately show "?Q r (new @ [(probe_exec p i, Inr c)] @ more)" using r by auto
  qed
  show ?case unfolding run_write_probes.simps
  proof (rule extends_log_bind [OF verify_logs])
    fix e new assume "only_reads env new \<and> (\<forall>i. (Inl e :: string result) = Inr i \<longrightarrow> verified_target loads env new p i)"
    then show "?Q (Inl e) new" by (simp add: probe_log_reads)
  next
    fix i new
    assume n: "only_reads env new \<and> (\<forall>j. (Inr i :: string result) = Inr j \<longrightarrow> verified_target loads env new p j)"
    show "extends_log (\<lambda>r more. ?Q r (new @ more))
      (bindW (succeeding (docker_call respond (probe_exec p i)) ''Docker volume write probe'') (\<lambda>_.
         run_write_probes respond loads env expected ps))"
    proof (rule extends_log_bind [OF extends_log_succeeding])
      fix e and more :: docker_log
      assume "\<exists>outcome. more = [(probe_exec p i, outcome)] \<and> (\<forall>c. (Inl e :: completed result) = Inr c \<longrightarrow> outcome = Inr c \<and> returncode c = 0)"
      then show "?Q (Inl e) (new @ more)" using n by (auto intro: probe_log_exec)
    next
      fix c and more :: docker_log
      assume "\<exists>outcome. more = [(probe_exec p i, outcome)] \<and> (\<forall>x. (Inr c :: completed result) = Inr x \<longrightarrow> outcome = Inr x \<and> returncode x = 0)"
      then have "more = [(probe_exec p i, Inr c)]" "returncode c = 0" by auto
      then show "extends_log (\<lambda>r rest. ?Q r (new @ (more @ rest))) (run_write_probes respond loads env expected ps)"
        using rest n by simp
    qed
  qed
qed

text \<open>
  C37: Whatever Docker answers, running the write probes only reads, except for the fixed probe
  script, which runs as the user and with the path of a probe of the contract and in a container
  that Docker described just before as a running container of the Compose deployment with the
  name of that probe and exactly one writable mount of its volume there; and if the run returns,
  the script of every probe succeeded.
\<close>

theorem probes_run_verified_only:
  assumes "run_write_probes respond loads env expected ps h = (r, h')"
  shows "\<exists>new. dh_log h' = dh_log h @ new
    \<and> (\<forall>pre a outcome post. new = pre @ (a, outcome) # post \<longrightarrow>
         reads env a \<or> (\<exists>p \<in> set ps. \<exists>i. a = probe_exec p i \<and> verified_target loads env pre p i))
    \<and> (r = Inr () \<longrightarrow> (\<forall>p \<in> set ps. \<exists>i c. (probe_exec p i, Inr c) \<in> set new \<and> returncode c = 0))"
  using extends_logD [OF probes_logs assms] unfolding probe_log_def probed_def .

section \<open>A concrete Docker\<close>

lemma docker_name_chars:
  assumes "docker_name v"
  shows "v \<noteq> [] \<and> (\<forall>c \<in> set v. path_char c)"
proof -
  from assms have "fullmatch (Seq (Cls is_alnum) (Star (Cls path_char))) v"
    by (simp add: docker_name_def NAME_RE_def fullmatch_anchored)
  then have "mtch v (Seq (Cls is_alnum) (Star (Cls path_char))) 0 (length v)"
    by (simp only: fullmatch_iff)
  then have h: "0 < length v" "is_alnum (v ! 0)" "\<forall>k. 1 \<le> k \<and> k < length v \<longrightarrow> path_char (v ! k)"
    by (auto simp: mtch_star_Cls)
  have "path_char (v ! k)" if "k < length v" for k
    using h that by (cases k) (auto simp: path_char_def)
  then show ?thesis using h(1) by (auto simp: in_set_conv_nth)
qed

lemma path_char_plain: "path_char c \<Longrightarrow> \<not> py_isspace c \<and> \<not> is_line_end c \<and> c \<noteq> CR"
  by (auto simp: path_char_def is_alnum_def is_lower_def is_upper_def is_digit_def in_range_def py_isspace_def
      is_line_end_def CR_def code_def)

lemma splitlines_one: "(\<forall>c \<in> set s. \<not> is_line_end c \<and> c \<noteq> CR) \<Longrightarrow> splitlines_acc acc s = (if acc = [] \<and> s = [] then [] else [rev acc @ s])"
  by (induction s arbitrary: acc) auto

lemma py_splitlines_Nil: "py_splitlines [] = []"
  by (simp add: py_splitlines_def)

lemma docker_name_text:
  assumes "docker_name v"
  shows "py_strip v = v \<and> py_splitlines v = [v]"
  using docker_name_chars [OF assms] path_char_plain
  by (auto simp: py_splitlines_def splitlines_one intro: strip_no_space)

definition finished :: "int \<Rightarrow> string \<Rightarrow> completed" where
  "finished rc out = \<lparr>returncode = rc, stdout = Some out\<rparr>"

text \<open>The state is the list of the existing volumes; there are no networks.\<close>

definition demo_docker :: "string list docker" where
  "demo_docker args vs =
     (case args of
        [_, command, v] \<Rightarrow>
          if command = ''inspect'' then (Inr (if v \<in> set vs then finished 0 v else finished 1 []), vs)
          else (Inr (finished 0 v), v # vs)
      | _ \<Rightarrow> (Inr (finished 0 (if drop 5 (last args) \<in> set vs then drop 5 (last args) else [])), vs))"

definition demo_volume_loads :: "string \<Rightarrow> json result" where
  "demo_volume_loads s = Inr (JArr [JObj [(''Name'', JStr s)]])"

lemma demo_docker_simps:
  "demo_docker (volume_inspect v) vs = (Inr (if v \<in> set vs then finished 0 v else finished 1 []), vs)"
  "demo_docker (volume_create v) vs = (Inr (finished 0 v), v # vs)"
  "demo_docker (volume_ls v) vs = (Inr (finished 0 (if v \<in> set vs then v else [])), vs)"
  by (simp_all add: demo_docker_def volume_inspect_def volume_create_def volume_ls_def)

lemma demo_docker_honest: "honest_docker demo_docker demo_volume_loads set"
  unfolding honest_docker_def
  by (auto simp: demo_docker_simps finished_def stdout_text_def inspect_volume_name_def demo_volume_loads_def jget_def
      docker_name_text py_splitlines_Nil)

definition demo_volumes :: volume_manifest where
  "demo_volumes = \<lparr>vm_networks = [], vm_volumes = [''old'', ''new''], vm_create_missing = False,
     vm_allowlist = [''new''], vm_probes = [], vm_services = None\<rparr>"

lemma demo_plain: "py_strip ''new'' = ''new''" "py_strip ''old'' = ''old''"
  by code_simp+

definition demo_docker_host :: "string list docker_host" where
  "demo_docker_host = \<lparr>dh_fs = \<lparr>nodes = Map.empty, cwd = []\<rparr>, dh_log = [], dh_state = [''old'']\<rparr>"

lemma demo_names: "list_all docker_name (vm_volumes demo_volumes)"
  by code_simp

theorem required_volumes_eventually_exist_witness:
  "\<exists>h1. ensure_volumes demo_docker demo_volume_loads demo_volumes demo_docker_host = (Inr (), h1)
     \<and> set (dh_state h1) = {''old'', ''new''}"
  using required_volumes_eventually_exist [OF demo_docker_honest demo_names, of demo_docker_host]
  by (auto simp: demo_volumes_def demo_docker_host_def may_create_missing_volume_def insert_commute)

lemma demo_ensure_resources:
  "\<exists>h'. ensure_resources demo_docker demo_volume_loads demo_volumes demo_docker_host = (Inr (), h')"
  by (simp add: ensure_resources_def ensure_volumes_def demo_volumes_def demo_docker_host_def bindW_def Let_def
      docker_call_def demo_docker_simps finished_def inspect_volume_name_def demo_volume_loads_def stdout_text_def
      jget_def succeeding_def require_success_def may_create_missing_volume_def demo_plain py_splitlines_def)

theorem volumes_created_only_if_authorised_witness:
  "\<exists>h' pre post. ensure_resources demo_docker demo_volume_loads demo_volumes demo_docker_host = (Inr (), h')
     \<and> dh_log h' = pre @ post
     \<and> commands post \<subseteq> (\<Union>v \<in> {v. creatable demo_volumes pre v}. {volume_create v, volume_inspect v})
     \<and> confirmed demo_volume_loads (pre @ post) ''new''"
proof -
  obtain h' where h': "ensure_resources demo_docker demo_volume_loads demo_volumes demo_docker_host = (Inr (), h')"
    using demo_ensure_resources by blast
  from volumes_created_only_if_authorised [OF h'] obtain nets pre post where
    x: "dh_log h' = dh_log demo_docker_host @ nets @ pre @ post" "commands nets = {}"
      "commands post \<subseteq> (\<Union>v \<in> {v. creatable demo_volumes pre v}. {volume_create v, volume_inspect v})"
      "\<forall>v \<in> set (vm_volumes demo_volumes). confirmed demo_volume_loads (pre @ post) v"
    by (auto simp: demo_volumes_def)
  from x(2) have "nets = []" by (simp add: commands_def)
  with x(1,3,4) h' show ?thesis by (auto simp: demo_docker_host_def demo_volumes_def)
qed

text \<open>A Compose deployment with one running container\<close>

definition demo_container_id :: string where "demo_container_id = replicate 64 (CHR ''a'')"
definition demo_image_id :: string where "demo_image_id = ''sha256:'' @ replicate 64 (CHR ''b'')"

definition demo_compose :: "unit docker" where
  "demo_compose args s =
     (Inr (finished 0
        (if hd args = ''compose'' then (if last args = ''json'' then ''config'' else demo_container_id)
         else if hd args = ''inspect'' then ''container'' else if hd args = ''image'' then demo_image_id else [])), s)"

definition demo_container :: jobj where
  "demo_container =
     [(''Id'', JStr demo_container_id), (''Name'', JStr ''/app''), (''State'', JObj [(''Running'', JBool True)]),
      (''Image'', JStr demo_image_id),
      (''Config'', JObj [(''Image'', JStr ''app:1''), (''Labels'', JObj [(''com.docker.compose.service'', JStr ''web'')])]),
      (''Mounts'', JArr [JObj [(''Type'', JStr ''volume''), (''Name'', JStr ''data''),
         (''Destination'', JStr ''/data''), (''RW'', JBool True)]])]"

definition demo_compose_loads :: "string \<Rightarrow> json result" where
  "demo_compose_loads s =
     Inr (if s = ''config'' then JObj [(''services'', JObj [(''web'', JObj [(''image'', JStr ''app:1'')])])]
          else JArr [JObj demo_container])"

definition demo_probe :: write_probe where
  "demo_probe = \<lparr>wp_container = ''app'', wp_volume = ''data'', wp_mount_path = ''/data'', wp_uid = 1000\<rparr>"

definition demo_compose_env :: docker_env where "demo_compose_env = [''COMPOSE_FILE'' \<mapsto> ''c.yml'']"

definition demo_compose_host :: "unit docker_host" where
  "demo_compose_host = \<lparr>dh_fs = \<lparr>nodes = Map.empty, cwd = []\<rparr>, dh_log = [], dh_state = ()\<rparr>"

lemma demo_container_facts:
  "py_splitlines demo_container_id = [demo_container_id]" "py_strip demo_image_id = demo_image_id"
  "container_identity [demo_container_id] ''app'' demo_container = Inr demo_container_id"
  "container_service None demo_container = Inr (''app:1'', ''web'')"
  "container_image_id demo_container = Inr demo_image_id" "check_mounts demo_probe demo_container = Inr ()"
  by code_simp+

lemma demo_probes_run:
  "\<exists>h'. run_write_probes demo_compose demo_compose_loads demo_compose_env None [demo_probe] demo_compose_host = (Inr (), h')"
proof -
  have wp: "wp_container demo_probe = ''app''" by (simp add: demo_probe_def)
  show ?thesis
    by (simp add: verify_probe_target_def succeeding_def compose_call_def docker_call_def require_success_def bindW_def
        demo_compose_def finished_def stdout_text_def compose_args_def Let_def demo_compose_env_def volume_env_def wp
        container_inspect_def container_document_def demo_compose_loads_def configured_service_def object_at_def
        jget_def probe_exec_def demo_container_facts demo_compose_host_def)
qed

theorem probes_run_verified_only_witness:
  "\<exists>h' pre i. run_write_probes demo_compose demo_compose_loads demo_compose_env None [demo_probe] demo_compose_host
      = (Inr (), h')
     \<and> probe_exec demo_probe i \<in> commands (dh_log h') \<and> prefix pre (dh_log h')
     \<and> (reads demo_compose_env (probe_exec demo_probe i) \<or> (\<exists>j. verified_target demo_compose_loads demo_compose_env pre demo_probe j))"
proof -
  obtain h' where h': "run_write_probes demo_compose demo_compose_loads demo_compose_env None [demo_probe] demo_compose_host
      = (Inr (), h')"
    using demo_probes_run by blast
  from probes_run_verified_only [OF h'] obtain i c where
    x: "(probe_exec demo_probe i, Inr c) \<in> set (dh_log h')"
      "\<forall>pre a outcome post. dh_log h' = pre @ (a, outcome) # post \<longrightarrow> reads demo_compose_env a
         \<or> (\<exists>i. a = probe_exec demo_probe i \<and> verified_target demo_compose_loads demo_compose_env pre demo_probe i)"
    by (auto simp: demo_compose_host_def)
  from x(1) obtain pre post where p: "dh_log h' = pre @ (probe_exec demo_probe i, Inr c) # post"
    by (meson split_list)
  then have "reads demo_compose_env (probe_exec demo_probe i)
      \<or> (\<exists>j. verified_target demo_compose_loads demo_compose_env pre demo_probe j)" using x(2) by blast
  moreover have "probe_exec demo_probe i \<in> commands (dh_log h')" using p by simp
  moreover have "prefix pre (dh_log h')" using p by simp
  ultimately show ?thesis using h' by blast
qed

section \<open>What validation and the manifest file preserve\<close>

lemma split_names_Inr:
  "split_names raw fld n = Inr names \<Longrightarrow> names = py_split raw \<and> length names \<le> n \<and> distinct names \<and> list_all docker_name names"
  by (auto simp: split_names_def Let_def guardE_eq_Inr)

lemma validate_probe_Inr:
  "validate_probe raw volumes = Inr p \<Longrightarrow>
     docker_name (wp_container p) \<and> wp_volume p \<in> set volumes \<and> prefix ''/'' (wp_mount_path p)
     \<and> dotdot \<notin> set (split_char CHR ''/'' (wp_mount_path p)) \<and> wp_uid p \<le> 2147483647"
proof -
  assume v: "validate_probe raw volumes = Inr p"
  then obtain d container vol uid mount_path where h: "probe_name (jget ''container'' d) ''container'' = Inr container"
    "vol \<in> set volumes" "probe_uid (jget ''uid'' d) = Inr uid" "validate_mount_path (jget ''mount_path'' d) = Inr mount_path"
    "p = \<lparr>wp_container = container, wp_volume = vol, wp_mount_path = mount_path, wp_uid = uid\<rparr>"
    by (cases raw) (auto simp: validate_probe_def bindE_eq_Inr guardE_eq_Inr)
  have "docker_name container" using h(1) by (auto simp: probe_name_def guardE_eq_Inr split: json.splits)
  moreover have "uid \<le> 2147483647" using h(3) by (auto simp: probe_uid_def guardE_eq_Inr split: json.splits)
  moreover have "prefix ''/'' mount_path \<and> dotdot \<notin> set (split_char CHR ''/'' (tl mount_path))"
    using h(4) by (auto simp: validate_mount_path_def guardE_eq_Inr list_all_iff split: json.splits)
  moreover from this have "split_char CHR ''/'' mount_path = [] # split_char CHR ''/'' (tl mount_path)"
    by (cases mount_path) auto
  ultimately show ?thesis using h(2,5) by (simp add: dotdot_def)
qed

lemma validate_probes_Inr:
  "validate_probes raws volumes acc = Inr ps \<Longrightarrow> distinct acc \<Longrightarrow>
     distinct ps \<and> length ps = length acc + length raws
     \<and> (\<forall>p \<in> set ps. p \<in> set acc \<or> (\<exists>raw. validate_probe raw volumes = Inr p))"
proof (induction raws volumes acc rule: validate_probes.induct)
  case (2 raw rest volumes acc)
  then obtain p where p: "validate_probe raw volumes = Inr p" "p \<notin> set acc"
    "validate_probes rest volumes (acc @ [p]) = Inr ps"
    by (auto simp: bindE_eq_Inr guardE_eq_Inr)
  with 2(1) [OF p(1) _ p(3)] 2(3) show ?case by auto
qed simp

lemma validated_manifest:
  assumes "validate_inputs strict_loads env = Inr m"
  shows "list_all docker_name (vm_networks m) \<and> list_all docker_name (vm_volumes m) \<and> distinct (vm_volumes m)
    \<and> length (vm_networks m) \<le> MAX_NETWORKS \<and> length (vm_volumes m) \<le> MAX_VOLUMES \<and> length (vm_probes m) \<le> MAX_PROBES
    \<and> set (vm_allowlist m) \<subseteq> set (vm_volumes m) \<and> (vm_create_missing m \<longrightarrow> vm_allowlist m = []) \<and> distinct (vm_probes m)
    \<and> (\<forall>p \<in> set (vm_probes m). wp_volume p \<in> set (vm_volumes m) \<and> docker_name (wp_container p)
         \<and> prefix ''/'' (wp_mount_path p) \<and> dotdot \<notin> set (split_char CHR ''/'' (wp_mount_path p)))
    \<and> (\<forall>services. vm_services m = Some services \<longrightarrow> services \<noteq> [])"
proof -
  from assms [unfolded validate_inputs_def Let_def bindE_eq_Inr guardE_eq_Inr sum.inject]
  obtain networks volumes allowlist raws probes services where h:
    "split_names (volume_env env ''ENSURE_NETWORKS'' []) ''ensure_networks'' MAX_NETWORKS = Inr networks"
    "split_names (volume_env env ''ENSURE_VOLUMES'' []) ''ensure_volumes'' MAX_VOLUMES = Inr volumes"
    "set allowlist \<subseteq> set volumes"
    "\<not> (py_lower (volume_env env ''CREATE_MISSING_VOLUMES'' ''false'') = ''true'' \<and> allowlist \<noteq> [])"
    "probes_value strict_loads (volume_env env ''VOLUME_WRITE_PROBES_JSON'' ''[]'') = Inr raws"
    "validate_probes raws volumes [] = Inr probes" "rollout_services env probes = Inr services"
    "m = \<lparr>vm_networks = networks, vm_volumes = volumes,
          vm_create_missing = (py_lower (volume_env env ''CREATE_MISSING_VOLUMES'' ''false'') = ''true''),
          vm_allowlist = allowlist, vm_probes = probes, vm_services = services\<rparr>"
    by (elim exE conjE) (rule that; (assumption | rule sym))
  have "length raws \<le> MAX_PROBES"
    using h(5) by (auto simp: probes_value_def bindE_eq_Inr guardE_eq_Inr case_array_Inr)
  moreover have "\<forall>xs. services = Some xs \<longrightarrow> xs \<noteq> []"
    using h(7) by (auto simp: rollout_services_def bindE_eq_Inr guardE_eq_Inr split: list.splits option.splits)
  ultimately show ?thesis
    using h(3,4,8) split_names_Inr [OF h(1)] split_names_Inr [OF h(2)] validate_probes_Inr [OF h(6)] validate_probe_Inr
    by auto
qed

lemma loaded_texts_json: "loaded_texts (texts_json xs) = Inr xs"
  by (induction xs) (simp_all add: loaded_texts_def texts_json_def loaded_text_def)

lemma loaded_probe_json: "loaded_probe (probe_json p) = Inr p"
  by (simp add: loaded_probe_def probe_json_def object_at_def loaded_text_def jget_def)

lemma mapE_loaded_text: "mapE loaded_text (map JStr xs) = Inr xs"
  by (induction xs) (simp_all add: loaded_text_def)

lemma mapE_loaded_probe: "mapE loaded_probe (map probe_json ps) = Inr ps"
  by (induction ps) (simp_all add: loaded_probe_json)

lemma loaded_services_json:
  "loaded_services (case s of None \<Rightarrow> JNull | Some xs \<Rightarrow> texts_json xs) = Inr s"
  by (cases s) (simp_all add: loaded_services_def texts_json_def mapE_loaded_text)

text \<open>What \<open>validate\<close> writes is what \<open>apply\<close> and \<open>probe\<close> read back.\<close>

lemma volume_manifest_roundtrip: "volume_manifest_of (volume_manifest_json m) = Inr m"
proof -
  have j: "jget ''ensure_networks'' (volume_manifest_json m) = texts_json (vm_networks m)"
    "jget ''ensure_volumes'' (volume_manifest_json m) = texts_json (vm_volumes m)"
    "jget ''create_missing_volumes'' (volume_manifest_json m) = JBool (vm_create_missing m)"
    "jget ''create_missing_volumes_allowlist'' (volume_manifest_json m) = texts_json (vm_allowlist m)"
    "jget ''volume_write_probes'' (volume_manifest_json m) = JArr (map probe_json (vm_probes m))"
    "jget ''rollout_services'' (volume_manifest_json m) = (case vm_services m of None \<Rightarrow> JNull | Some xs \<Rightarrow> texts_json xs)"
    by (simp_all add: volume_manifest_json_def jget_def)
  show ?thesis
    by (simp add: volume_manifest_of_def j loaded_texts_json loaded_services_json mapE_loaded_probe)
qed

end
