(* ===== verification/Suite_Evidence.thy ===== *)
theory Suite_Evidence
  imports Exception_Policy Delivery_Manifest
begin

text \<open>
  The evidence records of the reusable security scans, first part of
  \<open>scripts/security_evidence.py\<close>: a record binds the contents of one file to a run, a producer and a
  commit, a bundle does so for all files of a directory, and both are verified again by a
  consumer. Contents are bytes; \<open>sha\<close> is \<open>hashlib.sha256(...).hexdigest()\<close>, \<open>dumps\<close> is
  \<open>json.dumps(..., indent=2, sort_keys=True)\<close>, \<open>loads\<close> decodes and parses; \<open>found\<close> is what
  \<open>rglob("*")\<close> finds below the directory, as relative paths.
\<close>

section \<open>Fields\<close>

definition suite_error :: "string \<Rightarrow> exc" where "suite_error m = Exc EvidenceError m"

definition EVIDENCE_SHA :: rx where
  "EVIDENCE_SHA = Seq (Alt (fixed (replicate 40 hex_lower)) (fixed (replicate 64 hex_lower))) Eos"

definition EVIDENCE_SHA256 :: rx where "EVIDENCE_SHA256 = Seq (fixed (replicate 64 hex_lower)) Eos"

definition ARTIFACT_SHA256 :: rx where
  "ARTIFACT_SHA256 = Seq (Seq (opt (lit ''sha256:'')) (fixed (replicate 64 hex_lower))) Eos"

definition repository_char :: "char \<Rightarrow> bool" where
  "repository_char c \<longleftrightarrow> is_alnum c \<or> one_of ''_.-'' c"

definition REPOSITORY :: rx where
  "REPOSITORY = Seq (Seq (plus (Cls repository_char)) (Seq (Cls (\<lambda>c. c = CHR ''/'')) (plus (Cls repository_char)))) Eos"

definition CONCLUSIONS :: "string list" where
  "CONCLUSIONS = [''success'', ''failure'', ''cancelled'', ''skipped'']"

definition BUNDLE_CONCLUSIONS :: "string list" where
  "BUNDLE_CONCLUSIONS = [''success'', ''failure'', ''cancelled'']"

definition RESULTS :: "string list" where "RESULTS = [''passed'', ''failed'']"

definition serialize_json :: "(json \<Rightarrow> string) \<Rightarrow> json \<Rightarrow> string" where
  "serialize_json dumps payload = dumps payload @ [LF]"

definition control_char :: "char \<Rightarrow> bool" where "control_char c \<longleftrightarrow> code c < 32 \<or> code c = 127"

definition evidence_text :: "json \<Rightarrow> string \<Rightarrow> string result" where
  "evidence_text v label =
     (case v of
        JStr s \<Rightarrow>
          guardE (py_strip s \<noteq> [] \<and> py_strip s = s)
            (suite_error (label @ '' must be a non-empty trimmed string''))
          (guardE (\<not> list_ex control_char s)
            (suite_error (label @ '' must not contain control characters'')) (Inr s))
      | _ \<Rightarrow> Inl (suite_error (label @ '' must be a non-empty trimmed string'')))"

definition evidence_repository :: "json \<Rightarrow> string \<Rightarrow> string result" where
  "evidence_repository v label =
     bindE (evidence_text v label) (\<lambda>s.
     guardE (fullmatch REPOSITORY s) (suite_error (label @ '' must use owner/repository form'')) (Inr s))"

definition evidence_sha :: "json \<Rightarrow> string \<Rightarrow> string result" where
  "evidence_sha v label =
     bindE (evidence_text v label) (\<lambda>s.
     guardE (fullmatch EVIDENCE_SHA s) (suite_error (label @ '' must be a full lowercase Git SHA'')) (Inr s))"

definition evidence_relative_path :: "json \<Rightarrow> string \<Rightarrow> string result" where
  "evidence_relative_path v label =
     bindE (evidence_text v label) (\<lambda>s.
     let p = parse_path s in
     guardE (\<not> is_abs p \<and> \<not> has_char backslash s \<and> \<not> List.member (parts p) dotdot \<and> \<not> prefix ''~'' s)
       (suite_error (label @ '' must be a safe relative path'')) (Inr (path_text p)))"

definition bool_text :: "bool \<Rightarrow> string" where "bool_text b = (if b then ''True'' else ''False'')"

definition run_number :: "json \<Rightarrow> string \<Rightarrow> string result" where
  "run_number v label =
     bindE (evidence_text (case v of JInt i \<Rightarrow> JStr (dec_int i) | JBool b \<Rightarrow> JStr (bool_text b) | _ \<Rightarrow> v) label) (\<lambda>s.
     guardE (list_all is_digit s) (suite_error (label @ '' must be a positive decimal number''))
     (case py_int s of
        Some i \<Rightarrow> guardE (1 \<le> i) (suite_error (label @ '' must be a positive decimal number'')) (Inr s)
      | None \<Rightarrow> Inl (Exc ValueError ''Exceeds the limit for integer string conversion'')))"

section \<open>A record\<close>

record evidence_identity =
  ei_repository :: string
  ei_run_id :: string
  ei_run_attempt :: string
  ei_producer_repository :: string
  ei_producer_ref :: string
  ei_producer_sha :: string
  ei_producer_file :: string
  ei_source_sha :: string
  ei_artifact_name :: string
  ei_evidence_path :: string

definition producer_json :: "evidence_identity \<Rightarrow> json" where
  "producer_json i = JObj [(''repository'', JStr (ei_producer_repository i)), (''ref'', JStr (ei_producer_ref i)),
     (''sha'', JStr (ei_producer_sha i)), (''file'', JStr (ei_producer_file i))]"

text \<open>The run, the producer and the source commit, in the order of the checks\<close>

definition check_identity :: "evidence_identity \<Rightarrow> evidence_identity result" where
  "check_identity i =
     bindE (evidence_repository (JStr (ei_repository i)) ''repository'') (\<lambda>repository.
     bindE (run_number (JStr (ei_run_id i)) ''run_id'') (\<lambda>run_id.
     bindE (run_number (JStr (ei_run_attempt i)) ''run_attempt'') (\<lambda>run_attempt.
     bindE (evidence_repository (JStr (ei_producer_repository i)) ''producer_repository'') (\<lambda>producer_repository.
     bindE (evidence_text (JStr (ei_producer_ref i)) ''producer_ref'') (\<lambda>producer_ref.
     bindE (evidence_sha (JStr (ei_producer_sha i)) ''producer_sha'') (\<lambda>producer_sha.
     bindE (evidence_relative_path (JStr (ei_producer_file i)) ''producer_file'') (\<lambda>producer_file.
     bindE (evidence_sha (JStr (ei_source_sha i)) ''source_sha'') (\<lambda>source_sha.
       Inr (i\<lparr>ei_repository := repository, ei_run_id := run_id, ei_run_attempt := run_attempt,
              ei_producer_repository := producer_repository, ei_producer_ref := producer_ref,
              ei_producer_sha := producer_sha, ei_producer_file := producer_file,
              ei_source_sha := source_sha\<rparr>)))))))))"

definition evidence_payload_of ::
    "(string \<Rightarrow> string) \<Rightarrow> evidence_identity \<Rightarrow> string \<Rightarrow> string \<Rightarrow> string option \<Rightarrow> jobj \<Rightarrow> jobj" where
  "evidence_payload_of sha i conclusion outcome bytes details =
     [(''schema_version'', JInt 1), (''repository'', JStr (ei_repository i)), (''run_id'', JStr (ei_run_id i)),
      (''run_attempt'', JStr (ei_run_attempt i)), (''producer'', producer_json i),
      (''source_sha'', JStr (ei_source_sha i)), (''conclusion'', JStr conclusion), (''result'', JStr outcome),
      (''artifact_name'', JStr (ei_artifact_name i)), (''evidence_path'', JStr (ei_evidence_path i)),
      (''evidence_present'', JBool (bytes \<noteq> None)),
      (''evidence_sha256'', case bytes of None \<Rightarrow> JNull | Some b \<Rightarrow> JStr (sha b)), (''details'', JObj details)]"

definition create_evidence_record ::
    "(string \<Rightarrow> string) \<Rightarrow> evidence_identity \<Rightarrow> string \<Rightarrow> string \<Rightarrow> string option \<Rightarrow> jobj \<Rightarrow> jobj result" where
  "create_evidence_record sha i conclusion outcome bytes details =
     bindE (check_identity i) (\<lambda>j.
     guardE (List.member CONCLUSIONS conclusion)
       (suite_error ''conclusion must be success, failure, cancelled, or skipped'')
     (guardE (List.member RESULTS outcome) (suite_error ''result must be passed or failed'')
     (bindE (evidence_text (JStr (ei_artifact_name i)) ''artifact_name'') (\<lambda>artifact_name.
      bindE (evidence_relative_path (JStr (ei_evidence_path i)) ''evidence_path'') (\<lambda>evidence_path.
      guardE (\<not> (outcome = ''passed'' \<and> (conclusion \<noteq> ''success'' \<or> bytes = None \<or> bytes = Some [])))
        (suite_error ''passed evidence requires a successful conclusion and non-empty evidence contents'')
        (Inr (evidence_payload_of sha (j\<lparr>ei_artifact_name := artifact_name, ei_evidence_path := evidence_path\<rparr>)
                conclusion outcome bytes details)))))))"

text \<open>The identity a verified document states\<close>

definition producer_of :: "jobj \<Rightarrow> jobj" where
  "producer_of d = (case jget ''producer'' d of JObj p \<Rightarrow> p | _ \<Rightarrow> [])"

definition check_stated_identity :: "jobj \<Rightarrow> unit result" where
  "check_stated_identity d =
     bindE (evidence_repository (jget ''repository'' d) ''repository'') (\<lambda>_.
     bindE (run_number (jget ''run_id'' d) ''run_id'') (\<lambda>_.
     bindE (run_number (jget ''run_attempt'' d) ''run_attempt'') (\<lambda>_.
     case jget ''producer'' d of
       JObj p \<Rightarrow>
         bindE (evidence_repository (jget ''repository'' p) ''producer.repository'') (\<lambda>_.
         bindE (evidence_text (jget ''ref'' p) ''producer.ref'') (\<lambda>_.
         bindE (evidence_sha (jget ''sha'' p) ''producer.sha'') (\<lambda>_.
         bindE (evidence_relative_path (jget ''file'' p) ''producer.file'') (\<lambda>_.
         bindE (evidence_sha (jget ''source_sha'' d) ''source_sha'') (\<lambda>_. Inr ())))))
     | _ \<Rightarrow> Inl (suite_error ''producer must be an object''))))"

definition text_in_list :: "string list \<Rightarrow> json \<Rightarrow> bool" where
  "text_in_list xs v = (case v of JStr s \<Rightarrow> List.member xs s | _ \<Rightarrow> False)"

definition stated_locations :: "jobj \<Rightarrow> (string \<times> json) list" where
  "stated_locations d =
     [(''repository'', jget ''repository'' d), (''run_id'', jget ''run_id'' d),
      (''run_attempt'', jget ''run_attempt'' d), (''source_sha'', jget ''source_sha'' d),
      (''producer_repository'', jget ''repository'' (producer_of d)), (''producer_ref'', jget ''ref'' (producer_of d)),
      (''producer_sha'', jget ''sha'' (producer_of d)), (''producer_file'', jget ''file'' (producer_of d)),
      (''artifact_name'', jget ''artifact_name'' d)]"

fun check_expected :: "(string \<times> json) list \<Rightarrow> (string \<times> string) list \<Rightarrow> unit result" where
  "check_expected locations [] = Inr ()"
| "check_expected locations ((k, v) # rest) =
     guardE (jhas k locations) (suite_error (''unsupported expected identity field: '' @ k))
     (guardE (jget k locations = JStr v) (suite_error (''evidence '' @ k @ '' does not match expected identity''))
       (check_expected locations rest))"

definition RECORD_FIELDS :: "string list" where
  "RECORD_FIELDS = [''repository'', ''run_id'', ''run_attempt'', ''producer'', ''source_sha'', ''conclusion'',
     ''result'', ''artifact_name'', ''evidence_path'', ''evidence_present'', ''evidence_sha256'']"

definition check_record_fields :: "string option \<Rightarrow> jobj \<Rightarrow> unit result" where
  "check_record_fields bytes d =
     guardE (text_in_list CONCLUSIONS (jget ''conclusion'' d) \<and> text_in_list RESULTS (jget ''result'' d))
       (suite_error ''evidence conclusion or result is malformed'')
     (bindE (evidence_text (jget ''artifact_name'' d) ''artifact_name'') (\<lambda>_.
      bindE (evidence_relative_path (jget ''evidence_path'' d) ''evidence_path'') (\<lambda>_.
      guardE (is_bool (jget ''evidence_present'' d)) (suite_error ''evidence_present must be boolean'')
      (guardE (\<not> (jget ''result'' d = JStr ''passed'' \<and> (jget ''conclusion'' d \<noteq> JStr ''success'' \<or> bytes = Some [])))
        (suite_error ''passed evidence requires a successful conclusion and non-empty contents'') (Inr ())))))"

definition check_contents :: "(string \<Rightarrow> string) \<Rightarrow> string option \<Rightarrow> jobj \<Rightarrow> unit result" where
  "check_contents sha bytes d =
     (case (bytes, jget ''evidence_present'' d = JBool True) of
        (Some b, True) \<Rightarrow>
          (case jget ''evidence_sha256'' d of
             JStr digest \<Rightarrow>
               guardE (fullmatch EVIDENCE_SHA256 digest) (suite_error ''evidence SHA-256 is malformed'')
               (guardE (sha b = digest) (suite_error ''evidence SHA-256 does not match downloaded contents'') (Inr ()))
           | _ \<Rightarrow> Inl (suite_error ''evidence SHA-256 is malformed''))
      | _ \<Rightarrow>
          guardE (jget ''evidence_sha256'' d = JNull) (suite_error ''missing evidence must not declare a SHA-256'')
            (Inl (suite_error ''evidence contents are missing'')))"

definition parse_manifest :: "(string \<Rightarrow> json result) \<Rightarrow> string \<Rightarrow> string \<Rightarrow> string list \<Rightarrow> jobj result" where
  "parse_manifest loads label bytes required =
     bindE (except_raise (loads bytes) [UnicodeDecodeError, JSONDecodeError]
              (suite_error (label @ '' must be valid JSON''))) (\<lambda>v.
     case v of
       JObj d \<Rightarrow>
         guardE (eq_int (jget ''schema_version'' d) 1) (suite_error (label @ '' has an unsupported schema''))
         (guardE (list_all (\<lambda>k. jhas k d) required) (suite_error (label @ '' is missing required fields'')) (Inr d))
     | _ \<Rightarrow> Inl (suite_error (label @ '' has an unsupported schema'')))"

definition verify_evidence_record ::
    "(string \<Rightarrow> json result) \<Rightarrow> (string \<Rightarrow> string) \<Rightarrow> string \<Rightarrow> string option
     \<Rightarrow> (string \<times> string) list \<Rightarrow> jobj result" where
  "verify_evidence_record loads sha manifest bytes expected =
     bindE (parse_manifest loads ''evidence manifest'' manifest RECORD_FIELDS) (\<lambda>d.
     bindE (check_stated_identity d) (\<lambda>_.
     bindE (check_record_fields bytes d) (\<lambda>_.
     bindE (check_contents sha bytes d) (\<lambda>_.
     bindE (check_expected (stated_locations d
              @ [(''evidence_path'', jget ''evidence_path'' d), (''conclusion'', jget ''conclusion'' d),
                 (''result'', jget ''result'' d)]) expected) (\<lambda>_. Inr d)))))"


section \<open>A bundle\<close>

record bundle_entry =
  be_path :: string
  be_sha256 :: string
  be_size :: nat

definition entry_json :: "bundle_entry \<Rightarrow> json" where
  "entry_json e = JObj [(''path'', JStr (be_path e)), (''sha256'', JStr (be_sha256 e)),
     (''size_bytes'', JInt (int (be_size e)))]"

definition MANIFEST_NAME :: string where "MANIFEST_NAME = ''evidence-manifest.json''"

fun bundle_entries :: "(string \<Rightarrow> string) \<Rightarrow> fsys \<Rightarrow> string list \<Rightarrow> string list list \<Rightarrow> bundle_entry list result" where
  "bundle_entries sha fs dir [] = Inr []"
| "bundle_entries sha fs dir (rel # rest) =
     (if rel = [MANIFEST_NAME] then bundle_entries sha fs dir rest
      else
        guardE (\<not> is_symlink fs (dir @ rel)) (suite_error ''evidence bundle must not contain symlinks'')
        (if \<not> is_file fs (dir @ rel) then bundle_entries sha fs dir rest
         else
           bindE (evidence_relative_path (JStr (join_str ''/'' rel)) ''evidence file path'') (\<lambda>_.
           bindE (read_file fs (dir @ rel)) (\<lambda>content.
           bindE (bundle_entries sha fs dir rest) (\<lambda>es.
             Inr (\<lparr>be_path = join_str ''/'' rel, be_sha256 = sha content, be_size = length content\<rparr> # es))))))"

definition total_size :: "bundle_entry list \<Rightarrow> nat" where
  "total_size es = sum_list (map be_size es)"

definition bundle_manifest ::
    "(json \<Rightarrow> string) \<Rightarrow> (string \<Rightarrow> string) \<Rightarrow> evidence_identity \<Rightarrow> string \<Rightarrow> bundle_entry list \<Rightarrow> jobj" where
  "bundle_manifest dumps sha i conclusion es =
     [(''schema_version'', JInt 1), (''repository'', JStr (ei_repository i)), (''run_id'', JStr (ei_run_id i)),
      (''run_attempt'', JStr (ei_run_attempt i)), (''producer'', producer_json i),
      (''source_sha'', JStr (ei_source_sha i)), (''conclusion'', JStr conclusion),
      (''result'', JStr (if conclusion = ''success'' \<and> 0 < total_size es then ''passed'' else ''failed'')),
      (''artifact_name'', JStr (ei_artifact_name i)), (''evidence_path'', JStr ''.''),
      (''evidence_present'', JBool (es \<noteq> [])), (''evidence_file_count'', JInt (int (length es))),
      (''evidence_total_bytes'', JInt (int (total_size es))), (''evidence_manifest_path'', JStr MANIFEST_NAME),
      (''evidence_files'', JArr (map entry_json es)),
      (''evidence_index_sha256'', JStr (sha (serialize_json dumps (JArr (map entry_json es))))),
      (''details'', JObj [(''evidence_file_count'', JInt (int (length es)))])]"

text \<open>The checks of the identity come after the files were read; its source commit is checked first.\<close>

definition bundle_identity :: "evidence_identity \<Rightarrow> evidence_identity result" where
  "bundle_identity i =
     bindE (evidence_repository (JStr (ei_repository i)) ''repository'') (\<lambda>repository.
     bindE (run_number (JStr (ei_run_id i)) ''run_id'') (\<lambda>run_id.
     bindE (run_number (JStr (ei_run_attempt i)) ''run_attempt'') (\<lambda>run_attempt.
     bindE (evidence_repository (JStr (ei_producer_repository i)) ''producer_repository'') (\<lambda>producer_repository.
     bindE (evidence_text (JStr (ei_producer_ref i)) ''producer_ref'') (\<lambda>producer_ref.
     bindE (evidence_sha (JStr (ei_producer_sha i)) ''producer_sha'') (\<lambda>producer_sha.
     bindE (evidence_relative_path (JStr (ei_producer_file i)) ''producer_file'') (\<lambda>producer_file.
     bindE (evidence_text (JStr (ei_artifact_name i)) ''artifact_name'') (\<lambda>artifact_name.
       Inr (i\<lparr>ei_repository := repository, ei_run_id := run_id, ei_run_attempt := run_attempt,
              ei_producer_repository := producer_repository, ei_producer_ref := producer_ref,
              ei_producer_sha := producer_sha, ei_producer_file := producer_file,
              ei_artifact_name := artifact_name\<rparr>)))))))))"

definition create_evidence_bundle ::
    "(json \<Rightarrow> string) \<Rightarrow> (string \<Rightarrow> string) \<Rightarrow> (fsys \<Rightarrow> string list \<Rightarrow> string list list) \<Rightarrow> evidence_identity
     \<Rightarrow> string \<Rightarrow> string \<Rightarrow> string list \<Rightarrow> (fsys, jobj) action" where
  "create_evidence_bundle dumps sha found i expected_source_sha conclusion dir =
     bindW (liftW (bindE (evidence_sha (JStr (ei_source_sha i)) ''source_sha'') (\<lambda>source_sha.
                   bindE (evidence_sha (JStr expected_source_sha) ''expected_source_sha'') (\<lambda>expected.
                   guardE (source_sha = expected)
                     (suite_error ''checked-out source SHA does not match caller github.sha'')
                   (guardE (List.member BUNDLE_CONCLUSIONS conclusion)
                     (suite_error ''bundle conclusion must be success, failure, or cancelled'') (Inr ())))))) (\<lambda>_.
     bindW (\<lambda>fs. (guardE (\<not> (path_exists fs dir \<and> is_symlink fs dir))
                    (suite_error ''evidence directory must not be a symlink'') (Inr ()), fs)) (\<lambda>_.
     bindW (mkdir_parents dir) (\<lambda>_.
     bindW (\<lambda>fs. (guardE (\<not> (path_exists fs (dir @ [MANIFEST_NAME]) \<or> is_symlink fs (dir @ [MANIFEST_NAME])))
                    (suite_error ''evidence-manifest.json path is reserved for the generated index'') (Inr ()), fs)) (\<lambda>_.
     bindW (\<lambda>fs. (bundle_entries sha fs dir (sort (found fs dir)), fs)) (\<lambda>es.
     bindW (liftW (bundle_identity i)) (\<lambda>j.
     let manifest = bundle_manifest dumps sha j conclusion es; bytes = serialize_json dumps (JObj manifest) in
     bindW (write_text (dir @ [MANIFEST_NAME]) bytes) (\<lambda>_.
       liftW (Inr (manifest @ [(''evidence_sha256'', JStr (sha bytes))])))))))))"

section \<open>Verification of a bundle\<close>

definition BUNDLE_FIELDS :: "string list" where
  "BUNDLE_FIELDS = [''repository'', ''run_id'', ''run_attempt'', ''producer'', ''source_sha'', ''conclusion'',
     ''result'', ''artifact_name'', ''evidence_path'', ''evidence_present'', ''evidence_manifest_path'',
     ''evidence_file_count'', ''evidence_total_bytes'', ''evidence_files'', ''evidence_index_sha256'']"

definition array_at :: "string \<Rightarrow> jobj \<Rightarrow> json list" where
  "array_at k d = (case jget k d of JArr xs \<Rightarrow> xs | _ \<Rightarrow> [])"

definition check_bundle_fields :: "jobj \<Rightarrow> unit result" where
  "check_bundle_fields d =
     guardE (text_in_list BUNDLE_CONCLUSIONS (jget ''conclusion'' d))
       (suite_error ''evidence bundle conclusion is malformed'')
     (guardE (text_in_list RESULTS (jget ''result'' d)) (suite_error ''evidence bundle result is malformed'')
     (bindE (evidence_text (jget ''artifact_name'' d) ''artifact_name'') (\<lambda>_.
      bindE (evidence_relative_path (jget ''evidence_path'' d) ''evidence_path'') (\<lambda>_.
      bindE (evidence_relative_path (jget ''evidence_manifest_path'' d) ''evidence_manifest_path'') (\<lambda>_.
      guardE (is_bool (jget ''evidence_present'' d)) (suite_error ''evidence_present must be boolean'')
      (guardE (case jget ''evidence_files'' d of JArr _ \<Rightarrow> True | _ \<Rightarrow> False)
        (suite_error ''evidence_files must be an array'')
      (guardE (jget ''evidence_file_count'' d = JInt (int (length (array_at ''evidence_files'' d))))
        (suite_error ''evidence_file_count does not match indexed files'')
      (guardE (case jget ''evidence_total_bytes'' d of JInt n \<Rightarrow> 0 \<le> n | _ \<Rightarrow> False)
        (suite_error ''evidence_total_bytes is malformed'') (Inr ())))))))))"

fun index_entries :: "json list \<Rightarrow> bundle_entry list \<Rightarrow> bundle_entry list result" where
  "index_entries [] acc = Inr acc"
| "index_entries (JObj d # rest) acc =
     bindE (evidence_relative_path (jget ''path'' d) ''evidence file path'') (\<lambda>p.
     case jget ''sha256'' d of
       JStr digest \<Rightarrow>
         guardE (fullmatch EVIDENCE_SHA256 digest) (suite_error ''evidence file SHA-256 is malformed'')
         (case jget ''size_bytes'' d of
            JInt n \<Rightarrow>
              guardE (0 \<le> n) (suite_error ''evidence file size is malformed'')
              (guardE (\<not> List.member (map be_path acc) p) (suite_error ''evidence file path is duplicated'')
                (index_entries rest (acc @ [\<lparr>be_path = p, be_sha256 = digest, be_size = nat n\<rparr>])))
          | _ \<Rightarrow> Inl (suite_error ''evidence file size is malformed''))
     | _ \<Rightarrow> Inl (suite_error ''evidence file SHA-256 is malformed''))"
| "index_entries (_ # rest) acc = Inl (suite_error ''evidence file entry must be an object'')"

definition check_index :: "(json \<Rightarrow> string) \<Rightarrow> (string \<Rightarrow> string) \<Rightarrow> jobj \<Rightarrow> bundle_entry list \<Rightarrow> unit result" where
  "check_index dumps sha d es =
     guardE (jget ''evidence_present'' d = JBool (es \<noteq> []))
       (suite_error ''evidence_present does not match indexed files'')
     (guardE (jget ''evidence_total_bytes'' d = JInt (int (total_size es)))
       (suite_error ''evidence_total_bytes does not match indexed files'')
     (guardE (\<not> (jget ''result'' d = JStr ''passed''
                 \<and> (jget ''conclusion'' d \<noteq> JStr ''success'' \<or> es = [] \<or> total_size es = 0)))
       (suite_error ''passed evidence requires successful indexed files'')
     (guardE (jget ''evidence_index_sha256'' d = JStr (sha (serialize_json dumps (jget ''evidence_files'' d))))
       (suite_error ''evidence index SHA-256 does not match the manifest'') (Inr ()))))"

fun actual_paths :: "fsys \<Rightarrow> string list \<Rightarrow> string \<Rightarrow> string list list \<Rightarrow> string list result" where
  "actual_paths fs dir own [] = Inr []"
| "actual_paths fs dir own (rel # rest) =
     guardE (\<not> is_symlink fs (dir @ rel)) (suite_error ''evidence bundle must not contain symlinks'')
     (bindE (actual_paths fs dir own rest) (\<lambda>ps.
      Inr (if is_file fs (dir @ rel) \<and> join_str ''/'' rel \<noteq> own then join_str ''/'' rel # ps else ps)))"

text \<open>\<open>except FileNotFoundError: raise e\<close>; any other error of the operating system stays\<close>

definition not_found_raise :: "'a result \<Rightarrow> exc \<Rightarrow> 'a result" where
  "not_found_raise m e = (case m of Inl x \<Rightarrow> Inl (if x = enoent then e else x) | Inr y \<Rightarrow> Inr y)"

fun check_files :: "(string \<Rightarrow> string) \<Rightarrow> fsys \<Rightarrow> string list \<Rightarrow> bundle_entry list \<Rightarrow> unit result" where
  "check_files sha fs dir [] = Inr ()"
| "check_files sha fs dir (e # rest) =
     bindE (not_found_raise (read_file fs (dir @ parts (parse_path (be_path e))))
              (suite_error (''missing evidence file: '' @ be_path e))) (\<lambda>content.
     guardE (length content = be_size e) (suite_error (''evidence file size does not match: '' @ be_path e))
     (guardE (sha content = be_sha256 e) (suite_error (''evidence file SHA-256 does not match: '' @ be_path e))
       (check_files sha fs dir rest)))"

definition verify_evidence_bundle ::
    "(string \<Rightarrow> json result) \<Rightarrow> (json \<Rightarrow> string) \<Rightarrow> (string \<Rightarrow> string) \<Rightarrow> fsys \<Rightarrow> string \<Rightarrow> string list
     \<Rightarrow> string list list \<Rightarrow> (string \<times> string) list \<Rightarrow> jobj result" where
  "verify_evidence_bundle loads dumps sha fs manifest dir found expected =
     bindE (parse_manifest loads ''evidence bundle manifest'' manifest BUNDLE_FIELDS) (\<lambda>d.
     bindE (check_stated_identity d) (\<lambda>_.
     bindE (check_bundle_fields d) (\<lambda>_.
     bindE (index_entries (array_at ''evidence_files'' d) []) (\<lambda>es.
     bindE (check_index dumps sha d es) (\<lambda>_.
     guardE (\<not> is_symlink fs dir) (suite_error ''evidence directory must not be a symlink'')
     (bindE (evidence_relative_path (jget ''evidence_manifest_path'' d) ''evidence_manifest_path'') (\<lambda>own.
      bindE (actual_paths fs dir own found) (\<lambda>actual.
      guardE (set (map be_path es) = set actual)
        (suite_error ''evidence bundle has missing or unindexed files'')
      (bindE (check_files sha fs dir es) (\<lambda>_.
       bindE (check_expected (stated_locations d) expected) (\<lambda>_. Inr d)))))))))))"

section \<open>Checked fields stay as they are\<close>

lemma evidence_text_Inr:
  "evidence_text v label = Inr s \<longleftrightarrow> v = JStr s \<and> py_strip s \<noteq> [] \<and> py_strip s = s \<and> \<not> list_ex control_char s"
  by (cases v) (auto simp: evidence_text_def guardE_eq_Inr)

lemma evidence_repository_Inr:
  "evidence_repository v label = Inr s \<Longrightarrow> v = JStr s \<and> evidence_repository (JStr s) l = Inr s"
  by (auto simp: evidence_repository_def bindE_eq_Inr guardE_eq_Inr evidence_text_Inr)

lemma evidence_sha_Inr: "evidence_sha v label = Inr s \<Longrightarrow> v = JStr s \<and> evidence_sha (JStr s) l = Inr s"
  by (auto simp: evidence_sha_def bindE_eq_Inr guardE_eq_Inr evidence_text_Inr)

lemma run_number_Inr:
  "run_number (JStr s) label = Inr t \<Longrightarrow> t = s \<and> run_number (JStr s) l = Inr s"
  by (auto simp: run_number_def bindE_eq_Inr guardE_eq_Inr evidence_text_Inr split: option.splits)

text \<open>
  A relative path is stored normalised, and the normalised path may not be acceptable itself
  (\<open>./~x\<close> becomes \<open>~x\<close>). A canonical path is stored as it is.
\<close>

definition canonical_path :: "string \<Rightarrow> bool" where
  "canonical_path s \<longleftrightarrow> (\<forall>l. evidence_relative_path (JStr s) l = Inr s)"

lemma canonical_pathD: "canonical_path s \<Longrightarrow> evidence_relative_path (JStr s) l = Inr s"
  by (simp add: canonical_path_def)

lemma check_expected_iff:
  "check_expected locations expected = Inr () \<longleftrightarrow>
     (\<forall>(k, v) \<in> set expected. jhas k locations \<and> jget k locations = JStr v)"
  by (induction expected) (auto simp: guardE_eq_Inr)

definition record_locations :: "jobj \<Rightarrow> (string \<times> json) list" where
  "record_locations d = stated_locations d
     @ [(''evidence_path'', jget ''evidence_path'' d), (''conclusion'', jget ''conclusion'' d),
        (''result'', jget ''result'' d)]"

definition payload_identity :: "evidence_identity \<Rightarrow> bool" where
  "payload_identity i \<longleftrightarrow>
     (\<forall>l. evidence_repository (JStr (ei_repository i)) l = Inr (ei_repository i)
        \<and> run_number (JStr (ei_run_id i)) l = Inr (ei_run_id i)
        \<and> run_number (JStr (ei_run_attempt i)) l = Inr (ei_run_attempt i)
        \<and> evidence_repository (JStr (ei_producer_repository i)) l = Inr (ei_producer_repository i)
        \<and> evidence_text (JStr (ei_producer_ref i)) l = Inr (ei_producer_ref i)
        \<and> evidence_sha (JStr (ei_producer_sha i)) l = Inr (ei_producer_sha i)
        \<and> canonical_path (ei_producer_file i)
        \<and> evidence_sha (JStr (ei_source_sha i)) l = Inr (ei_source_sha i)
        \<and> evidence_text (JStr (ei_artifact_name i)) l = Inr (ei_artifact_name i))"

lemma check_identity_Inr:
  assumes "check_identity i = Inr j" and "canonical_path (ei_producer_file i)"
    and "evidence_text (JStr (ei_artifact_name i)) l = Inr a"
  shows "j = i \<and> payload_identity i"
proof -
  from assms(1) [unfolded check_identity_def bindE_eq_Inr] obtain a1 a2 a3 a4 a5 a6 a7 a8 where h:
    "evidence_repository (JStr (ei_repository i)) ''repository'' = Inr a1"
    "run_number (JStr (ei_run_id i)) ''run_id'' = Inr a2" "run_number (JStr (ei_run_attempt i)) ''run_attempt'' = Inr a3"
    "evidence_repository (JStr (ei_producer_repository i)) ''producer_repository'' = Inr a4"
    "evidence_text (JStr (ei_producer_ref i)) ''producer_ref'' = Inr a5"
    "evidence_sha (JStr (ei_producer_sha i)) ''producer_sha'' = Inr a6"
    "evidence_relative_path (JStr (ei_producer_file i)) ''producer_file'' = Inr a7"
    "evidence_sha (JStr (ei_source_sha i)) ''source_sha'' = Inr a8"
    "i\<lparr>ei_repository := a1, ei_run_id := a2, ei_run_attempt := a3, ei_producer_repository := a4, ei_producer_ref := a5,
       ei_producer_sha := a6, ei_producer_file := a7, ei_source_sha := a8\<rparr> = j"
    by auto
  note f = evidence_repository_Inr [OF h(1)] run_number_Inr [OF h(2)] run_number_Inr [OF h(3)]
    evidence_repository_Inr [OF h(4)] evidence_sha_Inr [OF h(6)] evidence_sha_Inr [OF h(8)]
  have "a7 = ei_producer_file i" using h(7) canonical_pathD [OF assms(2)] by simp
  moreover have "a5 = ei_producer_ref i" using h(5) by (simp add: evidence_text_Inr)
  ultimately show ?thesis
    using f h(5,9) assms(2,3) by (auto simp: payload_identity_def evidence_text_Inr)
qed

lemma payload_fields:
  assumes "d = evidence_payload_of sha i c r bytes details"
  shows "jget ''schema_version'' d = JInt 1" "jget ''repository'' d = JStr (ei_repository i)"
    "jget ''run_id'' d = JStr (ei_run_id i)" "jget ''run_attempt'' d = JStr (ei_run_attempt i)"
    "jget ''producer'' d = producer_json i" "jget ''source_sha'' d = JStr (ei_source_sha i)"
    "jget ''conclusion'' d = JStr c" "jget ''result'' d = JStr r" "jget ''artifact_name'' d = JStr (ei_artifact_name i)"
    "jget ''evidence_path'' d = JStr (ei_evidence_path i)" "jget ''evidence_present'' d = JBool (bytes \<noteq> None)"
    "jget ''evidence_sha256'' d = (case bytes of None \<Rightarrow> JNull | Some b \<Rightarrow> JStr (sha b))"
    "list_all (\<lambda>k. jhas k d) RECORD_FIELDS"
  using assms by (simp_all add: evidence_payload_of_def jget_def jhas_def RECORD_FIELDS_def)

lemma producer_json_fields:
  "\<exists>p. producer_json i = JObj p \<and> jget ''repository'' p = JStr (ei_producer_repository i)
     \<and> jget ''ref'' p = JStr (ei_producer_ref i) \<and> jget ''sha'' p = JStr (ei_producer_sha i)
     \<and> jget ''file'' p = JStr (ei_producer_file i)"
  by (simp add: producer_json_def jget_def)

lemma stated_identity_accepted:
  assumes "payload_identity i" "jget ''repository'' d = JStr (ei_repository i)"
    "jget ''run_id'' d = JStr (ei_run_id i)" "jget ''run_attempt'' d = JStr (ei_run_attempt i)"
    "jget ''producer'' d = producer_json i" "jget ''source_sha'' d = JStr (ei_source_sha i)"
  shows "check_stated_identity d = Inr ()"
proof -
  obtain p where p: "producer_json i = JObj p" "jget ''repository'' p = JStr (ei_producer_repository i)"
    "jget ''ref'' p = JStr (ei_producer_ref i)" "jget ''sha'' p = JStr (ei_producer_sha i)"
    "jget ''file'' p = JStr (ei_producer_file i)"
    using producer_json_fields by blast
  show ?thesis
    using assms p by (simp add: check_stated_identity_def payload_identity_def canonical_path_def)
qed

text \<open>
  C38: A record created for some contents is accepted by its consumer exactly for contents with the
  same SHA-256 (and, if it states that the check passed, not for empty contents), and for every
  expectation about the run, the producer, the commit or the artifact exactly if the record states
  it. The assumptions are that digests are 64 lower-case hexadecimal digits, that JSON reads back
  what was written, and that the two paths of the record are canonical.
\<close>

theorem record_verified_exactly:
  assumes "\<And>b. fullmatch EVIDENCE_SHA256 (sha b)"
    and "create_evidence_record sha i conclusion outcome (Some b) details = Inr d"
    and "canonical_path (ei_producer_file i)" "canonical_path (ei_evidence_path i)"
    and "loads manifest = Inr (JObj d)"
  shows "verify_evidence_record loads sha manifest given expected = Inr d \<longleftrightarrow>
     (\<exists>c. given = Some c \<and> sha c = sha b \<and> \<not> (outcome = ''passed'' \<and> c = []))
     \<and> (\<forall>(k, v) \<in> set expected. jhas k (record_locations d) \<and> jget k (record_locations d) = JStr v)"
proof -
  from assms(2) [unfolded create_evidence_record_def bindE_eq_Inr guardE_eq_Inr sum.inject] obtain j a p where h:
    "check_identity i = Inr j" "List.member CONCLUSIONS conclusion" "List.member RESULTS outcome"
    "evidence_text (JStr (ei_artifact_name i)) ''artifact_name'' = Inr a"
    "evidence_relative_path (JStr (ei_evidence_path i)) ''evidence_path'' = Inr p"
    "\<not> (outcome = ''passed'' \<and> (conclusion \<noteq> ''success'' \<or> Some b = None \<or> Some b = Some []))"
    "evidence_payload_of sha (j\<lparr>ei_artifact_name := a, ei_evidence_path := p\<rparr>) conclusion outcome (Some b) details = d"
    by (elim exE conjE) (rule that; assumption)
  have i: "j = i" "payload_identity i" using check_identity_Inr [OF h(1) assms(3) h(4)] by simp_all
  have "a = ei_artifact_name i" using h(4) by (simp add: evidence_text_Inr)
  moreover have "p = ei_evidence_path i" using h(5) canonical_pathD [OF assms(4)] by simp
  ultimately have d: "d = evidence_payload_of sha i conclusion outcome (Some b) details" using h(7) i(1) by simp
  note f = payload_fields [OF d]
  have parsed: "parse_manifest loads ''evidence manifest'' manifest RECORD_FIELDS = Inr d"
    using assms(5) f(1,13) by (simp add: parse_manifest_def)
  have identity: "check_stated_identity d = Inr ()" by (rule stated_identity_accepted [OF i(2) f(2-6)])
  have fields: "check_record_fields given d = Inr () \<longleftrightarrow> \<not> (outcome = ''passed'' \<and> given = Some [])"
    using f h(2,3,6) canonical_pathD [OF assms(4)] i(2)
    by (auto simp: check_record_fields_def text_in_list_def guardE_def payload_identity_def)
  have contents: "check_contents sha given d = Inr () \<longleftrightarrow> (\<exists>c. given = Some c \<and> sha c = sha b)"
    using f(11,12) assms(1) by (cases given) (auto simp: check_contents_def guardE_def)
  have "verify_evidence_record loads sha manifest given expected = Inr d \<longleftrightarrow>
      check_record_fields given d = Inr () \<and> check_contents sha given d = Inr ()
      \<and> check_expected (record_locations d) expected = Inr ()"
    by (auto simp: verify_evidence_record_def parsed identity bindE_eq_Inr record_locations_def)
  then show ?thesis unfolding fields contents check_expected_iff by auto
qed

section \<open>What a verified bundle guarantees\<close>

text \<open>The names \<open>rglob\<close> finds: components of relative paths, each path once\<close>

definition path_names :: "string list \<Rightarrow> bool" where
  "path_names rel \<longleftrightarrow> rel \<noteq> [] \<and> (\<forall>n \<in> set rel. n \<noteq> [] \<and> CHR ''/'' \<notin> set n \<and> n \<noteq> ''.'')"

lemma parse_join:
  assumes "path_names rel"
  shows "parse_path (join_str ''/'' rel) = Path False rel"
proof -
  have s: "split_char CHR ''/'' (join_str ''/'' rel) = rel" using assms by (simp add: path_names_def split_join)
  have "\<not> prefix ''/'' (join_str ''/'' rel)"
  proof
    assume p: "prefix ''/'' (join_str ''/'' rel)"
    then obtain t where "join_str ''/'' rel = CHR ''/'' # t" by (auto simp: prefix_def)
    then have "hd rel = []" using s by (metis list.sel(1) split_char.simps(2))
    then show False using assms by (cases rel) (auto simp: path_names_def)
  qed
  moreover have "filter (\<lambda>p. p \<noteq> [] \<and> p \<noteq> ''.'') rel = rel" using assms by (simp add: path_names_def)
  ultimately show ?thesis using s by (simp add: parse_path_def)
qed

lemma join_inject: "path_names a \<Longrightarrow> path_names b \<Longrightarrow> join_str ''/'' a = join_str ''/'' b \<Longrightarrow> a = b"
  using parse_join by (metis path.inject)

lemma relative_path_Inr:
  "evidence_relative_path (JStr s) l = Inr t \<longleftrightarrow>
     t = path_text (parse_path s) \<and> (\<exists>u. evidence_text (JStr s) l = Inr u) \<and> \<not> is_abs (parse_path s)
     \<and> \<not> has_char backslash s \<and> dotdot \<notin> set (parts (parse_path s)) \<and> \<not> prefix ''~'' s"
  by (auto simp: evidence_relative_path_def Let_def bindE_eq_Inr guardE_eq_Inr evidence_text_Inr)

lemma join_canonical:
  assumes "path_names rel" "evidence_relative_path (JStr (join_str ''/'' rel)) l = Inr t"
  shows "canonical_path (join_str ''/'' rel)"
proof -
  have "path_text (parse_path (join_str ''/'' rel)) = join_str ''/'' rel"
    using assms(1) by (simp add: parse_join path_text_def path_names_def)
  then show ?thesis
    using assms(2) unfolding canonical_path_def relative_path_Inr evidence_text_Inr by metis
qed

lemma bundle_entries_Inr:
  assumes "bundle_entries sha fs dir rels = Inr es"
  shows "map be_path es = map (join_str ''/'') (filter (\<lambda>rel. rel \<noteq> [MANIFEST_NAME] \<and> is_file fs (dir @ rel)) rels)
    \<and> (\<forall>e \<in> set es. \<exists>rel \<in> set rels. be_path e = join_str ''/'' rel
         \<and> (\<exists>t. evidence_relative_path (JStr (join_str ''/'' rel)) ''evidence file path'' = Inr t)
         \<and> (\<exists>c. read_file fs (dir @ rel) = Inr c \<and> be_sha256 e = sha c \<and> be_size e = length c))"
  using assms
proof (induction rels arbitrary: es)
  case (Cons rel rest)
  show ?case
  proof (cases "rel \<noteq> [MANIFEST_NAME] \<and> is_file fs (dir @ rel)")
    case True
    with Cons.prems obtain t c es' where h: "evidence_relative_path (JStr (join_str ''/'' rel)) ''evidence file path'' = Inr t"
      "read_file fs (dir @ rel) = Inr c" "bundle_entries sha fs dir rest = Inr es'"
      "es = \<lparr>be_path = join_str ''/'' rel, be_sha256 = sha c, be_size = length c\<rparr> # es'"
      by (auto simp: guardE_eq_Inr bindE_eq_Inr)
    from Cons.IH [OF h(3)] True h show ?thesis by auto
  next
    case False
    with Cons.prems have "bundle_entries sha fs dir rest = Inr es"
      by (auto simp: guardE_eq_Inr split: if_splits)
    from Cons.IH [OF this] False show ?thesis by auto
  qed
qed simp

definition bundle_entry_ok :: "bundle_entry \<Rightarrow> bool" where
  "bundle_entry_ok e \<longleftrightarrow> canonical_path (be_path e) \<and> fullmatch EVIDENCE_SHA256 (be_sha256 e)"

lemma index_entries_json:
  assumes "\<forall>e \<in> set es. bundle_entry_ok e" "distinct (map be_path (acc @ es))"
  shows "index_entries (map entry_json es) acc = Inr (acc @ es)"
  using assms
proof (induction es arbitrary: acc)
  case (Cons e es)
  have "index_entries (map entry_json (e # es)) acc = index_entries (map entry_json es) (acc @ [e])"
    using Cons.prems canonical_pathD [of "be_path e"] by (cases e) (simp add: entry_json_def bundle_entry_ok_def)
  also have "\<dots> = Inr ((acc @ [e]) @ es)" by (rule Cons.IH) (use Cons.prems in auto)
  finally show ?case by simp
qed simp

lemma actual_paths_iff:
  "actual_paths fs dir own found = Inr ps \<longleftrightarrow>
     (\<forall>rel \<in> set found. \<not> is_symlink fs (dir @ rel))
     \<and> ps = map (join_str ''/'') (filter (\<lambda>rel. is_file fs (dir @ rel) \<and> join_str ''/'' rel \<noteq> own) found)"
  by (induction found arbitrary: ps) (auto simp: guardE_eq_Inr bindE_eq_Inr)

definition same_contents :: "(string \<Rightarrow> string) \<Rightarrow> fsys \<Rightarrow> string list \<Rightarrow> bundle_entry \<Rightarrow> bool" where
  "same_contents sha fs dir e \<longleftrightarrow>
     (\<exists>c. read_file fs (dir @ parts (parse_path (be_path e))) = Inr c \<and> length c = be_size e \<and> sha c = be_sha256 e)"

lemma not_found_raise_eq_Inr: "not_found_raise m e = Inr y \<longleftrightarrow> m = Inr y"
  by (cases m) (simp_all add: not_found_raise_def)

lemma check_files_iff: "check_files sha fs dir es = Inr () \<longleftrightarrow> (\<forall>e \<in> set es. same_contents sha fs dir e)"
  by (induction es) (auto simp: bindE_eq_Inr guardE_eq_Inr not_found_raise_eq_Inr same_contents_def)

lemma bundle_fields:
  assumes "d = bundle_manifest dumps sha i c es"
  shows "jget ''schema_version'' d = JInt 1" "jget ''repository'' d = JStr (ei_repository i)"
    "jget ''run_id'' d = JStr (ei_run_id i)" "jget ''run_attempt'' d = JStr (ei_run_attempt i)"
    "jget ''producer'' d = producer_json i" "jget ''source_sha'' d = JStr (ei_source_sha i)"
    "jget ''conclusion'' d = JStr c" "jget ''artifact_name'' d = JStr (ei_artifact_name i)"
    "jget ''result'' d = JStr (if c = ''success'' \<and> 0 < total_size es then ''passed'' else ''failed'')"
    "jget ''evidence_path'' d = JStr ''.''" "jget ''evidence_manifest_path'' d = JStr MANIFEST_NAME"
    "jget ''evidence_present'' d = JBool (es \<noteq> [])" "jget ''evidence_files'' d = JArr (map entry_json es)"
    "jget ''evidence_file_count'' d = JInt (int (length es))"
    "jget ''evidence_total_bytes'' d = JInt (int (total_size es))"
    "jget ''evidence_index_sha256'' d = JStr (sha (serialize_json dumps (JArr (map entry_json es))))"
    "list_all (\<lambda>k. jhas k d) BUNDLE_FIELDS"
  using assms by (simp_all add: bundle_manifest_def BUNDLE_FIELDS_def)

lemma own_paths_canonical: "canonical_path MANIFEST_NAME" "canonical_path ''.''"
proof -
  have a: "evidence_text (JStr MANIFEST_NAME) l = Inr MANIFEST_NAME" "evidence_text (JStr ''.'') l = Inr ''.''" for l
  proof -
    have "py_strip MANIFEST_NAME = MANIFEST_NAME" "\<not> list_ex control_char MANIFEST_NAME" "MANIFEST_NAME \<noteq> []"
      "py_strip ''.'' = ''.''" "\<not> list_ex control_char ''.''"
      by code_simp+
    then show "evidence_text (JStr MANIFEST_NAME) l = Inr MANIFEST_NAME" "evidence_text (JStr ''.'') l = Inr ''.''"
      by (simp_all add: evidence_text_Inr)
  qed
  have b: "parse_path MANIFEST_NAME = Path False [MANIFEST_NAME]" "path_text (Path False [MANIFEST_NAME]) = MANIFEST_NAME"
    "\<not> has_char backslash MANIFEST_NAME" "\<not> prefix ''~'' MANIFEST_NAME" "[MANIFEST_NAME] \<noteq> [dotdot]"
    "parse_path ''.'' = Path False []" "path_text (Path False []) = ''.''" "\<not> has_char backslash ''.''" "\<not> prefix ''~'' ''.''"
    by code_simp+
  show "canonical_path MANIFEST_NAME" "canonical_path ''.''"
    using a b by (simp_all add: canonical_path_def evidence_relative_path_def Let_def)
qed

lemma bundle_identity_Inr:
  assumes "bundle_identity i = Inr j" "canonical_path (ei_producer_file i)"
    and "evidence_sha (JStr (ei_source_sha i)) ''source_sha'' = Inr s"
  shows "j = i \<and> payload_identity i"
proof -
  from assms(1) [unfolded bundle_identity_def bindE_eq_Inr] obtain a1 a2 a3 a4 a5 a6 a7 a8 where h:
    "evidence_repository (JStr (ei_repository i)) ''repository'' = Inr a1"
    "run_number (JStr (ei_run_id i)) ''run_id'' = Inr a2" "run_number (JStr (ei_run_attempt i)) ''run_attempt'' = Inr a3"
    "evidence_repository (JStr (ei_producer_repository i)) ''producer_repository'' = Inr a4"
    "evidence_text (JStr (ei_producer_ref i)) ''producer_ref'' = Inr a5"
    "evidence_sha (JStr (ei_producer_sha i)) ''producer_sha'' = Inr a6"
    "evidence_relative_path (JStr (ei_producer_file i)) ''producer_file'' = Inr a7"
    "evidence_text (JStr (ei_artifact_name i)) ''artifact_name'' = Inr a8"
    "i\<lparr>ei_repository := a1, ei_run_id := a2, ei_run_attempt := a3, ei_producer_repository := a4, ei_producer_ref := a5,
       ei_producer_sha := a6, ei_producer_file := a7, ei_artifact_name := a8\<rparr> = j"
    by auto
  note f = evidence_repository_Inr [OF h(1)] run_number_Inr [OF h(2)] run_number_Inr [OF h(3)]
    evidence_repository_Inr [OF h(4)] evidence_sha_Inr [OF h(6)] evidence_sha_Inr [OF assms(3)]
  have "a7 = ei_producer_file i" using h(7) canonical_pathD [OF assms(2)] by simp
  moreover have "a5 = ei_producer_ref i" "a8 = ei_artifact_name i" using h(5,8) by (simp_all add: evidence_text_Inr)
  ultimately show ?thesis
    using f h(5,8,9) assms(2) by (auto simp: payload_identity_def evidence_text_Inr)
qed

lemma create_bundle_Inr:
  assumes "create_evidence_bundle dumps sha found i expected_source_sha conclusion dir fs = (Inr d, fs')"
    and "canonical_path (ei_producer_file i)"
  shows "\<exists>fs1 es. mkdir_parents dir fs = (Inr (), fs1) \<and> bundle_entries sha fs1 dir (sort (found fs1 dir)) = Inr es
    \<and> d = bundle_manifest dumps sha i conclusion es
          @ [(''evidence_sha256'', JStr (sha (serialize_json dumps (JObj (bundle_manifest dumps sha i conclusion es)))))]
    \<and> payload_identity i \<and> conclusion \<in> set BUNDLE_CONCLUSIONS \<and> ei_source_sha i = expected_source_sha"
proof -
  from assms(1) obtain s1 s2 fs1 es j where k: "mkdir_parents dir fs = (Inr (), fs1)" and h:
    "evidence_sha (JStr (ei_source_sha i)) ''source_sha'' = Inr s1"
    "evidence_sha (JStr expected_source_sha) ''expected_source_sha'' = Inr s2" "s1 = s2"
    "List.member BUNDLE_CONCLUSIONS conclusion" "bundle_entries sha fs1 dir (sort (found fs1 dir)) = Inr es"
    "bundle_identity i = Inr j"
    "d = bundle_manifest dumps sha j conclusion es
          @ [(''evidence_sha256'', JStr (sha (serialize_json dumps (JObj (bundle_manifest dumps sha j conclusion es)))))]"
    by (auto simp: create_evidence_bundle_def bindW_eq_Inr bindE_eq_Inr guardE_eq_Inr Let_def)
  have "j = i \<and> payload_identity i" by (rule bundle_identity_Inr [OF h(6) assms(2) h(1)])
  moreover have "ei_source_sha i = expected_source_sha" using evidence_sha_Inr [OF h(1)] evidence_sha_Inr [OF h(2)] h(3) by simp
  ultimately show ?thesis using k h(4,5,7) by (intro exI [of _ fs1] exI [of _ es]) simp
qed

lemma bundle_entries_ok:
  assumes "bundle_entries sha fs dir rels = Inr es" and "distinct rels" and "\<forall>rel \<in> set rels. path_names rel"
    and "\<And>b. fullmatch EVIDENCE_SHA256 (sha b)"
  shows "(\<forall>e \<in> set es. bundle_entry_ok e) \<and> distinct (map be_path es)"
proof -
  note b = bundle_entries_Inr [OF assms(1)]
  have "bundle_entry_ok e" if "e \<in> set es" for e
  proof -
    from b that obtain rel t c where "rel \<in> set rels" "be_path e = join_str ''/'' rel"
      "evidence_relative_path (JStr (join_str ''/'' rel)) ''evidence file path'' = Inr t" "be_sha256 e = sha c"
      by blast
    then show ?thesis using join_canonical [of rel] assms(3,4) by (simp add: bundle_entry_ok_def)
  qed
  moreover have "inj_on (join_str ''/'') (set rels)" using join_inject assms(3) by (intro inj_onI) blast
  then have "distinct (map be_path es)"
    using conjunct1 [OF b] assms(2) by (simp add: distinct_map inj_on_subset)
  ultimately show ?thesis by blast
qed

text \<open>
  C39: The manifest of a created bundle is accepted by a consumer exactly if the consumer's
  directory is no link and has none in it, holds besides the manifest exactly the files that were
  indexed, each with the recorded size and SHA-256, and every expectation is what the manifest
  states. The assumptions are those of records, and that a listing of a directory names every
  path once by its components.
\<close>

theorem bundle_verified_exactly:
  assumes "\<And>b. fullmatch EVIDENCE_SHA256 (sha b)" and "loads (serialize_json dumps (JObj m)) = Inr (JObj m)"
    and "canonical_path (ei_producer_file i)"
    and "\<And>fs. distinct (found fs dir) \<and> (\<forall>rel \<in> set (found fs dir). path_names rel)"
    and "create_evidence_bundle dumps sha found i expected_source_sha conclusion dir fs = (Inr (m @ [e]), fs')"
  shows "\<exists>es fs1. mkdir_parents dir fs = (Inr (), fs1) \<and> e = (''evidence_sha256'', JStr (sha (serialize_json dumps (JObj m))))
    \<and> map be_path es = map (join_str ''/'') (filter (\<lambda>rel. rel \<noteq> [MANIFEST_NAME] \<and> is_file fs1 (dir @ rel)) (sort (found fs1 dir)))
    \<and> (\<forall>e \<in> set es. same_contents sha fs1 dir e)
    \<and> (\<forall>fs2 dir2 found2 expected.
         verify_evidence_bundle loads dumps sha fs2 (serialize_json dumps (JObj m)) dir2 found2 expected = Inr m \<longleftrightarrow>
           \<not> is_symlink fs2 dir2 \<and> (\<forall>rel \<in> set found2. \<not> is_symlink fs2 (dir2 @ rel))
           \<and> set (map be_path es)
               = {join_str ''/'' rel | rel. rel \<in> set found2 \<and> is_file fs2 (dir2 @ rel) \<and> join_str ''/'' rel \<noteq> MANIFEST_NAME}
           \<and> (\<forall>e \<in> set es. same_contents sha fs2 dir2 e)
           \<and> (\<forall>(k, v) \<in> set expected. jhas k (stated_locations m) \<and> jget k (stated_locations m) = JStr v))"
proof -
  obtain fs1 es where k: "mkdir_parents dir fs = (Inr (), fs1)" and c: "bundle_entries sha fs1 dir (sort (found fs1 dir)) = Inr es"
    "m @ [e] = bundle_manifest dumps sha i conclusion es
          @ [(''evidence_sha256'', JStr (sha (serialize_json dumps (JObj (bundle_manifest dumps sha i conclusion es)))))]"
    "payload_identity i" "conclusion \<in> set BUNDLE_CONCLUSIONS"
    using create_bundle_Inr [OF assms(5,3)] by blast
  then have m: "m = bundle_manifest dumps sha i conclusion es"
    and e: "e = (''evidence_sha256'', JStr (sha (serialize_json dumps (JObj m))))" by simp_all
  note f = bundle_fields [OF m]
  note b = bundle_entries_Inr [OF c(1)]
  have ok: "\<forall>e \<in> set es. bundle_entry_ok e" "distinct (map be_path es)"
    using bundle_entries_ok [OF c(1) _ _ assms(1)] assms(4) by simp_all
  have same: "\<forall>e \<in> set es. same_contents sha fs1 dir e"
    using b assms(4) by (fastforce simp: same_contents_def parse_join)
  have parsed: "parse_manifest loads ''evidence bundle manifest'' (serialize_json dumps (JObj m)) BUNDLE_FIELDS = Inr m"
    using assms(2) f(1,17) by (simp add: parse_manifest_def)
  have identity: "check_stated_identity m = Inr ()" by (rule stated_identity_accepted [OF c(3) f(2-6)])
  have fields: "check_bundle_fields m = Inr ()"
    using f(7-15) c(3,4) canonical_pathD [OF own_paths_canonical(1)] canonical_pathD [OF own_paths_canonical(2)]
    by (simp add: check_bundle_fields_def text_in_list_def RESULTS_def payload_identity_def array_at_def)
  have index: "index_entries (array_at ''evidence_files'' m) [] = Inr es"
    using index_entries_json [of es "[]"] ok f(13) by (simp add: array_at_def)
  have checked: "check_index dumps sha m es = Inr ()" 
  proof -
    have "total_size [] = 0" by (simp add: total_size_def)
    then have "es = [] \<longrightarrow> total_size es = 0" by blast
    then show ?thesis using f by (auto simp: check_index_def guardE_def)
  qed
  have "verify_evidence_bundle loads dumps sha fs2 (serialize_json dumps (JObj m)) dir2 found2 expected = Inr m \<longleftrightarrow>
      \<not> is_symlink fs2 dir2 \<and> (\<exists>ps. actual_paths fs2 dir2 MANIFEST_NAME found2 = Inr ps \<and> set (map be_path es) = set ps)
      \<and> check_files sha fs2 dir2 es = Inr () \<and> check_expected (stated_locations m) expected = Inr ()"
    for fs2 dir2 found2 expected
    by (auto simp: verify_evidence_bundle_def parsed identity fields index checked f(11)
        canonical_pathD [OF own_paths_canonical(1)] bindE_eq_Inr guardE_eq_Inr)
  moreover have "set (map (join_str ''/'') (filter (\<lambda>rel. is_file fs2 (dir2 @ rel) \<and> join_str ''/'' rel \<noteq> MANIFEST_NAME) found2))
      = {join_str ''/'' rel | rel. rel \<in> set found2 \<and> is_file fs2 (dir2 @ rel) \<and> join_str ''/'' rel \<noteq> MANIFEST_NAME}"
    for fs2 dir2 found2 by auto
  ultimately have "verify_evidence_bundle loads dumps sha fs2 (serialize_json dumps (JObj m)) dir2 found2 expected = Inr m \<longleftrightarrow>
           \<not> is_symlink fs2 dir2 \<and> (\<forall>rel \<in> set found2. \<not> is_symlink fs2 (dir2 @ rel))
           \<and> set (map be_path es)
               = {join_str ''/'' rel | rel. rel \<in> set found2 \<and> is_file fs2 (dir2 @ rel) \<and> join_str ''/'' rel \<noteq> MANIFEST_NAME}
           \<and> (\<forall>e \<in> set es. same_contents sha fs2 dir2 e)
           \<and> (\<forall>(k, v) \<in> set expected. jhas k (stated_locations m) \<and> jget k (stated_locations m) = JStr v)"
    for fs2 dir2 found2 expected
    unfolding actual_paths_iff check_files_iff check_expected_iff by auto
  then show ?thesis using k e conjunct1 [OF b] same by blast
qed

section \<open>A concrete run\<close>

definition demo_digest_of :: "string \<Rightarrow> string" where "demo_digest_of b = replicate 64 (CHR ''a'')"

definition demo_suite_commit :: string where "demo_suite_commit = replicate 40 (CHR ''c'')"

definition demo_identity :: evidence_identity where
  "demo_identity = \<lparr>ei_repository = ''o/r'', ei_run_id = ''7'', ei_run_attempt = ''1'', ei_producer_repository = ''o/a'',
     ei_producer_ref = ''v1'', ei_producer_sha = demo_suite_commit, ei_producer_file = ''w.yml'', ei_source_sha = demo_suite_commit,
     ei_artifact_name = ''scan'', ei_evidence_path = ''r.json''\<rparr>"

lemma demo_hex_digest: "fullmatch EVIDENCE_SHA256 (demo_digest_of b)"
  unfolding demo_digest_of_def by code_simp

lemma demo_suite_fields:
  "evidence_repository (JStr ''o/r'') ''repository'' = Inr ''o/r''" "run_number (JStr ''7'') ''run_id'' = Inr ''7''"
  "run_number (JStr ''1'') ''run_attempt'' = Inr ''1''"
  "evidence_repository (JStr ''o/a'') ''producer_repository'' = Inr ''o/a''"
  "evidence_text (JStr ''v1'') ''producer_ref'' = Inr ''v1''" "evidence_sha (JStr demo_suite_commit) ''producer_sha'' = Inr demo_suite_commit"
  "evidence_relative_path (JStr ''w.yml'') ''producer_file'' = Inr ''w.yml''"
  "evidence_sha (JStr demo_suite_commit) ''source_sha'' = Inr demo_suite_commit"
  "evidence_sha (JStr demo_suite_commit) ''expected_source_sha'' = Inr demo_suite_commit"
  "evidence_text (JStr ''scan'') ''artifact_name'' = Inr ''scan''"
  "evidence_relative_path (JStr ''r.json'') ''evidence_path'' = Inr ''r.json''"
  by code_simp+

lemma canonical_one: "evidence_relative_path (JStr s) label = Inr s \<Longrightarrow> canonical_path s"
  unfolding canonical_path_def relative_path_Inr evidence_text_Inr by metis

lemma demo_paths_canonical: "canonical_path (ei_producer_file demo_identity)" "canonical_path (ei_evidence_path demo_identity)"
  using canonical_one [OF demo_suite_fields(7)] canonical_one [OF demo_suite_fields(11)] by (simp_all add: demo_identity_def)

definition demo_suite_record :: jobj where
  "demo_suite_record = evidence_payload_of demo_digest_of demo_identity ''success'' ''passed'' (Some ''ok'') []"

lemma demo_suite_record_created:
  "create_evidence_record demo_digest_of demo_identity ''success'' ''passed'' (Some ''ok'') [] = Inr demo_suite_record"
proof -
  have "check_identity demo_identity = Inr demo_identity"
    by (simp add: check_identity_def demo_identity_def demo_suite_fields)
  then show ?thesis
    by (simp add: create_evidence_record_def demo_suite_record_def CONCLUSIONS_def RESULTS_def demo_identity_def demo_suite_fields)
qed

theorem record_verified_exactly_witness:
  "verify_evidence_record (\<lambda>_. Inr (JObj demo_suite_record)) demo_digest_of ''{}'' (Some ''ok'') [(''source_sha'', demo_suite_commit)] = Inr demo_suite_record
   \<and> verify_evidence_record (\<lambda>_. Inr (JObj demo_suite_record)) demo_digest_of ''{}'' None [] \<noteq> Inr demo_suite_record"
proof -
  have "jhas ''source_sha'' (record_locations demo_suite_record)" "jget ''source_sha'' (record_locations demo_suite_record) = JStr demo_suite_commit"
    by (simp_all add: record_locations_def stated_locations_def demo_suite_record_def evidence_payload_of_def demo_identity_def)
  then show ?thesis
    using record_verified_exactly [OF demo_hex_digest demo_suite_record_created demo_paths_canonical,
        of "\<lambda>_. Inr (JObj demo_suite_record)" "''{}''"] by simp
qed

text \<open>A path that is accepted and stored in a form that is refused\<close>

lemma relative_path_not_stable:
  "evidence_relative_path (JStr ''./~x'') ''evidence_path'' = Inr ''~x''
   \<and> (\<exists>e. evidence_relative_path (JStr ''~x'') ''evidence_path'' = Inl e)"
proof -
  have "evidence_relative_path (JStr ''./~x'') ''evidence_path'' = Inr ''~x''" by code_simp
  moreover have "prefix ''~'' ''~x''" by simp
  then have "evidence_relative_path (JStr ''~x'') ''evidence_path'' \<noteq> Inr t" for t by (simp only: relative_path_Inr) simp
  then have "\<exists>e. evidence_relative_path (JStr ''~x'') ''evidence_path'' = Inl e"
    by (cases "evidence_relative_path (JStr ''~x'') ''evidence_path''") auto
  ultimately show ?thesis by blast
qed

definition demo_bundle_fs :: fsys where
  "demo_bundle_fs = \<lparr>nodes = [[''e''] \<mapsto> Dir, [''e'', ''a''] \<mapsto> File ''ok''], cwd = []\<rparr>"

definition demo_found :: "fsys \<Rightarrow> string list \<Rightarrow> string list list" where "demo_found fs dir = [[''a'']]"

definition demo_dumps :: "json \<Rightarrow> string" where "demo_dumps v = ''{}''"

definition demo_bundle :: jobj where
  "demo_bundle = bundle_manifest demo_dumps demo_digest_of demo_identity ''success''
     [\<lparr>be_path = ''a'', be_sha256 = demo_digest_of ''ok'', be_size = 2\<rparr>]"

lemma demo_bundle_files:
  "is_symlink demo_bundle_fs [''e''] = False" "is_dir demo_bundle_fs []" "is_dir demo_bundle_fs [''e'']"
  "path_exists demo_bundle_fs [''e'', ''evidence-manifest.json''] = False"
  "is_symlink demo_bundle_fs [''e'', ''evidence-manifest.json''] = False"
  "is_symlink demo_bundle_fs [''e'', ''a''] = False" "is_file demo_bundle_fs [''e'', ''a'']"
  "read_file demo_bundle_fs [''e'', ''a''] = Inr ''ok''"
  "fst (write_text [''e'', ''evidence-manifest.json''] (''{}'' @ [LF]) demo_bundle_fs) = Inr ()"
  by code_simp+

lemma demo_bundle_mkdir: "mkdir_parents [''e''] demo_bundle_fs = (Inr (), demo_bundle_fs)"
  by (simp add: mkdir_parents_def mkdir1_def bindW_def demo_bundle_files)

lemma demo_bundle_created:
  "\<exists>fs' e. create_evidence_bundle demo_dumps demo_digest_of demo_found demo_identity demo_suite_commit ''success'' [''e''] demo_bundle_fs
     = (Inr (demo_bundle @ [e]), fs')"
proof -
  have "bundle_identity demo_identity = Inr demo_identity"
    by (simp add: bundle_identity_def demo_identity_def demo_suite_fields)
  moreover have "evidence_relative_path (JStr ''a'') ''evidence file path'' = Inr ''a''" by code_simp
  moreover obtain fs' where "write_text [''e'', ''evidence-manifest.json''] (''{}'' @ [LF]) demo_bundle_fs = (Inr (), fs')"
    using demo_bundle_files(9) by (metis prod.collapse)
  moreover have "ei_source_sha demo_identity = demo_suite_commit" by (simp add: demo_identity_def)
  ultimately show ?thesis
    by (simp add: create_evidence_bundle_def bindW_def Let_def demo_suite_fields BUNDLE_CONCLUSIONS_def demo_bundle_files demo_bundle_mkdir
        demo_found_def MANIFEST_NAME_def serialize_json_def demo_dumps_def demo_bundle_def numeral_2_eq_2)
qed

definition demo_bundle_loads :: "string \<Rightarrow> json result" where
  "demo_bundle_loads s = Inr (JObj demo_bundle)"

theorem bundle_verified_exactly_witness:
  "verify_evidence_bundle demo_bundle_loads demo_dumps demo_digest_of demo_bundle_fs
     (serialize_json demo_dumps (JObj demo_bundle)) [''e''] [[''a'']] [(''artifact_name'', ''scan'')] = Inr demo_bundle
   \<and> verify_evidence_bundle demo_bundle_loads demo_dumps demo_digest_of demo_bundle_fs
       (serialize_json demo_dumps (JObj demo_bundle)) [''e''] [] [] \<noteq> Inr demo_bundle"
proof -
  obtain fs' e where c: "create_evidence_bundle demo_dumps demo_digest_of demo_found demo_identity demo_suite_commit ''success'' [''e'']
      demo_bundle_fs = (Inr (demo_bundle @ [e]), fs')"
    using demo_bundle_created by blast
  have l: "demo_bundle_loads (serialize_json demo_dumps (JObj demo_bundle)) = Inr (JObj demo_bundle)"
    by (simp add: demo_bundle_loads_def)
  have listing: "\<And>fs. distinct (demo_found fs [''e'']) \<and> (\<forall>rel \<in> set (demo_found fs [''e'']). path_names rel)"
    by (simp add: demo_found_def path_names_def)
  obtain es fs1 where k: "mkdir_parents [''e''] demo_bundle_fs = (Inr (), fs1)"
    "map be_path es = map (join_str ''/'') (filter (\<lambda>rel. rel \<noteq> [MANIFEST_NAME] \<and> is_file fs1 ([''e''] @ rel)) (sort (demo_found fs1 [''e''])))"
    "\<forall>e \<in> set es. same_contents demo_digest_of fs1 [''e''] e"
    and x: "\<forall>fs2 dir2 found2 expected.
         verify_evidence_bundle demo_bundle_loads demo_dumps demo_digest_of fs2 (serialize_json demo_dumps (JObj demo_bundle)) dir2 found2 expected
           = Inr demo_bundle \<longleftrightarrow>
           \<not> is_symlink fs2 dir2 \<and> (\<forall>rel \<in> set found2. \<not> is_symlink fs2 (dir2 @ rel))
           \<and> set (map be_path es)
               = {join_str ''/'' rel | rel. rel \<in> set found2 \<and> is_file fs2 (dir2 @ rel) \<and> join_str ''/'' rel \<noteq> MANIFEST_NAME}
           \<and> (\<forall>e \<in> set es. same_contents demo_digest_of fs2 dir2 e)
           \<and> (\<forall>(k, v) \<in> set expected. jhas k (stated_locations demo_bundle) \<and> jget k (stated_locations demo_bundle) = JStr v)"
    using bundle_verified_exactly [where sha = demo_digest_of and found = demo_found and loads = demo_bundle_loads and dumps = demo_dumps
        and m = demo_bundle and i = demo_identity and dir = "[''e'']", OF demo_hex_digest l demo_paths_canonical(1) listing c]
    by (elim exE conjE) (rule that; assumption)
  have fs1: "fs1 = demo_bundle_fs" using k(1) demo_bundle_mkdir by simp
  have p: "map be_path es = [''a'']" using k(2) fs1 by (simp add: demo_found_def demo_bundle_files MANIFEST_NAME_def)
  have s: "jhas ''artifact_name'' (stated_locations demo_bundle)" "jget ''artifact_name'' (stated_locations demo_bundle) = JStr ''scan''"
    by (simp_all add: stated_locations_def demo_bundle_def bundle_manifest_def demo_identity_def)
  have files: "{join_str ''/'' rel | rel. rel \<in> set [[''a'']] \<and> is_file demo_bundle_fs ([''e''] @ rel)
      \<and> join_str ''/'' rel \<noteq> MANIFEST_NAME} = {''a''}"
    by (auto simp: demo_bundle_files MANIFEST_NAME_def)
  have set: "set (map be_path es) = {''a''}" using p by simp
  show ?thesis
    unfolding x [rule_format] set files using s k(3) fs1 by (simp add: demo_bundle_files)
qed

end
