(* ===== verification/Suite_Summary.thy ===== *)
theory Suite_Summary
  imports Suite_Evidence
begin

text \<open>
  The verdict of the security suite, second part of \<open>scripts/security_evidence.py\<close>: the issues of
  the evidence of one child job, the summary over all jobs, and the three commands, which write
  evidence and outputs. \<open>compact\<close> is \<open>json.dumps\<close> with the compact separators.
\<close>

section \<open>The evidence of a child job\<close>

definition CHILD_NAMES :: "string list" where
  "CHILD_NAMES = [''static_lint'', ''filesystem_security'', ''dependency_policy'', ''sast'', ''supply_chain'']"

definition SUITE_JOBS :: "string list" where "SUITE_JOBS = ''profile'' # CHILD_NAMES"

definition CHILD_WORKFLOW_FILES :: "(string \<times> string) list" where
  "CHILD_WORKFLOW_FILES =
     [(''static_lint'', ''.github/workflows/_static-lint.yml''),
      (''filesystem_security'', ''.github/workflows/_security-gate.yml''),
      (''dependency_policy'', ''.github/workflows/_dependency-policy.yml''),
      (''sast'', ''.github/workflows/_sast-gate.yml''),
      (''supply_chain'', ''.github/workflows/_supply-chain-evidence.yml'')]"

definition CHILD_ARTIFACT_NAMES :: "(string \<times> string) list" where
  "CHILD_ARTIFACT_NAMES =
     [(''static_lint'', ''security-suite-static-lint''), (''filesystem_security'', ''security-suite-filesystem''),
      (''dependency_policy'', ''security-suite-dependencies''), (''sast'', ''security-suite-sast''),
      (''supply_chain'', ''security-suite-supply-chain'')]"

definition CHILD_RECORD_FIELDS :: "string list" where
  "CHILD_RECORD_FIELDS =
     [''schema_version'', ''repository'', ''run_id'', ''run_attempt'', ''producer'', ''source_sha'', ''conclusion'',
      ''result'', ''artifact_name'', ''evidence_path'', ''evidence_manifest_path'', ''evidence_present'',
      ''evidence_file_count'', ''evidence_total_bytes'', ''evidence_index_sha256'', ''evidence_sha256'',
      ''artifact_id'', ''artifact_digest'']"

definition issue_if :: "bool \<Rightarrow> string \<Rightarrow> string list" where
  "issue_if b s = (if b then [s] else [])"

text \<open>\<open>try: check  except EvidenceError\<close>; the error of an oversized number is not caught.\<close>

definition refused :: "'a result \<Rightarrow> bool result" where
  "refused r =
     (case r of Inr _ \<Rightarrow> Inr False | Inl e \<Rightarrow> if exc_cls e = EvidenceError then Inr True else Inl e)"

definition identity_issue :: "jobj \<Rightarrow> (string \<times> string) list \<Rightarrow> string \<Rightarrow> string list result" where
  "identity_issue d expected key =
     (let v = jget key d in
      bindE (if key = ''repository'' then refused (evidence_repository v key)
             else if key = ''run_id'' \<or> key = ''run_attempt'' then refused (run_number v key)
             else refused (evidence_sha v key)) (\<lambda>malformed.
      Inr (if malformed then [''malformed_'' @ key]
           else case map_of expected key of
             Some e \<Rightarrow> issue_if (v \<noteq> JStr e) (key @ ''_mismatch'')
           | None \<Rightarrow> [])))"

definition producer_issues :: "string \<Rightarrow> jobj \<Rightarrow> string list" where
  "producer_issues name d =
     (case jget ''producer'' d of
        JObj p \<Rightarrow>
          (case bindE (evidence_repository (jget ''repository'' p) ''producer.repository'') (\<lambda>_.
                bindE (evidence_text (jget ''ref'' p) ''producer.ref'') (\<lambda>_.
                bindE (evidence_sha (jget ''sha'' p) ''producer.sha'') (\<lambda>_.
                  evidence_relative_path (jget ''file'' p) ''producer.file''))) of
             Inl _ \<Rightarrow> [''malformed_producer'']
           | Inr f \<Rightarrow> issue_if (Some f \<noteq> map_of CHILD_WORKFLOW_FILES name) ''producer_file_mismatch'')
      | _ \<Rightarrow> [''malformed_producer''])"

definition outcome_issues :: "jobj \<Rightarrow> string \<Rightarrow> string list" where
  "outcome_issues d job_result =
     (let conclusion = jget ''conclusion'' d; outcome = jget ''result'' d in
      issue_if (\<not> text_in_list BUNDLE_CONCLUSIONS conclusion) ''malformed_conclusion''
      @ issue_if (\<not> text_in_list RESULTS outcome) ''malformed_result''
      @ issue_if (outcome = JStr ''passed'' \<and> conclusion \<noteq> JStr ''success'') ''result_conclusion_mismatch''
      @ issue_if (job_result = ''success'' \<and> outcome \<noteq> JStr ''passed'') ''successful_job_without_passing_evidence''
      @ issue_if ((job_result = ''failure'' \<or> job_result = ''cancelled'') \<and> conclusion \<noteq> JStr job_result)
          ''job_conclusion_mismatch'')"

definition text_matches :: "rx \<Rightarrow> json \<Rightarrow> bool" where
  "text_matches r v = (case v of JStr s \<Rightarrow> fullmatch r s | _ \<Rightarrow> False)"

definition artifact_issues :: "string \<Rightarrow> jobj \<Rightarrow> string list result" where
  "artifact_issues name d =
     bindE (refused (run_number (jget ''artifact_id'' d) ''artifact_id'')) (\<lambda>bad_id. Inr
      (issue_if (\<not> (case (jget ''artifact_name'' d, map_of CHILD_ARTIFACT_NAMES name) of
                       (JStr a, Some b) \<Rightarrow> a = b | _ \<Rightarrow> False)) ''artifact_name_mismatch''
       @ issue_if (case bindE (evidence_relative_path (jget ''evidence_path'' d) ''evidence_path'') (\<lambda>_.
                         evidence_relative_path (jget ''evidence_manifest_path'' d) ''evidence_manifest_path'') of
                      Inl _ \<Rightarrow> True | Inr _ \<Rightarrow> False)
           ''malformed_evidence_path''
       @ issue_if (\<not> text_matches EVIDENCE_SHA256 (jget ''evidence_sha256'' d)) ''malformed_evidence_sha256''
       @ issue_if bad_id ''malformed_artifact_id''
       @ issue_if (\<not> text_matches ARTIFACT_SHA256 (jget ''artifact_digest'' d)) ''malformed_artifact_digest''))"

definition natural :: "json \<Rightarrow> bool" where
  "natural v = (case v of JInt n \<Rightarrow> 0 \<le> n | _ \<Rightarrow> False)"

definition positive :: "json \<Rightarrow> bool" where
  "positive v = (case v of JInt n \<Rightarrow> 0 < n | _ \<Rightarrow> False)"

definition content_issues :: "jobj \<Rightarrow> string list" where
  "content_issues d =
     (let present = jget ''evidence_present'' d; file_count = jget ''evidence_file_count'' d;
          total_bytes = jget ''evidence_total_bytes'' d in
      issue_if (\<not> is_bool present) ''malformed_evidence_present''
      @ (if \<not> natural file_count then [''malformed_evidence_file_count'']
         else issue_if (is_bool present \<and> present \<noteq> JBool (positive file_count)) ''evidence_file_count_mismatch'')
      @ issue_if (\<not> natural total_bytes) ''malformed_evidence_total_bytes''
      @ issue_if (\<not> text_matches EVIDENCE_SHA256 (jget ''evidence_index_sha256'' d)) ''malformed_evidence_index_sha256''
      @ issue_if (jget ''result'' d = JStr ''passed'' \<and> (eq_int file_count 0 \<or> eq_int total_bytes 0))
          ''passing_evidence_has_no_content'')"

definition child_evidence_issues ::
    "string \<Rightarrow> json \<Rightarrow> string \<Rightarrow> (string \<times> string) list \<Rightarrow> string list result" where
  "child_evidence_issues name ev job_result expected =
     (case ev of
        JNull \<Rightarrow> Inr [''missing_record'']
      | JObj d \<Rightarrow>
          bindE (mapE (identity_issue d expected) [''repository'', ''run_id'', ''run_attempt'', ''source_sha'']) (\<lambda>identity.
          bindE (artifact_issues name d) (\<lambda>artifact.
            Inr (issue_if (\<not> eq_int (jget ''schema_version'' d) 1) ''schema_version_mismatch'' @ concat identity
                 @ producer_issues name d @ outcome_issues d job_result @ artifact @ content_issues d)))
      | _ \<Rightarrow> Inr [''malformed_record''])"

section \<open>The summary\<close>

definition PROFILES :: "string list" where
  "PROFILES = [''python'', ''node'', ''compose'', ''infra'', ''monorepo'']"

definition JOB_RESULTS :: "string list" where
  "JOB_RESULTS = [''success'', ''failure'', ''cancelled'', ''skipped'']"

definition job_at :: "(string \<times> string) list \<Rightarrow> string \<Rightarrow> string" where
  "job_at jobs name = (case map_of jobs name of Some r \<Rightarrow> r | None \<Rightarrow> [])"

definition required_jobs :: "string \<Rightarrow> string \<Rightarrow> string list" where
  "required_jobs profile refs =
     [''profile'', ''static_lint'', ''filesystem_security'']
     @ (if List.member [''python'', ''node'', ''monorepo''] profile then [''dependency_policy'', ''sast''] else [])
     @ (if List.member [''compose'', ''infra'', ''monorepo''] profile \<and> py_strip refs \<noteq> [] then [''supply_chain''] else [])"

definition texts :: "string list \<Rightarrow> json" where "texts xs = JArr (map JStr xs)"

record suite_verdict =
  sv_required :: "string list"
  sv_expected_skipped :: "string list"
  sv_unexpectedly_skipped :: "string list"
  sv_blocking :: "string list"

definition suite_verdict_of :: "string \<Rightarrow> string \<Rightarrow> (string \<times> string) list \<Rightarrow> suite_verdict result" where
  "suite_verdict_of profile refs jobs =
     guardE (List.member PROFILES profile) (suite_error ''profile is not allowed'')
     (guardE (set (map fst jobs) = set SUITE_JOBS)
       (suite_error ''suite job results must contain exactly the known jobs'')
     (guardE (list_all (\<lambda>j. List.member JOB_RESULTS (snd j)) jobs) (suite_error ''suite job result is not allowed'')
     (let required = required_jobs profile refs;
          failed = map fst (filter (\<lambda>j. snd j = ''failure'' \<or> snd j = ''cancelled'') jobs);
          required_not_success = filter (\<lambda>n. job_at jobs n \<noteq> ''success'') required in
      Inr \<lparr>sv_required = sort required,
           sv_expected_skipped = sort (map fst (filter (\<lambda>j. snd j = ''skipped'' \<and> \<not> List.member required (fst j)) jobs)),
           sv_unexpectedly_skipped = sort (filter (\<lambda>n. job_at jobs n = ''skipped'') required),
           sv_blocking = sort (remdups (failed @ required_not_success))\<rparr>)))"

definition child_record :: "jobj \<Rightarrow> string \<Rightarrow> json" where
  "child_record d job_result =
     JObj (map (\<lambda>k. (k, jget k d)) CHILD_RECORD_FIELDS @ [(''job_result'', JStr job_result)])"

text \<open>The record kept of a child and its issues\<close>

definition child_result ::
    "(string \<times> string) list \<Rightarrow> string list \<Rightarrow> (string \<times> json) list \<Rightarrow> (string \<times> string) list \<Rightarrow> string
     \<Rightarrow> (json \<times> string list) result" where
  "child_result jobs required ev expected name =
     (let v = jget name ev in
      if job_at jobs name = ''skipped'' \<and> \<not> List.member required name
      then Inr (JNull, issue_if (v \<noteq> JNull) ''skipped_job_has_evidence'')
      else
        bindE (child_evidence_issues name v (job_at jobs name) expected) (\<lambda>issues.
          Inr (case v of JObj d \<Rightarrow> child_record d (job_at jobs name) | _ \<Rightarrow> JNull, issues)))"

definition suite_result :: "suite_verdict \<Rightarrow> (string \<times> json \<times> string list) list \<Rightarrow> string" where
  "suite_result v children =
     (if sv_blocking v = [] \<and> list_all (\<lambda>c. snd (snd c) = []) children then ''passed'' else ''failed'')"

definition suite_summary ::
    "string \<Rightarrow> (string \<times> string) list \<Rightarrow> suite_verdict \<Rightarrow> (string \<times> json \<times> string list) list option \<Rightarrow> jobj" where
  "suite_summary profile jobs v children =
     [(''schema_version'', JInt 2), (''profile'', JStr profile),
      (''jobs'', JObj (map (\<lambda>j. (fst j, JStr (snd j))) jobs)), (''required_jobs'', texts (sv_required v)),
      (''expected_skipped'', texts (sv_expected_skipped v)),
      (''unexpectedly_skipped'', texts (sv_unexpectedly_skipped v)),
      (''result'', JStr (suite_result v (case children of None \<Rightarrow> [] | Some cs \<Rightarrow> cs)))]
     @ (case children of
          None \<Rightarrow> []
        | Some cs \<Rightarrow>
            (''child_evidence'', JObj (map (\<lambda>c. (fst c, fst (snd c))) cs))
            # (let failing = filter (\<lambda>c. snd (snd c) \<noteq> []) cs in
               if failing = [] then []
               else [(''child_evidence_errors'', JObj (map (\<lambda>c. (fst c, texts (snd (snd c)))) failing))]))"

definition summarize_security_suite ::
    "string \<Rightarrow> string \<Rightarrow> (string \<times> string) list \<Rightarrow> (string \<times> json) list option \<Rightarrow> (string \<times> string) list
     \<Rightarrow> jobj result" where
  "summarize_security_suite profile refs jobs children expected =
     bindE (suite_verdict_of profile refs jobs) (\<lambda>v.
     case children of
       None \<Rightarrow> Inr (suite_summary profile jobs v None)
     | Some ev \<Rightarrow>
         bindE (mapE (child_result jobs (required_jobs profile refs) ev expected) (sort CHILD_NAMES)) (\<lambda>rs.
           Inr (suite_summary profile jobs v (Some (zip (sort CHILD_NAMES) rs)))))"

section \<open>The commands\<close>

record suite_env =
  se_loads :: "string \<Rightarrow> json result"
  se_dumps :: "json \<Rightarrow> string"
  se_compact :: "json \<Rightarrow> string"
  se_sha :: "string \<Rightarrow> string"
  se_found :: "fsys \<Rightarrow> string list \<Rightarrow> string list list"

record suite_args =
  sa_identity :: evidence_identity
  sa_expected_source_sha :: string
  sa_manifest_path :: string
  sa_manifest_artifact_path :: string
  sa_github_output :: string

definition file_location :: "fsys \<Rightarrow> string \<Rightarrow> string list" where
  "file_location fs s = parts (absolute fs (parse_path s))"

definition read_optional_file :: "string \<Rightarrow> (fsys, string option) action" where
  "read_optional_file s fs =
     (let p = file_location fs s in
      (if is_dir fs p then Inl eisdir
       else case read_file fs p of
         Inr c \<Rightarrow> Inr (Some c)
       | Inl e \<Rightarrow> if e = enoent then Inr None else Inl e, fs))"

definition write_suite_json :: "suite_env \<Rightarrow> string \<Rightarrow> jobj \<Rightarrow> (fsys, string) action" where
  "write_suite_json env s payload fs =
     (let p = file_location fs s; encoded = serialize_json (se_dumps env) (JObj payload) in
      bindW (mkdir_parents (butlast p)) (\<lambda>_. bindW (write_text p encoded) (\<lambda>_. liftW (Inr encoded))) fs)"

definition output_line :: "string \<times> json \<Rightarrow> string" where
  "output_line nv = fst nv @ ''='' @ (case snd nv of JStr s \<Rightarrow> s | _ \<Rightarrow> []) @ [LF]"

definition write_outputs :: "string \<Rightarrow> (string \<times> json) list \<Rightarrow> (fsys, unit) action" where
  "write_outputs s outputs fs =
     (if s = [] then (Inr (), fs)
      else append_text (file_location fs s) (concat (map output_line outputs)) fs)"

definition args_identity :: "suite_args \<Rightarrow> evidence_identity result" where
  "args_identity a =
     bindE (evidence_sha (JStr (ei_source_sha (sa_identity a))) ''source_sha'') (\<lambda>source_sha.
     bindE (evidence_sha (JStr (sa_expected_source_sha a)) ''expected_source_sha'') (\<lambda>expected.
     guardE (source_sha = expected) (suite_error ''checked-out source SHA does not match caller github.sha'')
       (Inr ((sa_identity a)\<lparr>ei_source_sha := source_sha\<rparr>))))"

definition stated_text :: "string \<Rightarrow> jobj \<Rightarrow> string" where
  "stated_text k d = (case jget k d of JStr s \<Rightarrow> s | _ \<Rightarrow> [])"

definition identity_outputs :: "jobj \<Rightarrow> (string \<times> json) list" where
  "identity_outputs d =
     (let p = producer_of d in
      map (\<lambda>k. (k, jget k d)) [''result'', ''conclusion'', ''repository'', ''run_id'', ''run_attempt'']
      @ [(''producer'', JStr (stated_text ''repository'' p @ ''/'' @ stated_text ''file'' p @ ''@'' @ stated_text ''sha'' p)),
         (''producer_ref'', jget ''ref'' p), (''producer_sha'', jget ''sha'' p), (''source_sha'', jget ''source_sha'' d)])"

definition lower_bool :: "bool \<Rightarrow> json" where
  "lower_bool b = JStr (if b then ''true'' else ''false'')"

definition artifact_manifest_path :: "suite_args \<Rightarrow> json" where
  "artifact_manifest_path a =
     JStr (if sa_manifest_artifact_path a \<noteq> [] then sa_manifest_artifact_path a else sa_manifest_path a)"

definition trivy_command ::
    "suite_env \<Rightarrow> suite_args \<Rightarrow> string \<Rightarrow> string \<Rightarrow> string \<Rightarrow> (fsys, nat) action" where
  "trivy_command env a report_path scan_type scan_outcome =
     bindW (liftW (args_identity a)) (\<lambda>i.
     bindW (read_optional_file report_path) (\<lambda>content.
     let bytes = (if content = Some [] then None else content); present = (bytes \<noteq> None);
         outcome = (if scan_outcome = ''success'' \<and> present then ''passed'' else ''failed'') in
     bindW (liftW (create_evidence_record (se_sha env) i scan_outcome outcome bytes
                     [(''scan_type'', JStr scan_type), (''report_present'', JBool present)])) (\<lambda>d.
     bindW (write_suite_json env (sa_manifest_path a) d) (\<lambda>_.
     bindW (write_outputs (sa_github_output a)
              (identity_outputs d
               @ [(''evidence_path'', if present then jget ''evidence_path'' d else JStr []),
                  (''evidence_sha256'', jget ''evidence_sha256'' d),
                  (''evidence_manifest_path'', artifact_manifest_path a),
                  (''evidence_artifact_name'', jget ''artifact_name'' d), (''report_present'', lower_bool present)])) (\<lambda>_.
       liftW (Inr (if outcome = ''passed'' then 0 else 1)))))))"

definition COMPACT_FIELDS :: "string list" where
  "COMPACT_FIELDS =
     [''schema_version'', ''repository'', ''run_id'', ''run_attempt'', ''producer'', ''source_sha'', ''conclusion'',
      ''result'', ''artifact_name'', ''evidence_path'', ''evidence_manifest_path'', ''evidence_present'',
      ''evidence_file_count'', ''evidence_total_bytes'', ''evidence_index_sha256'', ''evidence_sha256'']"

definition bundle_command :: "suite_env \<Rightarrow> suite_args \<Rightarrow> string \<Rightarrow> string \<Rightarrow> (fsys, nat) action" where
  "bundle_command env a directory job_conclusion =
     bindW (liftW (args_identity a)) (\<lambda>i.
     bindW (\<lambda>fs. create_evidence_bundle (se_dumps env) (se_sha env) (se_found env) i (sa_expected_source_sha a)
                   job_conclusion (file_location fs directory) fs) (\<lambda>d.
     bindW (write_outputs (sa_github_output a)
              (identity_outputs d
               @ map (\<lambda>k. (k, jget k d)) [''evidence_path'', ''evidence_sha256'', ''evidence_manifest_path'']
               @ [(''evidence_artifact_name'', jget ''artifact_name'' d),
                  (''evidence_present'', lower_bool (jget ''evidence_present'' d = JBool True)),
                  (''evidence_record'', JStr (se_compact env (JObj (map (\<lambda>k. (k, jget k d)) COMPACT_FIELDS))))])) (\<lambda>_.
       liftW (Inr (if jget ''result'' d = JStr ''passed'' \<or> job_conclusion \<noteq> ''success'' then 0 else 1)))))"

fun text_values :: "jobj \<Rightarrow> (string \<times> string) list result" where
  "text_values [] = Inr []"
| "text_values ((k, JStr s) # d) = bindE (text_values d) (\<lambda>rest. Inr ((k, s) # rest))"
| "text_values (_ # d) = Inl (suite_error ''suite jobs must be a JSON object of string results'')"

definition suite_jobs :: "suite_env \<Rightarrow> string \<Rightarrow> (string \<times> string) list result" where
  "suite_jobs env raw =
     bindE (except_raise (se_loads env raw) [JSONDecodeError] (suite_error ''suite jobs must be valid JSON'')) (\<lambda>v.
     case v of
       JObj d \<Rightarrow> text_values d
     | _ \<Rightarrow> Inl (suite_error ''suite jobs must be a JSON object of string results''))"

text \<open>\<open>json.loads\<close> where a text that is no JSON, and a document that is no object, count as \<open>{}\<close>\<close>

definition object_or_empty :: "suite_env \<Rightarrow> string \<Rightarrow> jobj result" where
  "object_or_empty env raw =
     (case se_loads env raw of
        Inr (JObj d) \<Rightarrow> Inr d
      | Inr _ \<Rightarrow> Inr []
      | Inl e \<Rightarrow> if exc_cls e = JSONDecodeError then Inr [] else Inl e)"

definition child_output_record :: "suite_env \<Rightarrow> json \<Rightarrow> json result" where
  "child_output_record env v =
     (case v of
        JObj d \<Rightarrow>
          bindE (case jget ''record_json'' d of JStr s \<Rightarrow> object_or_empty env s | _ \<Rightarrow> Inr []) (\<lambda>r.
            Inr (JObj (dict_set ''artifact_digest'' (jget ''artifact_digest'' d)
                      (dict_set ''artifact_id'' (jget ''artifact_id'' d)
                      (dict_set ''evidence_sha256'' (jget ''evidence_sha256'' d) r)))))
      | _ \<Rightarrow> Inr v)"

definition child_evidence_of :: "suite_env \<Rightarrow> string \<Rightarrow> (string \<times> json) list result" where
  "child_evidence_of env raw =
     bindE (object_or_empty env raw) (\<lambda>outputs.
     mapE (\<lambda>n. bindE (child_output_record env (jget n outputs)) (\<lambda>r. Inr (n, r))) CHILD_NAMES)"

definition suite_command ::
    "suite_env \<Rightarrow> suite_args \<Rightarrow> string \<Rightarrow> string \<Rightarrow> string \<Rightarrow> string \<Rightarrow> string \<Rightarrow> (fsys, nat) action" where
  "suite_command env a summary_path profile refs jobs_json child_json =
     bindW (liftW (args_identity a)) (\<lambda>i.
     bindW (liftW (bindE (suite_jobs env jobs_json) (\<lambda>jobs.
                   bindE (child_evidence_of env child_json) (\<lambda>children.
                     summarize_security_suite profile refs jobs (Some children)
                       [(''repository'', ei_repository i), (''run_id'', ei_run_id i),
                        (''run_attempt'', ei_run_attempt i), (''source_sha'', ei_source_sha i)])))) (\<lambda>summary.
     let passed = (jget ''result'' summary = JStr ''passed''); outcome = stated_text ''result'' summary in
     bindW (write_suite_json env summary_path summary) (\<lambda>bytes.
     bindW (liftW (create_evidence_record (se_sha env) i (if passed then ''success'' else ''failure'') outcome (Some bytes)
                     (filter (\<lambda>kv. fst kv \<noteq> ''schema_version'') summary))) (\<lambda>d.
     bindW (write_suite_json env (sa_manifest_path a) d) (\<lambda>_.
     bindW (write_outputs (sa_github_output a)
              (identity_outputs d
               @ [(''evidence_path'', JStr summary_path), (''evidence_sha256'', jget ''evidence_sha256'' d),
                  (''evidence_manifest_path'', artifact_manifest_path a),
                  (''evidence_artifact_name'', jget ''artifact_name'' d)])) (\<lambda>_.
       liftW (Inr (if passed then 0 else 1))))))))"

definition suite_exit :: "nat result \<Rightarrow> nat" where
  "suite_exit r =
     (case r of
        Inr n \<Rightarrow> n
      | Inl e \<Rightarrow> if catches [EvidenceError, OSError] e then 2 else 1)"

section \<open>When the suite passes\<close>

lemma issue_if_Nil [simp]: "issue_if b s = [] \<longleftrightarrow> \<not> b" by (simp add: issue_if_def)

lemma refused_False: "refused r = Inr False \<longleftrightarrow> (\<exists>x. r = Inr x)"
  by (auto simp: refused_def split: sum.splits)

definition accepted :: "'a result \<Rightarrow> bool" where "accepted r \<longleftrightarrow> (\<exists>x. r = Inr x)"

text \<open>A well-formed field that states what is expected of it\<close>

definition states :: "jobj \<Rightarrow> (string \<times> string) list \<Rightarrow> string \<Rightarrow> bool" where
  "states d expected key \<longleftrightarrow>
     (if key = ''repository'' then accepted (evidence_repository (jget key d) key)
      else if key = ''run_id'' \<or> key = ''run_attempt'' then accepted (run_number (jget key d) key)
      else accepted (evidence_sha (jget key d) key))
     \<and> (\<forall>e. map_of expected key = Some e \<longrightarrow> jget key d = JStr e)"

lemma identity_issue_Nil: "identity_issue d expected key = Inr [] \<longleftrightarrow> states d expected key"
proof -
  have m: "(case map_of expected key of Some e \<Rightarrow> issue_if (jget key d \<noteq> JStr e) (key @ ''_mismatch'') | None \<Rightarrow> []) = []
      \<longleftrightarrow> (\<forall>e. map_of expected key = Some e \<longrightarrow> jget key d = JStr e)"
    by (cases "map_of expected key") simp_all
  let ?r = "if key = ''repository'' then refused (evidence_repository (jget key d) key)
             else if key = ''run_id'' \<or> key = ''run_attempt'' then refused (run_number (jget key d) key)
             else refused (evidence_sha (jget key d) key)"
  have r: "?r = Inr False \<longleftrightarrow>
     (if key = ''repository'' then accepted (evidence_repository (jget key d) key)
      else if key = ''run_id'' \<or> key = ''run_attempt'' then accepted (run_number (jget key d) key)
      else accepted (evidence_sha (jget key d) key))"
    by (simp add: refused_False accepted_def)
  have "identity_issue d expected key = Inr [] \<longleftrightarrow> ?r = Inr False
      \<and> (case map_of expected key of Some e \<Rightarrow> issue_if (jget key d \<noteq> JStr e) (key @ ''_mismatch'') | None \<Rightarrow> []) = []"
    unfolding identity_issue_def Let_def bindE_eq_Inr by (auto split: if_splits)
  then show ?thesis unfolding r m states_def by blast
qed

definition producer_states :: "string \<Rightarrow> jobj \<Rightarrow> bool" where
  "producer_states name d \<longleftrightarrow>
     (\<exists>p f. jget ''producer'' d = JObj p \<and> accepted (evidence_repository (jget ''repository'' p) ''producer.repository'')
        \<and> accepted (evidence_text (jget ''ref'' p) ''producer.ref'') \<and> accepted (evidence_sha (jget ''sha'' p) ''producer.sha'')
        \<and> evidence_relative_path (jget ''file'' p) ''producer.file'' = Inr f \<and> map_of CHILD_WORKFLOW_FILES name = Some f)"

lemma producer_issues_Nil: "producer_issues name d = [] \<longleftrightarrow> producer_states name d"
proof (cases "jget ''producer'' d")
  case (JObj p)
  let ?m = "bindE (evidence_repository (jget ''repository'' p) ''producer.repository'') (\<lambda>_.
                bindE (evidence_text (jget ''ref'' p) ''producer.ref'') (\<lambda>_.
                bindE (evidence_sha (jget ''sha'' p) ''producer.sha'') (\<lambda>_.
                  evidence_relative_path (jget ''file'' p) ''producer.file'')))"
  have "producer_issues name d = [] \<longleftrightarrow> (\<exists>f. ?m = Inr f \<and> map_of CHILD_WORKFLOW_FILES name = Some f)"
    using JObj by (cases ?m) (auto simp: producer_issues_def)
  then show ?thesis using JObj by (auto simp: producer_states_def accepted_def bindE_eq_Inr)
qed (simp_all add: producer_issues_def producer_states_def)

text \<open>The record proves that the child job ran for this run and commit and passed with contents.\<close>

definition child_proves :: "(string \<times> string) list \<Rightarrow> string \<Rightarrow> jobj \<Rightarrow> bool" where
  "child_proves expected name d \<longleftrightarrow>
     eq_int (jget ''schema_version'' d) 1
     \<and> (\<forall>k \<in> {''repository'', ''run_id'', ''run_attempt'', ''source_sha''}. states d expected k)
     \<and> producer_states name d
     \<and> jget ''conclusion'' d = JStr ''success'' \<and> jget ''result'' d = JStr ''passed''
     \<and> (\<exists>a. map_of CHILD_ARTIFACT_NAMES name = Some a \<and> jget ''artifact_name'' d = JStr a)
     \<and> accepted (evidence_relative_path (jget ''evidence_path'' d) ''evidence_path'')
     \<and> accepted (evidence_relative_path (jget ''evidence_manifest_path'' d) ''evidence_manifest_path'')
     \<and> accepted (run_number (jget ''artifact_id'' d) ''artifact_id'')
     \<and> text_matches EVIDENCE_SHA256 (jget ''evidence_sha256'' d) \<and> text_matches ARTIFACT_SHA256 (jget ''artifact_digest'' d)
     \<and> text_matches EVIDENCE_SHA256 (jget ''evidence_index_sha256'' d)
     \<and> jget ''evidence_present'' d = JBool True
     \<and> positive (jget ''evidence_file_count'' d) \<and> positive (jget ''evidence_total_bytes'' d)"

lemma outcome_issues_Nil:
  "outcome_issues d ''success'' = [] \<longleftrightarrow> jget ''conclusion'' d = JStr ''success'' \<and> jget ''result'' d = JStr ''passed''"
  by (auto simp: outcome_issues_def Let_def text_in_list_def BUNDLE_CONCLUSIONS_def RESULTS_def)

lemma artifact_issues_Nil:
  "artifact_issues name d = Inr [] \<longleftrightarrow>
     (\<exists>a. map_of CHILD_ARTIFACT_NAMES name = Some a \<and> jget ''artifact_name'' d = JStr a)
     \<and> accepted (evidence_relative_path (jget ''evidence_path'' d) ''evidence_path'')
     \<and> accepted (evidence_relative_path (jget ''evidence_manifest_path'' d) ''evidence_manifest_path'')
     \<and> accepted (run_number (jget ''artifact_id'' d) ''artifact_id'')
     \<and> text_matches EVIDENCE_SHA256 (jget ''evidence_sha256'' d) \<and> text_matches ARTIFACT_SHA256 (jget ''artifact_digest'' d)"
proof -
  let ?n = "case (jget ''artifact_name'' d, map_of CHILD_ARTIFACT_NAMES name) of (JStr a, Some b) \<Rightarrow> a = b | _ \<Rightarrow> False"
  let ?p = "bindE (evidence_relative_path (jget ''evidence_path'' d) ''evidence_path'') (\<lambda>_.
              evidence_relative_path (jget ''evidence_manifest_path'' d) ''evidence_manifest_path'')"
  have n: "?n \<longleftrightarrow> (\<exists>a. map_of CHILD_ARTIFACT_NAMES name = Some a \<and> jget ''artifact_name'' d = JStr a)"
    by (cases "jget ''artifact_name'' d"; cases "map_of CHILD_ARTIFACT_NAMES name") auto
  have p: "\<not> (case ?p of Inl _ \<Rightarrow> True | Inr _ \<Rightarrow> False) \<longleftrightarrow>
      accepted (evidence_relative_path (jget ''evidence_path'' d) ''evidence_path'')
      \<and> accepted (evidence_relative_path (jget ''evidence_manifest_path'' d) ''evidence_manifest_path'')"
    by (cases "evidence_relative_path (jget ''evidence_path'' d) ''evidence_path''";
        cases "evidence_relative_path (jget ''evidence_manifest_path'' d) ''evidence_manifest_path''")
       (auto simp: accepted_def)
  have "artifact_issues name d = Inr [] \<longleftrightarrow> ?n \<and> \<not> (case ?p of Inl _ \<Rightarrow> True | Inr _ \<Rightarrow> False)
      \<and> refused (run_number (jget ''artifact_id'' d) ''artifact_id'') = Inr False
      \<and> text_matches EVIDENCE_SHA256 (jget ''evidence_sha256'' d) \<and> text_matches ARTIFACT_SHA256 (jget ''artifact_digest'' d)"
    unfolding artifact_issues_def bindE_eq_Inr by auto
  then show ?thesis unfolding n p refused_False accepted_def by blast
qed

lemma content_issues_Nil:
  assumes "jget ''result'' d = JStr ''passed''"
  shows "content_issues d = [] \<longleftrightarrow> text_matches EVIDENCE_SHA256 (jget ''evidence_index_sha256'' d)
     \<and> jget ''evidence_present'' d = JBool True
     \<and> positive (jget ''evidence_file_count'' d) \<and> positive (jget ''evidence_total_bytes'' d)"
proof -
  have count: "natural v \<and> \<not> eq_int v 0 \<longleftrightarrow> positive v" for v
    by (cases v) (auto simp: natural_def positive_def)
  have "is_bool v \<and> v = JBool True \<longleftrightarrow> v = JBool True" for v by auto
  moreover have "content_issues d = [] \<longleftrightarrow> is_bool (jget ''evidence_present'' d) \<and> natural (jget ''evidence_file_count'' d)
      \<and> jget ''evidence_present'' d = JBool (positive (jget ''evidence_file_count'' d))
      \<and> natural (jget ''evidence_total_bytes'' d) \<and> text_matches EVIDENCE_SHA256 (jget ''evidence_index_sha256'' d)
      \<and> \<not> eq_int (jget ''evidence_file_count'' d) 0 \<and> \<not> eq_int (jget ''evidence_total_bytes'' d) 0"
    using assms by (auto simp: content_issues_def Let_def)
  ultimately show ?thesis using count by metis
qed

lemma child_issues_Nil:
  "child_evidence_issues name v ''success'' expected = Inr [] \<longleftrightarrow> (\<exists>d. v = JObj d \<and> child_proves expected name d)"
proof (cases v)
  case (JObj d)
  have "child_evidence_issues name v ''success'' expected = Inr [] \<longleftrightarrow>
      (\<exists>identity. mapE (identity_issue d expected) [''repository'', ''run_id'', ''run_attempt'', ''source_sha''] = Inr identity
         \<and> concat identity = [])
      \<and> artifact_issues name d = Inr [] \<and> eq_int (jget ''schema_version'' d) 1
      \<and> producer_issues name d = [] \<and> outcome_issues d ''success'' = [] \<and> content_issues d = []"
    using JObj by (auto simp: child_evidence_issues_def bindE_eq_Inr simp del: mapE.simps)
  moreover have "(\<exists>identity. mapE (identity_issue d expected) [''repository'', ''run_id'', ''run_attempt'', ''source_sha''] = Inr identity
         \<and> concat identity = [])
      \<longleftrightarrow> (\<forall>k \<in> {''repository'', ''run_id'', ''run_attempt'', ''source_sha''}. identity_issue d expected k = Inr [])"
    by (auto simp: bindE_eq_Inr)
  ultimately show ?thesis
    using JObj content_issues_Nil [of d]
    by (auto simp: child_proves_def identity_issue_Nil producer_issues_Nil outcome_issues_Nil artifact_issues_Nil)
qed (simp_all add: child_evidence_issues_def)

lemma verdict_Inr:
  assumes "suite_verdict_of profile refs jobs = Inr v"
  shows "set (map fst jobs) = set SUITE_JOBS \<and> (\<forall>j \<in> set jobs. snd j \<in> set JOB_RESULTS)
    \<and> (sv_blocking v = [] \<longleftrightarrow> (\<forall>j \<in> set jobs. snd j \<noteq> ''failure'' \<and> snd j \<noteq> ''cancelled'')
         \<and> (\<forall>n \<in> set (required_jobs profile refs). job_at jobs n = ''success''))"
proof -
  have empty: "sort xs = [] \<longleftrightarrow> xs = []" for xs :: "string list" by (metis set_empty set_sort)
  from assms have v: "set (map fst jobs) = set SUITE_JOBS" "\<forall>j \<in> set jobs. snd j \<in> set JOB_RESULTS"
    "sv_blocking v = sort (remdups (map fst (filter (\<lambda>j. snd j = ''failure'' \<or> snd j = ''cancelled'') jobs)
        @ filter (\<lambda>n. job_at jobs n \<noteq> ''success'') (required_jobs profile refs)))"
    by (auto simp: suite_verdict_of_def guardE_eq_Inr Let_def list_all_iff)
  then show ?thesis by (auto simp: empty filter_empty_conv)
qed

lemma job_at_mem: "distinct (map fst jobs) \<Longrightarrow> (n, r) \<in> set jobs \<Longrightarrow> job_at jobs n = r"
  by (simp add: job_at_def)

lemma job_results:
  assumes "distinct (map fst jobs)" "set (map fst jobs) = set SUITE_JOBS" "\<forall>j \<in> set jobs. snd j \<in> set JOB_RESULTS"
  shows "(\<forall>j \<in> set jobs. snd j \<noteq> ''failure'' \<and> snd j \<noteq> ''cancelled'')
    \<longleftrightarrow> (\<forall>n \<in> set SUITE_JOBS. job_at jobs n = ''success'' \<or> job_at jobs n = ''skipped'')"
proof
  assume a: "\<forall>j \<in> set jobs. snd j \<noteq> ''failure'' \<and> snd j \<noteq> ''cancelled''"
  show "\<forall>n \<in> set SUITE_JOBS. job_at jobs n = ''success'' \<or> job_at jobs n = ''skipped''"
  proof
    fix n assume "n \<in> set SUITE_JOBS"
    with assms(2) obtain r where r: "(n, r) \<in> set jobs" by (metis in_set_zipE prod.collapse imageE list.set_map)
    then show "job_at jobs n = ''success'' \<or> job_at jobs n = ''skipped''"
      using a assms(3) job_at_mem [OF assms(1) r] by (fastforce simp: JOB_RESULTS_def)
  qed
next
  assume a: "\<forall>n \<in> set SUITE_JOBS. job_at jobs n = ''success'' \<or> job_at jobs n = ''skipped''"
  show "\<forall>j \<in> set jobs. snd j \<noteq> ''failure'' \<and> snd j \<noteq> ''cancelled''"
  proof
    fix j assume j: "j \<in> set jobs"
    then have "fst j \<in> set SUITE_JOBS" using assms(2) by auto
    moreover have "job_at jobs (fst j) = snd j" using job_at_mem [OF assms(1)] j by (cases j) simp
    ultimately show "snd j \<noteq> ''failure'' \<and> snd j \<noteq> ''cancelled''" using a by force
  qed
qed

lemma children_clean:
  assumes "mapE f names = Inr rs"
  shows "list_all (\<lambda>c. snd (snd c) = []) (zip names rs) \<longleftrightarrow> (\<forall>n \<in> set names. \<exists>r. f n = Inr (r, []))"
proof -
  from assms have "list_all2 (\<lambda>n r. f n = Inr r) names rs" by (simp add: mapE_eq_Inr_iff)
  then show ?thesis by (induction rule: list_all2_induct) auto
qed

lemma child_result_clean:
  assumes "job_at jobs n = ''success'' \<or> job_at jobs n = ''skipped''"
    and "n \<in> set required \<Longrightarrow> job_at jobs n = ''success''"
  shows "(\<exists>r. child_result jobs required ev expected n = Inr (r, [])) \<longleftrightarrow>
     (if job_at jobs n = ''success'' then \<exists>d. jget n ev = JObj d \<and> child_proves expected n d else jget n ev = JNull)"
proof (cases "job_at jobs n = ''success''")
  case True
  then have "(\<exists>r. child_result jobs required ev expected n = Inr (r, []))
      \<longleftrightarrow> child_evidence_issues n (jget n ev) ''success'' expected = Inr []"
    by (auto simp: child_result_def Let_def bindE_eq_Inr)
  then show ?thesis using True by (simp add: child_issues_Nil)
next
  case False
  then have "job_at jobs n = ''skipped''" "n \<notin> set required" using assms by auto
  then show ?thesis by (auto simp: child_result_def Let_def issue_if_def)
qed

text \<open>
  C40: A suite whose child evidence is given is reported as passed exactly if every job required
  for the profile succeeded, no job failed or was cancelled, and every child job that ran has a
  record which proves it: of this repository, run and commit, produced by the workflow and under
  the artifact name of that job, with a successful conclusion, a passing result, well-formed
  digests and at least one non-empty file; and a skipped job has no record.
\<close>

theorem suite_passed_iff:
  assumes "summarize_security_suite profile refs jobs (Some ev) expected = Inr s" and "distinct (map fst jobs)"
  shows "jget ''result'' s = JStr ''passed'' \<longleftrightarrow>
     (\<forall>n \<in> set (required_jobs profile refs). job_at jobs n = ''success'')
     \<and> (\<forall>n \<in> set SUITE_JOBS. job_at jobs n = ''success'' \<or> job_at jobs n = ''skipped'')
     \<and> (\<forall>n \<in> set CHILD_NAMES. if job_at jobs n = ''success'' then \<exists>d. jget n ev = JObj d \<and> child_proves expected n d
          else jget n ev = JNull)"
proof -
  let ?req = "required_jobs profile refs"
  from assms(1) obtain v rs where h: "suite_verdict_of profile refs jobs = Inr v"
    "mapE (child_result jobs ?req ev expected) (sort CHILD_NAMES) = Inr rs"
    "s = suite_summary profile jobs v (Some (zip (sort CHILD_NAMES) rs))"
    by (auto simp: summarize_security_suite_def bindE_eq_Inr)
  note j = verdict_Inr [OF h(1)]
  have "jget ''result'' s = JStr (suite_result v (zip (sort CHILD_NAMES) rs))"
    by (simp add: h(3) suite_summary_def)
  then have "jget ''result'' s = JStr ''passed'' \<longleftrightarrow>
      sv_blocking v = [] \<and> (\<forall>n \<in> set CHILD_NAMES. \<exists>r. child_result jobs ?req ev expected n = Inr (r, []))"
    using children_clean [OF h(2)] by (simp add: suite_result_def)
  moreover have "sv_blocking v = [] \<longleftrightarrow> (\<forall>n \<in> set ?req. job_at jobs n = ''success'')
      \<and> (\<forall>n \<in> set SUITE_JOBS. job_at jobs n = ''success'' \<or> job_at jobs n = ''skipped'')"
    using j job_results [OF assms(2)] by blast
  moreover have "(\<forall>n \<in> set CHILD_NAMES. \<exists>r. child_result jobs ?req ev expected n = Inr (r, []))
      \<longleftrightarrow> (\<forall>n \<in> set CHILD_NAMES. if job_at jobs n = ''success'' then \<exists>d. jget n ev = JObj d \<and> child_proves expected n d
             else jget n ev = JNull)"
    if "\<forall>n \<in> set ?req. job_at jobs n = ''success''"
      "\<forall>n \<in> set SUITE_JOBS. job_at jobs n = ''success'' \<or> job_at jobs n = ''skipped''"
  proof (rule ball_cong [OF refl])
    fix n assume "n \<in> set CHILD_NAMES"
    then have "job_at jobs n = ''success'' \<or> job_at jobs n = ''skipped''" using that(2) by (simp add: SUITE_JOBS_def)
    moreover have "n \<in> set ?req \<Longrightarrow> job_at jobs n = ''success''" using that(1) by blast
    ultimately show "(\<exists>r. child_result jobs ?req ev expected n = Inr (r, [])) \<longleftrightarrow>
       (if job_at jobs n = ''success'' then \<exists>d. jget n ev = JObj d \<and> child_proves expected n d else jget n ev = JNull)"
      by (rule child_result_clean)
  qed
  ultimately show ?thesis by argo
qed

section \<open>A concrete suite\<close>

definition demo_suite_jobs :: "(string \<times> string) list" where
  "demo_suite_jobs =
     [(''profile'', ''success''), (''static_lint'', ''success''), (''filesystem_security'', ''success''),
      (''dependency_policy'', ''skipped''), (''sast'', ''skipped''), (''supply_chain'', ''skipped'')]"

definition demo_child :: "string \<Rightarrow> string \<Rightarrow> jobj" where
  "demo_child workflow artifact =
     [(''schema_version'', JInt 1), (''repository'', JStr ''o/r''), (''run_id'', JStr ''7''), (''run_attempt'', JStr ''1''),
      (''producer'', JObj [(''repository'', JStr ''o/a''), (''ref'', JStr ''v1''), (''sha'', JStr demo_suite_commit),
         (''file'', JStr workflow)]),
      (''source_sha'', JStr demo_suite_commit), (''conclusion'', JStr ''success''), (''result'', JStr ''passed''),
      (''artifact_name'', JStr artifact), (''evidence_path'', JStr ''r''), (''evidence_manifest_path'', JStr ''m''),
      (''evidence_present'', JBool True), (''evidence_file_count'', JInt 1), (''evidence_total_bytes'', JInt 2),
      (''evidence_index_sha256'', JStr (demo_digest_of [])), (''evidence_sha256'', JStr (demo_digest_of [])),
      (''artifact_id'', JInt 3), (''artifact_digest'', JStr (demo_digest_of []))]"

definition demo_suite_children :: "(string \<times> json) list" where
  "demo_suite_children =
     [(''static_lint'', JObj (demo_child ''.github/workflows/_static-lint.yml'' ''security-suite-static-lint'')),
      (''filesystem_security'', JObj (demo_child ''.github/workflows/_security-gate.yml'' ''security-suite-filesystem''))]"

definition demo_expected :: "(string \<times> string) list" where
  "demo_expected = [(''repository'', ''o/r''), (''source_sha'', demo_suite_commit)]"

lemma demo_child_digests:
  "fullmatch EVIDENCE_SHA256 (demo_digest_of [])" "fullmatch ARTIFACT_SHA256 (demo_digest_of [])"
  unfolding demo_digest_of_def by code_simp+

lemma demo_child_id: "run_number (JInt 3) ''artifact_id'' = Inr ''3''" by code_simp

lemma demo_child_producer:
  "evidence_repository (JStr ''o/a'') ''producer.repository'' = Inr ''o/a''"
  "evidence_text (JStr ''v1'') ''producer.ref'' = Inr ''v1''"
  "evidence_sha (JStr demo_suite_commit) ''producer.sha'' = Inr demo_suite_commit"
  unfolding demo_suite_commit_def by code_simp+

lemma demo_child_paths:
  "evidence_relative_path (JStr ''r'') ''evidence_path'' = Inr ''r''"
  "evidence_relative_path (JStr ''m'') ''evidence_manifest_path'' = Inr ''m''"
  "evidence_relative_path (JStr ''.github/workflows/_static-lint.yml'') ''producer.file'' = Inr ''.github/workflows/_static-lint.yml''"
  "evidence_relative_path (JStr ''.github/workflows/_security-gate.yml'') ''producer.file'' = Inr ''.github/workflows/_security-gate.yml''"
  by code_simp+

lemma demo_child_proves:
  assumes "map_of CHILD_WORKFLOW_FILES name = Some w" "map_of CHILD_ARTIFACT_NAMES name = Some a"
    and "evidence_relative_path (JStr w) ''producer.file'' = Inr w"
  shows "child_proves demo_expected name (demo_child w a)"
  using assms
  by (simp add: child_proves_def producer_states_def states_def demo_child_def demo_expected_def accepted_def text_matches_def
      positive_def demo_child_digests demo_child_id demo_suite_fields demo_child_producer demo_child_paths)

lemma demo_child_clean:
  "child_evidence_issues ''static_lint'' (jget ''static_lint'' demo_suite_children) ''success'' demo_expected = Inr []"
  "child_evidence_issues ''filesystem_security'' (jget ''filesystem_security'' demo_suite_children) ''success'' demo_expected = Inr []"
  unfolding child_issues_Nil
  by (auto simp: demo_suite_children_def CHILD_WORKFLOW_FILES_def CHILD_ARTIFACT_NAMES_def demo_child_paths intro!: demo_child_proves)

lemma demo_suite:
  "\<exists>s. summarize_security_suite ''compose'' [] demo_suite_jobs (Some demo_suite_children) demo_expected = Inr s"
proof -
  have "suite_verdict_of ''compose'' [] demo_suite_jobs \<noteq> Inl e" for e
    by (auto simp: suite_verdict_of_def demo_suite_jobs_def PROFILES_def SUITE_JOBS_def CHILD_NAMES_def JOB_RESULTS_def
        guardE_def Let_def)
  then obtain v where v: "suite_verdict_of ''compose'' [] demo_suite_jobs = Inr v"
    by (cases "suite_verdict_of ''compose'' [] demo_suite_jobs") auto
  have r: "required_jobs ''compose'' [] = [''profile'', ''static_lint'', ''filesystem_security'']"
    by (simp add: required_jobs_def)
  have n: "sort CHILD_NAMES = [''dependency_policy'', ''filesystem_security'', ''sast'', ''static_lint'', ''supply_chain'']"
    by code_simp
  have j: "job_at demo_suite_jobs ''static_lint'' = ''success''" "job_at demo_suite_jobs ''filesystem_security'' = ''success''"
    "job_at demo_suite_jobs ''dependency_policy'' = ''skipped''" "job_at demo_suite_jobs ''sast'' = ''skipped''"
    "job_at demo_suite_jobs ''supply_chain'' = ''skipped''"
    by (simp_all add: job_at_def demo_suite_jobs_def)
  show ?thesis
    by (simp add: summarize_security_suite_def v r n child_result_def Let_def j demo_child_clean)
qed

theorem suite_passed_iff_witness:
  "\<exists>s. summarize_security_suite ''compose'' [] demo_suite_jobs (Some demo_suite_children) demo_expected = Inr s
     \<and> jget ''result'' s = JStr ''passed''"
proof -
  obtain s where s: "summarize_security_suite ''compose'' [] demo_suite_jobs (Some demo_suite_children) demo_expected = Inr s"
    using demo_suite by blast
  have d: "distinct (map fst demo_suite_jobs)" by (simp add: demo_suite_jobs_def)
  have "\<forall>n \<in> set (required_jobs ''compose'' []). job_at demo_suite_jobs n = ''success''"
    "\<forall>n \<in> set SUITE_JOBS. job_at demo_suite_jobs n = ''success'' \<or> job_at demo_suite_jobs n = ''skipped''"
    by (auto simp: required_jobs_def job_at_def demo_suite_jobs_def SUITE_JOBS_def CHILD_NAMES_def)
  moreover have "\<forall>n \<in> set CHILD_NAMES. if job_at demo_suite_jobs n = ''success''
      then \<exists>d. jget n demo_suite_children = JObj d \<and> child_proves demo_expected n d else jget n demo_suite_children = JNull"
    using demo_child_clean unfolding child_issues_Nil
    by (auto simp: CHILD_NAMES_def job_at_def demo_suite_jobs_def demo_suite_children_def)
  ultimately have "jget ''result'' s = JStr ''passed''" using suite_passed_iff [OF s d] by blast
  then show ?thesis using s by blast
qed

end
