(* ===== verification/Spec2Isabelle.thy ===== *)
theory Spec2Isabelle
  imports Delivery_Adapters Rollback Remediation_Window Network_Retry Retry_Decision
    Security_Baseline Snapshot_Retention Env_Writer Publisher_Set Validation Volume_Contract Suite_Summary
begin

text \<open>
  A model of the Python core of \<open>optimizr-actions\<close>, the reusable actions that gate, deploy and
  roll back services, with the properties that make it correct.

  \<^bold>\<open>Shared theories.\<close> \<open>Prelude\<close>: exceptions as values (\<open>Exc\<close> with the class and the message), the
  error monad \<open>bindE\<close>/\<open>guardE\<close>, actions that also return the state (\<open>bindW\<close>), dictionaries as
  association lists. \<open>PyText\<close>, \<open>PyRegex\<close>, \<open>PyTime\<close>, \<open>Json\<close>: the parts of the Python library the
  sources use: text operations, regular expressions with a matcher proved equal to the
  relation \<open>mtch\<close>, dates and instants, JSON values. \<open>FileSystem\<close>: a partial map from canonical
  paths to nodes with the resolution of links, and the locale \<open>confined_guard\<close>, the contract
  of every check that keeps a path below a root; \<open>FileOutput\<close>: creating directories and
  replacing files; \<open>World\<close>: the state the delivery acts on (file system, archives, clock,
  locks held).

  \<^bold>\<open>Delivery\<close> (\<open>scripts/delivery\<close>). \<open>Request\<close> is \<open>request.py\<close>: the fields of a deployment
  request and its loader. \<open>Gate_Evidence\<close> is \<open>gate_evidence.py\<close>: the fail-closed decision over
  gate evidence. \<open>Snapshot_Sync\<close> is \<open>snapshot_sync.py\<close> (rsync and the snapshot archive),
  \<open>Checkout\<close> is \<open>checkout.py\<close> (the exact-commit checkout), \<open>Delivery_Lock\<close> is \<open>lock.py\<close> (the
  service lock as a polling loop on the monotonic clock). \<open>Executor\<close> is \<open>executor.py\<close>, which runs
  checkout, preflight gates, synchronisation and postflight gates under the lock, and
  \<open>Delivery_Adapters\<close> is \<open>plan.py\<close>, \<open>ci.py\<close> and \<open>manual.py\<close>, the two ways to reach it.
  \<open>Delivery_Manifest\<close> is \<open>manifest.py\<close>, which records a result, and \<open>Rollback\<close> is \<open>rollback.py\<close>,
  which turns such a record into a rollback plan; \<open>record_then_rollback\<close> composes the two.
  \<open>Snapshot_Retention\<close> is the pruning of the snapshots. \<open>Env_Writer\<close> is
  \<open>scripts/env_writer/runner.py\<close>, which writes the environment file of a service.
  \<open>Deploy_Record\<close> is \<open>scripts/deploy_manifest\<close>, the record of a deployment on its host and its
  decoration with the verdict of the security retry. \<open>Volume_Contract\<close> is
  \<open>scripts/deploy/volume_probe_contract.py\<close>, which creates the authorised Docker volumes of a
  deployment and probes them in verified containers; its state logs every Docker command, and
  \<open>extends_log\<close> is a small logic of what a run appends to that log. \<open>Validation\<close> is
  \<open>scripts/validation_attestation\<close> and \<open>scripts/validation_authorization\<close>, the attestation of
  one commit and the authorisation that consumes it.

  \<^bold>\<open>Security gate\<close> (\<open>scripts/security_gate\<close>). \<open>Security_Common\<close>: what the modules share.
  \<open>Security_Summary\<close> is \<open>classifications.py\<close>, \<open>report.py\<close> and \<open>aggregate.py\<close>;
  \<open>Security_Baseline\<close> is \<open>baseline.py\<close>; \<open>Remediation_Lifecycle\<close> and \<open>Remediation_Window\<close> are the
  modules of these names, with the review state machine as an inductive step relation;
  \<open>Window_Run\<close> is the rest of \<open>remediation_window.py\<close>, its commands and files.
  \<open>Window_Contract\<close> is \<open>remediation_window_contract.py\<close> and \<open>validate_candidate_exceptions.py\<close>
  of \<open>scripts/container_release\<close>, where the publisher decides on a promotion.
  \<open>Exception_Policy\<close> is \<open>evidence.py\<close>: the reviewed exceptions, validated for a complete set of
  images, rendered for one target and applied to a report, and the records of a scan;
  \<open>Publisher_Set\<close> is \<open>scripts/container_release/validate_publisher_exception_set.py\<close>, which
  checks the whole set of images of a release against its fragments and policies.
  \<open>Suite_Evidence\<close> and \<open>Suite_Summary\<close> are \<open>scripts/security_evidence.py\<close>: records and bundles
  of evidence and their verification, and the verdict of the suite over its jobs.
  \<open>Retry_Decision\<close> is the action \<open>security-retry-result\<close>. \<open>Network_Retry\<close> is
  \<open>scripts/container_release/retry_network.py\<close>.

  \<^bold>\<open>What the lemmas show.\<close> Of a delivery: nothing is synchronised after a refused preflight,
  readiness means every required gate passed, the lock is exclusive and given back on every
  exit, a failed checkout leaves nothing behind, a snapshot precedes every write. Of requests
  and plans: what is accepted is confined, canonical and bound to one commit. Of the record:
  it is written once, says what the result says, and is a rollback target for exactly its
  service and commit. Of the security gate: counts are exact and no finding is dropped, a
  baseline or a remediation window covers only what was reviewed and is still valid, a
  promotion is authorised exactly for an image bound to its commit that passed or whose every
  finding a window covers, a remediated candidate passes only if its images changed, a final set
  is published only under policies valid for all of it, evidence verifies exactly against the contents it
  was made of, and a suite passes only if every required job ran and its evidence proves it.
  Of retries and retention: attempts, sleeps, counts and bytes are bounded, and what is newest is
  kept.

  \<^bold>\<open>Bounds.\<close> Recursions are structural or have a measure; there is no fuel. A chain of
  more than \<open>link_limit\<close> (40) links counts as a loop, and \<open>walk_plain\<close> shows that link-free
  paths do not depend on it. The lock loop is bounded by the time allowed, the retry loop by
  5 attempts and 210 seconds.

  \<^bold>\<open>Conventions.\<close> A character is a Latin-1 code point; \<open>\d\<close> in a pattern is an ASCII digit. A
  finite float is a rational. \<open>isinstance\<close> checks are the types of the arguments, unless the
  value comes from a JSON document. Paths are POSIX paths. \<open>strftime\<close> pads years to four
  digits.

  \<^bold>\<open>Parameters.\<close> Code outside the repository is an argument: \<open>json.loads\<close>, \<open>json.dumps\<close> and
  the text of floats and containers, git, rsync and the other subprocesses, the gate runners,
  Docker, the clock, the directory listing, which archive or manifest writes fail, and whether
  the mode of a lock file can be set.

  \<^bold>\<open>Not modelled.\<close> The argparse entry points (they read arguments, call the functions above and
  print), permissions and ownership of files otherwise, the workflow and action YAML, the shell and
  PowerShell scripts, and the remaining scripts the manifest lists.
\<close>

end
